(* ===== verification/Prelude.thy ===== *)
theory Prelude
  imports Main "HOL-Library.Word" "HOL-Library.List_Lexorder" "HOL-Library.Char_ord"
begin

text \<open>
  The prelude of the development: the machine integers, byte strings and ordered
  maps the components share, with the lemmas about them, the collections the
  component proofs draw on, and the contract of a tolerant event fold.
\<close>

section \<open>Collections of facts\<close>

named_theorems op_defs \<open>definitions of single operations, unfolded by the proofs about them\<close>
named_theorems inv_defs \<open>definitions of the state invariants\<close>
named_theorems table_simps \<open>evaluation of the constant tables of the program\<close>

section \<open>Machine integers\<close>

type_synonym u8 = "8 word"
type_synonym u16 = "16 word"
type_synonym u32 = "32 word"
type_synonym u64 = "64 word"

text \<open>Rust's \<open>saturating_add\<close>: the sum, or the largest value of the type.\<close>

definition sat_add :: "'a::len word \<Rightarrow> 'a word \<Rightarrow> 'a word" where
  "sat_add a b = (if unat a + unat b < 2 ^ LENGTH('a) then a + b else - 1)"

lemma unat_sat_add:
  "unat (sat_add (a :: 'a::len word) b) = min (unat a + unat b) (2 ^ LENGTH('a) - 1)"
  by (auto simp: sat_add_def unat_word_ariths unsigned_minus_1_eq_mask mask_eq_exp_minus_1 min_def)

lemma sat_add_mono: "a \<le> sat_add a b"
proof -
  have "unat a < 2 ^ LENGTH('a)" by (rule unsigned_less)
  then have "unat a \<le> 2 ^ LENGTH('a) - 1" by linarith
  then have "unat a \<le> unat (sat_add a b)" by (simp add: unat_sat_add)
  then show ?thesis by (simp add: word_le_nat_alt)
qed

text \<open>\<open>saturating_sub\<close> and \<open>saturating_mul\<close>.\<close>

definition sat_sub :: "'a::len word \<Rightarrow> 'a word \<Rightarrow> 'a word" where
  "sat_sub a b = (if b \<le> a then a - b else 0)"

definition sat_mul :: "'a::len word \<Rightarrow> 'a word \<Rightarrow> 'a word" where
  "sat_mul a b = (if unat a * unat b < 2 ^ LENGTH('a) then a * b else - 1)"

lemma unat_sat_sub: "unat (sat_sub a b) = unat a - unat b"
  by (auto simp: sat_sub_def unat_sub word_le_nat_alt)

lemma unat_le_max: "unat (a :: 'a::len word) \<le> 2 ^ LENGTH('a) - 1"
proof -
  have "unat a < 2 ^ LENGTH('a)" by (rule unsigned_less)
  then show ?thesis by linarith
qed

lemma unat_sat_mul:
  "unat (sat_mul (a :: 'a::len word) b) = min (unat a * unat b) (2 ^ LENGTH('a) - 1)"
proof (cases "unat a * unat b < 2 ^ LENGTH('a)")
  case True
  then have "unat a * unat b \<le> 2 ^ LENGTH('a) - 1" by linarith
  with True show ?thesis by (simp add: sat_mul_def unat_word_ariths min_absorb1)
next
  case False
  then have "2 ^ LENGTH('a) - 1 \<le> unat a * unat b" by linarith
  with False show ?thesis
    by (simp add: sat_mul_def unsigned_minus_1_eq_mask mask_eq_exp_minus_1 min_absorb2)
qed

section \<open>Results\<close>

text \<open>A fallible function returns \<open>Inl\<close> of its error or \<open>Inr\<close> of its value; \<open>?\<close> is this bind.\<close>

definition rbind :: "'e + 'a \<Rightarrow> ('a \<Rightarrow> 'e + 'b) \<Rightarrow> 'e + 'b" where
  "rbind r f = (case r of Inl e \<Rightarrow> Inl e | Inr a \<Rightarrow> f a)"

lemma rbind_Inl [simp]: "rbind (Inl e) f = Inl e"
  by (simp add: rbind_def)

lemma rbind_Inr [simp]: "rbind (Inr a) f = f a"
  by (simp add: rbind_def)

lemma rbind_eq_Inr [simp]: "rbind r f = Inr b \<longleftrightarrow> (\<exists>a. r = Inr a \<and> f a = Inr b)"
  by (cases r) auto

lemma rbind_eq_Inl: "rbind r f = Inl e \<longleftrightarrow> r = Inl e \<or> (\<exists>a. r = Inr a \<and> f a = Inl e)"
  by (cases r) auto

text \<open>\<open>ok_if c e\<close> is the guard \<open>if !c { return Err(e) }\<close>.\<close>

definition ok_if :: "bool \<Rightarrow> 'e \<Rightarrow> 'e + unit" where
  "ok_if c e = (if c then Inr () else Inl e)"

lemma ok_if_eq_Inr [simp]: "ok_if c e = Inr u \<longleftrightarrow> c"
  by (simp add: ok_if_def)

lemma ok_if_True [simp]: "ok_if True e = Inr ()"
  by (simp add: ok_if_def)

lemma ok_if_False [simp]: "ok_if False e = Inl e"
  by (simp add: ok_if_def)

text \<open>\<open>transpose\<close> of an optional fallible step.\<close>

definition opt_try :: "('a \<Rightarrow> 'e + 'b) \<Rightarrow> 'a option \<Rightarrow> 'e + 'b option" where
  "opt_try f x = (case x of None \<Rightarrow> Inr None | Some a \<Rightarrow> rbind (f a) (\<lambda>b. Inr (Some b)))"

lemma find_Some_in: "find P xs = Some x \<Longrightarrow> x \<in> set xs \<and> P x"
  by (induction xs) (auto split: if_splits)

lemma opt_try_None [simp]: "opt_try f None = Inr None"
  by (simp add: opt_try_def)

lemma opt_try_Some [simp]: "opt_try f (Some a) = rbind (f a) (\<lambda>b. Inr (Some b))"
  by (simp add: opt_try_def)

section \<open>Strings\<close>

text \<open>
  A Rust \<open>String\<close> is its UTF-8 bytes, one \<open>char\<close> each: \<open>length\<close> is \<open>len()\<close>, and
  \<open>chars().count()\<close> counts the bytes that do not continue a code point.
\<close>

definition is_continuation :: "char \<Rightarrow> bool" where
  "is_continuation c = (128 \<le> (of_char c :: nat) \<and> (of_char c :: nat) < 192)"

definition chars_count :: "string \<Rightarrow> nat" where
  "chars_count s = length (filter (\<lambda>c. \<not> is_continuation c) s)"

lemma chars_count_le_length: "chars_count s \<le> length s"
  by (simp add: chars_count_def)

fun starts_with :: "string \<Rightarrow> string \<Rightarrow> bool" where
  "starts_with s [] = True"
| "starts_with [] (p # ps) = False"
| "starts_with (c # s) (p # ps) = (c = p \<and> starts_with s ps)"

definition strip_prefix :: "string \<Rightarrow> string \<Rightarrow> string option" where
  "strip_prefix p s = (if starts_with s p then Some (drop (length p) s) else None)"

lemma starts_with_iff: "starts_with s p \<longleftrightarrow> (\<exists>r. s = p @ r)"
  by (induction s p rule: starts_with.induct) auto

lemma starts_with_refl [simp]: "starts_with s s"
  by (simp add: starts_with_iff)

text \<open>The UTF-8 encodings of the code points with the property \<open>White_Space\<close>.\<close>

definition ws_seqs :: "string list" where
  "ws_seqs = [
     [CHR 0x09], [CHR 0x0A], [CHR 0x0B], [CHR 0x0C], [CHR 0x0D], [CHR 0x20], [CHR 0xC2, CHR 0x85],
     [CHR 0xC2, CHR 0xA0], [CHR 0xE1, CHR 0x9A, CHR 0x80], [CHR 0xE2, CHR 0x80, CHR 0x80],
     [CHR 0xE2, CHR 0x80, CHR 0x81], [CHR 0xE2, CHR 0x80, CHR 0x82],
     [CHR 0xE2, CHR 0x80, CHR 0x83], [CHR 0xE2, CHR 0x80, CHR 0x84],
     [CHR 0xE2, CHR 0x80, CHR 0x85], [CHR 0xE2, CHR 0x80, CHR 0x86],
     [CHR 0xE2, CHR 0x80, CHR 0x87], [CHR 0xE2, CHR 0x80, CHR 0x88],
     [CHR 0xE2, CHR 0x80, CHR 0x89], [CHR 0xE2, CHR 0x80, CHR 0x8A],
     [CHR 0xE2, CHR 0x80, CHR 0xA8], [CHR 0xE2, CHR 0x80, CHR 0xA9],
     [CHR 0xE2, CHR 0x80, CHR 0xAF], [CHR 0xE2, CHR 0x81, CHR 0x9F],
     [CHR 0xE3, CHR 0x80, CHR 0x80]]"

text \<open>Drop every leading element of \<open>seqs\<close>; each step drops at least one byte.\<close>

fun strip_one :: "string list \<Rightarrow> string \<Rightarrow> string option" where
  "strip_one [] s = None"
| "strip_one (w # ws) s =
     (if w \<noteq> [] \<and> starts_with s w then Some (drop (length w) s) else strip_one ws s)"

lemma strip_one_shorter: "strip_one ws s = Some t \<Longrightarrow> length t < length s"
  by (induction ws) (auto simp: starts_with_iff split: if_splits)

function strip_all :: "string list \<Rightarrow> string \<Rightarrow> string" where
  "strip_all ws s = (case strip_one ws s of None \<Rightarrow> s | Some t \<Rightarrow> strip_all ws t)"
  by pat_completeness auto
termination
  by (relation "measure (\<lambda>(ws, s). length s)") (auto simp: strip_one_shorter)

declare strip_all.simps [simp del]

definition trim :: "string \<Rightarrow> string" where
  "trim s = rev (strip_all (map rev ws_seqs) (rev (strip_all ws_seqs s)))"

lemma strip_all_le: "length (strip_all ws s) \<le> length s"
proof (induction ws s rule: strip_all.induct)
  case (1 ws s)
  then show ?case
    by (subst strip_all.simps) (fastforce split: option.split dest: strip_one_shorter)
qed

lemma strip_one_strip_all [simp]: "strip_one ws (strip_all ws s) = None"
proof (induction ws s rule: strip_all.induct)
  case (1 ws s)
  then show ?case
    by (subst strip_all.simps) (auto split: option.split)
qed

lemma length_trim: "length (trim s) \<le> length s"
  using strip_all_le [of "map rev ws_seqs" "rev (strip_all ws_seqs s)"] strip_all_le [of ws_seqs s]
  by (simp add: trim_def)

lemma trim_empty [simp]: "trim [] = []"
  using length_trim [of "[]"] by simp

text \<open>ASCII case folding (\<open>to_ascii_lowercase\<close>).\<close>

definition ascii_lower_char :: "char \<Rightarrow> char" where
  "ascii_lower_char c = (if 65 \<le> (of_char c :: nat) \<and> (of_char c :: nat) \<le> 90
     then char_of ((of_char c :: nat) + 32) else c)"

definition to_ascii_lowercase :: "string \<Rightarrow> string" where
  "to_ascii_lowercase s = map ascii_lower_char s"

lemma length_to_ascii_lowercase [simp]: "length (to_ascii_lowercase s) = length s"
  by (simp add: to_ascii_lowercase_def)

lemma ascii_lower_idem [simp]: "ascii_lower_char (ascii_lower_char c) = ascii_lower_char c"
  by (auto simp: ascii_lower_char_def)

lemma to_ascii_lowercase_idem [simp]: "to_ascii_lowercase (to_ascii_lowercase s) = to_ascii_lowercase s"
  by (simp add: to_ascii_lowercase_def)

text \<open>A string that neither begins nor ends with white space is its own trimming.\<close>

lemma strip_one_None:
  assumes "\<forall>w \<in> set ws. w \<noteq> [] \<and> \<not> P (hd w)" and "s = [] \<or> P (hd s)"
  shows "strip_one ws s = None"
  using assms
proof (induction ws)
  case (Cons w ws)
  then obtain c cs where "w = c # cs" "\<not> P c" by (cases w) auto
  with Cons show ?case by (cases s) auto
qed simp

definition plain_char :: "char \<Rightarrow> bool" where
  "plain_char c = (\<not> digit7 c \<and> (digit6 c \<or> digit5 c) \<and> c \<noteq> CHR 0x20)"

lemma plain_char_code:
  assumes "32 < (of_char c :: nat)" and "(of_char c :: nat) < 128"
  shows "plain_char c"
proof -
  obtain b0 b1 b2 b3 b4 b5 b6 b7 where c: "c = Char b0 b1 b2 b3 b4 b5 b6 b7" by (cases c)
  have le: "(of_bool b :: nat) \<le> 1" for b by simp
  have n: "(of_char c :: nat) = of_bool b0 + 2 * of_bool b1 + 4 * of_bool b2 + 8 * of_bool b3
      + 16 * of_bool b4 + 32 * of_bool b5 + 64 * of_bool b6 + 128 * of_bool b7"
    by (simp add: c of_char_def)
  have "\<not> b7"
  proof
    assume "b7"
    with n have "128 \<le> (of_char c :: nat)" by simp
    with assms(2) show False by simp
  qed
  moreover have "b6 \<or> b5"
  proof (rule ccontr)
    assume "\<not> (b6 \<or> b5)"
    with \<open>\<not> b7\<close> have z: "\<not> b5" "\<not> b6" "\<not> b7" by simp_all
    have "(of_char c :: nat) = of_bool b0 + 2 * of_bool b1 + 4 * of_bool b2 + 8 * of_bool b3
      + 16 * of_bool b4"
      unfolding n by (simp only: z of_bool_eq mult_zero_right add_0_right)
    with assms(1) le [of b0] le [of b1] le [of b2] le [of b3] le [of b4] show False
      by linarith
  qed
  ultimately have "\<not> digit7 c" and "digit6 c \<or> digit5 c" by (simp_all add: c)
  moreover have "c \<noteq> CHR 0x20" using assms(1) by auto
  ultimately show ?thesis by (simp add: plain_char_def)
qed

lemma ws_seqs_ends:
  "list_all (\<lambda>w. w \<noteq> [] \<and> \<not> plain_char (hd w)) ws_seqs"
  "list_all (\<lambda>w. w \<noteq> [] \<and> \<not> plain_char (hd w)) (map rev ws_seqs)"
  by code_simp+

lemma trim_plain:
  assumes "s = [] \<or> plain_char (hd s) \<and> plain_char (last s)"
  shows "trim s = s"
proof -
  have "\<forall>w \<in> set ws_seqs. w \<noteq> [] \<and> \<not> plain_char (hd w)"
    "\<forall>w \<in> set (map rev ws_seqs). w \<noteq> [] \<and> \<not> plain_char (hd w)"
    using ws_seqs_ends by (simp_all only: list_all_iff)
  moreover have "rev s = [] \<or> plain_char (hd (rev s))"
    using assms by (auto simp: hd_rev)
  moreover have "s = [] \<or> plain_char (hd s)" using assms by blast
  ultimately have "strip_one ws_seqs s = None" "strip_one (map rev ws_seqs) (rev s) = None"
    by - (rule strip_one_None [where P = plain_char]; assumption)+
  then have "strip_all ws_seqs s = s" "strip_all (map rev ws_seqs) (rev s) = rev s"
    by (subst strip_all.simps, simp)+
  then show ?thesis by (simp add: trim_def)
qed

text \<open>Decimal rendering of an unsigned integer.\<close>

fun dec_string :: "nat \<Rightarrow> string" where
  "dec_string n = (if n < 10 then [char_of (48 + n)]
     else dec_string (n div 10) @ [char_of (48 + n mod 10)])"

declare dec_string.simps [simp del]

definition hex_digit :: "nat \<Rightarrow> char" where
  "hex_digit n = (if n < 10 then char_of (48 + n) else char_of (87 + n))"

definition hex_string :: "string \<Rightarrow> string" where
  "hex_string bs = concat (map (\<lambda>c. [hex_digit ((of_char c :: nat) div 16),
                                     hex_digit ((of_char c :: nat) mod 16)]) bs)"

lemma length_hex_string [simp]: "length (hex_string bs) = 2 * length bs"
  by (induction bs) (simp_all add: hex_string_def)

text \<open>The \<open>d\<close> low hexadecimal digits of a number (\<open>{:0dx}\<close> where it fits).\<close>

fun hex_fixed :: "nat \<Rightarrow> nat \<Rightarrow> string" where
  "hex_fixed 0 n = []"
| "hex_fixed (Suc d) n = hex_fixed d (n div 16) @ [hex_digit (n mod 16)]"

lemma length_hex_fixed [simp]: "length (hex_fixed d n) = d"
  by (induction d arbitrary: n) simp_all

text \<open>\<open>trim_start\<close>, \<open>split_whitespace\<close>, \<open>find\<close>, \<open>contains\<close> and \<open>split\<close> on one byte.\<close>

definition trim_start :: "string \<Rightarrow> string" where
  "trim_start s = strip_all ws_seqs s"

lemma length_trim_start: "length (trim_start s) \<le> length s"
  by (simp add: trim_start_def strip_all_le)

function split_ws :: "string \<Rightarrow> string \<Rightarrow> string list" where
  "split_ws acc s = (case strip_one ws_seqs s of
      Some t \<Rightarrow> (if acc = [] then split_ws [] t else rev acc # split_ws [] t)
    | None \<Rightarrow> (case s of [] \<Rightarrow> (if acc = [] then [] else [rev acc])
                        | c # r \<Rightarrow> split_ws (c # acc) r))"
  by pat_completeness auto
termination
  by (relation "measure (\<lambda>(acc, s). length s)") (auto dest: strip_one_shorter)

declare split_ws.simps [simp del]

definition split_whitespace :: "string \<Rightarrow> string list" where
  "split_whitespace s = split_ws [] s"

fun find_sub :: "string \<Rightarrow> string \<Rightarrow> nat option" where
  "find_sub p [] = (if p = [] then Some 0 else None)"
| "find_sub p (c # s) = (if starts_with (c # s) p then Some 0 else map_option Suc (find_sub p s))"

lemma find_sub_bound: "find_sub p s = Some i \<Longrightarrow> i + length p \<le> length s"
proof (induction s arbitrary: i)
  case (Cons c s)
  then show ?case
    by (auto simp: starts_with_iff split: if_splits) (metis le_add1 length_Cons length_append)
qed (auto split: if_splits)

definition contains_sub :: "string \<Rightarrow> string \<Rightarrow> bool" where
  "contains_sub s p = (find_sub p s \<noteq> None)"

fun split_on :: "char \<Rightarrow> string \<Rightarrow> string list" where
  "split_on d [] = [[]]"
| "split_on d (c # s) = (if c = d then [] # split_on d s
     else (case split_on d s of [] \<Rightarrow> [[c]] | w # ws \<Rightarrow> (c # w) # ws))"

lemma split_on_nonempty [simp]: "split_on d s \<noteq> []"
  by (cases s) (auto split: list.split)

text \<open>The first characters of a string: a character starts at each byte that continues none.\<close>

fun take_chars :: "nat \<Rightarrow> string \<Rightarrow> string" where
  "take_chars n [] = []"
| "take_chars n (c # s) = (if is_continuation c then c # take_chars n s
     else case n of 0 \<Rightarrow> [] | Suc k \<Rightarrow> c # take_chars k s)"

text \<open>
  Trimming one character: \<open>trim_start_matches\<close>, \<open>trim_end_matches\<close> and \<open>trim_matches\<close>.
\<close>

definition trim_start_char :: "char \<Rightarrow> string \<Rightarrow> string" where
  "trim_start_char c s = dropWhile (\<lambda>d. d = c) s"

definition trim_end_char :: "char \<Rightarrow> string \<Rightarrow> string" where
  "trim_end_char c s = rev (dropWhile (\<lambda>d. d = c) (rev s))"

definition trim_char :: "char \<Rightarrow> string \<Rightarrow> string" where
  "trim_char c s = trim_end_char c (trim_start_char c s)"

text \<open>The first element with a property, changed in place.\<close>

fun on_first :: "('a \<Rightarrow> bool) \<Rightarrow> ('a \<Rightarrow> 'a) \<Rightarrow> 'a list \<Rightarrow> 'a list" where
  "on_first P f [] = []"
| "on_first P f (x # xs) = (if P x then f x # xs else x # on_first P f xs)"

lemma map_on_first [simp]: "(\<And>x. P x \<Longrightarrow> g (f x) = g x) \<Longrightarrow> map g (on_first P f xs) = map g xs"
  by (induction xs) auto

lemma set_on_first: "x \<in> set (on_first P f xs) \<Longrightarrow> x \<in> set xs \<or> (\<exists>y \<in> set xs. P y \<and> x = f y)"
  by (induction xs) (auto split: if_splits)

lemma on_first_split:
  "find P xs = Some x \<Longrightarrow> \<exists>ys zs. xs = ys @ x # zs \<and> (\<forall>y \<in> set ys. \<not> P y) \<and> P x
     \<and> on_first P f xs = ys @ f x # zs"
proof (induction xs)
  case (Cons y ys)
  show ?case
  proof (cases "P y")
    case True
    then show ?thesis using Cons.prems by (intro exI [of _ "[]"] exI [of _ ys]) auto
  next
    case False
    then obtain us vs where "ys = us @ x # vs" "\<forall>y \<in> set us. \<not> P y" "P x"
      "on_first P f ys = us @ f x # vs"
      using Cons by auto
    then show ?thesis using False by (intro exI [of _ "y # us"] exI [of _ vs]) auto
  qed
qed simp

lemma find_eq_None: "(find P xs = None) = (\<forall>x \<in> set xs. \<not> P x)"
  by (induction xs) auto

text \<open>Joining with a separator (\<open>join\<close>).\<close>

fun join_with :: "string \<Rightarrow> string list \<Rightarrow> string" where
  "join_with sep [] = []"
| "join_with sep [s] = s"
| "join_with sep (s # t # ss) = s @ sep @ join_with sep (t # ss)"

text \<open>
  \<open>to_lowercase\<close>: on ASCII input it is the ASCII folding; the Unicode table is the
  argument \<open>uni\<close>, consulted for strings with a non-ASCII byte only.
\<close>

definition is_ascii :: "string \<Rightarrow> bool" where
  "is_ascii s = list_all (\<lambda>c. \<not> digit7 c) s"

definition to_lowercase :: "(string \<Rightarrow> string) \<Rightarrow> string \<Rightarrow> string" where
  "to_lowercase uni s = (if is_ascii s then to_ascii_lowercase s else uni s)"

section \<open>Ordered maps\<close>

text \<open>
  A \<open>BTreeMap<String, V>\<close> is an association list kept in key order, so that iterating
  it is reading the list.
\<close>

type_synonym 'v btree = "(string \<times> 'v) list"

abbreviation bt_get :: "'v btree \<Rightarrow> string \<Rightarrow> 'v option" where
  "bt_get \<equiv> map_of"

fun bt_put :: "string \<Rightarrow> 'v \<Rightarrow> 'v btree \<Rightarrow> 'v btree" where
  "bt_put k v [] = [(k, v)]"
| "bt_put k v ((k', v') # m) =
     (if k = k' then (k, v) # m else if k < k' then (k, v) # (k', v') # m
      else (k', v') # bt_put k v m)"

definition bt_remove :: "string \<Rightarrow> 'v btree \<Rightarrow> 'v btree" where
  "bt_remove k m = filter (\<lambda>(k', v). k' \<noteq> k) m"

abbreviation bt_wf :: "'v btree \<Rightarrow> bool" where
  "bt_wf m \<equiv> sorted_wrt (<) (map fst m)"

lemma bt_get_put [simp]: "bt_get (bt_put k v m) = (bt_get m)(k \<mapsto> v)"
  by (induction m rule: bt_put.induct) (auto simp: fun_eq_iff)

lemma bt_get_put_apply: "bt_get (bt_put k v m) k' = (if k' = k then Some v else bt_get m k')"
  by simp

lemma set_keys_put [simp]: "fst ` set (bt_put k v m) = insert k (fst ` set m)"
  by (induction k v m rule: bt_put.induct) auto

lemma bt_wf_put [simp]: "bt_wf m \<Longrightarrow> bt_wf (bt_put k v m)"
proof (induction k v m rule: bt_put.induct)
  case (2 k v k' v' m)
  have "\<forall>y \<in> fst ` set (bt_put k v m). k' < y" if "k' < k"
    using 2 that by auto
  then show ?case using 2 by (auto dest: order.strict_trans)
qed simp

lemma bt_get_remove [simp]: "bt_get (bt_remove k m) = (bt_get m)(k := None)"
  by (induction m) (auto simp: bt_remove_def fun_eq_iff)

lemma bt_wf_remove [simp]: "bt_wf m \<Longrightarrow> bt_wf (bt_remove k m)"
  by (induction m) (auto simp: bt_remove_def)

lemma bt_wf_distinct: "bt_wf m \<Longrightarrow> distinct (map fst m)"
  using strict_sorted_iff by blast

section \<open>Tolerant event folds\<close>

text \<open>
  A log is folded by a step that either applies an event or warns and skips it. The only
  law a step promises is that a warning changes nothing; what follows holds for any such
  fold.
\<close>

fun accepted :: "('s \<Rightarrow> 'e \<Rightarrow> 's \<times> 'w option) \<Rightarrow> 's \<Rightarrow> 'e list \<Rightarrow> 'e list" where
  "accepted step s [] = []"
| "accepted step s (e # es) =
     (if snd (step s e) = None then e # accepted step (fst (step s e)) es
      else accepted step (fst (step s e)) es)"

locale tolerant_fold =
  fixes step :: "'s \<Rightarrow> 'e \<Rightarrow> 's \<times> 'w option"
    and run :: "'s \<Rightarrow> 'e list \<Rightarrow> 's"
  assumes warn_noop: "step s e = (s', Some w) \<Longrightarrow> s' = s"
    and run_def: "run s es = foldl (\<lambda>t e. fst (step t e)) s es"
begin

lemma run_append: "run s (es @ fs) = run (run s es) fs"
  by (simp add: run_def)

lemma run_Cons: "run s (e # es) = run (fst (step s e)) es"
  by (simp add: run_def)

lemma run_accepted: "run s (accepted step s es) = run s es"
proof (induction es arbitrary: s)
  case (Cons e es)
  show ?case
  proof (cases "snd (step s e)")
    case None
    then show ?thesis using Cons.IH by (simp add: run_Cons)
  next
    case (Some w)
    then have "fst (step s e) = s" by (metis warn_noop prod.collapse)
    then show ?thesis using Cons.IH Some by (simp add: run_Cons)
  qed
qed (simp add: run_def)

lemma accepted_snoc:
  "accepted step s (es @ [e]) =
     accepted step s es @ (if snd (step (run s es) e) = None then [e] else [])"
  by (induction es arbitrary: s) (simp_all add: run_def)

lemma run_snoc_cases:
  "run s (es @ [e]) = run s es \<and> snd (step (run s es) e) \<noteq> None
   \<or> step (run s es) e = (run s (es @ [e]), None)"
proof (cases "snd (step (run s es) e)")
  case None
  then show ?thesis by (simp add: run_def prod_eq_iff)
next
  case (Some w)
  then have "fst (step (run s es) e) = run s es" by (metis warn_noop prod.collapse)
  then show ?thesis using Some by (simp add: run_def)
qed

lemma run_invariant:
  assumes "I s" and "\<And>t e t'. I t \<Longrightarrow> step t e = (t', None) \<Longrightarrow> I t'"
  shows "I (run s es)"
proof -
  have one: "I (fst (step t e))" if "I t" for t e
  proof (cases "snd (step t e)")
    case None
    then show ?thesis using assms(2) [OF that] by (metis prod.collapse)
  next
    case (Some w)
    then show ?thesis using that by (metis warn_noop prod.collapse)
  qed
  show ?thesis
    using assms(1)
  proof (induction es arbitrary: s)
    case (Cons e es)
    then show ?case using one by (simp add: run_Cons)
  qed (simp add: run_def)
qed

end

end
