(* ===== verification/Autonomy.thy ===== *)
theory Autonomy
  imports Prelude
begin

text \<open>
  Autonomy and approval (\<open>src/crates/intendant-core/src/autonomy.rs\<close>): the levels, the
  per-category rules and their session overrides, the decision functions the agent
  loop consults before it acts, the signatures under which an approval is remembered,
  and the classification of commands into action categories.

  \<open>serde_json\<close>'s parser and its rendering of scalars, the digest behind Rust's
  \<open>DefaultHasher\<close> and the non-ASCII part of \<open>to_lowercase\<close> are arguments.
\<close>

section \<open>Levels, categories and rules\<close>

datatype autonomy_level = LowLevel | MediumLevel | HighLevel | FullLevel

definition level_from_str_loose :: "(string \<Rightarrow> string) \<Rightarrow> string \<Rightarrow> autonomy_level" where
  "level_from_str_loose uni s = (let l = to_lowercase uni s in
     if l \<in> {''low'', ''l'', ''0''} then LowLevel
     else if l \<in> {''medium'', ''med'', ''m'', ''1''} then MediumLevel
     else if l \<in> {''high'', ''h'', ''2''} then HighLevel
     else if l \<in> {''full'', ''f'', ''3''} then FullLevel
     else MediumLevel)"

fun level_display :: "autonomy_level \<Rightarrow> string" where
  "level_display LowLevel = ''Low''"
| "level_display MediumLevel = ''Medium''"
| "level_display HighLevel = ''High''"
| "level_display FullLevel = ''Full''"

datatype action_category =
    FileRead | FileWrite | FileDelete | CommandExec | NetworkRequest | Destructive
  | HumanInput | LiveAudioSpawn | DisplayControl | ToolCall

fun severity :: "action_category \<Rightarrow> u8" where
  "severity FileRead = 0"
| "severity ToolCall = 1"
| "severity NetworkRequest = 2"
| "severity FileWrite = 3"
| "severity FileDelete = 4"
| "severity Destructive = 5"
| "severity CommandExec = 6"
| "severity HumanInput = 7"
| "severity LiveAudioSpawn = 8"
| "severity DisplayControl = 9"

definition category_from_str :: "string \<Rightarrow> action_category option" where
  "category_from_str s =
    (if s = ''file_read'' then Some FileRead
     else if s = ''file_write'' then Some FileWrite
     else if s = ''file_delete'' then Some FileDelete
     else if s = ''command_exec'' then Some CommandExec
     else if s = ''network'' then Some NetworkRequest
     else if s = ''destructive'' then Some Destructive
     else if s = ''human_input'' then Some HumanInput
     else if s = ''live_audio_spawn'' then Some LiveAudioSpawn
     else if s = ''display_control'' then Some DisplayControl
     else if s = ''tool_call'' then Some ToolCall
     else None)"

fun category_display :: "action_category \<Rightarrow> string" where
  "category_display FileRead = ''file_read''"
| "category_display FileWrite = ''file_write''"
| "category_display FileDelete = ''file_delete''"
| "category_display CommandExec = ''command_exec''"
| "category_display NetworkRequest = ''network''"
| "category_display Destructive = ''destructive''"
| "category_display HumanInput = ''human_input''"
| "category_display LiveAudioSpawn = ''live_audio_spawn''"
| "category_display DisplayControl = ''display_control''"
| "category_display ToolCall = ''tool_call''"

datatype approval_rule = Auto | Ask | Deny

fun rule_str :: "approval_rule \<Rightarrow> string" where
  "rule_str Auto = ''auto''"
| "rule_str Ask = ''ask''"
| "rule_str Deny = ''deny''"

definition rule_from_str_loose :: "string \<Rightarrow> approval_rule option" where
  "rule_from_str_loose s = (let t = to_ascii_lowercase (trim s) in
     if t = ''auto'' then Some Auto
     else if t = ''ask'' then Some Ask
     else if t = ''deny'' then Some Deny
     else None)"

fun strictest :: "approval_rule \<Rightarrow> approval_rule \<Rightarrow> approval_rule" where
  "strictest Deny r = Deny"
| "strictest r Deny = Deny"
| "strictest Ask r = Ask"
| "strictest r Ask = Ask"
| "strictest Auto Auto = Auto"

text \<open>
  Rules are ordered by strictness and levels by how much they let through, so that the
  library's \<open>Max\<close> and its order lemmas apply to them.
\<close>

fun rule_rank :: "approval_rule \<Rightarrow> nat" where
  "rule_rank Auto = 0"
| "rule_rank Ask = 1"
| "rule_rank Deny = 2"

fun level_rank :: "autonomy_level \<Rightarrow> nat" where
  "level_rank LowLevel = 0"
| "level_rank MediumLevel = 1"
| "level_rank HighLevel = 2"
| "level_rank FullLevel = 3"

instantiation approval_rule :: linorder
begin

definition less_eq_approval_rule :: "approval_rule \<Rightarrow> approval_rule \<Rightarrow> bool" where
  "less_eq_approval_rule a b = (rule_rank a \<le> rule_rank b)"

definition less_approval_rule :: "approval_rule \<Rightarrow> approval_rule \<Rightarrow> bool" where
  "less_approval_rule a b = (rule_rank a < rule_rank b)"

instance
proof
  fix x y z :: approval_rule
  show "x < y \<longleftrightarrow> x \<le> y \<and> \<not> y \<le> x" "x \<le> x" "x \<le> y \<or> y \<le> x"
    by (auto simp: less_eq_approval_rule_def less_approval_rule_def)
  show "x \<le> y \<Longrightarrow> y \<le> z \<Longrightarrow> x \<le> z"
    by (simp add: less_eq_approval_rule_def)
  show "x \<le> y \<Longrightarrow> y \<le> x \<Longrightarrow> x = y"
    by (cases x; cases y) (simp_all add: less_eq_approval_rule_def)
qed

end

instantiation autonomy_level :: linorder
begin

definition less_eq_autonomy_level :: "autonomy_level \<Rightarrow> autonomy_level \<Rightarrow> bool" where
  "less_eq_autonomy_level a b = (level_rank a \<le> level_rank b)"

definition less_autonomy_level :: "autonomy_level \<Rightarrow> autonomy_level \<Rightarrow> bool" where
  "less_autonomy_level a b = (level_rank a < level_rank b)"

instance
proof
  fix x y z :: autonomy_level
  show "x < y \<longleftrightarrow> x \<le> y \<and> \<not> y \<le> x" "x \<le> x" "x \<le> y \<or> y \<le> x"
    by (auto simp: less_eq_autonomy_level_def less_autonomy_level_def)
  show "x \<le> y \<Longrightarrow> y \<le> z \<Longrightarrow> x \<le> z"
    by (simp add: less_eq_autonomy_level_def)
  show "x \<le> y \<Longrightarrow> y \<le> x \<Longrightarrow> x = y"
    by (cases x; cases y) (simp_all add: less_eq_autonomy_level_def)
qed

end

lemma strictest_max: "strictest a b = max a b"
  by (cases a; cases b) (simp_all add: max_def less_eq_approval_rule_def)

lemma rule_le_simps [simp]:
  "Auto \<le> r" "r \<le> Deny" "(Deny \<le> r) = (r = Deny)" "(r \<le> Auto) = (r = Auto)"
  "(Ask \<le> r) = (r \<noteq> Auto)"
  by (cases r; simp add: less_eq_approval_rule_def)+

lemma category_roundtrip: "category_from_str (category_display c) = Some c"
  by (cases c) (simp_all add: category_from_str_def)

section \<open>The approval configuration\<close>

record approval_config =
  ac_file_read :: approval_rule
  ac_file_write :: approval_rule
  ac_file_delete :: approval_rule
  ac_command_exec :: approval_rule
  ac_network :: approval_rule
  ac_destructive :: approval_rule
  ac_display_control :: approval_rule
  ac_tool_call :: approval_rule

definition default_approval_config :: approval_config where
  "default_approval_config =
     \<lparr> ac_file_read = Auto, ac_file_write = Ask, ac_file_delete = Ask, ac_command_exec = Auto,
       ac_network = Auto, ac_destructive = Ask, ac_display_control = Ask, ac_tool_call = Ask \<rparr>"

definition shell_rule :: "approval_config \<Rightarrow> approval_rule" where
  "shell_rule c = foldl strictest Auto
     [ac_command_exec c, ac_file_read c, ac_file_write c, ac_file_delete c, ac_network c,
      ac_destructive c, ac_display_control c]"

definition set_rule_by_name ::
    "approval_config \<Rightarrow> string \<Rightarrow> approval_rule \<Rightarrow> approval_config \<times> bool" where
  "set_rule_by_name c category r =
    (if category = ''file_read'' then (c\<lparr>ac_file_read := r\<rparr>, True)
     else if category = ''file_write'' then (c\<lparr>ac_file_write := r\<rparr>, True)
     else if category = ''file_delete'' then (c\<lparr>ac_file_delete := r\<rparr>, True)
     else if category = ''command_exec'' then (c\<lparr>ac_command_exec := r\<rparr>, True)
     else if category = ''network'' then (c\<lparr>ac_network := r\<rparr>, True)
     else if category = ''destructive'' then (c\<lparr>ac_destructive := r\<rparr>, True)
     else if category = ''display_control'' then (c\<lparr>ac_display_control := r\<rparr>, True)
     else if category = ''tool_call'' then (c\<lparr>ac_tool_call := r\<rparr>, True)
     else (c, False))"

fun rule_for :: "approval_config \<Rightarrow> action_category \<Rightarrow> approval_rule" where
  "rule_for c FileRead = ac_file_read c"
| "rule_for c FileWrite = ac_file_write c"
| "rule_for c FileDelete = ac_file_delete c"
| "rule_for c CommandExec = shell_rule c"
| "rule_for c NetworkRequest = ac_network c"
| "rule_for c Destructive = ac_destructive c"
| "rule_for c HumanInput = Ask"
| "rule_for c LiveAudioSpawn = Ask"
| "rule_for c DisplayControl = ac_display_control c"
| "rule_for c ToolCall = ac_tool_call c"

datatype ask_grade = Autopilot | Escalate | Checkpoint | Confer

fun ask_grade_str :: "ask_grade \<Rightarrow> string" where
  "ask_grade_str Autopilot = ''autopilot''"
| "ask_grade_str Escalate = ''escalate''"
| "ask_grade_str Checkpoint = ''checkpoint''"
| "ask_grade_str Confer = ''confer''"

datatype notify_appetite = QuietAppetite | NormalAppetite | EagerAppetite

fun notify_str :: "notify_appetite \<Rightarrow> string" where
  "notify_str QuietAppetite = ''quiet''"
| "notify_str NormalAppetite = ''normal''"
| "notify_str EagerAppetite = ''eager''"

record approval_overrides =
  ao_file_read :: "approval_rule option"
  ao_file_write :: "approval_rule option"
  ao_file_delete :: "approval_rule option"
  ao_command_exec :: "approval_rule option"
  ao_network :: "approval_rule option"
  ao_destructive :: "approval_rule option"
  ao_display_control :: "approval_rule option"
  ao_tool_call :: "approval_rule option"

definition overrides_is_empty :: "approval_overrides \<Rightarrow> bool" where
  "overrides_is_empty v = (ao_file_read v = None \<and> ao_file_write v = None
     \<and> ao_file_delete v = None \<and> ao_command_exec v = None \<and> ao_network v = None
     \<and> ao_destructive v = None \<and> ao_display_control v = None \<and> ao_tool_call v = None)"

fun apply_rule_override :: "approval_rule \<Rightarrow> approval_rule option \<Rightarrow> approval_rule" where
  "apply_rule_override Deny v = Deny"
| "apply_rule_override base None = base"
| "apply_rule_override base (Some r) = r"

definition with_overrides :: "approval_config \<Rightarrow> approval_overrides \<Rightarrow> approval_config" where
  "with_overrides c v =
     \<lparr> ac_file_read = apply_rule_override (ac_file_read c) (ao_file_read v),
       ac_file_write = apply_rule_override (ac_file_write c) (ao_file_write v),
       ac_file_delete = apply_rule_override (ac_file_delete c) (ao_file_delete v),
       ac_command_exec = apply_rule_override (ac_command_exec c) (ao_command_exec v),
       ac_network = apply_rule_override (ac_network c) (ao_network v),
       ac_destructive = apply_rule_override (ac_destructive c) (ao_destructive v),
       ac_display_control = apply_rule_override (ac_display_control c) (ao_display_control v),
       ac_tool_call = apply_rule_override (ac_tool_call c) (ao_tool_call v) \<rparr>"

record dial_config =
  dc_autonomy :: "autonomy_level option"
  dc_ask :: "ask_grade option"
  dc_approvals :: "approval_overrides option"
  dc_notify :: "notify_appetite option"

definition empty_dial :: dial_config where
  "empty_dial = \<lparr> dc_autonomy = None, dc_ask = None, dc_approvals = None, dc_notify = None \<rparr>"

definition dial_is_empty :: "dial_config \<Rightarrow> bool" where
  "dial_is_empty d = (dc_autonomy d = None \<and> dc_ask d = None
     \<and> (case dc_approvals d of None \<Rightarrow> True | Some a \<Rightarrow> overrides_is_empty a)
     \<and> dc_notify d = None)"

text \<open>The rendering of a dial for log lines.\<close>

definition describe_overrides :: "approval_overrides \<Rightarrow> string list" where
  "describe_overrides v = List.map_filter
     (\<lambda>(name, r). map_option (\<lambda>x. name @ ''='' @ rule_str x) r)
     [(''file_read'', ao_file_read v), (''file_write'', ao_file_write v),
      (''file_delete'', ao_file_delete v), (''command_exec'', ao_command_exec v),
      (''network'', ao_network v), (''destructive'', ao_destructive v),
      (''display_control'', ao_display_control v), (''tool_call'', ao_tool_call v)]"

definition describe_dial :: "dial_config \<Rightarrow> string" where
  "describe_dial d = (let parts =
      (case dc_autonomy d of None \<Rightarrow> []
        | Some l \<Rightarrow> [''autonomy='' @ to_ascii_lowercase (level_display l)])
    @ (case dc_ask d of None \<Rightarrow> [] | Some g \<Rightarrow> [''ask='' @ ask_grade_str g])
    @ (case dc_approvals d of None \<Rightarrow> []
        | Some v \<Rightarrow> (let l = describe_overrides v in
            if l = [] then [] else [''approvals['' @ join_with '', '' l @ '']'']))
    @ (case dc_notify d of None \<Rightarrow> [] | Some n \<Rightarrow> [''notify='' @ notify_str n])
    in if parts = [] then ''empty'' else join_with '', '' parts)"

section \<open>The autonomy state\<close>

record autonomy_state =
  as_level :: autonomy_level
  as_rules :: approval_config
  as_user_display_granted :: bool
  as_approved_commands :: "string \<Rightarrow> string set option"
  as_session_dials :: "string \<Rightarrow> dial_config option"

definition new_autonomy :: "autonomy_level \<Rightarrow> approval_config \<Rightarrow> autonomy_state" where
  "new_autonomy l r = \<lparr> as_level = l, as_rules = r, as_user_display_granted = False,
     as_approved_commands = Map.empty, as_session_dials = Map.empty \<rparr>"

definition default_autonomy :: autonomy_state where
  "default_autonomy = \<lparr> as_level = MediumLevel, as_rules = default_approval_config,
     as_user_display_granted = False, as_approved_commands = Map.empty,
     as_session_dials = Map.empty \<rparr>"

definition session_dial :: "autonomy_state \<Rightarrow> string option \<Rightarrow> dial_config option" where
  "session_dial st s = (case s of None \<Rightarrow> None | Some k \<Rightarrow> as_session_dials st k)"

definition set_session_dial :: "autonomy_state \<Rightarrow> string \<Rightarrow> dial_config \<Rightarrow> autonomy_state" where
  "set_session_dial st s d =
     (if dial_is_empty d then st
      else st\<lparr>as_session_dials := (as_session_dials st)(s \<mapsto> d)\<rparr>)"

definition set_session_autonomy_full :: "autonomy_state \<Rightarrow> string \<Rightarrow> autonomy_state" where
  "set_session_autonomy_full st s =
     (let d = (case as_session_dials st s of None \<Rightarrow> empty_dial | Some d \<Rightarrow> d)
      in st\<lparr>as_session_dials := (as_session_dials st)(s \<mapsto> d\<lparr>dc_autonomy := Some FullLevel\<rparr>)\<rparr>)"

definition effective_level :: "autonomy_state \<Rightarrow> string option \<Rightarrow> autonomy_level" where
  "effective_level st s =
     (case Option.bind (session_dial st s) dc_autonomy of None \<Rightarrow> as_level st | Some l \<Rightarrow> l)"

definition effective_rules :: "autonomy_state \<Rightarrow> string option \<Rightarrow> approval_config" where
  "effective_rules st s =
     (case Option.bind (session_dial st s) dc_approvals of
        Some v \<Rightarrow> with_overrides (as_rules st) v | None \<Rightarrow> as_rules st)"

definition effective_rule_for ::
    "autonomy_state \<Rightarrow> string option \<Rightarrow> action_category \<Rightarrow> approval_rule" where
  "effective_rule_for st s c = rule_for (effective_rules st s) c"

definition effective_notify :: "autonomy_state \<Rightarrow> string option \<Rightarrow> notify_appetite" where
  "effective_notify st s =
     (case Option.bind (session_dial st s) dc_notify of None \<Rightarrow> NormalAppetite | Some n \<Rightarrow> n)"

definition effective_ask :: "autonomy_state \<Rightarrow> string option \<Rightarrow> ask_grade" where
  "effective_ask st s =
     (case Option.bind (session_dial st s) dc_ask of None \<Rightarrow> Escalate | Some g \<Rightarrow> g)"

definition command_dedup_key :: "string \<Rightarrow> string" where
  "command_dedup_key command = command"

definition was_command_approved :: "autonomy_state \<Rightarrow> string option \<Rightarrow> string \<Rightarrow> bool" where
  "was_command_approved st s source =
     (case as_approved_commands st (case s of None \<Rightarrow> [] | Some k \<Rightarrow> k) of
        None \<Rightarrow> False | Some keys \<Rightarrow> command_dedup_key source \<in> keys)"

definition record_approved_command ::
    "autonomy_state \<Rightarrow> string option \<Rightarrow> string \<Rightarrow> autonomy_state" where
  "record_approved_command st s source =
     (let k = (case s of None \<Rightarrow> [] | Some k \<Rightarrow> k);
          keys = (case as_approved_commands st k of None \<Rightarrow> {} | Some keys \<Rightarrow> keys)
      in st\<lparr>as_approved_commands :=
              (as_approved_commands st)(k \<mapsto> insert (command_dedup_key source) keys)\<rparr>)"

section \<open>Decisions\<close>

definition needs_approval :: "autonomy_state \<Rightarrow> string option \<Rightarrow> action_category \<Rightarrow> bool" where
  "needs_approval st s c =
    (if c = HumanInput \<or> c = LiveAudioSpawn then True
     else let level = effective_level st s in
       if level = FullLevel then False
       else if c = DisplayControl then \<not> as_user_display_granted st
       else let rules = effective_rules st s in
         if level = LowLevel then
           (let r = rule_for rules c in if r = Deny then True else c \<noteq> FileRead)
         else (case rule_for rules c of
             Auto \<Rightarrow> False
           | Deny \<Rightarrow> True
           | Ask \<Rightarrow> (case level of
                 MediumLevel \<Rightarrow> c \<in> {CommandExec, FileWrite, FileDelete, Destructive,
                                     NetworkRequest, ToolCall}
               | HighLevel \<Rightarrow> False
               | _ \<Rightarrow> False)))"

datatype external_decision = ExtAutoApprove | ExtReject | ExtAsk

definition external_approval_decision ::
    "autonomy_state \<Rightarrow> string option \<Rightarrow> action_category \<Rightarrow> external_decision" where
  "external_approval_decision st s c =
    (if effective_level st s = FullLevel then ExtAutoApprove
     else let r = effective_rule_for st s c in
       if r = Deny then ExtReject
       else if c = ToolCall \<and> r = Auto then ExtAutoApprove
       else ExtAsk)"

datatype controller_decision = CtlAutoApprove | CtlDeny | CtlAsk

definition controller_tool_decision ::
    "autonomy_state \<Rightarrow> string option \<Rightarrow> controller_decision" where
  "controller_tool_decision st s =
    (if effective_rule_for st s ToolCall = Deny then CtlDeny
     else if needs_approval st s ToolCall then CtlAsk
     else CtlAutoApprove)"

lemmas decision_defs = needs_approval_def external_approval_decision_def
  controller_tool_decision_def effective_rule_for_def

section \<open>Signatures of approved actions\<close>

text \<open>A parsed JSON value; a number that is not an integer keeps its rendering.\<close>

datatype json =
    JNull | JBool bool | JInt int | JFloat string | JStr string
  | JArr "json list" | JObj "(string \<times> json) list"

fun json_get :: "json \<Rightarrow> string \<Rightarrow> json option" where
  "json_get (JObj kvs) k = map_of kvs k"
| "json_get _ k = None"

fun json_as_str :: "json \<Rightarrow> string option" where
  "json_as_str (JStr s) = Some s"
| "json_as_str _ = None"

fun json_as_array :: "json \<Rightarrow> json list option" where
  "json_as_array (JArr xs) = Some xs"
| "json_as_array _ = None"

fun json_as_i64 :: "json \<Rightarrow> int option" where
  "json_as_i64 (JInt n) = (if - (2 ^ 63) \<le> n \<and> n < 2 ^ 63 then Some n else None)"
| "json_as_i64 _ = None"

definition json_str_or :: "string \<Rightarrow> string \<Rightarrow> json \<Rightarrow> string" where
  "json_str_or d k v = (case Option.bind (json_get v k) json_as_str of None \<Rightarrow> d | Some s \<Rightarrow> s)"

text \<open>
  What the hasher is fed: \<open>str::hash\<close> writes the bytes and \<open>0xFF\<close>; an object is fed in the
  order of its keys, whatever the order of its fields.
\<close>

definition hash_str :: "string \<Rightarrow> string" where
  "hash_str s = s @ [CHR 0xFF]"

fun hash_json_into :: "(json \<Rightarrow> string) \<Rightarrow> json \<Rightarrow> string" where
  "hash_json_into render (JObj kvs) = hash_str ''obj''
     @ concat (map (\<lambda>(k, h). hash_str k @ h)
         (sort_key fst (map (\<lambda>(k, v). (k, hash_json_into render v)) kvs)))"
| "hash_json_into render (JArr xs) =
     hash_str ''arr'' @ concat (map (hash_json_into render) xs)"
| "hash_json_into render v = hash_str (render v)"

fun command_content_stream :: "(json \<Rightarrow> string) \<Rightarrow> json \<Rightarrow> string" where
  "command_content_stream render (JObj kvs) =
     concat (map (\<lambda>(k, v). if k = ''nonce'' then [] else hash_str k @ hash_json_into render v)
       (sort_key fst kvs))"
| "command_content_stream render v = hash_json_into render v"

definition command_content_digest ::
    "(string \<Rightarrow> u64) \<Rightarrow> (json \<Rightarrow> string) \<Rightarrow> json \<Rightarrow> u64" where
  "command_content_digest finish render cmd = finish (command_content_stream render cmd)"

definition dedup_part :: "(string \<Rightarrow> u64) \<Rightarrow> (json \<Rightarrow> string) \<Rightarrow> json \<Rightarrow> string" where
  "dedup_part finish render cmd = (let func = json_str_or ''?'' ''function'' cmd in
     if func \<in> {''writeFile'', ''editFile''} then
       func @ '': '' @ json_str_or ''?'' ''file_path'' cmd @ '' #''
         @ hex_fixed 16 (unat (command_content_digest finish render cmd))
     else if func \<in> {''execAsAgent'', ''execPty''} then
       ''exec: '' @ json_str_or ''?'' ''command'' cmd
     else if func = ''inspectPath'' then ''inspect: '' @ json_str_or ''?'' ''path'' cmd
     else if func = ''browse'' then ''browse: '' @ json_str_or ''?'' ''url'' cmd
     else func)"

definition batch_dedup_source ::
    "(string \<Rightarrow> json option) \<Rightarrow> (string \<Rightarrow> u64) \<Rightarrow> (json \<Rightarrow> string) \<Rightarrow> string \<Rightarrow> string" where
  "batch_dedup_source parse finish render s =
    (case Option.bind (parse s) (\<lambda>v. Option.bind (json_get v ''commands'') json_as_array) of
       None \<Rightarrow> s
     | Some cmds \<Rightarrow> join_with '' | '' (map (dedup_part finish render) cmds))"

definition controller_tool_dedup_source ::
    "(string \<Rightarrow> u64) \<Rightarrow> (json \<Rightarrow> string) \<Rightarrow> string \<Rightarrow> json \<Rightarrow> string" where
  "controller_tool_dedup_source finish render tool args =
     ''tool: '' @ tool @ '' #'' @ hex_fixed 16 (unat (finish (hash_json_into render args)))"

section \<open>Classification of commands\<close>

text \<open>
  One line of a shell script, split at the first \<open>&&\<close>, else the first \<open>||\<close>, else the
  first \<open>;\<close> of what remains.
\<close>

definition keep_part :: "string \<Rightarrow> string list" where
  "keep_part s = (let p = trim s in if p = [] then [] else [p])"

function split_line :: "string \<Rightarrow> string list" where
  "split_line r =
    (if r = [] then []
     else case find_sub ''&&'' r of
       Some i \<Rightarrow> keep_part (take i r) @ split_line (trim_start (drop (i + 2) r))
     | None \<Rightarrow> (case find_sub ''||'' r of
         Some i \<Rightarrow> keep_part (take i r) @ split_line (trim_start (drop (i + 2) r))
       | None \<Rightarrow> (case find_sub '';'' r of
           Some i \<Rightarrow> keep_part (take i r) @ split_line (trim_start (drop (i + 1) r))
         | None \<Rightarrow> keep_part r)))"
  by pat_completeness auto
termination
  using length_trim_start
  by (relation "measure length")
    (auto intro!: le_less_trans [OF length_trim_start])

declare split_line.simps [simp del]

definition split_shell_commands :: "string \<Rightarrow> string list" where
  "split_shell_commands cmd = concat (map split_line (split_on (CHR 0x0A) cmd))"

definition base :: "string \<Rightarrow> string" where
  "base token = last (split_on (CHR 0x2F) token)"

definition destructive_commands :: "string list" where
  "destructive_commands =
     [''rm'', ''rmdir'', ''kill'', ''killall'', ''pkill'', ''shutdown'', ''reboot'', ''mkfs'', ''dd'']"

definition network_commands :: "string list" where
  "network_commands = [''curl'', ''wget'', ''ssh'', ''scp'', ''rsync'', ''nc'', ''ncat'', ''ping'',
     ''traceroute'', ''dig'', ''nslookup'', ''git'']"

definition find_deletes :: "string list \<Rightarrow> bool" where
  "find_deletes tokens = list_ex (\<lambda>i. tokens ! i = ''-delete''
     \<or> ((tokens ! i = ''-exec'' \<or> tokens ! i = ''-execdir'') \<and> i + 1 < length tokens
         \<and> base (tokens ! (i + 1)) \<in> set destructive_commands)) [0..<length tokens]"

definition classify_single_command :: "(string \<Rightarrow> string) \<Rightarrow> string \<Rightarrow> action_category list" where
  "classify_single_command uni cmd =
    (let lower = to_lowercase uni cmd;
         tokens = split_whitespace lower;
         first_token = (case tokens of [] \<Rightarrow> [] | t # _ \<Rightarrow> t);
         is_sudo = (base first_token = ''sudo'');
         first = (if is_sudo then (case tokens of _ # t # _ \<Rightarrow> base t | _ \<Rightarrow> [])
                  else base first_token)
     in (if is_sudo then [Destructive] else [])
      @ (if first \<in> set destructive_commands \<or> contains_sub lower ''rm -rf''
            \<or> contains_sub lower ''rm -r'' \<or> contains_sub lower ''rm --recursive''
            \<or> contains_sub lower ''rm --force'' then [Destructive] else [])
      @ (if first = ''find'' \<and> find_deletes tokens then [Destructive] else [])
      @ (if first \<in> set network_commands \<or> contains_sub lower ''apt''
            \<or> contains_sub lower ''pip install'' then [NetworkRequest] else [])
      @ (if contains_sub lower '' > '' \<or> contains_sub lower '' >> ''
            \<or> first \<in> {''tee'', ''mv'', ''cp''} then [FileWrite] else []))"

definition classify_shell_command :: "(string \<Rightarrow> string) \<Rightarrow> string \<Rightarrow> action_category list" where
  "classify_shell_command uni cmd = remdups_adj
     (CommandExec # concat (map (classify_single_command uni) (split_shell_commands cmd)))"

definition classify_command :: "(string \<Rightarrow> string) \<Rightarrow> json \<Rightarrow> action_category list" where
  "classify_command uni cmd =
    (let function = json_str_or [] ''function'' cmd;
         on_user_display = (case Option.bind (json_get cmd ''display'') json_as_i64 of
                               None \<Rightarrow> False | Some i \<Rightarrow> i \<le> 0);
         display = (if on_user_display then [DisplayControl] else [])
     in if function = ''inspectPath'' then [FileRead]
        else if function \<in> {''writeFile'', ''editFile''} then [FileWrite]
        else if function = ''captureScreen'' then FileRead # display
        else if function = ''askHuman'' then [HumanInput]
        else if function = ''browse'' then [NetworkRequest]
        else if function \<in> {''execAsAgent'', ''execPty''} then
          classify_shell_command uni (json_str_or [] ''command'' cmd) @ display
        else [CommandExec])"

definition classify_batch ::
    "(string \<Rightarrow> string) \<Rightarrow> (string \<Rightarrow> json option) \<Rightarrow> string \<Rightarrow> (nat \<times> action_category list) list" where
  "classify_batch uni parse s =
    (case Option.bind (parse s) (\<lambda>v. Option.bind (json_get v ''commands'') json_as_array) of
       None \<Rightarrow> []
     | Some cmds \<Rightarrow> enumerate 0 (map (classify_command uni) cmds))"

section \<open>The rules and their overrides\<close>

lemma max_Deny_iff [simp]: "max a b = Deny \<longleftrightarrow> a = Deny \<or> b = Deny"
  by (cases a; cases b) (simp_all add: max_def)

lemma shell_rule_max:
  "shell_rule cfg = Max {ac_command_exec cfg, ac_file_read cfg, ac_file_write cfg,
     ac_file_delete cfg, ac_network cfg, ac_destructive cfg, ac_display_control cfg}"
proof -
  have "max Auto r = r" for r by (simp add: max_def)
  then show ?thesis
    by (simp add: shell_rule_def strictest_max max.assoc)
qed

text \<open>The effects a shell command can reach.\<close>

definition shell_reach :: "action_category set" where
  "shell_reach = {CommandExec, FileRead, FileWrite, FileDelete, NetworkRequest, Destructive,
     DisplayControl}"

lemma shell_rule_le_iff:
  "shell_rule cfg \<le> r \<longleftrightarrow> ac_command_exec cfg \<le> r \<and> ac_file_read cfg \<le> r \<and> ac_file_write cfg \<le> r
     \<and> ac_file_delete cfg \<le> r \<and> ac_network cfg \<le> r \<and> ac_destructive cfg \<le> r
     \<and> ac_display_control cfg \<le> r"
  unfolding shell_rule_max by simp

lemma shell_rule_ge:
  "ac_command_exec cfg \<le> shell_rule cfg" "ac_file_read cfg \<le> shell_rule cfg"
  "ac_file_write cfg \<le> shell_rule cfg" "ac_file_delete cfg \<le> shell_rule cfg"
  "ac_network cfg \<le> shell_rule cfg" "ac_destructive cfg \<le> shell_rule cfg"
  "ac_display_control cfg \<le> shell_rule cfg"
  using shell_rule_le_iff [of cfg "shell_rule cfg"] by simp_all

lemma rule_for_le_shell: "c \<in> shell_reach \<Longrightarrow> rule_for cfg c \<le> shell_rule cfg"
  by (auto simp: shell_reach_def shell_rule_ge)

lemma apply_rule_override_Deny [simp]: "apply_rule_override r v = Deny \<longleftrightarrow> r = Deny \<or> v = Some Deny"
  by (cases r; cases v) auto

lemma shell_rule_Deny_iff:
  "shell_rule cfg = Deny \<longleftrightarrow> Deny \<in> {ac_command_exec cfg, ac_file_read cfg, ac_file_write cfg,
     ac_file_delete cfg, ac_network cfg, ac_destructive cfg, ac_display_control cfg}"
  unfolding shell_rule_max by auto

lemma with_overrides_Deny:
  "rule_for cfg c = Deny \<Longrightarrow> rule_for (with_overrides cfg v) c = Deny"
  by (cases c) (auto simp: with_overrides_def shell_rule_Deny_iff)

lemma effective_rule_Deny:
  "rule_for (as_rules st) c = Deny \<Longrightarrow> effective_rule_for st s c = Deny"
  by (auto simp: effective_rule_for_def effective_rules_def with_overrides_Deny split: option.split)

text \<open>
  C31: a category the owner denies globally stays denied in every session, whatever its
  dial: the effective rule is \<open>Deny\<close>, a controller tool call is refused, an external
  agent's request is rejected below Full, and no undisplayed action passes unprompted
  below Full.
\<close>

theorem deny_floor:
  assumes "rule_for (as_rules st) c = Deny"
  shows "effective_rule_for st s c = Deny
    \<and> (c = ToolCall \<longrightarrow> controller_tool_decision st s = CtlDeny)
    \<and> (effective_level st s \<noteq> FullLevel \<longrightarrow> external_approval_decision st s c = ExtReject)
    \<and> (effective_level st s \<noteq> FullLevel \<and> c \<noteq> DisplayControl \<longrightarrow> needs_approval st s c)"
proof -
  from effective_rule_Deny [OF assms] have "rule_for (effective_rules st s) c = Deny"
    by (simp add: effective_rule_for_def)
  then show ?thesis by (auto simp: decision_defs Let_def)
qed

theorem deny_floor_witness:
  "let st = set_session_dial (new_autonomy MediumLevel (default_approval_config\<lparr>ac_network := Deny\<rparr>)) ''s''
        (empty_dial\<lparr>dc_approvals := Some \<lparr> ao_file_read = None, ao_file_write = None,
           ao_file_delete = None, ao_command_exec = Some Auto, ao_network = Some Auto,
           ao_destructive = None, ao_display_control = None, ao_tool_call = None \<rparr>\<rparr>)
   in effective_rule_for st (Some ''s'') CommandExec = Deny"
proof -
  let ?v = "\<lparr> ao_file_read = None, ao_file_write = None, ao_file_delete = None,
     ao_command_exec = Some Auto, ao_network = Some Auto, ao_destructive = None,
     ao_display_control = None, ao_tool_call = None \<rparr>"
  let ?st = "set_session_dial (new_autonomy MediumLevel (default_approval_config\<lparr>ac_network := Deny\<rparr>))
    ''s'' (empty_dial\<lparr>dc_approvals := Some ?v\<rparr>)"
  have "rule_for (as_rules ?st) CommandExec = Deny"
    by (simp add: set_session_dial_def new_autonomy_def default_approval_config_def shell_rule_def)
  from deny_floor [OF this, of "Some ''s''"] show ?thesis by (simp add: Let_def)
qed

section \<open>Monotonicity of the prompt\<close>

definition config_le :: "approval_config \<Rightarrow> approval_config \<Rightarrow> bool" where
  "config_le a b = (ac_file_read a \<le> ac_file_read b \<and> ac_file_write a \<le> ac_file_write b
     \<and> ac_file_delete a \<le> ac_file_delete b \<and> ac_command_exec a \<le> ac_command_exec b
     \<and> ac_network a \<le> ac_network b \<and> ac_destructive a \<le> ac_destructive b
     \<and> ac_display_control a \<le> ac_display_control b \<and> ac_tool_call a \<le> ac_tool_call b)"

lemma rule_for_mono: "config_le a b \<Longrightarrow> rule_for a c \<le> rule_for b c"
  by (cases c)
    (auto simp: config_le_def shell_rule_le_iff intro: order_trans [OF _ shell_rule_ge(1)]
      order_trans [OF _ shell_rule_ge(2)] order_trans [OF _ shell_rule_ge(3)]
      order_trans [OF _ shell_rule_ge(4)] order_trans [OF _ shell_rule_ge(5)]
      order_trans [OF _ shell_rule_ge(6)] order_trans [OF _ shell_rule_ge(7)])

text \<open>
  The prompt is monotone: tightening the level, any rules or the display grant never
  removes a prompt.
\<close>

theorem needs_approval_monotone:
  assumes "effective_level st' t \<le> effective_level st s"
    and "config_le (effective_rules st s) (effective_rules st' t)"
    and "as_user_display_granted st' \<longrightarrow> as_user_display_granted st"
    and "needs_approval st s c"
  shows "needs_approval st' t c"
proof -
  have "rule_for (effective_rules st s) c \<le> rule_for (effective_rules st' t) c"
    using assms(2) by (rule rule_for_mono)
  with assms show ?thesis
    by (cases "rule_for (effective_rules st s) c"; cases "rule_for (effective_rules st' t) c";
        cases "effective_level st s"; cases "effective_level st' t")
      (auto simp: needs_approval_def less_eq_autonomy_level_def less_eq_approval_rule_def
        split: if_splits)
qed

theorem needs_approval_monotone_witness:
  "needs_approval (new_autonomy LowLevel default_approval_config) None FileWrite"
  by (rule needs_approval_monotone [where st = default_autonomy and s = None])
    (simp_all add: default_autonomy_def new_autonomy_def effective_level_def effective_rules_def
      session_dial_def less_eq_autonomy_level_def config_le_def needs_approval_def
      default_approval_config_def)

section \<open>Sessions do not share dials or approvals\<close>

datatype session_op = SetDial dial_config | EscalateFull | ApproveCommand string

fun run_session_op :: "string \<Rightarrow> autonomy_state \<Rightarrow> session_op \<Rightarrow> autonomy_state" where
  "run_session_op s st (SetDial d) = set_session_dial st s d"
| "run_session_op s st EscalateFull = set_session_autonomy_full st s"
| "run_session_op s st (ApproveCommand src) = record_approved_command st (Some s) src"

definition same_for :: "string \<Rightarrow> autonomy_state \<Rightarrow> autonomy_state \<Rightarrow> bool" where
  "same_for t st st' = (as_level st' = as_level st \<and> as_rules st' = as_rules st
     \<and> as_user_display_granted st' = as_user_display_granted st
     \<and> as_session_dials st' t = as_session_dials st t
     \<and> as_approved_commands st' t = as_approved_commands st t)"

lemma same_for_op: "s \<noteq> t \<Longrightarrow> same_for t st (run_session_op s st x)"
  by (cases x) (auto simp: same_for_def set_session_dial_def set_session_autonomy_full_def
      record_approved_command_def Let_def)

lemma same_for_ops: "s \<noteq> t \<Longrightarrow> same_for t st (foldl (run_session_op s) st xs)"
proof (induction xs rule: rev_induct)
  case (snoc x xs)
  then show ?case
    using same_for_op [of s t "foldl (run_session_op s) st xs" x] by (simp add: same_for_def)
qed (simp add: same_for_def)

lemma same_for_decisions:
  assumes "same_for t st st'"
  shows "needs_approval st' (Some t) c = needs_approval st (Some t) c"
    and "external_approval_decision st' (Some t) c = external_approval_decision st (Some t) c"
    and "controller_tool_decision st' (Some t) = controller_tool_decision st (Some t)"
    and "was_command_approved st' (Some t) src = was_command_approved st (Some t) src"
proof -
  have eff: "effective_level st' (Some t) = effective_level st (Some t)"
      "effective_rules st' (Some t) = effective_rules st (Some t)"
    using assms
    by (auto simp: same_for_def effective_level_def effective_rules_def session_dial_def
        split: option.split)
  with assms show "needs_approval st' (Some t) c = needs_approval st (Some t) c"
    by (simp add: needs_approval_def same_for_def)
  then show "external_approval_decision st' (Some t) c = external_approval_decision st (Some t) c"
    using eff by (simp add: external_approval_decision_def effective_rule_for_def)
  have "needs_approval st' (Some t) ToolCall = needs_approval st (Some t) ToolCall"
    using eff assms by (simp add: needs_approval_def same_for_def)
  then show "controller_tool_decision st' (Some t) = controller_tool_decision st (Some t)"
    using eff by (simp add: controller_tool_decision_def effective_rule_for_def)
  show "was_command_approved st' (Some t) src = was_command_approved st (Some t) src"
    using assms by (simp add: was_command_approved_def same_for_def)
qed

text \<open>
  Whatever one session's dial, escalation and approvals do, every decision about
  another session, and every approval remembered for it, stays what it was.
\<close>

theorem session_isolation:
  assumes "s \<noteq> t" and "st' = foldl (run_session_op s) st xs"
  shows "needs_approval st' (Some t) c = needs_approval st (Some t) c
    \<and> external_approval_decision st' (Some t) c = external_approval_decision st (Some t) c
    \<and> controller_tool_decision st' (Some t) = controller_tool_decision st (Some t)
    \<and> was_command_approved st' (Some t) src = was_command_approved st (Some t) src"
  using same_for_decisions [OF same_for_ops [OF assms(1), of st xs]] assms(2) by simp

theorem session_isolation_witness:
  "let st' = foldl (run_session_op ''a'') default_autonomy [EscalateFull, ApproveCommand ''exec: ls'']
   in \<not> needs_approval st' (Some ''a'') FileWrite \<and> needs_approval st' (Some ''b'') FileWrite
      \<and> \<not> was_command_approved st' (Some ''b'') ''exec: ls''"
proof -
  let ?st = "foldl (run_session_op ''a'') default_autonomy [EscalateFull, ApproveCommand ''exec: ls'']"
  have "\<not> needs_approval ?st (Some ''a'') FileWrite"
    by (simp add: needs_approval_def effective_level_def session_dial_def default_autonomy_def
        set_session_autonomy_full_def record_approved_command_def)
  moreover have "needs_approval default_autonomy (Some ''b'') FileWrite"
    "\<not> was_command_approved default_autonomy (Some ''b'') ''exec: ls''"
    by (simp_all add: needs_approval_def effective_level_def effective_rules_def session_dial_def
        default_autonomy_def default_approval_config_def was_command_approved_def)
  ultimately show ?thesis
    using session_isolation [of "''a''" "''b''" ?st default_autonomy
        "[EscalateFull, ApproveCommand ''exec: ls'']" FileWrite "''exec: ls''"]
    by (simp add: Let_def)
qed

section \<open>Signatures\<close>

lemma sort_key_fst_unique:
  assumes "distinct (map fst xs)" "distinct (map fst ys)" "map_of xs = map_of ys"
  shows "sort_key fst xs = sort_key fst ys"
proof -
  have sets: "set xs = set ys"
    using assms by (metis map_of_inject_set)
  have "inj_on fst (set xs)"
    using assms(1) by (simp add: distinct_map)
  then show ?thesis
    using assms sets
    by (intro map_sorted_distinct_set_unique [where f = fst])
      (auto simp: distinct_map inj_on_def)
qed

lemma stream_filter:
  "concat (map (\<lambda>(k, v). if k = n then [] else g k v) xs)
     = concat (map (\<lambda>(k, v). g k v) (filter (\<lambda>p. fst p \<noteq> n) xs))"
  by (induction xs) auto

lemma map_of_filter_key:
  "map_of (filter (\<lambda>p. fst p \<noteq> n) xs) = (map_of xs)(n := None)"
  by (induction xs) (auto simp: fun_eq_iff)

text \<open>
  The content digest of a runtime command ignores its nonce and the order of its
  fields: two commands that agree on every other field have the same digest, so a retry
  is recognised.
\<close>

theorem command_digest_ignores_nonce:
  assumes "distinct (map fst kvs)" "distinct (map fst kvs')"
    and "\<And>k. k \<noteq> ''nonce'' \<Longrightarrow> map_of kvs k = map_of kvs' k"
  shows "command_content_digest finish render (JObj kvs)
       = command_content_digest finish render (JObj kvs')"
proof -
  let ?f = "filter (\<lambda>p. fst p \<noteq> ''nonce'')"
  have "map_of (?f kvs) = map_of (?f kvs')"
    unfolding map_of_filter_key using assms(3) by (auto simp: fun_eq_iff)
  then have "sort_key fst (?f kvs) = sort_key fst (?f kvs')"
    using assms(1,2) by (intro sort_key_fst_unique) (auto simp: distinct_map_filter)
  then have "?f (sort_key fst kvs) = ?f (sort_key fst kvs')"
    by (simp add: filter_sort)
  then show ?thesis
    by (simp add: command_content_digest_def stream_filter)
qed

theorem command_digest_ignores_nonce_witness:
  "command_content_digest (\<lambda>s. of_nat (length s)) (\<lambda>_. ''1'')
       (JObj [(''nonce'', JInt 1), (''function'', JStr ''writeFile''), (''content'', JStr ''x'')])
   = command_content_digest (\<lambda>s. of_nat (length s)) (\<lambda>_. ''1'')
       (JObj [(''content'', JStr ''x''), (''function'', JStr ''writeFile''), (''nonce'', JInt 2)])"
  by (rule command_digest_ignores_nonce) auto

text \<open>
  The stream the hasher is fed does not mark where an object or an array ends, so moving a
  field out of a nested object can leave the signature of a tool call unchanged, whatever
  the digest.
\<close>

theorem tool_signature_collision:
  "controller_tool_dedup_source finish render tool
     (JObj [(''a'', JObj [(''b'', JInt 1), (''c'', JInt 2)])])
   = controller_tool_dedup_source finish render tool
     (JObj [(''a'', JObj [(''b'', JInt 1)]), (''c'', JInt 2)])"
  by (simp add: controller_tool_dedup_source_def hash_str_def)

section \<open>Labels never weaken the shell rule\<close>

lemma classify_single_subset:
  "set (classify_single_command uni cmd) \<subseteq> {Destructive, NetworkRequest, FileWrite}"
  by (auto simp: classify_single_command_def Let_def)

lemma classify_shell_subset:
  "set (classify_shell_command uni cmd) \<subseteq> {CommandExec, Destructive, NetworkRequest, FileWrite}"
  using classify_single_subset by (fastforce simp: classify_shell_command_def)

lemma hd_classify_shell: "hd (classify_shell_command uni cmd) = CommandExec"
  by (simp add: classify_shell_command_def)

text \<open>
  A shell command always carries \<open>CommandExec\<close>, first; its rule is at least as strict as
  that of every label the classifier found, and a label that would prompt never prompts
  where \<open>CommandExec\<close> would not. A spelling the classifier misses cannot weaken policy.
\<close>

theorem shell_labels_never_weaken:
  assumes "c \<in> set (classify_shell_command uni cmd)"
  shows "hd (classify_shell_command uni cmd) = CommandExec
    \<and> rule_for cfg c \<le> rule_for cfg CommandExec
    \<and> (needs_approval st s c \<longrightarrow> needs_approval st s CommandExec)"
proof -
  have reach: "c \<in> shell_reach - {DisplayControl}"
    using assms classify_shell_subset by (fastforce simp: shell_reach_def)
  then have le: "rule_for r c \<le> rule_for r CommandExec" for r
    using rule_for_le_shell by simp
  have "needs_approval st s CommandExec" if "needs_approval st s c"
    using le [of "effective_rules st s"] that reach
    by (cases "rule_for (effective_rules st s) c"; cases "shell_rule (effective_rules st s)";
        cases "effective_level st s")
      (auto simp: needs_approval_def shell_reach_def less_eq_approval_rule_def split: if_splits)
  with le show ?thesis by (simp add: hd_classify_shell)
qed

theorem shell_labels_never_weaken_witness:
  "needs_approval default_autonomy None CommandExec"
proof -
  have "Destructive \<in> set (classify_shell_command id ''rm x'')"
    by code_simp
  moreover have "needs_approval default_autonomy None Destructive"
    by (simp add: needs_approval_def effective_level_def effective_rules_def session_dial_def
        default_autonomy_def default_approval_config_def)
  ultimately show ?thesis
    using shell_labels_never_weaken by blast
qed

text \<open>
  The splitter looks for \<open>&&\<close> first: a \<open>;\<close> before it on the same line is not split, and the
  command after the \<open>;\<close> is not classified. Without the \<open>&&\<close> it is.
\<close>

theorem semicolon_missed_before_and:
  "split_shell_commands ''ls ; kill 1 && true'' = [''ls ; kill 1'', ''true'']
   \<and> split_shell_commands ''ls ; kill 1'' = [''ls'', ''kill 1'']
   \<and> classify_shell_command id ''ls ; kill 1 && true'' = [CommandExec]
   \<and> classify_shell_command id ''ls ; kill 1'' = [CommandExec, Destructive]"
  by (intro conjI) code_simp+

end
