(* ===== verification/AccessPolicy.thy ===== *)
theory AccessPolicy
  imports Prelude
begin

text \<open>
  Peer relationship policy (\<open>src/src/bin/caller/access/access_policy.rs\<close>, with
  \<open>operation_permission_id\<close> of \<open>access/iam.rs\<close>): the operations a machine principal can
  ask for, the profiles that grant them, the classification of realtime frames, control
  messages and federation requests into operations.
\<close>

section \<open>Operations and profiles\<close>

datatype profile_class =
    PresenceOnly | Stats | SessionReader | ReadOnlyDisplay | SharedSessionSpectator
  | FileReader | FileOperator | TerminalOperator | TaskRunner | Operator | AdminPeer
  | CloudWorker | AgentOperator

datatype peer_operation =
    OpPresenceRead | OpStatsRead | OpDisplayView | OpDisplayInput | OpMessage | OpTask |
  OpApproval | OpAccessInspect | OpAccessManage | OpPeerInspect | OpPeerManage | OpPeerUse |
  OpSessionInspect | OpSessionManage | OpTerminalView | OpTerminalWrite | OpShellSpawn |
  OpSettings | OpCredentialsManage | OpRuntimeControl | OpFilesystemRead | OpFilesystemWrite |
  OpAgendaRead | OpAgendaWrite | OpFeedbackWrite | OpMemoryRead | OpMemoryWrite

definition all_operations :: "peer_operation list" where
  "all_operations = [
     OpPresenceRead, OpStatsRead, OpDisplayView, OpDisplayInput, OpMessage, OpTask, OpApproval,
     OpAccessInspect, OpAccessManage, OpPeerInspect, OpPeerManage, OpPeerUse, OpSessionInspect,
     OpSessionManage, OpTerminalView, OpTerminalWrite, OpShellSpawn, OpSettings,
     OpCredentialsManage, OpRuntimeControl, OpFilesystemRead, OpFilesystemWrite, OpAgendaRead,
     OpAgendaWrite, OpFeedbackWrite, OpMemoryRead, OpMemoryWrite]"

lemma all_operations_complete: "op \<in> set all_operations"
  by (cases op) (simp_all add: all_operations_def)

fun operation_permission_id :: "peer_operation \<Rightarrow> string" where
  "operation_permission_id OpPresenceRead = ''presence.read''"
| "operation_permission_id OpStatsRead = ''stats.read''"
| "operation_permission_id OpDisplayView = ''display.view''"
| "operation_permission_id OpDisplayInput = ''display.input''"
| "operation_permission_id OpMessage = ''message.send''"
| "operation_permission_id OpTask = ''task.run''"
| "operation_permission_id OpApproval = ''approval.resolve''"
| "operation_permission_id OpAccessInspect = ''access.inspect''"
| "operation_permission_id OpAccessManage = ''access.manage''"
| "operation_permission_id OpPeerInspect = ''peer.inspect''"
| "operation_permission_id OpPeerManage = ''peer.manage''"
| "operation_permission_id OpPeerUse = ''peer.use''"
| "operation_permission_id OpSessionInspect = ''session.inspect''"
| "operation_permission_id OpSessionManage = ''session.manage''"
| "operation_permission_id OpTerminalView = ''terminal.view''"
| "operation_permission_id OpTerminalWrite = ''terminal.write''"
| "operation_permission_id OpShellSpawn = ''shell.spawn''"
| "operation_permission_id OpSettings = ''settings.manage''"
| "operation_permission_id OpCredentialsManage = ''credentials.manage''"
| "operation_permission_id OpRuntimeControl = ''runtime.control''"
| "operation_permission_id OpFilesystemRead = ''filesystem.read''"
| "operation_permission_id OpFilesystemWrite = ''filesystem.write''"
| "operation_permission_id OpAgendaRead = ''agenda.read''"
| "operation_permission_id OpAgendaWrite = ''agenda.write''"
| "operation_permission_id OpFeedbackWrite = ''feedback.write''"
| "operation_permission_id OpMemoryRead = ''memory.read''"
| "operation_permission_id OpMemoryWrite = ''memory.write''"

text \<open>\<open>normalize_profile\<close> trims, bounds the length, restricts the alphabet and folds the case.\<close>

datatype policy_error =
    ProfileEmpty | ProfileTooLong | ProfileBadChar
  | UnknownPeerProfile string | UnknownAgentProfile string
  | InvalidFingerprint string | IdentityRequired | NoIdentity string | ManyIdentities string
  | FingerprintRequired | InvalidSelector string | NoSelectorMatch string
  | AmbiguousSelector string "(string \<times> string) list"
  | IdentityRevoked string string | AgentVocabularyOnPeer string
  | IoError | ParseError

definition is_ascii_alphanumeric :: "char \<Rightarrow> bool" where
  "is_ascii_alphanumeric c = (let n = (of_char c :: nat) in
     (48 \<le> n \<and> n \<le> 57) \<or> (65 \<le> n \<and> n \<le> 90) \<or> (97 \<le> n \<and> n \<le> 122))"

definition profile_char :: "char \<Rightarrow> bool" where
  "profile_char c = (is_ascii_alphanumeric c \<or> c \<in> {CHR ''-'', CHR ''_'', CHR '':'', CHR ''.''})"

definition normalize_profile :: "string \<Rightarrow> policy_error + string" where
  "normalize_profile raw = (let profile = trim raw in
     if profile = [] then Inl ProfileEmpty
     else if length profile > 64 then Inl ProfileTooLong
     else if \<not> list_all profile_char profile then Inl ProfileBadChar
     else Inr (to_ascii_lowercase profile))"

definition profiles :: "(string \<times> profile_class) list" where
  "profiles = [
     (''presence-only'', PresenceOnly),
     (''stats'', Stats),
     (''session-reader'', SessionReader),
     (''read-only-display'', ReadOnlyDisplay),
     (''shared-session-spectator'', SharedSessionSpectator),
     (''file-reader'', FileReader),
     (''file-operator'', FileOperator),
     (''terminal-operator'', TerminalOperator),
     (''task-runner'', TaskRunner),
     (''peer-operator'', Operator),
     (''peer-root'', AdminPeer)]"

definition system_profiles :: "(string \<times> profile_class) list" where
  "system_profiles = [(''cloud-worker'', CloudWorker)]"

definition agent_profiles :: "(string \<times> profile_class) list" where
  "agent_profiles = [(''agent-operator'', AgentOperator)]"

definition profile_aliases :: "(string \<times> string) list" where
  "profile_aliases = [
     (''presence'', ''presence-only''),
     (''stats-only'', ''stats''),
     (''sessions-read'', ''session-reader''),
     (''session-inspect'', ''session-reader''),
     (''logs-read'', ''session-reader''),
     (''display-read-only'', ''read-only-display''),
     (''spectator'', ''shared-session-spectator''),
     (''files-read'', ''file-reader''),
     (''filesystem-read-only'', ''file-reader''),
     (''files'', ''file-operator''),
     (''filesystem-operator'', ''file-operator''),
     (''peer-terminal-operator'', ''terminal-operator''),
     (''terminal'', ''terminal-operator''),
     (''shell'', ''terminal-operator''),
     (''operator'', ''peer-operator''),
     (''admin-peer'', ''peer-root''),
     (''admin'', ''peer-root''),
     (''peer-daemon'', ''peer-root'')]"

lemmas profile_tables = profiles_def system_profiles_def agent_profiles_def profile_aliases_def

definition canonical_profile_entry :: "string \<Rightarrow> (string \<times> profile_class) option" where
  "canonical_profile_entry normalized =
    (let canonical = (case map_of profile_aliases normalized of None \<Rightarrow> normalized | Some c \<Rightarrow> c)
     in find (\<lambda>(name, _). name = canonical) profiles)"

definition profile_class_of :: "string \<Rightarrow> profile_class" where
  "profile_class_of profile = (let normalized = to_ascii_lowercase (trim profile) in
     case canonical_profile_entry normalized of
       Some (_, c) \<Rightarrow> c
     | None \<Rightarrow> (case find (\<lambda>(name, _). name = normalized) (system_profiles @ agent_profiles) of
           Some (_, c) \<Rightarrow> c
         | None \<Rightarrow> PresenceOnly))"

definition require_known_profile :: "string \<Rightarrow> policy_error + string" where
  "require_known_profile raw = rbind (normalize_profile raw) (\<lambda>normalized.
     case canonical_profile_entry normalized of
       Some (name, _) \<Rightarrow> Inr name
     | None \<Rightarrow> Inl (UnknownPeerProfile normalized))"

definition require_known_agent_profile :: "string \<Rightarrow> policy_error + string" where
  "require_known_agent_profile raw = rbind (normalize_profile raw) (\<lambda>normalized.
     case find (\<lambda>(name, _). name = normalized) agent_profiles of
       Some (name, _) \<Rightarrow> Inr name
     | None \<Rightarrow> (case require_known_profile normalized of
           Inr name \<Rightarrow> Inr name
         | Inl _ \<Rightarrow> Inl (UnknownAgentProfile normalized)))"

fun class_allows :: "profile_class \<Rightarrow> peer_operation \<Rightarrow> bool" where
  "class_allows CloudWorker op = False"
| "class_allows PresenceOnly op = (op = OpPresenceRead)"
| "class_allows Stats op = (op \<in> {OpPresenceRead, OpStatsRead})"
| "class_allows SessionReader op = (op \<in> {OpPresenceRead, OpStatsRead, OpSessionInspect})"
| "class_allows ReadOnlyDisplay op = (op \<in> {OpPresenceRead, OpStatsRead, OpDisplayView})"
| "class_allows SharedSessionSpectator op =
     (op \<in> {OpPresenceRead, OpStatsRead, OpDisplayView, OpSessionInspect})"
| "class_allows FileReader op = (op \<in> {OpPresenceRead, OpStatsRead, OpFilesystemRead})"
| "class_allows FileOperator op =
     (op \<in> {OpPresenceRead, OpStatsRead, OpFilesystemRead, OpFilesystemWrite})"
| "class_allows TerminalOperator op =
     (op \<in> {OpPresenceRead, OpStatsRead, OpSessionInspect, OpTerminalView, OpTerminalWrite,
            OpShellSpawn})"
| "class_allows TaskRunner op = (op \<in> {OpPresenceRead, OpStatsRead, OpMessage, OpTask})"
| "class_allows Operator op =
     (op \<in> {OpPresenceRead, OpStatsRead, OpSessionInspect, OpDisplayView, OpDisplayInput,
            OpMessage, OpTask, OpApproval})"
| "class_allows AdminPeer op = (op \<notin> {OpAccessManage, OpCredentialsManage})"
| "class_allows AgentOperator op = (op \<notin> {OpAccessManage, OpCredentialsManage})"

definition profile_allows_operation :: "string \<Rightarrow> peer_operation \<Rightarrow> bool" where
  "profile_allows_operation profile op = class_allows (profile_class_of profile) op"

definition profile_operation_permission_ids :: "string \<Rightarrow> string list" where
  "profile_operation_permission_ids profile =
     map operation_permission_id (filter (profile_allows_operation profile) all_operations)"

definition profile_fits_under :: "string \<Rightarrow> string \<Rightarrow> bool" where
  "profile_fits_under granted cap = list_all
     (\<lambda>op. \<not> profile_allows_operation granted op \<or> profile_allows_operation cap op) all_operations"

section \<open>The dashboard-control tunnel and realtime frames\<close>

definition tunnel_operations :: "peer_operation list" where
  "tunnel_operations = [OpSessionInspect, OpFilesystemRead, OpFilesystemWrite, OpTerminalView,
     OpDisplayView, OpMessage]"

definition profile_allows_dashboard_control_tunnel :: "string \<Rightarrow> bool" where
  "profile_allows_dashboard_control_tunnel profile =
     list_ex (profile_allows_operation profile) tunnel_operations"

datatype frame_lane = Ws | Tunnel

text \<open>One row per frame kind: its tag, its floor operation, and the lanes that carry it.\<close>

definition frame_lanes :: "(string \<times> peer_operation option \<times> bool \<times> bool) list" where
  "frame_lanes = [
     (''terminal_open'', Some OpTerminalView, True, True),
     (''terminal_input'', Some OpTerminalWrite, True, True),
     (''terminal_resize'', Some OpTerminalWrite, True, True),
     (''terminal_close'', Some OpTerminalWrite, True, True),
     (''terminal_share'', Some OpTerminalWrite, True, True),
     (''display_input'', Some OpDisplayInput, True, True),
     (''display_open'', Some OpDisplayView, False, True),
     (''display_close'', Some OpDisplayView, False, True),
     (''set_diagnostics_visual_marker'', Some OpDisplayInput, True, False),
     (''display_offer'', Some OpDisplayView, True, False),
     (''display_ice'', Some OpDisplayView, True, False),
     (''presence_connect'', Some OpRuntimeControl, True, False),
     (''presence_disconnect'', Some OpRuntimeControl, True, False),
     (''make_active'', Some OpRuntimeControl, True, False),
     (''user_audio'', Some OpRuntimeControl, True, False),
     (''video_frame'', Some OpRuntimeControl, True, False),
     (''voice_log'', Some OpRuntimeControl, True, False),
     (''voice_diagnostic'', Some OpRuntimeControl, True, False),
     (''presence_checkpoint'', Some OpRuntimeControl, True, False),
     (''live_usage_update'', Some OpRuntimeControl, True, False),
     (''voice_start'', Some OpRuntimeControl, True, False),
     (''voice_stop'', Some OpRuntimeControl, True, False),
     (''voice_usage'', Some OpRuntimeControl, True, False),
     (''voice_thread_purge'', Some OpRuntimeControl, True, False),
     (''annotation_attach'', Some OpRuntimeControl, True, False),
     (''annotation_submit'', Some OpRuntimeControl, True, False),
     (''clip_start'', Some OpRuntimeControl, True, False),
     (''clip_frame'', Some OpRuntimeControl, True, False),
     (''clip_end'', Some OpRuntimeControl, True, False),
     (''tool_request'', Some OpMessage, True, False),
     (''async_query'', Some OpMessage, True, False),
     (''dashboard_control_offer'', None, True, False),
     (''dashboard_control_ice'', None, True, False),
     (''dashboard_control_close'', None, True, False),
     (''presence_frame'', Some OpRuntimeControl, False, True),
     (''upload_start'', None, False, True),
     (''upload_chunk'', None, False, True),
     (''upload_end'', None, False, True),
     (''egress_response'', Some OpCredentialsManage, False, True),
     (''egress_chunk'', Some OpCredentialsManage, False, True),
     (''egress_end'', Some OpCredentialsManage, False, True),
     (''egress_error'', Some OpCredentialsManage, False, True),
     (''egress_request_ack'', Some OpCredentialsManage, False, True),
     (''ping'', None, True, True)]"


definition frame_operation :: "frame_lane \<Rightarrow> string \<Rightarrow> peer_operation option" where
  "frame_operation lane frame_type =
    (case find (\<lambda>(f, _, ws, tunnel). f = frame_type
                  \<and> (case lane of Ws \<Rightarrow> ws | Tunnel \<Rightarrow> tunnel)) frame_lanes of
       None \<Rightarrow> None | Some (_, op, _) \<Rightarrow> op)"

section \<open>Control messages\<close>

text \<open>The variants of \<open>ControlMsg\<close>, grouped by what they address; the classification reads no payload.\<close>

datatype conversation_msg =
    CmStatus | CmUsage | CmInput | CmFollowUp | CmCancelFollowUp | CmSteer | CmCancelSteer
    | CmStartTask | CmEditUserMessage | CmQueryDetail | CmApprove | CmDeny | CmSkip | CmApproveAll
    | CmAnswerQuestion | CmHoldQuestion | CmInvokeSkill | CmInterrupt | CmQuit

datatype session_msg =
    CmCreateSession | CmSpawnSubAgent | CmResumeSession | CmForkSessionAtAnchor
    | CmCodexThreadAction | CmRenameSession | CmStopSession | CmRestartSession
    | CmReloadCredentials | CmReloadCredentialsAll | CmConfigureSessionAgent

datatype peer_msg =
    CmWebRtcSignal | CmPeerDashboardControlSignal | CmHostedCertificateWitness
    | CmPeerFileTransferSignal

datatype settings_msg =
    CmSetCodexCommand | CmSetCodexManagedCommand | CmSetKimiCommand | CmSetAutonomy
    | CmSetApprovalRule | CmSetExternalAgent | CmSetCodexSandbox | CmSetCodexApprovalPolicy
    | CmSetCodexModel | CmSetCodexReasoningEffort | CmSetCodexServiceTier | CmSetCodexWebSearch
    | CmSetCodexNetworkAccess | CmSetCodexWritableRoots | CmSetCodexManagedContext
    | CmSetCodexContextArchive | CmSetClaudeModel | CmSetClaudeEffort | CmSetClaudePermissionMode
    | CmSetClaudeAllowedTools | CmSetKimiModel | CmSetKimiThinking | CmSetKimiPermissionMode
    | CmSetKimiPlanMode | CmSetKimiSwarmMode | CmSetKimiAllowedTools | CmSetVerbosity

datatype controller_msg =
    CmScheduleControllerRestart | CmControllerTurnComplete | CmGetRestartStatus
    | CmCancelControllerRestart | CmRequestControllerLoopHalt | CmClearControllerLoopHalt
    | CmInterveneControllerLoop | CmGetControllerLoopStatus

datatype display_msg =
    CmRequestDisplayInputAuthority | CmReleaseDisplayInputAuthority | CmTakeDisplay
    | CmReleaseDisplay | CmGrantUserDisplay | CmRevokeUserDisplay | CmResolveDisplayRequest
    | CmCreateVirtualDisplay | CmDestroyVirtualDisplay | CmSetDiagnosticsVisualMarker
    | CmListDisplays | CmCreateBrowserWorkspace | CmCloseBrowserWorkspace
    | CmAcquireBrowserWorkspace | CmReleaseBrowserWorkspace | CmSetupDebugScreen
    | CmTeardownDebugScreen | CmStartDebugRecording | CmStopDebugRecording | CmStartRecording
    | CmStopRecording | CmDeleteRecording

datatype control_kind =
    ConversationMsg conversation_msg | SessionMsg session_msg | PeerMsg peer_msg | SettingsMsg settings_msg
  | ControllerMsg controller_msg | DisplayMsg display_msg

fun conversation_msg_operation :: "conversation_msg \<Rightarrow> peer_operation" where
  "conversation_msg_operation CmStatus = OpPresenceRead"
| "conversation_msg_operation CmUsage = OpStatsRead"
| "conversation_msg_operation CmInput = OpMessage"
| "conversation_msg_operation CmFollowUp = OpMessage"
| "conversation_msg_operation CmCancelFollowUp = OpMessage"
| "conversation_msg_operation CmSteer = OpMessage"
| "conversation_msg_operation CmCancelSteer = OpMessage"
| "conversation_msg_operation CmStartTask = OpTask"
| "conversation_msg_operation CmEditUserMessage = OpTask"
| "conversation_msg_operation CmQueryDetail = OpStatsRead"
| "conversation_msg_operation CmApprove = OpApproval"
| "conversation_msg_operation CmDeny = OpApproval"
| "conversation_msg_operation CmSkip = OpApproval"
| "conversation_msg_operation CmApproveAll = OpApproval"
| "conversation_msg_operation CmAnswerQuestion = OpApproval"
| "conversation_msg_operation CmHoldQuestion = OpApproval"
| "conversation_msg_operation CmInvokeSkill = OpRuntimeControl"
| "conversation_msg_operation CmInterrupt = OpSessionManage"
| "conversation_msg_operation CmQuit = OpRuntimeControl"

fun session_msg_operation :: "session_msg \<Rightarrow> peer_operation" where
  "session_msg_operation CmCreateSession = OpTask"
| "session_msg_operation CmSpawnSubAgent = OpTask"
| "session_msg_operation CmResumeSession = OpTask"
| "session_msg_operation CmForkSessionAtAnchor = OpTask"
| "session_msg_operation CmCodexThreadAction = OpSessionManage"
| "session_msg_operation CmRenameSession = OpSessionManage"
| "session_msg_operation CmStopSession = OpSessionManage"
| "session_msg_operation CmRestartSession = OpSessionManage"
| "session_msg_operation CmReloadCredentials = OpSessionManage"
| "session_msg_operation CmReloadCredentialsAll = OpSessionManage"
| "session_msg_operation CmConfigureSessionAgent = OpSettings"

fun peer_msg_operation :: "peer_msg \<Rightarrow> peer_operation" where
  "peer_msg_operation CmWebRtcSignal = OpDisplayView"
| "peer_msg_operation CmPeerDashboardControlSignal = OpSessionInspect"
| "peer_msg_operation CmHostedCertificateWitness = OpPresenceRead"
| "peer_msg_operation CmPeerFileTransferSignal = OpFilesystemRead"

fun settings_msg_operation :: "settings_msg \<Rightarrow> peer_operation" where
  "settings_msg_operation CmSetCodexCommand = OpCredentialsManage"
| "settings_msg_operation CmSetCodexManagedCommand = OpCredentialsManage"
| "settings_msg_operation CmSetKimiCommand = OpCredentialsManage"
| "settings_msg_operation CmSetAutonomy = OpSettings"
| "settings_msg_operation CmSetApprovalRule = OpSettings"
| "settings_msg_operation CmSetExternalAgent = OpSettings"
| "settings_msg_operation CmSetCodexSandbox = OpSettings"
| "settings_msg_operation CmSetCodexApprovalPolicy = OpSettings"
| "settings_msg_operation CmSetCodexModel = OpSettings"
| "settings_msg_operation CmSetCodexReasoningEffort = OpSettings"
| "settings_msg_operation CmSetCodexServiceTier = OpSettings"
| "settings_msg_operation CmSetCodexWebSearch = OpSettings"
| "settings_msg_operation CmSetCodexNetworkAccess = OpSettings"
| "settings_msg_operation CmSetCodexWritableRoots = OpSettings"
| "settings_msg_operation CmSetCodexManagedContext = OpSettings"
| "settings_msg_operation CmSetCodexContextArchive = OpSettings"
| "settings_msg_operation CmSetClaudeModel = OpSettings"
| "settings_msg_operation CmSetClaudeEffort = OpSettings"
| "settings_msg_operation CmSetClaudePermissionMode = OpSettings"
| "settings_msg_operation CmSetClaudeAllowedTools = OpSettings"
| "settings_msg_operation CmSetKimiModel = OpSettings"
| "settings_msg_operation CmSetKimiThinking = OpSettings"
| "settings_msg_operation CmSetKimiPermissionMode = OpSettings"
| "settings_msg_operation CmSetKimiPlanMode = OpSettings"
| "settings_msg_operation CmSetKimiSwarmMode = OpSettings"
| "settings_msg_operation CmSetKimiAllowedTools = OpSettings"
| "settings_msg_operation CmSetVerbosity = OpSettings"

fun controller_msg_operation :: "controller_msg \<Rightarrow> peer_operation" where
  "controller_msg_operation CmScheduleControllerRestart = OpRuntimeControl"
| "controller_msg_operation CmControllerTurnComplete = OpRuntimeControl"
| "controller_msg_operation CmGetRestartStatus = OpRuntimeControl"
| "controller_msg_operation CmCancelControllerRestart = OpRuntimeControl"
| "controller_msg_operation CmRequestControllerLoopHalt = OpRuntimeControl"
| "controller_msg_operation CmClearControllerLoopHalt = OpRuntimeControl"
| "controller_msg_operation CmInterveneControllerLoop = OpRuntimeControl"
| "controller_msg_operation CmGetControllerLoopStatus = OpRuntimeControl"

fun display_msg_operation :: "display_msg \<Rightarrow> peer_operation" where
  "display_msg_operation CmRequestDisplayInputAuthority = OpDisplayInput"
| "display_msg_operation CmReleaseDisplayInputAuthority = OpDisplayInput"
| "display_msg_operation CmTakeDisplay = OpDisplayInput"
| "display_msg_operation CmReleaseDisplay = OpDisplayInput"
| "display_msg_operation CmGrantUserDisplay = OpDisplayInput"
| "display_msg_operation CmRevokeUserDisplay = OpDisplayInput"
| "display_msg_operation CmResolveDisplayRequest = OpDisplayInput"
| "display_msg_operation CmCreateVirtualDisplay = OpDisplayInput"
| "display_msg_operation CmDestroyVirtualDisplay = OpDisplayInput"
| "display_msg_operation CmSetDiagnosticsVisualMarker = OpDisplayInput"
| "display_msg_operation CmListDisplays = OpDisplayView"
| "display_msg_operation CmCreateBrowserWorkspace = OpRuntimeControl"
| "display_msg_operation CmCloseBrowserWorkspace = OpRuntimeControl"
| "display_msg_operation CmAcquireBrowserWorkspace = OpRuntimeControl"
| "display_msg_operation CmReleaseBrowserWorkspace = OpRuntimeControl"
| "display_msg_operation CmSetupDebugScreen = OpRuntimeControl"
| "display_msg_operation CmTeardownDebugScreen = OpRuntimeControl"
| "display_msg_operation CmStartDebugRecording = OpRuntimeControl"
| "display_msg_operation CmStopDebugRecording = OpRuntimeControl"
| "display_msg_operation CmStartRecording = OpRuntimeControl"
| "display_msg_operation CmStopRecording = OpRuntimeControl"
| "display_msg_operation CmDeleteRecording = OpRuntimeControl"

fun control_msg_operation :: "control_kind \<Rightarrow> peer_operation" where
  "control_msg_operation (ConversationMsg m) = conversation_msg_operation m"
| "control_msg_operation (SessionMsg m) = session_msg_operation m"
| "control_msg_operation (PeerMsg m) = peer_msg_operation m"
| "control_msg_operation (SettingsMsg m) = settings_msg_operation m"
| "control_msg_operation (ControllerMsg m) = controller_msg_operation m"
| "control_msg_operation (DisplayMsg m) = display_msg_operation m"

definition control_msg_requires_owner_dashboard :: "control_kind \<Rightarrow> bool" where
  "control_msg_requires_owner_dashboard m =
     (m \<in> DisplayMsg ` {CmGrantUserDisplay, CmResolveDisplayRequest, CmSetupDebugScreen,
           CmStartDebugRecording, CmStartRecording, CmSetDiagnosticsVisualMarker})"

definition profile_allows_control_msg :: "string \<Rightarrow> control_kind \<Rightarrow> bool" where
  "profile_allows_control_msg profile m =
    (if m = PeerMsg CmHostedCertificateWitness then False
     else if m = PeerMsg CmPeerDashboardControlSignal then profile_allows_dashboard_control_tunnel profile
     else profile_allows_operation profile (control_msg_operation m))"

definition profile_allows_federated_display_input :: "string \<Rightarrow> bool" where
  "profile_allows_federated_display_input profile = profile_allows_operation profile OpDisplayInput"

section \<open>Federation requests\<close>

definition under :: "string \<Rightarrow> string \<Rightarrow> bool" where
  "under path b = (path = b \<or> (case strip_prefix b path of
     None \<Rightarrow> False | Some rest \<Rightarrow> starts_with rest ''/''))"

definition peer_route_segments :: "string \<Rightarrow> string list" where
  "peer_route_segments path =
     (case strip_prefix ''/api/peers/'' path of None \<Rightarrow> [] | Some rest \<Rightarrow> split_on (CHR 0x2F) rest)"

definition peer_post_use :: "string \<Rightarrow> bool" where
  "peer_post_use path = (case peer_route_segments path of
     [pid, op] \<Rightarrow> pid \<noteq> [] \<and> op \<in> {''webrtc'', ''file-transfer-webrtc'',
        ''dashboard-control-webrtc'', ''message'', ''task'', ''approval'', ''session-control''}
   | _ \<Rightarrow> False)"

definition peer_get_use :: "string \<Rightarrow> bool" where
  "peer_get_use path = (case peer_route_segments path of
     [pid, op] \<Rightarrow> op = ''session-detail'' \<and> pid \<noteq> [] | _ \<Rightarrow> False)"

definition federation_http_operation :: "string \<Rightarrow> string \<Rightarrow> peer_operation option" where
  "federation_http_operation meth path =
    (if path = ''/api/access/overview'' \<or> path = ''/api/access/iam/state''
        \<or> path = ''/api/dashboard/targets'' then Some OpAccessInspect
     else if under path ''/api/peers/pairing/requests''
             \<or> under path ''/api/peers/pairing/identities'' then
       (if meth = ''GET'' then Some OpAccessInspect else Some OpAccessManage)
     else if under path ''/api/peers/pairing/invite'' then Some OpAccessManage
     else if starts_with path ''/api/peers/pairing/'' then Some OpPeerManage
     else if meth = ''POST'' \<and> peer_post_use path then Some OpPeerUse
     else if meth = ''GET'' \<and> peer_get_use path then Some OpPeerUse
     else if under path ''/api/peers'' then
       (if meth = ''GET'' then Some OpPeerInspect else Some OpPeerManage)
     else if starts_with path ''/api/coordinator/'' then Some OpPeerUse
     else if under path ''/api/sessions'' then Some OpSessionInspect
     else if under path ''/api/worktrees'' then Some OpSessionInspect
     else None)"

definition nth_or_empty :: "string list \<Rightarrow> nat \<Rightarrow> string" where
  "nth_or_empty xs i = (if i < length xs then xs ! i else [])"

definition profile_allows_federation_http :: "string \<Rightarrow> string \<Rightarrow> bool" where
  "profile_allows_federation_http profile request_line =
    (let parts = split_whitespace request_line;
         meth = nth_or_empty parts 0;
         path = hd (split_on (CHR ''?'') (nth_or_empty parts 1))
     in case federation_http_operation meth path of
          None \<Rightarrow> True | Some op \<Rightarrow> profile_allows_operation profile op)"

section \<open>Ceilings\<close>

text \<open>
  A capability relation over a finite list of all operations: one capability fits under
  another when it allows nothing more. The laws hold for any such relation.
\<close>

locale ceiling =
  fixes allows :: "'p \<Rightarrow> 'o \<Rightarrow> bool"
    and all_ops :: "'o list"
    and fits :: "'p \<Rightarrow> 'p \<Rightarrow> bool"
    and perm_id :: "'o \<Rightarrow> string"
  assumes complete: "op \<in> set all_ops"
    and fits_iff: "fits g c \<longleftrightarrow> list_all (\<lambda>op. \<not> allows g op \<or> allows c op) all_ops"
    and perm_id_inj: "perm_id a = perm_id b \<Longrightarrow> a = b"
begin

lemma fits_allows: "fits g c \<longleftrightarrow> (\<forall>op. allows g op \<longrightarrow> allows c op)"
  using complete by (auto simp: fits_iff list_all_iff)

lemma fits_refl: "fits g g"
  by (simp add: fits_allows)

lemma fits_trans: "fits a b \<Longrightarrow> fits b c \<Longrightarrow> fits a c"
  by (simp add: fits_allows)

lemma fits_perm_ids:
  "fits g c \<longleftrightarrow> set (map perm_id (filter (allows g) all_ops))
                 \<subseteq> set (map perm_id (filter (allows c) all_ops))"
proof -
  let ?S = "\<lambda>p. set (map perm_id (filter (allows p) all_ops))"
  have mem: "perm_id op \<in> ?S p \<longleftrightarrow> allows p op" for p op
    using complete perm_id_inj by auto
  have "?S g \<subseteq> ?S c \<longleftrightarrow> (\<forall>op. perm_id op \<in> ?S g \<longrightarrow> perm_id op \<in> ?S c)"
    by auto
  then show ?thesis unfolding fits_allows mem by simp
qed

end

lemma operation_permission_id_inj:
  "operation_permission_id a = operation_permission_id b \<Longrightarrow> a = b"
proof -
  have "distinct (map operation_permission_id all_operations)"
    by (simp add: all_operations_def)
  then have "inj_on operation_permission_id (set all_operations)"
    by (simp add: distinct_map)
  then show "operation_permission_id a = operation_permission_id b \<Longrightarrow> a = b"
    by (simp add: inj_on_def all_operations_complete)
qed

interpretation profiles: ceiling profile_allows_operation all_operations profile_fits_under
    operation_permission_id
  by unfold_locales
    (simp_all add: all_operations_complete profile_fits_under_def operation_permission_id_inj)

text \<open>
  Fitting under a cap is a preorder, it is what lets every operation of the granted
  profile through, and it is containment of the permission ids the two profiles advertise.
\<close>

theorem fits_under_is_containment:
  "profile_fits_under p p
   \<and> (profile_fits_under a b \<and> profile_fits_under b c \<longrightarrow> profile_fits_under a c)
   \<and> (profile_fits_under g cap \<longleftrightarrow>
        (\<forall>op. profile_allows_operation g op \<longrightarrow> profile_allows_operation cap op))
   \<and> (profile_fits_under g cap \<longleftrightarrow> set (profile_operation_permission_ids g)
                                    \<subseteq> set (profile_operation_permission_ids cap))"
  using profiles.fits_refl profiles.fits_trans profiles.fits_allows profiles.fits_perm_ids
  unfolding profile_operation_permission_ids_def by blast

theorem fits_under_is_containment_witness:
  "profile_fits_under ''presence-only'' ''peer-root''"
proof -
  have "profile_allows_operation ''presence-only'' op \<longrightarrow> profile_allows_operation ''peer-root'' op"
    for op
  proof -
    have "profile_class_of ''presence-only'' = PresenceOnly"
      "profile_class_of ''peer-root'' = AdminPeer" by code_simp+
    then show ?thesis by (simp add: profile_allows_operation_def)
  qed
  then show ?thesis using fits_under_is_containment by blast
qed

section \<open>Machine principals\<close>

lemma class_never_administers:
  "class_allows c op \<Longrightarrow> op \<notin> {OpAccessManage, OpCredentialsManage}"
  by (cases c) auto

lemma profile_never_administers:
  "profile_allows_operation p op \<Longrightarrow> op \<notin> {OpAccessManage, OpCredentialsManage}"
  unfolding profile_allows_operation_def by (rule class_never_administers)

lemma class_under_agent: "class_allows c op \<Longrightarrow> class_allows AgentOperator op"
  using class_never_administers by auto

lemma pairing_admin_routes:
  assumes "under path ''/api/peers/pairing/requests'' \<or> under path ''/api/peers/pairing/identities''"
    and "meth \<noteq> ''GET''"
  shows "federation_http_operation meth path = Some OpAccessManage"
proof -
  have "path \<notin> {''/api/access/overview'', ''/api/access/iam/state'', ''/api/dashboard/targets''}"
    using assms(1) by (auto simp: under_def strip_prefix_def)
  with assms show ?thesis by (simp add: federation_http_operation_def)
qed

lemma pairing_invite_route:
  assumes "under path ''/api/peers/pairing/invite''"
  shows "federation_http_operation meth path = Some OpAccessManage"
proof -
  have "path \<notin> {''/api/access/overview'', ''/api/access/iam/state'', ''/api/dashboard/targets''}"
    and "\<not> under path ''/api/peers/pairing/requests''"
    and "\<not> under path ''/api/peers/pairing/identities''"
    using assms by (auto simp: under_def strip_prefix_def starts_with_iff)
  with assms show ?thesis by (simp add: federation_http_operation_def)
qed

text \<open>
  C10: no profile string, known or not, lets a machine principal administer access or hold
  credentials: not by operation, not by repointing an agent's executable, and not by
  deciding pairing requests, editing identities or minting invites over HTTP.
\<close>

theorem machine_lane_never_administers:
  "\<not> profile_allows_operation p OpAccessManage
   \<and> \<not> profile_allows_operation p OpCredentialsManage
   \<and> (\<forall>m \<in> {CmSetCodexCommand, CmSetCodexManagedCommand, CmSetKimiCommand}.
        \<not> profile_allows_control_msg p (SettingsMsg m))
   \<and> (\<forall>meth path rest line.
        split_whitespace line = meth # path # rest \<longrightarrow>
        (under (hd (split_on (CHR ''?'') path)) ''/api/peers/pairing/invite''
         \<or> meth \<noteq> ''GET''
           \<and> (under (hd (split_on (CHR ''?'') path)) ''/api/peers/pairing/requests''
              \<or> under (hd (split_on (CHR ''?'') path)) ''/api/peers/pairing/identities'')) \<longrightarrow>
        \<not> profile_allows_federation_http p line)"
  using profile_never_administers [of p OpAccessManage]
    profile_never_administers [of p OpCredentialsManage]
  by (auto simp: profile_allows_control_msg_def profile_allows_federation_http_def nth_or_empty_def
      Let_def pairing_admin_routes pairing_invite_route)

theorem machine_lane_never_administers_witness:
  "\<not> profile_allows_federation_http ''peer-root''
      ''POST /api/peers/pairing/requests/7?x=1 HTTP/1.1''"
proof -
  have "split_whitespace ''POST /api/peers/pairing/requests/7?x=1 HTTP/1.1''
      = [''POST'', ''/api/peers/pairing/requests/7?x=1'', ''HTTP/1.1'']"
    by code_simp
  moreover have "under (hd (split_on (CHR ''?'') ''/api/peers/pairing/requests/7?x=1''))
      ''/api/peers/pairing/requests''"
    by code_simp
  ultimately show ?thesis
    using machine_lane_never_administers [of "''peer-root''"] by simp
qed

text \<open>
  Every profile fits under the agent ceiling, \<open>peer-root\<close> reaches exactly the same
  operations, and a cloud worker may do nothing.
\<close>

theorem agent_operator_is_top:
  "profile_fits_under p ''agent-operator''
   \<and> profile_fits_under ''agent-operator'' ''peer-root''
   \<and> profile_fits_under ''cloud-worker'' p
   \<and> profile_operation_permission_ids ''cloud-worker'' = []"
proof -
  have cls: "profile_class_of ''agent-operator'' = AgentOperator"
    "profile_class_of ''peer-root'' = AdminPeer"
    "profile_class_of ''cloud-worker'' = CloudWorker"
    by code_simp+
  then show ?thesis
    using class_under_agent
    by (auto simp: profiles.fits_allows profile_allows_operation_def
        profile_operation_permission_ids_def)
qed

section \<open>Names\<close>

lemma canonical_fixed:
  assumes "canonical_profile_entry n = Some (name, c)"
  shows "(name, c) \<in> set profiles \<and> canonical_profile_entry name = Some (name, c)"
proof -
  have "(name, c) \<in> set profiles"
    using assms by (auto simp: canonical_profile_entry_def Let_def dest: find_Some_in)
  moreover have "list_all (\<lambda>(m, k). canonical_profile_entry m = Some (m, k)) profiles"
    by code_simp
  ultimately show ?thesis by (auto simp: list_all_iff)
qed

lemma profiles_normalized:
  "list_all (\<lambda>(m, k). normalize_profile m = Inr m \<and> to_ascii_lowercase (trim m) = m) profiles"
  by code_simp

lemma profile_not_machine_vocabulary:
  "list_all (\<lambda>(m, k). k \<noteq> AgentOperator \<and> k \<noteq> CloudWorker) profiles"
  by code_simp

lemma known_profile_class:
  assumes "require_known_profile raw = Inr name"
  shows "profile_class_of name \<notin> {AgentOperator, CloudWorker}"
proof -
  obtain n c where "canonical_profile_entry n = Some (name, c)"
    using assms by (auto simp: require_known_profile_def split: option.splits)
  from canonical_fixed [OF this] have "(name, c) \<in> set profiles"
    "canonical_profile_entry name = Some (name, c)" by auto
  moreover from this have "to_ascii_lowercase (trim name) = name" "c \<noteq> AgentOperator \<and> c \<noteq> CloudWorker"
    using profiles_normalized profile_not_machine_vocabulary by (auto simp: list_all_iff)
  ultimately show ?thesis by (simp add: profile_class_of_def)
qed

text \<open>
  A profile name an operator types is accepted only as a canonical name: accepting it
  again gives it back, the stored name means the class the typed one meant, and it is
  never an agent-lane or system profile.
\<close>

theorem require_known_profile_canonical:
  assumes "require_known_profile raw = Inr name"
  shows "require_known_profile name = Inr name
    \<and> profile_class_of name = profile_class_of raw
    \<and> (name, profile_class_of name) \<in> set profiles
    \<and> profile_class_of name \<notin> {AgentOperator, CloudWorker}"
proof -
  obtain n c where n: "normalize_profile raw = Inr n" "canonical_profile_entry n = Some (name, c)"
    using assms by (auto simp: require_known_profile_def split: option.splits)
  from n(1) have "n = to_ascii_lowercase (trim raw)"
    by (auto simp: normalize_profile_def Let_def split: if_splits)
  with n(2) have raw: "profile_class_of raw = c"
    by (simp add: profile_class_of_def)
  from canonical_fixed [OF n(2)] have fixed: "(name, c) \<in> set profiles"
      "canonical_profile_entry name = Some (name, c)" by auto
  then have norm: "normalize_profile name = Inr name" "to_ascii_lowercase (trim name) = name"
    and "c \<noteq> AgentOperator \<and> c \<noteq> CloudWorker"
    using profiles_normalized profile_not_machine_vocabulary by (auto simp: list_all_iff)
  with raw fixed show ?thesis
    by (simp add: require_known_profile_def profile_class_of_def)
qed

theorem require_known_profile_canonical_witness:
  "require_known_profile ''peer-operator'' = Inr ''peer-operator''"
  by (rule require_known_profile_canonical [where raw = "'' Operator ''", THEN conjunct1]) code_simp

section \<open>The tunnel door\<close>

lemma tunnel_frame_ops:
  "list_all (\<lambda>(f, op, ws, tunnel). op \<in> {None, Some OpTerminalView, Some OpTerminalWrite,
      Some OpDisplayInput, Some OpDisplayView, Some OpRuntimeControl, Some OpCredentialsManage}
      \<or> \<not> tunnel) frame_lanes"
  by (simp add: frame_lanes_def)

lemma class_tunnel_door:
  "op \<in> {OpTerminalView, OpTerminalWrite, OpDisplayInput, OpDisplayView, OpRuntimeControl,
          OpCredentialsManage} \<Longrightarrow> class_allows c op \<Longrightarrow> list_ex (class_allows c) tunnel_operations"
  by (cases c) (auto simp: tunnel_operations_def)

text \<open>
  The tunnel's door is never narrower than its frames: a profile allowed the floor
  operation of a frame the tunnel carries is allowed the tunnel. A profile with no
  operation of the tunnel's families is allowed none of its gated frames.
\<close>

theorem tunnel_door_covers_frames:
  assumes "frame_operation Tunnel frame = Some op" and "profile_allows_operation p op"
  shows "profile_allows_dashboard_control_tunnel p"
proof -
  obtain ws where "(frame, Some op, ws, True) \<in> set frame_lanes"
    using assms(1) by (fastforce simp: frame_operation_def split: option.splits dest: find_Some_in)
  then have "op \<in> {OpTerminalView, OpTerminalWrite, OpDisplayInput, OpDisplayView,
      OpRuntimeControl, OpCredentialsManage}"
    using tunnel_frame_ops by (fastforce simp: list_all_iff)
  with assms(2) show ?thesis
    unfolding profile_allows_dashboard_control_tunnel_def profile_allows_operation_def
    by (intro class_tunnel_door)
qed

theorem tunnel_door_covers_frames_witness:
  "profile_allows_dashboard_control_tunnel ''terminal-operator''"
proof (rule tunnel_door_covers_frames)
  show "frame_operation Tunnel ''terminal_input'' = Some OpTerminalWrite"
    by (simp add: frame_operation_def frame_lanes_def)
  have "profile_class_of ''terminal-operator'' = TerminalOperator" by code_simp
  then show "profile_allows_operation ''terminal-operator'' OpTerminalWrite"
    by (simp add: profile_allows_operation_def)
qed

end
