(* ===== verification/FileScope.thy ===== *)
theory FileScope
  imports Prelude
begin

text \<open>
  The file-system scope of an identity (\<open>filesystem_access_canonical_subject\<close> and
  \<open>nearest_existing_path\<close> of \<open>src/src/bin/caller/access/access_policy.rs\<close>) and the
  directory creation it guards (\<open>mkdir_dashboard_fs_path\<close> of
  \<open>src/src/bin/caller/web_gateway/routes_files.rs\<close>). The policy takes the file system as
  two arguments, which paths exist and what they resolve to; a tree of plain directories
  instantiates them.
\<close>

section \<open>The file-system scope\<close>

text \<open>A path is its components below the root or the working directory.\<close>

record path =
  p_absolute :: bool
  p_comps :: "string list"

definition path_starts_with :: "path \<Rightarrow> path \<Rightarrow> bool" where
  "path_starts_with p b = (p_absolute p = p_absolute b
     \<and> take (length (p_comps b)) (p_comps p) = p_comps b)"

datatype fs_access_kind = FsRead | FsWrite

datatype fs_error = NoRoots fs_access_kind | NoExistingParent path | NotAccessible path | OutsideRoots path

record fs_policy =
  fp_read_roots :: "path list"
  fp_write_roots :: "path list"

definition fs_policy_is_empty :: "fs_policy \<Rightarrow> bool" where
  "fs_policy_is_empty p = (fp_read_roots p = [] \<and> fp_write_roots p = [])"

function nearest_existing_path :: "(path \<Rightarrow> bool) \<Rightarrow> path \<Rightarrow> path option" where
  "nearest_existing_path exists current =
    (if exists current then Some current
     else if p_comps current = [] then None
     else nearest_existing_path exists (current\<lparr>p_comps := butlast (p_comps current)\<rparr>))"
  by pat_completeness auto
termination
  by (relation "measure (\<lambda>(e, p). length (p_comps p))") auto

declare nearest_existing_path.simps [simp del]

definition root_candidates :: "fs_policy \<Rightarrow> fs_access_kind \<Rightarrow> path list" where
  "root_candidates policy kind = (case kind of
     FsRead \<Rightarrow> fp_read_roots policy @ fp_write_roots policy
   | FsWrite \<Rightarrow> fp_write_roots policy)"

definition filesystem_access_canonical_subject ::
    "(path \<Rightarrow> bool) \<Rightarrow> (path \<Rightarrow> path option) \<Rightarrow> fs_policy \<Rightarrow> fs_access_kind \<Rightarrow> path
       \<Rightarrow> fs_error + path" where
  "filesystem_access_canonical_subject exists canonicalize policy kind p =
    (let roots = root_candidates policy kind in
     if roots = [] then Inl (NoRoots kind)
     else rbind (case kind of
              FsRead \<Rightarrow> Inr p
            | FsWrite \<Rightarrow> (case nearest_existing_path exists p of
                  None \<Rightarrow> Inl (NoExistingParent p) | Some q \<Rightarrow> Inr q))
       (\<lambda>subject. case canonicalize subject of
            None \<Rightarrow> Inl (NotAccessible subject)
          | Some canonical \<Rightarrow>
              if list_ex (\<lambda>root. case canonicalize root of
                     None \<Rightarrow> False
                   | Some r \<Rightarrow> canonical = r \<or> path_starts_with canonical r) roots
              then Inr canonical else Inl (OutsideRoots canonical)))"

definition filesystem_access_allowed ::
    "(path \<Rightarrow> bool) \<Rightarrow> (path \<Rightarrow> path option) \<Rightarrow> fs_policy \<Rightarrow> fs_access_kind \<Rightarrow> path
       \<Rightarrow> fs_error + unit" where
  "filesystem_access_allowed exists canonicalize policy kind p =
     rbind (filesystem_access_canonical_subject exists canonicalize policy kind p) (\<lambda>_. Inr ())"

section \<open>What the scope check admits\<close>


lemma nearest_existing_self: "exists p \<Longrightarrow> nearest_existing_path exists p = Some p"
  by (simp add: nearest_existing_path.simps)

lemma path_starts_with_refl: "path_starts_with p p"
  by (simp add: path_starts_with_def)

text \<open>
  The check admits exactly the paths whose subject resolves inside the resolution of
  one of the identity's roots for that kind of access; the subject is the path itself for
  a read and its nearest existing ancestor for a write.
\<close>

theorem scope_characterisation:
  "filesystem_access_canonical_subject exists canonicalize policy kind p = Inr q \<longleftrightarrow>
     (\<exists>subject root r.
        (case kind of FsRead \<Rightarrow> subject = p
                    | FsWrite \<Rightarrow> nearest_existing_path exists p = Some subject)
        \<and> canonicalize subject = Some q
        \<and> root \<in> set (root_candidates policy kind) \<and> canonicalize root = Some r
        \<and> path_starts_with q r)"
proof -
  have step: "list_ex (\<lambda>root. case canonicalize root of None \<Rightarrow> False
        | Some r \<Rightarrow> q = r \<or> path_starts_with q r) roots
      \<longleftrightarrow> (\<exists>root r. root \<in> set roots \<and> canonicalize root = Some r \<and> path_starts_with q r)"
    for q roots
    unfolding list_ex_iff using path_starts_with_refl by (fastforce split: option.splits)
  show ?thesis
    unfolding filesystem_access_canonical_subject_def Let_def
    by (cases kind) (auto simp: step split: option.splits if_splits)
qed

text \<open>
  Whatever an identity may write and exists it may also read, with the same subject;
  an identity with no write root may write nothing.
\<close>

theorem write_scope_within_read_scope:
  assumes "filesystem_access_canonical_subject exists canonicalize policy FsWrite p = Inr q"
    and "exists p"
  shows "filesystem_access_canonical_subject exists canonicalize policy FsRead p = Inr q
    \<and> fp_write_roots policy \<noteq> []"
  using assms unfolding scope_characterisation
  by (auto simp: nearest_existing_self root_candidates_def)

section \<open>A tree of directories\<close>

text \<open>The existing directories, by their components; there are no links.\<close>

fun walk :: "string list list \<Rightarrow> string list \<Rightarrow> string list \<Rightarrow> string list option" where
  "walk dirs cur [] = (if cur \<in> set dirs then Some cur else None)"
| "walk dirs cur (c # cs) =
     (if cur \<notin> set dirs then None
      else if c = ''..'' then walk dirs (butlast cur) cs
      else walk dirs (cur @ [c]) cs)"

definition dir_exists :: "string list list \<Rightarrow> path \<Rightarrow> bool" where
  "dir_exists dirs p = (walk dirs [] (p_comps p) \<noteq> None)"

definition dir_canonicalize :: "string list list \<Rightarrow> path \<Rightarrow> path option" where
  "dir_canonicalize dirs p =
     map_option (\<lambda>cs. \<lparr> p_absolute = True, p_comps = cs \<rparr>) (walk dirs [] (p_comps p))"

datatype mkdir_error = NotFound | AlreadyExists

definition mkdir :: "string list list \<Rightarrow> string list \<Rightarrow> mkdir_error + string list list" where
  "mkdir dirs cs =
    (if walk dirs [] cs \<noteq> None then Inl AlreadyExists
     else if cs = [] then Inl NotFound
     else case walk dirs [] (butlast cs) of
       None \<Rightarrow> Inl NotFound
     | Some parent \<Rightarrow> Inr ((parent @ [last cs]) # dirs))"

text \<open>\<open>std::fs::create_dir_all\<close>: make the directory, or its parents first.\<close>

function create_dir_all :: "string list list \<Rightarrow> string list \<Rightarrow> (mkdir_error + string list list)" where
  "create_dir_all dirs cs =
    (case mkdir dirs cs of
       Inr dirs' \<Rightarrow> Inr dirs'
     | Inl AlreadyExists \<Rightarrow> Inr dirs
     | Inl NotFound \<Rightarrow>
         (if cs = [] then Inl NotFound
          else case create_dir_all dirs (butlast cs) of
            Inl e \<Rightarrow> Inl e
          | Inr dirs' \<Rightarrow> (case mkdir dirs' cs of
                Inr d \<Rightarrow> Inr d | Inl AlreadyExists \<Rightarrow> Inr dirs' | Inl e \<Rightarrow> Inl e)))"
  by pat_completeness auto
termination
  by (relation "measure (\<lambda>(d, cs). length cs)") auto

declare create_dir_all.simps [simp del]

text \<open>\<open>mkdir_dashboard_fs_path\<close> on an expanded path: whether it was created, and the new tree.\<close>

definition mkdir_dashboard_fs_path ::
    "string list list \<Rightarrow> path \<Rightarrow> mkdir_error + (bool \<times> string list list)" where
  "mkdir_dashboard_fs_path dirs p =
    (if dir_exists dirs p then Inr (False, dirs)
     else rbind (create_dir_all dirs (p_comps p)) (\<lambda>dirs'. Inr (True, dirs')))"

text \<open>
  \<open>handle_fs_mkdir\<close> for an identity confined to \<open>policy\<close>: the scope check, then the creation.
\<close>

definition handle_fs_mkdir ::
    "fs_policy \<Rightarrow> string list list \<Rightarrow> path \<Rightarrow> fs_error + (mkdir_error + (bool \<times> string list list))" where
  "handle_fs_mkdir policy dirs p =
     rbind (filesystem_access_allowed (dir_exists dirs) (dir_canonicalize dirs) policy FsWrite p)
       (\<lambda>_. Inr (mkdir_dashboard_fs_path dirs p))"








text \<open>An instance with a tree of directories.\<close>

theorem write_scope_within_read_scope_witness:
  "filesystem_access_canonical_subject (dir_exists [[], [''srv'']]) (dir_canonicalize [[], [''srv'']])
     \<lparr> fp_read_roots = [], fp_write_roots = [\<lparr> p_absolute = True, p_comps = [''srv''] \<rparr>] \<rparr> FsRead
     \<lparr> p_absolute = True, p_comps = [''srv''] \<rparr> = Inr \<lparr> p_absolute = True, p_comps = [''srv''] \<rparr>"
  by (rule write_scope_within_read_scope [THEN conjunct1]) code_simp+


text \<open>
  A path may leave the root through a component that does not exist yet: the check looks
  only at the nearest existing ancestor, and the creation then makes the component and
  follows the \<open>..\<close> behind it.
\<close>

theorem mkdir_escapes_scope:
  "handle_fs_mkdir
     \<lparr> fp_read_roots = [], fp_write_roots = [\<lparr> p_absolute = True, p_comps = [''srv'', ''ok''] \<rparr>] \<rparr>
     [[], [''srv''], [''srv'', ''ok'']]
     \<lparr> p_absolute = True, p_comps = [''srv'', ''ok'', ''new'', ''..'', ''..'', ''victim''] \<rparr>
   = Inr (Inr (True, [[''srv'', ''victim''], [''srv'', ''ok'', ''new''], [], [''srv''],
                      [''srv'', ''ok'']]))"
  by code_simp

end
