(* ===== verification/IdentityStore.thy ===== *)
theory IdentityStore
  imports AccessPolicy "HOL-Library.Product_Lexorder" "HOL-Library.Countable"
begin

text \<open>
  The identity store (\<open>src/src/bin/caller/access/access_policy.rs\<close>): the records of paired
  machines, one JSON file each, the in-process cache keyed by path and stat fingerprint,
  and the operations that write, look up, revoke and re-profile an identity.

  A directory is the list of its entries in the order \<open>read_dir\<close> gives them. \<open>serde_json\<close>'s
  encoder and decoder are
  arguments; so is what the file system does during a write: the
  stat fingerprint of the new file (none where the write failed), and what the directory
  has become by each of the three system calls that follow.
\<close>

section \<open>Records\<close>

datatype identity_status = StatusApproved | StatusRevoked

datatype identity_class = PeerClass | AgentClass

record identity_record =
  ir_version :: u8
  ir_fingerprint :: string
  ir_label :: string
  ir_profile :: string
  ir_status :: identity_status
  ir_class :: identity_class
  ir_card_url :: "string option"
  ir_request_id :: "string option"
  ir_read_roots :: "string list"
  ir_write_roots :: "string list"
  ir_created_at :: int
  ir_revoked_at :: "int option"
  ir_expires_at :: "int option"
  ir_source :: "string option"
  ir_org_grant_id :: "string option"
  ir_issued_via :: "string option"


section \<open>Files and the cache\<close>

record stat_fp =
  sf_len :: u64
  sf_mtime :: nat
  sf_dev :: u64
  sf_ino :: u64

record store_file =
  f_is_file :: bool
  f_stat :: stat_fp
  f_body :: string

type_synonym dir = "(string \<times> store_file) list"

definition fingerprint_from_metadata :: "store_file \<Rightarrow> stat_fp option" where
  "fingerprint_from_metadata f = (if f_is_file f then Some (f_stat f) else None)"

definition peer_record_fingerprint :: "dir \<Rightarrow> string \<Rightarrow> stat_fp option" where
  "peer_record_fingerprint d path = Option.bind (map_of d path) fingerprint_from_metadata"

type_synonym record_cache = "(string \<times> stat_fp \<times> identity_record) list"

definition cache_max_paths :: nat where
  "cache_max_paths = 128"

definition cached_peer_record :: "record_cache \<Rightarrow> string \<Rightarrow> stat_fp \<Rightarrow> identity_record option" where
  "cached_peer_record cache path fp =
    (case map_of cache path of
       None \<Rightarrow> None | Some (fp', r) \<Rightarrow> if fp' = fp then Some r else None)"

definition invalidate_cached :: "record_cache \<Rightarrow> string \<Rightarrow> record_cache" where
  "invalidate_cached cache path = filter (\<lambda>(p, _). p \<noteq> path) cache"

definition store_cached ::
    "record_cache \<Rightarrow> string \<Rightarrow> stat_fp \<Rightarrow> identity_record \<Rightarrow> record_cache" where
  "store_cached cache path fp r =
    (let cache' = (if cache_max_paths \<le> length cache \<and> map_of cache path = None then [] else cache)
     in (path, fp, r) # invalidate_cached cache' path)"

definition identity_path :: "string \<Rightarrow> string" where
  "identity_path fp = fp @ ''.json''"

definition is_hex_char :: "char \<Rightarrow> bool" where
  "is_hex_char c = (let n = (of_char c :: nat) in
     (48 \<le> n \<and> n \<le> 57) \<or> (65 \<le> n \<and> n \<le> 70) \<or> (97 \<le> n \<and> n \<le> 102))"

definition strip_separators :: "string \<Rightarrow> string" where
  "strip_separators raw = to_ascii_lowercase (filter (\<lambda>c. c \<noteq> CHR '':'') (trim raw))"

definition normalize_fingerprint :: "string \<Rightarrow> policy_error + string" where
  "normalize_fingerprint raw = (let fp = strip_separators raw in
     if length fp = 64 \<and> list_all is_hex_char fp then Inr fp
     else Inl (InvalidFingerprint raw))"

section \<open>Lookup\<close>

text \<open>
  \<open>lookup_identity_cached_arc\<close>, with what it sees of the directory at its three system
  calls: the stat before (\<open>d1\<close>), the read (\<open>d2\<close>) and the stat after (\<open>d3\<close>).
\<close>

definition lookup_identity ::
    "(string \<Rightarrow> identity_record option) \<Rightarrow> dir \<Rightarrow> dir \<Rightarrow> dir \<Rightarrow> record_cache \<Rightarrow> string
       \<Rightarrow> (policy_error + identity_record option) \<times> record_cache" where
  "lookup_identity decode d1 d2 d3 cache fingerprint =
    (case normalize_fingerprint fingerprint of
       Inl e \<Rightarrow> (Inl e, cache)
     | Inr fp \<Rightarrow> (let path = identity_path fp in
         case map_of d1 path of
           None \<Rightarrow> (Inr None, invalidate_cached cache path)
         | Some f1 \<Rightarrow> (let before = fingerprint_from_metadata f1 in
             case Option.bind before (cached_peer_record cache path) of
               Some r \<Rightarrow> (Inr (Some r), cache)
             | None \<Rightarrow> (case map_of d2 path of
                 None \<Rightarrow> (Inl IoError, cache)
               | Some f2 \<Rightarrow> if \<not> f_is_file f2 then (Inl IoError, cache)
                   else (case decode (f_body f2) of
                     None \<Rightarrow> (Inl ParseError, cache)
                   | Some r \<Rightarrow> (case before of
                       Some b \<Rightarrow> if peer_record_fingerprint d3 path = Some b
                                 then (Inr (Some r), store_cached cache path b r)
                                 else (Inr (Some r), invalidate_cached cache path)
                     | None \<Rightarrow> (Inr (Some r), invalidate_cached cache path)))))))"

text \<open>The names ending in \<open>.json\<close> with a stem: what \<open>Path::extension\<close> calls that extension.\<close>

definition has_json_extension :: "string \<Rightarrow> bool" where
  "has_json_extension name = (5 < length name \<and> drop (length name - 5) name = ''.json'')"

definition read_entries :: "(string \<Rightarrow> identity_record option) \<Rightarrow> dir \<Rightarrow> identity_record option list" where
  "read_entries decode d = map (\<lambda>(n, f). decode (f_body f))
     (filter (\<lambda>(n, f). f_is_file f \<and> has_json_extension n) d)"

definition list_identities ::
    "(string \<Rightarrow> identity_record option) \<Rightarrow> dir \<Rightarrow> policy_error + identity_record list" where
  "list_identities decode d =
    (if list_all (\<lambda>r. r \<noteq> None) (read_entries decode d)
     then Inr (sort_key (\<lambda>r. (ir_label r, ir_fingerprint r)) (map the (read_entries decode d)))
     else Inl ParseError)"

section \<open>Writing\<close>

record disk_env =
  de_stat :: "stat_fp option"
  de_see :: "nat \<Rightarrow> dir \<Rightarrow> dir"

text \<open>The atomic replacement of a file, and the record's own write; every writer goes through it.\<close>

definition put_file :: "dir \<Rightarrow> string \<Rightarrow> store_file \<Rightarrow> dir" where
  "put_file d path f = (path, f) # filter (\<lambda>(n, _). n \<noteq> path) d"

definition agent_vocabulary :: "string \<Rightarrow> bool" where
  "agent_vocabulary profile = list_ex (\<lambda>(name, _). name = to_ascii_lowercase (trim profile)) agent_profiles"

definition write_identity_record ::
    "(identity_record \<Rightarrow> string) \<Rightarrow> disk_env \<Rightarrow> dir \<Rightarrow> record_cache \<Rightarrow> identity_record
       \<Rightarrow> policy_error + (dir \<times> record_cache)" where
  "write_identity_record encode w d cache r =
    (if ir_class r = PeerClass \<and> agent_vocabulary (ir_profile r)
     then Inl (AgentVocabularyOnPeer (to_ascii_lowercase (trim (ir_profile r))))
     else case de_stat w of
       None \<Rightarrow> Inl IoError
     | Some st \<Rightarrow>
        (let path = identity_path (ir_fingerprint r);
             body = encode r @ [CHR 0x0A];
             d0 = put_file d path \<lparr> f_is_file = True, f_stat = st, f_body = body \<rparr>;
             d1 = de_see w 0 d0; d2 = de_see w 1 d1; d3 = de_see w 2 d2;
             same = (case map_of d2 path of None \<Rightarrow> False | Some f \<Rightarrow> f_is_file f \<and> f_body f = body)
         in case (peer_record_fingerprint d1 path, peer_record_fingerprint d3 path, same) of
              (Some b, Some a, True) \<Rightarrow>
                if b = a then Inr (d3, store_cached cache path a r)
                else Inr (d3, invalidate_cached cache path)
            | _ \<Rightarrow> Inr (d3, invalidate_cached cache path)))"

definition write_approved_identity_record ::
    "(identity_record \<Rightarrow> string) \<Rightarrow> disk_env \<Rightarrow> int \<Rightarrow> dir \<Rightarrow> record_cache \<Rightarrow> string \<Rightarrow> string
       \<Rightarrow> string \<Rightarrow> identity_class \<Rightarrow> string option \<Rightarrow> string option \<Rightarrow> int option
       \<Rightarrow> policy_error + (identity_record \<times> dir \<times> record_cache)" where
  "write_approved_identity_record encode w now d cache fingerprint label profile cls url request expires =
     rbind (normalize_fingerprint fingerprint) (\<lambda>fp.
     rbind (normalize_profile profile) (\<lambda>prof.
       (let r = \<lparr> ir_version = 1, ir_fingerprint = fp, ir_label = trim label, ir_profile = prof,
                 ir_status = StatusApproved, ir_class = cls, ir_card_url = url,
                 ir_request_id = request, ir_read_roots = [], ir_write_roots = [],
                 ir_created_at = now, ir_revoked_at = None, ir_expires_at = expires,
                 ir_source = None, ir_org_grant_id = None, ir_issued_via = None \<rparr>
        in rbind (write_identity_record encode w d cache r) (\<lambda>(d', cache'). Inr (r, d', cache')))))"

definition write_approved_identity_expiring where
  "write_approved_identity_expiring encode w now d cache fingerprint label profile url request expires =
     write_approved_identity_record encode w now d cache fingerprint label profile PeerClass url
       request expires"

definition write_approved_identity where
  "write_approved_identity encode w now d cache fingerprint label profile url request =
     write_approved_identity_expiring encode w now d cache fingerprint label profile url request None"

definition write_approved_agent_identity where
  "write_approved_agent_identity encode w now d cache fingerprint label profile request expires =
     write_approved_identity_record encode w now d cache fingerprint label profile AgentClass None
       request expires"

section \<open>Revocation and re-profiling\<close>

text \<open>Inside the store lock the directory does not change between the system calls.\<close>

definition find_to_revoke ::
    "(string \<Rightarrow> identity_record option) \<Rightarrow> dir \<Rightarrow> record_cache \<Rightarrow> string
       \<Rightarrow> policy_error + (identity_record \<times> record_cache)" where
  "find_to_revoke decode d cache needle =
    (case normalize_fingerprint needle of
       Inr fp \<Rightarrow> (let (res, cache') = lookup_identity decode d d d cache fp in
          rbind res (\<lambda>found. case found of
             None \<Rightarrow> Inl (NoIdentity needle) | Some r \<Rightarrow> Inr (r, cache')))
     | Inl _ \<Rightarrow> rbind (list_identities decode d) (\<lambda>all.
          case filter (\<lambda>r. ir_label r = needle \<or> ir_request_id r = Some needle) all of
            [r] \<Rightarrow> Inr (r, cache)
          | [] \<Rightarrow> Inl (NoIdentity needle)
          | _ \<Rightarrow> Inl (ManyIdentities needle)))"

definition revoke_identity ::
    "(string \<Rightarrow> identity_record option) \<Rightarrow> (identity_record \<Rightarrow> string) \<Rightarrow> disk_env \<Rightarrow> int
       \<Rightarrow> dir \<Rightarrow> record_cache \<Rightarrow> string \<Rightarrow> policy_error + (identity_record \<times> dir \<times> record_cache)" where
  "revoke_identity decode encode w now d cache needle0 =
    (let needle = trim needle0 in
     if needle = [] then Inl IdentityRequired
     else rbind (find_to_revoke decode d cache needle) (\<lambda>(r, cache').
       (let r' = r\<lparr>ir_status := StatusRevoked, ir_revoked_at := Some now\<rparr>
        in rbind (write_identity_record encode w d cache' r') (\<lambda>(d', c'). Inr (r', d', c')))))"

definition find_identity_by_fingerprint ::
    "(string \<Rightarrow> identity_record option) \<Rightarrow> dir \<Rightarrow> string \<Rightarrow> policy_error + identity_record" where
  "find_identity_by_fingerprint decode d selector =
    (let needle = strip_separators selector in
     if needle = [] then Inl FingerprintRequired
     else if length needle > 64 \<or> \<not> list_all is_hex_char needle then Inl (InvalidSelector selector)
     else rbind (list_identities decode d) (\<lambda>all.
       case filter (\<lambda>r. starts_with (ir_fingerprint r) needle) all of
         [r] \<Rightarrow> Inr r
       | [] \<Rightarrow> Inl (NoSelectorMatch selector)
       | rs \<Rightarrow> Inl (AmbiguousSelector selector (map (\<lambda>r. (ir_fingerprint r, ir_label r)) rs))))"

definition set_identity_profile ::
    "(string \<Rightarrow> identity_record option) \<Rightarrow> (identity_record \<Rightarrow> string) \<Rightarrow> disk_env \<Rightarrow> dir
       \<Rightarrow> record_cache \<Rightarrow> string \<Rightarrow> string
       \<Rightarrow> policy_error + (identity_record \<times> string \<times> dir \<times> record_cache)" where
  "set_identity_profile decode encode w d cache selector profile =
     rbind (find_identity_by_fingerprint decode d selector) (\<lambda>r.
     rbind (case ir_class r of PeerClass \<Rightarrow> require_known_profile profile
                             | AgentClass \<Rightarrow> require_known_agent_profile profile) (\<lambda>prof.
       if ir_status r \<noteq> StatusApproved
       then Inl (IdentityRevoked (ir_fingerprint r) (ir_label r))
       else (let r' = r\<lparr>ir_profile := prof\<rparr>
         in rbind (write_identity_record encode w d cache r')
              (\<lambda>(d', c'). Inr (r', ir_profile r, d', c')))))"

section \<open>Fingerprints and names\<close>

lemma is_hex_plain: "is_hex_char c \<Longrightarrow> plain_char c"
  by (rule plain_char_code) (auto simp: is_hex_char_def Let_def)

lemma strip_separators_fix:
  assumes "list_all is_hex_char (strip_separators raw)"
  shows "strip_separators (strip_separators raw) = strip_separators raw"
proof -
  let ?t = "strip_separators raw"
  have "?t = [] \<or> plain_char (hd ?t) \<and> plain_char (last ?t)"
    using assms is_hex_plain by (cases "?t = []") (auto simp: list_all_iff)
  then have "trim ?t = ?t" by (rule trim_plain)
  moreover have "filter (\<lambda>c. c \<noteq> CHR '':'') ?t = ?t"
    using assms by (intro filter_True) (auto simp: list_all_iff is_hex_char_def)
  ultimately have "strip_separators ?t = to_ascii_lowercase ?t"
    by (simp add: strip_separators_def)
  also have "\<dots> = ?t" by (simp add: strip_separators_def)
  finally show ?thesis .
qed

lemma normalize_fingerprint_fix:
  "normalize_fingerprint raw = Inr fp \<Longrightarrow> normalize_fingerprint fp = Inr fp"
  using strip_separators_fix [of raw]
  by (auto simp: normalize_fingerprint_def Let_def split: if_splits)

lemma agent_class_vocabulary: "profile_class_of p = AgentOperator \<Longrightarrow> agent_vocabulary p"
  using profile_not_machine_vocabulary
  by (auto simp: profile_class_of_def agent_vocabulary_def canonical_profile_entry_def Let_def
      list_all_iff list_ex_iff agent_profiles_def system_profiles_def
      split: option.splits if_splits dest!: find_Some_in)

section \<open>The store and its cache\<close>

definition quiet :: "disk_env \<Rightarrow> bool" where
  "quiet w = (\<forall>i d. de_see w i d = d)"

text \<open>What the code relies on of the JSON codec: a written record reads back.\<close>

definition codec :: "(string \<Rightarrow> identity_record option) \<Rightarrow> (identity_record \<Rightarrow> string) \<Rightarrow> bool" where
  "codec decode encode = (\<forall>r. decode (encode r @ [CHR 0x0A]) = Some r)"

definition file_ok :: "(string \<Rightarrow> identity_record option) \<Rightarrow> string \<Rightarrow> store_file \<Rightarrow> bool" where
  "file_ok decode n f = (f_is_file f \<and> (\<exists>r. decode (f_body f) = Some r
     \<and> n = identity_path (ir_fingerprint r)
     \<and> normalize_fingerprint (ir_fingerprint r) = Inr (ir_fingerprint r)
     \<and> (ir_class r = PeerClass \<longrightarrow> \<not> agent_vocabulary (ir_profile r))))"

definition store_inv :: "(string \<Rightarrow> identity_record option) \<Rightarrow> dir \<Rightarrow> bool" where
  "store_inv decode d = (distinct (map fst d) \<and> (\<forall>(n, f) \<in> set d. file_ok decode n f))"

definition coherent :: "(string \<Rightarrow> identity_record option) \<Rightarrow> dir \<Rightarrow> record_cache \<Rightarrow> bool" where
  "coherent decode d cache = (\<forall>p fp r f. map_of cache p = Some (fp, r) \<and> map_of d p = Some f
     \<and> f_is_file f \<and> f_stat f = fp \<longrightarrow> decode (f_body f) = Some r)"

lemma map_of_put_file [simp]: "map_of (put_file d p f) = (map_of d)(p \<mapsto> f)"
proof -
  have "put_file d p f = (p, f) # bt_remove p d"
    by (simp add: put_file_def bt_remove_def)
  then show ?thesis by (simp add: fun_eq_iff)
qed

lemma map_of_invalidate [simp]: "map_of (invalidate_cached c p) = (map_of c)(p := None)"
proof -
  have "invalidate_cached c p = bt_remove p c"
    by (simp add: invalidate_cached_def bt_remove_def)
  then show ?thesis by simp
qed

lemma map_of_store_cached_same [simp]: "map_of (store_cached c p st r) p = Some (st, r)"
  by (simp add: store_cached_def Let_def)

lemma map_of_store_cached_other:
  "map_of (store_cached c p st r) q = Some x \<Longrightarrow> q \<noteq> p \<Longrightarrow> map_of c q = Some x"
  by (auto simp: store_cached_def Let_def split: if_splits)

lemma store_inv_put:
  "store_inv decode d \<Longrightarrow> file_ok decode p f \<Longrightarrow> store_inv decode (put_file d p f)"
  by (auto simp: store_inv_def put_file_def distinct_map_filter)

lemma coherent_store:
  "coherent decode d c \<Longrightarrow> map_of d p = Some f \<Longrightarrow> decode (f_body f) = Some r \<Longrightarrow>
     coherent decode d (store_cached c p (f_stat f) r)"
  unfolding coherent_def using map_of_store_cached_other map_of_store_cached_same
  by (metis option.inject prod.inject)

lemma coherent_invalidate: "coherent decode d c \<Longrightarrow> coherent decode d (invalidate_cached c p)"
  by (auto simp: coherent_def)

lemma coherent_put:
  assumes "coherent decode d c" "decode (f_body f) = Some r"
  shows "coherent decode (put_file d p f) (store_cached c p (f_stat f) r)"
  unfolding coherent_def
proof (intro allI impI)
  fix q fp r' g
  assume a: "map_of (store_cached c p (f_stat f) r) q = Some (fp, r')
    \<and> map_of (put_file d p f) q = Some g \<and> f_is_file g \<and> f_stat g = fp"
  show "decode (f_body g) = Some r'"
  proof (cases "q = p")
    case True
    with a assms(2) show ?thesis by auto
  next
    case False
    with a have "map_of c q = Some (fp, r')" "map_of d q = Some g"
      by (auto dest: map_of_store_cached_other)
    with a assms(1) show ?thesis unfolding coherent_def by blast
  qed
qed

lemma write_quiet:
  assumes "write_identity_record encode w d c r = Inr (d', c')" and "quiet w"
  obtains st where "\<not> (ir_class r = PeerClass \<and> agent_vocabulary (ir_profile r))"
    and "d' = put_file d (identity_path (ir_fingerprint r))
           \<lparr> f_is_file = True, f_stat = st, f_body = encode r @ [CHR 0x0A] \<rparr>"
    and "c' = store_cached c (identity_path (ir_fingerprint r)) st r"
  using assms
  by (auto simp: write_identity_record_def quiet_def Let_def peer_record_fingerprint_def
      fingerprint_from_metadata_def split: if_splits option.splits)

lemma write_preserves:
  assumes "write_identity_record encode w d c r = Inr (d', c')" "quiet w" "codec decode encode"
    and "store_inv decode d" "coherent decode d c"
    and "normalize_fingerprint (ir_fingerprint r) = Inr (ir_fingerprint r)"
  shows "store_inv decode d' \<and> coherent decode d' c'"
proof (rule write_quiet [OF assms(1,2)])
  fix st
  let ?f = "\<lparr> f_is_file = True, f_stat = st, f_body = encode r @ [CHR 0x0A] \<rparr>"
  let ?p = "identity_path (ir_fingerprint r)"
  assume v: "\<not> (ir_class r = PeerClass \<and> agent_vocabulary (ir_profile r))"
    and d': "d' = put_file d ?p ?f" and c': "c' = store_cached c ?p st r"
  have dec: "decode (f_body ?f) = Some r"
    using assms(3) by (simp add: codec_def)
  with v assms(6) have "file_ok decode ?p ?f"
    by (simp add: file_ok_def)
  then show ?thesis
    using store_inv_put [OF assms(4)] coherent_put [OF assms(5) dec, of ?p] d' c' by simp
qed

lemma lookup_quiet:
  assumes "store_inv decode d" "coherent decode d c"
    and "lookup_identity decode d d d c raw = (res, c')"
  shows "coherent decode d c'"
    and "res = rbind (normalize_fingerprint raw) (\<lambda>fp. Inr (Option.bind (map_of d (identity_path fp))
           (\<lambda>f. decode (f_body f))))"
proof -
  have "coherent decode d c' \<and> res = rbind (normalize_fingerprint raw) (\<lambda>fp.
      Inr (Option.bind (map_of d (identity_path fp)) (\<lambda>f. decode (f_body f))))"
  proof (cases "normalize_fingerprint raw")
    case (Inl e)
    with assms show ?thesis by (simp add: lookup_identity_def)
  next
    case (Inr fp)
    let ?p = "identity_path fp"
    show ?thesis
    proof (cases "map_of d ?p")
      case None
      with assms Inr show ?thesis
        by (auto simp: lookup_identity_def Let_def intro: coherent_invalidate)
    next
      case (Some f)
      then have "(?p, f) \<in> set d" by (rule map_of_SomeD)
      then have isf: "f_is_file f" and dec: "\<exists>r. decode (f_body f) = Some r"
        using assms(1) by (auto simp: store_inv_def file_ok_def)
      then have fp: "fingerprint_from_metadata f = Some (f_stat f)"
        "peer_record_fingerprint d ?p = Some (f_stat f)"
        using Some by (simp_all add: fingerprint_from_metadata_def peer_record_fingerprint_def)
      show ?thesis
      proof (cases "cached_peer_record c ?p (f_stat f)")
        case (Some r)
        then have "map_of c ?p = Some (f_stat f, r)"
          by (auto simp: cached_peer_record_def split: option.splits if_splits)
        then have "decode (f_body f) = Some r"
          using assms(2) \<open>map_of d ?p = Some f\<close> isf unfolding coherent_def by blast
        then show ?thesis
          using assms(2,3) Inr Some fp isf \<open>map_of d ?p = Some f\<close>
          by (auto simp: lookup_identity_def Let_def)
      next
        case None
        then show ?thesis
          using assms(2,3) Inr fp isf dec \<open>map_of d ?p = Some f\<close>
          by (auto simp: lookup_identity_def Let_def intro: coherent_store)
      qed
    qed
  qed
  then show "coherent decode d c'" and "res = rbind (normalize_fingerprint raw) (\<lambda>fp.
      Inr (Option.bind (map_of d (identity_path fp)) (\<lambda>f. decode (f_body f))))" by blast+
qed

lemma listed_is_stored:
  assumes "list_identities decode d = Inr rs" "r \<in> set rs"
  shows "\<exists>n f. (n, f) \<in> set d \<and> decode (f_body f) = Some r"
  using assms by (fastforce simp: list_identities_def read_entries_def list_all_iff split: if_splits)

lemma filter_one: "filter P xs = [r] \<Longrightarrow> r \<in> set xs \<and> P r"
  by (auto simp: filter_eq_Cons_iff)

lemma only_one_iff:
  "(case xs of [] \<Rightarrow> Inl a | [r] \<Rightarrow> Inr (g r) | r # s # t \<Rightarrow> Inl (b r s t)) = Inr y
     \<longleftrightarrow> (\<exists>r. xs = [r] \<and> g r = y)"
  by (auto split: list.splits)

lemma find_to_revoke_stored:
  assumes "store_inv decode d" "coherent decode d c"
    and "find_to_revoke decode d c needle = Inr (r, c')"
  shows "(\<exists>n f. (n, f) \<in> set d \<and> decode (f_body f) = Some r) \<and> coherent decode d c'"
proof (cases "normalize_fingerprint needle")
  case (Inl e)
  with assms obtain rs where rs: "list_identities decode d = Inr rs" "c' = c"
      "filter (\<lambda>r. ir_label r = needle \<or> ir_request_id r = Some needle) rs = [r]"
    by (auto simp: find_to_revoke_def only_one_iff)
  then have "r \<in> set rs" by (auto dest: filter_one)
  with rs assms(2) listed_is_stored show ?thesis by blast
next
  case (Inr fp)
  obtain res c1 where l: "lookup_identity decode d d d c fp = (res, c1)" by fastforce
  with assms(3) Inr have res: "res = Inr (Some r)" "c' = c1"
    by (auto simp: find_to_revoke_def split: option.splits)
  with lookup_quiet [OF assms(1,2) l] normalize_fingerprint_fix [OF Inr]
  have "coherent decode d c'"
    "Option.bind (map_of d (identity_path fp)) (\<lambda>f. decode (f_body f)) = Some r" by auto
  then show ?thesis by (auto simp: bind_eq_Some_conv dest: map_of_SomeD)
qed

lemma selected_is_stored:
  assumes "find_identity_by_fingerprint decode d selector = Inr r"
  shows "\<exists>n f. (n, f) \<in> set d \<and> decode (f_body f) = Some r"
proof -
  obtain rs where rs: "list_identities decode d = Inr rs"
      "filter (\<lambda>r. starts_with (ir_fingerprint r) (strip_separators selector)) rs = [r]"
    using assms by (auto simp: find_identity_by_fingerprint_def Let_def only_one_iff split: if_splits)
  then have "r \<in> set rs" by (auto dest: filter_one)
  with rs(1) show ?thesis using listed_is_stored by blast
qed

lemma stored_normalized:
  "store_inv decode d \<Longrightarrow> (n, f) \<in> set d \<Longrightarrow> decode (f_body f) = Some r \<Longrightarrow>
     normalize_fingerprint (ir_fingerprint r) = Inr (ir_fingerprint r)
     \<and> n = identity_path (ir_fingerprint r)
     \<and> (ir_class r = PeerClass \<longrightarrow> \<not> agent_vocabulary (ir_profile r))"
  by (auto simp: store_inv_def file_ok_def)

section \<open>Reachable stores\<close>

text \<open>
  One step of the store: an approval in either lane, a revocation, a change of profile, or
  a lookup. The store lock keeps the directory still during a step.
\<close>

inductive store_reach ::
    "(string \<Rightarrow> identity_record option) \<Rightarrow> (identity_record \<Rightarrow> string) \<Rightarrow> dir \<Rightarrow> record_cache \<Rightarrow> bool"
  for decode encode where
  empty: "store_reach decode encode [] []"
| approve: "store_reach decode encode d c \<Longrightarrow> quiet w \<Longrightarrow>
     write_approved_identity_record encode w now d c fp label prof cls url request expires
       = Inr (r, d', c') \<Longrightarrow> store_reach decode encode d' c'"
| revoke: "store_reach decode encode d c \<Longrightarrow> quiet w \<Longrightarrow>
     revoke_identity decode encode w now d c needle = Inr (r, d', c') \<Longrightarrow>
     store_reach decode encode d' c'"
| set_profile: "store_reach decode encode d c \<Longrightarrow> quiet w \<Longrightarrow>
     set_identity_profile decode encode w d c selector prof = Inr (r, old, d', c') \<Longrightarrow>
     store_reach decode encode d' c'"
| lookup: "store_reach decode encode d c \<Longrightarrow>
     lookup_identity decode d d d c fp = (res, c') \<Longrightarrow> store_reach decode encode d c'"

inductive_cases store_reach_cases: "store_reach decode encode d c"

lemma approve_preserves:
  assumes "write_approved_identity_record encode w now d c raw label prof cls url request expires
      = Inr (r, d', c')"
    and "quiet w" "codec decode encode" "store_inv decode d" "coherent decode d c"
  shows "store_inv decode d' \<and> coherent decode d' c'"
proof -
  obtain fp where "normalize_fingerprint raw = Inr fp" "ir_fingerprint r = fp"
      "write_identity_record encode w d c r = Inr (d', c')"
    using assms(1) by (auto simp: write_approved_identity_record_def Let_def)
  then show ?thesis
    using write_preserves assms(2-5) normalize_fingerprint_fix by metis
qed

lemma revoke_parts:
  assumes "revoke_identity decode encode w now d c needle = Inr (r', d', c')"
  obtains r c1 where "find_to_revoke decode d c (trim needle) = Inr (r, c1)"
    and "r' = r\<lparr>ir_status := StatusRevoked, ir_revoked_at := Some now\<rparr>"
    and "write_identity_record encode w d c1 r' = Inr (d', c')"
  using assms by (auto simp: revoke_identity_def Let_def split: if_splits)

lemma set_profile_parts:
  assumes "set_identity_profile decode encode w d c selector profile = Inr (r', old, d', c')"
  obtains r prof where "find_identity_by_fingerprint decode d selector = Inr r"
    and "(case ir_class r of PeerClass \<Rightarrow> require_known_profile profile
                           | AgentClass \<Rightarrow> require_known_agent_profile profile) = Inr prof"
    and "ir_status r = StatusApproved" and "r' = r\<lparr>ir_profile := prof\<rparr>" and "old = ir_profile r"
    and "write_identity_record encode w d c r' = Inr (d', c')"
  using assms by (auto simp: set_identity_profile_def Let_def split: if_splits)

lemma store_reach_inv:
  "store_reach decode encode d c \<Longrightarrow> codec decode encode \<Longrightarrow>
     store_inv decode d \<and> coherent decode d c"
proof (induction rule: store_reach.induct)
  case empty
  then show ?case by (simp add: store_inv_def coherent_def)
next
  case (approve d c w now fp label prof cls url request expires r d' c')
  then show ?case using approve_preserves by metis
next
  case (revoke d c w now needle r' d' c')
  then have inv: "store_inv decode d" "coherent decode d c" by auto
  from revoke.hyps(3) show ?case
  proof (rule revoke_parts)
    fix r c1
    assume a: "find_to_revoke decode d c (trim needle) = Inr (r, c1)"
      "r' = r\<lparr>ir_status := StatusRevoked, ir_revoked_at := Some now\<rparr>"
      "write_identity_record encode w d c1 r' = Inr (d', c')"
    from find_to_revoke_stored [OF inv a(1)] stored_normalized [OF inv(1)] a(2)
    have "coherent decode d c1" "normalize_fingerprint (ir_fingerprint r') = Inr (ir_fingerprint r')"
      by auto
    then show ?thesis using write_preserves [OF a(3)] revoke inv(1) by blast
  qed
next
  case (set_profile d c w selector prof r' old d' c')
  then have inv: "store_inv decode d" "coherent decode d c" by auto
  from set_profile.hyps(3) show ?case
  proof (rule set_profile_parts)
    fix r prof'
    assume a: "find_identity_by_fingerprint decode d selector = Inr r"
      "r' = r\<lparr>ir_profile := prof'\<rparr>" "write_identity_record encode w d c r' = Inr (d', c')"
    from selected_is_stored [OF a(1)] stored_normalized [OF inv(1)] a(2)
    have "normalize_fingerprint (ir_fingerprint r') = Inr (ir_fingerprint r')" by auto
    then show ?thesis using write_preserves [OF a(3)] set_profile inv by blast
  qed
next
  case (lookup d c fp res c')
  then show ?case using lookup_quiet(1) by blast
qed

text \<open>
  C20: in every reachable store each file holds the record of its own fingerprint, no
  peer-class record evaluates at the agent ceiling, and a lookup returns exactly what the
  file holds, cached or not.
\<close>

theorem store_invariant:
  assumes "store_reach decode encode d c" and "codec decode encode"
  shows "(\<forall>n f. map_of d n = Some f \<longrightarrow> (\<exists>r. decode (f_body f) = Some r
            \<and> n = identity_path (ir_fingerprint r)
            \<and> (ir_class r = PeerClass \<longrightarrow> profile_class_of (ir_profile r) \<noteq> AgentOperator)))
    \<and> fst (lookup_identity decode d d d c raw)
        = rbind (normalize_fingerprint raw) (\<lambda>fp. Inr (Option.bind (map_of d (identity_path fp))
            (\<lambda>f. decode (f_body f))))"
proof -
  have inv: "store_inv decode d" "coherent decode d c"
    using store_reach_inv [OF assms] by auto
  have "\<exists>r. decode (f_body f) = Some r \<and> n = identity_path (ir_fingerprint r)
      \<and> (ir_class r = PeerClass \<longrightarrow> profile_class_of (ir_profile r) \<noteq> AgentOperator)"
    if "map_of d n = Some f" for n f
    using map_of_SomeD [OF that] inv(1) agent_class_vocabulary
    by (fastforce simp: store_inv_def file_ok_def)
  moreover obtain res c' where "lookup_identity decode d d d c raw = (res, c')" by fastforce
  ultimately show ?thesis using lookup_quiet(2) [OF inv] by (metis fst_conv)
qed


text \<open>
  A change of profile touches nothing of the record but the profile, reports the one it
  replaced, applies to approved identities only, and gives a peer a canonical peer profile.
\<close>

theorem set_profile_effect:
  assumes "set_identity_profile decode encode w d c selector profile = Inr (r', old, d', c')"
  shows "\<exists>r n f. (n, f) \<in> set d \<and> decode (f_body f) = Some r \<and> ir_status r = StatusApproved
    \<and> starts_with (ir_fingerprint r) (strip_separators selector)
    \<and> old = ir_profile r \<and> r' = r\<lparr>ir_profile := ir_profile r'\<rparr>
    \<and> (ir_class r = PeerClass \<longrightarrow> require_known_profile profile = Inr (ir_profile r')
         \<and> profile_class_of (ir_profile r') \<notin> {AgentOperator, CloudWorker})"
proof -
  from assms obtain r prof where r: "find_identity_by_fingerprint decode d selector = Inr r"
      "(case ir_class r of PeerClass \<Rightarrow> require_known_profile profile
                         | AgentClass \<Rightarrow> require_known_agent_profile profile) = Inr prof"
      "ir_status r = StatusApproved" "r' = r\<lparr>ir_profile := prof\<rparr>" "old = ir_profile r"
    by (rule set_profile_parts)
  have "starts_with (ir_fingerprint r) (strip_separators selector)"
    using r(1)
    by (auto simp: find_identity_by_fingerprint_def Let_def only_one_iff split: if_splits
        dest: filter_one)
  moreover have "profile_class_of prof \<notin> {AgentOperator, CloudWorker}"
    if "require_known_profile profile = Inr prof"
    using known_profile_class [OF that] .
  moreover obtain n f where "(n, f) \<in> set d" "decode (f_body f) = Some r"
    using selected_is_stored [OF r(1)] by blast
  ultimately show ?thesis
    using r by (intro exI [of _ r] exI [of _ n] exI [of _ f]) auto
qed

section \<open>Lookups that race an external writer\<close>

text \<open>
  Outside the lock another process may replace the file between the stat, the read and the
  second stat. \<open>ident\<close> says which bytes a stat fingerprint stands for at a path: replacing
  a file atomically gives it a fresh one.
\<close>

definition cache_true ::
    "(string \<Rightarrow> identity_record option) \<Rightarrow> (string \<Rightarrow> stat_fp \<Rightarrow> string) \<Rightarrow> record_cache \<Rightarrow> bool" where
  "cache_true decode ident c =
     (\<forall>p st r. map_of c p = Some (st, r) \<longrightarrow> decode (ident p st) = Some r)"

definition disk_true :: "(string \<Rightarrow> stat_fp \<Rightarrow> string) \<Rightarrow> dir \<Rightarrow> bool" where
  "disk_true ident d = (\<forall>p f. map_of d p = Some f \<and> f_is_file f \<longrightarrow> ident p (f_stat f) = f_body f)"

lemma cache_true_store:
  "cache_true decode ident c \<Longrightarrow> decode (ident p st) = Some r \<Longrightarrow>
     cache_true decode ident (store_cached c p st r)"
  unfolding cache_true_def using map_of_store_cached_other map_of_store_cached_same
  by (metis option.inject prod.inject)

lemma cache_true_invalidate:
  "cache_true decode ident c \<Longrightarrow> cache_true decode ident (invalidate_cached c p)"
  by (auto simp: cache_true_def)

text \<open>
  A lookup racing atomic replacements returns a record the file held at one of its two
  reads, and never caches a record under a fingerprint that stands for other bytes.
\<close>

theorem lookup_race:
  assumes "lookup_identity decode d1 d2 d3 c raw = (res, c')"
    and "cache_true decode ident c" and "disk_true ident d1"
    and no_aba: "\<And>p. peer_record_fingerprint d1 p \<noteq> None \<Longrightarrow>
        peer_record_fingerprint d1 p = peer_record_fingerprint d3 p \<Longrightarrow> map_of d2 p = map_of d1 p"
  shows "cache_true decode ident c'
    \<and> (\<forall>r. res = Inr (Some r) \<longrightarrow> (\<exists>p f. (map_of d1 p = Some f \<or> map_of d2 p = Some f)
          \<and> decode (f_body f) = Some r))"
proof (cases "normalize_fingerprint raw")
  case (Inl e)
  with assms show ?thesis by (auto simp: lookup_identity_def)
next
  case (Inr fp)
  let ?p = "identity_path fp"
  show ?thesis
  proof (cases "map_of d1 ?p")
    case None
    with assms(1,2) Inr show ?thesis
      by (auto simp: lookup_identity_def Let_def intro: cache_true_invalidate)
  next
    case (Some f1)
    note f1 = this
    let ?before = "fingerprint_from_metadata f1"
    have b: "?before = Some st \<Longrightarrow> f_is_file f1 \<and> f_stat f1 = st" for st
      by (auto simp: fingerprint_from_metadata_def split: if_splits)
    show ?thesis
    proof (cases "Option.bind ?before (cached_peer_record c ?p)")
      case (Some r)
      then obtain st where st: "?before = Some st" "map_of c ?p = Some (st, r)"
        by (auto simp: bind_eq_Some_conv cached_peer_record_def split: option.splits if_splits)
      then have "decode (f_body f1) = Some r"
        using b [OF st(1)] f1 assms(2,3) unfolding cache_true_def disk_true_def by metis
      then show ?thesis
        using assms(1,2) Inr f1 Some by (auto simp: lookup_identity_def Let_def)
    next
      case None
      note miss = this
      show ?thesis
      proof (cases "\<exists>f2 r. map_of d2 ?p = Some f2 \<and> f_is_file f2 \<and> decode (f_body f2) = Some r")
        case False
        with assms(1,2) Inr f1 miss show ?thesis
          by (auto simp: lookup_identity_def Let_def split: option.splits if_splits)
      next
        case True
        then obtain f2 r where f2: "map_of d2 ?p = Some f2" "f_is_file f2"
            "decode (f_body f2) = Some r" by blast
        have res: "res = Inr (Some r)"
          and c': "c' = invalidate_cached c ?p
             \<or> (\<exists>st. ?before = Some st \<and> peer_record_fingerprint d3 ?p = Some st
                   \<and> c' = store_cached c ?p st r)"
          using assms(1) Inr f1 miss f2
          by (auto simp: lookup_identity_def Let_def split: option.splits if_splits)
        have "decode (ident ?p st) = Some r"
          if "?before = Some st" "peer_record_fingerprint d3 ?p = Some st" for st
        proof -
          have "peer_record_fingerprint d1 ?p = Some st"
            using that f1 by (simp add: peer_record_fingerprint_def)
          with no_aba [of ?p] that f1 f2(1) have "f2 = f1" by simp
          with f2(3) f1 b [OF that(1)] assms(3) show ?thesis unfolding disk_true_def by metis
        qed
        with c' assms(2) have "cache_true decode ident c'"
          using cache_true_store cache_true_invalidate by blast
        with res f2 show ?thesis by blast
      qed
    qed
  qed
qed

section \<open>An instance of the codec, and the properties at work\<close>

text \<open>Any injective numbering of the records is a codec: the record's number, in unary.\<close>

definition record_tuple where
  "record_tuple (r :: identity_record) = (ir_version r, ir_fingerprint r, ir_label r, ir_profile r,
     ir_status r = StatusApproved, ir_class r = PeerClass, ir_card_url r, ir_request_id r,
     ir_read_roots r, ir_write_roots r, ir_created_at r, ir_revoked_at r, ir_expires_at r,
     ir_source r, ir_org_grant_id r, ir_issued_via r)"

lemma record_tuple_inj: "record_tuple r = record_tuple r' \<Longrightarrow> r = r'"
  by (cases r; cases r'; cases "ir_status r"; cases "ir_status r'"; cases "ir_class r";
      cases "ir_class r'") (auto simp: record_tuple_def)

definition unary_encode :: "identity_record \<Rightarrow> string" where
  "unary_encode r = replicate (to_nat (record_tuple r)) (CHR ''1'')"

definition unary_decode :: "string \<Rightarrow> identity_record option" where
  "unary_decode s = (if \<exists>r. length (unary_encode r) + 1 = length s
     then Some (THE r. length (unary_encode r) + 1 = length s) else None)"

lemma unary_codec: "codec unary_decode unary_encode"
proof -
  have "(THE r'. length (unary_encode r') = length (unary_encode r)) = r" for r
    by (rule the_equality) (auto simp: unary_encode_def intro: record_tuple_inj)
  then show ?thesis by (auto simp: codec_def unary_decode_def)
qed

definition quiet_env :: disk_env where
  "quiet_env = \<lparr> de_stat = Some \<lparr> sf_len = 1, sf_mtime = 2, sf_dev = 3, sf_ino = 4 \<rparr>,
     de_see = (\<lambda>i d. d) \<rparr>"

definition fp_a :: string where
  "fp_a = replicate 64 (CHR ''a'')"

lemma example_approve:
  "\<exists>r d c. write_approved_identity_record unary_encode quiet_env 100 [] [] fp_a ''box''
       ''peer-root'' PeerClass None None None = Inr (r, d, c)
     \<and> ir_fingerprint r = fp_a \<and> ir_label r = ''box'' \<and> ir_status r = StatusApproved
     \<and> ir_class r = PeerClass"
proof -
  have fp: "normalize_fingerprint fp_a = Inr fp_a" by code_simp
  have prof: "normalize_profile ''peer-root'' = Inr ''peer-root''" by code_simp
  have voc: "\<not> agent_vocabulary ''peer-root''" by code_simp
  have lab: "trim ''box'' = ''box''" by code_simp
  show ?thesis
    using fp prof voc lab
    by (simp add: write_approved_identity_record_def write_identity_record_def quiet_env_def
        peer_record_fingerprint_def fingerprint_from_metadata_def Let_def)
qed

lemma quiet_quiet_env: "quiet quiet_env"
  by (simp add: quiet_def quiet_env_def)

lemma example_store:
  obtains r d c where "store_reach unary_decode unary_encode d c"
    and "\<exists>st. d = [(identity_path fp_a,
        \<lparr> f_is_file = True, f_stat = st, f_body = unary_encode r @ [CHR 0x0A] \<rparr>)]"
    and "ir_fingerprint r = fp_a" and "ir_status r = StatusApproved" and "ir_class r = PeerClass"
    and "fst (lookup_identity unary_decode d d d c fp_a) = Inr (Some r)"
proof -
  obtain r d c where a: "write_approved_identity_record unary_encode quiet_env 100 [] [] fp_a ''box''
       ''peer-root'' PeerClass None None None = Inr (r, d, c)" "ir_fingerprint r = fp_a"
      "ir_status r = StatusApproved" "ir_class r = PeerClass"
    using example_approve by blast
  have reach: "store_reach unary_decode unary_encode d c"
    using store_reach.approve [OF store_reach.empty quiet_quiet_env a(1)] .
  have w: "write_identity_record unary_encode quiet_env [] [] r = Inr (d, c)"
    using a(1) by (auto simp: write_approved_identity_record_def Let_def)
  obtain st where d: "d = put_file [] (identity_path fp_a)
      \<lparr> f_is_file = True, f_stat = st, f_body = unary_encode r @ [CHR 0x0A] \<rparr>"
    using write_quiet [OF w quiet_quiet_env] a(2) by metis
  have norm: "normalize_fingerprint fp_a = Inr fp_a" by code_simp
  have inv: "store_inv unary_decode d" "coherent unary_decode d c"
    using store_reach_inv [OF reach unary_codec] by auto
  obtain res c' where l: "lookup_identity unary_decode d d d c fp_a = (res, c')" by fastforce
  have "res = Inr (Some r)"
    using lookup_quiet(2) [OF inv l] norm d unary_codec by (simp add: codec_def)
  then show thesis using that [OF reach _ a(2-4)] d l by (simp add: put_file_def)
qed

lemma example_write:
  "\<not> (ir_class r = PeerClass \<and> agent_vocabulary (ir_profile r)) \<Longrightarrow>
     \<exists>d' c'. write_identity_record unary_encode quiet_env d c r = Inr (d', c')"
  by (simp add: write_identity_record_def quiet_env_def peer_record_fingerprint_def
      fingerprint_from_metadata_def Let_def)

theorem store_invariant_witness:
  "\<exists>d c r. store_reach unary_decode unary_encode d c
     \<and> map_of d (identity_path fp_a) \<noteq> None
     \<and> fst (lookup_identity unary_decode d d d c fp_a) = Inr (Some r)
     \<and> profile_class_of (ir_profile r) \<noteq> AgentOperator"
proof (rule example_store)
  fix r d c
  assume reach: "store_reach unary_decode unary_encode d c"
    and d: "\<exists>st. d = [(identity_path fp_a,
        \<lparr> f_is_file = True, f_stat = st, f_body = unary_encode r @ [CHR 0x0A] \<rparr>)]"
    and cls: "ir_class r = PeerClass"
    and l: "fst (lookup_identity unary_decode d d d c fp_a) = Inr (Some r)"
  from d obtain st where m: "map_of d (identity_path fp_a) = Some
      \<lparr> f_is_file = True, f_stat = st, f_body = unary_encode r @ [CHR 0x0A] \<rparr>" by auto
  have "unary_decode (unary_encode r @ [CHR 0x0A]) = Some r"
    using unary_codec by (simp add: codec_def)
  with store_invariant [OF reach unary_codec, THEN conjunct1] m cls
  have "profile_class_of (ir_profile r) \<noteq> AgentOperator" by fastforce
  with reach m l show ?thesis by blast
qed



theorem set_profile_effect_witness:
  "\<exists>d c r' old d' c'. set_identity_profile unary_decode unary_encode quiet_env d c ''aaaa'' ''stats''
       = Inr (r', old, d', c')
     \<and> profile_class_of (ir_profile r') \<noteq> AgentOperator"
proof (rule example_store)
  fix r d c
  assume d: "\<exists>st. d = [(identity_path fp_a,
        \<lparr> f_is_file = True, f_stat = st, f_body = unary_encode r @ [CHR 0x0A] \<rparr>)]"
    and r: "ir_fingerprint r = fp_a" "ir_status r = StatusApproved" "ir_class r = PeerClass"
  have ev: "strip_separators ''aaaa'' = ''aaaa''" "list_all is_hex_char ''aaaa''"
    "require_known_profile ''stats'' = Inr ''stats''" "\<not> agent_vocabulary ''stats''"
    "starts_with fp_a ''aaaa''" "has_json_extension (identity_path fp_a)" by code_simp+
  have "unary_decode (unary_encode r @ [CHR 0x0A]) = Some r"
    using unary_codec by (simp add: codec_def)
  then have "list_identities unary_decode d = Inr [r]"
    using d ev(6) by (auto simp: list_identities_def read_entries_def)
  then have "find_identity_by_fingerprint unary_decode d ''aaaa'' = Inr r"
    using ev r(1) by (simp add: find_identity_by_fingerprint_def)
  moreover obtain d' c' where
    "write_identity_record unary_encode quiet_env d c (r\<lparr>ir_profile := ''stats''\<rparr>) = Inr (d', c')"
    using example_write [of "r\<lparr>ir_profile := ''stats''\<rparr>" d c] ev(4) by auto
  ultimately have s: "set_identity_profile unary_decode unary_encode quiet_env d c ''aaaa'' ''stats''
      = Inr (r\<lparr>ir_profile := ''stats''\<rparr>, ir_profile r, d', c')"
    using ev(3) r by (simp add: set_identity_profile_def Let_def)
  from set_profile_effect [OF s] r(3) have
    "profile_class_of (ir_profile (r\<lparr>ir_profile := ''stats''\<rparr>)) \<noteq> AgentOperator" by (metis (no_types, lifting) insertI1 identity_record.select_convs(6) identity_record.surjective identity_record.update_convs(4))
  with s show ?thesis by blast
qed

theorem lookup_race_witness:
  "\<exists>d r c'. lookup_identity unary_decode d d d [] fp_a = (Inr (Some r), c')
     \<and> cache_true unary_decode (\<lambda>p st. unary_encode r @ [CHR 0x0A]) c'"
proof (rule example_store)
  fix r d c
  assume reach: "store_reach unary_decode unary_encode d c"
    and d: "\<exists>st. d = [(identity_path fp_a,
        \<lparr> f_is_file = True, f_stat = st, f_body = unary_encode r @ [CHR 0x0A] \<rparr>)]"
  have inv: "store_inv unary_decode d" "coherent unary_decode d []"
    using store_reach_inv [OF reach unary_codec] by (auto simp: coherent_def)
  obtain res c' where l: "lookup_identity unary_decode d d d [] fp_a = (res, c')" by fastforce
  have "normalize_fingerprint fp_a = Inr fp_a" by code_simp
  with lookup_quiet(2) [OF inv l] d unary_codec have "res = Inr (Some r)"
    by (auto simp: codec_def)
  moreover have "cache_true unary_decode (\<lambda>p st. unary_encode r @ [CHR 0x0A]) c'"
    by (rule lookup_race [OF l, THEN conjunct1])
      (use d in \<open>auto simp: cache_true_def disk_true_def split: if_splits\<close>)
  ultimately show ?thesis using l by blast
qed

end
