(* ===== verification/HostedModel.thy ===== *)
theory HostedModel
  imports Autonomy AccessPolicy
begin

text \<open>
  The data of the hosted-control lane
  (\<open>src/src/bin/caller/access/hosted_control/model.rs\<close>): presets, the policy, lease
  requests, leases, signed-application anchors and certificate-witness reports, the strings
  they are signed over, and the normalization every stored copy goes through. The digest of
  a payload (SHA-256 of the external \<open>ring\<close>, printed as base64url) is the argument \<open>sha\<close>.
\<close>

section \<open>Constants\<close>

definition doorbell_protocol :: string where
  "doorbell_protocol = ''intendant-hosted-control-doorbell-v1''"
definition doorbell_request_proof_protocol :: string where
  "doorbell_request_proof_protocol = ''intendant-hosted-control-doorbell-request-v1''"
definition lease_protocol :: string where
  "lease_protocol = ''intendant-hosted-control-lease-v1''"
definition request_proof_protocol :: string where
  "request_proof_protocol = ''intendant-hosted-control-request-v1''"
definition poll_proof_protocol :: string where
  "poll_proof_protocol = ''intendant-hosted-control-poll-v1''"
definition anchor_decision_protocol :: string where
  "anchor_decision_protocol = ''intendant-hosted-control-anchor-decision-v1''"
definition certificate_ledger_protocol :: string where
  "certificate_ledger_protocol = ''intendant-fleet-certificate-ledger-v1''"
definition certificate_witness_protocol :: string where
  "certificate_witness_protocol = ''intendant-hosted-certificate-witness-v1''"

definition default_lease_ttl_secs :: u64 where "default_lease_ttl_secs = 14400"
definition hard_max_lease_ttl_secs :: u64 where "hard_max_lease_ttl_secs = 86400"
definition min_lease_ttl_secs :: u64 where "min_lease_ttl_secs = 60"
definition pending_request_ttl_ms :: u64 where "pending_request_ttl_ms = 600000"
definition hosted_requests_cap :: nat where "hosted_requests_cap = 128"
definition hosted_leases_cap :: nat where "hosted_leases_cap = 256"
definition hosted_eligible_sessions_cap :: nat where "hosted_eligible_sessions_cap = 2048"
definition hosted_anchors_cap :: nat where "hosted_anchors_cap = 32"
definition hosted_certificate_ledger_serials_cap :: nat where
  "hosted_certificate_ledger_serials_cap = 256"
definition hosted_witness_reports_cap :: nat where "hosted_witness_reports_cap = 256"
definition hosted_witness_corroborated_serials_cap :: nat where
  "hosted_witness_corroborated_serials_cap = 256"
definition hosted_witness_confirmed_serials_cap :: nat where
  "hosted_witness_confirmed_serials_cap = 64"
definition request_proof_max_skew_ms :: int where "request_proof_max_skew_ms = 60000"

definition hosted_principal_kind :: string where "hosted_principal_kind = ''hosted_lease''"
definition hosted_authn_kind :: string where "hosted_authn_kind = ''hosted_lease_key''"
definition hosted_source :: string where "hosted_source = ''hosted_control''"
definition hosted_role_view :: string where "hosted_role_view = ''role:hosted-view''"
definition hosted_role_tasks :: string where "hosted_role_tasks = ''role:hosted-tasks''"
definition hosted_role_operate :: string where "hosted_role_operate = ''role:hosted-operate''"
definition hosted_role_ids :: "string list" where
  "hosted_role_ids = [hosted_role_view, hosted_role_tasks, hosted_role_operate]"

section \<open>Presets\<close>

datatype hosted_preset = PresetView | PresetTasks | PresetOperate

fun preset_rank :: "hosted_preset \<Rightarrow> nat" where
  "preset_rank PresetView = 0"
| "preset_rank PresetTasks = 1"
| "preset_rank PresetOperate = 2"

instantiation hosted_preset :: linorder
begin

definition less_eq_hosted_preset :: "hosted_preset \<Rightarrow> hosted_preset \<Rightarrow> bool" where
  "less_eq_hosted_preset a b = (preset_rank a \<le> preset_rank b)"

definition less_hosted_preset :: "hosted_preset \<Rightarrow> hosted_preset \<Rightarrow> bool" where
  "less_hosted_preset a b = (preset_rank a < preset_rank b)"

instance
proof
  fix x y z :: hosted_preset
  show "x < y \<longleftrightarrow> x \<le> y \<and> \<not> y \<le> x" "x \<le> x" "x \<le> y \<or> y \<le> x"
    by (auto simp: less_eq_hosted_preset_def less_hosted_preset_def)
  show "x \<le> y \<Longrightarrow> y \<le> z \<Longrightarrow> x \<le> z"
    by (simp add: less_eq_hosted_preset_def)
  show "x \<le> y \<Longrightarrow> y \<le> x \<Longrightarrow> x = y"
    by (cases x; cases y) (simp_all add: less_eq_hosted_preset_def)
qed

end

lemma preset_le_simps [simp]:
  "PresetView \<le> p" "p \<le> PresetOperate" "(PresetOperate \<le> p) = (p = PresetOperate)"
  "(p \<le> PresetView) = (p = PresetView)" "(PresetTasks \<le> p) = (p \<noteq> PresetView)"
  "(p \<le> PresetTasks) = (p \<noteq> PresetOperate)"
  by (cases p; simp add: less_eq_hosted_preset_def)+

fun preset_as_str :: "hosted_preset \<Rightarrow> string" where
  "preset_as_str PresetView = ''view''"
| "preset_as_str PresetTasks = ''tasks''"
| "preset_as_str PresetOperate = ''operate''"

fun preset_role_id :: "hosted_preset \<Rightarrow> string" where
  "preset_role_id PresetView = hosted_role_view"
| "preset_role_id PresetTasks = hosted_role_tasks"
| "preset_role_id PresetOperate = hosted_role_operate"

definition preset_from_role_id :: "string \<Rightarrow> hosted_preset option" where
  "preset_from_role_id role_id =
     (if role_id = hosted_role_view then Some PresetView
      else if role_id = hosted_role_tasks then Some PresetTasks
      else if role_id = hosted_role_operate then Some PresetOperate else None)"

lemmas hosted_role_defs = hosted_role_view_def hosted_role_tasks_def hosted_role_operate_def

lemma preset_role_roundtrip [simp]: "preset_from_role_id (preset_role_id p) = Some p"
  by (cases p) (simp_all add: preset_from_role_id_def hosted_role_defs)

lemma preset_from_role_Some: "preset_from_role_id r = Some p \<Longrightarrow> r = preset_role_id p"
  by (auto simp: preset_from_role_id_def split: if_splits)

section \<open>Policy, requests and leases\<close>

record hosted_control_policy =
  hp_ceiling :: hosted_preset
  hp_max_ttl_secs :: u64
  hp_eligible_session_ids :: "string list"

definition default_hosted_policy :: hosted_control_policy where
  "default_hosted_policy = \<lparr> hp_ceiling = PresetTasks, hp_max_ttl_secs = default_lease_ttl_secs,
     hp_eligible_session_ids = [] \<rparr>"

datatype hosted_request_status = RequestPending | RequestApproved | RequestDenied | RequestExpired

record hosted_lease_request =
  rq_protocol :: string
  rq_request_id :: string
  rq_request_nonce :: string
  rq_browser_public_key :: string
  rq_browser_key_fingerprint :: string
  rq_requested_preset :: hosted_preset
  rq_requested_ttl_secs :: u64
  rq_requester_label :: string
  rq_fleet_origin :: string
  rq_daemon_id :: string
  rq_daemon_label :: string
  rq_daemon_public_key :: string
  rq_created_unix_ms :: u64
  rq_expires_unix_ms :: u64
  rq_status :: hosted_request_status
  rq_approved_lease_id :: "string option"
  rq_doorbell_signature :: string

definition u64_string :: "u64 \<Rightarrow> string" where "u64_string n = dec_string (unat n)"
definition i64_string :: "int \<Rightarrow> string" where
  "i64_string n = (if n < 0 then ''-'' @ dec_string (nat (- n)) else dec_string (nat n))"

abbreviation nl :: string where "nl \<equiv> [CHR 0x0A]"

definition request_signing_payload :: "hosted_lease_request \<Rightarrow> string" where
  "request_signing_payload r = join_with nl
     [rq_protocol r, rq_request_id r, rq_request_nonce r, rq_browser_public_key r,
      rq_browser_key_fingerprint r, preset_as_str (rq_requested_preset r),
      u64_string (rq_requested_ttl_secs r), rq_requester_label r, rq_fleet_origin r,
      rq_daemon_id r, rq_daemon_label r, rq_daemon_public_key r,
      u64_string (rq_created_unix_ms r), u64_string (rq_expires_unix_ms r)]"

definition request_document_sha256 :: "(string \<Rightarrow> string) \<Rightarrow> hosted_lease_request \<Rightarrow> string" where
  "request_document_sha256 sha r = sha (request_signing_payload r)"

record hosted_lease_document =
  ld_protocol :: string
  ld_lease_id :: string
  ld_request_id :: string
  ld_daemon_id :: string
  ld_daemon_public_key :: string
  ld_fleet_origin :: string
  ld_browser_public_key :: string
  ld_browser_key_fingerprint :: string
  ld_preset :: hosted_preset
  ld_issued_unix_ms :: u64
  ld_expires_unix_ms :: u64
  ld_principal_id :: string
  ld_grant_id :: string
  ld_document_sha256 :: string
  ld_signature :: string

definition lease_unsigned_payload :: "hosted_lease_document \<Rightarrow> string" where
  "lease_unsigned_payload d = join_with nl
     [ld_protocol d, ld_lease_id d, ld_request_id d, ld_daemon_id d, ld_daemon_public_key d,
      ld_fleet_origin d, ld_browser_public_key d, ld_browser_key_fingerprint d,
      preset_as_str (ld_preset d), u64_string (ld_issued_unix_ms d),
      u64_string (ld_expires_unix_ms d), ld_principal_id d, ld_grant_id d]"

definition lease_expected_sha256 :: "(string \<Rightarrow> string) \<Rightarrow> hosted_lease_document \<Rightarrow> string" where
  "lease_expected_sha256 sha d = sha (lease_unsigned_payload d)"

definition lease_signing_payload :: "hosted_lease_document \<Rightarrow> string" where
  "lease_signing_payload d = lease_unsigned_payload d @ nl @ ld_document_sha256 d"

datatype hosted_lease_status = LeaseActive | LeaseRevoked | LeaseExpired

record hosted_lease_record =
  lr_document :: hosted_lease_document
  lr_status :: hosted_lease_status
  lr_revoked_at_unix_ms :: "u64 option"
  lr_revoked_by :: "string option"

section \<open>Signed-application anchors and certificate witnesses\<close>

text \<open>
  The evidence snapshot of an anchor (receipt digest, verified release) is kept for audit and
  read by no decision; it is left out.
\<close>

record signed_app_anchor =
  sa_device_id :: string
  sa_label :: string
  sa_public_key :: string
  sa_key_fingerprint :: string
  sa_distribution_id :: string
  sa_active :: bool
  sa_enrolled_unix_ms :: u64
  sa_revoked_unix_ms :: "u64 option"

record anchor_decision_document =
  ad_protocol :: string
  ad_device_id :: string
  ad_anchor_public_key :: string
  ad_daemon_id :: string
  ad_request_id :: string
  ad_request_document_sha256 :: string
  ad_approve :: bool
  ad_nonce :: string
  ad_timestamp_unix_ms :: int
  ad_signature :: string

definition decision_signing_payload :: "anchor_decision_document \<Rightarrow> string" where
  "decision_signing_payload d = join_with nl
     [ad_protocol d, ad_device_id d, ad_anchor_public_key d, ad_daemon_id d, ad_request_id d,
      ad_request_document_sha256 d, if ad_approve d then ''approve'' else ''deny'', ad_nonce d,
      i64_string (ad_timestamp_unix_ms d)]"

record certificate_ledger =
  cl_protocol :: string
  cl_daemon_id :: string
  cl_daemon_public_key :: string
  cl_fleet_origin :: string
  cl_serials :: "string list"
  cl_issued_unix_ms :: u64
  cl_signature :: string

definition ledger_unsigned_payload :: "certificate_ledger \<Rightarrow> string" where
  "ledger_unsigned_payload l = join_with nl
     [cl_protocol l, cl_daemon_id l, cl_daemon_public_key l, cl_fleet_origin l,
      join_with '','' (cl_serials l), u64_string (cl_issued_unix_ms l)]"

definition ledger_document_sha256 :: "(string \<Rightarrow> string) \<Rightarrow> certificate_ledger \<Rightarrow> string" where
  "ledger_document_sha256 sha l = sha (ledger_unsigned_payload l)"

datatype witness_kind = WitnessPeer | WitnessSignedApp

fun witness_kind_str :: "witness_kind \<Rightarrow> string" where
  "witness_kind_str WitnessPeer = ''peer''"
| "witness_kind_str WitnessSignedApp = ''signed_app''"

datatype witness_vantage = VantageSameLan | VantageRemote | VantageCellular | VantageUnknown

fun vantage_str :: "witness_vantage \<Rightarrow> string" where
  "vantage_str VantageSameLan = ''same_lan''"
| "vantage_str VantageRemote = ''remote''"
| "vantage_str VantageCellular = ''cellular''"
| "vantage_str VantageUnknown = ''unknown''"

definition vantage_is_strong :: "witness_vantage \<Rightarrow> bool" where
  "vantage_is_strong v = (v = VantageRemote \<or> v = VantageCellular)"

record witness_report =
  wr_protocol :: string
  wr_report_id :: string
  wr_observer_kind :: witness_kind
  wr_observer_id :: string
  wr_observer_public_key :: string
  wr_target_daemon_id :: string
  wr_fleet_origin :: string
  wr_ledger_sha256 :: string
  wr_observed_serial_hex :: string
  wr_vantage :: witness_vantage
  wr_observed_unix_ms :: u64
  wr_signature :: string

definition report_unsigned_payload :: "witness_report \<Rightarrow> string" where
  "report_unsigned_payload r = join_with nl
     [wr_protocol r, wr_report_id r, witness_kind_str (wr_observer_kind r), wr_observer_id r,
      wr_observer_public_key r, wr_target_daemon_id r, wr_fleet_origin r, wr_ledger_sha256 r,
      wr_observed_serial_hex r, vantage_str (wr_vantage r), u64_string (wr_observed_unix_ms r)]"

record witness_record =
  wx_report :: witness_report
  wx_observer_binding :: string
  wx_observer_label :: string
  wx_received_unix_ms :: u64

record witness_state =
  wt_reports :: "witness_record list"
  wt_corroborated_serials :: "string list"
  wt_owner_confirmed_serials :: "string list"
  wt_override_evidence_sha256 :: "string option"
  wt_override_actor :: "string option"
  wt_override_unix_ms :: "u64 option"

record hosted_control_state =
  hc_policy :: hosted_control_policy
  hc_requests :: "hosted_lease_request list"
  hc_leases :: "hosted_lease_record list"
  hc_signed_app_anchors :: "signed_app_anchor list"
  hc_witnesses :: witness_state

definition empty_witnesses :: witness_state where
  "empty_witnesses = \<lparr> wt_reports = [], wt_corroborated_serials = [],
     wt_owner_confirmed_serials = [], wt_override_evidence_sha256 = None,
     wt_override_actor = None, wt_override_unix_ms = None \<rparr>"

definition default_hosted_control :: hosted_control_state where
  "default_hosted_control = \<lparr> hc_policy = default_hosted_policy, hc_requests = [],
     hc_leases = [], hc_signed_app_anchors = [], hc_witnesses = empty_witnesses \<rparr>"

section \<open>Bounds and normalization\<close>

definition id_char :: "char \<Rightarrow> bool" where
  "id_char c = (is_ascii_alphanumeric c \<or> c \<in> set ''-_:.'')"

definition valid_id_component :: "string \<Rightarrow> bool" where
  "valid_id_component value = (let v = trim value in
     v \<noteq> [] \<and> length v \<le> 160 \<and> list_all id_char v)"

definition ascii_hex_digit :: "char \<Rightarrow> bool" where
  "ascii_hex_digit c = (CHR ''0'' \<le> c \<and> c \<le> CHR ''9'' \<or> CHR ''A'' \<le> c \<and> c \<le> CHR ''F''
     \<or> CHR ''a'' \<le> c \<and> c \<le> CHR ''f'')"

definition valid_serial_hex :: "string \<Rightarrow> bool" where
  "valid_serial_hex v = (v \<noteq> [] \<and> length v \<le> 128 \<and> list_all ascii_hex_digit v)"

definition valid_witness_binding :: "string \<Rightarrow> bool" where
  "valid_witness_binding v = (v \<noteq> [] \<and> length v \<le> 192 \<and> list_all id_char v)"

definition retain_tail :: "'a list \<Rightarrow> nat \<Rightarrow> 'a list" where
  "retain_tail vs cap = (if cap < length vs then drop (length vs - cap) vs else vs)"

text \<open>A \<open>retain\<close> whose closure drops the first \<open>n\<close> elements with the property.\<close>

fun drop_matching :: "('a \<Rightarrow> bool) \<Rightarrow> nat \<Rightarrow> 'a list \<Rightarrow> 'a list \<times> nat" where
  "drop_matching P n [] = ([], n)"
| "drop_matching P n (x # xs) =
     (if 0 < n \<and> P x then drop_matching P (n - 1) xs
      else (case drop_matching P n xs of (ys, m) \<Rightarrow> (x # ys, m)))"

definition retain_request_tail :: "hosted_lease_request list \<Rightarrow> nat \<Rightarrow> hosted_lease_request list" where
  "retain_request_tail vs cap =
     (if length vs \<le> cap then vs
      else (case drop_matching (\<lambda>r. rq_status r \<noteq> RequestPending) (length vs - cap) vs of
              (kept, remaining) \<Rightarrow> drop remaining kept))"

definition retain_lease_tail :: "hosted_lease_record list \<Rightarrow> nat \<Rightarrow> hosted_lease_record list" where
  "retain_lease_tail vs cap =
     (if length vs \<le> cap then vs
      else (let active = length (filter (\<lambda>l. lr_status l = LeaseActive) vs);
                inactive_cap = cap - active;
                inactive = length vs - active
            in fst (drop_matching (\<lambda>l. lr_status l \<noteq> LeaseActive) (inactive - inactive_cap) vs)))"

definition sort_dedup :: "string list \<Rightarrow> string list" where
  "sort_dedup vs = remdups_adj (sort vs)"

definition normalize_serial_set :: "string list \<Rightarrow> nat \<Rightarrow> string list" where
  "normalize_serial_set serials cap = retain_tail (sort_dedup (filter valid_serial_hex serials)) cap"

text \<open>\<open>corroborated_serials_from_reports\<close>: per serial, the bindings that reported it.\<close>

definition note_vantage :: "witness_vantage \<Rightarrow> witness_vantage option \<Rightarrow> witness_vantage" where
  "note_vantage v old = (case old of None \<Rightarrow> v
     | Some w \<Rightarrow> if \<not> vantage_is_strong w \<and> vantage_is_strong v then v else w)"

definition observe_report ::
  "witness_vantage btree btree \<Rightarrow> witness_record \<Rightarrow> witness_vantage btree btree" where
  "observe_report obs x =
     (let r = wx_report x;
          bindings = (case bt_get obs (wr_observed_serial_hex r) of None \<Rightarrow> [] | Some b \<Rightarrow> b)
      in bt_put (wr_observed_serial_hex r)
           (bt_put (wx_observer_binding x)
              (note_vantage (wr_vantage r) (bt_get bindings (wx_observer_binding x))) bindings)
           obs)"

definition corroborated_serials_from_reports :: "witness_record list \<Rightarrow> string list" where
  "corroborated_serials_from_reports reports =
     map fst (filter (\<lambda>(serial, bindings). 2 \<le> length bindings
                        \<and> (\<exists>(b, v) \<in> set bindings. vantage_is_strong v))
                (foldl observe_report [] reports))"

definition clamp_ttl :: "u64 \<Rightarrow> u64" where
  "clamp_ttl t = (if t < min_lease_ttl_secs then min_lease_ttl_secs
     else if hard_max_lease_ttl_secs < t then hard_max_lease_ttl_secs else t)"

definition normalize_policy :: "hosted_control_policy \<Rightarrow> hosted_control_policy" where
  "normalize_policy p = p\<lparr> hp_max_ttl_secs := clamp_ttl (hp_max_ttl_secs p),
     hp_eligible_session_ids := retain_tail
       (sort_dedup (filter valid_id_component (hp_eligible_session_ids p)))
       hosted_eligible_sessions_cap \<rparr>"

definition witness_record_ok :: "witness_record \<Rightarrow> bool" where
  "witness_record_ok x = (valid_id_component (wr_report_id (wx_report x))
     \<and> valid_witness_binding (wx_observer_binding x)
     \<and> valid_serial_hex (wr_observed_serial_hex (wx_report x)))"

definition normalize_witnesses :: "witness_state \<Rightarrow> witness_state" where
  "normalize_witnesses w =
     (let reports = filter witness_record_ok (wt_reports w)
      in w\<lparr> wt_reports := retain_tail reports hosted_witness_reports_cap,
            wt_corroborated_serials := normalize_serial_set
              (wt_corroborated_serials w @ corroborated_serials_from_reports reports)
              hosted_witness_corroborated_serials_cap,
            wt_owner_confirmed_serials := normalize_serial_set (wt_owner_confirmed_serials w)
              hosted_witness_confirmed_serials_cap \<rparr>)"

definition normalize_hosted :: "hosted_control_state \<Rightarrow> hosted_control_state" where
  "normalize_hosted h = h\<lparr> hc_policy := normalize_policy (hc_policy h),
     hc_requests := retain_request_tail
       (filter (\<lambda>r. valid_id_component (rq_request_id r)) (hc_requests h)) hosted_requests_cap,
     hc_leases := retain_lease_tail
       (filter (\<lambda>l. valid_id_component (ld_lease_id (lr_document l))) (hc_leases h))
       hosted_leases_cap,
     hc_signed_app_anchors := retain_tail
       (filter (\<lambda>a. valid_id_component (sa_device_id a)) (hc_signed_app_anchors h))
       hosted_anchors_cap,
     hc_witnesses := normalize_witnesses (hc_witnesses h) \<rparr>"

end
