(* ===== verification/IamState.thy ===== *)
theory IamState
  imports HostedModel FileScope
begin

text \<open>
  The local access state (\<open>src/src/bin/caller/access/iam.rs\<close>): principals, roles, grants and
  the audit trail of \<open>iam.json\<close>, the synthetic principals the transports mint, the builtin
  roles, the normalization every load and save applies, and the resolution of a
  credential to the principal and grant it speaks for. Clock readings are arguments;
  identifiers, statuses and permission ids are the source's strings.
\<close>

section \<open>The state\<close>

text \<open>\<open>value.get(key).and_then(Value::as_str)\<close>.\<close>

definition jstr :: "string \<Rightarrow> json \<Rightarrow> string option" where
  "jstr k v = Option.bind (json_get v k) json_as_str"

lemma jstr_obj [simp]: "jstr k (JObj kvs) = Option.bind (map_of kvs k) json_as_str"
  by (simp add: jstr_def)

record iam_principal =
  ip_id :: string
  ip_kind :: string
  ip_label :: string
  ip_status :: string
  ip_source :: string
  ip_account :: "json option"
  ip_organization :: "json option"
  ip_authn :: "json list"
  ip_notes :: "string option"
  ip_created_at_unix_ms :: "u64 option"

record iam_role =
  ir_id :: string
  ir_label :: string
  ir_status :: string
  ir_summary :: string
  ir_permissions :: "string list"
  ir_source :: string

record iam_grant =
  ig_id :: string
  ig_principal_id :: string
  ig_target_id :: string
  ig_role_id :: string
  ig_policy_id :: string
  ig_status :: string
  ig_source :: string
  ig_reason :: string
  ig_created_at_unix_ms :: "u64 option"
  ig_revoked_at_unix_ms :: "u64 option"
  ig_expires_at_unix_ms :: "u64 option"
  ig_issued_via :: "string option"
  ig_fs_scope :: "fs_policy option"

record iam_audit_event =
  ie_id :: string
  ie_at_unix_ms :: "u64 option"
  ie_actor_principal_id :: string
  ie_action :: string
  ie_target_id :: string
  ie_summary :: string

text \<open>
  A trusted organization; its revocation list is applied by \<open>org.rs\<close>, which is not
  modelled, and is carried unread.
\<close>

record trusted_org =
  to_handle :: string
  to_root_key :: string
  to_max_role :: string
  to_status :: string
  to_max_peer_profile :: string
  to_last_orl_seq :: u64

record local_iam_state =
  is_schema_version :: u32
  is_principals :: "iam_principal list"
  is_roles :: "iam_role list"
  is_grants :: "iam_grant list"
  is_audit_events :: "iam_audit_event list"
  is_role_ceilings :: "string btree"
  is_hosted_origins :: "string list"
  is_trusted_orgs :: "trusted_org list"
  is_tier :: "string option"
  is_hosted_control :: hosted_control_state

definition iam_schema_version :: u32 where "iam_schema_version = 3"
definition default_hosted_origin :: string where
  "default_hosted_origin = ''https://connect.intendant.dev''"
definition iam_audit_events_cap :: nat where "iam_audit_events_cap = 300"
definition daemon_tiers :: "string list" where "daemon_tiers = [''integrated'', ''disposable'']"
definition hosted_ceiling_bindings :: "string list" where
  "hosted_ceiling_bindings = [''connect_account'', ''client_key'']"

definition default_role_ceilings :: "string btree" where
  "default_role_ceilings =
     bt_put ''client_key'' ''role:none'' (bt_put ''connect_account'' ''role:none'' [])"

definition default_hosted_origins :: "string list" where
  "default_hosted_origins = [default_hosted_origin]"

definition is_enforced_status :: "string \<Rightarrow> bool" where
  "is_enforced_status status =
     (to_ascii_lowercase (trim status) \<in> {''active'', ''enforced''})"

text \<open>
  The clock is an \<open>i64\<close>; cast to \<open>u128\<close> a reading before the epoch becomes a huge number,
  so a grant with an expiry is then not active.
\<close>

definition is_active_at :: "iam_grant \<Rightarrow> int \<Rightarrow> bool" where
  "is_active_at g now =
     (is_enforced_status (ig_status g)
      \<and> (case ig_expires_at_unix_ms g of
           Some expires \<Rightarrow> now mod 2 ^ 128 < uint expires
         | None \<Rightarrow> True))"

section \<open>Request principals\<close>

record access_principal =
  ap_id :: string
  ap_kind :: string
  ap_label :: string
  ap_source :: string
  ap_role_id :: string
  ap_grant_id :: "string option"
  ap_transport :: string
  ap_peer_profile :: "string option"
  ap_account :: "json option"
  ap_organization :: "json option"
  ap_authn :: "json list"
  ap_authn_kind :: "string option"
  ap_authn_binding :: "string option"
  ap_authn_origin :: "string option"
  ap_hosted_connect :: bool

record access_decision =
  de_allowed :: bool
  de_principal_id :: string
  de_principal_kind :: string
  de_permission :: string
  de_reason :: string

definition decision_allowed ::
  "access_principal \<Rightarrow> peer_operation \<Rightarrow> string \<Rightarrow> access_decision" where
  "decision_allowed p op reason = \<lparr> de_allowed = True, de_principal_id = ap_id p,
     de_principal_kind = ap_kind p, de_permission = operation_permission_id op,
     de_reason = reason \<rparr>"

definition decision_denied ::
  "access_principal \<Rightarrow> peer_operation \<Rightarrow> string \<Rightarrow> access_decision" where
  "decision_denied p op reason = \<lparr> de_allowed = False, de_principal_id = ap_id p,
     de_principal_kind = ap_kind p, de_permission = operation_permission_id op,
     de_reason = reason \<rparr>"

lemma decision_simps [simp]:
  "de_allowed (decision_allowed p op r)" "\<not> de_allowed (decision_denied p op r)"
  "de_reason (decision_allowed p op r) = r" "de_reason (decision_denied p op r) = r"
  by (simp_all add: decision_allowed_def decision_denied_def)

definition ensure_allowed :: "access_decision \<Rightarrow> string + unit" where
  "ensure_allowed d = (if de_allowed d then Inr () else Inl (de_reason d))"

text \<open>\<open>slug_component\<close>, \<open>short_id\<close> and the fingerprint normal forms.\<close>

definition trimmed_nonempty :: "string \<Rightarrow> string option" where
  "trimmed_nonempty value = (let v = trim value in if v = [] then None else Some v)"

definition hex_fingerprint :: "string \<Rightarrow> string" where
  "hex_fingerprint value = map ascii_lower_char (filter ascii_hex_digit value)"

definition normalize_client_key_fingerprint :: "string \<Rightarrow> string" where
  "normalize_client_key_fingerprint value = trim value"

definition slug_component :: "string \<Rightarrow> string" where
  "slug_component value =
     (let slug = trim_char CHR ''-''
                   (map (\<lambda>c. if is_ascii_alphanumeric c then ascii_lower_char c else CHR ''-'')
                      (filter (\<lambda>c. \<not> is_continuation c) (trim value)))
      in if slug = [] then ''unknown'' else slug)"

definition short_id :: "string \<Rightarrow> string" where
  "short_id value = take_chars 12 value"

definition root_dashboard_session :: "string \<Rightarrow> string \<Rightarrow> access_principal" where
  "root_dashboard_session source transport = \<lparr> ap_id = ''principal:root:dashboard'',
     ap_kind = ''root_session'', ap_label = ''Root dashboard session'', ap_source = source,
     ap_role_id = ''role:root'', ap_grant_id = Some ''grant:root:dashboard'',
     ap_transport = transport, ap_peer_profile = None, ap_account = None,
     ap_organization = None, ap_authn = [], ap_authn_kind = None, ap_authn_binding = None,
     ap_authn_origin = None, ap_hosted_connect = False \<rparr>"

definition ungranted_browser_mtls :: "string option \<Rightarrow> string \<Rightarrow> access_principal" where
  "ungranted_browser_mtls fp transport =
     (let fingerprint = (case fp of Some f \<Rightarrow> hex_fingerprint f | None \<Rightarrow> []);
          short = (if fingerprint = [] then ''unresolved'' else take_chars 12 fingerprint)
      in \<lparr> ap_id = ''principal:browser-cert:'' @ short, ap_kind = ''browser_certificate'',
           ap_label = (if fingerprint = [] then ''Unresolved browser certificate''
                       else ''Unenrolled browser certificate '' @ short),
           ap_source = ''browser-mtls-ungranted'', ap_role_id = ''role:none'',
           ap_grant_id = None, ap_transport = transport, ap_peer_profile = None,
           ap_account = None, ap_organization = None,
           ap_authn = [JObj ([(''kind'', JStr ''browser_mtls_cert''),
                              (''label'', JStr ''Browser mTLS certificate'')]
                        @ (if fingerprint = [] then [] else [(''fingerprint'', JStr fingerprint)]))],
           ap_authn_kind = Some ''browser_mtls_cert'',
           ap_authn_binding = (if fingerprint = [] then None else Some fingerprint),
           ap_authn_origin = None, ap_hosted_connect = False \<rparr>)"

definition authority_free_http :: "string \<Rightarrow> access_principal" where
  "authority_free_http transport = \<lparr> ap_id = ''principal:anonymous:http'',
     ap_kind = ''anonymous'', ap_label = ''Authority-free HTTP request'',
     ap_source = ''public-http'', ap_role_id = ''role:none'', ap_grant_id = None,
     ap_transport = transport, ap_peer_profile = None, ap_account = None,
     ap_organization = None, ap_authn = [], ap_authn_kind = None, ap_authn_binding = None,
     ap_authn_origin = None, ap_hosted_connect = False \<rparr>"

definition supervised_agent_session_default ::
  "string \<Rightarrow> string \<Rightarrow> bool \<Rightarrow> access_principal" where
  "supervised_agent_session_default session_id transport authenticated =
     (root_dashboard_session
        (if authenticated then ''mcp-session-token'' else ''mcp-shared-token'') transport)
     \<lparr> ap_id := ''principal:agent-session:'' @ slug_component session_id,
       ap_label := ''Supervised agent session '' @ short_id session_id,
       ap_grant_id := None,
       ap_authn := [JObj [(''kind'', JStr ''agent_session''),
                          (''label'', JStr ''Supervised agent session''),
                          (''session_id'', JStr session_id),
                          (''session_token'', JBool authenticated)]] \<rparr>"

definition mcp_token_holder :: "string \<Rightarrow> access_principal" where
  "mcp_token_holder transport = (root_dashboard_session ''mcp-loopback-token'' transport)
     \<lparr> ap_id := ''principal:mcp-token-holder'', ap_label := ''MCP token holder'',
       ap_grant_id := None \<rparr>"

definition local_loopback_mcp_default :: "string \<Rightarrow> access_principal" where
  "local_loopback_mcp_default transport =
     (root_dashboard_session ''mcp-loopback-cleartext'' transport)
     \<lparr> ap_id := ''principal:local-process:loopback'', ap_label := ''Local loopback MCP client'',
       ap_grant_id := None,
       ap_authn := [JObj [(''kind'', JStr ''loopback_mcp''),
                          (''label'', JStr ''Loopback MCP client''),
                          (''scope'', JStr ''loopback'')]] \<rparr>"

definition machine_principal ::
  "string \<Rightarrow> string \<Rightarrow> string \<Rightarrow> string \<Rightarrow> string \<Rightarrow> string \<Rightarrow> access_principal" where
  "machine_principal lane kind fingerprint label profile transport =
     \<lparr> ap_id = ''principal:'' @ lane @ '':'' @ fingerprint, ap_kind = kind,
       ap_label = (if trim label = [] then fingerprint else label),
       ap_source = ''peer_identity_store'', ap_role_id = [], ap_grant_id = None,
       ap_transport = transport, ap_peer_profile = Some profile, ap_account = None,
       ap_organization = None, ap_authn = [], ap_authn_kind = None, ap_authn_binding = None,
       ap_authn_origin = None, ap_hosted_connect = False \<rparr>"

definition peer_daemon ::
  "string \<Rightarrow> string \<Rightarrow> string \<Rightarrow> string \<Rightarrow> access_principal" where
  "peer_daemon fingerprint label profile transport =
     (machine_principal ''peer-daemon'' ''peer_daemon'' fingerprint label profile transport)
     \<lparr> ap_role_id := ''role:peer-profile:'' @ profile,
       ap_grant_id := Some (''grant:peer-profile:'' @ fingerprint) \<rparr>"

definition agent_client ::
  "string \<Rightarrow> string \<Rightarrow> string \<Rightarrow> string \<Rightarrow> access_principal" where
  "agent_client fingerprint label profile transport =
     (machine_principal ''agent-client'' ''agent_client'' fingerprint label profile transport)
     \<lparr> ap_role_id := ''role:agent-profile:'' @ profile,
       ap_grant_id := Some (''grant:agent-profile:'' @ fingerprint) \<rparr>"

definition or_default :: "string \<Rightarrow> string \<Rightarrow> string" where
  "or_default s d = (if trim s = [] then d else s)"

definition local_user_client ::
  "iam_principal \<Rightarrow> iam_grant \<Rightarrow> string \<Rightarrow> access_principal" where
  "local_user_client pr grant transport =
     \<lparr> ap_id = ip_id pr, ap_kind = or_default (ip_kind pr) ''human_user'',
       ap_label = or_default (ip_label pr) (ip_id pr),
       ap_source = or_default (ip_source pr) ''local_iam_state'',
       ap_role_id = or_default (ig_role_id grant) ''role:scoped-human'',
       ap_grant_id = Some (ig_id grant), ap_transport = transport, ap_peer_profile = None,
       ap_account = ip_account pr, ap_organization = ip_organization pr,
       ap_authn = ip_authn pr, ap_authn_kind = None, ap_authn_binding = None,
       ap_authn_origin = None, ap_hosted_connect = False \<rparr>"

definition is_owner_surface :: "access_principal \<Rightarrow> bool" where
  "is_owner_surface p = (ap_grant_id p = Some ''grant:root:dashboard''
     \<or> ap_id p = ''principal:local-process:loopback'')"

definition is_enrolled_root_mtls_user_client :: "access_principal \<Rightarrow> bool" where
  "is_enrolled_root_mtls_user_client p =
     (ap_kind p \<in> {''browser_certificate'', ''human_user''} \<and> ap_role_id p = ''role:root''
      \<and> ap_authn_kind p = Some ''browser_mtls_cert''
      \<and> (case ap_authn_binding p of Some b \<Rightarrow> trim b \<noteq> [] | None \<Rightarrow> False)
      \<and> (case ap_grant_id p of Some g \<Rightarrow> trim g \<noteq> [] | None \<Rightarrow> False)
      \<and> \<not> ap_hosted_connect p)"

section \<open>Permissions\<close>

definition permissions_allow :: "string list \<Rightarrow> string \<Rightarrow> bool" where
  "permissions_allow permissions permission = (\<exists>candidate \<in> set permissions.
     candidate = permission
     \<or> (candidate = ''terminal.use''
        \<and> permission \<in> {''terminal.view'', ''terminal.write'', ''shell.spawn''})
     \<or> (candidate = ''peer.manage'' \<and> permission = ''peer.use''))"

definition permissions_excess :: "string list \<Rightarrow> string list \<Rightarrow> string option" where
  "permissions_excess granted cap = find (\<lambda>permission.
     if permission = ''terminal.use''
     then \<not> list_all (permissions_allow cap) [''terminal.view'', ''terminal.write'', ''shell.spawn'']
     else \<not> permissions_allow cap permission) granted"

definition root_permission_ids :: "string list" where
  "root_permission_ids =
     [''presence.read'', ''stats.read'', ''display.view'', ''display.input'', ''message.send'',
      ''task.run'', ''approval.resolve'', ''access.inspect'', ''access.manage'',
      ''peer.inspect'', ''peer.manage'', ''peer.use'', ''session.inspect'', ''session.manage'',
      ''terminal.view'', ''terminal.write'', ''shell.spawn'', ''settings.manage'',
      ''credentials.manage'', ''runtime.control'', ''filesystem.read'', ''filesystem.write'',
      ''agenda.read'', ''agenda.write'', ''feedback.write'', ''memory.read'', ''memory.write'']"

definition builtin_role :: "string \<Rightarrow> string \<Rightarrow> string \<Rightarrow> string list \<Rightarrow> iam_role" where
  "builtin_role i label summary permissions = \<lparr> ir_id = i, ir_label = label,
     ir_status = ''enforced'', ir_summary = summary, ir_permissions = permissions,
     ir_source = ''builtin'' \<rparr>"

definition builtin_role_templates :: "iam_role list" where
  "builtin_role_templates =
     [builtin_role ''role:root'' ''Root'' ''Current owner/root dashboard authority.''
        root_permission_ids,
      builtin_role ''role:peer-profile'' ''Peer profile''
        ''Daemon-to-daemon grants enforced by the approved peer identity profile.''
        [''presence.read'', ''stats.read'', ''display.view'', ''display.input'',
         ''message.send'', ''task.run'', ''approval.resolve'', ''access.inspect'',
         ''peer.inspect'', ''peer.manage'', ''peer.use'', ''session.inspect'',
         ''session.manage'', ''terminal.view'', ''terminal.write'', ''shell.spawn'',
         ''settings.manage'', ''runtime.control'', ''filesystem.read'', ''filesystem.write''],
      builtin_role ''role:none'' ''No access''
        ''Ceiling-only sentinel with no permissions: used in role_ceilings to refuse a binding kind (e.g. hosted-origin control) entirely. Never assigned to a principal.''
        [],
      builtin_role ''role:scoped-human'' ''Scoped human''
        ''Minimal human/client IAM role for stable browser or native mTLS bindings.''
        [''access.inspect''],
      builtin_role ''role:observer'' ''Observer''
        ''Read-only dashboard visibility without files, terminal, task control, or settings.''
        [''presence.read'', ''stats.read'', ''display.view'', ''access.inspect'',
         ''peer.inspect'', ''session.inspect'', ''agenda.read'', ''memory.read''],
      builtin_role ''role:session-reader'' ''Session reader''
        ''Read sessions, logs, reports, and status without controlling the daemon.''
        [''presence.read'', ''stats.read'', ''access.inspect'', ''session.inspect''],
      builtin_role ''role:terminal'' ''Terminal''
        ''Collaborate in shared shell sessions (view and type) without spawning new shells or broader dashboard mutation rights.''
        [''presence.read'', ''stats.read'', ''access.inspect'', ''session.inspect'',
         ''terminal.view'', ''terminal.write''],
      builtin_role ''role:files-read'' ''Files read''
        ''Browse metadata and download files without writing to disk.''
        [''presence.read'', ''stats.read'', ''access.inspect'', ''filesystem.read''],
      builtin_role ''role:files-write'' ''Files write''
        ''Read files and upload/create file content through the dashboard.''
        [''presence.read'', ''stats.read'', ''access.inspect'', ''filesystem.read'',
         ''filesystem.write''],
      builtin_role ''role:peer-user'' ''Peer user''
        ''Reach connected peers through this daemon (peer files, terminal, display tunnels); what each tunnel may do is decided by that peer's grants for this daemon. Combine with local roles as needed.''
        [''presence.read'', ''stats.read'', ''access.inspect'', ''peer.inspect'', ''peer.use''],
      builtin_role ''role:operator'' ''Operator''
        ''Operate sessions, display, shell, files, peers, and approvals without access/settings administration.''
        [''presence.read'', ''stats.read'', ''display.view'', ''display.input'',
         ''message.send'', ''task.run'', ''approval.resolve'', ''access.inspect'',
         ''peer.inspect'', ''peer.use'', ''session.inspect'', ''session.manage'',
         ''terminal.view'', ''terminal.write'', ''shell.spawn'', ''credentials.manage'',
         ''filesystem.read'', ''filesystem.write'', ''agenda.read'', ''agenda.write'',
         ''memory.read'', ''memory.write'']]"

definition default_iam_state :: local_iam_state where
  "default_iam_state = \<lparr> is_schema_version = iam_schema_version, is_principals = [],
     is_roles = builtin_role_templates, is_grants = [], is_audit_events = [],
     is_role_ceilings = default_role_ceilings, is_hosted_origins = default_hosted_origins,
     is_trusted_orgs = [], is_tier = None, is_hosted_control = default_hosted_control \<rparr>"

section \<open>Normalization\<close>

definition lease_is_live :: "u64 \<Rightarrow> hosted_lease_record \<Rightarrow> bool" where
  "lease_is_live now l = (lr_status l = LeaseActive \<and> now < ld_expires_unix_ms (lr_document l))"

text \<open>
  Records written by the lease writer survive only while their lease is live: principals by
  id, grants by id and owner.
\<close>

definition normalize_hosted_lease_bindings :: "u64 \<Rightarrow> local_iam_state \<Rightarrow> local_iam_state" where
  "normalize_hosted_lease_bindings now st0 =
     (let st = st0\<lparr> is_hosted_control := normalize_hosted (is_hosted_control st0) \<rparr>;
          live = map lr_document (filter (lease_is_live now) (hc_leases (is_hosted_control st)))
      in st\<lparr> is_principals := filter (\<lambda>p. ip_source p \<noteq> hosted_source
                \<or> ip_id p \<in> ld_principal_id ` set live) (is_principals st),
             is_grants := filter (\<lambda>g. ig_source g \<noteq> hosted_source
                \<or> (ig_id g, ig_principal_id g)
                    \<in> (\<lambda>d. (ld_grant_id d, ld_principal_id d)) ` set live) (is_grants st) \<rparr>)"

definition is_connect_bootstrap :: "iam_principal \<Rightarrow> bool" where
  "is_connect_bootstrap p = (\<exists>a \<in> set (ip_authn p).
     jstr ''kind'' a = Some ''client_key'' \<and> jstr ''origin'' a = Some ''connect-bootstrap'')"

definition is_owner_bootstrap :: "iam_grant \<Rightarrow> bool" where
  "is_owner_bootstrap g = (starts_with (ig_reason g) ''--owner bootstrap:''
     \<or> starts_with (ig_reason g) ''trusted local --owner enrollment:'')"

definition revoke_grant :: "u64 \<Rightarrow> iam_grant \<Rightarrow> iam_grant" where
  "revoke_grant now g = g\<lparr> ig_status := ''revoked'', ig_revoked_at_unix_ms := Some now \<rparr>"

definition ceilings_to_none :: "string btree \<Rightarrow> string btree" where
  "ceilings_to_none m = fold (\<lambda>b. bt_put b ''role:none'') hosted_ceiling_bindings m"

definition migration_event ::
  "nat \<Rightarrow> string \<Rightarrow> u64 \<Rightarrow> string \<Rightarrow> string \<Rightarrow> string \<Rightarrow> iam_audit_event" where
  "migration_event k slug now action target summary =
     \<lparr> ie_id = ''audit:migrate-'' @ slug @ '':'' @ dec_string (k + 1), ie_at_unix_ms = Some now,
       ie_actor_principal_id = ''principal:system:migration'', ie_action = action,
       ie_target_id = target, ie_summary = summary \<rparr>"

definition migrate_v2 :: "u64 \<Rightarrow> local_iam_state \<Rightarrow> local_iam_state" where
  "migrate_v2 now st =
     (let legacy = ip_id ` set (filter is_connect_bootstrap (is_principals st));
          connect = (\<lambda>g. ig_principal_id g \<in> legacy \<and> is_enforced_status (ig_status g));
          owner = (\<lambda>g. \<not> connect g \<and> is_owner_bootstrap g \<and> is_enforced_status (ig_status g));
          connect_revoked = length (filter connect (is_grants st));
          owner_revoked = length (filter owner (is_grants st));
          e0 = is_audit_events st;
          e1 = (if 0 < connect_revoked
                then e0 @ [migration_event (length e0) ''hosted-root-v2'' now
                  ''revoke_legacy_connect_bootstrap'' ''connect-bootstrap''
                  (''Revoked '' @ dec_string connect_revoked
                   @ '' legacy Connect first-claim grant(s); trusted re-enrollment required'')]
                else e0);
          e2 = (if 0 < owner_revoked
                then e1 @ [migration_event (length e1) ''owner-bootstrap-v2'' now
                  ''revoke_legacy_owner_browser_key_bootstrap'' ''owner-bootstrap''
                  (''Revoked '' @ dec_string owner_revoked
                   @ '' retired --owner browser-key grant(s); direct-mTLS re-enrollment required'')]
                else e1)
      in st\<lparr> is_role_ceilings := ceilings_to_none (is_role_ceilings st),
             is_grants := map (\<lambda>g. if connect g \<or> owner g then revoke_grant now g else g)
                            (is_grants st),
             is_audit_events := e2 \<rparr>)"

definition refresh_role :: "iam_role \<Rightarrow> iam_role list \<Rightarrow> iam_role list" where
  "refresh_role role roles = (case find (\<lambda>r. ir_id r = ir_id role) roles of
     Some existing \<Rightarrow> if ir_source existing = ''builtin''
       then on_first (\<lambda>r. ir_id r = ir_id role) (\<lambda>_. role) roles else roles
   | None \<Rightarrow> roles @ [role])"

definition refresh_roles :: "iam_role list \<Rightarrow> iam_role list" where
  "refresh_roles roles =
     filter (\<lambda>r. ir_source r \<noteq> ''builtin'' \<or> ir_id r \<in> ir_id ` set builtin_role_templates)
       (fold refresh_role builtin_role_templates roles)"

text \<open>
  \<open>LocalIamState::normalize\<close>; \<open>now\<close> is the clock of the migration and \<open>now2\<close> the later
  reading of \<open>normalize_hosted_lease_bindings\<close>.
\<close>

definition normalize_iam :: "u64 \<Rightarrow> u64 \<Rightarrow> local_iam_state \<Rightarrow> local_iam_state" where
  "normalize_iam now now2 st0 =
     (let st1 = (if is_schema_version st0 < 2 then migrate_v2 now st0 else st0);
          st2 = st1\<lparr> is_schema_version := max (is_schema_version st1) iam_schema_version,
                     is_role_ceilings := ceilings_to_none (is_role_ceilings st1),
                     is_roles := filter (\<lambda>r. trim (ir_id r) \<noteq> []) (refresh_roles (is_roles st1)),
                     is_principals := filter (\<lambda>p. trim (ip_id p) \<noteq> []) (is_principals st1),
                     is_grants := filter (\<lambda>g. trim (ig_id g) \<noteq> [] \<and> trim (ig_principal_id g) \<noteq> [])
                                    (is_grants st1),
                     is_audit_events := filter (\<lambda>e. trim (ie_id e) \<noteq> []) (is_audit_events st1) \<rparr>;
          st3 = normalize_hosted_lease_bindings now2 st2
      in st3\<lparr> is_audit_events := retain_tail (is_audit_events st3) iam_audit_events_cap \<rparr>)"

section \<open>Who a credential speaks for\<close>

definition authn_matches :: "string \<Rightarrow> string \<Rightarrow> string \<Rightarrow> json \<Rightarrow> bool" where
  "authn_matches authn_kind key val a = (jstr ''kind'' a = Some authn_kind \<and> jstr key a = Some val)"

definition matched_authn_origin ::
  "iam_principal \<Rightarrow> string \<Rightarrow> string \<Rightarrow> string \<Rightarrow> string option" where
  "matched_authn_origin pr authn_kind key val =
     Option.bind (find (authn_matches authn_kind key val) (ip_authn pr)) (jstr ''origin'')"

definition bound_access ::
  "iam_principal \<Rightarrow> iam_grant \<Rightarrow> string \<Rightarrow> string \<Rightarrow> string \<Rightarrow> string \<Rightarrow> access_principal" where
  "bound_access pr grant authn_kind key val transport =
     (local_user_client pr grant transport)
     \<lparr> ap_authn_kind := Some authn_kind, ap_authn_binding := Some val,
       ap_authn_origin := matched_authn_origin pr authn_kind key val \<rparr>"

definition principal_for_authn ::
  "int \<Rightarrow> local_iam_state \<Rightarrow> string \<Rightarrow> string \<Rightarrow> string \<Rightarrow> string \<Rightarrow> access_principal option" where
  "principal_for_authn now st authn_kind key raw transport =
     (let val = trim raw in
      if val = [] then None
      else case find (\<lambda>p. is_enforced_status (ip_status p)
                  \<and> (\<exists>a \<in> set (ip_authn p). authn_matches authn_kind key val a)) (is_principals st) of
        None \<Rightarrow> None
      | Some pr \<Rightarrow>
          (case find (\<lambda>g. ig_principal_id g = ip_id pr \<and> is_active_at g now) (is_grants st) of
             None \<Rightarrow> None
           | Some g \<Rightarrow> Some (bound_access pr g authn_kind key val transport)))"

definition principal_for_authn_any_status ::
  "int \<Rightarrow> local_iam_state \<Rightarrow> string \<Rightarrow> string \<Rightarrow> string \<Rightarrow> string \<Rightarrow> access_principal option" where
  "principal_for_authn_any_status now st authn_kind key raw transport =
     (let val = trim raw in
      if val = [] then None
      else case find (\<lambda>p. \<exists>a \<in> set (ip_authn p). authn_matches authn_kind key val a)
                  (is_principals st) of
        None \<Rightarrow> None
      | Some pr \<Rightarrow>
          (case find (\<lambda>g. ig_principal_id g = ip_id pr \<and> is_active_at g now) (is_grants st) of
             Some g \<Rightarrow> Some (bound_access pr g authn_kind key val transport)
           | None \<Rightarrow>
               (case find (\<lambda>g. ig_principal_id g = ip_id pr) (is_grants st) of
                  Some g \<Rightarrow> Some (bound_access pr g authn_kind key val transport)
                | None \<Rightarrow> None)))"

definition principal_for_browser_mtls_cert where
  "principal_for_browser_mtls_cert now st fingerprint transport =
     principal_for_authn now st ''browser_mtls_cert'' ''fingerprint'' (hex_fingerprint fingerprint)
       transport"

definition principal_for_browser_mtls_cert_any_status where
  "principal_for_browser_mtls_cert_any_status now st fingerprint transport =
     principal_for_authn_any_status now st ''browser_mtls_cert'' ''fingerprint''
       (hex_fingerprint fingerprint) transport"

definition principal_for_client_key where
  "principal_for_client_key now st fingerprint transport =
     principal_for_authn now st ''client_key'' ''fingerprint''
       (normalize_client_key_fingerprint fingerprint) transport"

text \<open>An exact binding wins; the wildcard is the fallback. Each lookup reads its own clock.\<close>

definition principal_for_agent_session where
  "principal_for_agent_session now now2 st session_id transport =
     (case principal_for_authn now st ''agent_session'' ''session_id'' session_id transport of
        Some p \<Rightarrow> Some p
      | None \<Rightarrow> principal_for_authn now2 st ''agent_session'' ''session_id'' ''*'' transport)"

definition principal_for_agent_session_any_status where
  "principal_for_agent_session_any_status now now2 st session_id transport =
     (case principal_for_authn_any_status now st ''agent_session'' ''session_id'' session_id transport of
        Some p \<Rightarrow> Some p
      | None \<Rightarrow> principal_for_authn_any_status now2 st ''agent_session'' ''session_id'' ''*'' transport)"

definition principal_for_loopback_mcp where
  "principal_for_loopback_mcp now st transport =
     principal_for_authn now st ''loopback_mcp'' ''scope'' ''loopback'' transport"

definition principal_for_loopback_mcp_any_status where
  "principal_for_loopback_mcp_any_status now st transport =
     principal_for_authn_any_status now st ''loopback_mcp'' ''scope'' ''loopback'' transport"

definition agent_session_scoping_present :: "local_iam_state \<Rightarrow> bool" where
  "agent_session_scoping_present st = (\<exists>p \<in> set (is_principals st). \<exists>a \<in> set (ip_authn p).
     jstr ''kind'' a = Some ''agent_session'')"

definition fs_scope_for_principal :: "local_iam_state \<Rightarrow> access_principal \<Rightarrow> fs_policy option" where
  "fs_scope_for_principal st p = (case ap_grant_id p of None \<Rightarrow> None
     | Some gid \<Rightarrow> Option.bind (find (\<lambda>g. ig_id g = gid) (is_grants st)) ig_fs_scope)"

end
