(* ===== verification/HostedPolicy.thy ===== *)
theory HostedPolicy
  imports IamState
begin

text \<open>
  What a hosted lease may do (\<open>src/src/bin/caller/access/hosted_control/policy.rs\<close>, and the
  certificate guard of \<open>witness.rs\<close>): the compiled presets, the check that binds a request
  principal to its grant, record and lease, and the closed lists that project HTTP routes,
  dashboard methods, tunnel frames, control messages and outbound events.
\<close>

section \<open>The certificate guard\<close>

text \<open>\<open>fleet_cert::normalize_serial_hex\<close> and \<open>normalized_serial\<close>.\<close>

definition normalize_serial_hex :: "string \<Rightarrow> string" where
  "normalize_serial_hex serial =
     (let t = trim_start_char CHR ''0'' (to_ascii_lowercase (trim serial))
      in if t = [] then ''0'' else t)"

definition normalized_serial :: "string \<Rightarrow> string option" where
  "normalized_serial serial = (let n = normalize_serial_hex serial in
     if n = [] \<or> 128 < length n \<or> \<not> list_all ascii_hex_digit n then None else Some n)"

record ct_evidence =
  ce_foreign_serials :: "string list"
  ce_state_unavailable :: bool

datatype lane_guard_status = GuardClear | GuardAlert | GuardSuspended | GuardOverridden

record lane_guard =
  lg_status :: lane_guard_status
  lg_evidence_sha256 :: string
  lg_unexpected_serials :: "string list"
  lg_corroborated_serials :: "string list"
  lg_ct_serials :: "string list"
  lg_ct_state_unavailable :: bool
  lg_owner_confirmed_serials :: "string list"
  lg_override_actor :: "string option"
  lg_override_unix_ms :: "u64 option"

definition evidence_text :: "string list \<Rightarrow> bool \<Rightarrow> string" where
  "evidence_text serials unavailable = join_with nl serials
     @ (if unavailable then nl @ ''!ct-state-unavailable'' else [])"

definition evidence_digest :: "(string \<Rightarrow> string) \<Rightarrow> string list \<Rightarrow> bool \<Rightarrow> string" where
  "evidence_digest sha serials unavailable = sha (evidence_text serials unavailable)"

definition guard_status :: "bool \<Rightarrow> bool \<Rightarrow> string option \<Rightarrow> string \<Rightarrow> lane_guard_status" where
  "guard_status has_evidence confirmed override_digest digest =
     (if \<not> has_evidence then GuardClear
      else if override_digest = Some digest then GuardOverridden
      else if confirmed \<or> override_digest \<noteq> None then GuardSuspended
      else GuardAlert)"

definition compute_lane_guard ::
  "(string \<Rightarrow> string) \<Rightarrow> ct_evidence \<Rightarrow> local_iam_state \<Rightarrow> lane_guard" where
  "compute_lane_guard sha ct st =
     (let w = hc_witnesses (is_hosted_control st);
          unavailable = ce_state_unavailable ct;
          reported = map (\<lambda>x. wr_observed_serial_hex (wx_report x)) (wt_reports w);
          corroborated = sort_dedup (wt_corroborated_serials w
                           @ corroborated_serials_from_reports (wt_reports w));
          ct_serials = sort_dedup (List.map_filter normalized_serial (ce_foreign_serials ct));
          confirmed_by_owner = sort_dedup (wt_owner_confirmed_serials w);
          unexpected = sort_dedup (reported @ corroborated @ ct_serials @ confirmed_by_owner);
          digest = evidence_digest sha unexpected unavailable
      in \<lparr> lg_status = guard_status (unexpected \<noteq> [] \<or> unavailable)
             (corroborated \<noteq> [] \<or> ct_serials \<noteq> [] \<or> confirmed_by_owner \<noteq> [] \<or> unavailable)
             (wt_override_evidence_sha256 w) digest,
           lg_evidence_sha256 = digest, lg_unexpected_serials = unexpected,
           lg_corroborated_serials = corroborated, lg_ct_serials = ct_serials,
           lg_ct_state_unavailable = unavailable,
           lg_owner_confirmed_serials = confirmed_by_owner,
           lg_override_actor = wt_override_actor w,
           lg_override_unix_ms = wt_override_unix_ms w \<rparr>)"

section \<open>Presets and the binding of a lease principal\<close>

fun preset_allows_operation :: "hosted_preset \<Rightarrow> peer_operation \<Rightarrow> bool" where
  "preset_allows_operation PresetView operation =
     (operation \<in> {OpPresenceRead, OpStatsRead, OpSessionInspect, OpDisplayView})"
| "preset_allows_operation PresetTasks operation =
     (operation \<in> {OpPresenceRead, OpStatsRead, OpSessionInspect, OpDisplayView, OpMessage,
        OpTask})"
| "preset_allows_operation PresetOperate operation =
     (operation \<in> {OpPresenceRead, OpStatsRead, OpSessionInspect, OpDisplayView, OpMessage,
        OpTask, OpSessionManage, OpTerminalView, OpTerminalWrite, OpShellSpawn,
        OpFilesystemRead, OpFilesystemWrite, OpDisplayInput, OpAgendaRead, OpAgendaWrite,
        OpMemoryRead, OpMemoryWrite})"

definition is_hosted_lease_principal :: "access_principal \<Rightarrow> bool" where
  "is_hosted_lease_principal p = (ap_kind p = hosted_principal_kind \<and> ap_source p = hosted_source
     \<and> ap_authn_kind p = Some hosted_authn_kind)"

text \<open>
  What the process knows beside the state: digests, certificate transparency, the clock, and
  the identifier and time of the audit event that will be the \<open>n\<close>-th of the trail.
\<close>

record hosted_world =
  hw_sha :: "string \<Rightarrow> string"
  hw_ct :: ct_evidence
  hw_now :: int
  hw_stamp :: "nat \<Rightarrow> string \<times> int"

definition guard_suspended :: "hosted_world \<Rightarrow> local_iam_state \<Rightarrow> bool" where
  "guard_suspended w st = (lg_status (compute_lane_guard (hw_sha w) (hw_ct w) st) = GuardSuspended)"

definition lease_matches_grant ::
  "hosted_lease_record \<Rightarrow> iam_grant \<Rightarrow> access_principal \<Rightarrow> hosted_preset \<Rightarrow> bool" where
  "lease_matches_grant l grant p preset =
     (lr_status l = LeaseActive \<and> ld_preset (lr_document l) = preset
      \<and> ld_expires_unix_ms (lr_document l)
          = (case ig_expires_at_unix_ms grant of Some e \<Rightarrow> e | None \<Rightarrow> 0)
      \<and> ld_browser_key_fingerprint (lr_document l)
          = (case ap_authn_binding p of Some b \<Rightarrow> b | None \<Rightarrow> []))"

definition hosted_record_ok :: "iam_principal \<Rightarrow> bool" where
  "hosted_record_ok r = (ip_kind r = hosted_principal_kind \<and> ip_source r = hosted_source
     \<and> is_enforced_status (ip_status r))"

definition hosted_binding_matches :: "iam_principal \<Rightarrow> access_principal \<Rightarrow> bool" where
  "hosted_binding_matches r p = (\<exists>b \<in> set (ip_authn r).
     jstr ''kind'' b = Some hosted_authn_kind \<and> jstr ''fingerprint'' b = ap_authn_binding p)"

definition hosted_preset_for_principal ::
  "hosted_world \<Rightarrow> local_iam_state \<Rightarrow> access_principal \<Rightarrow> string + hosted_preset" where
  "hosted_preset_for_principal w st p =
    (if \<not> is_hosted_lease_principal p then Inl ''principal is not a hosted lease principal''
     else if guard_suspended w st
     then Inl ''hosted control is suspended by the certificate guard''
     else case ap_grant_id p of None \<Rightarrow> Inl ''hosted lease principal has no grant''
     | Some gid \<Rightarrow> (case find (\<lambda>g. ig_id g = gid) (is_grants st) of
         None \<Rightarrow> Inl (''hosted lease grant '' @ gid @ '' was not found'')
       | Some grant \<Rightarrow>
           if ig_source grant \<noteq> hosted_source \<or> ig_principal_id grant \<noteq> ap_id p
           then Inl ''hosted lease grant binding does not match''
           else case preset_from_role_id (ig_role_id grant) of
             None \<Rightarrow> Inl ''hosted lease grant has an unknown reserved role''
           | Some preset \<Rightarrow>
               if ap_role_id p \<noteq> ig_role_id grant
               then Inl ''hosted lease principal role does not match its grant''
               else if hp_ceiling (hc_policy (is_hosted_control st)) < preset
               then Inl ''hosted lease preset exceeds the current daemon ceiling''
               else if \<not> is_active_at grant (hw_now w)
               then Inl ''hosted lease grant is inactive or expired''
               else (case find (\<lambda>r. ip_id r = ap_id p) (is_principals st) of
                 None \<Rightarrow> Inl (''hosted lease principal '' @ ap_id p @ '' was not found'')
               | Some r \<Rightarrow>
                   if \<not> hosted_record_ok r
                   then Inl ''hosted lease principal record is not active and reserved''
                   else if \<not> hosted_binding_matches r p
                   then Inl ''hosted lease authentication binding does not match''
                   else (case find (\<lambda>l. ld_grant_id (lr_document l) = ig_id grant
                             \<and> ld_principal_id (lr_document l) = ap_id p)
                           (hc_leases (is_hosted_control st)) of
                     None \<Rightarrow> Inl ''hosted lease record was not found''
                   | Some l \<Rightarrow>
                       if \<not> lease_matches_grant l grant p preset
                       then Inl ''hosted lease record does not match its IAM grant''
                       else Inr preset))))"

definition evaluate_hosted_operation ::
  "hosted_world \<Rightarrow> local_iam_state \<Rightarrow> access_principal \<Rightarrow> peer_operation \<Rightarrow> access_decision" where
  "evaluate_hosted_operation w st p op = (case hosted_preset_for_principal w st p of
     Inl reason \<Rightarrow> decision_denied p op reason
   | Inr preset \<Rightarrow>
       if preset_allows_operation preset op
       then decision_allowed p op (''compiled hosted '' @ preset_as_str preset
              @ '' preset allows '' @ operation_permission_id op)
       else decision_denied p op (''compiled hosted '' @ preset_as_str preset
              @ '' preset does not allow '' @ operation_permission_id op))"

definition session_is_hosted_eligible :: "local_iam_state \<Rightarrow> string \<Rightarrow> bool" where
  "session_is_hosted_eligible st session_id = (trim session_id \<noteq> []
     \<and> session_id \<in> set (hp_eligible_session_ids (hc_policy (is_hosted_control st))))"

end
