(* ===== verification/HostedTables.thy ===== *)
theory HostedTables
  imports HostedPolicy
begin

text \<open>
  The closed lists of the hosted lane (\<open>src/src/bin/caller/access/hosted_control/policy.rs\<close>):
  which HTTP routes, dashboard methods, tunnel frames, control messages, socket frames and
  outbound lines a preset lets through, on top of the operation each of them needs.
\<close>

section \<open>HTTP routes\<close>

definition route_segments :: "string \<Rightarrow> string list" where
  "route_segments path = split_on (CHR ''/'')
     (case strip_prefix ''/'' path of Some rest \<Rightarrow> rest | None \<Rightarrow> path)"

definition hosted_http_walled :: "string \<Rightarrow> bool" where
  "hosted_http_walled path = (path = ''/mcp'' \<or> list_ex (starts_with path)
     [''/api/access/'', ''/api/peers'', ''/api/coordinator/'', ''/api/settings'',
      ''/api/api-key'', ''/api/project-root'', ''/api/worktrees'', ''/api/managed-context'',
      ''/recordings'', ''/debug''])"

definition hosted_read_paths :: "string list" where
  "hosted_read_paths = [''/config'', ''/api/displays'', ''/api/sessions'',
     ''/api/sessions/stream'', ''/api/sessions/search'', ''/api/sessions/message-search'']"

definition hosted_session_leaf :: "string \<Rightarrow> string list \<Rightarrow> bool" where
  "hosted_session_leaf meth segments = (case segments of
     a # s # session_id # rest \<Rightarrow> a = ''api'' \<and> s = ''session''
       \<and> session_id \<noteq> ''current'' \<and> valid_id_component session_id
       \<and> (meth = ''GET'' \<and> (rest = [] \<or> rest = [''context-snapshot''] \<or> rest = [''fork-points''])
          \<or> meth = ''POST'' \<and> rest = [''agent-output''])
   | _ \<Rightarrow> False)"

definition operate_file_route :: "string \<Rightarrow> string list \<Rightarrow> bool" where
  "operate_file_route meth segments =
     (meth = ''GET'' \<and> (\<exists>leaf \<in> {''stat'', ''list'', ''read''}. segments = [''api'', ''fs'', leaf])
      \<or> meth = ''POST'' \<and> (\<exists>leaf \<in> {''mkdir'', ''write'', ''rename'', ''delete''}.
                             segments = [''api'', ''fs'', leaf])
      \<or> meth \<in> {''GET'', ''POST''} \<and> segments = [''api'', ''transfers''])"

definition operate_transfer_route :: "string \<Rightarrow> string list \<Rightarrow> bool" where
  "operate_transfer_route meth segments = (case segments of
     [a, t, i] \<Rightarrow> a = ''api'' \<and> t = ''transfers'' \<and> meth = ''DELETE'' \<and> valid_id_component i
   | [a, t, i, leaf] \<Rightarrow> a = ''api'' \<and> t = ''transfers'' \<and> valid_id_component i
       \<and> (meth = ''POST'' \<and> leaf \<in> {''chunk'', ''commit'', ''delete''}
          \<or> meth = ''GET'' \<and> leaf = ''download'')
   | _ \<Rightarrow> False)"

definition operate_plane_route :: "string \<Rightarrow> string list \<Rightarrow> bool" where
  "operate_plane_route meth segments =
     (meth = ''GET'' \<and> segments = [''api'', ''agenda'']
      \<or> meth = ''GET'' \<and> (\<exists>leaf \<in> {''ops'', ''occurrences'', ''definitions''}.
                            segments = [''api'', ''agenda'', leaf])
      \<or> meth = ''POST'' \<and> segments = [''api'', ''agenda'', ''op'']
      \<or> meth = ''GET'' \<and> (\<exists>leaf \<in> {''search'', ''claim''}. segments = [''api'', ''memory'', leaf])
      \<or> meth = ''POST'' \<and> segments = [''api'', ''memory'', ''propose''])"

definition operate_item_route :: "string \<Rightarrow> string list \<Rightarrow> bool" where
  "operate_item_route meth segments = (meth = ''GET'' \<and> (case segments of
     [a, g, k, i] \<Rightarrow> a = ''api'' \<and> g = ''agenda'' \<and> k \<in> {''items'', ''sealed''} \<and> valid_id_component i
   | [a, g, k, i, leaf] \<Rightarrow> a = ''api'' \<and> g = ''agenda'' \<and> k = ''items'' \<and> leaf = ''pr-state''
       \<and> valid_id_component i
   | [a, g, k, i, x, leaf] \<Rightarrow> a = ''api'' \<and> g = ''agenda''
       \<and> (k = ''items'' \<and> x = ''refs'' \<and> leaf \<in> {''drift'', ''content''} \<and> valid_id_component i
          \<or> k = ''blobs'' \<and> leaf = ''raw'' \<and> valid_id_component i \<and> valid_id_component x)
   | _ \<Rightarrow> False))"

definition hosted_http_route_allowed :: "hosted_preset \<Rightarrow> string \<Rightarrow> string \<Rightarrow> bool" where
  "hosted_http_route_allowed preset meth path =
     (if hosted_http_walled path then False
      else if meth = ''GET'' \<and> path \<in> set hosted_read_paths then True
      else if hosted_session_leaf meth (route_segments path) then True
      else if path = ''/api/hosted-control/ws-ticket'' then meth = ''POST''
      else if preset = PresetOperate then
        (operate_file_route meth (route_segments path)
         \<or> operate_transfer_route meth (route_segments path)
         \<or> operate_plane_route meth (route_segments path)
         \<or> operate_item_route meth (route_segments path))
      else False)"

section \<open>Dashboard methods and tunnel frames\<close>

definition hosted_view_methods :: "string list" where
  "hosted_view_methods = [''ping'', ''status'', ''api_agent_card'',
     ''api_cached_bootstrap_events'', ''subscribe_events'', ''unsubscribe_events'',
     ''api_sessions'', ''api_sessions_stream'', ''api_sessions_search'',
     ''api_sessions_message_search'', ''api_session_detail'', ''api_session_agent_output'',
     ''api_session_context_snapshot'', ''api_session_fork_points'', ''api_displays'',
     ''api_display_bootstrap'', ''api_display_webrtc_signal'', ''api_state_snapshot'',
     ''api_session_log_replay'', ''api_external_session_activity_replay'',
     ''api_dashboard_bootstrap'']"

definition hosted_operate_methods :: "string list" where
  "hosted_operate_methods = [''api_session_control_msg'', ''api_dashboard_action_msg'',
     ''api_fs_stat'', ''api_fs_list'', ''api_fs_read'', ''api_fs_mkdir'', ''api_fs_write'',
     ''api_fs_rename'', ''api_fs_delete'', ''api_transfer_jobs'', ''api_transfer_job_create'',
     ''api_transfer_upload_chunk'', ''api_transfer_upload_commit'', ''api_transfer_job_delete'',
     ''api_transfer_download_read'', ''api_display_input_authority_snapshot'',
     ''api_display_input_authority_request'', ''api_display_input_authority_release'',
     ''api_agenda_list'', ''api_agenda_item'', ''api_agenda_ops'', ''api_agenda_occurrences'',
     ''api_agenda_op'', ''api_agenda_definitions'', ''api_agenda_sealed'',
     ''api_agenda_ref_drift'', ''api_agenda_ref_content'', ''api_agenda_pr_state'',
     ''api_memory_search'', ''api_memory_claim'', ''api_memory_propose'']"

definition hosted_dashboard_method_allowed :: "hosted_preset \<Rightarrow> string \<Rightarrow> bool" where
  "hosted_dashboard_method_allowed preset meth =
     (if meth \<in> set hosted_view_methods then True
      else if PresetTasks \<le> preset \<and> meth = ''api_control_msg'' then True
      else preset = PresetOperate \<and> meth \<in> set hosted_operate_methods)"

definition hosted_tunnel_frame_classification :: "hosted_preset \<Rightarrow> string \<Rightarrow> bool option" where
  "hosted_tunnel_frame_classification preset frame_type =
     (if frame_type \<in> {''hello'', ''ping'', ''request''} then Some True
      else if frame_type \<in> {''terminal_open'', ''terminal_input'', ''terminal_resize'',
           ''terminal_close'', ''terminal_share'', ''display_input'', ''display_open'',
           ''display_close'', ''upload_start'', ''upload_chunk'', ''upload_end''}
      then Some (preset = PresetOperate)
      else if frame_type \<in> {''presence_frame'', ''egress_response'', ''egress_chunk'',
           ''egress_end'', ''egress_error'', ''egress_request_ack''}
      then Some False else None)"

section \<open>Control messages\<close>

text \<open>
  The messages the wall looks into, with the fields it reads. The optional launch fields of a
  session are carried as the names of those present (or non-empty): \<open>given\<close>. Every other
  variant is refused and needs only its kind.
\<close>

datatype hosted_msg =
    HmStatus "string option"
  | HmUsage
  | HmListDisplays
  | HmQueryDetail string "string option"
  | HmCreateSession string "string list"
  | HmStartTask "string option" string "string list"
  | HmFollowUp "string option" string "string list"
  | HmSteer "string option" string "string list"
  | HmStopSession string
  | HmRenameSession string "string option"
  | HmInterrupt "string option"
  | HmRestartSession string "string list"
  | HmDisplay display_msg
  | HmOther control_kind

definition create_session_pins :: "string list" where
  "create_session_pins = [''project_root'', ''agent'', ''agent_command'', ''claude_model'',
     ''claude_permission_mode'', ''claude_effort'', ''claude_auth_mode'', ''kimi_model'',
     ''kimi_thinking'', ''kimi_permission_mode'', ''kimi_plan_mode'', ''kimi_swarm_mode'',
     ''kimi_allowed_tools'', ''pi_model'', ''pi_thinking'', ''pi_allowed_tools'',
     ''codex_model'', ''codex_reasoning_effort'', ''codex_sandbox'', ''codex_approval_policy'',
     ''codex_managed_context'', ''codex_context_archive'', ''codex_service_tier'', ''dial'',
     ''orchestrate'', ''direct'', ''reference_frame_ids'', ''display_target'', ''attachments'',
     ''worktree'', ''worktree_branch'']"

definition start_task_pins :: "string list" where
  "start_task_pins = [''orchestrate'', ''direct'', ''project_root'', ''reference_frame_ids'',
     ''display_target'', ''attachments'', ''delegation_id'', ''launch_config'']"

definition restart_session_pins :: "string list" where
  "restart_session_pins = [''resume_id'', ''project_root'', ''task'', ''direct'',
     ''attachments'', ''agent_command'', ''codex_sandbox'', ''codex_approval_policy'',
     ''codex_managed_context'', ''codex_context_archive'', ''claude_model'',
     ''claude_permission_mode'', ''claude_allowed_tools'', ''claude_effort'',
     ''claude_auth_mode'', ''kimi_model'', ''kimi_thinking'', ''kimi_permission_mode'',
     ''kimi_plan_mode'', ''kimi_swarm_mode'', ''kimi_allowed_tools'', ''pi_model'',
     ''pi_thinking'', ''pi_allowed_tools'']"

definition none_given :: "string list \<Rightarrow> string list \<Rightarrow> bool" where
  "none_given pins given = list_all (\<lambda>f. f \<notin> set given) pins"

text \<open>A task or message that says something and is not a slash command.\<close>

definition plain_text :: "string \<Rightarrow> bool" where
  "plain_text t = (trim t \<noteq> [] \<and> \<not> starts_with (trim_start t) ''/'')"

definition opt_eligible :: "local_iam_state \<Rightarrow> string option \<Rightarrow> bool" where
  "opt_eligible st session_id = (case session_id of None \<Rightarrow> False
     | Some s \<Rightarrow> session_is_hosted_eligible st s)"

fun hosted_control_msg_allowed ::
  "local_iam_state \<Rightarrow> hosted_preset \<Rightarrow> hosted_msg \<Rightarrow> bool" where
  "hosted_control_msg_allowed st preset (HmStatus session_id) =
     (session_id = None \<or> opt_eligible st session_id)"
| "hosted_control_msg_allowed st preset HmUsage = True"
| "hosted_control_msg_allowed st preset HmListDisplays = True"
| "hosted_control_msg_allowed st preset (HmQueryDetail scope target) =
     (scope \<in> {''status'', ''usage'', ''session''}
      \<and> (scope \<noteq> ''session'' \<or> opt_eligible st target))"
| "hosted_control_msg_allowed st preset (HmCreateSession task given) =
     (PresetTasks \<le> preset \<and> plain_text task \<and> none_given create_session_pins given)"
| "hosted_control_msg_allowed st preset (HmStartTask session_id task given) =
     (PresetTasks \<le> preset \<and> opt_eligible st session_id \<and> plain_text task
      \<and> none_given start_task_pins given)"
| "hosted_control_msg_allowed st preset (HmFollowUp session_id t given) =
     (PresetTasks \<le> preset \<and> opt_eligible st session_id \<and> plain_text t
      \<and> none_given [''direct''] given)"
| "hosted_control_msg_allowed st preset (HmSteer session_id t given) =
     (PresetTasks \<le> preset \<and> opt_eligible st session_id \<and> plain_text t
      \<and> none_given [''attachments''] given)"
| "hosted_control_msg_allowed st preset (HmStopSession session_id) =
     (preset = PresetOperate \<and> session_is_hosted_eligible st session_id)"
| "hosted_control_msg_allowed st preset (HmRenameSession session_id backend) =
     (preset = PresetOperate \<and> session_is_hosted_eligible st session_id
      \<and> (case backend of None \<Rightarrow> True | Some b \<Rightarrow> b = session_id))"
| "hosted_control_msg_allowed st preset (HmInterrupt session_id) =
     (preset = PresetOperate \<and> opt_eligible st session_id)"
| "hosted_control_msg_allowed st preset (HmRestartSession session_id given) =
     (preset = PresetOperate \<and> session_is_hosted_eligible st session_id
      \<and> none_given restart_session_pins given)"
| "hosted_control_msg_allowed st preset (HmDisplay m) =
     (m \<in> {CmRequestDisplayInputAuthority, CmReleaseDisplayInputAuthority, CmTakeDisplay,
           CmReleaseDisplay} \<and> preset = PresetOperate)"
| "hosted_control_msg_allowed st preset (HmOther k) = False"

text \<open>The kind of a message, which the operation table classifies.\<close>

fun hosted_msg_kind :: "hosted_msg \<Rightarrow> control_kind" where
  "hosted_msg_kind (HmStatus s) = ConversationMsg CmStatus"
| "hosted_msg_kind HmUsage = ConversationMsg CmUsage"
| "hosted_msg_kind HmListDisplays = DisplayMsg CmListDisplays"
| "hosted_msg_kind (HmQueryDetail s t) = ConversationMsg CmQueryDetail"
| "hosted_msg_kind (HmCreateSession t g) = SessionMsg CmCreateSession"
| "hosted_msg_kind (HmStartTask s t g) = ConversationMsg CmStartTask"
| "hosted_msg_kind (HmFollowUp s t g) = ConversationMsg CmFollowUp"
| "hosted_msg_kind (HmSteer s t g) = ConversationMsg CmSteer"
| "hosted_msg_kind (HmStopSession s) = SessionMsg CmStopSession"
| "hosted_msg_kind (HmRenameSession s b) = SessionMsg CmRenameSession"
| "hosted_msg_kind (HmInterrupt s) = ConversationMsg CmInterrupt"
| "hosted_msg_kind (HmRestartSession s g) = SessionMsg CmRestartSession"
| "hosted_msg_kind (HmDisplay m) = DisplayMsg m"
| "hosted_msg_kind (HmOther k) = k"

text \<open>
  A socket frame names its type in \<open>t\<close>; without one it is decoded as a control message
  (\<open>decode\<close>, the derived deserializer).
\<close>

definition hosted_ws_frame_allowed ::
  "(json \<Rightarrow> hosted_msg option) \<Rightarrow> local_iam_state \<Rightarrow> hosted_preset \<Rightarrow> json \<Rightarrow> bool" where
  "hosted_ws_frame_allowed decode st preset v = (case jstr ''t'' v of
     Some t \<Rightarrow>
       if t = ''ping'' then True
       else if t \<in> {''display_offer'', ''display_ice''} then PresetView \<le> preset
       else if t \<in> {''terminal_open'', ''terminal_input'', ''terminal_resize'',
                    ''terminal_close'', ''terminal_share''} then preset = PresetOperate
       else if t = ''display_input'' then preset = PresetOperate
       else False
   | None \<Rightarrow> (case decode v of None \<Rightarrow> False | Some m \<Rightarrow> hosted_control_msg_allowed st preset m))"

section \<open>Outbound lines\<close>

definition hosted_runtime_config_keys :: "string list" where
  "hosted_runtime_config_keys = [''provider'', ''model'', ''input_sample_rate'',
     ''output_sample_rate'', ''ice_servers'', ''federation_allow_h264'', ''app_build'']"

definition project_hosted_runtime_config :: "json \<Rightarrow> json" where
  "project_hosted_runtime_config config = JObj (List.map_filter
     (\<lambda>k. map_option (Pair k) (json_get config k)) hosted_runtime_config_keys)"

fun json_as_object :: "json \<Rightarrow> (string \<times> json) list option" where
  "json_as_object (JObj kvs) = Some kvs"
| "json_as_object _ = None"

definition empty_or_absent :: "(string \<times> json) list \<Rightarrow> string \<Rightarrow> bool" where
  "empty_or_absent m k = (map_of m k \<in> {None, Some JNull, Some (JArr [])})"

definition hosted_state_snapshot_allowed :: "json \<Rightarrow> bool" where
  "hosted_state_snapshot_allowed v =
     (case Option.bind (json_get v ''state'') json_as_object of None \<Rightarrow> False
      | Some m \<Rightarrow>
          empty_or_absent m ''pending_approval'' \<and> empty_or_absent m ''pending_question''
          \<and> empty_or_absent m ''available_displays''
          \<and> map_of m ''last_command_preview'' \<in> {None, Some (JStr [])}
          \<and> empty_or_absent m ''last_task_result''
          \<and> (case Option.bind (json_get v ''config'') json_as_object of None \<Rightarrow> True
             | Some c \<Rightarrow> list_all (\<lambda>k. k \<in> set hosted_runtime_config_keys) (map fst c)))"

definition hosted_outbound_events :: "string list" where
  "hosted_outbound_events = [''turn_started'', ''agent_output'', ''conversation_message'',
     ''messages_input'', ''reasoning'', ''replay_start'', ''session_start'',
     ''task_complete'', ''session_started'', ''session_identity'', ''session_capabilities'',
     ''session_goal'', ''session_vitals'', ''session_attached'', ''session_ended'',
     ''round_complete'', ''display_ready'', ''display_resize'', ''display_taken'',
     ''display_released'', ''display_capture_lost'', ''status'', ''usage'', ''usage_update'',
     ''model_response_delta'', ''agent_started'', ''done_signal'', ''model_response'',
     ''session_note'', ''interrupted'', ''steer_requested'', ''steer_accepted'',
     ''steer_queued'', ''steer_delivered'', ''follow_up_status'', ''event_gap'']"

definition outbound_frame_allowed :: "hosted_preset \<Rightarrow> string \<Rightarrow> bool" where
  "outbound_frame_allowed preset t =
     (if t \<in> {''ws_denied'', ''display_answer'', ''display_ice'',
              ''display_input_authority_state'', ''event_gap''} then True
      else if t \<in> {''terminal_opened'', ''terminal_output'', ''terminal_exited'',
              ''terminal_error'', ''terminal_shared'', ''display_opened'', ''display_tiles'',
              ''display_closed'', ''display_error''} then preset = PresetOperate
      else False)"

definition outbound_event_allowed :: "hosted_preset \<Rightarrow> json \<Rightarrow> bool" where
  "outbound_event_allowed preset v =
     (if json_get v ''agent_visible'' = Some (JBool False) then False
      else if preset = PresetOperate
        \<and> jstr ''event'' v \<in> {Some ''agenda_changed'', Some ''memory_changed''} then True
      else (case jstr ''event'' v of None \<Rightarrow> False | Some e \<Rightarrow> e \<in> set hosted_outbound_events))"

text \<open>A replayed log is let through when every entry is, so the check recurs on the value.\<close>

lemma json_get_size: "json_get v k = Some w \<Longrightarrow> size w < size v"
proof (cases v)
  case (JObj kvs)
  assume "json_get v k = Some w"
  then have "(k, w) \<in> set kvs" using JObj by (simp add: map_of_SomeD)
  then have "size w \<le> size_list (size_prod (\<lambda>_. 0) size) kvs"
    by (induction kvs) auto
  then show ?thesis using JObj by simp
qed simp_all

function hosted_outbound_value_allowed :: "hosted_preset \<Rightarrow> json \<Rightarrow> bool" where
  "hosted_outbound_value_allowed preset v = (case jstr ''t'' v of
     Some t \<Rightarrow>
       if t = ''state_snapshot'' then hosted_state_snapshot_allowed v
       else if t = ''log_replay'' then (case json_get v ''entries'' of
              Some (JArr entries) \<Rightarrow> list_all (\<lambda>e. hosted_outbound_value_allowed preset e) entries
            | _ \<Rightarrow> False)
       else outbound_frame_allowed preset t
   | None \<Rightarrow> outbound_event_allowed preset v)"
  by pat_completeness auto
termination
proof (relation "measure (\<lambda>(p, v). size v)")
  fix preset :: hosted_preset and v :: json and t j entries e
  assume "json_get v ''entries'' = Some j" "j = JArr entries" "e \<in> set entries"
  then have "size (JArr entries) < size v" "size e < size (JArr entries)"
    using json_get_size by (blast, simp add: le_imp_less_Suc size_list_estimation')
  then show "((preset, e), preset, v) \<in> measure (\<lambda>(p, v). size v)" by simp
qed simp

declare hosted_outbound_value_allowed.simps [simp del]

definition hosted_outbound_line_allowed ::
  "(string \<Rightarrow> json option) \<Rightarrow> hosted_preset \<Rightarrow> string \<Rightarrow> bool" where
  "hosted_outbound_line_allowed parse preset line = (case parse line of None \<Rightarrow> False
     | Some v \<Rightarrow> hosted_outbound_value_allowed preset v)"

end
