(* ===== verification/IamEvaluate.thy ===== *)
theory IamEvaluate
  imports HostedPolicy
begin

text \<open>
  The central evaluator of \<open>src/src/bin/caller/access/iam.rs\<close>: the routing provenance of a
  recorded origin, the sessions treated as hosted, and the decision on one operation of one
  request principal against the stored state. The URL parser (the \<open>url\<close> crate) is an
  argument; the address parser of the standard library is modelled.
\<close>

section \<open>Addresses\<close>

definition is_digit :: "char \<Rightarrow> bool" where
  "is_digit c = (CHR ''0'' \<le> c \<and> c \<le> CHR ''9'')"

definition digits_value :: "string \<Rightarrow> nat" where
  "digits_value s = foldl (\<lambda>n c. 10 * n + (of_char c - 48)) 0 s"

definition is_octet :: "string \<Rightarrow> bool" where
  "is_octet p = (p \<noteq> [] \<and> length p \<le> 3 \<and> list_all is_digit p
     \<and> (length p = 1 \<or> hd p \<noteq> CHR ''0'') \<and> digits_value p \<le> 255)"

definition is_ipv4 :: "string \<Rightarrow> bool" where
  "is_ipv4 s = (let parts = split_on (CHR ''.'') s in length parts = 4 \<and> list_all is_octet parts)"

definition is_h16 :: "string \<Rightarrow> bool" where
  "is_h16 p = (p \<noteq> [] \<and> length p \<le> 4 \<and> list_all ascii_hex_digit p)"

text \<open>The 16-bit groups a colon-separated run stands for; a trailing IPv4 address is two.\<close>

definition ipv6_groups :: "string \<Rightarrow> nat option" where
  "ipv6_groups s = (if s = [] then Some 0
     else (let parts = split_on (CHR '':'') s; final = last parts
           in if \<not> list_all is_h16 (butlast parts) then None
              else if is_h16 final then Some (length parts)
              else if is_ipv4 final then Some (length parts + 1) else None))"

definition is_ipv6 :: "string \<Rightarrow> bool" where
  "is_ipv6 s = (case find_sub ''::'' s of
     None \<Rightarrow> ipv6_groups s = Some 8
   | Some i \<Rightarrow> (case (ipv6_groups (take i s), ipv6_groups (drop (i + 2) s)) of
       (Some m, Some n) \<Rightarrow> m + n \<le> 7 \<and> (take i s = [] \<or> is_h16 (last (split_on (CHR '':'') (take i s))))
     | _ \<Rightarrow> False))"

definition is_ip_addr :: "string \<Rightarrow> bool" where
  "is_ip_addr s = (is_ipv4 s \<or> is_ipv6 s)"

section \<open>Origins\<close>

text \<open>
  What the \<open>url\<close> crate reads out of a string; the port is the written one or the scheme's
  default, and \<open>uv_origin\<close> the serialized origin.
\<close>

record url_view =
  uv_scheme :: string
  uv_host :: "string option"
  uv_port :: "nat option"
  uv_username :: string
  uv_password :: "string option"
  uv_path :: string
  uv_query :: "string option"
  uv_fragment :: "string option"
  uv_origin :: string

text \<open>
  What the process knows of origins: the URL parser, the current fleet zone, the exact fleet
  names the TLS resolver remembers, and whether their provenance file is incomplete.
\<close>

record origin_world =
  ow_parse_url :: "string \<Rightarrow> url_view option"
  ow_fleet_zone :: "string option"
  ow_fleet_names :: "string list"
  ow_provenance_incomplete :: bool

datatype origin_class = OriginUnknown | OriginHosted | OriginFleet | OriginDirect

fun origin_class_str :: "origin_class \<Rightarrow> string" where
  "origin_class_str OriginUnknown = ''unknown''"
| "origin_class_str OriginHosted = ''hosted''"
| "origin_class_str OriginFleet = ''fleet''"
| "origin_class_str OriginDirect = ''direct''"

definition normalized_origin ::
  "origin_world \<Rightarrow> string \<Rightarrow> (string \<times> string \<times> nat option) option" where
  "normalized_origin w v = (case ow_parse_url w (trim v) of None \<Rightarrow> None
     | Some u \<Rightarrow> (case uv_host u of None \<Rightarrow> None
         | Some h \<Rightarrow> Some (to_ascii_lowercase (uv_scheme u),
             to_ascii_lowercase (trim_end_char CHR ''.'' h), uv_port u)))"

definition network_origins_match :: "origin_world \<Rightarrow> string \<Rightarrow> string \<Rightarrow> bool" where
  "network_origins_match w left right = (case normalized_origin w left of None \<Rightarrow> False
     | Some l \<Rightarrow> normalized_origin w right = Some l)"

definition is_fleet_server_name :: "origin_world \<Rightarrow> string option \<Rightarrow> bool" where
  "is_fleet_server_name w nm = (case nm of None \<Rightarrow> False
     | Some n \<Rightarrow> to_ascii_lowercase (trim_end_char CHR ''.'' (trim n)) \<in> set (ow_fleet_names w))"

definition ends_with :: "string \<Rightarrow> string \<Rightarrow> bool" where
  "ends_with s suffix = starts_with (rev s) (rev suffix)"

definition under_fleet_zone :: "string option \<Rightarrow> string option \<Rightarrow> bool" where
  "under_fleet_zone zone host =
     (case Option.bind zone trimmed_nonempty of None \<Rightarrow> False
      | Some z \<Rightarrow> (let z' = to_ascii_lowercase (trim_end_char CHR ''.'' z) in
          (case host of None \<Rightarrow> False
           | Some h \<Rightarrow> (let h' = trim_end_char CHR ''.'' h in
               h' = z' \<or> ends_with h' (''.'' @ z')))))"

definition origin_route_class ::
  "origin_world \<Rightarrow> string \<Rightarrow> string list \<Rightarrow> string option \<Rightarrow> origin_class" where
  "origin_route_class w raw hosted_origins fleet_zone =
     (let origin = trim raw in
      if origin = [] then OriginUnknown
      else if list_ex (\<lambda>c. network_origins_match w c origin) (hosted_origins @ [default_hosted_origin])
      then OriginHosted
      else (let host = Option.bind (ow_parse_url w origin)
                         (\<lambda>u. map_option to_ascii_lowercase (uv_host u)) in
        if under_fleet_zone fleet_zone host then OriginFleet
        else if is_fleet_server_name w host then OriginFleet
        else if ow_provenance_incomplete w
             \<and> (case host of None \<Rightarrow> False | Some h \<Rightarrow> \<not> is_ip_addr h) then OriginFleet
        else OriginDirect))"

definition client_key_origin_route_class ::
  "origin_world \<Rightarrow> string \<Rightarrow> string list \<Rightarrow> string option \<Rightarrow> origin_class" where
  "client_key_origin_route_class w origin hosted_origins fleet_zone =
     (if trim origin = ''connect-bootstrap'' then OriginHosted
      else origin_route_class w origin hosted_origins fleet_zone)"

abbreviation or_empty :: "string option \<Rightarrow> string" where
  "or_empty s \<equiv> (case s of Some x \<Rightarrow> x | None \<Rightarrow> [])"

definition is_hosted_session :: "origin_world \<Rightarrow> local_iam_state \<Rightarrow> access_principal \<Rightarrow> bool" where
  "is_hosted_session w st p =
     (if ap_hosted_connect p \<or> ap_authn_kind p = Some ''connect_account'' then True
      else if ap_authn_kind p \<noteq> Some ''client_key'' then False
      else client_key_origin_route_class w (or_empty (ap_authn_origin p)) (is_hosted_origins st) None
             = OriginHosted)"

definition session_origin_class ::
  "origin_world \<Rightarrow> string list \<Rightarrow> access_principal \<Rightarrow> string" where
  "session_origin_class w hosted_origins p =
     (if ap_hosted_connect p then ''hosted''
      else if ap_kind p = ''peer_daemon'' then ''peer''
      else (case ap_authn_kind p of
          Some k \<Rightarrow>
            if k = ''connect_account'' then ''hosted''
            else if k = ''client_key''
            then (if client_key_origin_route_class w (or_empty (ap_authn_origin p)) hosted_origins None
                       = OriginHosted then ''hosted'' else ''direct'')
            else ''direct''
        | None \<Rightarrow> if ap_kind p = ''root_session'' then ''local'' else ''direct''))"

section \<open>The evaluator\<close>

definition machine_kind :: "string \<Rightarrow> bool" where
  "machine_kind k = (k = ''peer_daemon'' \<or> k = ''agent_client'')"

definition trusted_kind :: "string \<Rightarrow> bool" where
  "trusted_kind k = (k = ''root_session'' \<or> machine_kind k)"

definition evaluate_principal_operation ::
  "access_principal \<Rightarrow> peer_operation \<Rightarrow> access_decision" where
  "evaluate_principal_operation p op =
     (if ap_kind p = ''root_session''
      then decision_allowed p op ''root dashboard session grants all operations''
      else if machine_kind (ap_kind p) then
        (let lane = (if ap_kind p = ''agent_client'' then ''agent'' else ''peer'') in
         case ap_peer_profile p of
           None \<Rightarrow> decision_denied p op (lane @ '' principal has no profile'')
         | Some profile \<Rightarrow>
             if profile_allows_operation profile op
             then decision_allowed p op (lane @ '' profile '' @ profile @ '' allows ''
                    @ operation_permission_id op)
             else decision_denied p op (lane @ '' profile '' @ profile @ '' does not allow ''
                    @ operation_permission_id op))
      else decision_denied p op
             ''scoped user/client principal requires local IAM state evaluation'')"

definition evaluate_granted ::
  "int \<Rightarrow> local_iam_state \<Rightarrow> access_principal \<Rightarrow> peer_operation \<Rightarrow> access_decision" where
  "evaluate_granted now st p op = (case ap_grant_id p of
     None \<Rightarrow> decision_denied p op ''principal has no local IAM grant''
   | Some gid \<Rightarrow> (case find (\<lambda>g. ig_id g = gid) (is_grants st) of
       None \<Rightarrow> decision_denied p op (''local IAM grant '' @ gid @ '' was not found'')
     | Some g \<Rightarrow>
         if ig_principal_id g \<noteq> ap_id p
         then decision_denied p op (''local IAM grant '' @ ig_id g @ '' belongs to ''
                @ ig_principal_id g)
         else if \<not> is_active_at g now
         then decision_denied p op (''local IAM grant '' @ ig_id g
                @ (if is_enforced_status (ig_status g) then '' has expired'' else '' is not active''))
         else (case find (\<lambda>r. ip_id r = ap_id p) (is_principals st) of
           None \<Rightarrow> decision_denied p op (''local IAM principal '' @ ap_id p @ '' was not found'')
         | Some r \<Rightarrow>
             if \<not> is_enforced_status (ip_status r)
             then decision_denied p op (''local IAM principal '' @ ap_id p @ '' is not active'')
             else (let role_id = or_default (ig_role_id g) ''role:scoped-human'' in
               case find (\<lambda>r. ir_id r = role_id) (is_roles st) of
                 None \<Rightarrow> decision_denied p op (''local IAM role '' @ role_id @ '' was not found'')
               | Some role \<Rightarrow>
                   if permissions_allow (ir_permissions role) (operation_permission_id op)
                   then decision_allowed p op (''local IAM role '' @ role_id @ '' allows ''
                          @ operation_permission_id op)
                   else decision_denied p op (''local IAM role '' @ role_id
                          @ '' does not allow '' @ operation_permission_id op)))))"

definition evaluate_with_fleet_zone ::
  "hosted_world \<Rightarrow> origin_world \<Rightarrow> local_iam_state \<Rightarrow> access_principal \<Rightarrow> peer_operation
     \<Rightarrow> string option \<Rightarrow> access_decision" where
  "evaluate_with_fleet_zone w ow st p op fleet_zone =
     (if is_hosted_lease_principal p then evaluate_hosted_operation w st p op
      else if ap_authn_kind p = Some ''connect_account''
      then decision_denied p op
        ''Connect account records are discovery metadata and never authenticate to the daemon''
      else if ap_hosted_connect p \<and> trusted_kind (ap_kind p)
      then decision_denied p op
        ''hosted Connect transport can never exercise a trusted-root, peer, or agent principal''
      else (let cls = client_key_origin_route_class ow (or_empty (ap_authn_origin p))
                        (is_hosted_origins st) fleet_zone in
        if ap_authn_kind p = Some ''client_key'' \<and> cls \<in> {OriginHosted, OriginFleet}
        then decision_denied p op (''the default build treats '' @ origin_class_str cls
          @ ''-origin browser keys as discovery-only; current client-key authentication cannot exercise daemon authority'')
        else if is_hosted_session ow st p
        then decision_denied p op
          ''the default build treats hosted Connect as discovery-only; hosted control is immutably disabled''
        else if trusted_kind (ap_kind p) then evaluate_principal_operation p op
        else evaluate_granted (hw_now w) st p op))"

definition evaluate_principal_operation_with_state ::
  "hosted_world \<Rightarrow> origin_world \<Rightarrow> local_iam_state \<Rightarrow> access_principal \<Rightarrow> peer_operation
     \<Rightarrow> access_decision" where
  "evaluate_principal_operation_with_state w ow st p op =
     evaluate_with_fleet_zone w ow st p op
       (if ap_authn_kind p = Some ''client_key'' then ow_fleet_zone ow else None)"

end
