(* ===== verification/IamGrants.thy ===== *)
theory IamGrants
  imports IamEvaluate
begin

text \<open>
  The writers of \<open>src/src/bin/caller/access/iam.rs\<close>: how an owner's request becomes a
  principal with its authentication bindings and a grant, how a grant is updated or revoked,
  and the daemon's trust tier. A writer gives the state it leaves and its outcome; a refusal
  after the builtin roles were completed leaves them completed. The clock is an argument.
\<close>

section \<open>Requests\<close>

record grant_request =
  gr_kind :: string
  gr_label :: "string option"
  gr_fingerprint :: "string option"
  gr_client_key_fingerprint :: "string option"
  gr_client_key :: "string option"
  gr_client_key_origin :: "string option"
  gr_session_id :: "string option"
  gr_user_id :: "string option"
  gr_account_name :: "string option"
  gr_account_provider :: "string option"
  gr_handle :: "string option"
  gr_verified_provider :: "string option"
  gr_organization_id :: "string option"
  gr_organization_name :: "string option"
  gr_role_id :: "string option"
  gr_status :: "string option"
  gr_reason :: "string option"
  gr_target_id :: "string option"
  gr_expires_at_unix_ms :: "u64 option"
  gr_fs_read_roots :: "string list"
  gr_fs_write_roots :: "string list"

definition empty_request :: grant_request where
  "empty_request = \<lparr> gr_kind = [], gr_label = None, gr_fingerprint = None,
     gr_client_key_fingerprint = None, gr_client_key = None, gr_client_key_origin = None,
     gr_session_id = None, gr_user_id = None, gr_account_name = None,
     gr_account_provider = None, gr_handle = None, gr_verified_provider = None,
     gr_organization_id = None, gr_organization_name = None, gr_role_id = None,
     gr_status = None, gr_reason = None, gr_target_id = None, gr_expires_at_unix_ms = None,
     gr_fs_read_roots = [], gr_fs_write_roots = [] \<rparr>"

record grant_update_request =
  gu_grant_id :: string
  gu_role_id :: "string option"
  gu_status :: "string option"
  gu_reason :: "string option"

datatype access_error = AccessError string | UnknownTier string

text \<open>\<open>option.as_deref().and_then(trimmed_nonempty)\<close>.\<close>

abbreviation given :: "string option \<Rightarrow> string option" where
  "given s \<equiv> Option.bind s trimmed_nonempty"

definition or_else :: "'a option \<Rightarrow> 'a option \<Rightarrow> 'a option" where
  "or_else a b = (case a of Some x \<Rightarrow> Some x | None \<Rightarrow> b)"

definition unwrap_or :: "'a option \<Rightarrow> 'a \<Rightarrow> 'a" where
  "unwrap_or a d = (case a of Some x \<Rightarrow> x | None \<Rightarrow> d)"

definition infer_kind :: "grant_request \<Rightarrow> string option" where
  "infer_kind r =
     (if given (gr_session_id r) \<noteq> None then Some ''agent_session''
      else if given (gr_client_key_fingerprint r) \<noteq> None then Some ''client_key''
      else if given (gr_fingerprint r) \<noteq> None then Some ''browser_certificate''
      else if given (gr_user_id r) \<noteq> None \<or> given (gr_account_name r) \<noteq> None
      then Some ''connect_account'' else None)"

definition normalize_user_client_kind :: "grant_request \<Rightarrow> access_error + string" where
  "normalize_user_client_kind r =
     (let kind = to_ascii_lowercase
                   (unwrap_or (or_else (trimmed_nonempty (gr_kind r)) (infer_kind r)) [])
      in if kind \<in> {''browser_certificate'', ''browser_mtls_cert'', ''browser-mtls-cert''}
         then Inr ''browser_certificate''
         else if kind \<in> {''client_key'', ''client-key'', ''browser_key'', ''browser-key''}
         then Inr ''client_key''
         else if kind \<in> {''connect_account'', ''connect-account'', ''passkey_account'',
                        ''passkey-account''}
         then Inl (AccessError ''Connect account records are legacy discovery metadata and cannot receive IAM grants; grant a browser identity key, browser certificate, or keyed human user instead'')
         else if kind \<in> {''human_user'', ''human-user'', ''human'', ''human_mtls'', ''human-mtls''}
         then Inr ''human_user''
         else if kind \<in> {''agent_session'', ''agent-session''} then Inr ''agent_session''
         else if kind \<in> {''local_process'', ''local-process'', ''loopback_mcp'', ''loopback-mcp''}
         then Inr ''local_process''
         else Inl (AccessError ''kind must be client_key, browser_certificate, human_user, agent_session, or local_process''))"

definition normalize_user_client_status :: "string option \<Rightarrow> access_error + string" where
  "normalize_user_client_status raw =
     (let status = to_ascii_lowercase (unwrap_or (given raw) ''active'')
      in if status \<in> {''active'', ''draft'', ''revoked''} then Inr status
         else Inl (AccessError ''status must be active, draft, or revoked''))"

definition validate_user_client_role :: "local_iam_state \<Rightarrow> string \<Rightarrow> access_error + unit" where
  "validate_user_client_role st role_id =
     (if role_id \<in> set hosted_role_ids
      then Inl (AccessError ''hosted lease roles are reserved for the dedicated daemon-local lease writer'')
      else case find (\<lambda>r. ir_id r = role_id) (is_roles st) of
        None \<Rightarrow> Inl (AccessError (''unknown IAM role '' @ role_id))
      | Some role \<Rightarrow>
          if ir_id role = ''role:peer-profile''
          then Inl (AccessError ''peer-profile is a daemon-to-daemon role and cannot be assigned to a user/client'')
          else if ir_id role = ''role:none''
          then Inl (AccessError ''role:none is a ceiling-only sentinel and cannot be granted to a user/client'')
          else if ir_status role = ''planned''
          then Inl (AccessError (''IAM role '' @ role_id @ '' is planned but not enforced''))
          else Inr ())"

definition policy_for_role :: "string \<Rightarrow> string" where
  "policy_for_role role_id =
     (if role_id \<in> {''role:root'', ''role:peer-profile'', ''role:scoped-human'', ''role:observer'',
          ''role:session-reader'', ''role:terminal'', ''role:files-read'', ''role:files-write'',
          ''role:peer-user'', ''role:operator''}
      then ''policy:'' @ drop 5 role_id
      else ''policy:'' @ slug_component role_id)"

definition inactive_client_key_grant_error :: "origin_class \<Rightarrow> access_error" where
  "inactive_client_key_grant_error c = AccessError (''active pure client_key grants from ''
     @ origin_class_str c
     @ '' origins are refused; bind the person to an independently verified browser mTLS certificate instead'')"

definition validate_active_pure_client_key_origin ::
  "origin_world \<Rightarrow> local_iam_state \<Rightarrow> string \<Rightarrow> string \<Rightarrow> grant_request \<Rightarrow> string option
     \<Rightarrow> access_error + unit" where
  "validate_active_pure_client_key_origin ow st kind status r fleet_zone =
     (let has_client_key = given (gr_client_key_fingerprint r) \<noteq> None;
          has_browser_mtls = (case given (gr_fingerprint r) of None \<Rightarrow> False
                              | Some f \<Rightarrow> hex_fingerprint f \<noteq> []);
          pure_key = (kind = ''client_key''
                      \<or> kind = ''human_user'' \<and> has_client_key \<and> \<not> has_browser_mtls);
          c = client_key_origin_route_class ow (or_empty (gr_client_key_origin r))
                (is_hosted_origins st) fleet_zone
      in if \<not> pure_key \<or> \<not> is_enforced_status status then Inr ()
         else if c \<in> {OriginHosted, OriginFleet} then Inl (inactive_client_key_grant_error c)
         else Inr ())"

definition has_valid_browser_mtls_authn :: "iam_principal \<Rightarrow> bool" where
  "has_valid_browser_mtls_authn p = (\<exists>a \<in> set (ip_authn p).
     jstr ''kind'' a = Some ''browser_mtls_cert''
     \<and> (case jstr ''fingerprint'' a of None \<Rightarrow> False | Some f \<Rightarrow> hex_fingerprint f \<noteq> []))"

definition inactive_pure_client_key_origin_class ::
  "origin_world \<Rightarrow> local_iam_state \<Rightarrow> iam_principal \<Rightarrow> string option \<Rightarrow> origin_class option" where
  "inactive_pure_client_key_origin_class ow st p fleet_zone =
     (if has_valid_browser_mtls_authn p then None
      else find (\<lambda>c. c \<in> {OriginHosted, OriginFleet})
             (List.map_filter (\<lambda>a. if jstr ''kind'' a \<noteq> Some ''client_key'' then None
                  else map_option (\<lambda>origin. client_key_origin_route_class ow origin
                                      (is_hosted_origins st) fleet_zone) (jstr ''origin'' a))
                (ip_authn p)))"

section \<open>Bindings\<close>

record client_binding =
  cb_principal_id :: string
  cb_principal_kind :: string
  cb_label :: string
  cb_account :: "json option"
  cb_organization :: "json option"
  cb_authn :: "json list"

text \<open>An object entry for a value that is there.\<close>

definition entry :: "string \<Rightarrow> string option \<Rightarrow> (string \<times> json) list" where
  "entry k v = (case v of None \<Rightarrow> [] | Some s \<Rightarrow> [(k, JStr s)])"

definition organization_metadata :: "grant_request \<Rightarrow> json option" where
  "organization_metadata r =
     (let i = given (gr_organization_id r); n = given (gr_organization_name r)
      in if i = None \<and> n = None then None else Some (JObj (entry ''id'' i @ entry ''name'' n)))"

definition account_provider :: "grant_request \<Rightarrow> string" where
  "account_provider r = unwrap_or (given (gr_account_provider r)) ''intendant.dev''"

definition account_metadata ::
  "grant_request \<Rightarrow> string option \<Rightarrow> string option \<Rightarrow> json option" where
  "account_metadata r user_id handle =
     (if user_id = None \<and> handle = None \<and> given (gr_verified_provider r) = None then None
      else Some (JObj ([(''provider'', JStr (account_provider r))] @ entry ''user_id'' user_id
             @ entry ''account_name'' handle @ entry ''handle'' handle
             @ entry ''verified_provider'' (given (gr_verified_provider r)))))"

definition mtls_authn :: "string \<Rightarrow> json" where
  "mtls_authn fingerprint = JObj [(''kind'', JStr ''browser_mtls_cert''),
     (''label'', JStr ''Browser mTLS certificate''), (''fingerprint'', JStr fingerprint)]"

definition client_key_authn_entry :: "string \<Rightarrow> string option \<Rightarrow> string option \<Rightarrow> json" where
  "client_key_authn_entry fingerprint public_key origin = JObj
     ([(''kind'', JStr ''client_key''), (''label'', JStr ''Browser identity key''),
       (''fingerprint'', JStr fingerprint)]
      @ entry ''public_key'' (given public_key) @ entry ''origin'' (given origin))"

definition hex_given :: "string option \<Rightarrow> string option" where
  "hex_given s = Option.bind (given s) (\<lambda>f. let h = hex_fingerprint f in if h = [] then None else Some h)"

definition key_given :: "string option \<Rightarrow> string option" where
  "key_given s = Option.bind (given s)
     (\<lambda>f. let k = normalize_client_key_fingerprint f in if k = [] then None else Some k)"

definition bind_browser_certificate :: "grant_request \<Rightarrow> access_error + client_binding" where
  "bind_browser_certificate r = (case hex_given (gr_fingerprint r) of
     None \<Rightarrow> Inl (AccessError ''fingerprint is required'')
   | Some f \<Rightarrow> Inr \<lparr> cb_principal_id = ''principal:browser-cert:'' @ f,
       cb_principal_kind = ''browser_certificate'',
       cb_label = unwrap_or (given (gr_label r)) (''Browser certificate '' @ short_id f),
       cb_account = None, cb_organization = organization_metadata r,
       cb_authn = [mtls_authn f] \<rparr>)"

definition bind_connect_account :: "grant_request \<Rightarrow> access_error + client_binding" where
  "bind_connect_account r =
     (let user_id = given (gr_user_id r);
          account_name = given (or_else (gr_account_name r) (gr_handle r));
          id_source = unwrap_or (or_else user_id account_name) []
      in if user_id = None \<and> account_name = None
         then Inl (AccessError ''user_id or account_name is required for connect_account'')
         else Inr \<lparr> cb_principal_id = ''principal:connect-account:'' @ slug_component id_source,
           cb_principal_kind = ''connect_account'',
           cb_label = unwrap_or (or_else (given (gr_label r)) (map_option ((@) ''@'') account_name))
             (''Connect account '' @ short_id id_source),
           cb_account = Some (JObj ([(''provider'', JStr (account_provider r))]
             @ entry ''user_id'' user_id @ entry ''account_name'' account_name
             @ entry ''handle'' account_name
             @ entry ''verified_provider'' (given (gr_verified_provider r)))),
           cb_organization = organization_metadata r,
           cb_authn = [JObj ([(''kind'', JStr ''connect_account''),
             (''label'', JStr ''Intendant Connect account'')]
             @ entry ''user_id'' user_id @ entry ''account_name'' account_name)] \<rparr>)"

definition bind_client_key :: "grant_request \<Rightarrow> access_error + client_binding" where
  "bind_client_key r = (case key_given (gr_client_key_fingerprint r) of
     None \<Rightarrow> Inl (AccessError ''client_key_fingerprint is required'')
   | Some f \<Rightarrow> Inr \<lparr> cb_principal_id = ''principal:client-key:'' @ f,
       cb_principal_kind = ''client_key'',
       cb_label = unwrap_or (given (gr_label r)) (''Browser key '' @ short_id f),
       cb_account = None, cb_organization = organization_metadata r,
       cb_authn = [client_key_authn_entry f (gr_client_key r) (gr_client_key_origin r)] \<rparr>)"

definition bind_agent_session :: "grant_request \<Rightarrow> access_error + client_binding" where
  "bind_agent_session r = (case given (gr_session_id r) of
     None \<Rightarrow> Inl (AccessError ''session_id is required for agent_session (use \"*\" to scope every supervised agent session)'')
   | Some s \<Rightarrow> Inr \<lparr> cb_principal_id = ''principal:agent-session:''
         @ (if s = ''*'' then ''any'' else slug_component s),
       cb_principal_kind = ''agent_session'',
       cb_label = unwrap_or (given (gr_label r))
         (if s = ''*'' then ''All supervised agent sessions'' else ''Agent session '' @ short_id s),
       cb_account = None, cb_organization = organization_metadata r,
       cb_authn = [JObj [(''kind'', JStr ''agent_session''),
         (''label'', JStr ''Supervised agent session''), (''session_id'', JStr s)]] \<rparr>)"

definition bind_local_process :: "grant_request \<Rightarrow> access_error + client_binding" where
  "bind_local_process r = Inr \<lparr> cb_principal_id = ''principal:local-process:loopback'',
     cb_principal_kind = ''local_process'',
     cb_label = unwrap_or (given (gr_label r)) ''Local loopback processes'',
     cb_account = None, cb_organization = organization_metadata r,
     cb_authn = [JObj [(''kind'', JStr ''loopback_mcp''),
       (''label'', JStr ''Loopback MCP client''), (''scope'', JStr ''loopback'')]] \<rparr>"

definition build_human_user_binding :: "grant_request \<Rightarrow> access_error + client_binding" where
  "build_human_user_binding r =
     (let fingerprint = hex_given (gr_fingerprint r);
          key = key_given (gr_client_key_fingerprint r);
          user_id = given (gr_user_id r);
          handle = given (or_else (gr_handle r) (gr_account_name r));
          id_source = unwrap_or (or_else user_id (or_else handle (or_else fingerprint key))) ''human''
      in if fingerprint = None \<and> key = None
         then Inl (AccessError ''human_user requires a browser certificate fingerprint or browser identity key; Connect account fields are metadata only'')
         else Inr \<lparr> cb_principal_id = ''principal:human-user:'' @ slug_component id_source,
           cb_principal_kind = ''human_user'',
           cb_label = unwrap_or (or_else (given (gr_label r)) (map_option ((@) ''@'') handle))
             (''Human user '' @ short_id id_source),
           cb_account = account_metadata r user_id handle,
           cb_organization = organization_metadata r,
           cb_authn = (case fingerprint of None \<Rightarrow> [] | Some f \<Rightarrow> [mtls_authn f])
             @ (case key of None \<Rightarrow> []
                | Some k \<Rightarrow> [client_key_authn_entry k (gr_client_key r) (gr_client_key_origin r)])
             @ (if user_id \<noteq> None \<or> handle \<noteq> None
                then [JObj ([(''kind'', JStr ''connect_account''),
                  (''label'', JStr ''Intendant Connect account'')] @ entry ''user_id'' user_id
                  @ entry ''account_name'' handle @ entry ''handle'' handle)]
                else []) \<rparr>)"

definition build_user_client_binding ::
  "string \<Rightarrow> grant_request \<Rightarrow> access_error + client_binding" where
  "build_user_client_binding kind r =
     (if kind = ''browser_certificate'' then bind_browser_certificate r
      else if kind = ''connect_account'' then bind_connect_account r
      else if kind = ''client_key'' then bind_client_key r
      else if kind = ''human_user'' then build_human_user_binding r
      else if kind = ''agent_session'' then bind_agent_session r
      else if kind = ''local_process'' then bind_local_process r
      else Inl (AccessError (''unsupported user/client kind '' @ kind)))"

section \<open>Creating and replacing a grant\<close>

definition add_missing_roles :: "local_iam_state \<Rightarrow> local_iam_state" where
  "add_missing_roles st = st\<lparr> is_roles := fold (\<lambda>role roles.
     if \<exists>r \<in> set roles. ir_id r = ir_id role then roles else roles @ [role])
       builtin_role_templates (is_roles st) \<rparr>"

text \<open>
  Paths of a scope: absolute, compared by their components, sorted and deduplicated. The
  component \<open>..\<close> sorts before every name.
\<close>

definition path_of_string :: "string \<Rightarrow> path" where
  "path_of_string s = \<lparr> p_absolute = starts_with s ''/'',
     p_comps = filter (\<lambda>c. c \<noteq> [] \<and> c \<noteq> ''.'') (split_on (CHR ''/'') s) \<rparr>"

definition path_key :: "path \<Rightarrow> string list" where
  "path_key p = map (\<lambda>c. if c = ''..'' then [] else c) (p_comps p)"

fun collect_roots :: "string list \<Rightarrow> access_error + path list" where
  "collect_roots [] = Inr []"
| "collect_roots (raw # rest) =
     (let root = trim raw in
      if root = [] then collect_roots rest
      else if \<not> starts_with root ''/''
      then Inl (AccessError (''filesystem scope roots must be absolute paths (got '' @ root @ '')''))
      else rbind (collect_roots rest) (\<lambda>ps. Inr (path_of_string root # ps)))"

definition normalize_roots :: "string list \<Rightarrow> access_error + path list" where
  "normalize_roots roots = rbind (collect_roots roots) (\<lambda>ps. Inr (remdups_adj (sort_key path_key ps)))"

record grant_plan =
  pl_role_id :: string
  pl_target_id :: string
  pl_reason :: string
  pl_expires :: "u64 option"
  pl_fs_scope :: "fs_policy option"
  pl_binding :: client_binding

definition plan_grant ::
  "u64 \<Rightarrow> local_iam_state \<Rightarrow> string \<Rightarrow> grant_request \<Rightarrow> access_error + grant_plan" where
  "plan_grant now st kind r =
     (let role_id = unwrap_or (given (gr_role_id r)) ''role:scoped-human'' in
      rbind (validate_user_client_role st role_id) (\<lambda>_.
      rbind (case gr_expires_at_unix_ms r of
               Some e \<Rightarrow> if e \<le> now then Inl (AccessError ''expires_at_unix_ms must be in the future'')
                        else Inr (Some e)
             | None \<Rightarrow> Inr None) (\<lambda>expires.
      rbind (normalize_roots (gr_fs_read_roots r)) (\<lambda>reads.
      rbind (normalize_roots (gr_fs_write_roots r)) (\<lambda>writes.
      rbind (build_user_client_binding kind r) (\<lambda>b.
      Inr \<lparr> pl_role_id = role_id,
            pl_target_id = unwrap_or (given (gr_target_id r)) ''local'',
            pl_reason = unwrap_or (given (gr_reason r)) ''local IAM user/client grant'',
            pl_expires = expires,
            pl_fs_scope = (if reads = [] \<and> writes = [] then None
              else Some \<lparr> fp_read_roots = reads, fp_write_roots = writes \<rparr>),
            pl_binding = b \<rparr>))))))"

definition grant_id_of :: "string \<Rightarrow> string \<Rightarrow> string \<Rightarrow> string" where
  "grant_id_of principal_id target_id role_id = ''grant:user-client:''
     @ slug_component principal_id @ '':'' @ slug_component target_id @ '':''
     @ slug_component role_id"

definition new_principal :: "u64 \<Rightarrow> string \<Rightarrow> grant_plan \<Rightarrow> iam_principal" where
  "new_principal now status pl = (let b = pl_binding pl in
     \<lparr> ip_id = cb_principal_id b, ip_kind = cb_principal_kind b, ip_label = cb_label b,
       ip_status = status, ip_source = ''local_iam_state'', ip_account = cb_account b,
       ip_organization = cb_organization b, ip_authn = cb_authn b,
       ip_notes = Some (pl_reason pl), ip_created_at_unix_ms = Some now \<rparr>)"

definition rebind_principal :: "u64 \<Rightarrow> string \<Rightarrow> grant_plan \<Rightarrow> iam_principal \<Rightarrow> iam_principal" where
  "rebind_principal now status pl existing = (let n = new_principal now status pl in
     existing\<lparr> ip_kind := ip_kind n, ip_label := ip_label n, ip_status := status,
       ip_source := ''local_iam_state'', ip_account := ip_account n,
       ip_organization := ip_organization n, ip_authn := ip_authn n,
       ip_notes := Some (pl_reason pl),
       ip_created_at_unix_ms := or_else (ip_created_at_unix_ms existing) (Some now) \<rparr>)"

definition new_grant :: "u64 \<Rightarrow> string \<Rightarrow> grant_plan \<Rightarrow> iam_grant" where
  "new_grant now status pl = (let pid = cb_principal_id (pl_binding pl) in
     \<lparr> ig_id = grant_id_of pid (pl_target_id pl) (pl_role_id pl), ig_principal_id = pid,
       ig_target_id = pl_target_id pl, ig_role_id = pl_role_id pl,
       ig_policy_id = policy_for_role (pl_role_id pl), ig_status = status,
       ig_source = ''local_iam_state'', ig_reason = pl_reason pl,
       ig_created_at_unix_ms = Some now,
       ig_revoked_at_unix_ms = (if status = ''revoked'' then Some now else None),
       ig_expires_at_unix_ms = pl_expires pl, ig_issued_via = None,
       ig_fs_scope = pl_fs_scope pl \<rparr>)"

definition reassign_grant :: "u64 \<Rightarrow> string \<Rightarrow> grant_plan \<Rightarrow> iam_grant \<Rightarrow> iam_grant" where
  "reassign_grant now status pl existing = (let n = new_grant now status pl in
     existing\<lparr> ig_id := ig_id n, ig_principal_id := ig_principal_id n,
       ig_target_id := ig_target_id n, ig_role_id := ig_role_id n,
       ig_policy_id := ig_policy_id n, ig_status := status, ig_source := ''local_iam_state'',
       ig_reason := ig_reason n,
       ig_created_at_unix_ms := or_else (ig_created_at_unix_ms existing) (Some now),
       ig_revoked_at_unix_ms := ig_revoked_at_unix_ms n,
       ig_expires_at_unix_ms := ig_expires_at_unix_ms n, ig_fs_scope := ig_fs_scope n \<rparr>)"

text \<open>The first element with the property is replaced, or a new one appended.\<close>

definition put_where :: "('a \<Rightarrow> bool) \<Rightarrow> ('a \<Rightarrow> 'a) \<Rightarrow> 'a \<Rightarrow> 'a list \<Rightarrow> 'a list" where
  "put_where P f new xs = (if \<exists>x \<in> set xs. P x then on_first P f xs else xs @ [new])"

definition same_grant :: "grant_plan \<Rightarrow> iam_grant \<Rightarrow> bool" where
  "same_grant pl g = (let pid = cb_principal_id (pl_binding pl) in
     ig_id g = grant_id_of pid (pl_target_id pl) (pl_role_id pl)
     \<or> ig_principal_id g = pid \<and> ig_target_id g = pl_target_id pl)"

record grant_result =
  re_principal :: iam_principal
  re_grant :: iam_grant
  re_created_principal :: bool
  re_created_grant :: bool

definition local_audit ::
  "u64 \<Rightarrow> string \<Rightarrow> string \<Rightarrow> string \<Rightarrow> string \<Rightarrow> local_iam_state \<Rightarrow> local_iam_state" where
  "local_audit now actor action target summary st =
     st\<lparr> is_audit_events := is_audit_events st @
       [\<lparr> ie_id = ''audit:'' @ u64_string now @ '':''
            @ dec_string (length (is_audit_events st) + 1),
          ie_at_unix_ms = Some now, ie_actor_principal_id = actor, ie_action = action,
          ie_target_id = target, ie_summary = summary \<rparr>] \<rparr>"

definition apply_grant ::
  "u64 \<Rightarrow> string \<Rightarrow> access_principal \<Rightarrow> grant_plan \<Rightarrow> local_iam_state
     \<Rightarrow> local_iam_state \<times> grant_result" where
  "apply_grant now status actor pl st =
     (let same_p = (\<lambda>p. ip_id p = cb_principal_id (pl_binding pl));
          old_p = find same_p (is_principals st);
          old_g = find (same_grant pl) (is_grants st);
          principal' = (case old_p of Some p \<Rightarrow> rebind_principal now status pl p
                        | None \<Rightarrow> new_principal now status pl);
          grant' = (case old_g of Some g \<Rightarrow> reassign_grant now status pl g
                    | None \<Rightarrow> new_grant now status pl);
          st1 = st\<lparr> is_principals := put_where same_p (rebind_principal now status pl)
                      (new_principal now status pl) (is_principals st),
                    is_grants := put_where (same_grant pl) (reassign_grant now status pl)
                      (new_grant now status pl) (is_grants st) \<rparr>
      in (local_audit now (ap_id actor) ''upsert_user_client_grant'' (ig_id grant')
            ((if old_g = None then ''Created'' else ''Updated'') @ '' '' @ status @ '' grant ''
             @ pl_role_id pl @ '' for '' @ ip_label principal') st1,
          \<lparr> re_principal = principal', re_grant = grant', re_created_principal = (old_p = None),
            re_created_grant = (old_g = None) \<rparr>))"

definition upsert_user_client_grant ::
  "origin_world \<Rightarrow> u64 \<Rightarrow> local_iam_state \<Rightarrow> grant_request \<Rightarrow> access_principal
     \<Rightarrow> local_iam_state \<times> (access_error + grant_result)" where
  "upsert_user_client_grant ow now st r actor =
     (case rbind (normalize_user_client_kind r) (\<lambda>kind.
           rbind (normalize_user_client_status (gr_status r)) (\<lambda>status.
           rbind (validate_active_pure_client_key_origin ow st kind status r (ow_fleet_zone ow)) (\<lambda>_.
           Inr (kind, status)))) of
        Inl e \<Rightarrow> (st, Inl e)
      | Inr (kind, status) \<Rightarrow>
          (let st1 = add_missing_roles st in
           case plan_grant now st1 kind r of
             Inl e \<Rightarrow> (st1, Inl e)
           | Inr pl \<Rightarrow> (case apply_grant now status actor pl st1 of
               (st2, res) \<Rightarrow> (st2, Inr res))))"

section \<open>Updating a grant\<close>

definition updatable_kinds :: "string list" where
  "updatable_kinds = [''browser_certificate'', ''human_user'', ''client_key'',
     ''agent_session'', ''local_process'', []]"

definition update_target ::
  "local_iam_state \<Rightarrow> string \<Rightarrow> access_error + iam_grant \<times> iam_principal" where
  "update_target st grant_id =
     (if grant_id = [] then Inl (AccessError ''grant_id is required'')
      else case find (\<lambda>g. ig_id g = grant_id) (is_grants st) of
        None \<Rightarrow> Inl (AccessError (''IAM grant '' @ grant_id @ '' was not found''))
      | Some g \<Rightarrow>
          if ig_source g \<noteq> ''local_iam_state''
          then Inl (AccessError ''only local IAM user/client grants can be updated'')
          else case find (\<lambda>p. ip_id p = ig_principal_id g) (is_principals st) of
            None \<Rightarrow> Inl (AccessError (''IAM principal '' @ ig_principal_id g @ '' was not found''))
          | Some p \<Rightarrow>
              if ip_kind p = ''connect_account''
              then Inl (AccessError ''legacy Connect account records are metadata-only and read-only; they cannot be granted or updated'')
              else if ip_kind p \<notin> set updatable_kinds
              then Inl (AccessError ''only user/client principals can be updated through this API'')
              else Inr (g, p))"

definition update_grant ::
  "u64 \<Rightarrow> string option \<Rightarrow> string option \<Rightarrow> string option \<Rightarrow> iam_grant \<Rightarrow> iam_grant" where
  "update_grant now role_id status reason g =
     (let g1 = (case role_id of
                  Some r \<Rightarrow> g\<lparr> ig_role_id := r, ig_policy_id := policy_for_role r \<rparr>
                | None \<Rightarrow> if trim (ig_policy_id g) = []
                    then g\<lparr> ig_policy_id := policy_for_role (or_default (ig_role_id g) ''role:scoped-human'') \<rparr>
                    else g);
          g2 = (case status of
                  Some s \<Rightarrow> g1\<lparr> ig_status := s,
                    ig_revoked_at_unix_ms := (if s = ''revoked'' then Some now else None) \<rparr>
                | None \<Rightarrow> g1)
      in case reason of Some r \<Rightarrow> g2\<lparr> ig_reason := r \<rparr> | None \<Rightarrow> g2)"

definition update_principal ::
  "bool \<Rightarrow> string option \<Rightarrow> string option \<Rightarrow> iam_principal \<Rightarrow> iam_principal" where
  "update_principal has_active status reason p =
     (let p1 = p\<lparr> ip_status := (if has_active then ''active'' else unwrap_or status ''draft'') \<rparr>
      in case reason of Some r \<Rightarrow> p1\<lparr> ip_notes := Some r \<rparr> | None \<Rightarrow> p1)"

definition update_user_client_grant ::
  "origin_world \<Rightarrow> u64 \<Rightarrow> local_iam_state \<Rightarrow> grant_update_request \<Rightarrow> access_principal
     \<Rightarrow> local_iam_state \<times> (access_error + iam_principal \<times> iam_grant)" where
  "update_user_client_grant ow now st r actor =
     (case rbind (update_target st (trim (gu_grant_id r))) (\<lambda>(g, p).
           rbind (case gu_status r of None \<Rightarrow> Inr None
                  | Some s \<Rightarrow> rbind (normalize_user_client_status (Some s)) (\<lambda>x. Inr (Some x))) (\<lambda>status.
           rbind (if is_enforced_status (unwrap_or status (ig_status g))
                  then (case inactive_pure_client_key_origin_class ow st p (ow_fleet_zone ow) of
                          Some c \<Rightarrow> Inl (inactive_client_key_grant_error c) | None \<Rightarrow> Inr ())
                  else Inr ()) (\<lambda>_.
           Inr (g, p, status)))) of
        Inl e \<Rightarrow> (st, Inl e)
      | Inr (g, p, status) \<Rightarrow>
          (let st1 = add_missing_roles st;
               role_id = given (gu_role_id r);
               reason = given (gu_reason r)
           in case (case role_id of None \<Rightarrow> Inr () | Some rid \<Rightarrow> validate_user_client_role st1 rid) of
             Inl e \<Rightarrow> (st1, Inl e)
           | Inr _ \<Rightarrow>
               (let g' = update_grant now role_id status reason g;
                    grants' = on_first (\<lambda>x. ig_id x = ig_id g) (\<lambda>_. g') (is_grants st1);
                    has_active = (\<exists>x \<in> set grants'. ig_principal_id x = ip_id p
                                     \<and> is_enforced_status (ig_status x));
                    p' = update_principal has_active status reason p;
                    st2 = st1\<lparr> is_grants := grants',
                      is_principals := on_first (\<lambda>x. ip_id x = ip_id p) (\<lambda>_. p') (is_principals st1) \<rparr>
                in (local_audit now (ap_id actor) ''update_user_client_grant'' (ig_id g')
                      (''Updated '' @ (if ig_status g' = [] then ''draft'' else ig_status g')
                       @ '' grant '' @ (if ig_role_id g' = [] then ''role:scoped-human'' else ig_role_id g')
                       @ '' for '' @ ip_label p') st2,
                    Inr (p', g')))))"

section \<open>The trust tier\<close>

definition set_daemon_tier ::
  "u64 \<Rightarrow> local_iam_state \<Rightarrow> string option \<Rightarrow> access_principal
     \<Rightarrow> local_iam_state \<times> (access_error + string option)" where
  "set_daemon_tier now st tier actor =
     (let lowered = map_option to_ascii_lowercase (given tier);
          moved = (local_audit now (ap_id actor) ''set_daemon_tier'' ''local''
                     (''Trust tier '' @ unwrap_or (is_tier st) ''unset'' @ '' -> ''
                      @ unwrap_or lowered ''unset'') st)\<lparr> is_tier := lowered \<rparr>
      in case lowered of
           Some v \<Rightarrow>
             if v \<notin> set daemon_tiers then (st, Inl (UnknownTier v))
             else if is_tier st = lowered then (st, Inr lowered)
             else if v = ''integrated''
               \<and> hp_ceiling (hc_policy (is_hosted_control st)) = PresetOperate
             then (st, Inl (AccessError ''lower the hosted-control ceiling before setting the daemon tier to integrated; Operate can then be re-enabled with the integrated hardening acknowledgement''))
             else (moved, Inr lowered)
         | None \<Rightarrow> if is_tier st = None then (st, Inr None) else (moved, Inr None))"

end
