(* ===== verification/HostedTransient.thy ===== *)
theory HostedTransient
  imports IamEvaluate
begin

text \<open>
  The transient state the hosted lane shares between daemon processes
  (\<open>hosted-control-transient.json\<close>, \<open>src/src/bin/caller/access/hosted_control/runtime.rs\<close>):
  consumed proof nonces, outstanding WebSocket tickets and the sliding windows of the
  doorbell and poll limiters. Every operation runs under the authority-store lock as a load,
  an update and a write. A hash map is an association list in key order, the file's bytes are
  the state they decode to with its serialized size \<open>tw_size\<close>; failures of the file system
  leave the file alone and are not modelled.
\<close>

section \<open>State\<close>

record replay_record =
  rr_authority_digest :: string
  rr_nonce_digest :: string
  rr_timestamp_unix_ms :: int

record ticket_record =
  tk_lease_id :: string
  tk_grant_id :: string
  tk_fleet_origin :: string
  tk_expires_unix_ms :: u64

record doorbell_rate =
  dr_global :: "int list"
  dr_by_key :: "int list btree"
  dr_by_source :: "int list btree"

record poll_rate =
  po_global :: "int list"
  po_by_request :: "int list btree"

record transient_state =
  ts_schema_version :: nat
  ts_public_replay :: "replay_record list"
  ts_lease_replay :: "replay_record list"
  ts_tickets :: "ticket_record btree"
  ts_doorbell_rate :: doorbell_rate
  ts_poll_rate :: poll_rate

definition shared_transient_schema_version :: nat where "shared_transient_schema_version = 2"
definition shared_transient_max_bytes :: nat where "shared_transient_max_bytes = 4194304"
definition proof_nonces_global_cap :: nat where "proof_nonces_global_cap = 4096"
definition proof_nonces_per_lease_cap :: nat where "proof_nonces_per_lease_cap = 128"
definition ws_tickets_global_cap :: nat where "ws_tickets_global_cap = 512"
definition ws_ticket_ttl_ms :: u64 where "ws_ticket_ttl_ms = 15000"
definition doorbell_global_per_minute :: nat where "doorbell_global_per_minute = 120"
definition doorbell_per_key_per_minute :: nat where "doorbell_per_key_per_minute = 6"
definition doorbell_per_source_per_minute :: nat where "doorbell_per_source_per_minute = 30"
definition poll_global_per_minute :: nat where "poll_global_per_minute = 1200"
definition poll_per_request_per_minute :: nat where "poll_per_request_per_minute = 60"

lemmas transient_caps = shared_transient_schema_version_def shared_transient_max_bytes_def
  proof_nonces_global_cap_def proof_nonces_per_lease_cap_def ws_tickets_global_cap_def
  doorbell_global_per_minute_def doorbell_per_key_per_minute_def
  doorbell_per_source_per_minute_def poll_global_per_minute_def
  poll_per_request_per_minute_def

definition default_transient :: transient_state where
  "default_transient = \<lparr> ts_schema_version = shared_transient_schema_version,
     ts_public_replay = [], ts_lease_replay = [], ts_tickets = [],
     ts_doorbell_rate = \<lparr> dr_global = [], dr_by_key = [], dr_by_source = [] \<rparr>,
     ts_poll_rate = \<lparr> po_global = [], po_by_request = [] \<rparr> \<rparr>"

text \<open>Saturating subtraction of an \<open>i64\<close>.\<close>

definition i64_sat_sub :: "int \<Rightarrow> int \<Rightarrow> int" where
  "i64_sat_sub a b = max (- (2 ^ 63)) (min (2 ^ 63 - 1) (a - b))"

definition retain_recent :: "int list \<Rightarrow> int \<Rightarrow> int list" where
  "retain_recent entries cutoff = dropWhile (\<lambda>t. t < cutoff) entries"

definition retain_recent_map :: "int list btree \<Rightarrow> int \<Rightarrow> int list btree" where
  "retain_recent_map m cutoff =
     filter (\<lambda>(k, es). es \<noteq> []) (map (\<lambda>(k, es). (k, retain_recent es cutoff)) m)"

section \<open>Fleet origins\<close>

definition validate_fleet_origin :: "(string \<Rightarrow> url_view option) \<Rightarrow> string \<Rightarrow> string + string" where
  "validate_fleet_origin parse origin = (case parse (trim origin) of
     None \<Rightarrow> Inl ''fleet origin is not a valid URL''
   | Some u \<Rightarrow>
       if uv_scheme u \<noteq> ''https'' \<or> uv_host u = None \<or> uv_username u \<noteq> []
          \<or> uv_password u \<noteq> None \<or> uv_path u \<noteq> ''/'' \<or> uv_query u \<noteq> None
          \<or> uv_fragment u \<noteq> None
       then Inl ''fleet origin must be an HTTPS origin without path or credentials''
       else Inr (uv_origin u))"

section \<open>Loading and writing\<close>

text \<open>The process: digest, URL parser, size of the serialized state.\<close>

record transient_world =
  tw_sha :: "string \<Rightarrow> string"
  tw_parse_url :: "string \<Rightarrow> url_view option"
  tw_size :: "transient_state \<Rightarrow> nat"

definition valid_rate_digest :: "string \<Rightarrow> bool" where
  "valid_rate_digest v = (length v = 43 \<and> valid_id_component v)"

definition total_entries :: "int list btree \<Rightarrow> nat" where
  "total_entries m = sum_list (map (\<lambda>(k, es). length es) m)"

definition doorbell_rate_state_is_valid :: "doorbell_rate \<Rightarrow> bool" where
  "doorbell_rate_state_is_valid r =
     (length (dr_global r) \<le> doorbell_global_per_minute
      \<and> length (dr_by_key r) \<le> doorbell_global_per_minute
      \<and> length (dr_by_source r) \<le> doorbell_global_per_minute
      \<and> list_all (\<lambda>(k, es). valid_rate_digest k \<and> length es \<le> doorbell_per_key_per_minute)
          (dr_by_key r)
      \<and> list_all (\<lambda>(k, es). valid_rate_digest k \<and> length es \<le> doorbell_per_source_per_minute)
          (dr_by_source r)
      \<and> total_entries (dr_by_key r) \<le> length (dr_global r)
      \<and> total_entries (dr_by_source r) \<le> length (dr_global r))"

definition poll_rate_state_is_valid :: "poll_rate \<Rightarrow> bool" where
  "poll_rate_state_is_valid r =
     (length (po_global r) \<le> poll_global_per_minute
      \<and> length (po_by_request r) \<le> poll_global_per_minute
      \<and> list_all (\<lambda>(k, es). valid_rate_digest k \<and> length es \<le> poll_per_request_per_minute)
          (po_by_request r)
      \<and> total_entries (po_by_request r) \<le> length (po_global r))"

definition replay_record_ok :: "replay_record \<Rightarrow> bool" where
  "replay_record_ok r = (length (rr_authority_digest r) = 43 \<and> length (rr_nonce_digest r) = 43
     \<and> valid_id_component (rr_authority_digest r) \<and> valid_id_component (rr_nonce_digest r))"

definition ticket_ok :: "transient_world \<Rightarrow> string \<times> ticket_record \<Rightarrow> bool" where
  "ticket_ok w = (\<lambda>(ticket, r). valid_id_component ticket \<and> valid_id_component (tk_lease_id r)
     \<and> valid_id_component (tk_grant_id r)
     \<and> \<not> isl (validate_fleet_origin (tw_parse_url w) (tk_fleet_origin r)))"

definition transient_valid :: "transient_world \<Rightarrow> transient_state \<Rightarrow> bool" where
  "transient_valid w s =
     (ts_schema_version s = shared_transient_schema_version
      \<and> length (ts_public_replay s) \<le> proof_nonces_global_cap
      \<and> length (ts_lease_replay s) \<le> proof_nonces_global_cap
      \<and> length (ts_tickets s) \<le> ws_tickets_global_cap
      \<and> doorbell_rate_state_is_valid (ts_doorbell_rate s)
      \<and> poll_rate_state_is_valid (ts_poll_rate s)
      \<and> list_all replay_record_ok (ts_public_replay s @ ts_lease_replay s)
      \<and> list_all (ticket_ok w) (ts_tickets s))"

definition prune_doorbell :: "int \<Rightarrow> doorbell_rate \<Rightarrow> doorbell_rate" where
  "prune_doorbell cutoff r = \<lparr> dr_global = retain_recent (dr_global r) cutoff,
     dr_by_key = retain_recent_map (dr_by_key r) cutoff,
     dr_by_source = retain_recent_map (dr_by_source r) cutoff \<rparr>"

definition prune_poll :: "int \<Rightarrow> poll_rate \<Rightarrow> poll_rate" where
  "prune_poll cutoff r = \<lparr> po_global = retain_recent (po_global r) cutoff,
     po_by_request = retain_recent_map (po_by_request r) cutoff \<rparr>"

definition prune_transient :: "int \<Rightarrow> int \<Rightarrow> transient_state \<Rightarrow> transient_state" where
  "prune_transient now now2 s =
     (let replay_cutoff = i64_sat_sub now request_proof_max_skew_ms;
          rate_cutoff = i64_sat_sub now2 60000;
          live = (\<lambda>r. replay_cutoff \<le> rr_timestamp_unix_ms r)
      in s\<lparr> ts_public_replay := filter live (ts_public_replay s),
            ts_lease_replay := filter live (ts_lease_replay s),
            ts_doorbell_rate := prune_doorbell rate_cutoff (ts_doorbell_rate s),
            ts_poll_rate := prune_poll rate_cutoff (ts_poll_rate s) \<rparr>)"

definition load_shared_transient ::
  "transient_world \<Rightarrow> int \<Rightarrow> int \<Rightarrow> transient_state option \<Rightarrow> string + transient_state" where
  "load_shared_transient w now now2 stored = (case stored of
     None \<Rightarrow> Inr default_transient
   | Some s0 \<Rightarrow>
       if shared_transient_max_bytes < tw_size w s0
       then Inl ''the file exceeds the hosted transient-state size cap''
       else (let s = (if ts_schema_version s0 = 1
                      then s0\<lparr> ts_schema_version := shared_transient_schema_version \<rparr> else s0)
             in if \<not> transient_valid w s
                then Inl ''the file contains invalid hosted transient state''
                else Inr (prune_transient now now2 s)))"

definition mutate_shared_transient ::
  "transient_world \<Rightarrow> int \<Rightarrow> int \<Rightarrow> (transient_state \<Rightarrow> string + transient_state \<times> 'a)
     \<Rightarrow> transient_state option \<Rightarrow> transient_state option \<times> (string + 'a)" where
  "mutate_shared_transient w now now2 update stored =
     (case rbind (load_shared_transient w now now2 stored) update of
        Inl e \<Rightarrow> (stored, Inl e)
      | Inr (s, result) \<Rightarrow>
          if shared_transient_max_bytes < tw_size w s
          then (stored, Inl ''hosted transient state exceeds its size cap'')
          else (Some s, Inr result))"

section \<open>Nonces\<close>

datatype replay_lane = PublicLane | LeaseLane

fun lane_records :: "replay_lane \<Rightarrow> transient_state \<Rightarrow> replay_record list" where
  "lane_records PublicLane s = ts_public_replay s"
| "lane_records LeaseLane s = ts_lease_replay s"

fun with_lane_records ::
  "replay_lane \<Rightarrow> replay_record list \<Rightarrow> transient_state \<Rightarrow> transient_state" where
  "with_lane_records PublicLane rs s = s\<lparr> ts_public_replay := rs \<rparr>"
| "with_lane_records LeaseLane rs s = s\<lparr> ts_lease_replay := rs \<rparr>"

definition record_nonce ::
  "replay_lane \<Rightarrow> string \<Rightarrow> string \<Rightarrow> int \<Rightarrow> transient_state \<Rightarrow> string + transient_state \<times> unit" where
  "record_nonce lane authority_digest nonce_digest timestamp s =
     (let replay = lane_records lane s in
      if proof_nonces_global_cap \<le> length replay
      then Inl ''hosted proof replay window is full''
      else if \<exists>r \<in> set replay. rr_authority_digest r = authority_digest
                             \<and> rr_nonce_digest r = nonce_digest
      then Inl ''hosted proof nonce was already used''
      else if proof_nonces_per_lease_cap
                \<le> length (filter (\<lambda>r. rr_authority_digest r = authority_digest) replay)
      then Inl ''hosted proof nonce window is full for this authority''
      else Inr (with_lane_records lane
        (replay @ [\<lparr> rr_authority_digest = authority_digest, rr_nonce_digest = nonce_digest,
                     rr_timestamp_unix_ms = timestamp \<rparr>]) s, ()))"

definition record_nonce_in ::
  "transient_world \<Rightarrow> int \<Rightarrow> int \<Rightarrow> replay_lane \<Rightarrow> string \<Rightarrow> string \<Rightarrow> int
     \<Rightarrow> transient_state option \<Rightarrow> transient_state option \<times> (string + unit)" where
  "record_nonce_in w now now2 lane authority nonce timestamp =
     mutate_shared_transient w now now2
       (record_nonce lane (tw_sha w authority) (tw_sha w nonce) timestamp)"

definition verify_timestamp :: "int \<Rightarrow> int \<Rightarrow> string + unit" where
  "verify_timestamp now timestamp =
     (if request_proof_max_skew_ms < \<bar>i64_sat_sub now timestamp\<bar>
      then Inl ''hosted proof timestamp is outside the 60000ms window'' else Inr ())"

section \<open>Tickets\<close>

definition mint_ticket ::
  "int \<Rightarrow> string \<Rightarrow> ticket_record \<Rightarrow> transient_state \<Rightarrow> string + transient_state \<times> unit" where
  "mint_ticket now ticket r s =
     (let n = word_of_int (max 0 now) :: u64;
          tickets = filter (\<lambda>(k, x). n < tk_expires_unix_ms x) (ts_tickets s)
      in if ws_tickets_global_cap \<le> length tickets
         then Inl ''too many outstanding hosted WebSocket tickets''
         else if bt_get tickets ticket \<noteq> None
         then Inl ''generated a duplicate hosted WebSocket ticket''
         else Inr (s\<lparr> ts_tickets := bt_put ticket r tickets \<rparr>, ()))"

definition take_ticket :: "string \<Rightarrow> transient_state \<Rightarrow> string + transient_state \<times> ticket_record" where
  "take_ticket ticket s = (case bt_get (ts_tickets s) ticket of
     None \<Rightarrow> Inl ''hosted WebSocket ticket was not found or was already used''
   | Some r \<Rightarrow> Inr (s\<lparr> ts_tickets := bt_remove ticket (ts_tickets s) \<rparr>, r))"

section \<open>Limiters\<close>

definition entries_of :: "int list btree \<Rightarrow> string \<Rightarrow> int list" where
  "entries_of m k = (case bt_get m k of None \<Rightarrow> [] | Some es \<Rightarrow> es)"

definition check_doorbell ::
  "int \<Rightarrow> string \<Rightarrow> string option \<Rightarrow> transient_state \<Rightarrow> string + transient_state \<times> unit" where
  "check_doorbell now key source s =
     (let cutoff = i64_sat_sub now 60000;
          rate = prune_doorbell cutoff (ts_doorbell_rate s)
      in if doorbell_global_per_minute \<le> length (dr_global rate)
         then Inl ''hosted lease request rate limit reached''
         else if doorbell_per_key_per_minute \<le> length (entries_of (dr_by_key rate) key)
         then Inl ''hosted lease request key rate limit reached''
         else rbind (case source of None \<Rightarrow> Inr (dr_by_source rate)
             | Some src \<Rightarrow>
                 if doorbell_per_source_per_minute \<le> length (entries_of (dr_by_source rate) src)
                 then Inl ''hosted lease request source rate limit reached''
                 else Inr (bt_put src (entries_of (dr_by_source rate) src @ [now]) (dr_by_source rate)))
           (\<lambda>by_source. Inr (s\<lparr> ts_doorbell_rate :=
              \<lparr> dr_global = dr_global rate @ [now],
                dr_by_key = bt_put key (entries_of (dr_by_key rate) key @ [now]) (dr_by_key rate),
                dr_by_source = by_source \<rparr> \<rparr>, ())))"

definition check_doorbell_rate ::
  "transient_world \<Rightarrow> int \<Rightarrow> int \<Rightarrow> string \<Rightarrow> string option \<Rightarrow> int
     \<Rightarrow> transient_state option \<Rightarrow> transient_state option \<times> (string + unit)" where
  "check_doorbell_rate w now1 now2 fingerprint source_bucket now =
     mutate_shared_transient w now1 now2 (check_doorbell now (tw_sha w fingerprint)
       (case source_bucket of None \<Rightarrow> None
        | Some b \<Rightarrow> if trim b = [] then None else Some (tw_sha w b)))"

definition check_poll :: "int \<Rightarrow> string \<Rightarrow> transient_state \<Rightarrow> string + transient_state \<times> unit" where
  "check_poll now request s =
     (let cutoff = i64_sat_sub now 60000;
          rate = prune_poll cutoff (ts_poll_rate s)
      in if poll_global_per_minute \<le> length (po_global rate)
         then Inl ''hosted lease poll global rate limit reached''
         else if poll_per_request_per_minute \<le> length (entries_of (po_by_request rate) request)
         then Inl ''hosted lease poll request rate limit reached''
         else Inr (s\<lparr> ts_poll_rate := \<lparr> po_global = po_global rate @ [now],
             po_by_request = bt_put request (entries_of (po_by_request rate) request @ [now])
               (po_by_request rate) \<rparr> \<rparr>, ()))"

definition check_poll_rate ::
  "transient_world \<Rightarrow> int \<Rightarrow> int \<Rightarrow> string \<Rightarrow> int
     \<Rightarrow> transient_state option \<Rightarrow> transient_state option \<times> (string + unit)" where
  "check_poll_rate w now1 now2 request_id now =
     mutate_shared_transient w now1 now2 (check_poll now (tw_sha w request_id))"

end
