(* ===== verification/HostedRuntime.thy ===== *)
theory HostedRuntime
  imports IamGrants HostedTransient
begin

text \<open>
  The hosted-control runtime (\<open>src/src/bin/caller/access/hosted_control/runtime.rs\<close> and the
  writers of \<open>witness.rs\<close>): lease requests and decisions, issue, expiry and revocation,
  policy and session eligibility, anchors and witnesses, and the verification of a lease for
  a request. Every writer is a closure run by \<open>transact_state\<close>: a fresh load, the closure,
  and a durable write when it changed something; a refusal writes nothing. Keys and
  signatures are the record \<open>crypto\<close>, each clock reading its own argument.
\<close>

section \<open>Transactions on \<open>iam.json\<close>\<close>

text \<open>
  The file is the state its bytes decode to, or absent. A load and a save each normalize,
  with their own clock readings.
\<close>

type_synonym iam_file = "local_iam_state option"

record iam_clock =
  ck_load :: "u64 \<times> u64"
  ck_save :: "u64 \<times> u64"

definition load_state_unlocked :: "u64 \<times> u64 \<Rightarrow> iam_file \<Rightarrow> local_iam_state \<times> bool" where
  "load_state_unlocked c stored = (case stored of
     None \<Rightarrow> (default_iam_state, False)
   | Some st \<Rightarrow> (normalize_iam (fst c) (snd c) st, is_schema_version st < iam_schema_version))"

definition save_state_locked :: "u64 \<times> u64 \<Rightarrow> local_iam_state \<Rightarrow> iam_file" where
  "save_state_locked c st = Some (normalize_iam (fst c) (snd c) st)"

definition transact_state ::
  "iam_clock \<Rightarrow> (local_iam_state \<Rightarrow> 'e + local_iam_state \<times> 'a \<times> bool) \<Rightarrow> iam_file
     \<Rightarrow> iam_file \<times> ('e + 'a)" where
  "transact_state ck operation stored =
     (case load_state_unlocked (ck_load ck) stored of (st, migration_required) \<Rightarrow>
       (case operation st of
          Inl e \<Rightarrow> (stored, Inl e)
        | Inr (st', result, changed) \<Rightarrow>
            ((if changed \<or> migration_required then save_state_locked (ck_save ck) st' else stored),
             Inr result)))"

definition load_state :: "iam_clock \<Rightarrow> u64 \<times> u64 \<Rightarrow> iam_file \<Rightarrow> iam_file \<times> local_iam_state" where
  "load_state ck first stored = (case load_state_unlocked first stored of (st, migration_required) \<Rightarrow>
     if \<not> migration_required then (stored, st)
     else (case transact_state ck (\<lambda>latest. Inr (latest, latest, False) :: unit + _) stored of
             (stored', Inr latest) \<Rightarrow> (stored', latest)
           | (stored', Inl _) \<Rightarrow> (stored', st)))"

section \<open>The process\<close>

record daemon_identity =
  di_public_key :: string
  di_sign :: "string \<Rightarrow> string"

record crypto =
  cr_b64_decode :: "string \<Rightarrow> nat list option"
  cr_b64u :: "nat list \<Rightarrow> string"
  cr_key_fingerprint :: "nat list \<Rightarrow> string"
  cr_p256_verify :: "nat list \<Rightarrow> string \<Rightarrow> nat list \<Rightarrow> bool"
  cr_verify_b64u :: "string \<Rightarrow> string \<Rightarrow> string \<Rightarrow> bool"

record hosted_runtime =
  rt_enabled :: bool
  rt_init_error :: "string option"
  rt_identity :: "daemon_identity option"
  rt_daemon_id :: string
  rt_daemon_label :: string

definition ensure_enabled :: "hosted_runtime \<Rightarrow> string + unit" where
  "ensure_enabled rt = (if \<not> rt_enabled rt then Inl ''hosted control is disabled''
     else case rt_init_error rt of
       Some e \<Rightarrow> Inl (''hosted control failed to initialize: '' @ e) | None \<Rightarrow> Inr ())"

definition runtime_identity :: "hosted_runtime \<Rightarrow> string + daemon_identity" where
  "runtime_identity rt = (case rt_identity rt of
     None \<Rightarrow> Inl ''hosted-control daemon identity is unavailable'' | Some i \<Rightarrow> Inr i)"

definition p256_point :: "nat list \<Rightarrow> bool" where
  "p256_point bytes = (length bytes = 65 \<and> hd bytes = 4)"

definition validate_browser_public_key :: "crypto \<Rightarrow> string \<Rightarrow> string + string \<times> string" where
  "validate_browser_public_key cr v = (case cr_b64_decode cr (trim v) of
     None \<Rightarrow> Inl ''browser public key is not valid base64url''
   | Some bytes \<Rightarrow> if \<not> p256_point bytes
       then Inl ''browser public key must be an uncompressed P-256 point''
       else Inr (cr_b64u cr bytes, cr_key_fingerprint cr bytes))"

definition verify_p256_signature :: "crypto \<Rightarrow> string \<Rightarrow> string \<Rightarrow> string \<Rightarrow> string + unit" where
  "verify_p256_signature cr public_key payload signature = (case cr_b64_decode cr public_key of
     None \<Rightarrow> Inl ''hosted proof public key is invalid''
   | Some key \<Rightarrow> (case cr_b64_decode cr signature of
       None \<Rightarrow> Inl ''hosted proof signature is invalid base64url''
     | Some sig \<Rightarrow> if \<not> p256_point key \<or> length sig \<noteq> 64
         then Inl ''hosted proof key or signature has an invalid shape''
         else if cr_p256_verify cr key payload sig then Inr ()
         else Inl ''hosted request proof signature verification failed''))"

definition push_audit ::
  "hosted_world \<Rightarrow> string \<Rightarrow> string \<Rightarrow> string \<Rightarrow> string \<Rightarrow> local_iam_state \<Rightarrow> local_iam_state" where
  "push_audit w actor action target summary st =
     (let (uuid, at) = hw_stamp w (length (is_audit_events st))
      in st\<lparr> is_audit_events := is_audit_events st @
           [\<lparr> ie_id = ''audit:hosted:'' @ uuid, ie_at_unix_ms = Some (word_of_int at),
              ie_actor_principal_id = actor, ie_action = action, ie_target_id = target,
              ie_summary = summary \<rparr>] \<rparr>)"

definition on_hosted ::
  "(hosted_control_state \<Rightarrow> hosted_control_state) \<Rightarrow> local_iam_state \<Rightarrow> local_iam_state" where
  "on_hosted f st = st\<lparr> is_hosted_control := f (is_hosted_control st) \<rparr>"

abbreviation requests_of :: "local_iam_state \<Rightarrow> hosted_lease_request list" where
  "requests_of st \<equiv> hc_requests (is_hosted_control st)"

abbreviation leases_of :: "local_iam_state \<Rightarrow> hosted_lease_record list" where
  "leases_of st \<equiv> hc_leases (is_hosted_control st)"

abbreviation policy_of :: "local_iam_state \<Rightarrow> hosted_control_policy" where
  "policy_of st \<equiv> hc_policy (is_hosted_control st)"

definition suspended_error :: string where
  "suspended_error = ''hosted control is suspended by the certificate guard''"

section \<open>Expiry, issue and revocation\<close>

definition lease_is_over :: "u64 \<Rightarrow> hosted_lease_record \<Rightarrow> bool" where
  "lease_is_over now l = (lr_status l = LeaseActive \<and> ld_expires_unix_ms (lr_document l) \<le> now)"

definition set_grant_status ::
  "string \<Rightarrow> (iam_grant \<Rightarrow> iam_grant) \<Rightarrow> local_iam_state \<Rightarrow> local_iam_state" where
  "set_grant_status gid f st = st\<lparr> is_grants := on_first (\<lambda>g. ig_id g = gid) f (is_grants st) \<rparr>"

definition materialize_hosted_lease_expirations ::
  "hosted_world \<Rightarrow> u64 \<Rightarrow> string \<Rightarrow> local_iam_state \<Rightarrow> local_iam_state \<times> nat" where
  "materialize_hosted_lease_expirations w now actor st =
     (let over = map lr_document (filter (lease_is_over now) (leases_of st));
          st1 = on_hosted (\<lambda>h. h\<lparr> hc_leases := map (\<lambda>l. if lease_is_over now l
                  then l\<lparr> lr_status := LeaseExpired \<rparr> else l) (hc_leases h) \<rparr>) st;
          st2 = fold (\<lambda>d. set_grant_status (ld_grant_id d) (\<lambda>g. g\<lparr> ig_status := ''expired'' \<rparr>)) over st1;
          st3 = fold (\<lambda>d. push_audit w actor ''hosted_lease_expire'' (ld_lease_id d)
                  ''Observed expired hosted lease'') over st2
      in (st3, length over))"

definition request_is_over :: "u64 \<Rightarrow> hosted_lease_request \<Rightarrow> bool" where
  "request_is_over now r = (rq_status r = RequestPending \<and> rq_expires_unix_ms r \<le> now)"

definition expire_requests ::
  "hosted_world \<Rightarrow> u64 \<Rightarrow> string \<Rightarrow> local_iam_state \<Rightarrow> local_iam_state \<times> nat" where
  "expire_requests w now actor st =
     (let over = map rq_request_id (filter (request_is_over now) (requests_of st));
          st1 = on_hosted (\<lambda>h. h\<lparr> hc_requests := map (\<lambda>r. if request_is_over now r
                  then r\<lparr> rq_status := RequestExpired \<rparr> else r) (hc_requests h) \<rparr>) st
      in (fold (\<lambda>i. push_audit w actor ''hosted_lease_request_expire'' i
            ''Observed expired hosted lease request'') over st1, length over))"

definition materialize_expirations ::
  "hosted_world \<Rightarrow> u64 \<Rightarrow> string \<Rightarrow> local_iam_state \<Rightarrow> access_error + local_iam_state \<times> unit \<times> bool" where
  "materialize_expirations w now actor st =
     (let (st1, m) = expire_requests w now actor st;
          (st2, n) = materialize_hosted_lease_expirations w now actor st1
      in Inr (st2, (), 0 < m \<or> 0 < n))"

definition hosted_authn :: "string \<Rightarrow> string \<Rightarrow> json" where
  "hosted_authn fingerprint public_key = JObj [(''kind'', JStr hosted_authn_kind),
     (''fingerprint'', JStr fingerprint), (''public_key'', JStr public_key)]"

definition lease_principal :: "u64 \<Rightarrow> string \<Rightarrow> hosted_lease_request \<Rightarrow> iam_principal" where
  "lease_principal now sid r = \<lparr> ip_id = ''principal:hosted-lease:'' @ sid,
     ip_kind = hosted_principal_kind, ip_label = ''Hosted lease '' @ take 12 sid,
     ip_status = ''active'', ip_source = hosted_source, ip_account = None,
     ip_organization = None,
     ip_authn = [hosted_authn (rq_browser_key_fingerprint r) (rq_browser_public_key r)],
     ip_notes = None, ip_created_at_unix_ms = Some now \<rparr>"

definition lease_grant :: "u64 \<Rightarrow> u64 \<Rightarrow> string \<Rightarrow> hosted_preset \<Rightarrow> iam_grant" where
  "lease_grant now expires sid preset = \<lparr> ig_id = ''grant:hosted-lease:'' @ sid,
     ig_principal_id = ''principal:hosted-lease:'' @ sid, ig_target_id = ''daemon:self'',
     ig_role_id = preset_role_id preset, ig_policy_id = ''policy:hosted-control-compiled'',
     ig_status = ''active'', ig_source = hosted_source,
     ig_reason = ''daemon-local hosted lease approval'', ig_created_at_unix_ms = Some now,
     ig_revoked_at_unix_ms = None, ig_expires_at_unix_ms = Some expires,
     ig_issued_via = None, ig_fs_scope = None \<rparr>"

definition lease_document ::
  "(string \<Rightarrow> string) \<Rightarrow> daemon_identity \<Rightarrow> string \<Rightarrow> u64 \<Rightarrow> u64 \<Rightarrow> string \<Rightarrow> hosted_preset
     \<Rightarrow> hosted_lease_request \<Rightarrow> hosted_lease_document" where
  "lease_document sha identity daemon_id now expires sid preset r =
     (let d0 = \<lparr> ld_protocol = lease_protocol, ld_lease_id = ''lease:'' @ sid,
            ld_request_id = rq_request_id r, ld_daemon_id = daemon_id,
            ld_daemon_public_key = di_public_key identity, ld_fleet_origin = rq_fleet_origin r,
            ld_browser_public_key = rq_browser_public_key r,
            ld_browser_key_fingerprint = rq_browser_key_fingerprint r, ld_preset = preset,
            ld_issued_unix_ms = now, ld_expires_unix_ms = expires,
            ld_principal_id = ''principal:hosted-lease:'' @ sid,
            ld_grant_id = ''grant:hosted-lease:'' @ sid, ld_document_sha256 = [],
            ld_signature = [] \<rparr>;
          d1 = d0\<lparr> ld_document_sha256 := lease_expected_sha256 sha d0 \<rparr>
      in d1\<lparr> ld_signature := di_sign identity (lease_signing_payload d1) \<rparr>)"

text \<open>\<open>now\<close> is the clock of the issue; the two normalizations read it again.\<close>

definition issue_lease_record ::
  "hosted_world \<Rightarrow> int \<Rightarrow> u64 \<Rightarrow> u64 \<Rightarrow> local_iam_state \<Rightarrow> hosted_lease_request \<Rightarrow> hosted_preset
     \<Rightarrow> u64 \<Rightarrow> string \<Rightarrow> daemon_identity \<Rightarrow> string
     \<Rightarrow> access_error + local_iam_state \<times> hosted_lease_document" where
  "issue_lease_record w clock now2 now3 st0 r preset ttl actor identity daemon_id =
     (let now = word_of_int (max 0 clock) :: u64;
          st1 = normalize_hosted_lease_bindings now2
                  (fst (materialize_hosted_lease_expirations w now actor st0));
          live = length (filter (lease_is_live now) (leases_of st1))
      in if hosted_leases_cap \<le> live
         then Inl (AccessError ''hosted lease capacity is full; retry after an active lease expires or is revoked'')
         else (let sid = hw_sha w (rq_request_id r @ nl @ rq_browser_key_fingerprint r);
                   expires = sat_add now (sat_mul ttl 1000);
                   d = lease_document (hw_sha w) identity daemon_id now expires sid preset r;
                   st2 = on_hosted (\<lambda>h. h\<lparr> hc_leases := hc_leases h @
                           [\<lparr> lr_document = d, lr_status = LeaseActive,
                              lr_revoked_at_unix_ms = None, lr_revoked_by = None \<rparr>] \<rparr>)
                         (st1\<lparr> is_principals := is_principals st1 @ [lease_principal now sid r],
                               is_grants := is_grants st1 @ [lease_grant now expires sid preset] \<rparr>);
                   st3 = push_audit w actor ''hosted_lease_issue'' (ld_lease_id d)
                           (''Issued '' @ preset_as_str preset @ '' lease for '' @ u64_string ttl
                            @ '' seconds'') (normalize_hosted_lease_bindings now3 st2)
               in Inr (st3, d)))"

definition revoke_lease ::
  "hosted_world \<Rightarrow> u64 \<Rightarrow> string \<Rightarrow> string \<Rightarrow> local_iam_state
     \<Rightarrow> access_error + local_iam_state \<times> bool \<times> bool" where
  "revoke_lease w now lease_id actor st =
     (case find (\<lambda>l. ld_lease_id (lr_document l) = lease_id) (leases_of st) of
        None \<Rightarrow> Inr (st, False, False)
      | Some l \<Rightarrow>
          if lr_status l \<noteq> LeaseActive then Inr (st, False, False)
          else Inr (push_audit w actor ''hosted_lease_revoke'' lease_id ''Revoked hosted lease''
                 (set_grant_status (ld_grant_id (lr_document l)) (revoke_grant now)
                   (on_hosted (\<lambda>h. h\<lparr> hc_leases := on_first
                        (\<lambda>x. ld_lease_id (lr_document x) = lease_id)
                        (\<lambda>x. x\<lparr> lr_status := LeaseRevoked, lr_revoked_at_unix_ms := Some now,
                               lr_revoked_by := Some actor \<rparr>) (hc_leases h) \<rparr>) st)),
               True, True))"

section \<open>Policy and eligibility\<close>

definition lease_exceeds :: "hosted_preset \<Rightarrow> u64 \<Rightarrow> u64 \<Rightarrow> hosted_lease_record \<Rightarrow> bool" where
  "lease_exceeds cap max_ttl now l = (lr_status l = LeaseActive
     \<and> (cap < ld_preset (lr_document l)
        \<or> sat_mul max_ttl 1000 < sat_sub (ld_expires_unix_ms (lr_document l)) now))"

definition apply_policy ::
  "hosted_world \<Rightarrow> u64 \<Rightarrow> hosted_preset \<Rightarrow> u64 \<Rightarrow> string \<Rightarrow> bool \<Rightarrow> local_iam_state
     \<Rightarrow> access_error + local_iam_state \<times> hosted_control_policy \<times> bool" where
  "apply_policy w now cap max_ttl actor operate_acknowledged st =
     (let old = policy_of st in
      if is_tier st = Some ''integrated'' \<and> cap = PresetOperate \<and> hp_ceiling old < PresetOperate
         \<and> \<not> operate_acknowledged
      then Inl (AccessError ''Operate on an integrated daemon requires hardening acknowledgement'')
      else (let new = old\<lparr> hp_ceiling := cap, hp_max_ttl_secs := max_ttl \<rparr>;
                revoked = map lr_document (filter (lease_exceeds cap max_ttl now) (leases_of st));
                st1 = on_hosted (\<lambda>h. h\<lparr> hc_policy := new,
                    hc_leases := map (\<lambda>l. if lease_exceeds cap max_ttl now l
                      then l\<lparr> lr_status := LeaseRevoked, lr_revoked_at_unix_ms := Some now,
                             lr_revoked_by := Some actor \<rparr> else l) (hc_leases h) \<rparr>) st;
                st2 = st1\<lparr> is_grants := map (\<lambda>g. if ig_id g \<in> ld_grant_id ` set revoked
                                               then revoke_grant now g else g) (is_grants st1) \<rparr>;
                st3 = fold (\<lambda>d. push_audit w actor ''hosted_lease_revoke'' (ld_lease_id d)
                    (''Revoked '' @ preset_as_str (ld_preset d) @ '' lease during policy update (''
                     @ dec_string (unat (sat_sub (ld_expires_unix_ms d) (ld_issued_unix_ms d)) div 1000)
                     @ '' second lifetime)'')) revoked st2;
                st4 = push_audit w actor ''hosted_policy_update'' ''policy:hosted-control''
                    (''Set hosted ceiling to '' @ preset_as_str cap @ '' and max TTL to ''
                     @ u64_string max_ttl @ '' seconds'') st3
            in Inr (st4, policy_of st4, old \<noteq> policy_of st4 \<or> revoked \<noteq> [])))"

definition set_policy ::
  "hosted_runtime \<Rightarrow> hosted_world \<Rightarrow> iam_clock \<Rightarrow> u64 \<Rightarrow> hosted_preset \<Rightarrow> u64 \<Rightarrow> string \<Rightarrow> bool
     \<Rightarrow> iam_file \<Rightarrow> iam_file \<times> (access_error + hosted_control_policy)" where
  "set_policy rt w ck now cap max_ttl actor operate_acknowledged stored =
     (case ensure_enabled rt of
        Inl e \<Rightarrow> (stored, Inl (AccessError e))
      | Inr _ \<Rightarrow>
          if max_ttl < min_lease_ttl_secs \<or> hard_max_lease_ttl_secs < max_ttl
          then (stored, Inl (AccessError ''max lease TTL must be between 60 and 86400 seconds''))
          else transact_state ck (apply_policy w now cap max_ttl actor operate_acknowledged) stored)"

definition normalize_hosted_in :: "local_iam_state \<Rightarrow> local_iam_state" where
  "normalize_hosted_in st = on_hosted normalize_hosted st"

definition add_eligible :: "string \<Rightarrow> local_iam_state \<Rightarrow> local_iam_state" where
  "add_eligible session_id st = on_hosted (\<lambda>h. h\<lparr> hc_policy := (hc_policy h)
     \<lparr> hp_eligible_session_ids := hp_eligible_session_ids (hc_policy h) @ [session_id] \<rparr> \<rparr>) st"

definition apply_eligibility ::
  "hosted_world \<Rightarrow> string \<Rightarrow> bool \<Rightarrow> string \<Rightarrow> local_iam_state
     \<Rightarrow> access_error + local_iam_state \<times> bool \<times> bool" where
  "apply_eligibility w session_id eligible actor st =
     (let before = hp_eligible_session_ids (policy_of st);
          st1 = normalize_hosted_in (if eligible then add_eligible session_id st
            else on_hosted (\<lambda>h. h\<lparr> hc_policy := (hc_policy h)\<lparr> hp_eligible_session_ids :=
                   filter (\<lambda>c. c \<noteq> session_id) (hp_eligible_session_ids (hc_policy h)) \<rparr> \<rparr>) st);
          changed = (before \<noteq> hp_eligible_session_ids (policy_of st1))
      in Inr (if changed then push_audit w actor ''hosted_session_eligibility'' session_id
                (if eligible then ''Marked session hosted-eligible''
                 else ''Removed hosted session eligibility'') st1
              else st1, changed, changed))"

definition lease_binding_current ::
  "int \<Rightarrow> hosted_lease_document \<Rightarrow> iam_principal \<Rightarrow> iam_grant \<Rightarrow> bool" where
  "lease_binding_current now2 d pr g =
     (hosted_record_ok pr \<and> ig_principal_id g = ip_id pr \<and> ig_source g = hosted_source
      \<and> preset_from_role_id (ig_role_id g) = Some (ld_preset d)
      \<and> ig_expires_at_unix_ms g = Some (ld_expires_unix_ms d) \<and> is_active_at g now2)"

definition mark_session_created ::
  "hosted_world \<Rightarrow> u64 \<Rightarrow> int \<Rightarrow> string \<Rightarrow> string \<Rightarrow> local_iam_state
     \<Rightarrow> access_error + local_iam_state \<times> unit \<times> bool" where
  "mark_session_created w now now2 lease_id session_id st =
     (if guard_suspended w st then Inl (AccessError suspended_error)
      else case find (\<lambda>l. ld_lease_id (lr_document l) = lease_id) (leases_of st) of
        None \<Rightarrow> Inl (AccessError ''hosted lease was not found'')
      | Some l \<Rightarrow> (let d = lr_document l in
          if lr_status l \<noteq> LeaseActive \<or> ld_expires_unix_ms d \<le> now \<or> ld_preset d < PresetTasks
             \<or> hp_ceiling (policy_of st) < ld_preset d
          then Inl (AccessError ''hosted lease is inactive or cannot create sessions'')
          else case find (\<lambda>p. ip_id p = ld_principal_id d) (is_principals st) of
            None \<Rightarrow> Inl (AccessError ''hosted lease principal was not found'')
          | Some pr \<Rightarrow> (case find (\<lambda>g. ig_id g = ld_grant_id d) (is_grants st) of
              None \<Rightarrow> Inl (AccessError ''hosted lease grant was not found'')
            | Some g \<Rightarrow>
                if \<not> lease_binding_current now2 d pr g
                then Inl (AccessError ''hosted lease IAM binding is not current'')
                else if session_id \<in> set (hp_eligible_session_ids (policy_of st))
                then Inr (st, (), False)
                else Inr (push_audit w (ld_principal_id d) ''hosted_session_create'' session_id
                       (''Marked session eligible from hosted lease '' @ lease_id)
                       (normalize_hosted_in (add_eligible session_id st)), (), True))))"

definition mark_session_created_by_hosted_lease ::
  "hosted_world \<Rightarrow> iam_clock \<Rightarrow> u64 \<Rightarrow> int \<Rightarrow> string \<Rightarrow> string \<Rightarrow> iam_file
     \<Rightarrow> iam_file \<times> (access_error + unit)" where
  "mark_session_created_by_hosted_lease w ck now now2 lease_id session_id stored =
     (if \<not> valid_id_component lease_id \<or> \<not> valid_id_component session_id
      then (stored, Inl (AccessError ''hosted lease or session identifier is invalid''))
      else transact_state ck (mark_session_created w now now2 lease_id session_id) stored)"

end
