(* ===== verification/HostedLane.thy ===== *)
theory HostedLane
  imports HostedRuntime
begin

text \<open>
  The entry points of the hosted lane (\<open>src/src/bin/caller/access/hosted_control/runtime.rs\<close>,
  \<open>witness.rs\<close>): doorbell requests, polls and decisions, passkey leases, the decision of an
  enrolled application, the verification of a lease for a request, WebSocket tickets, and
  certificate witnesses. An entry point acts on the two files of the lane; \<open>t k\<close> is its
  \<open>k\<close>-th clock reading, \<open>view\<close> the snapshot of \<open>iam.json\<close> the read cache hands out (some
  earlier load of it), and fresh identifiers are arguments.
\<close>

record lane_files =
  lf_iam :: iam_file
  lf_transient :: "transient_state option"

type_synonym readings = "nat \<Rightarrow> int"

definition u64_at :: "readings \<Rightarrow> nat \<Rightarrow> u64" where "u64_at t k = word_of_int (t k)"

definition iam_clock_at :: "readings \<Rightarrow> nat \<Rightarrow> iam_clock" where
  "iam_clock_at t k = \<lparr> ck_load = (u64_at t k, u64_at t (k + 1)),
     ck_save = (u64_at t (k + 2), u64_at t (k + 3)) \<rparr>"

definition error_text :: "access_error \<Rightarrow> string" where
  "error_text e = (case e of AccessError m \<Rightarrow> m | UnknownTier m \<Rightarrow> m)"

definition map_err :: "('e \<Rightarrow> 'f) \<Rightarrow> 'e + 'a \<Rightarrow> 'f + 'a" where
  "map_err f r = (case r of Inl e \<Rightarrow> Inl (f e) | Inr x \<Rightarrow> Inr x)"

definition on_iam :: "(iam_file \<Rightarrow> iam_file \<times> 'r) \<Rightarrow> lane_files \<Rightarrow> lane_files \<times> 'r" where
  "on_iam f fs = (case f (lf_iam fs) of (i, r) \<Rightarrow> (fs\<lparr> lf_iam := i \<rparr>, r))"

definition on_transient ::
  "(transient_state option \<Rightarrow> transient_state option \<times> 'r) \<Rightarrow> lane_files \<Rightarrow> lane_files \<times> 'r" where
  "on_transient f fs = (case f (lf_transient fs) of (s, r) \<Rightarrow> (fs\<lparr> lf_transient := s \<rparr>, r))"

text \<open>Go on with the files as they are now, or stop with the error.\<close>

definition and_then ::
  "lane_files \<times> ('e + 'a) \<Rightarrow> (lane_files \<Rightarrow> 'a \<Rightarrow> lane_files \<times> ('e + 'b)) \<Rightarrow> lane_files \<times> ('e + 'b)" where
  "and_then r f = (case r of (fs, Inl e) \<Rightarrow> (fs, Inl e) | (fs, Inr x) \<Rightarrow> f fs x)"

lemma and_then_simps [simp]:
  "and_then (fs, Inl e) f = (fs, Inl e)" "and_then (fs, Inr x) f = f fs x"
  by (simp_all add: and_then_def)

lemma and_then_Inr:
  "and_then r f = (fs', Inr y) \<longleftrightarrow> (\<exists>fs x. r = (fs, Inr x) \<and> f fs x = (fs', Inr y))"
  by (auto simp: and_then_def split: prod.splits sum.splits)

definition check_only :: "'e + 'a \<Rightarrow> lane_files \<Rightarrow> lane_files \<times> ('e + 'a)" where
  "check_only r fs = (fs, r)"

lemma check_only_simps [simp]: "check_only r fs = (fs, r)"
  by (simp add: check_only_def)

section \<open>Doorbell requests\<close>

record lease_request_input =
  li_browser_public_key :: string
  li_requested_preset :: hosted_preset
  li_requested_ttl_secs :: u64
  li_requester_label :: string
  li_nonce :: string
  li_timestamp_unix_ms :: int
  li_signature :: string

definition proof_payload :: "lease_request_input \<Rightarrow> string \<Rightarrow> string \<Rightarrow> string" where
  "proof_payload i daemon_id fleet_origin = join_with nl
     [doorbell_request_proof_protocol, li_browser_public_key i,
      preset_as_str (li_requested_preset i), u64_string (li_requested_ttl_secs i),
      li_requester_label i, fleet_origin, daemon_id, li_nonce i,
      i64_string (li_timestamp_unix_ms i)]"

text \<open>\<open>char::is_control\<close> over UTF-8: C0, DEL, and C1 as two bytes.\<close>

fun has_control :: "string \<Rightarrow> bool" where
  "has_control [] = False"
| "has_control (c # s) = (let n = (of_char c :: nat) in
     n < 32 \<or> n = 127
     \<or> n = 194 \<and> (case s of [] \<Rightarrow> False | d # _ \<Rightarrow> 128 \<le> (of_char d :: nat) \<and> (of_char d :: nat) \<le> 159)
     \<or> has_control s)"

definition requester_label :: "string \<Rightarrow> string + string" where
  "requester_label raw = (let label = trim raw in
     if label = [] \<or> 96 < length label \<or> has_control label
     then Inl ''requester_label must contain 1 to 96 printable characters'' else Inr label)"

definition ttl_in_range :: "u64 \<Rightarrow> u64 \<Rightarrow> bool" where
  "ttl_in_range hi ttl = (min_lease_ttl_secs \<le> ttl \<and> ttl \<le> hi)"

definition ensure_lane_available :: "hosted_world \<Rightarrow> local_iam_state \<Rightarrow> string + unit" where
  "ensure_lane_available w view =
     (if guard_suspended w view then Inl suspended_error else Inr ())"

text \<open>What a request is checked for before its signature: the identity, origin, key and label.\<close>

definition request_shape ::
  "hosted_runtime \<Rightarrow> crypto \<Rightarrow> transient_world \<Rightarrow> int \<Rightarrow> lease_request_input \<Rightarrow> string
     \<Rightarrow> string + daemon_identity \<times> string \<times> (string \<times> string) \<times> string" where
  "request_shape rt cr tw now0 i origin =
     rbind (runtime_identity rt) (\<lambda>identity.
     rbind (validate_fleet_origin (tw_parse_url tw) origin) (\<lambda>fleet_origin.
     rbind (validate_browser_public_key cr (li_browser_public_key i)) (\<lambda>key.
     rbind (requester_label (li_requester_label i)) (\<lambda>label.
     rbind (if valid_id_component (li_nonce i) then Inr ()
            else Inl ''doorbell proof nonce is invalid'') (\<lambda>_.
     rbind (verify_timestamp now0 (li_timestamp_unix_ms i)) (\<lambda>_.
     rbind (if ttl_in_range hard_max_lease_ttl_secs (li_requested_ttl_secs i) then Inr ()
            else Inl ''requested_ttl_secs must be between 60 and 86400'') (\<lambda>_.
     Inr (identity, fleet_origin, key, label))))))))"

record fresh_ids =
  fr_uuid :: string
  fr_random :: string

definition new_request ::
  "hosted_runtime \<Rightarrow> daemon_identity \<Rightarrow> string \<Rightarrow> fresh_ids \<Rightarrow> u64 \<Rightarrow> lease_request_input
     \<Rightarrow> string \<Rightarrow> string \<times> string \<Rightarrow> string \<Rightarrow> hosted_lease_request" where
  "new_request rt identity prefix fr now i fleet_origin key label =
     (let r0 = \<lparr> rq_protocol = doorbell_protocol, rq_request_id = prefix @ fr_uuid fr,
            rq_request_nonce = fr_random fr, rq_browser_public_key = fst key,
            rq_browser_key_fingerprint = snd key, rq_requested_preset = li_requested_preset i,
            rq_requested_ttl_secs = li_requested_ttl_secs i, rq_requester_label = label,
            rq_fleet_origin = fleet_origin, rq_daemon_id = rt_daemon_id rt,
            rq_daemon_label = rt_daemon_label rt,
            rq_daemon_public_key = di_public_key identity, rq_created_unix_ms = now,
            rq_expires_unix_ms = sat_add now pending_request_ttl_ms,
            rq_status = RequestPending, rq_approved_lease_id = None,
            rq_doorbell_signature = [] \<rparr>
      in r0\<lparr> rq_doorbell_signature := di_sign identity (request_signing_payload r0) \<rparr>)"

definition store_request ::
  "hosted_world \<Rightarrow> u64 \<Rightarrow> hosted_lease_request \<Rightarrow> local_iam_state
     \<Rightarrow> access_error + local_iam_state \<times> unit \<times> bool" where
  "store_request w now r st0 =
     (let st = fst (expire_requests w now ''principal:anonymous:hosted-doorbell'' st0);
          pending = length (filter (\<lambda>q. rq_status q = RequestPending \<and> now < rq_expires_unix_ms q)
                              (requests_of st))
      in if hosted_requests_cap \<le> pending
         then Inl (AccessError ''hosted lease request queue is full; retry after a pending request is decided or expires'')
         else if hp_ceiling (policy_of st) < rq_requested_preset r
         then Inl (AccessError ''requested preset exceeds the daemon ceiling'')
         else if \<not> ttl_in_range (hp_max_ttl_secs (policy_of st)) (rq_requested_ttl_secs r)
         then Inl (AccessError (''requested_ttl_secs must be between 60 and ''
                @ u64_string (hp_max_ttl_secs (policy_of st))))
         else Inr (push_audit w ''principal:anonymous:hosted-doorbell'' ''hosted_lease_request''
                (rq_request_id r)
                (''Hosted lease request for '' @ preset_as_str (rq_requested_preset r)
                 @ '' preset, '' @ u64_string (rq_requested_ttl_secs r) @ '' seconds'')
                (normalize_hosted_in
                  (on_hosted (\<lambda>h. h\<lparr> hc_requests := hc_requests h @ [r] \<rparr>) st)), (), True))"

definition create_request ::
  "hosted_runtime \<Rightarrow> crypto \<Rightarrow> hosted_world \<Rightarrow> transient_world \<Rightarrow> readings \<Rightarrow> fresh_ids
     \<Rightarrow> local_iam_state \<Rightarrow> lease_request_input \<Rightarrow> string \<Rightarrow> string option \<Rightarrow> lane_files
     \<Rightarrow> lane_files \<times> (string + hosted_lease_request)" where
  "create_request rt cr w tw t fr view i origin source_bucket fs =
     and_then (check_only (ensure_enabled rt) fs) (\<lambda>fs _.
     and_then (check_only (ensure_lane_available w view) fs) (\<lambda>fs _.
     and_then (check_only (request_shape rt cr tw (t 0) i origin) fs)
       (\<lambda>fs (identity, fleet_origin, key, label).
     let i' = i\<lparr> li_browser_public_key := fst key, li_requester_label := label \<rparr>; now = t 1 in
     and_then (on_transient (check_doorbell_rate tw (t 2) (t 3) (snd key) source_bucket now) fs) (\<lambda>fs _.
     and_then (check_only (verify_p256_signature cr (fst key)
                 (proof_payload i' (rt_daemon_id rt) fleet_origin) (li_signature i)) fs) (\<lambda>fs _.
     and_then (on_transient (record_nonce_in tw (t 4) (t 5) PublicLane (''doorbell:'' @ snd key)
                 (li_nonce i) (li_timestamp_unix_ms i)) fs) (\<lambda>fs _.
     let r = new_request rt identity ''request:'' fr (word_of_int now) i' fleet_origin key label in
     case on_iam (transact_state (iam_clock_at t 6) (store_request w (word_of_int now) r)) fs of
       (fs, res) \<Rightarrow> (fs, map_err (\<lambda>e. ''store hosted lease request: '' @ error_text e)
                         (rbind res (\<lambda>_. Inr r)))))))))"

section \<open>Deciding a request\<close>

definition verify_doorbell ::
  "hosted_runtime \<Rightarrow> crypto \<Rightarrow> hosted_world \<Rightarrow> hosted_lease_request \<Rightarrow> string + unit" where
  "verify_doorbell rt cr w r =
     (if rq_protocol r \<noteq> doorbell_protocol \<or> rq_daemon_id r \<noteq> rt_daemon_id rt
         \<or> request_document_sha256 (hw_sha w) r = []
         \<or> \<not> cr_verify_b64u cr (rq_daemon_public_key r) (request_signing_payload r)
               (rq_doorbell_signature r)
      then Inl ''hosted lease request signature is invalid''
      else if (case rt_identity rt of None \<Rightarrow> True
               | Some d \<Rightarrow> di_public_key d \<noteq> rq_daemon_public_key r)
      then Inl ''hosted lease request names a different daemon identity'' else Inr ())"

record lease_decision_input =
  dc_request_id :: string
  dc_approve :: bool
  dc_approved_preset :: "hosted_preset option"
  dc_approved_ttl_secs :: "u64 option"

definition set_request ::
  "string \<Rightarrow> (hosted_lease_request \<Rightarrow> hosted_lease_request) \<Rightarrow> local_iam_state \<Rightarrow> local_iam_state" where
  "set_request rid f st = on_hosted (\<lambda>h. h\<lparr> hc_requests :=
     on_first (\<lambda>r. rq_request_id r = rid) f (hc_requests h) \<rparr>) st"

text \<open>
  \<open>clock\<close> is the issuing clock; \<open>n2\<close> and \<open>n3\<close> those of the normalizations inside the issue. The
  approved request is written back at its index; the issue may have dropped older requests,
  so the model addresses it by position as well.
\<close>

definition approve_at :: "nat \<Rightarrow> string \<Rightarrow> local_iam_state \<Rightarrow> local_iam_state" where
  "approve_at k lease_id st = on_hosted (\<lambda>h. h\<lparr> hc_requests := (hc_requests h)[k :=
     ((hc_requests h) ! k)\<lparr> rq_status := RequestApproved, rq_approved_lease_id := Some lease_id \<rparr>] \<rparr>) st"

fun position_from :: "('a \<Rightarrow> bool) \<Rightarrow> nat \<Rightarrow> 'a list \<Rightarrow> nat option" where
  "position_from P k [] = None"
| "position_from P k (x # xs) = (if P x then Some k else position_from P (Suc k) xs)"

definition decide_request ::
  "hosted_runtime \<Rightarrow> crypto \<Rightarrow> hosted_world \<Rightarrow> u64 \<Rightarrow> int \<Rightarrow> u64 \<Rightarrow> u64 \<Rightarrow> daemon_identity
     \<Rightarrow> lease_decision_input \<Rightarrow> string \<Rightarrow> local_iam_state
     \<Rightarrow> access_error + local_iam_state \<times> hosted_lease_document option \<times> bool" where
  "decide_request rt cr w now clock n2 n3 identity i actor st =
     (if dc_approve i \<and> guard_suspended w st then Inl (AccessError suspended_error)
      else case position_from (\<lambda>r. rq_request_id r = dc_request_id i) 0 (requests_of st) of
        None \<Rightarrow> Inl (AccessError ''hosted lease request was not found'')
      | Some k \<Rightarrow> (let r = requests_of st ! k in
          case verify_doorbell rt cr w r of Inl e \<Rightarrow> Inl (AccessError e)
          | Inr _ \<Rightarrow>
            if rq_expires_unix_ms r \<le> now then Inl (AccessError ''hosted lease request has expired'')
            else if rq_status r = RequestApproved then
              (case rq_approved_lease_id r of
                 None \<Rightarrow> Inl (AccessError ''approved request has no lease id'')
               | Some lid \<Rightarrow> (case find (\<lambda>l. ld_lease_id (lr_document l) = lid) (leases_of st) of
                   None \<Rightarrow> Inl (AccessError ''approved request lease record was not found'')
                 | Some l \<Rightarrow> Inr (st, Some (lr_document l), False)))
            else if rq_status r \<noteq> RequestPending
            then Inl (AccessError ''hosted lease request is no longer pending'')
            else if \<not> dc_approve i
            then Inr (push_audit w actor ''hosted_lease_deny'' (rq_request_id r)
                   ''Denied hosted lease request''
                   (set_request (dc_request_id i) (\<lambda>x. x\<lparr> rq_status := RequestDenied \<rparr>) st), None, True)
            else (let preset = unwrap_or (dc_approved_preset i) (rq_requested_preset r);
                      ttl = unwrap_or (dc_approved_ttl_secs i) (rq_requested_ttl_secs r)
                  in if rq_requested_preset r < preset \<or> hp_ceiling (policy_of st) < preset
                     then Inl (AccessError ''approved preset may not exceed the request or daemon ceiling'')
                     else if ttl < min_lease_ttl_secs \<or> rq_requested_ttl_secs r < ttl
                          \<or> hp_max_ttl_secs (policy_of st) < ttl \<or> hard_max_lease_ttl_secs < ttl
                     then Inl (AccessError ''approved TTL may not exceed the request or daemon limit'')
                     else rbind (issue_lease_record w clock n2 n3 st r preset ttl actor identity
                                   (rt_daemon_id rt))
                            (\<lambda>(st', d). Inr (approve_at k (ld_lease_id d) st', Some d, True)))))"

definition decide_request_as ::
  "hosted_runtime \<Rightarrow> crypto \<Rightarrow> hosted_world \<Rightarrow> readings \<Rightarrow> lease_decision_input \<Rightarrow> string
     \<Rightarrow> lane_files \<Rightarrow> lane_files \<times> (string + hosted_lease_document option)" where
  "decide_request_as rt cr w t i actor fs =
     and_then (check_only (ensure_enabled rt) fs) (\<lambda>fs _.
     and_then (check_only (runtime_identity rt) fs) (\<lambda>fs identity.
     case on_iam (transact_state (iam_clock_at t 0)
            (decide_request rt cr w (u64_at t 4) (t 5) (u64_at t 6) (u64_at t 7) identity i actor)) fs of
       (fs, res) \<Rightarrow> (fs, map_err (\<lambda>e. ''decide hosted lease request: '' @ error_text e) res)))"

section \<open>Polling and passkey leases\<close>

record lease_poll_proof =
  pp_request_id :: string
  pp_nonce :: string
  pp_timestamp_unix_ms :: int
  pp_signature :: string

definition poll_payload :: "hosted_world \<Rightarrow> hosted_lease_request \<Rightarrow> lease_poll_proof \<Rightarrow> string" where
  "poll_payload w r p = join_with nl [poll_proof_protocol, rq_request_id r,
     request_document_sha256 (hw_sha w) r, pp_nonce p, i64_string (pp_timestamp_unix_ms p)]"

definition find_request :: "string \<Rightarrow> local_iam_state \<Rightarrow> string + hosted_lease_request" where
  "find_request rid st = (case find (\<lambda>r. rq_request_id r = rid) (requests_of st) of
     None \<Rightarrow> Inl ''hosted lease request was not found'' | Some r \<Rightarrow> Inr r)"

definition approved_lease :: "local_iam_state \<Rightarrow> hosted_lease_request \<Rightarrow> hosted_lease_document option" where
  "approved_lease st r = Option.bind (rq_approved_lease_id r) (\<lambda>lid.
     map_option lr_document (find (\<lambda>l. ld_lease_id (lr_document l) = lid \<and> lr_status l = LeaseActive)
                               (leases_of st)))"

text \<open>\<open>view2\<close> is the snapshot of the second cached load, after the expirations were recorded.\<close>

definition poll_request ::
  "hosted_runtime \<Rightarrow> crypto \<Rightarrow> hosted_world \<Rightarrow> transient_world \<Rightarrow> readings \<Rightarrow> local_iam_state
     \<Rightarrow> local_iam_state \<Rightarrow> lease_poll_proof \<Rightarrow> lane_files
     \<Rightarrow> lane_files \<times> (string + hosted_lease_request \<times> hosted_lease_document option)" where
  "poll_request rt cr w tw t view view2 p fs =
     and_then (check_only (ensure_enabled rt) fs) (\<lambda>fs _.
     and_then (check_only (find_request (pp_request_id p) view) fs) (\<lambda>fs r.
     and_then (check_only (verify_doorbell rt cr w r) fs) (\<lambda>fs _.
     and_then (check_only (verify_timestamp (t 0) (pp_timestamp_unix_ms p)) fs) (\<lambda>fs _.
     and_then (check_only (if valid_id_component (pp_nonce p) then Inr ()
                           else Inl ''poll proof nonce is invalid'') fs) (\<lambda>fs _.
     and_then (on_transient (check_poll_rate tw (t 1) (t 2) (rq_request_id r) (t 3)) fs) (\<lambda>fs _.
     and_then (check_only (verify_p256_signature cr (rq_browser_public_key r) (poll_payload w r p)
                 (pp_signature p)) fs) (\<lambda>fs _.
     and_then (on_transient (record_nonce_in tw (t 4) (t 5) PublicLane
                 (''poll:'' @ rq_request_id r) (pp_nonce p) (pp_timestamp_unix_ms p)) fs) (\<lambda>fs _.
     and_then (case on_iam (transact_state (iam_clock_at t 6) (materialize_expirations w (u64_at t 10)
                 ''principal:anonymous:hosted-doorbell'')) fs of (fs, res) \<Rightarrow>
                 (fs, map_err (\<lambda>e. ''record hosted-control expiry: '' @ error_text e) res)) (\<lambda>fs _.
     and_then (check_only (find_request (rq_request_id r) view2) fs) (\<lambda>fs r2.
     (fs, Inr (r2, approved_lease view2 r2))))))))))))"

definition issue_passkey ::
  "hosted_world \<Rightarrow> int \<Rightarrow> u64 \<Rightarrow> u64 \<Rightarrow> daemon_identity \<Rightarrow> string \<Rightarrow> hosted_lease_request
     \<Rightarrow> string \<Rightarrow> local_iam_state \<Rightarrow> access_error + local_iam_state \<times> hosted_lease_document \<times> bool" where
  "issue_passkey w clock n2 n3 identity daemon_id r actor st =
     (if guard_suspended w st then Inl (AccessError suspended_error)
      else if hp_ceiling (policy_of st) < rq_requested_preset r
      then Inl (AccessError ''requested preset exceeds the daemon ceiling'')
      else if \<not> ttl_in_range (hp_max_ttl_secs (policy_of st)) (rq_requested_ttl_secs r)
      then Inl (AccessError (''requested_ttl_secs must be between 60 and ''
             @ u64_string (hp_max_ttl_secs (policy_of st))))
      else rbind (issue_lease_record w clock n2 n3 st r (rq_requested_preset r)
                    (rq_requested_ttl_secs r) actor identity daemon_id)
             (\<lambda>(st', d). Inr (st', d, True)))"

definition issue_passkey_lease ::
  "hosted_runtime \<Rightarrow> crypto \<Rightarrow> hosted_world \<Rightarrow> transient_world \<Rightarrow> readings \<Rightarrow> fresh_ids
     \<Rightarrow> local_iam_state \<Rightarrow> lease_request_input \<Rightarrow> string \<Rightarrow> string \<Rightarrow> lane_files
     \<Rightarrow> lane_files \<times> (string + hosted_lease_document)" where
  "issue_passkey_lease rt cr w tw t fr view i origin actor fs =
     and_then (check_only (ensure_enabled rt) fs) (\<lambda>fs _.
     and_then (check_only (ensure_lane_available w view) fs) (\<lambda>fs _.
     and_then (check_only (request_shape rt cr tw (t 0) i origin) fs)
       (\<lambda>fs (identity, fleet_origin, key, label).
     let i' = i\<lparr> li_browser_public_key := fst key, li_requester_label := label \<rparr> in
     and_then (check_only (verify_p256_signature cr (fst key)
                 (proof_payload i' (rt_daemon_id rt) fleet_origin) (li_signature i)) fs) (\<lambda>fs _.
     and_then (on_transient (record_nonce_in tw (t 1) (t 2) PublicLane
                 (''passkey:'' @ actor @ '':'' @ snd key) (li_nonce i) (li_timestamp_unix_ms i)) fs) (\<lambda>fs _.
     let r = new_request rt identity ''passkey-request:'' fr (word_of_int (max 0 (t 3))) i'
               fleet_origin key label in
     case on_iam (transact_state (iam_clock_at t 4) (issue_passkey w (t 8) (u64_at t 9) (u64_at t 10)
            identity (rt_daemon_id rt) r actor)) fs of
       (fs, res) \<Rightarrow> (fs, map_err (\<lambda>e. ''issue passkey-authorized hosted lease: '' @ error_text e) res))))))"

section \<open>The decision of an enrolled application\<close>

definition eligible_signed_app_distributions :: "string list" where
  "eligible_signed_app_distributions = [''macos-pgp-logged-v1'']"

definition find_accepted_signed_app_anchor ::
  "local_iam_state \<Rightarrow> string \<Rightarrow> string \<Rightarrow> string \<Rightarrow> string + signed_app_anchor" where
  "find_accepted_signed_app_anchor st device_id presented_key refusal =
     (case find (\<lambda>a. sa_device_id a = device_id \<and> sa_active a \<and> sa_revoked_unix_ms a = None)
             (hc_signed_app_anchors (is_hosted_control st)) of
        None \<Rightarrow> Inl refusal
      | Some a \<Rightarrow>
          if sa_public_key a \<noteq> presented_key
             \<or> sa_distribution_id a \<notin> set eligible_signed_app_distributions
          then Inl refusal else Inr a)"

text \<open>The witness limiter lives in memory: a global window and one per binding.\<close>

record witness_rate =
  wr_global :: "int list"
  wr_by_binding :: "int list btree"

definition witness_rate_window_ms :: int where "witness_rate_window_ms = 3600000"
definition witness_global_per_window :: nat where "witness_global_per_window = 128"
definition witness_per_binding_per_window :: nat where "witness_per_binding_per_window = 8"
definition witness_rate_bindings_cap :: nat where "witness_rate_bindings_cap = 512"

definition record_witness_rate ::
  "int \<Rightarrow> string \<Rightarrow> witness_rate \<Rightarrow> witness_rate \<times> (string + unit)" where
  "record_witness_rate now binding rate =
     (let cutoff = i64_sat_sub now witness_rate_window_ms;
          all = retain_recent (wr_global rate) cutoff;
          by_binding = retain_recent_map (wr_by_binding rate) cutoff;
          pruned = \<lparr> wr_global = all, wr_by_binding = by_binding \<rparr>;
          refused = (pruned, Inl ''certificate witness update rate limit exceeded'')
      in if witness_global_per_window \<le> length all then refused
         else if bt_get by_binding binding = None \<and> witness_rate_bindings_cap \<le> length by_binding
         then refused
         else if witness_per_binding_per_window \<le> length (entries_of by_binding binding)
         then refused
         else (\<lparr> wr_global = all @ [now],
                 wr_by_binding = bt_put binding (entries_of by_binding binding @ [now]) by_binding \<rparr>,
               Inr ()))"

definition anchor_refused_error :: string where
  "anchor_refused_error = ''signed application anchor decision is not accepted''"

definition decision_shape ::
  "hosted_runtime \<Rightarrow> int \<Rightarrow> local_iam_state \<Rightarrow> anchor_decision_document
     \<Rightarrow> string + signed_app_anchor" where
  "decision_shape rt now view d =
     (if ad_protocol d \<noteq> anchor_decision_protocol then Inl ''unsupported anchor decision protocol''
      else if ad_daemon_id d \<noteq> rt_daemon_id rt
      then Inl ''anchor decision names a different target daemon''
      else if \<not> valid_id_component (ad_device_id d) \<or> \<not> valid_id_component (ad_request_id d)
           \<or> \<not> valid_id_component (ad_nonce d)
      then Inl ''anchor decision identifier is invalid''
      else rbind (verify_timestamp now (ad_timestamp_unix_ms d)) (\<lambda>_.
           find_accepted_signed_app_anchor view (ad_device_id d) (ad_anchor_public_key d)
             anchor_refused_error))"

definition decided_request ::
  "hosted_runtime \<Rightarrow> crypto \<Rightarrow> hosted_world \<Rightarrow> local_iam_state \<Rightarrow> anchor_decision_document
     \<Rightarrow> string + unit" where
  "decided_request rt cr w view d =
     rbind (find_request (ad_request_id d) view) (\<lambda>r.
     rbind (verify_doorbell rt cr w r) (\<lambda>_.
     if request_document_sha256 (hw_sha w) r \<noteq> ad_request_document_sha256 d
     then Inl ''lease request changed; fetch the current daemon-signed request before deciding''
     else Inr ()))"

definition apply_anchor_decision ::
  "hosted_runtime \<Rightarrow> crypto \<Rightarrow> hosted_world \<Rightarrow> transient_world \<Rightarrow> readings \<Rightarrow> local_iam_state
     \<Rightarrow> anchor_decision_document \<Rightarrow> witness_rate \<times> lane_files
     \<Rightarrow> (witness_rate \<times> lane_files) \<times> (string + hosted_request_status)" where
  "apply_anchor_decision rt cr w tw t view d rf =
     (case rf of (rate, fs) \<Rightarrow>
      case rbind (ensure_enabled rt) (\<lambda>_. decision_shape rt (t 0) view d) of
        Inl e \<Rightarrow> (rf, Inl e)
      | Inr anchor \<Rightarrow>
          (case record_witness_rate (t 1) (''decision:'' @ ad_device_id d) rate of
             (rate', Inl _) \<Rightarrow> ((rate', fs), Inl ''anchor decision rate limit exceeded'')
           | (rate', Inr _) \<Rightarrow>
               (case and_then (check_only (verify_p256_signature cr (sa_public_key anchor)
                          (decision_signing_payload d) (ad_signature d)) fs) (\<lambda>fs _.
                     and_then (on_transient (record_nonce_in tw (t 2) (t 3) PublicLane
                          (''anchor-decision:'' @ ad_device_id d) (ad_nonce d)
                          (ad_timestamp_unix_ms d)) fs) (\<lambda>fs _.
                     and_then (check_only (decided_request rt cr w view d) fs) (\<lambda>fs _.
                     and_then (decide_request_as rt cr w (\<lambda>k. t (4 + k))
                          \<lparr> dc_request_id = ad_request_id d, dc_approve = ad_approve d,
                            dc_approved_preset = None, dc_approved_ttl_secs = None \<rparr>
                          (''principal:signed-app-anchor:'' @ ad_device_id d) fs) (\<lambda>fs decided.
                     (fs, Inr (if decided \<noteq> None then RequestApproved else RequestDenied)))))) of
                  (fs', res) \<Rightarrow> ((rate', fs'), res))))"

section \<open>Requests under a lease\<close>

record verified_lease =
  vl_principal :: access_principal
  vl_iam_state :: local_iam_state
  vl_document :: hosted_lease_document

definition lease_document_ok ::
  "hosted_runtime \<Rightarrow> crypto \<Rightarrow> hosted_world \<Rightarrow> string \<Rightarrow> hosted_lease_document \<Rightarrow> bool" where
  "lease_document_ok rt cr w fleet_origin d =
     (ld_protocol d = lease_protocol \<and> ld_daemon_id d = rt_daemon_id rt
      \<and> ld_fleet_origin d = fleet_origin
      \<and> ld_document_sha256 d = lease_expected_sha256 (hw_sha w) d
      \<and> cr_verify_b64u cr (ld_daemon_public_key d) (lease_signing_payload d) (ld_signature d)
      \<and> (case rt_identity rt of None \<Rightarrow> False | Some i \<Rightarrow> di_public_key i = ld_daemon_public_key d))"

definition lease_access_principal ::
  "iam_principal \<Rightarrow> iam_grant \<Rightarrow> hosted_lease_document \<Rightarrow> string \<Rightarrow> access_principal" where
  "lease_access_principal pr g d transport = \<lparr> ap_id = ip_id pr, ap_kind = ip_kind pr,
     ap_label = ip_label pr, ap_source = ip_source pr, ap_role_id = ig_role_id g,
     ap_grant_id = Some (ig_id g), ap_transport = transport, ap_peer_profile = None,
     ap_account = None, ap_organization = None, ap_authn = ip_authn pr,
     ap_authn_kind = Some hosted_authn_kind,
     ap_authn_binding = Some (ld_browser_key_fingerprint d),
     ap_authn_origin = Some (ld_fleet_origin d), ap_hosted_connect = True \<rparr>"

definition load_verified_lease ::
  "hosted_runtime \<Rightarrow> crypto \<Rightarrow> hosted_world \<Rightarrow> local_iam_state \<Rightarrow> string \<Rightarrow> string \<Rightarrow> string
     \<Rightarrow> string + verified_lease" where
  "load_verified_lease rt cr w view lease_id fleet_origin transport =
     (if guard_suspended w view then Inl suspended_error
      else case find (\<lambda>l. ld_lease_id (lr_document l) = lease_id) (leases_of view) of
        None \<Rightarrow> Inl ''hosted lease was not found''
      | Some l \<Rightarrow> (let d = lr_document l in
          if lr_status l \<noteq> LeaseActive then Inl ''hosted lease is not active''
          else if \<not> lease_document_ok rt cr w fleet_origin d
          then Inl ''hosted lease document is invalid''
          else case find (\<lambda>p. ip_id p = ld_principal_id d) (is_principals view) of
            None \<Rightarrow> Inl ''hosted lease principal was not found''
          | Some pr \<Rightarrow> (case find (\<lambda>g. ig_id g = ld_grant_id d) (is_grants view) of
              None \<Rightarrow> Inl ''hosted lease grant was not found''
            | Some g \<Rightarrow> (let p = lease_access_principal pr g d transport in
                rbind (hosted_preset_for_principal w view p) (\<lambda>_.
                Inr \<lparr> vl_principal = p, vl_iam_state = view, vl_document = d \<rparr>)))))"

record request_proof =
  qp_lease_id :: string
  qp_nonce :: string
  qp_timestamp_unix_ms :: int
  qp_signature :: string

definition ascii_upper_char :: "char \<Rightarrow> char" where
  "ascii_upper_char c = (let n = (of_char c :: nat) in
     if 97 \<le> n \<and> n \<le> 122 then char_of (n - 32) else c)"

definition proof_text ::
  "hosted_runtime \<Rightarrow> string \<Rightarrow> string \<Rightarrow> hosted_lease_document \<Rightarrow> request_proof \<Rightarrow> string" where
  "proof_text rt meth target d p = join_with nl
     [request_proof_protocol, map ascii_upper_char meth, target, rt_daemon_id rt,
      ld_document_sha256 d, qp_nonce p, i64_string (qp_timestamp_unix_ms p)]"

definition verify_request_proof ::
  "hosted_runtime \<Rightarrow> crypto \<Rightarrow> hosted_world \<Rightarrow> transient_world \<Rightarrow> readings \<Rightarrow> local_iam_state
     \<Rightarrow> string \<Rightarrow> string \<Rightarrow> string \<Rightarrow> request_proof \<Rightarrow> string
     \<Rightarrow> lane_files \<Rightarrow> lane_files \<times> (string + verified_lease)" where
  "verify_request_proof rt cr w tw t view meth target origin p transport fs =
     and_then (check_only (ensure_enabled rt) fs) (\<lambda>fs _.
     and_then (check_only (verify_timestamp (t 0) (qp_timestamp_unix_ms p)) fs) (\<lambda>fs _.
     and_then (check_only (if valid_id_component (qp_nonce p) then Inr ()
                           else Inl ''hosted request proof nonce is invalid'') fs) (\<lambda>fs _.
     and_then (check_only (validate_fleet_origin (tw_parse_url tw) origin) fs) (\<lambda>fs fleet_origin.
     and_then (check_only (load_verified_lease rt cr w view (qp_lease_id p) fleet_origin transport) fs)
       (\<lambda>fs verified.
     and_then (check_only (verify_p256_signature cr
                 (ld_browser_public_key (vl_document verified))
                 (proof_text rt meth target (vl_document verified) p) (qp_signature p)) fs) (\<lambda>fs _.
     and_then (on_transient (record_nonce_in tw (t 1) (t 2) LeaseLane (''lease:'' @ qp_lease_id p)
                 (qp_nonce p) (qp_timestamp_unix_ms p)) fs) (\<lambda>fs _.
     (fs, Inr verified))))))))"

definition revalidate_verified_lease ::
  "hosted_runtime \<Rightarrow> crypto \<Rightarrow> hosted_world \<Rightarrow> local_iam_state \<Rightarrow> verified_lease
     \<Rightarrow> string + verified_lease" where
  "revalidate_verified_lease rt cr w view v =
     rbind (ensure_enabled rt) (\<lambda>_.
     rbind (load_verified_lease rt cr w view (ld_lease_id (vl_document v))
              (ld_fleet_origin (vl_document v)) (ap_transport (vl_principal v))) (\<lambda>current.
     if vl_document current \<noteq> vl_document v
     then Inl ''hosted lease document changed during the request'' else Inr current))"

definition mint_ws_ticket ::
  "hosted_runtime \<Rightarrow> hosted_world \<Rightarrow> transient_world \<Rightarrow> readings \<Rightarrow> string \<Rightarrow> local_iam_state
     \<Rightarrow> verified_lease \<Rightarrow> lane_files \<Rightarrow> lane_files \<times> (string + string \<times> u64)" where
  "mint_ws_ticket rt w tw t ticket view v fs =
     and_then (check_only (ensure_enabled rt) fs) (\<lambda>fs _.
     and_then (check_only (ensure_lane_available w view) fs) (\<lambda>fs _.
     let expires = sat_add (word_of_int (t 0)) ws_ticket_ttl_ms in
     and_then (on_transient (mutate_shared_transient tw (t 1) (t 2) (mint_ticket (t 3) ticket
         \<lparr> tk_lease_id = ld_lease_id (vl_document v), tk_grant_id = ld_grant_id (vl_document v),
           tk_fleet_origin = ld_fleet_origin (vl_document v), tk_expires_unix_ms = expires \<rparr>)) fs)
       (\<lambda>fs _. (fs, Inr (ticket, expires)))))"

definition consume_ws_ticket ::
  "hosted_runtime \<Rightarrow> crypto \<Rightarrow> hosted_world \<Rightarrow> transient_world \<Rightarrow> readings \<Rightarrow> local_iam_state
     \<Rightarrow> string \<Rightarrow> string \<Rightarrow> string \<Rightarrow> lane_files \<Rightarrow> lane_files \<times> (string + verified_lease)" where
  "consume_ws_ticket rt cr w tw t view ticket origin transport fs =
     and_then (check_only (ensure_enabled rt) fs) (\<lambda>fs _.
     and_then (check_only (validate_fleet_origin (tw_parse_url tw) origin) fs) (\<lambda>fs fleet_origin.
     and_then (check_only (if valid_id_component ticket then Inr ()
                           else Inl ''hosted WebSocket ticket is invalid'') fs) (\<lambda>fs _.
     and_then (on_transient (mutate_shared_transient tw (t 0) (t 1) (take_ticket ticket)) fs) (\<lambda>fs r.
     and_then (check_only (if tk_expires_unix_ms r \<le> word_of_int (t 2)
                           then Inl ''hosted WebSocket ticket has expired''
                           else if tk_fleet_origin r \<noteq> fleet_origin
                           then Inl ''hosted WebSocket ticket origin does not match''
                           else Inr ()) fs) (\<lambda>fs _.
     and_then (check_only (load_verified_lease rt cr w view (tk_lease_id r) fleet_origin transport) fs)
       (\<lambda>fs verified.
     if ld_grant_id (vl_document verified) \<noteq> tk_grant_id r
     then (fs, Inl ''hosted WebSocket ticket grant changed'') else (fs, Inr verified)))))))"

end
