(* ===== verification/IamLaws.thy ===== *)
theory IamLaws
  imports IamGrants HostedTables
begin

text \<open>
  What the evaluator of \<open>iam.rs\<close> lets through: no identity a service vouches for, and of the
  rest exactly what a grant in force and its role say.
\<close>

section \<open>Provenance\<close>

text \<open>An identity some service vouches for: the account, the transport, or the origin of the key.\<close>

definition service_provenance :: "origin_world \<Rightarrow> local_iam_state \<Rightarrow> access_principal \<Rightarrow> bool" where
  "service_provenance ow st p = (ap_authn_kind p = Some ''connect_account'' \<or> ap_hosted_connect p
     \<or> ap_authn_kind p = Some ''client_key''
       \<and> client_key_origin_route_class ow (or_empty (ap_authn_origin p)) (is_hosted_origins st)
           (ow_fleet_zone ow) \<in> {OriginHosted, OriginFleet})"

lemma hosted_in_any_zone:
  "client_key_origin_route_class ow origin hosted_origins z = OriginHosted
   \<Longrightarrow> client_key_origin_route_class ow origin hosted_origins z' = OriginHosted"
  by (auto simp: client_key_origin_route_class_def origin_route_class_def Let_def split: if_splits)

lemma hosted_session_provenance:
  "is_hosted_session ow st p \<Longrightarrow> service_provenance ow st p"
  by (auto simp: is_hosted_session_def service_provenance_def split: if_splits
      dest: hosted_in_any_zone [where z' = "ow_fleet_zone ow"])

lemma service_provenance_hosted:
  "service_provenance ow st p \<Longrightarrow> ap_authn_kind p \<noteq> Some ''client_key'' \<Longrightarrow> is_hosted_session ow st p"
  by (auto simp: is_hosted_session_def service_provenance_def)

text \<open>The evaluator without its refusals.\<close>

lemma evaluate_cases:
  assumes "\<not> is_hosted_lease_principal p"
  shows "de_allowed (evaluate_principal_operation_with_state w ow st p op) \<longleftrightarrow>
    \<not> service_provenance ow st p
    \<and> (if trusted_kind (ap_kind p) then de_allowed (evaluate_principal_operation p op)
       else de_allowed (evaluate_granted (hw_now w) st p op))"
proof (cases "service_provenance ow st p")
  case True
  then show ?thesis using assms
    by (cases "ap_authn_kind p = Some ''client_key''")
      (auto simp: evaluate_principal_operation_with_state_def evaluate_with_fleet_zone_def Let_def
        service_provenance_def is_hosted_session_def)
next
  case False
  then have "\<not> is_hosted_session ow st p" using hosted_session_provenance by blast
  with False assms show ?thesis
    by (auto simp: evaluate_principal_operation_with_state_def evaluate_with_fleet_zone_def Let_def
        service_provenance_def)
qed

text \<open>
  C4: no account, hosted transport or service-controlled browser key ever exercises authority
  over the daemon: every operation is denied to it, whatever the stored grants and roles say,
  unless it is the principal of a hosted lease.
\<close>

theorem service_identities_are_powerless:
  assumes "\<not> is_hosted_lease_principal p"
    and "ap_authn_kind p = Some ''connect_account'' \<or> ap_hosted_connect p
      \<or> ap_authn_kind p = Some ''client_key''
        \<and> (or_empty (ap_authn_origin p) = ''connect-bootstrap''
           \<or> (\<exists>o' \<in> set (default_hosted_origin # is_hosted_origins st).
                trim (or_empty (ap_authn_origin p)) \<noteq> []
                \<and> network_origins_match ow o' (trim (or_empty (ap_authn_origin p))))
           \<or> client_key_origin_route_class ow (or_empty (ap_authn_origin p)) (is_hosted_origins st)
               (ow_fleet_zone ow) = OriginFleet)"
  shows "\<not> de_allowed (evaluate_principal_operation_with_state w ow st p op)"
proof -
  have "trim ''connect-bootstrap'' = ''connect-bootstrap''" by (rule trim_plain) code_simp
  then have "service_provenance ow st p"
    using assms(2) by (auto simp: service_provenance_def client_key_origin_route_class_def
        origin_route_class_def list_ex_iff Let_def)
  with assms(1) show ?thesis by (simp add: evaluate_cases)
qed

section \<open>Grants in force\<close>

lemma find_key: "distinct (map f xs) \<Longrightarrow> x \<in> set xs \<Longrightarrow> find (\<lambda>y. f y = f x) xs = Some x"
  by (induction xs) auto

lemma granted_iff:
  "de_allowed (evaluate_granted now st p op) \<longleftrightarrow> (\<exists>gid g r role.
     ap_grant_id p = Some gid \<and> find (\<lambda>x. ig_id x = gid) (is_grants st) = Some g
     \<and> ig_principal_id g = ap_id p \<and> is_active_at g now
     \<and> find (\<lambda>x. ip_id x = ap_id p) (is_principals st) = Some r \<and> is_enforced_status (ip_status r)
     \<and> find (\<lambda>x. ir_id x = or_default (ig_role_id g) ''role:scoped-human'') (is_roles st) = Some role
     \<and> permissions_allow (ir_permissions role) (operation_permission_id op))"
  (is "_ \<longleftrightarrow> ?R")
proof
  assume "de_allowed (evaluate_granted now st p op)"
  then show ?R
    by (auto simp: evaluate_granted_def Let_def split: option.splits if_splits dest: find_Some_in)
next
  assume ?R
  then obtain gid g r role where "ap_grant_id p = Some gid"
    "find (\<lambda>x. ig_id x = gid) (is_grants st) = Some g"
    "ig_principal_id g = ap_id p" "is_active_at g now"
    "find (\<lambda>x. ip_id x = ap_id p) (is_principals st) = Some r" "is_enforced_status (ip_status r)"
    "find (\<lambda>x. ir_id x = or_default (ig_role_id g) ''role:scoped-human'') (is_roles st) = Some role"
    "permissions_allow (ir_permissions role) (operation_permission_id op)"
    by blast
  then show "de_allowed (evaluate_granted now st p op)"
    by (simp add: evaluate_granted_def Let_def)
qed

definition unique_ids :: "local_iam_state \<Rightarrow> bool" where
  "unique_ids st = (distinct (map ig_id (is_grants st)) \<and> distinct (map ip_id (is_principals st)))"

lemma resolved_parts:
  assumes "principal_for_authn now st k key v transport = Some p"
  obtains pr g where "pr \<in> set (is_principals st)" "is_enforced_status (ip_status pr)"
    "g \<in> set (is_grants st)" "ig_principal_id g = ip_id pr" "is_active_at g now"
    "p = bound_access pr g k key (trim v) transport"
  using assms by (auto simp: principal_for_authn_def Let_def split: if_splits option.splits
      dest!: find_Some_in intro: that)

lemma bound_access_simps [simp]:
  "ap_id (bound_access pr g k key v t) = ip_id pr"
  "ap_grant_id (bound_access pr g k key v t) = Some (ig_id g)"
  "ap_role_id (bound_access pr g k key v t) = or_default (ig_role_id g) ''role:scoped-human''"
  "ap_authn_kind (bound_access pr g k key v t) = Some k"
  "ap_kind (bound_access pr g k key v t) = or_default (ip_kind pr) ''human_user''"
  "\<not> ap_hosted_connect (bound_access pr g k key v t)"
  by (simp_all add: bound_access_def local_user_client_def)

text \<open>
  C12: a credential that resolves to a principal of the local state may do exactly what the role
  of its grant permits, and nothing once a service vouches for it: no record, role or grant of
  anyone else enters the decision.
\<close>

theorem resolved_credential_authority:
  assumes "principal_for_authn (hw_now w) st k key v transport = Some p" and "unique_ids st"
    and "k \<noteq> hosted_authn_kind" and "\<not> trusted_kind (ap_kind p)"
  shows "de_allowed (evaluate_principal_operation_with_state w ow st p op) \<longleftrightarrow>
    \<not> service_provenance ow st p
    \<and> (\<exists>role. find (\<lambda>r. ir_id r = ap_role_id p) (is_roles st) = Some role
         \<and> permissions_allow (ir_permissions role) (operation_permission_id op))"
proof -
  obtain pr g where p: "pr \<in> set (is_principals st)" "is_enforced_status (ip_status pr)"
    "g \<in> set (is_grants st)" "ig_principal_id g = ip_id pr" "is_active_at g (hw_now w)"
    "p = bound_access pr g k key (trim v) transport"
    using assms(1) by (rule resolved_parts)
  have "find (\<lambda>x. ig_id x = ig_id g) (is_grants st) = Some g"
    "find (\<lambda>x. ip_id x = ip_id pr) (is_principals st) = Some pr"
    using assms(2) p by (auto simp: unique_ids_def intro: find_key)
  then have "de_allowed (evaluate_granted (hw_now w) st p op) \<longleftrightarrow>
      (\<exists>role. find (\<lambda>r. ir_id r = ap_role_id p) (is_roles st) = Some role
         \<and> permissions_allow (ir_permissions role) (operation_permission_id op))"
    using p by (simp add: granted_iff)
  moreover have "\<not> is_hosted_lease_principal p"
    using assms(3) p by (simp add: is_hosted_lease_principal_def)
  ultimately show ?thesis using assms(4) by (simp add: evaluate_cases)
qed

section \<open>The writers\<close>

text \<open>What an owner's surface can ask of the state: a grant, an update of one, a trust tier.\<close>

datatype iam_command = WriteGrant grant_request | WriteUpdate grant_update_request
  | WriteTier "string option"

fun iam_write ::
  "origin_world \<Rightarrow> u64 \<Rightarrow> access_principal \<Rightarrow> iam_command \<Rightarrow> local_iam_state
     \<Rightarrow> local_iam_state \<times> (access_error + unit)" where
  "iam_write ow now actor (WriteGrant r) st = (case upsert_user_client_grant ow now st r actor of
     (st', res) \<Rightarrow> (st', rbind res (\<lambda>_. Inr ())))"
| "iam_write ow now actor (WriteUpdate r) st = (case update_user_client_grant ow now st r actor of
     (st', res) \<Rightarrow> (st', rbind res (\<lambda>_. Inr ())))"
| "iam_write ow now actor (WriteTier t) st = (case set_daemon_tier now st t actor of
     (st', res) \<Rightarrow> (st', rbind res (\<lambda>_. Inr ())))"

lemma put_where_cases:
  "x \<in> set (put_where P f new xs) \<Longrightarrow> x \<in> set xs \<or> x = new \<or> (\<exists>y \<in> set xs. P y \<and> x = f y)"
  by (auto simp: put_where_def dest: set_on_first split: if_splits)

lemma find_put_where:
  assumes "\<And>x. P x \<Longrightarrow> k (f x) = k x" and "\<And>x. P x \<longleftrightarrow> k x = k new"
  shows "find (\<lambda>x. k x = v) (put_where P f new xs) =
    (if v = k new then Some (case find P xs of Some x \<Rightarrow> f x | None \<Rightarrow> new)
     else find (\<lambda>x. k x = v) xs)"
proof -
  have "P = (\<lambda>x. k x = k new)" using assms(2) by blast
  then have first: "find (\<lambda>x. k x = v) (on_first P f xs) =
      (if v = k new then map_option f (find P xs) else find (\<lambda>x. k x = v) xs)" for xs
    using assms(1) by (induction xs) auto
  have app: "find (\<lambda>x. k x = v) (xs @ [new]) =
      (if v = k new then Some new else find (\<lambda>x. k x = v) xs)" if "\<forall>x \<in> set xs. \<not> P x"
    using that by (induction xs) (auto simp: assms)
  show ?thesis
  proof (cases "\<exists>x \<in> set xs. P x")
    case True
    then obtain x where "find P xs = Some x" by (metis find_eq_None not_None_eq)
    with True show ?thesis by (simp add: put_where_def first)
  next
    case False
    then have "find P xs = None" by (simp add: find_eq_None)
    with False show ?thesis by (simp add: put_where_def app)
  qed
qed

lemma add_missing_roles_simps [simp]:
  "is_principals (add_missing_roles st) = is_principals st"
  "is_grants (add_missing_roles st) = is_grants st"
  "is_hosted_control (add_missing_roles st) = is_hosted_control st"
  "is_hosted_origins (add_missing_roles st) = is_hosted_origins st"
  "is_tier (add_missing_roles st) = is_tier st"
  by (simp_all add: add_missing_roles_def)

lemma local_audit_simps [simp]:
  "is_principals (local_audit n a c t s st) = is_principals st"
  "is_grants (local_audit n a c t s st) = is_grants st"
  "is_hosted_control (local_audit n a c t s st) = is_hosted_control st"
  "is_hosted_origins (local_audit n a c t s st) = is_hosted_origins st"
  "is_roles (local_audit n a c t s st) = is_roles st"
  "is_tier (local_audit n a c t s st) = is_tier st"
  by (simp_all add: local_audit_def)

lemma upsert_shape:
  assumes "upsert_user_client_grant ow now st r actor = (st', res)"
  shows "(\<exists>e. res = Inl e \<and> (st' = st \<or> st' = add_missing_roles st))
    \<or> (\<exists>kind status pl x. normalize_user_client_kind r = Inr kind
         \<and> normalize_user_client_status (gr_status r) = Inr status
         \<and> plan_grant now (add_missing_roles st) kind r = Inr pl \<and> res = Inr x
         \<and> apply_grant now status actor pl (add_missing_roles st) = (st', x))"
  using assms by (auto simp: upsert_user_client_grant_def Let_def split: sum.splits prod.splits)

lemma binding_kind:
  "build_user_client_binding kind r = Inr b
   \<Longrightarrow> cb_principal_kind b \<in> {''browser_certificate'', ''connect_account'', ''client_key'',
     ''human_user'', ''agent_session'', ''local_process''}"
  by (auto simp: build_user_client_binding_def bind_browser_certificate_def bind_connect_account_def
      bind_client_key_def build_human_user_binding_def bind_agent_session_def
      bind_local_process_def Let_def split: if_splits option.splits)

lemma plan_grant_binding:
  "plan_grant now st kind r = Inr pl \<Longrightarrow> build_user_client_binding kind r = Inr (pl_binding pl)"
  by (auto simp: plan_grant_def Let_def split: if_splits option.splits)

lemma plan_grant_role:
  "plan_grant now st kind r = Inr pl \<Longrightarrow> validate_user_client_role st (pl_role_id pl) = Inr ()"
  by (auto simp: plan_grant_def Let_def split: if_splits option.splits)

lemma update_shape:
  assumes "update_user_client_grant ow now st r actor = (st', res)"
  shows "(\<exists>e. res = Inl e \<and> (st' = st \<or> st' = add_missing_roles st))
    \<or> (\<exists>g p role_id status reason active. update_target st (trim (gu_grant_id r)) = Inr (g, p)
         \<and> (\<forall>rid. role_id = Some rid \<longrightarrow> validate_user_client_role (add_missing_roles st) rid = Inr ())
         \<and> is_grants st' = on_first (\<lambda>x. ig_id x = ig_id g)
             (\<lambda>_. update_grant now role_id status reason g) (is_grants st)
         \<and> is_principals st' = on_first (\<lambda>x. ip_id x = ip_id p)
             (\<lambda>_. update_principal active status reason p) (is_principals st)
         \<and> is_hosted_control st' = is_hosted_control st \<and> is_hosted_origins st' = is_hosted_origins st
         \<and> is_tier st' = is_tier st)"
proof (cases "\<exists>e. res = Inl e")
  case True
  then show ?thesis using assms
    by (auto simp: update_user_client_grant_def Let_def split: sum.splits prod.splits)
next
  case False
  then obtain y where "res = Inr y" by (cases res) auto
  with assms show ?thesis
    apply (simp add: update_user_client_grant_def Let_def split: sum.splits prod.splits)
    apply clarify
    apply (rule exI [of _ "given (gu_role_id r)"])
    apply (intro conjI)
     apply (force split: option.splits)
    apply (fastforce split: option.splits)
    done
qed

section \<open>Hosted authority\<close>

lemma hosted_preset_iff:
  "hosted_preset_for_principal w st p = Inr preset \<longleftrightarrow>
    is_hosted_lease_principal p \<and> \<not> guard_suspended w st \<and> (\<exists>gid g r l.
      ap_grant_id p = Some gid \<and> find (\<lambda>x. ig_id x = gid) (is_grants st) = Some g
      \<and> ig_source g = hosted_source \<and> ig_principal_id g = ap_id p
      \<and> preset_from_role_id (ig_role_id g) = Some preset \<and> ap_role_id p = ig_role_id g
      \<and> preset \<le> hp_ceiling (hc_policy (is_hosted_control st)) \<and> is_active_at g (hw_now w)
      \<and> find (\<lambda>x. ip_id x = ap_id p) (is_principals st) = Some r \<and> hosted_record_ok r
      \<and> hosted_binding_matches r p
      \<and> find (\<lambda>x. ld_grant_id (lr_document x) = ig_id g \<and> ld_principal_id (lr_document x) = ap_id p)
          (hc_leases (is_hosted_control st)) = Some l
      \<and> lease_matches_grant l g p preset)"
  (is "?L \<longleftrightarrow> ?R")
proof
  assume ?L
  then show ?R
    unfolding hosted_preset_for_principal_def
    by (auto split: if_splits option.splits)
next
  assume ?R
  then show ?L
    by (elim conjE exE) (simp add: hosted_preset_for_principal_def)
qed

lemma hosted_preset_transfer:
  assumes "hosted_preset_for_principal w st' p = Inr preset"
    and "\<And>gid g. find (\<lambda>x. ig_id x = gid) (is_grants st') = Some g \<Longrightarrow> ig_source g = hosted_source
           \<Longrightarrow> find (\<lambda>x. ig_id x = gid) (is_grants st) = Some g"
    and "\<And>i r. find (\<lambda>x. ip_id x = i) (is_principals st') = Some r \<Longrightarrow> ip_kind r = hosted_principal_kind
           \<Longrightarrow> find (\<lambda>x. ip_id x = i) (is_principals st) = Some r"
    and "is_hosted_control st' = is_hosted_control st"
  shows "hosted_preset_for_principal w st p = Inr preset"
proof -
  have "guard_suspended w st' = guard_suspended w st"
    using assms(4) by (simp add: guard_suspended_def compute_lane_guard_def)
  moreover obtain gid g r l where "ap_grant_id p = Some gid"
      "find (\<lambda>x. ig_id x = gid) (is_grants st') = Some g" "ig_source g = hosted_source"
      "ig_principal_id g = ap_id p" "preset_from_role_id (ig_role_id g) = Some preset"
      "ap_role_id p = ig_role_id g" "preset \<le> hp_ceiling (hc_policy (is_hosted_control st'))"
      "is_active_at g (hw_now w)" "find (\<lambda>x. ip_id x = ap_id p) (is_principals st') = Some r"
      "hosted_record_ok r" "hosted_binding_matches r p"
      "find (\<lambda>x. ld_grant_id (lr_document x) = ig_id g \<and> ld_principal_id (lr_document x) = ap_id p)
          (hc_leases (is_hosted_control st')) = Some l" "lease_matches_grant l g p preset"
      "is_hosted_lease_principal p" "\<not> guard_suspended w st'"
    using assms(1) unfolding hosted_preset_iff by blast
  moreover from this have "find (\<lambda>x. ig_id x = gid) (is_grants st) = Some g"
    "find (\<lambda>x. ip_id x = ap_id p) (is_principals st) = Some r"
    using assms(2,3) by (simp_all add: hosted_record_ok_def)
  ultimately show ?thesis using assms(4) by (simp add: hosted_preset_iff)
qed

lemma find_changed:
  assumes "distinct (map k xs)" and "x \<in> set ys" and "k x = v"
    and "\<And>x. x \<in> set ys \<Longrightarrow> Q x \<Longrightarrow> x \<in> set xs" and "Q x"
  shows "find (\<lambda>x. k x = v) xs = Some x"
  using assms find_key by metis

lemma written_grant_simps [simp]:
  "ig_source (new_grant now status pl) = ''local_iam_state''"
  "ig_source (reassign_grant now status pl g) = ''local_iam_state''"
  "ip_id (new_principal now status pl) = cb_principal_id (pl_binding pl)"
  "ip_id (rebind_principal now status pl p) = ip_id p"
  "ip_kind (new_principal now status pl) = cb_principal_kind (pl_binding pl)"
  "ip_kind (rebind_principal now status pl p) = cb_principal_kind (pl_binding pl)"
  by (simp_all add: new_grant_def reassign_grant_def new_principal_def rebind_principal_def Let_def)

lemma updated_simps [simp]:
  "ig_source (update_grant now role_id status reason g) = ig_source g"
  "ig_id (update_grant now role_id status reason g) = ig_id g"
  "ip_id (update_principal active status reason p) = ip_id p"
  "ip_kind (update_principal active status reason p) = ip_kind p"
  "ip_authn (update_principal active status reason p) = ip_authn p"
  by (simp_all add: update_grant_def update_principal_def Let_def split: option.splits)

lemma apply_grant_simps [simp]:
  "is_hosted_control (fst (apply_grant now status actor pl st)) = is_hosted_control st"
  "is_hosted_origins (fst (apply_grant now status actor pl st)) = is_hosted_origins st"
  "is_principals (fst (apply_grant now status actor pl st)) = put_where
     (\<lambda>p. ip_id p = cb_principal_id (pl_binding pl)) (rebind_principal now status pl)
     (new_principal now status pl) (is_principals st)"
  "is_grants (fst (apply_grant now status actor pl st)) = put_where (same_grant pl)
     (reassign_grant now status pl) (new_grant now status pl) (is_grants st)"
  by (simp_all add: apply_grant_def Let_def)

lemma apply_grant_no_lease:
  assumes "unique_ids st" and "cb_principal_kind (pl_binding pl) \<noteq> hosted_principal_kind"
    and "hosted_preset_for_principal w (fst (apply_grant now status actor pl st)) p = Inr preset"
  shows "hosted_preset_for_principal w st p = Inr preset"
proof (rule hosted_preset_transfer [OF assms(3)])
  fix gid g
  assume "find (\<lambda>x. ig_id x = gid) (is_grants (fst (apply_grant now status actor pl st))) = Some g"
    and src: "ig_source g = hosted_source"
  then have "g \<in> set (put_where (same_grant pl) (reassign_grant now status pl)
      (new_grant now status pl) (is_grants st))" "ig_id g = gid"
    by (auto dest: find_Some_in)
  with src have "g \<in> set (is_grants st)"
    by (auto simp: hosted_source_def dest!: put_where_cases)
  with \<open>ig_id g = gid\<close> assms(1) show "find (\<lambda>x. ig_id x = gid) (is_grants st) = Some g"
    by (auto simp: unique_ids_def dest: find_key)
next
  fix i r
  assume "find (\<lambda>x. ip_id x = i) (is_principals (fst (apply_grant now status actor pl st))) = Some r"
    and "ip_kind r = hosted_principal_kind"
  then show "find (\<lambda>x. ip_id x = i) (is_principals st) = Some r"
    using assms(2) by (auto simp: find_put_where split: if_splits option.splits)
qed simp

lemma find_on_first_const:
  "k new = a \<Longrightarrow> find (\<lambda>x. k x = v) (on_first (\<lambda>x. k x = a) (\<lambda>_. new) xs)
     = (if v = a \<and> (\<exists>x \<in> set xs. k x = a) then Some new else find (\<lambda>x. k x = v) xs)"
  by (induction xs) auto

lemma update_target_Inr:
  "update_target st gid = Inr (g, p) \<Longrightarrow> find (\<lambda>x. ig_id x = gid) (is_grants st) = Some g
     \<and> ig_source g = ''local_iam_state'' \<and> find (\<lambda>x. ip_id x = ig_principal_id g) (is_principals st) = Some p
     \<and> ip_kind p \<in> set updatable_kinds"
  by (auto simp: update_target_def split: if_splits option.splits)

lemma updatable_not_hosted: "k \<in> set updatable_kinds \<Longrightarrow> k \<noteq> hosted_principal_kind \<and> \<not> trusted_kind k"
  by (auto simp: updatable_kinds_def hosted_principal_kind_def trusted_kind_def machine_kind_def)

lemma binding_not_hosted:
  "plan_grant now st kind r = Inr pl \<Longrightarrow> cb_principal_kind (pl_binding pl) \<noteq> hosted_principal_kind
     \<and> \<not> trusted_kind (cb_principal_kind (pl_binding pl))"
  by (auto simp: hosted_principal_kind_def trusted_kind_def machine_kind_def
      dest!: plan_grant_binding binding_kind)

text \<open>
  C21: no grant, update or tier an owner's surface writes through the generic access API gives
  a hosted lease anything: a principal the lane accepts afterwards was accepted with the same
  preset before.
\<close>

theorem writers_mint_no_lease:
  assumes "unique_ids st"
    and "hosted_preset_for_principal w (fst (iam_write ow now actor c st)) p = Inr preset"
  shows "hosted_preset_for_principal w st p = Inr preset"
proof (cases c)
  case (WriteGrant r)
  obtain st' res where u: "upsert_user_client_grant ow now st r actor = (st', res)" by fastforce
  then have w: "hosted_preset_for_principal w st' p = Inr preset"
    using assms(2) WriteGrant by simp
  from upsert_shape [OF u] show ?thesis
  proof (elim disjE exE conjE)
    fix kind status pl x
    assume pl: "plan_grant now (add_missing_roles st) kind r = Inr pl"
      and a: "apply_grant now status actor pl (add_missing_roles st) = (st', x)"
    have "unique_ids (add_missing_roles st)" using assms(1) by (simp add: unique_ids_def)
    then have "hosted_preset_for_principal w (add_missing_roles st) p = Inr preset"
      using w a binding_not_hosted [OF pl]
        apply_grant_no_lease [where now = now and status = status and actor = actor and pl = pl]
      by simp
    then show ?thesis by (rule hosted_preset_transfer) simp_all
  qed (use w in \<open>auto intro: hosted_preset_transfer\<close>)
next
  case (WriteUpdate r)
  obtain st' res where u: "update_user_client_grant ow now st r actor = (st', res)" by fastforce
  then have w: "hosted_preset_for_principal w st' p = Inr preset"
    using assms(2) WriteUpdate by simp
  from update_shape [OF u] show ?thesis
  proof (elim disjE exE conjE)
    fix g q role_id status reason active
    assume t: "update_target st (trim (gu_grant_id r)) = Inr (g, q)"
      and "is_grants st' = on_first (\<lambda>x. ig_id x = ig_id g)
             (\<lambda>_. update_grant now role_id status reason g) (is_grants st)"
      and "is_principals st' = on_first (\<lambda>x. ip_id x = ip_id q)
             (\<lambda>_. update_principal active status reason q) (is_principals st)"
      and "is_hosted_control st' = is_hosted_control st"
    with w show ?thesis
      using update_target_Inr [OF t] updatable_not_hosted [of "ip_kind q"]
      by (auto intro!: hosted_preset_transfer [OF w]
          simp: find_on_first_const hosted_source_def split: if_splits)
  qed (use w in \<open>auto intro: hosted_preset_transfer\<close>)
next
  case (WriteTier t)
  have "is_principals (fst (set_daemon_tier now st t actor)) = is_principals st"
    "is_grants (fst (set_daemon_tier now st t actor)) = is_grants st"
    "is_hosted_control (fst (set_daemon_tier now st t actor)) = is_hosted_control st"
    by (auto simp: set_daemon_tier_def Let_def split: option.splits)
  then show ?thesis using assms(2) WriteTier
    by (auto intro: hosted_preset_transfer split: prod.splits)
qed

section \<open>A phone at work\<close>

definition demo_origins :: origin_world where
  "demo_origins = \<lparr> ow_parse_url = (\<lambda>_. None), ow_fleet_zone = None, ow_fleet_names = [],
     ow_provenance_incomplete = False \<rparr>"

definition demo_principal :: iam_principal where
  "demo_principal = \<lparr> ip_id = ''principal:client-key:k1'', ip_kind = ''client_key'',
     ip_label = ''Phone'', ip_status = ''active'', ip_source = ''local_iam_state'',
     ip_account = None, ip_organization = None,
     ip_authn = [client_key_authn_entry ''k1'' None (Some ''https://phone.example'')],
     ip_notes = None, ip_created_at_unix_ms = Some 1000 \<rparr>"

definition demo_grant :: iam_grant where
  "demo_grant = \<lparr> ig_id = ''grant:phone'', ig_principal_id = ''principal:client-key:k1'',
     ig_target_id = ''local'', ig_role_id = ''role:observer'', ig_policy_id = ''policy:observer'',
     ig_status = ''active'', ig_source = ''local_iam_state'', ig_reason = [],
     ig_created_at_unix_ms = Some 1000, ig_revoked_at_unix_ms = None,
     ig_expires_at_unix_ms = None, ig_issued_via = None, ig_fs_scope = None \<rparr>"

definition demo_iam :: local_iam_state where
  "demo_iam = default_iam_state\<lparr> is_principals := [demo_principal], is_grants := [demo_grant] \<rparr>"

definition demo_world :: hosted_world where
  "demo_world = \<lparr> hw_sha = (\<lambda>s. s), hw_ct = \<lparr> ce_foreign_serials = [], ce_state_unavailable = False \<rparr>,
     hw_now = 2000, hw_stamp = (\<lambda>n. ([], 0)) \<rparr>"

definition demo_phone :: access_principal where
  "demo_phone = bound_access demo_principal demo_grant ''client_key'' ''fingerprint'' ''k1'' ''https''"

lemma demo_iam_facts:
  "unique_ids demo_iam" "\<not> trusted_kind (ap_kind demo_phone)"
  "\<not> service_provenance demo_origins demo_iam demo_phone"
  by code_simp+

lemma demo_phone_role:
  "(case find (\<lambda>r. ir_id r = ap_role_id demo_phone) (is_roles demo_iam) of None \<Rightarrow> False
    | Some role \<Rightarrow> permissions_allow (ir_permissions role) (operation_permission_id OpPresenceRead)
        \<and> \<not> permissions_allow (ir_permissions role) (operation_permission_id OpShellSpawn))"
  by code_simp

lemma demo_phone_resolves:
  "principal_for_authn (hw_now demo_world) demo_iam ''client_key'' ''fingerprint'' ''k1'' ''https''
     = Some demo_phone"
proof -
  have "trim ''k1'' = ''k1''" by code_simp
  moreover have "is_enforced_status (ip_status demo_principal)" "is_active_at demo_grant 2000"
    "\<exists>a \<in> set (ip_authn demo_principal). authn_matches ''client_key'' ''fingerprint'' ''k1'' a"
    "ig_principal_id demo_grant = ip_id demo_principal"
    by code_simp+
  ultimately show ?thesis
    by (simp add: principal_for_authn_def demo_iam_def demo_phone_def demo_world_def Let_def)
qed

theorem resolved_credential_authority_witness:
  "de_allowed (evaluate_principal_operation_with_state demo_world demo_origins demo_iam demo_phone
     OpPresenceRead)
   \<and> \<not> de_allowed (evaluate_principal_operation_with_state demo_world demo_origins demo_iam demo_phone
     OpShellSpawn)"
proof -
  have "''client_key'' \<noteq> hosted_authn_kind" by code_simp
  then show ?thesis
    using resolved_credential_authority [OF demo_phone_resolves] demo_iam_facts demo_phone_role
    by (auto split: option.splits)
qed

text \<open>A key enrolled through the retired first-claim flow.\<close>

theorem service_identities_are_powerless_witness:
  "\<not> de_allowed (evaluate_principal_operation_with_state demo_world demo_origins demo_iam
     (demo_phone\<lparr> ap_authn_origin := Some ''connect-bootstrap'' \<rparr>) OpPresenceRead)"
proof (rule service_identities_are_powerless)
  show "\<not> is_hosted_lease_principal (demo_phone\<lparr> ap_authn_origin := Some ''connect-bootstrap'' \<rparr>)"
    by code_simp
  have "ap_authn_kind demo_phone = Some ''client_key''" by code_simp
  then show "ap_authn_kind (demo_phone\<lparr> ap_authn_origin := Some ''connect-bootstrap'' \<rparr>)
        = Some ''connect_account'' \<or> ap_hosted_connect (demo_phone\<lparr> ap_authn_origin := Some ''connect-bootstrap'' \<rparr>)
      \<or> ap_authn_kind (demo_phone\<lparr> ap_authn_origin := Some ''connect-bootstrap'' \<rparr>) = Some ''client_key''
        \<and> (or_empty (ap_authn_origin (demo_phone\<lparr> ap_authn_origin := Some ''connect-bootstrap'' \<rparr>))
             = ''connect-bootstrap''
           \<or> (\<exists>o' \<in> set (default_hosted_origin # is_hosted_origins demo_iam).
                trim (or_empty (ap_authn_origin (demo_phone\<lparr> ap_authn_origin := Some ''connect-bootstrap'' \<rparr>))) \<noteq> []
                \<and> network_origins_match demo_origins o'
                    (trim (or_empty (ap_authn_origin (demo_phone\<lparr> ap_authn_origin := Some ''connect-bootstrap'' \<rparr>)))))
           \<or> client_key_origin_route_class demo_origins
               (or_empty (ap_authn_origin (demo_phone\<lparr> ap_authn_origin := Some ''connect-bootstrap'' \<rparr>)))
               (is_hosted_origins demo_iam) (ow_fleet_zone demo_origins) = OriginFleet)"
    by simp
qed

end
