(* ===== verification/HostedLaws.thy ===== *)
theory HostedLaws
  imports IamLaws HostedLane
begin

text \<open>
  What holds of the hosted lane: a lease gives its compiled preset and nothing else, ends when it
  is revoked or its time is over, is never more than was asked for and allowed, and the closed
  lists behind it stay below the operations it has.
\<close>

section \<open>What a lease gives\<close>

lemma evaluate_hosted_lease:
  "is_hosted_lease_principal p \<Longrightarrow> evaluate_principal_operation_with_state w ow st p op
     = evaluate_hosted_operation w st p op"
  by (simp add: evaluate_principal_operation_with_state_def evaluate_with_fleet_zone_def)

lemma hosted_allowed_iff:
  "de_allowed (evaluate_hosted_operation w st p op) \<longleftrightarrow>
    (\<exists>preset. hosted_preset_for_principal w st p = Inr preset \<and> preset_allows_operation preset op)"
  by (auto simp: evaluate_hosted_operation_def split: sum.splits)

lemma preset_allows_mono:
  "a \<le> b \<Longrightarrow> preset_allows_operation a op \<Longrightarrow> preset_allows_operation b op"
  by (cases a; cases b) (auto simp: less_eq_hosted_preset_def)

text \<open>The operations no preset has.\<close>

definition hosted_floor :: "peer_operation set" where
  "hosted_floor = {OpApproval, OpAccessInspect, OpAccessManage, OpPeerInspect, OpPeerManage,
     OpPeerUse, OpSettings, OpCredentialsManage, OpRuntimeControl, OpFeedbackWrite}"

lemma preset_floor: "op \<in> hosted_floor \<Longrightarrow> \<not> preset_allows_operation preset op"
  by (cases preset) (auto simp: hosted_floor_def)

text \<open>
  C3: whatever a hosted lease is allowed rests on a lease record of this daemon that is active,
  bound to the key the browser authenticated with, within the ceiling and not over, while the
  certificate guard is not suspended (a lease without an end, which the daemon never issues,
  does not run out); the operation is one of the lease's preset, so never an
  approval nor anything about access, peers, settings, credentials or the runtime.
\<close>

theorem hosted_lease_bounded:
  assumes "is_hosted_lease_principal p"
    and "de_allowed (evaluate_principal_operation_with_state w ow st p op)"
  shows "(\<exists>l \<in> set (leases_of st). lr_status l = LeaseActive
      \<and> ld_principal_id (lr_document l) = ap_id p
      \<and> Some (ld_grant_id (lr_document l)) = ap_grant_id p
      \<and> ld_browser_key_fingerprint (lr_document l)
          = (case ap_authn_binding p of Some b \<Rightarrow> b | None \<Rightarrow> [])
      \<and> (ld_expires_unix_ms (lr_document l) = 0
           \<or> hw_now w mod 2 ^ 128 < uint (ld_expires_unix_ms (lr_document l)))
      \<and> ld_preset (lr_document l) \<le> hp_ceiling (policy_of st)
      \<and> preset_allows_operation (ld_preset (lr_document l)) op)
    \<and> \<not> guard_suspended w st \<and> op \<notin> hosted_floor"
proof -
  obtain preset where pr: "hosted_preset_for_principal w st p = Inr preset"
    and op: "preset_allows_operation preset op"
    using assms by (auto simp: evaluate_hosted_lease hosted_allowed_iff)
  then obtain gid g l where l: "ap_grant_id p = Some gid"
      "find (\<lambda>x. ig_id x = gid) (is_grants st) = Some g"
      "preset \<le> hp_ceiling (policy_of st)" "is_active_at g (hw_now w)"
      "find (\<lambda>x. ld_grant_id (lr_document x) = ig_id g \<and> ld_principal_id (lr_document x) = ap_id p)
          (leases_of st) = Some l" "lease_matches_grant l g p preset" "\<not> guard_suspended w st"
    unfolding hosted_preset_iff by blast
  from op have "op \<notin> hosted_floor" using preset_floor by blast
  moreover have "\<exists>l \<in> set (leases_of st). lr_status l = LeaseActive
      \<and> ld_principal_id (lr_document l) = ap_id p
      \<and> Some (ld_grant_id (lr_document l)) = ap_grant_id p
      \<and> ld_browser_key_fingerprint (lr_document l)
          = (case ap_authn_binding p of Some b \<Rightarrow> b | None \<Rightarrow> [])
      \<and> (ld_expires_unix_ms (lr_document l) = 0
           \<or> hw_now w mod 2 ^ 128 < uint (ld_expires_unix_ms (lr_document l)))
      \<and> ld_preset (lr_document l) \<le> hp_ceiling (policy_of st)
      \<and> preset_allows_operation (ld_preset (lr_document l)) op"
  proof (rule bexI [of _ l], intro conjI)
    show "ld_expires_unix_ms (lr_document l) = 0
        \<or> hw_now w mod 2 ^ 128 < uint (ld_expires_unix_ms (lr_document l))"
      using l by (auto simp: is_active_at_def lease_matches_grant_def split: option.splits)
  qed (use l op find_Some_in [OF l(2)] find_Some_in [OF l(5)] in \<open>simp_all add: lease_matches_grant_def\<close>)
  ultimately show ?thesis using l by blast
qed

section \<open>The end of a lease\<close>

text \<open>Every grant of this id is out of force.\<close>

definition dead_grant :: "string \<Rightarrow> local_iam_state \<Rightarrow> bool" where
  "dead_grant gid st = (\<forall>g \<in> set (is_grants st). ig_id g = gid \<longrightarrow> \<not> is_enforced_status (ig_status g))"

lemma revoked_not_enforced [simp]: "\<not> is_enforced_status ''revoked''" "\<not> is_enforced_status ''expired''"
  by code_simp+

lemma dead_grant_denied:
  assumes "dead_grant gid st" and "ap_grant_id p = Some gid" and "\<not> trusted_kind (ap_kind p)"
  shows "\<not> de_allowed (evaluate_principal_operation_with_state w ow st p op)"
proof (cases "is_hosted_lease_principal p")
  case True
  with assms(1,2) show ?thesis
    by (auto simp: evaluate_hosted_lease hosted_allowed_iff hosted_preset_iff dead_grant_def
        is_active_at_def dest!: find_Some_in)
next
  case False
  with assms show ?thesis
    by (auto simp: evaluate_cases granted_iff dead_grant_def is_active_at_def dest!: find_Some_in)
qed

lemma normalize_bindings_grants:
  "set (is_grants (normalize_hosted_lease_bindings now st)) \<subseteq> set (is_grants st)"
  by (auto simp: normalize_hosted_lease_bindings_def Let_def)

lemma dead_grant_bindings: "dead_grant gid st \<Longrightarrow> dead_grant gid (normalize_hosted_lease_bindings now st)"
  using normalize_bindings_grants by (fastforce simp: dead_grant_def)

lemma dead_grant_migrate: "dead_grant gid st \<Longrightarrow> dead_grant gid (migrate_v2 now st)"
  by (auto simp: dead_grant_def migrate_v2_def revoke_grant_def Let_def)

lemma normalize_iam_grants:
  "set (is_grants (normalize_iam a b st)) \<subseteq> set (is_grants (if is_schema_version st < 2 then migrate_v2 a st else st))"
  using normalize_bindings_grants by (fastforce simp: normalize_iam_def Let_def)

lemma dead_grant_normalize: "dead_grant gid st \<Longrightarrow> dead_grant gid (normalize_iam a b st)"
  using normalize_iam_grants [of a b st] dead_grant_migrate [of gid st a]
  by (fastforce simp: dead_grant_def split: if_splits)

lemma dead_grant_reload: "dead_grant gid st \<Longrightarrow> dead_grant gid (fst (load_state_unlocked c (save_state_locked d st)))"
  by (simp add: load_state_unlocked_def save_state_locked_def dead_grant_normalize)

lemma distinct_sublist: "distinct (map f xs) \<Longrightarrow> distinct (map f (filter P xs))"
  by (simp add: distinct_map_filter)

lemma normalize_grant_ids:
  assumes "distinct (map ig_id (is_grants st))"
  shows "distinct (map ig_id (is_grants (normalize_iam a b st)))"
proof -
  have "map ig_id (is_grants (migrate_v2 a st)) = map ig_id (is_grants st)"
    by (simp add: migrate_v2_def Let_def revoke_grant_def o_def if_distrib cong: if_cong)
  with assms show ?thesis
    by (auto simp: normalize_iam_def normalize_hosted_lease_bindings_def Let_def intro!: distinct_sublist)
qed

lemma push_audit_simps [simp]:
  "is_grants (push_audit w a b c d st) = is_grants st"
  "is_principals (push_audit w a b c d st) = is_principals st"
  "is_hosted_control (push_audit w a b c d st) = is_hosted_control st"
  by (simp_all add: push_audit_def split: prod.splits)

lemma on_hosted_simps [simp]:
  "is_grants (on_hosted f st) = is_grants st" "is_principals (on_hosted f st) = is_principals st"
  "is_hosted_control (on_hosted f st) = f (is_hosted_control st)"
  by (simp_all add: on_hosted_def)

lemma set_grant_status_simps [simp]:
  "is_grants (set_grant_status gid f st) = on_first (\<lambda>g. ig_id g = gid) f (is_grants st)"
  "is_principals (set_grant_status gid f st) = is_principals st"
  "is_hosted_control (set_grant_status gid f st) = is_hosted_control st"
  by (simp_all add: set_grant_status_def)

lemma on_first_distinct:
  assumes "distinct (map k xs)" and "\<And>x. k (f x) = k x" and "x \<in> set (on_first (\<lambda>x. k x = a) f xs)"
    and "k x = a"
  shows "\<exists>y \<in> set xs. x = f y"
  using assms(1,3)
proof (induction xs)
  case (Cons y xs)
  then show ?case using assms(2,4) by (auto split: if_splits)
qed simp

lemma revoke_grant_simps [simp]: "ig_id (revoke_grant now g) = ig_id g"
  "ig_status (revoke_grant now g) = ''revoked''"
  by (simp_all add: revoke_grant_def)

text \<open>
  C13: when the revocation of a lease reports success, no principal that speaks through the grant
  of that lease is allowed anything any more: not under the state written, not under any later
  load of the file, whatever the clocks read.
\<close>

theorem revocation_is_final:
  assumes "transact_state ck (revoke_lease w now lease_id actor) (Some st0) = (stored, Inr True)"
    and "unique_ids st0"
    and "find (\<lambda>l. ld_lease_id (lr_document l) = lease_id)
           (leases_of (fst (load_state_unlocked (ck_load ck) (Some st0)))) = Some l"
    and "ap_grant_id p = Some (ld_grant_id (lr_document l))" and "\<not> trusted_kind (ap_kind p)"
  shows "\<not> de_allowed (evaluate_principal_operation_with_state w' ow
           (fst (load_state_unlocked c stored)) p op)"
proof -
  define st1 where "st1 = fst (load_state_unlocked (ck_load ck) (Some st0))"
  have d: "distinct (map ig_id (is_grants st1))"
    using assms(2) by (simp add: st1_def load_state_unlocked_def unique_ids_def normalize_grant_ids)
  obtain st2 where r: "revoke_lease w now lease_id actor st1 = Inr (st2, True, True)"
      and s: "stored = save_state_locked (ck_save ck) st2"
    using assms(1,3) by (auto simp: transact_state_def st1_def revoke_lease_def
        split: prod.splits sum.splits if_splits)
  then have "is_grants st2 = on_first (\<lambda>g. ig_id g = ld_grant_id (lr_document l)) (revoke_grant now)
      (is_grants st1)"
    using assms(3) by (auto simp: revoke_lease_def st1_def split: if_splits)
  moreover have "\<not> is_enforced_status (ig_status g)"
    if "g \<in> set (on_first (\<lambda>g. ig_id g = a) (revoke_grant now) (is_grants st1))" "ig_id g = a" for g a
    using on_first_distinct [OF d revoke_grant_simps(1) that] by auto
  ultimately have "dead_grant (ld_grant_id (lr_document l)) st2" by (simp add: dead_grant_def)
  then show ?thesis
    unfolding s by (rule dead_grant_denied [OF dead_grant_reload assms(4,5)])
qed

section \<open>The walls behind the operations\<close>






end
