(* ===== verification/HostedBounds.thy ===== *)
theory HostedBounds
  imports HostedLaws
begin

text \<open>
  The bounds of the hosted lane: what normalization may drop from a stored state and what it
  keeps, that a decision stays within what was asked for and allowed, and that the lease it
  issues then works for the browser that asked.
\<close>

section \<open>Dropping a countdown\<close>

lemma drop_matching_filter:
  "filter (\<lambda>x. \<not> P x) (fst (drop_matching P n xs)) = filter (\<lambda>x. \<not> P x) xs"
  by (induction P n xs rule: drop_matching.induct) (auto split: prod.splits)

lemma drop_matching_rest: "snd (drop_matching P n xs) = n - length (filter P xs)"
  by (induction P n xs rule: drop_matching.induct) (auto split: prod.splits)

lemma drop_matching_length:
  "length (fst (drop_matching P n xs)) + n = length xs + snd (drop_matching P n xs)"
  by (induction P n xs rule: drop_matching.induct) (auto split: prod.splits)

lemma drop_matching_subset: "set (fst (drop_matching P n xs)) \<subseteq> set xs"
  by (induction P n xs rule: drop_matching.induct) (auto split: prod.splits)

lemma retain_tail_length: "length (retain_tail xs cap) \<le> cap"
  by (simp add: retain_tail_def)

lemma retain_tail_subset: "set (retain_tail xs cap) \<subseteq> set xs"
  by (auto simp: retain_tail_def dest: in_set_dropD)

lemma retain_tail_short [simp]: "length xs \<le> cap \<Longrightarrow> retain_tail xs cap = xs"
  by (simp add: retain_tail_def)

text \<open>No active lease is ever dropped, and inactive ones only down to the cap.\<close>

abbreviation active_lease :: "hosted_lease_record \<Rightarrow> bool" where
  "active_lease l \<equiv> lr_status l = LeaseActive"

abbreviation pending_request :: "hosted_lease_request \<Rightarrow> bool" where
  "pending_request r \<equiv> rq_status r = RequestPending"

lemma retain_lease_active: "filter active_lease (retain_lease_tail ls cap) = filter active_lease ls"
  using drop_matching_filter [of "\<lambda>l. \<not> active_lease l"] by (simp add: retain_lease_tail_def Let_def)

lemma length_filter_split: "length xs = length (filter P xs) + length (filter (\<lambda>x. \<not> P x) xs)"
  by (simp add: sum_length_filter_compl)

lemma length_filter_conj: "length (filter (\<lambda>x. Q x \<and> P x) xs) \<le> length (filter P xs)"
  by (induction xs) auto

lemma retain_lease_length: "length (retain_lease_tail ls cap) \<le> max cap (length (filter active_lease ls))"
  using drop_matching_length [of "\<lambda>l. \<not> active_lease l"
      "length ls - length (filter active_lease ls) - (cap - length (filter active_lease ls))" ls]
    length_filter_split [of ls active_lease]
  by (auto simp: retain_lease_tail_def Let_def drop_matching_rest)

lemma retain_lease_subset: "set (retain_lease_tail ls cap) \<subseteq> set ls"
  using drop_matching_subset [of "\<lambda>l. \<not> active_lease l"] by (auto simp: retain_lease_tail_def Let_def)

lemma retain_request_length: "length (retain_request_tail rs cap) \<le> cap"
  using drop_matching_length [of "\<lambda>r. \<not> pending_request r" "length rs - cap" rs]
  by (cases "drop_matching (\<lambda>r. \<not> pending_request r) (length rs - cap) rs")
    (auto simp: retain_request_tail_def)

lemma retain_request_pending:
  assumes "length (filter pending_request rs) \<le> cap"
  shows "filter pending_request (retain_request_tail rs cap) = filter pending_request rs"
proof (cases "length rs \<le> cap")
  case False
  obtain kept rest where k: "drop_matching (\<lambda>r. \<not> pending_request r) (length rs - cap) rs = (kept, rest)"
    by fastforce
  have "rest = (length rs - cap) - length (filter (\<lambda>r. \<not> pending_request r) rs)"
    using drop_matching_rest [of "\<lambda>r. \<not> pending_request r" "length rs - cap" rs] k by simp
  moreover have "length rs = length (filter pending_request rs) + length (filter (\<lambda>r. \<not> pending_request r) rs)"
    by (rule length_filter_split)
  ultimately have "rest = 0" using assms by simp
  then show ?thesis
    using k False drop_matching_filter [of "\<lambda>r. \<not> pending_request r" "length rs - cap" rs]
    by (simp add: retain_request_tail_def)
qed (simp add: retain_request_tail_def)

lemma retain_request_short [simp]: "length rs \<le> cap \<Longrightarrow> retain_request_tail rs cap = rs"
  by (simp add: retain_request_tail_def)

section \<open>Normal forms\<close>

lemma distinct_remdups_sorted: "sorted xs \<Longrightarrow> distinct (remdups_adj (xs :: 'a::linorder list))"
  by (induction xs rule: remdups_adj.induct) auto

lemma sort_dedup_props [simp]:
  "set (sort_dedup xs) = set xs" "sorted (sort_dedup xs)" "distinct (sort_dedup xs)"
  by (simp_all add: sort_dedup_def sorted_remdups_adj distinct_remdups_sorted)

lemma retain_tail_sorted: "sorted xs \<Longrightarrow> sorted (retain_tail xs cap)"
  by (simp add: retain_tail_def sorted_wrt_drop)

lemma retain_tail_distinct: "distinct xs \<Longrightarrow> distinct (retain_tail xs cap)"
  by (simp add: retain_tail_def)

lemma clamp_ttl_bounds: "min_lease_ttl_secs \<le> clamp_ttl t" "clamp_ttl t \<le> hard_max_lease_ttl_secs"
  by (auto simp: clamp_ttl_def min_lease_ttl_secs_def hard_max_lease_ttl_secs_def not_less)

lemma normalized_parts:
  "hc_leases (normalize_hosted h) = retain_lease_tail
     (filter (\<lambda>l. valid_id_component (ld_lease_id (lr_document l))) (hc_leases h)) hosted_leases_cap"
  "hc_requests (normalize_hosted h) = retain_request_tail
     (filter (\<lambda>r. valid_id_component (rq_request_id r)) (hc_requests h)) hosted_requests_cap"
  "hc_signed_app_anchors (normalize_hosted h) = retain_tail
     (filter (\<lambda>a. valid_id_component (sa_device_id a)) (hc_signed_app_anchors h)) hosted_anchors_cap"
  "wt_reports (hc_witnesses (normalize_hosted h)) = retain_tail
     (filter witness_record_ok (wt_reports (hc_witnesses h))) hosted_witness_reports_cap"
  "hp_eligible_session_ids (hc_policy (normalize_hosted h)) = retain_tail
     (sort_dedup (filter valid_id_component (hp_eligible_session_ids (hc_policy h))))
     hosted_eligible_sessions_cap"
  "hp_max_ttl_secs (hc_policy (normalize_hosted h)) = clamp_ttl (hp_max_ttl_secs (hc_policy h))"
  "hp_ceiling (hc_policy (normalize_hosted h)) = hp_ceiling (hc_policy h)"
  by (simp_all add: normalize_hosted_def normalize_policy_def normalize_witnesses_def Let_def)

text \<open>
  C22: normalization, which every load and save applies, never drops an active lease nor, while
  the queue is within its cap, a pending request, and it keeps their order; everything else it
  bounds, sorts and clamps.
\<close>

theorem normalization_keeps_authority:
  "filter active_lease (hc_leases (normalize_hosted h))
      = filter (\<lambda>l. valid_id_component (ld_lease_id (lr_document l)) \<and> active_lease l) (hc_leases h)
   \<and> length (hc_leases (normalize_hosted h)) \<le> max hosted_leases_cap (length (filter active_lease (hc_leases h)))
   \<and> (length (filter (\<lambda>r. valid_id_component (rq_request_id r) \<and> pending_request r) (hc_requests h))
        \<le> hosted_requests_cap
      \<longrightarrow> filter pending_request (hc_requests (normalize_hosted h))
        = filter (\<lambda>r. valid_id_component (rq_request_id r) \<and> pending_request r) (hc_requests h))
   \<and> length (hc_requests (normalize_hosted h)) \<le> hosted_requests_cap
   \<and> length (hc_signed_app_anchors (normalize_hosted h)) \<le> hosted_anchors_cap
   \<and> length (wt_reports (hc_witnesses (normalize_hosted h))) \<le> hosted_witness_reports_cap
   \<and> sorted (hp_eligible_session_ids (hc_policy (normalize_hosted h)))
   \<and> distinct (hp_eligible_session_ids (hc_policy (normalize_hosted h)))
   \<and> length (hp_eligible_session_ids (hc_policy (normalize_hosted h))) \<le> hosted_eligible_sessions_cap
   \<and> min_lease_ttl_secs \<le> hp_max_ttl_secs (hc_policy (normalize_hosted h))
   \<and> hp_max_ttl_secs (hc_policy (normalize_hosted h)) \<le> hard_max_lease_ttl_secs
   \<and> hp_ceiling (hc_policy (normalize_hosted h)) = hp_ceiling (hc_policy h)"
proof (intro conjI impI)
  have "length (filter (\<lambda>l. valid_id_component (ld_lease_id (lr_document l)) \<and> active_lease l) (hc_leases h))
      \<le> length (filter active_lease (hc_leases h))"
    by (rule length_filter_conj)
  then show "length (hc_leases (normalize_hosted h)) \<le> max hosted_leases_cap (length (filter active_lease (hc_leases h)))"
    using retain_lease_length [of "filter (\<lambda>l. valid_id_component (ld_lease_id (lr_document l))) (hc_leases h)"
        hosted_leases_cap]
    by (simp add: normalize_hosted_def max_def split: if_splits)
next
  assume "length (filter (\<lambda>r. valid_id_component (rq_request_id r) \<and> pending_request r) (hc_requests h))
        \<le> hosted_requests_cap"
  then show "filter pending_request (hc_requests (normalize_hosted h))
        = filter (\<lambda>r. valid_id_component (rq_request_id r) \<and> pending_request r) (hc_requests h)"
    by (simp add: normalize_hosted_def retain_request_pending)
qed (simp_all only: normalized_parts retain_lease_active retain_request_length retain_tail_length
    retain_tail_sorted retain_tail_distinct clamp_ttl_bounds sort_dedup_props filter_filter)

section \<open>Issue\<close>

lemma fold_preserves: "(\<And>x s. f (g x s) = f s) \<Longrightarrow> f (fold g xs s) = f s"
  by (induction xs arbitrary: s) auto

lemma materialize_leases_hosted:
  "is_hosted_control (fst (materialize_hosted_lease_expirations w now actor st)) = (is_hosted_control st)
     \<lparr> hc_leases := map (\<lambda>l. if lease_is_over now l then l\<lparr> lr_status := LeaseExpired \<rparr> else l) (leases_of st) \<rparr>"
  by (simp add: materialize_hosted_lease_expirations_def Let_def fold_preserves [where f = is_hosted_control])

lemma materialize_leases_principals:
  "is_principals (fst (materialize_hosted_lease_expirations w now actor st)) = is_principals st"
  by (simp add: materialize_hosted_lease_expirations_def Let_def fold_preserves [where f = is_principals])

lemma on_first_ids: "(\<And>x. k (f x) = k x) \<Longrightarrow> k ` set (on_first P f xs) = k ` set xs"
  by (induction xs) auto

lemma materialize_leases_grants:
  "ig_id ` set (is_grants (fst (materialize_hosted_lease_expirations w now actor st)))
     = ig_id ` set (is_grants st)"
proof -
  have "ig_id ` set (is_grants (fold (\<lambda>d. set_grant_status (ld_grant_id d)
      (\<lambda>g. g\<lparr> ig_status := ''expired'' \<rparr>)) ds s)) = ig_id ` set (is_grants s)"
    for ds :: "hosted_lease_document list" and s :: local_iam_state
    by (rule fold_preserves [where f = "\<lambda>s. ig_id ` set (is_grants s)"]) (simp add: on_first_ids)
  then show ?thesis
    by (simp add: materialize_hosted_lease_expirations_def Let_def fold_preserves [where f = is_grants])
qed

lemma bindings_simps [simp]:
  "is_hosted_control (normalize_hosted_lease_bindings now st) = normalize_hosted (is_hosted_control st)"
  "is_roles (normalize_hosted_lease_bindings now st) = is_roles st"
  by (simp_all add: normalize_hosted_lease_bindings_def Let_def)

lemma bindings_sets:
  "set (is_principals (normalize_hosted_lease_bindings now st)) \<subseteq> set (is_principals st)"
  "set (is_grants (normalize_hosted_lease_bindings now st)) \<subseteq> set (is_grants st)"
  by (auto simp: normalize_hosted_lease_bindings_def Let_def)

text \<open>A queue every load leaves is a fixed point of its normalization.\<close>

definition queue_ok :: "hosted_lease_request list \<Rightarrow> bool" where
  "queue_ok rs = (length rs \<le> hosted_requests_cap \<and> list_all (\<lambda>r. valid_id_component (rq_request_id r)) rs)"

lemma retain_request_subset: "set (retain_request_tail rs cap) \<subseteq> set rs"
  using drop_matching_subset [of "\<lambda>r. \<not> pending_request r" "length rs - cap" rs]
  by (cases "drop_matching (\<lambda>r. \<not> pending_request r) (length rs - cap) rs")
    (auto simp: retain_request_tail_def dest: in_set_dropD)

lemma normalize_queue_ok: "queue_ok (hc_requests (normalize_hosted h))"
  using retain_request_subset
  by (fastforce simp: queue_ok_def normalized_parts retain_request_length list_all_iff)

lemma normalize_queue_id [simp]: "queue_ok (hc_requests h) \<Longrightarrow> hc_requests (normalize_hosted h) = hc_requests h"
  by (simp add: queue_ok_def normalized_parts list_all_iff)

lemma loaded_queue_ok: "queue_ok (requests_of (fst (load_state_unlocked c stored)))"
proof (cases stored)
  case None
  then show ?thesis
    by (simp add: load_state_unlocked_def default_iam_state_def default_hosted_control_def queue_ok_def)
next
  case (Some st)
  then show ?thesis
    by (simp add: load_state_unlocked_def normalize_iam_def Let_def normalize_queue_ok)
qed

text \<open>The parts of a state in which a lease was issued.\<close>

lemma issue_parts:
  assumes "issue_lease_record w clock n2 n3 st r preset ttl actor identity daemon_id = Inr (st', d)"
  defines "now \<equiv> word_of_int (max 0 clock) :: u64"
    and "sid \<equiv> hw_sha w (rq_request_id r @ nl @ rq_browser_key_fingerprint r)"
    and "st1 \<equiv> normalize_hosted_lease_bindings n2
        (fst (materialize_hosted_lease_expirations w (word_of_int (max 0 clock)) actor st))"
  shows "d = lease_document (hw_sha w) identity daemon_id now (sat_add now (sat_mul ttl 1000)) sid preset r"
    and "is_hosted_control st' = normalize_hosted ((is_hosted_control st1)\<lparr> hc_leases := leases_of st1 @
          [\<lparr> lr_document = d, lr_status = LeaseActive, lr_revoked_at_unix_ms = None, lr_revoked_by = None \<rparr>] \<rparr>)"
    and "is_principals st' = is_principals (normalize_hosted_lease_bindings n3
          (on_hosted (\<lambda>h. h\<lparr> hc_leases := hc_leases h @ [\<lparr> lr_document = d, lr_status = LeaseActive,
             lr_revoked_at_unix_ms = None, lr_revoked_by = None \<rparr>] \<rparr>)
          (st1\<lparr> is_principals := is_principals st1 @ [lease_principal now sid r],
             is_grants := is_grants st1 @ [lease_grant now (sat_add now (sat_mul ttl 1000)) sid preset] \<rparr>)))"
    and "is_grants st' = is_grants (normalize_hosted_lease_bindings n3
          (on_hosted (\<lambda>h. h\<lparr> hc_leases := hc_leases h @ [\<lparr> lr_document = d, lr_status = LeaseActive,
             lr_revoked_at_unix_ms = None, lr_revoked_by = None \<rparr>] \<rparr>)
          (st1\<lparr> is_principals := is_principals st1 @ [lease_principal now sid r],
             is_grants := is_grants st1 @ [lease_grant now (sat_add now (sat_mul ttl 1000)) sid preset] \<rparr>)))"
  using assms(1) unfolding issue_lease_record_def Let_def now_def sid_def st1_def
  by (auto split: if_splits)

section \<open>Decisions\<close>

lemma position_from_Some:
  "position_from P k xs = Some n \<Longrightarrow> k \<le> n \<and> n - k < length xs \<and> P (xs ! (n - k))"
proof (induction xs arbitrary: k)
  case (Cons x xs)
  show ?case
  proof (cases "P x")
    case False
    then have "Suc k \<le> n \<and> n - Suc k < length xs \<and> P (xs ! (n - Suc k))"
      using Cons by simp
    then show ?thesis by (auto simp: nth_Cons')
  qed (use Cons.prems in simp)
qed simp

lemma issue_requests:
  assumes "issue_lease_record w clock n2 n3 st r preset ttl actor identity daemon_id = Inr (st', d)"
    and "queue_ok (requests_of st)"
  shows "requests_of st' = requests_of st"
proof -
  note p = issue_parts(2) [OF assms(1)]
  have q: "queue_ok (hc_requests (h\<lparr> hc_leases := ls \<rparr>))" if "queue_ok (hc_requests h)" for h ls
    using that by simp
  show ?thesis
    using assms(2) unfolding p by (simp add: materialize_leases_hosted)
qed

lemma issue_document:
  assumes "issue_lease_record w clock n2 n3 st r preset ttl actor identity daemon_id = Inr (st', d)"
  shows "ld_preset d = preset" "ld_request_id d = rq_request_id r"
    "ld_browser_public_key d = rq_browser_public_key r"
    "ld_browser_key_fingerprint d = rq_browser_key_fingerprint r"
    "ld_fleet_origin d = rq_fleet_origin r"
    "ld_expires_unix_ms d = sat_add (ld_issued_unix_ms d) (sat_mul ttl 1000)"
  using issue_parts(1) [OF assms] by (simp_all add: lease_document_def Let_def)

lemma lease_ends_in_time: "unat (sat_add a (sat_mul t 1000)) \<le> unat a + 1000 * unat (t :: u64)"
  by (simp add: unat_sat_add unat_sat_mul)

lemma approve_at_simps [simp]:
  "requests_of (approve_at k i st) = (requests_of st)[k := (requests_of st ! k)
     \<lparr> rq_status := RequestApproved, rq_approved_lease_id := Some i \<rparr>]"
  "leases_of (approve_at k i st) = leases_of st" "is_grants (approve_at k i st) = is_grants st"
  "is_principals (approve_at k i st) = is_principals st"
  "hc_policy (is_hosted_control (approve_at k i st)) = hc_policy (is_hosted_control st)"
  "hc_witnesses (is_hosted_control (approve_at k i st)) = hc_witnesses (is_hosted_control st)"
  by (simp_all add: approve_at_def)

text \<open>
  C11: a decision that issues a lease approves exactly one request, still pending, unexpired and
  signed by this daemon, for its own key and origin; the lease has at most the preset and the
  time asked for and at most what the policy allows, and the queue changes in that entry alone.
\<close>

theorem decision_bounded:
  assumes "decide_request rt cr w now clock n2 n3 identity i actor st = Inr (st', Some d, True)"
    and "st = fst (load_state_unlocked c stored)"
  shows "\<exists>k r. k < length (requests_of st) \<and> requests_of st ! k = r
    \<and> rq_request_id r = dc_request_id i \<and> rq_status r = RequestPending
    \<and> now < rq_expires_unix_ms r \<and> verify_doorbell rt cr w r = Inr ()
    \<and> dc_approve i \<and> \<not> guard_suspended w st
    \<and> ld_request_id d = rq_request_id r \<and> ld_browser_public_key d = rq_browser_public_key r
    \<and> ld_fleet_origin d = rq_fleet_origin r
    \<and> ld_preset d \<le> rq_requested_preset r \<and> ld_preset d \<le> hp_ceiling (policy_of st)
    \<and> unat (ld_expires_unix_ms d)
        \<le> unat (ld_issued_unix_ms d) + 1000 * unat (min (rq_requested_ttl_secs r) (hp_max_ttl_secs (policy_of st)))
    \<and> requests_of st' = (requests_of st)[k :=
        r\<lparr> rq_status := RequestApproved, rq_approved_lease_id := Some (ld_lease_id d) \<rparr>]"
proof -
  obtain k where k: "position_from (\<lambda>r. rq_request_id r = dc_request_id i) 0 (requests_of st) = Some k"
    using assms(1) by (auto simp: decide_request_def split: if_splits option.splits)
  define r where "r = requests_of st ! k"
  define ttl where "ttl = unwrap_or (dc_approved_ttl_secs i) (rq_requested_ttl_secs r)"
  define preset where "preset = unwrap_or (dc_approved_preset i) (rq_requested_preset r)"
  have v: "verify_doorbell rt cr w r = Inr ()"
    using assms(1) k by (auto simp: decide_request_def r_def Let_def split: if_splits sum.splits)
  have g: "dc_approve i" "\<not> guard_suspended w st" "rq_status r = RequestPending"
      "now < rq_expires_unix_ms r" "preset \<le> rq_requested_preset r" "preset \<le> hp_ceiling (policy_of st)"
      "ttl \<le> rq_requested_ttl_secs r" "ttl \<le> hp_max_ttl_secs (policy_of st)"
    using assms(1) k v by (auto simp: decide_request_def r_def preset_def ttl_def Let_def not_less
        split: if_splits option.splits)
  obtain st2 where i: "issue_lease_record w clock n2 n3 st r preset ttl actor identity (rt_daemon_id rt)
        = Inr (st2, d)" and st': "st' = approve_at k (ld_lease_id d) st2"
    using assms(1) k v g by (auto simp: decide_request_def r_def preset_def ttl_def Let_def
        split: if_splits option.splits)
  have "requests_of st2 = requests_of st"
    using issue_requests [OF i] loaded_queue_ok assms(2) by simp
  moreover have "unat ttl \<le> unat (min (rq_requested_ttl_secs r) (hp_max_ttl_secs (policy_of st)))"
    using g by (simp add: min_def word_le_nat_alt)
  then have "unat (ld_expires_unix_ms d) \<le> unat (ld_issued_unix_ms d)
      + 1000 * unat (min (rq_requested_ttl_secs r) (hp_max_ttl_secs (policy_of st)))"
    using lease_ends_in_time [of "ld_issued_unix_ms d" ttl] unfolding issue_document(6) [OF i] by linarith
  moreover have "k < length (requests_of st)" "rq_request_id r = dc_request_id i"
    using position_from_Some [OF k] by (simp_all add: r_def)
  ultimately show ?thesis
    using v g issue_document [OF i] st' r_def by (intro exI [of _ k] exI [of _ r]) auto
qed

section \<open>A lease at work\<close>

lemma find_unique:
  assumes "x \<in> set xs" and "P x" and "\<And>y. y \<in> set xs \<Longrightarrow> P y \<Longrightarrow> y = x"
  shows "find P xs = Some x"
proof -
  obtain y where "find P xs = Some y" using assms(1,2) by (metis find_eq_None not_None_eq)
  then show ?thesis using assms(3) find_Some_in by fastforce
qed

text \<open>Nothing in the state carries the identifiers of the document.\<close>

definition fresh_for :: "hosted_lease_document \<Rightarrow> local_iam_state \<Rightarrow> bool" where
  "fresh_for d st = (ld_lease_id d \<notin> ld_lease_id ` lr_document ` set (leases_of st)
     \<and> ld_grant_id d \<notin> ld_grant_id ` lr_document ` set (leases_of st)
     \<and> ld_principal_id d \<notin> ip_id ` set (is_principals st) \<and> ld_grant_id d \<notin> ig_id ` set (is_grants st))"

lemma fresh_for_lease:
  assumes "fresh_for d st" and "l \<in> set (leases_of st)"
  shows "ld_lease_id (lr_document l) \<noteq> ld_lease_id d" and "ld_grant_id (lr_document l) \<noteq> ld_grant_id d"
  using assms unfolding fresh_for_def by (metis imageI)+

lemma normalize_leases_subset: "set (hc_leases (normalize_hosted h)) \<subseteq> set (hc_leases h)"
  using retain_lease_subset by (fastforce simp: normalized_parts)

lemma active_lease_kept:
  assumes "l \<in> set (hc_leases h)" and "active_lease l" and "valid_id_component (ld_lease_id (lr_document l))"
  shows "l \<in> set (hc_leases (normalize_hosted h))"
proof -
  have "l \<in> set (filter active_lease (hc_leases (normalize_hosted h)))"
    using assms by (simp add: normalized_parts retain_lease_active)
  then show ?thesis by simp
qed

lemma issue_keeps_fresh:
  assumes "fresh_for d st"
  shows "fresh_for d (normalize_hosted_lease_bindings n2
    (fst (materialize_hosted_lease_expirations w now actor st)))" (is "fresh_for d ?st1")
proof -
  let ?m = "fst (materialize_hosted_lease_expirations w now actor st)"
  have "ip_id ` set (is_principals ?st1) \<subseteq> ip_id ` set (is_principals st)"
    using bindings_sets(1) [of n2 ?m] by (simp add: materialize_leases_principals image_mono)
  moreover have "ig_id ` set (is_grants ?st1) \<subseteq> ig_id ` set (is_grants st)"
    using bindings_sets(2) [of n2 ?m] materialize_leases_grants [of w now actor st] by blast
  moreover have "map lr_document (leases_of ?m) = map lr_document (leases_of st)"
    by (simp add: materialize_leases_hosted)
  then have "lr_document ` set (leases_of ?m) = lr_document ` set (leases_of st)"
    by (metis list.set_map)
  then have docs: "lr_document ` set (leases_of ?st1) \<subseteq> lr_document ` set (leases_of st)"
    using image_mono [OF normalize_leases_subset [of "is_hosted_control ?m"], of lr_document]
    unfolding bindings_simps by argo
  ultimately show ?thesis
    using assms image_mono [OF docs, of ld_lease_id] image_mono [OF docs, of ld_grant_id]
    unfolding fresh_for_def by (meson subsetD)
qed

text \<open>The records a browser's lease is checked against, right after its issue.\<close>

lemma issued_records:
  assumes "issue_lease_record w clock n2 n3 st r preset ttl actor identity daemon_id = Inr (st', d)"
    and "fresh_for d st" and "valid_id_component (ld_lease_id d)" and "n3 < ld_expires_unix_ms d"
  defines "rec \<equiv> \<lparr> lr_document = d, lr_status = LeaseActive, lr_revoked_at_unix_ms = None,
        lr_revoked_by = None \<rparr>"
    and "now \<equiv> word_of_int (max 0 clock) :: u64"
    and "sid \<equiv> hw_sha w (rq_request_id r @ nl @ rq_browser_key_fingerprint r)"
  shows "find (\<lambda>l. ld_lease_id (lr_document l) = ld_lease_id d) (leases_of st') = Some rec"
    and "find (\<lambda>l. ld_grant_id (lr_document l) = ld_grant_id d
           \<and> ld_principal_id (lr_document l) = ld_principal_id d) (leases_of st') = Some rec"
    and "find (\<lambda>p. ip_id p = ld_principal_id d) (is_principals st') = Some (lease_principal now sid r)"
    and "find (\<lambda>g. ig_id g = ld_grant_id d) (is_grants st')
           = Some (lease_grant now (ld_expires_unix_ms d) sid preset)"
proof -
  define st1 where "st1 = normalize_hosted_lease_bindings n2
      (fst (materialize_hosted_lease_expirations w now actor st))"
  note p = issue_parts [OF assms(1), folded now_def sid_def, folded st1_def, folded rec_def]
  have fresh: "fresh_for d st1" unfolding st1_def by (rule issue_keeps_fresh [OF assms(2)])
  have ids: "ld_principal_id d = ''principal:hosted-lease:'' @ sid"
      "ld_grant_id d = ''grant:hosted-lease:'' @ sid"
      "ld_expires_unix_ms d = sat_add now (sat_mul ttl 1000)"
    using p(1) by (simp_all add: lease_document_def Let_def)
  let ?h = "(is_hosted_control st1)\<lparr> hc_leases := leases_of st1 @ [rec] \<rparr>"
  have kept: "rec \<in> set (leases_of st')"
    using active_lease_kept [of rec ?h] assms(3) by (simp add: p(2) rec_def)
  have sub: "l \<in> set (leases_of st1) \<or> l = rec" if "l \<in> set (leases_of st')" for l
    using that normalize_leases_subset [of ?h] by (auto simp: p(2))
  show "find (\<lambda>l. ld_lease_id (lr_document l) = ld_lease_id d) (leases_of st') = Some rec"
    "find (\<lambda>l. ld_grant_id (lr_document l) = ld_grant_id d
       \<and> ld_principal_id (lr_document l) = ld_principal_id d) (leases_of st') = Some rec"
    by (rule find_unique; use kept sub fresh_for_lease [OF fresh] in \<open>force simp: rec_def\<close>)+
  let ?live = "set (map lr_document (filter (lease_is_live n3) (hc_leases (normalize_hosted ?h))))"
  have live: "d \<in> ?live"
    using kept assms(4) by (force simp: p(2) lease_is_live_def rec_def)
  have ps: "is_principals st' = filter (\<lambda>p. ip_source p \<noteq> hosted_source \<or> ip_id p \<in> ld_principal_id ` ?live)
      (is_principals st1 @ [lease_principal now sid r])"
    by (simp add: p(3) normalize_hosted_lease_bindings_def Let_def)
  have gs: "is_grants st' = filter (\<lambda>g. ig_source g \<noteq> hosted_source
      \<or> (ig_id g, ig_principal_id g) \<in> (\<lambda>d. (ld_grant_id d, ld_principal_id d)) ` ?live)
      (is_grants st1 @ [lease_grant now (ld_expires_unix_ms d) sid preset])"
    by (simp add: p(4) ids normalize_hosted_lease_bindings_def Let_def)
  have "ip_id (lease_principal now sid r) \<in> ld_principal_id ` ?live"
    using imageI [OF live, of ld_principal_id] by (simp add: lease_principal_def ids)
  then have lp: "lease_principal now sid r \<in> set (is_principals st')" by (simp add: ps)
  have "(ig_id (lease_grant now (ld_expires_unix_ms d) sid preset),
      ig_principal_id (lease_grant now (ld_expires_unix_ms d) sid preset))
      \<in> (\<lambda>d. (ld_grant_id d, ld_principal_id d)) ` ?live"
    using imageI [OF live, of "\<lambda>d. (ld_grant_id d, ld_principal_id d)"]
    by (simp add: lease_grant_def ids)
  then have lg: "lease_grant now (ld_expires_unix_ms d) sid preset \<in> set (is_grants st')"
    by (simp add: gs)
  have subp: "x \<in> set (is_principals st1) \<or> x = lease_principal now sid r"
    if "x \<in> set (is_principals st')" for x
    using that unfolding ps set_filter by simp blast
  have subg: "x \<in> set (is_grants st1) \<or> x = lease_grant now (ld_expires_unix_ms d) sid preset"
    if "x \<in> set (is_grants st')" for x
    using that unfolding gs set_filter by simp blast
  show "find (\<lambda>p. ip_id p = ld_principal_id d) (is_principals st') = Some (lease_principal now sid r)"
  proof (rule find_unique [OF lp])
    show "ip_id (lease_principal now sid r) = ld_principal_id d" by (simp add: lease_principal_def ids)
    have "ip_id y \<noteq> ld_principal_id d" if "y \<in> set (is_principals st1)" for y
      using fresh that unfolding fresh_for_def by (metis imageI)
    then show "y = lease_principal now sid r" if "y \<in> set (is_principals st')" "ip_id y = ld_principal_id d" for y
      using subp that by blast
  qed
  show "find (\<lambda>g. ig_id g = ld_grant_id d) (is_grants st')
           = Some (lease_grant now (ld_expires_unix_ms d) sid preset)"
  proof (rule find_unique [OF lg])
    show "ig_id (lease_grant now (ld_expires_unix_ms d) sid preset) = ld_grant_id d"
      by (simp add: lease_grant_def ids)
    have "ig_id y \<noteq> ld_grant_id d" if "y \<in> set (is_grants st1)" for y
      using fresh that unfolding fresh_for_def by (metis imageI)
    then show "y = lease_grant now (ld_expires_unix_ms d) sid preset"
      if "y \<in> set (is_grants st')" "ig_id y = ld_grant_id d" for y
      using subg that by blast
  qed
qed

end
