(* ===== verification/HostedService.thy ===== *)
theory HostedService
  imports HostedBounds
begin

text \<open>
  A lease at work: what an approval wrote survives the write, every later load and the
  normalizations in between, so the browser that holds the lease is verified and has its preset
  until the lease is over.
\<close>

section \<open>Identifiers that trimming leaves\<close>

lemma strip_one_keeps_last:
  assumes "\<forall>w \<in> set ws. \<forall>x \<in> set w. \<not> P x" and "P c" and "strip_one ws (xs @ [c]) = Some t"
  shows "\<exists>ys. t = ys @ [c]"
  using assms(1,3)
proof (induction ws)
  case (Cons w ws)
  show ?case
  proof (cases "w \<noteq> [] \<and> starts_with (xs @ [c]) w")
    case True
    then obtain r where r: "xs @ [c] = w @ r" by (auto simp: starts_with_iff)
    have "r \<noteq> []" using r Cons.prems(1) assms(2) by (metis append_Nil2 in_set_conv_decomp list.set_intros(1))
    then have "last r = c" using r by (metis last_appendR last_snoc)
    with \<open>r \<noteq> []\<close> have "r = butlast r @ [c]" by (metis append_butlast_last_id)
    with True r Cons.prems(2) show ?thesis by auto
  qed (use Cons in auto)
qed simp

lemma strip_all_keeps_last:
  assumes "\<forall>w \<in> set ws. \<forall>x \<in> set w. \<not> P x" and "P c"
  shows "\<exists>ys. strip_all ws (xs @ [c]) = ys @ [c]"
proof (induction "length xs" arbitrary: xs rule: less_induct)
  case less
  show ?case
  proof (cases "strip_one ws (xs @ [c])")
    case None
    then show ?thesis by (subst strip_all.simps) auto
  next
    case (Some t)
    then obtain ys where t: "t = ys @ [c]" using strip_one_keeps_last [OF assms] by blast
    with strip_one_shorter [OF Some] have "length ys < length xs" by simp
    with less t Some show ?thesis by (subst strip_all.simps) simp
  qed
qed

lemma ws_seqs_plain: "list_all (\<lambda>w. list_all (\<lambda>x. \<not> plain_char x) w) (map rev ws_seqs)"
  by code_simp

lemma trim_starts_plain:
  assumes "plain_char c"
  shows "trim (c # s) \<noteq> []"
proof -
  have "\<forall>w \<in> set ws_seqs. w \<noteq> [] \<and> \<not> plain_char (hd w)"
    using ws_seqs_ends(1) by (simp only: list_all_iff)
  then have "strip_one ws_seqs (c # s) = None"
    using assms by (intro strip_one_None [where P = plain_char]) simp_all
  then have "strip_all ws_seqs (c # s) = c # s" by (subst strip_all.simps) simp
  moreover have "\<forall>w \<in> set (map rev ws_seqs). \<forall>x \<in> set w. \<not> plain_char x"
    using ws_seqs_plain by (simp only: list_all_iff)
  then obtain ys where "strip_all (map rev ws_seqs) (rev s @ [c]) = ys @ [c]"
    using strip_all_keeps_last [of "map rev ws_seqs" plain_char c] assms by blast
  ultimately show ?thesis by (simp add: trim_def)
qed

section \<open>What an issue installs\<close>

text \<open>The three records a lease is checked against, where the verification looks for them.\<close>

definition lease_installed ::
  "hosted_lease_document \<Rightarrow> iam_principal \<Rightarrow> iam_grant \<Rightarrow> local_iam_state \<Rightarrow> bool" where
  "lease_installed d pr g st = (\<exists>l. lr_document l = d \<and> active_lease l
     \<and> find (\<lambda>l. ld_lease_id (lr_document l) = ld_lease_id d) (leases_of st) = Some l
     \<and> find (\<lambda>l. ld_grant_id (lr_document l) = ld_grant_id d
          \<and> ld_principal_id (lr_document l) = ld_principal_id d) (leases_of st) = Some l
     \<and> find (\<lambda>p. ip_id p = ld_principal_id d) (is_principals st) = Some pr
     \<and> find (\<lambda>g. ig_id g = ld_grant_id d) (is_grants st) = Some g)"

lemma find_filter_kept: "find P xs = Some x \<Longrightarrow> Q x \<Longrightarrow> find P (filter Q xs) = Some x"
  by (induction xs) (auto split: if_splits)

lemma find_drop_matching_kept:
  "find P xs = Some x \<Longrightarrow> \<not> Q x \<Longrightarrow> find P (fst (drop_matching Q n xs)) = Some x"
  by (induction Q n xs rule: drop_matching.induct) (auto split: if_splits prod.splits)

lemma find_retain_lease_kept:
  "find P ls = Some l \<Longrightarrow> active_lease l \<Longrightarrow> find P (retain_lease_tail ls cap) = Some l"
  by (auto simp: retain_lease_tail_def Let_def intro: find_drop_matching_kept)

lemma find_normalized_lease:
  assumes "find P (hc_leases h) = Some l" and "active_lease l"
    and "valid_id_component (ld_lease_id (lr_document l))"
  shows "find P (hc_leases (normalize_hosted h)) = Some l"
  using assms by (simp add: normalized_parts find_retain_lease_kept find_filter_kept)

lemma installed_normalize:
  assumes "lease_installed d pr g st" and "valid_id_component (ld_lease_id d)"
    and "n2 < ld_expires_unix_ms d" and "ig_principal_id g = ld_principal_id d"
    and "trim (ld_principal_id d) \<noteq> []" and "trim (ld_grant_id d) \<noteq> []"
    and "2 \<le> is_schema_version st"
  shows "lease_installed d pr g (normalize_iam n n2 st)"
proof -
  obtain l where l: "lr_document l = d" "active_lease l"
    "find (\<lambda>l. ld_lease_id (lr_document l) = ld_lease_id d) (leases_of st) = Some l"
    "find (\<lambda>l. ld_grant_id (lr_document l) = ld_grant_id d
       \<and> ld_principal_id (lr_document l) = ld_principal_id d) (leases_of st) = Some l"
    "find (\<lambda>p. ip_id p = ld_principal_id d) (is_principals st) = Some pr"
    "find (\<lambda>g. ig_id g = ld_grant_id d) (is_grants st) = Some g"
    using assms(1) by (auto simp: lease_installed_def)
  let ?ls = "hc_leases (normalize_hosted (is_hosted_control st))"
  have k: "find (\<lambda>l. ld_lease_id (lr_document l) = ld_lease_id d) ?ls = Some l"
    "find (\<lambda>l. ld_grant_id (lr_document l) = ld_grant_id d
       \<and> ld_principal_id (lr_document l) = ld_principal_id d) ?ls = Some l"
    using find_normalized_lease [OF l(3)] find_normalized_lease [OF l(4)] assms(2) l(1,2) by simp_all
  then have "l \<in> set ?ls" using find_Some_in by fastforce
  then have live: "l \<in> set (filter (lease_is_live n2) ?ls)"
    using assms(3) l(1,2) by (simp add: lease_is_live_def)
  have "\<not> is_schema_version st < 2" using assms(7) by (simp only: not_less)
  then have h: "leases_of (normalize_iam n n2 st) = ?ls"
    and ps: "is_principals (normalize_iam n n2 st) = filter (\<lambda>p. ip_source p \<noteq> hosted_source
        \<or> ip_id p \<in> ld_principal_id ` lr_document ` set (filter (lease_is_live n2) ?ls))
        (filter (\<lambda>p. trim (ip_id p) \<noteq> []) (is_principals st))"
    and gs: "is_grants (normalize_iam n n2 st) = filter (\<lambda>g. ig_source g \<noteq> hosted_source
        \<or> (ig_id g, ig_principal_id g) \<in> (\<lambda>d. (ld_grant_id d, ld_principal_id d)) `
             lr_document ` set (filter (lease_is_live n2) ?ls))
        (filter (\<lambda>g. trim (ig_id g) \<noteq> [] \<and> trim (ig_principal_id g) \<noteq> []) (is_grants st))"
    by (simp_all add: normalize_iam_def normalize_hosted_lease_bindings_def Let_def)
  have "ip_id pr = ld_principal_id d" "ig_id g = ld_grant_id d"
    using find_Some_in [OF l(5)] find_Some_in [OF l(6)] by simp_all
  then have "find (\<lambda>p. ip_id p = ld_principal_id d) (is_principals (normalize_iam n n2 st)) = Some pr"
    "find (\<lambda>g. ig_id g = ld_grant_id d) (is_grants (normalize_iam n n2 st)) = Some g"
    unfolding ps gs using l assms(4,5,6) imageI [OF live, of lr_document]
    by (intro find_filter_kept; force)+
  then show ?thesis using l k unfolding lease_installed_def h by blast
qed

lemma issue_installs:
  assumes "issue_lease_record w clock n2 n3 st r preset ttl actor identity daemon_id = Inr (st', d)"
    and "fresh_for d st" and "valid_id_component (ld_lease_id d)" and "n3 < ld_expires_unix_ms d"
  defines "now \<equiv> word_of_int (max 0 clock) :: u64"
    and "sid \<equiv> hw_sha w (rq_request_id r @ nl @ rq_browser_key_fingerprint r)"
  shows "lease_installed d (lease_principal now sid r)
           (lease_grant now (ld_expires_unix_ms d) sid preset) st'"
  using issued_records [OF assms(1-4), folded now_def sid_def] unfolding lease_installed_def by simp

text \<open>The parts of the state an issue leaves alone.\<close>

lemma schema_simps [simp]:
  "is_schema_version (push_audit w a b c d st) = is_schema_version st"
  "is_schema_version (on_hosted f st) = is_schema_version st"
  "is_schema_version (set_grant_status gid g st) = is_schema_version st"
  "is_schema_version (normalize_hosted_lease_bindings n st) = is_schema_version st"
  "is_schema_version (approve_at k i st) = is_schema_version st"
  by (simp_all add: push_audit_def on_hosted_def set_grant_status_def approve_at_def
      normalize_hosted_lease_bindings_def Let_def split: prod.splits)

lemma materialize_leases_schema [simp]:
  "is_schema_version (fst (materialize_hosted_lease_expirations w now actor st)) = is_schema_version st"
  by (simp add: materialize_hosted_lease_expirations_def Let_def fold_preserves)

lemma issue_keeps:
  assumes "issue_lease_record w clock n2 n3 st r preset ttl actor identity daemon_id = Inr (st', d)"
  shows "is_schema_version st' = is_schema_version st"
    and "hp_ceiling (policy_of st') = hp_ceiling (policy_of st)"
proof -
  show "is_schema_version st' = is_schema_version st"
    using assms by (auto simp: issue_lease_record_def Let_def split: if_splits)
  show "hp_ceiling (policy_of st') = hp_ceiling (policy_of st)"
    unfolding issue_parts(2) [OF assms] by (simp add: normalized_parts materialize_leases_hosted)
qed

lemma normalized_schema: "2 \<le> is_schema_version (normalize_iam a b st)"
  by (simp add: normalize_iam_def Let_def iam_schema_version_def le_max_iff_disj)

lemma migrate_hosted [simp]: "is_hosted_control (migrate_v2 n st) = is_hosted_control st"
  by (simp add: migrate_v2_def Let_def)

lemma normalize_iam_ceiling: "hp_ceiling (policy_of (normalize_iam a b st)) = hp_ceiling (policy_of st)"
  by (simp add: normalize_iam_def Let_def normalized_parts)

lemma loaded_schema: "2 \<le> is_schema_version (fst (load_state_unlocked c stored))"
  by (simp add: load_state_unlocked_def normalize_iam_def normalize_hosted_lease_bindings_def Let_def
      iam_schema_version_def default_iam_state_def le_max_iff_disj split: option.split)

text \<open>A decision that issues, taken apart.\<close>

lemma decision_issues:
  assumes "decide_request rt cr w now clock n2 n3 identity i actor st = Inr (st', Some d, True)"
  obtains k st2 ttl where "issue_lease_record w clock n2 n3 st (requests_of st ! k) (ld_preset d) ttl
       actor identity (rt_daemon_id rt) = Inr (st2, d)"
    and "st' = approve_at k (ld_lease_id d) st2" and "ld_preset d \<le> hp_ceiling (policy_of st)"
proof -
  obtain k where k: "position_from (\<lambda>r. rq_request_id r = dc_request_id i) 0 (requests_of st) = Some k"
    using assms by (auto simp: decide_request_def split: if_splits option.splits)
  define r where "r = requests_of st ! k"
  define ttl where "ttl = unwrap_or (dc_approved_ttl_secs i) (rq_requested_ttl_secs r)"
  define preset where "preset = unwrap_or (dc_approved_preset i) (rq_requested_preset r)"
  have v: "verify_doorbell rt cr w r = Inr ()"
    using assms k by (auto simp: decide_request_def r_def Let_def split: if_splits sum.splits)
  have g: "dc_approve i" "\<not> guard_suspended w st" "rq_status r = RequestPending"
      "now < rq_expires_unix_ms r" "preset \<le> hp_ceiling (policy_of st)"
    using assms k v by (auto simp: decide_request_def r_def preset_def ttl_def Let_def not_less
        split: if_splits option.splits)
  obtain st2 where i: "issue_lease_record w clock n2 n3 st r preset ttl actor identity (rt_daemon_id rt)
        = Inr (st2, d)" and st': "st' = approve_at k (ld_lease_id d) st2"
    using assms k v g by (auto simp: decide_request_def r_def preset_def ttl_def Let_def
        split: if_splits option.splits)
  with g issue_document(1) [OF i] show ?thesis
    using that [of k ttl st2] by (simp add: r_def)
qed

lemma lease_ids_trim:
  "trim (''principal:hosted-lease:'' @ sid) \<noteq> []" "trim (''grant:hosted-lease:'' @ sid) \<noteq> []"
  using trim_starts_plain by (simp_all add: plain_char_code)

lemma lease_document_verifies:
  assumes "rt_identity rt = Some identity"
    and "\<And>msg. cr_verify_b64u cr (di_public_key identity) msg (di_sign identity msg)"
    and "hw_sha w' = hw_sha w"
  shows "lease_document_ok rt cr w' (rq_fleet_origin r)
    (lease_document (hw_sha w) identity (rt_daemon_id rt) now expires sid preset r)"
  using assms by (simp add: lease_document_ok_def lease_document_def Let_def lease_expected_sha256_def
      lease_unsigned_payload_def lease_signing_payload_def)

section \<open>From the approval to the request\<close>

lemma enforced_active [simp]: "is_enforced_status ''active''"
  by code_simp

text \<open>The binding the lane checks, on the records of an issue.\<close>

lemma installed_preset:
  assumes "lease_installed d (lease_principal now sid r) (lease_grant now (ld_expires_unix_ms d) sid (ld_preset d)) st"
    and "ld_principal_id d = ''principal:hosted-lease:'' @ sid" "ld_grant_id d = ''grant:hosted-lease:'' @ sid"
    and "ld_browser_key_fingerprint d = rq_browser_key_fingerprint r"
    and "ld_preset d \<le> hp_ceiling (policy_of st)" and "\<not> guard_suspended w st"
    and "0 \<le> hw_now w" and "hw_now w < uint (ld_expires_unix_ms d)"
  shows "hosted_preset_for_principal w st (lease_access_principal (lease_principal now sid r)
      (lease_grant now (ld_expires_unix_ms d) sid (ld_preset d)) d transport) = Inr (ld_preset d)"
proof -
  have "uint (ld_expires_unix_ms d) < 2 ^ 128"
    using uint_lt2p [of "ld_expires_unix_ms d"] by simp
  then have "hw_now w mod 2 ^ 128 < uint (ld_expires_unix_ms d)"
    using assms(7,8) by (simp only: mod_pos_pos_trivial)
  then show ?thesis
    using assms unfolding hosted_preset_iff lease_installed_def
    by (auto simp: lease_access_principal_def lease_principal_def lease_grant_def
        is_hosted_lease_principal_def hosted_record_ok_def hosted_binding_matches_def hosted_authn_def
        is_active_at_def lease_matches_grant_def)
qed

text \<open>After the write of the approval and a load, the records are there.\<close>

lemma approved_view:
  assumes "decide_request rt cr w now clock n2 n3 identity i actor
             (fst (load_state_unlocked (ck_load ck) stored)) = Inr (st', Some d, True)"
    and "view = fst (load_state_unlocked c (fst (transact_state ck
           (decide_request rt cr w now clock n2 n3 identity i actor) stored)))"
  shows "view = normalize_iam (fst c) (snd c) (normalize_iam (fst (ck_save ck)) (snd (ck_save ck)) st')"
proof -
  have "fst (transact_state ck (decide_request rt cr w now clock n2 n3 identity i actor) stored)
      = Some (normalize_iam (fst (ck_save ck)) (snd (ck_save ck)) st')"
    using assms(1) by (auto simp: transact_state_def save_state_locked_def split: prod.split)
  then show ?thesis using assms(2) by (simp add: load_state_unlocked_def)
qed

lemma installed_view:
  assumes "lease_installed d pr g st'" and "2 \<le> is_schema_version st'" and "valid_id_component (ld_lease_id d)"
    and "ig_principal_id g = ld_principal_id d"
    and "ld_principal_id d = ''principal:hosted-lease:'' @ sid" "ld_grant_id d = ''grant:hosted-lease:'' @ sid"
    and "b < ld_expires_unix_ms d" "b' < ld_expires_unix_ms d"
  shows "lease_installed d pr g (normalize_iam a b (normalize_iam a' b' st'))"
proof -
  have tr: "trim (ld_principal_id d) \<noteq> []" "trim (ld_grant_id d) \<noteq> []"
    unfolding assms(5,6) by (rule lease_ids_trim)+
  have "lease_installed d pr g (normalize_iam a' b' st')"
    by (rule installed_normalize [OF assms(1,3,8,4) tr assms(2)])
  then show ?thesis
    by (rule installed_normalize [OF _ assms(3,7,4) tr normalized_schema])
qed

text \<open>
  C5: an approval that issues a lease makes it usable: from the write of that decision on, every
  load of the file verifies the lease for its own origin and gives the browser exactly the
  operations of the approved preset, until the lease is over or the guard suspends the lane.
\<close>

theorem issued_lease_works:
  assumes "decide_request rt cr w now clock n2 n3 identity i actor
             (fst (load_state_unlocked (ck_load ck) stored)) = Inr (st', Some d, True)"
    and "fresh_for d (fst (load_state_unlocked (ck_load ck) stored))"
    and "valid_id_component (ld_lease_id d)" and "rt_identity rt = Some identity"
    and "\<And>msg. cr_verify_b64u cr (di_public_key identity) msg (di_sign identity msg)"
    and "n3 < ld_expires_unix_ms d" "snd (ck_save ck) < ld_expires_unix_ms d" "snd c < ld_expires_unix_ms d"
    and "0 \<le> hw_now w'" "hw_now w' < uint (ld_expires_unix_ms d)" "hw_sha w' = hw_sha w"
    and "view = fst (load_state_unlocked c (fst (transact_state ck
           (decide_request rt cr w now clock n2 n3 identity i actor) stored)))"
    and "\<not> guard_suspended w' view"
  shows "\<exists>v. load_verified_lease rt cr w' view (ld_lease_id d) (ld_fleet_origin d) transport = Inr v
    \<and> vl_document v = d
    \<and> (\<forall>ow op. de_allowed (evaluate_principal_operation_with_state w' ow view (vl_principal v) op)
         \<longleftrightarrow> preset_allows_operation (ld_preset d) op)"
proof -
  let ?st = "fst (load_state_unlocked (ck_load ck) stored)"
  obtain k st2 ttl where i: "issue_lease_record w clock n2 n3 ?st (requests_of ?st ! k) (ld_preset d) ttl
       actor identity (rt_daemon_id rt) = Inr (st2, d)"
    and st': "st' = approve_at k (ld_lease_id d) st2" and cap: "ld_preset d \<le> hp_ceiling (policy_of ?st)"
    using assms(1) by (rule decision_issues)
  let ?r = "requests_of ?st ! k"
  define at where "at = (word_of_int (max 0 clock) :: u64)"
  define sid where "sid = hw_sha w (rq_request_id ?r @ nl @ rq_browser_key_fingerprint ?r)"
  define pr where "pr = lease_principal at sid ?r"
  define g where "g = lease_grant at (ld_expires_unix_ms d) sid (ld_preset d)"
  have d: "d = lease_document (hw_sha w) identity (rt_daemon_id rt) at (sat_add at (sat_mul ttl 1000)) sid
      (ld_preset d) ?r"
    using issue_parts(1) [OF i] by (simp add: at_def sid_def)
  have ids: "ld_principal_id d = ''principal:hosted-lease:'' @ sid"
      "ld_grant_id d = ''grant:hosted-lease:'' @ sid"
    by (subst d; simp add: lease_document_def Let_def)+
  have gp: "ig_principal_id g = ld_principal_id d"
    by (simp add: g_def lease_grant_def ids)
  have "lease_installed d pr g st2"
    using issue_installs [OF i assms(2,3,6)] by (simp add: pr_def g_def at_def sid_def)
  then have st'_inst: "lease_installed d pr g st'" unfolding st' lease_installed_def by simp
  have "2 \<le> is_schema_version st'"
    using issue_keeps(1) [OF i] loaded_schema [of "ck_load ck" stored] by (simp add: st')
  note view = approved_view [OF assms(1,12)]
    and inst' = installed_view [OF st'_inst this assms(3) gp ids assms(8,7)]
  have inst: "lease_installed d pr g view" unfolding view by (rule inst')
  have "hp_ceiling (policy_of view) = hp_ceiling (policy_of st')"
    unfolding view by (simp only: normalize_iam_ceiling)
  then have "ld_preset d \<le> hp_ceiling (policy_of view)"
    using cap issue_keeps(2) [OF i] by (simp add: st')
  then have preset: "hosted_preset_for_principal w' view (lease_access_principal pr g d transport)
      = Inr (ld_preset d)"
    using inst ids issue_document(4) [OF i] assms(9,10,13) unfolding pr_def g_def
    by (intro installed_preset) simp_all
  have "lease_document_ok rt cr w' (rq_fleet_origin ?r) d"
    by (subst d) (rule lease_document_verifies [OF assms(4,5,11)])
  then have "lease_document_ok rt cr w' (ld_fleet_origin d) d"
    using issue_document(5) [OF i] by simp
  then have "load_verified_lease rt cr w' view (ld_lease_id d) (ld_fleet_origin d) transport
      = Inr \<lparr> vl_principal = lease_access_principal pr g d transport, vl_iam_state = view,
              vl_document = d \<rparr>"
    using inst preset assms(13) by (auto simp: load_verified_lease_def lease_installed_def Let_def)
  moreover have "is_hosted_lease_principal (lease_access_principal pr g d transport)"
    using preset by (simp add: hosted_preset_iff)
  ultimately show ?thesis
    using preset by (simp add: evaluate_hosted_lease hosted_allowed_iff)
qed

end
