(* ===== verification/HostedDemo.thy ===== *)
theory HostedDemo
  imports HostedService
begin

text \<open>
  The hosted lane on one browser: a request for an hour of tasks, its approval, the lease and
  its revocation, on concrete states with a constant digest and a constant signature.
\<close>

section \<open>The lane\<close>

definition demo_lane_world :: hosted_world where
  "demo_lane_world = \<lparr> hw_sha = (\<lambda>_. ''h''),
     hw_ct = \<lparr> ce_foreign_serials = [], ce_state_unavailable = False \<rparr>,
     hw_now = 3000, hw_stamp = (\<lambda>n. ([], 0)) \<rparr>"

definition demo_identity :: daemon_identity where
  "demo_identity = \<lparr> di_public_key = ''dk'', di_sign = (\<lambda>_. ''sig'') \<rparr>"

definition demo_crypto :: crypto where
  "demo_crypto = \<lparr> cr_b64_decode = (\<lambda>_. None), cr_b64u = (\<lambda>_. []), cr_key_fingerprint = (\<lambda>_. []),
     cr_p256_verify = (\<lambda>_ _ _. False), cr_verify_b64u = (\<lambda>key msg sig. sig = ''sig'') \<rparr>"

definition demo_runtime :: hosted_runtime where
  "demo_runtime = \<lparr> rt_enabled = True, rt_init_error = None, rt_identity = Some demo_identity,
     rt_daemon_id = ''d1'', rt_daemon_label = ''desk'' \<rparr>"

definition demo_request :: hosted_lease_request where
  "demo_request = \<lparr> rq_protocol = doorbell_protocol, rq_request_id = ''request:1'',
     rq_request_nonce = ''n'', rq_browser_public_key = ''bk'', rq_browser_key_fingerprint = ''bf'',
     rq_requested_preset = PresetTasks, rq_requested_ttl_secs = 3600, rq_requester_label = ''Ada'',
     rq_fleet_origin = ''https://d1.fleet.example'', rq_daemon_id = ''d1'', rq_daemon_label = ''desk'',
     rq_daemon_public_key = ''dk'', rq_created_unix_ms = 1000, rq_expires_unix_ms = 601000,
     rq_status = RequestPending, rq_approved_lease_id = None, rq_doorbell_signature = ''sig'' \<rparr>"

definition demo_lane :: local_iam_state where
  "demo_lane = default_iam_state\<lparr> is_hosted_control :=
     default_hosted_control\<lparr> hc_requests := [demo_request] \<rparr> \<rparr>"

definition demo_approval :: lease_decision_input where
  "demo_approval = \<lparr> dc_request_id = ''request:1'', dc_approve = True, dc_approved_preset = None,
     dc_approved_ttl_secs = Some 1800 \<rparr>"

definition demo_clock :: iam_clock where
  "demo_clock = \<lparr> ck_load = (2000, 2000), ck_save = (2001, 2001) \<rparr>"

abbreviation demo_decide :: "local_iam_state \<Rightarrow> access_error + local_iam_state \<times> hosted_lease_document option \<times> bool" where
  "demo_decide \<equiv> decide_request demo_runtime demo_crypto demo_lane_world 2000 2000 2000 2000
     demo_identity demo_approval ''owner''"

definition demo_loaded :: local_iam_state where
  "demo_loaded = fst (load_state_unlocked (ck_load demo_clock) (Some demo_lane))"

definition demo_view :: local_iam_state where
  "demo_view = fst (load_state_unlocked (2500, 2500)
     (fst (transact_state demo_clock demo_decide (Some demo_lane))))"

lemma demo_lane_ids [simp]: "valid_id_component ''request:1''" "valid_id_component ''lease:h''"
  by code_simp+

lemma corroborated_none [simp]: "corroborated_serials_from_reports [] = []"
  by (simp add: corroborated_serials_from_reports_def)

lemma sort_dedup_empty [simp]: "sort_dedup [] = []"
  by (simp add: sort_dedup_def)

lemma retain_tail_empty [simp]: "retain_tail [] n = []"
  by (simp add: retain_tail_def)

lemma no_witnesses [simp]: "normalize_witnesses empty_witnesses = empty_witnesses"
  by (simp add: normalize_witnesses_def empty_witnesses_def normalize_serial_set_def)

lemma normalized_witnesses: "hc_witnesses (normalize_hosted h) = normalize_witnesses (hc_witnesses h)"
  by (simp add: normalize_hosted_def)

lemma normalize_iam_witnesses: "hc_witnesses (is_hosted_control (normalize_iam a b st))
    = normalize_witnesses (hc_witnesses (is_hosted_control st))"
  by (simp add: normalize_iam_def Let_def normalized_witnesses)

lemma default_policy_normal [simp]: "normalize_policy default_hosted_policy = default_hosted_policy"
  by (simp add: normalize_policy_def default_hosted_policy_def clamp_ttl_def min_lease_ttl_secs_def
      hard_max_lease_ttl_secs_def default_lease_ttl_secs_def)

lemma caps_pos [simp]: "Suc 0 \<le> hosted_requests_cap" "0 < hosted_leases_cap" "Suc 0 \<le> hosted_leases_cap"
  by (simp_all add: hosted_requests_cap_def hosted_leases_cap_def)

lemma guard_clear [simp]:
  "hc_witnesses (is_hosted_control st) = empty_witnesses \<Longrightarrow> \<not> guard_suspended demo_lane_world st"
  by (simp add: guard_suspended_def compute_lane_guard_def demo_lane_world_def Let_def
      empty_witnesses_def guard_status_def map_filter_def)

lemma default_iam_parts:
  "is_principals default_iam_state = []" "is_grants default_iam_state = []"
  "is_schema_version default_iam_state = 3"
  by (simp_all only: default_iam_state_def iam_schema_version_def local_iam_state.select_convs)

lemma demo_lane_parts:
  "is_principals demo_lane = []" "is_grants demo_lane = []" "is_schema_version demo_lane = 3"
  "is_hosted_control demo_lane = default_hosted_control\<lparr> hc_requests := [demo_request] \<rparr>"
  by (simp_all add: demo_lane_def default_iam_parts)

lemma demo_hosted_normal: "normalize_hosted (default_hosted_control\<lparr> hc_requests := [demo_request] \<rparr>)
    = default_hosted_control\<lparr> hc_requests := [demo_request] \<rparr>"
  by (simp add: normalize_hosted_def default_hosted_control_def retain_lease_tail_def demo_request_def)

lemma demo_loaded_parts [simp]:
  "is_hosted_control demo_loaded = default_hosted_control\<lparr> hc_requests := [demo_request] \<rparr>"
  "is_principals demo_loaded = []" "is_grants demo_loaded = []"
  by (simp_all add: demo_loaded_def load_state_unlocked_def normalize_iam_def Let_def
      normalize_hosted_lease_bindings_def demo_lane_parts demo_hosted_normal)

section \<open>The approval\<close>

definition demo_lease :: hosted_lease_document where
  "demo_lease = lease_document (hw_sha demo_lane_world) demo_identity ''d1'' 2000 1802000 ''h''
     PresetTasks demo_request"

lemma demo_request_parts:
  "rq_request_id demo_request = ''request:1''" "rq_requested_preset demo_request = PresetTasks"
  "rq_requested_ttl_secs demo_request = 3600" "rq_expires_unix_ms demo_request = 601000"
  "rq_status demo_request = RequestPending"
  by (simp_all add: demo_request_def)

lemma demo_lease_parts [simp]:
  "ld_lease_id demo_lease = ''lease:h''" "ld_grant_id demo_lease = ''grant:hosted-lease:h''"
  "ld_principal_id demo_lease = ''principal:hosted-lease:h''"
  "ld_expires_unix_ms demo_lease = 1802000" "ld_preset demo_lease = PresetTasks"
  "ld_fleet_origin demo_lease = ''https://d1.fleet.example''"
  "ld_browser_key_fingerprint demo_lease = ''bf''"
  by (simp_all add: demo_lease_def lease_document_def demo_request_def Let_def)

lemma nothing_expires [simp]:
  "leases_of st = [] \<Longrightarrow> materialize_hosted_lease_expirations w now actor st =
     (on_hosted (\<lambda>h. h\<lparr> hc_leases := [] \<rparr>) st, 0)"
  by (simp add: materialize_hosted_lease_expirations_def Let_def on_hosted_def)

lemma demo_doorbell [simp]: "verify_doorbell demo_runtime demo_crypto demo_lane_world demo_request = Inr ()"
  by (simp add: verify_doorbell_def demo_runtime_def demo_crypto_def demo_request_def demo_identity_def
      request_document_sha256_def demo_lane_world_def)

lemma demo_ends: "sat_add 2000 (sat_mul 1800 1000) = (1802000 :: u64)"
  by (simp add: sat_add_def sat_mul_def)

lemma demo_decides: "\<exists>st'. demo_decide demo_loaded = Inr (st', Some demo_lease, True)"
proof -
  have "\<exists>st'. issue_lease_record demo_lane_world 2000 2000 2000 demo_loaded demo_request PresetTasks
      1800 ''owner'' demo_identity ''d1'' = Inr (st', demo_lease)"
    by (simp add: issue_lease_record_def Let_def default_hosted_control_def on_hosted_def
        normalized_parts retain_lease_tail_def demo_lease_def demo_ends)
      (simp add: demo_lane_world_def)
  moreover have "rt_daemon_id demo_runtime = ''d1''" by (simp add: demo_runtime_def)
  ultimately show ?thesis
    by (auto simp: decide_request_def demo_approval_def default_hosted_control_def Let_def unwrap_or_def
        default_hosted_policy_def min_lease_ttl_secs_def hard_max_lease_ttl_secs_def
        default_lease_ttl_secs_def demo_request_parts)
qed

lemma demo_view_clear: "\<not> guard_suspended demo_lane_world demo_view"
proof -
  obtain st' where d: "demo_decide demo_loaded = Inr (st', Some demo_lease, True)"
    using demo_decides by blast
  then obtain k st2 ttl where "issue_lease_record demo_lane_world 2000 2000 2000 demo_loaded
      (requests_of demo_loaded ! k) (ld_preset demo_lease) ttl ''owner'' demo_identity
      (rt_daemon_id demo_runtime) = Inr (st2, demo_lease)"
    and st': "st' = approve_at k (ld_lease_id demo_lease) st2"
    by (rule decision_issues)
  then have "hc_witnesses (is_hosted_control st') = empty_witnesses"
    unfolding st' by (simp add: issue_parts(2) normalized_witnesses default_hosted_control_def on_hosted_def)
  moreover have "fst (transact_state demo_clock demo_decide (Some demo_lane))
      = Some (normalize_iam 2001 2001 st')"
    using d by (auto simp: demo_loaded_def transact_state_def save_state_locked_def demo_clock_def split: prod.split)
  ultimately have "hc_witnesses (is_hosted_control demo_view) = empty_witnesses"
    by (simp only: demo_view_def load_state_unlocked_def option.case fst_conv normalize_iam_witnesses
        no_witnesses)
  then show ?thesis by simp
qed

theorem decision_bounded_witness:
  "\<exists>r. rq_request_id r = ''request:1'' \<and> rq_status r = RequestPending
     \<and> verify_doorbell demo_runtime demo_crypto demo_lane_world r = Inr ()
     \<and> PresetTasks \<le> rq_requested_preset r"
proof -
  obtain st' where "demo_decide demo_loaded = Inr (st', Some demo_lease, True)"
    using demo_decides by blast
  from decision_bounded [OF this demo_loaded_def] show ?thesis
    by (auto simp: demo_approval_def simp del: demo_loaded_parts)
qed

theorem issued_lease_works_witness:
  "\<exists>v. load_verified_lease demo_runtime demo_crypto demo_lane_world demo_view ''lease:h''
         ''https://d1.fleet.example'' ''https'' = Inr v
     \<and> (\<forall>ow op. de_allowed (evaluate_principal_operation_with_state demo_lane_world ow demo_view
            (vl_principal v) op) \<longleftrightarrow> preset_allows_operation PresetTasks op)"
proof -
  obtain st' where d: "demo_decide demo_loaded = Inr (st', Some demo_lease, True)"
    using demo_decides by blast
  have f: "fresh_for demo_lease demo_loaded"
    by (simp add: fresh_for_def default_hosted_control_def)
  have r: "rt_identity demo_runtime = Some demo_identity" by (simp add: demo_runtime_def)
  have c: "cr_verify_b64u demo_crypto (di_public_key demo_identity) msg (di_sign demo_identity msg)" for msg
    by (simp add: demo_crypto_def demo_identity_def)
  have "\<exists>v. load_verified_lease demo_runtime demo_crypto demo_lane_world demo_view (ld_lease_id demo_lease)
         (ld_fleet_origin demo_lease) ''https'' = Inr v \<and> vl_document v = demo_lease
     \<and> (\<forall>ow op. de_allowed (evaluate_principal_operation_with_state demo_lane_world ow demo_view
            (vl_principal v) op) \<longleftrightarrow> preset_allows_operation (ld_preset demo_lease) op)"
  proof (rule issued_lease_works [OF d [unfolded demo_loaded_def] f [unfolded demo_loaded_def] _ r])
    show "demo_view = fst (load_state_unlocked (2500, 2500) (fst (transact_state demo_clock
        (decide_request demo_runtime demo_crypto demo_lane_world 2000 2000 2000 2000 demo_identity
           demo_approval ''owner'') (Some demo_lane))))"
      by (rule demo_view_def)
  qed (use c demo_view_clear in \<open>simp_all add: demo_clock_def demo_lane_world_def\<close>)
  then show ?thesis by auto
qed

section \<open>The lease\<close>

definition demo_leased :: local_iam_state where
  "demo_leased = default_iam_state\<lparr> is_principals := [lease_principal 2000 ''h'' demo_request],
     is_grants := [lease_grant 2000 1802000 ''h'' PresetTasks],
     is_hosted_control := default_hosted_control\<lparr> hc_leases := [\<lparr> lr_document = demo_lease,
       lr_status = LeaseActive, lr_revoked_at_unix_ms = None, lr_revoked_by = None \<rparr>] \<rparr> \<rparr>"

definition demo_browser :: access_principal where
  "demo_browser = lease_access_principal (lease_principal 2000 ''h'' demo_request)
     (lease_grant 2000 1802000 ''h'' PresetTasks) demo_lease ''https''"

lemma demo_leased_parts:
  "is_principals demo_leased = [lease_principal 2000 ''h'' demo_request]"
  "is_grants demo_leased = [lease_grant 2000 1802000 ''h'' PresetTasks]"
  "leases_of demo_leased = [\<lparr> lr_document = demo_lease, lr_status = LeaseActive,
     lr_revoked_at_unix_ms = None, lr_revoked_by = None \<rparr>]"
  "hp_ceiling (policy_of demo_leased) = PresetTasks"
  "hc_witnesses (is_hosted_control demo_leased) = empty_witnesses"
  "is_schema_version demo_leased = 3"
  by (simp_all add: demo_leased_def default_hosted_control_def default_hosted_policy_def
      default_iam_parts)

lemma demo_leased_installed: "lease_installed demo_lease (lease_principal 2000 ''h'' demo_request)
    (lease_grant 2000 (ld_expires_unix_ms demo_lease) ''h'' (ld_preset demo_lease)) demo_leased"
  by (simp add: lease_installed_def demo_leased_parts lease_principal_def lease_grant_def)

lemma demo_unique: "unique_ids demo_leased"
  by (simp add: unique_ids_def demo_leased_parts)

lemma demo_preset: "hosted_preset_for_principal demo_lane_world demo_leased demo_browser = Inr PresetTasks"
  using installed_preset [OF demo_leased_installed, of demo_lane_world "''https''"]
  by (simp add: demo_browser_def demo_request_def demo_lane_world_def demo_leased_parts
      guard_clear [unfolded demo_lane_world_def])

lemma demo_browser_leased: "is_hosted_lease_principal demo_browser"
  using demo_preset by (simp add: hosted_preset_iff)

theorem hosted_lease_bounded_witness:
  "\<exists>l \<in> set (leases_of demo_leased). lr_status l = LeaseActive
     \<and> ld_principal_id (lr_document l) = ap_id demo_browser
     \<and> preset_allows_operation (ld_preset (lr_document l)) OpTask"
proof -
  have "de_allowed (evaluate_principal_operation_with_state demo_lane_world demo_origins demo_leased
      demo_browser OpTask)"
    using demo_preset demo_browser_leased by (simp add: evaluate_hosted_lease hosted_allowed_iff)
  from hosted_lease_bounded [OF demo_browser_leased this] show ?thesis by blast
qed

section \<open>Its end, and the walls\<close>

lemma demo_load_leased:
  "find (\<lambda>l. ld_lease_id (lr_document l) = ''lease:h'')
     (leases_of (fst (load_state_unlocked (2000, 2000) (Some demo_leased))))
   = Some \<lparr> lr_document = demo_lease, lr_status = LeaseActive, lr_revoked_at_unix_ms = None,
       lr_revoked_by = None \<rparr>"
  by (simp add: load_state_unlocked_def normalize_iam_def Let_def demo_leased_parts normalized_parts
      retain_lease_tail_def)

theorem revocation_is_final_witness:
  "\<not> de_allowed (evaluate_principal_operation_with_state demo_lane_world demo_origins
      (fst (load_state_unlocked (2500, 2500)
        (fst (transact_state demo_clock (revoke_lease demo_lane_world 2000 ''lease:h'' ''owner'')
               (Some demo_leased))))) demo_browser OpPresenceRead)"
proof -
  have l: "find (\<lambda>l. ld_lease_id (lr_document l) = ''lease:h'')
     (leases_of (fst (load_state_unlocked (ck_load demo_clock) (Some demo_leased))))
   = Some \<lparr> lr_document = demo_lease, lr_status = LeaseActive, lr_revoked_at_unix_ms = None,
       lr_revoked_by = None \<rparr>"
    using demo_load_leased by (simp add: demo_clock_def)
  then have "\<exists>stored. transact_state demo_clock (revoke_lease demo_lane_world 2000 ''lease:h'' ''owner'')
      (Some demo_leased) = (stored, Inr True)"
    by (auto simp: transact_state_def revoke_lease_def split: prod.split)
  then obtain stored where s: "transact_state demo_clock
      (revoke_lease demo_lane_world 2000 ''lease:h'' ''owner'') (Some demo_leased) = (stored, Inr True)"
    by blast
  have "ap_grant_id demo_browser = Some (ld_grant_id demo_lease)" "\<not> trusted_kind (ap_kind demo_browser)"
    by (simp_all add: demo_browser_def lease_access_principal_def lease_grant_def lease_principal_def
        hosted_principal_kind_def trusted_kind_def machine_kind_def)
  then show ?thesis
    using revocation_is_final [OF s demo_unique l, where p = demo_browser] s by simp
qed


theorem normalization_keeps_authority_witness:
  "filter pending_request (hc_requests (normalize_hosted (is_hosted_control demo_lane))) = [demo_request]"
  using normalization_keeps_authority [of "is_hosted_control demo_lane"]
  by (simp add: demo_lane_def demo_request_def)

theorem writers_mint_no_lease_witness:
  "hosted_preset_for_principal demo_lane_world demo_leased demo_browser = Inr PresetTasks"
proof (rule writers_mint_no_lease [OF demo_unique])
  show "hosted_preset_for_principal demo_lane_world (fst (iam_write demo_origins 2000 demo_browser
      (WriteTier None) demo_leased)) demo_browser = Inr PresetTasks"
    by (rule hosted_preset_transfer [OF demo_preset])
      (auto simp: set_daemon_tier_def Let_def split: prod.splits option.splits)
qed

end
