(* ===== verification/TextLines.thy ===== *)
theory TextLines
  imports Prelude
begin

text \<open>
  The lines of a text (\<open>str::lines\<close>), shared by the readers of the agenda's files and of HTTP
  headers: how they split over an append, and what terminating a torn last line changes.
\<close>

definition newline :: char where "newline = CHR 0x0A"

definition strip_cr :: "string \<Rightarrow> string" where
  "strip_cr l = (if l \<noteq> [] \<and> last l = CHR 0x0D then butlast l else l)"

text \<open>The bytes of a dash in the messages.\<close>

definition em_dash :: string where "em_dash = [CHR 0xE2, CHR 0x80, CHR 0x94]"

text \<open>\<open>str::lines\<close>: the pieces ended by a newline, less one carriage return, and an unended rest.\<close>

definition lines :: "string \<Rightarrow> string list" where
  "lines s = (let ps = split_on newline s
     in map strip_cr (butlast ps) @ (if last ps = [] then [] else [last ps]))"

definition ended :: "string \<Rightarrow> bool" where
  "ended s = (s = [] \<or> last s = newline)"

definition terminated :: "string \<Rightarrow> string" where
  "terminated s = (if ended s then s else s @ [newline])"

lemma split_on_append: "split_on d (a @ d # b) = split_on d a @ split_on d b"
proof (induction a)
  case (Cons c a)
  then show ?case by (cases "split_on d a") (auto split: list.split)
qed simp

lemma lines_newline: "lines (a @ newline # b) = map strip_cr (split_on newline a) @ lines b"
  by (simp add: lines_def Let_def split_on_append butlast_append)

lemma lines_append: "ended a \<Longrightarrow> lines (a @ b) = lines a @ lines b"
proof (cases "a = []")
  case False
  assume "ended a"
  with False obtain a' where a: "a = a' @ [newline]"
    by (metis ended_def append_butlast_last_id)
  have "lines (a' @ [newline]) = map strip_cr (split_on newline a')"
    using lines_newline [of a' "[]"] by (simp add: lines_def)
  then show ?thesis using lines_newline [of a' b] a by simp
qed (simp add: lines_def)

lemma split_on_absent: "d \<notin> set s \<Longrightarrow> split_on d s = [s]"
  by (induction s) auto

lemma lines_one: "newline \<notin> set body \<Longrightarrow> lines (body @ [newline]) = [strip_cr body]"
  using lines_newline [of body "[]"] by (simp add: split_on_absent) (simp add: lines_def)

lemma last_split_on: "s \<noteq> [] \<Longrightarrow> last s \<noteq> d \<Longrightarrow> last (split_on d s) \<noteq> []"
proof (induction s)
  case (Cons c s)
  then show ?case
    by (cases "s = []") (auto split: list.splits if_splits)
qed simp

text \<open>Terminating a torn last line changes no line, up to a carriage return that is trimmed.\<close>

lemma lines_terminated:
  assumes "\<not> ended s"
  shows "\<exists>ls l. lines s = ls @ [l] \<and> lines (terminated s) = ls @ [strip_cr l]"
proof -
  from assms have s: "s \<noteq> []" "last s \<noteq> newline" by (auto simp: ended_def)
  let ?ps = "split_on newline s"
  have "lines s = map strip_cr (butlast ?ps) @ [last ?ps]"
    using last_split_on [OF s] by (simp add: lines_def Let_def)
  moreover have "lines (terminated s) = map strip_cr ?ps"
    using lines_newline [of s "[]"] assms by (simp add: terminated_def lines_def)
  moreover have "map strip_cr ?ps = map strip_cr (butlast ?ps) @ [strip_cr (last ?ps)]"
    by (subst append_butlast_last_id [symmetric, OF split_on_nonempty]) (simp only: map_append list.map)
  ultimately show ?thesis by (intro exI conjI) (assumption, simp)
qed

text \<open>Trimming twice is trimming once.\<close>

lemma strip_all_suffix: "\<exists>p. s = p @ strip_all ws s"
proof (induction ws s rule: strip_all.induct)
  case (1 ws s)
  show ?case
  proof (cases "strip_one ws s")
    case None
    then show ?thesis by (subst strip_all.simps) simp
  next
    case (Some t)
    moreover have "strip_one ws s = Some t \<Longrightarrow> \<exists>p. s = p @ t"
      by (induction ws) (auto simp: starts_with_iff split: if_splits)
    ultimately obtain p where "s = p @ t" by blast
    moreover obtain p' where "t = p' @ strip_all ws t" using "1.IH" Some by blast
    ultimately have "s = (p @ p') @ strip_all ws t" by simp
    with Some show ?thesis by (subst strip_all.simps) auto
  qed
qed

lemma strip_one_prefix: "strip_one ws (s @ r) = None \<Longrightarrow> strip_one ws s = None"
  by (induction ws) (auto simp: starts_with_iff split: if_splits)

lemma trim_trim [simp]: "trim (trim s) = trim s"
proof -
  let ?t = "strip_all ws_seqs s"
  obtain p where p: "rev ?t = p @ rev (trim s)"
    using strip_all_suffix [of "rev ?t" "map rev ws_seqs"] by (auto simp: trim_def)
  then have "?t = trim s @ rev p" by (metis rev_append rev_rev_ident)
  moreover have "strip_one ws_seqs ?t = None" by simp
  ultimately have "strip_one ws_seqs (trim s) = None" by (metis strip_one_prefix)
  moreover have "strip_one (map rev ws_seqs) (rev (trim s)) = None" by (simp add: trim_def)
  ultimately have "strip_all ws_seqs (trim s) = trim s"
    "strip_all (map rev ws_seqs) (rev (trim s)) = rev (trim s)"
    by (subst strip_all.simps, simp)+
  then show ?thesis by (simp add: trim_def [of "trim s"])
qed

end
