(* ===== verification/GatewayRoutes.thy ===== *)
theory GatewayRoutes
  imports AccessPolicy
begin

text \<open>
  The declarative route table of the web gateway (\<open>src/src/bin/caller/gateway_routes.rs\<close>), row by
  row: method, path shape, who may call it, CORS posture, body policy and the twin on the
  dashboard tunnel; the matching of a request against it and everything derived from a match. The
  handler a row names and its documentation line select code and text outside the model.
\<close>

section \<open>Rows\<close>

datatype segment_spec = SegCapture string | SegLiteral string | SegOneOf "string list"

datatype path_pattern =
    PathExact string
  | PathUnder string
  | PathSegments string "segment_spec list"

datatype route_method = MethodGet | MethodPost | MethodDelete | MethodAny

fun method_matches :: "route_method \<Rightarrow> string \<Rightarrow> bool" where
  "method_matches MethodGet m = (m = ''GET'')"
| "method_matches MethodPost m = (m = ''POST'')"
| "method_matches MethodDelete m = (m = ''DELETE'')"
| "method_matches MethodAny m = True"

datatype route_authz =
    AuthzOperation peer_operation
  | AuthzPublic
  | AuthzMcpToken
  | AuthzPeerFederation

datatype cors_posture = CorsOwnOrigin | CorsFleetAllowlist | CorsFleetOrLoopback | CorsPublic

datatype body_policy = BodyNone | BodyDefault | BodyCapped nat | BodyStreaming

text \<open>The twin on the tunnel. Why an override diverges is documentation.\<close>

record tunnel_spec =
  ts_name :: string
  ts_op_override :: "peer_operation option"
  ts_advertised :: bool
  ts_upload :: bool

definition tunnel_method :: "string \<Rightarrow> tunnel_spec" where
  "tunnel_method name = \<lparr> ts_name = name, ts_op_override = None, ts_advertised = True,
     ts_upload = False \<rparr>"

definition tunnel_method_with_op :: "string \<Rightarrow> peer_operation \<Rightarrow> tunnel_spec" where
  "tunnel_method_with_op name op = \<lparr> ts_name = name, ts_op_override = Some op,
     ts_advertised = True, ts_upload = False \<rparr>"

definition tunnel_uploadable :: "string \<Rightarrow> tunnel_spec" where
  "tunnel_uploadable name = \<lparr> ts_name = name, ts_op_override = None, ts_advertised = True,
     ts_upload = True \<rparr>"

definition tunnel_upload_only :: "string \<Rightarrow> tunnel_spec" where
  "tunnel_upload_only name = \<lparr> ts_name = name, ts_op_override = None, ts_advertised = False,
     ts_upload = True \<rparr>"

record route =
  ro_method :: route_method
  ro_pattern :: path_pattern
  ro_authz :: route_authz
  ro_cors :: cors_posture
  ro_body :: body_policy
  ro_tunnel :: "tunnel_spec option"

definition with_tunnel :: "tunnel_spec \<Rightarrow> route \<Rightarrow> route" where
  "with_tunnel spec r = r\<lparr> ro_tunnel := Some spec \<rparr>"

definition op_route :: "route_method \<Rightarrow> path_pattern \<Rightarrow> peer_operation \<Rightarrow> body_policy \<Rightarrow> route" where
  "op_route meth pattern op body = \<lparr> ro_method = meth, ro_pattern = pattern,
     ro_authz = AuthzOperation op, ro_cors = CorsOwnOrigin, ro_body = body, ro_tunnel = None \<rparr>"

definition fleet_or_loopback_route ::
  "route_method \<Rightarrow> path_pattern \<Rightarrow> peer_operation \<Rightarrow> body_policy \<Rightarrow> route" where
  "fleet_or_loopback_route meth pattern op body = \<lparr> ro_method = meth, ro_pattern = pattern,
     ro_authz = AuthzOperation op, ro_cors = CorsFleetOrLoopback, ro_body = body, ro_tunnel = None \<rparr>"

definition fleet_route :: "route_method \<Rightarrow> path_pattern \<Rightarrow> peer_operation \<Rightarrow> body_policy \<Rightarrow> route" where
  "fleet_route meth pattern op body = \<lparr> ro_method = meth, ro_pattern = pattern,
     ro_authz = AuthzOperation op, ro_cors = CorsFleetAllowlist, ro_body = body, ro_tunnel = None \<rparr>"

definition public_route :: "route_method \<Rightarrow> path_pattern \<Rightarrow> body_policy \<Rightarrow> route" where
  "public_route meth pattern body = \<lparr> ro_method = meth, ro_pattern = pattern,
     ro_authz = AuthzPublic, ro_cors = CorsPublic, ro_body = body, ro_tunnel = None \<rparr>"

definition public_own_origin_route :: "route_method \<Rightarrow> path_pattern \<Rightarrow> body_policy \<Rightarrow> route" where
  "public_own_origin_route meth pattern body = \<lparr> ro_method = meth, ro_pattern = pattern,
     ro_authz = AuthzPublic, ro_cors = CorsOwnOrigin, ro_body = body, ro_tunnel = None \<rparr>"

definition federation_route :: "route_method \<Rightarrow> path_pattern \<Rightarrow> body_policy \<Rightarrow> route" where
  "federation_route meth pattern body = \<lparr> ro_method = meth, ro_pattern = pattern,
     ro_authz = AuthzPeerFederation, ro_cors = CorsOwnOrigin, ro_body = body, ro_tunnel = None \<rparr>"

lemmas route_shapes = op_route_def fleet_or_loopback_route_def fleet_route_def public_route_def
  public_own_origin_route_def federation_route_def with_tunnel_def tunnel_method_def
  tunnel_method_with_op_def tunnel_uploadable_def tunnel_upload_only_def

section \<open>Body caps\<close>

definition default_body_cap_bytes :: nat where "default_body_cap_bytes = 4 * 1024 * 1024"
definition hosted_control_request_body_cap_bytes :: nat where
  "hosted_control_request_body_cap_bytes = 64 * 1024"
definition mcp_body_cap_bytes :: nat where "mcp_body_cap_bytes = 16 * 1024 * 1024"
definition agenda_op_body_cap_bytes :: nat where "agenda_op_body_cap_bytes = 16 * 1024 * 1024"
definition github_integration_body_cap_bytes :: nat where
  "github_integration_body_cap_bytes = 64 * 1024"
definition github_manifest_start_body_cap_bytes :: nat where
  "github_manifest_start_body_cap_bytes = 4 * 1024"
definition diagnostics_body_cap_bytes :: nat where "diagnostics_body_cap_bytes = 16 * 1024 * 1024"
definition custom_domain_passkey_body_cap_bytes :: nat where
  "custom_domain_passkey_body_cap_bytes = 128 * 1024"
definition claude_auth_start_body_cap_bytes :: nat where "claude_auth_start_body_cap_bytes = 4 * 1024"
definition claude_auth_code_body_cap_bytes :: nat where "claude_auth_code_body_cap_bytes = 2 * 1024"
definition codex_auth_start_body_cap_bytes :: nat where "codex_auth_start_body_cap_bytes = 4 * 1024"
definition kimi_auth_start_body_cap_bytes :: nat where "kimi_auth_start_body_cap_bytes = 4 * 1024"
definition external_agent_install_body_cap_bytes :: nat where
  "external_agent_install_body_cap_bytes = 1024"
definition user_skills_add_body_cap_bytes :: nat where "user_skills_add_body_cap_bytes = 64 * 1024"
definition user_templates_add_body_cap_bytes :: nat where
  "user_templates_add_body_cap_bytes = user_skills_add_body_cap_bytes"
definition max_org_orl_bytes :: nat where "max_org_orl_bytes = 64 * 1024"
definition max_org_grant_doc_bytes :: nat where "max_org_grant_doc_bytes = 16 * 1024"
definition enroll_request_max_bytes :: nat where "enroll_request_max_bytes = 8 * 1024"
definition hosted_witness_report_body_cap_bytes :: nat where
  "hosted_witness_report_body_cap_bytes = 16 * 1024"
definition upload_max_bytes :: nat where "upload_max_bytes = 100 * 1024 * 1024"

section \<open>The table\<close>

definition routes_01 :: "route list" where
  "routes_01 = [
     with_tunnel (tunnel_method ''api_fs_stat'')
       (op_route MethodGet (PathExact ''/api/fs/stat'') OpFilesystemRead BodyNone),
     with_tunnel (tunnel_method ''api_fs_list'')
       (op_route MethodGet (PathExact ''/api/fs/list'') OpFilesystemRead BodyNone),
     with_tunnel (tunnel_method ''api_fs_read'')
       (op_route MethodGet (PathExact ''/api/fs/read'') OpFilesystemRead BodyNone),
     with_tunnel (tunnel_method ''api_fs_mkdir'')
       (op_route MethodPost (PathExact ''/api/fs/mkdir'') OpFilesystemWrite BodyDefault),
     with_tunnel (tunnel_uploadable ''api_fs_write'')
       (op_route MethodPost (PathExact ''/api/fs/write'') OpFilesystemWrite (BodyCapped ((upload_max_bytes + upload_max_bytes) div 2))),
     with_tunnel (tunnel_method ''api_fs_rename'')
       (op_route MethodPost (PathExact ''/api/fs/rename'') OpFilesystemWrite BodyDefault),
     with_tunnel (tunnel_method ''api_fs_delete'')
       (op_route MethodPost (PathExact ''/api/fs/delete'') OpFilesystemWrite BodyDefault),
     with_tunnel (tunnel_method ''api_transfer_jobs'')
       (op_route MethodGet (PathExact ''/api/transfers'') OpFilesystemRead BodyNone),
     with_tunnel (tunnel_method ''api_transfer_job_create'')
       (op_route MethodPost (PathExact ''/api/transfers'') OpFilesystemWrite BodyDefault),
     with_tunnel (tunnel_uploadable ''api_transfer_upload_chunk'')
       (op_route MethodPost (PathSegments ''/api/transfers'' [SegCapture ''id'', SegLiteral ''chunk'']) OpFilesystemWrite BodyStreaming),
     with_tunnel (tunnel_method ''api_transfer_upload_commit'')
       (op_route MethodPost (PathSegments ''/api/transfers'' [SegCapture ''id'', SegLiteral ''commit'']) OpFilesystemWrite BodyDefault),
     with_tunnel (tunnel_method ''api_transfer_job_delete'')
       (op_route MethodDelete (PathSegments ''/api/transfers'' [SegCapture ''id'']) OpFilesystemWrite BodyNone),
     op_route MethodPost (PathSegments ''/api/transfers'' [SegCapture ''id'', SegLiteral ''delete'']) OpFilesystemWrite BodyNone]"

definition routes_02 :: "route list" where
  "routes_02 = [
     with_tunnel (tunnel_method ''api_transfer_download_read'')
       (op_route MethodGet (PathSegments ''/api/transfers'' [SegCapture ''id'', SegLiteral ''download'']) OpFilesystemRead BodyNone),
     op_route MethodPost (PathExact ''/session'') OpCredentialsManage BodyNone,
     with_tunnel (tunnel_method ''api_session_current_changes'')
       (op_route MethodGet (PathUnder ''/api/session/current/changes'') OpSessionManage BodyNone),
     with_tunnel (tunnel_method ''api_session_current_history'')
       (op_route MethodGet (PathExact ''/api/session/current/history'') OpSessionManage BodyNone),
     with_tunnel (tunnel_method ''api_session_current_rollback'')
       (op_route MethodPost (PathExact ''/api/session/current/rollback'') OpSessionManage BodyDefault),
     with_tunnel (tunnel_method ''api_codex_cloud_workers'')
       (op_route MethodGet (PathExact ''/api/codex-cloud/workers'') OpStatsRead BodyNone),
     with_tunnel (tunnel_method ''api_codex_cloud_submit'')
       (op_route MethodPost (PathExact ''/api/codex-cloud/submit'') OpTask BodyDefault),
     public_route MethodPost (PathExact ''/api/codex-cloud/enroll'') (BodyCapped enroll_request_max_bytes),
     with_tunnel (tunnel_method ''api_plugins_list'')
       (op_route MethodGet (PathExact ''/api/plugins'') OpStatsRead BodyNone),
     with_tunnel (tunnel_method ''api_plugin_set_enabled'')
       (op_route MethodPost (PathSegments ''/api/plugins'' [SegCapture ''plugin_id'']) OpSettings (BodyCapped (4 * 1024))),
     with_tunnel (tunnel_method ''api_skills_list'')
       (op_route MethodGet (PathExact ''/api/skills'') OpStatsRead BodyNone)]"

definition routes_03 :: "route list" where
  "routes_03 = [
     with_tunnel (tunnel_method ''api_skill_set_enabled'')
       (op_route MethodPost (PathSegments ''/api/skills'' [SegCapture ''name'']) OpSettings (BodyCapped (4 * 1024))),
     with_tunnel (tunnel_method ''api_skill_add'')
       (op_route MethodPost (PathExact ''/api/skills'') OpSettings (BodyCapped user_skills_add_body_cap_bytes)),
     with_tunnel (tunnel_method ''api_skill_remove'')
       (op_route MethodDelete (PathSegments ''/api/skills'' [SegCapture ''name'']) OpSettings BodyNone),
     with_tunnel (tunnel_method ''api_agenda_list'')
       (op_route MethodGet (PathExact ''/api/agenda'') OpAgendaRead BodyNone),
     with_tunnel (tunnel_method ''api_agenda_item'')
       (op_route MethodGet (PathSegments ''/api/agenda/items'' [SegCapture ''item_id'']) OpAgendaRead BodyNone),
     with_tunnel (tunnel_method ''api_agenda_ops'')
       (op_route MethodGet (PathExact ''/api/agenda/ops'') OpAgendaRead BodyNone),
     with_tunnel (tunnel_method ''api_agenda_occurrences'')
       (op_route MethodGet (PathExact ''/api/agenda/occurrences'') OpAgendaRead BodyNone),
     with_tunnel (tunnel_method ''api_agenda_op'')
       (op_route MethodPost (PathExact ''/api/agenda/op'') OpAgendaWrite (BodyCapped agenda_op_body_cap_bytes)),
     with_tunnel (tunnel_method ''api_agenda_definitions'')
       (op_route MethodGet (PathExact ''/api/agenda/definitions'') OpAgendaRead BodyNone),
     with_tunnel (tunnel_method ''api_agenda_definition_add'')
       (op_route MethodPost (PathExact ''/api/agenda/definitions'') OpSettings (BodyCapped user_templates_add_body_cap_bytes))]"

definition routes_04 :: "route list" where
  "routes_04 = [
     with_tunnel (tunnel_method ''api_agenda_definition_remove'')
       (op_route MethodDelete (PathSegments ''/api/agenda/definitions'' [SegCapture ''name'']) OpSettings BodyNone),
     with_tunnel (tunnel_method ''api_agenda_sealed'')
       (op_route MethodGet (PathSegments ''/api/agenda/sealed'' [SegCapture ''sha256'']) OpAgendaRead BodyNone),
     with_tunnel (tunnel_method ''api_agenda_stamp'')
       (op_route MethodPost (PathExact ''/api/agenda/stamp'') OpAgendaWrite BodyDefault),
     op_route MethodPost (PathExact ''/api/daemon/takeover'') OpSettings (BodyCapped (4 * 1024)),
     with_tunnel (tunnel_method ''api_daemon_handover'')
       (op_route MethodGet (PathExact ''/api/daemon/handover'') OpStatsRead BodyNone),
     op_route MethodPost (PathExact ''/api/daemon/update-lane/check'') OpSettings (BodyCapped (4 * 1024)),
     op_route MethodPost (PathExact ''/api/daemon/update-lane/produce'') OpSettings (BodyCapped (4 * 1024)),
     op_route MethodPost (PathExact ''/api/daemon/update-swap'') OpSettings (BodyCapped (4 * 1024)),
     op_route MethodPost (PathExact ''/api/daemon/update-swap/claim'') OpSettings (BodyCapped (4 * 1024)),
     op_route MethodPost (PathExact ''/api/daemon/update-swap/result'') OpSettings (BodyCapped (4 * 1024)),
     op_route MethodPost (PathExact ''/api/daemon/successor-exec'') OpSettings (BodyCapped (4 * 1024))]"

definition routes_05 :: "route list" where
  "routes_05 = [
     op_route MethodGet (PathSegments ''/api/agenda/blobs'' [SegCapture ''item_id'', SegCapture ''blob_id'', SegLiteral ''raw'']) OpAgendaRead BodyNone,
     with_tunnel (tunnel_method ''api_agenda_ref_drift'')
       (op_route MethodGet (PathSegments ''/api/agenda/items'' [SegCapture ''item_id'', SegLiteral ''refs'', SegLiteral ''drift'']) OpAgendaRead BodyNone),
     with_tunnel (tunnel_method ''api_agenda_ref_content'')
       (op_route MethodGet (PathSegments ''/api/agenda/items'' [SegCapture ''item_id'', SegLiteral ''refs'', SegLiteral ''content'']) OpAgendaRead BodyNone),
     with_tunnel (tunnel_method ''api_agenda_pr_state'')
       (op_route MethodGet (PathSegments ''/api/agenda/items'' [SegCapture ''item_id'', SegLiteral ''pr-state'']) OpAgendaRead BodyNone),
     with_tunnel (tunnel_method ''api_agenda_reminder_policy'')
       (op_route MethodPost (PathExact ''/api/agenda/reminders/policy'') OpSettings BodyDefault),
     with_tunnel (tunnel_method ''api_memory_search'')
       (op_route MethodGet (PathExact ''/api/memory/search'') OpMemoryRead BodyNone),
     with_tunnel (tunnel_method ''api_memory_claim'')
       (op_route MethodGet (PathExact ''/api/memory/claim'') OpMemoryRead BodyNone),
     with_tunnel (tunnel_method ''api_memory_propose'')
       (op_route MethodPost (PathExact ''/api/memory/propose'') OpMemoryWrite BodyDefault),
     with_tunnel (tunnel_method ''api_memory_judge'')
       (op_route MethodPost (PathExact ''/api/memory/judge'') OpMemoryWrite BodyDefault),
     with_tunnel (tunnel_method ''api_session_current_redo'')
       (op_route MethodPost (PathExact ''/api/session/current/redo'') OpSessionManage BodyDefault),
     with_tunnel (tunnel_method ''api_session_current_prune'')
       (op_route MethodPost (PathExact ''/api/session/current/prune'') OpSessionManage BodyDefault)]"

definition routes_06 :: "route list" where
  "routes_06 = [
     with_tunnel (tunnel_method ''api_session_current_agent_output'')
       (op_route MethodPost (PathExact ''/api/session/current/agent-output'') OpSessionManage BodyDefault),
     with_tunnel (tunnel_upload_only ''api_session_current_upload'')
       (op_route MethodPost (PathExact ''/api/session/current/uploads'') OpSessionManage BodyStreaming),
     with_tunnel (tunnel_method ''api_session_current_uploads'')
       (op_route MethodGet (PathExact ''/api/session/current/uploads'') OpSessionManage BodyNone),
     with_tunnel (tunnel_method ''api_session_current_upload_raw'')
       (op_route MethodGet (PathSegments ''/api/session/current/uploads'' [SegCapture ''id'', SegLiteral ''raw'']) OpSessionManage BodyNone),
     op_route MethodGet (PathUnder ''/api/session/current/uploads'') OpSessionManage BodyNone,
     with_tunnel (tunnel_method ''api_session_current_upload_delete'')
       (op_route MethodDelete (PathSegments ''/api/session/current/uploads'' [SegCapture ''upload_id'']) OpSessionManage BodyNone),
     with_tunnel (tunnel_method ''api_session_delete'')
       (op_route MethodDelete (PathSegments ''/api/session'' [SegCapture ''id'']) OpSessionManage BodyNone),
     op_route MethodDelete (PathSegments ''/api/session'' [SegCapture ''id'', SegCapture ''target'']) OpSessionManage BodyNone,
     op_route MethodDelete (PathSegments ''/api/session'' [SegCapture ''id'', SegCapture ''target'', SegLiteral ''delete'']) OpSessionManage BodyNone,
     op_route MethodPost (PathSegments ''/api/session'' [SegCapture ''id'', SegLiteral ''delete'']) OpSessionManage BodyNone,
     op_route MethodPost (PathSegments ''/api/session'' [SegCapture ''id'', SegCapture ''target'', SegLiteral ''delete'']) OpSessionManage BodyNone]"

definition routes_07 :: "route list" where
  "routes_07 = [
     with_tunnel (tunnel_method ''api_session_agent_output'')
       (op_route MethodPost (PathSegments ''/api/session'' [SegCapture ''id'', SegLiteral ''agent-output'']) OpSessionInspect BodyDefault),
     with_tunnel (tunnel_method ''api_session_fork_points'')
       (op_route MethodGet (PathSegments ''/api/session'' [SegCapture ''id'', SegLiteral ''fork-points'']) OpSessionInspect BodyNone),
     with_tunnel (tunnel_method ''api_session_background_tasks'')
       (op_route MethodGet (PathSegments ''/api/session'' [SegCapture ''id'', SegLiteral ''background-tasks'']) OpSessionInspect BodyNone),
     with_tunnel (tunnel_method ''api_session_background_task_output'')
       (op_route MethodGet (PathSegments ''/api/session'' [SegCapture ''id'', SegLiteral ''background-tasks'', SegCapture ''task'', SegLiteral ''output'']) OpSessionInspect BodyNone),
     op_route MethodGet (PathUnder ''/api/session/current'') OpSessionManage BodyNone,
     op_route MethodPost (PathUnder ''/api/session/current'') OpSessionManage BodyNone,
     with_tunnel (tunnel_method ''api_session_context_snapshot'')
       (op_route MethodGet (PathSegments ''/api/session'' [SegCapture ''id'', SegLiteral ''context-snapshot'']) OpSessionInspect BodyNone),
     with_tunnel (tunnel_method ''api_session_report'')
       (op_route MethodGet (PathSegments ''/api/session'' [SegCapture ''id'', SegLiteral ''report'']) OpSessionInspect BodyNone),
     with_tunnel (tunnel_method ''api_session_recordings'')
       (op_route MethodGet (PathSegments ''/api/session'' [SegCapture ''id'', SegLiteral ''recordings'']) OpSessionInspect BodyNone)]"

definition routes_08 :: "route list" where
  "routes_08 = [
     with_tunnel (tunnel_method ''api_session_recording_asset'')
       (op_route MethodGet (PathSegments ''/api/session'' [SegCapture ''id'', SegLiteral ''recordings'', SegCapture ''stream'', SegCapture ''asset'']) OpSessionInspect BodyNone),
     with_tunnel (tunnel_method ''api_session_frame_asset'')
       (op_route MethodGet (PathSegments ''/api/session'' [SegCapture ''id'', SegLiteral ''frames'', SegCapture ''filename'']) OpSessionInspect BodyNone),
     with_tunnel (tunnel_method ''api_session_detail'')
       (op_route MethodGet (PathSegments ''/api/session'' [SegCapture ''id'']) OpSessionInspect BodyNone),
     op_route MethodGet (PathUnder ''/api/session'') OpSessionInspect BodyNone,
     op_route MethodPost (PathUnder ''/api/session'') OpSessionManage BodyNone,
     with_tunnel (tunnel_method ''api_managed_context_anchors'')
       (op_route MethodGet (PathExact ''/api/managed-context/anchors'') OpSessionInspect BodyNone),
     with_tunnel (tunnel_method ''api_managed_context_records'')
       (op_route MethodGet (PathExact ''/api/managed-context/records'') OpSessionInspect BodyNone),
     with_tunnel (tunnel_method ''api_managed_context_fission'')
       (op_route MethodGet (PathExact ''/api/managed-context/fission'') OpSessionInspect BodyNone),
     with_tunnel (tunnel_method ''api_worktrees_inspect'')
       (op_route MethodPost (PathExact ''/api/worktrees/inspect'') OpSessionInspect BodyDefault),
     with_tunnel (tunnel_method ''api_worktrees_remove'')
       (op_route MethodPost (PathExact ''/api/worktrees/remove'') OpSessionManage BodyDefault),
     with_tunnel (tunnel_method ''api_worktrees_clean'')
       (op_route MethodPost (PathExact ''/api/worktrees/clean'') OpSessionManage BodyDefault),
     with_tunnel (tunnel_method ''api_worktrees_merge'')
       (op_route MethodPost (PathExact ''/api/worktrees/merge'') OpSessionManage BodyDefault),
     with_tunnel (tunnel_method ''api_worktrees_scan'')
       (op_route MethodPost (PathExact ''/api/worktrees/scan'') OpSessionManage BodyNone),
     with_tunnel (tunnel_method ''api_worktrees'')
       (op_route MethodGet (PathExact ''/api/worktrees'') OpSessionInspect BodyNone)]"

definition routes_09 :: "route list" where
  "routes_09 = [
     with_tunnel (tunnel_method ''api_sessions_stream'')
       (fleet_or_loopback_route MethodGet (PathExact ''/api/sessions/stream'') OpSessionInspect BodyNone),
     with_tunnel (tunnel_method ''api_sessions_search'')
       (op_route MethodGet (PathExact ''/api/sessions/search'') OpSessionInspect BodyNone),
     with_tunnel (tunnel_method ''api_sessions_message_search'')
       (op_route MethodGet (PathExact ''/api/sessions/message-search'') OpSessionInspect BodyNone),
     with_tunnel (tunnel_method ''api_sessions'')
       (fleet_or_loopback_route MethodGet (PathExact ''/api/sessions'') OpSessionInspect BodyNone),
     with_tunnel (tunnel_method ''api_project_root'')
       (op_route MethodGet (PathExact ''/api/project-root'') OpSettings BodyNone),
     with_tunnel (tunnel_method ''api_settings_save'')
       (op_route MethodPost (PathExact ''/api/settings'') OpSettings BodyDefault),
     with_tunnel (tunnel_method ''api_settings'')
       (op_route MethodGet (PathExact ''/api/settings'') OpSettings BodyNone),
     with_tunnel (tunnel_method ''api_api_keys_save'')
       (op_route MethodPost (PathExact ''/api/api-keys'') OpCredentialsManage BodyDefault),
     with_tunnel (tunnel_method ''api_key_status'')
       (op_route MethodGet (PathExact ''/api/api-key-status'') OpSettings BodyNone),
     with_tunnel (tunnel_method ''api_github_integration_save'')
       (op_route MethodPost (PathExact ''/api/integrations/github'') OpCredentialsManage (BodyCapped github_integration_body_cap_bytes)),
     with_tunnel (tunnel_method ''api_github_integration_status'')
       (op_route MethodGet (PathExact ''/api/integrations/github/status'') OpSettings BodyNone),
     with_tunnel (tunnel_method ''api_github_integration_remove'')
       (op_route MethodDelete (PathExact ''/api/integrations/github'') OpCredentialsManage BodyNone),
     op_route MethodPost (PathExact ''/api/integrations/github/manifest-start'') OpCredentialsManage (BodyCapped github_manifest_start_body_cap_bytes)]"

definition routes_10 :: "route list" where
  "routes_10 = [
     public_own_origin_route MethodGet (PathExact ''/api/integrations/github/callback'') BodyNone,
     with_tunnel (tunnel_method ''api_github_installations'')
       (op_route MethodGet (PathExact ''/api/integrations/github/installations'') OpCredentialsManage BodyNone),
     with_tunnel (tunnel_method ''api_github_repositories'')
       (op_route MethodGet (PathExact ''/api/integrations/github/repositories'') OpCredentialsManage BodyNone),
     op_route MethodGet (PathExact ''/api/local-daemons/tokens'') OpCredentialsManage BodyNone,
     with_tunnel (tunnel_method ''api_claude_auth_start'')
       (op_route MethodPost (PathExact ''/api/claude-auth/start'') OpCredentialsManage (BodyCapped claude_auth_start_body_cap_bytes)),
     with_tunnel (tunnel_method ''api_claude_auth_status'')
       (op_route MethodGet (PathExact ''/api/claude-auth/status'') OpCredentialsManage BodyNone),
     with_tunnel (tunnel_method ''api_claude_auth_code'')
       (op_route MethodPost (PathExact ''/api/claude-auth/code'') OpCredentialsManage (BodyCapped claude_auth_code_body_cap_bytes)),
     with_tunnel (tunnel_method ''api_claude_auth_cancel'')
       (op_route MethodPost (PathExact ''/api/claude-auth/cancel'') OpCredentialsManage BodyNone),
     with_tunnel (tunnel_method ''api_codex_auth_start'')
       (op_route MethodPost (PathExact ''/api/codex-auth/start'') OpCredentialsManage (BodyCapped codex_auth_start_body_cap_bytes)),
     with_tunnel (tunnel_method ''api_codex_auth_status'')
       (op_route MethodGet (PathExact ''/api/codex-auth/status'') OpCredentialsManage BodyNone),
     with_tunnel (tunnel_method ''api_codex_auth_cancel'')
       (op_route MethodPost (PathExact ''/api/codex-auth/cancel'') OpCredentialsManage BodyNone),
     with_tunnel (tunnel_method ''api_kimi_auth_start'')
       (op_route MethodPost (PathExact ''/api/kimi-auth/start'') OpCredentialsManage (BodyCapped kimi_auth_start_body_cap_bytes)),
     with_tunnel (tunnel_method ''api_kimi_auth_status'')
       (op_route MethodGet (PathExact ''/api/kimi-auth/status'') OpCredentialsManage BodyNone),
     with_tunnel (tunnel_method ''api_kimi_auth_cancel'')
       (op_route MethodPost (PathExact ''/api/kimi-auth/cancel'') OpCredentialsManage BodyNone)]"

definition routes_11 :: "route list" where
  "routes_11 = [
     with_tunnel (tunnel_method ''api_external_agents'')
       (op_route MethodGet (PathExact ''/api/external-agents'') OpSessionInspect BodyNone),
     with_tunnel (tunnel_method ''api_external_agent_install'')
       (op_route MethodPost (PathExact ''/api/external-agents/install'') OpSettings (BodyCapped external_agent_install_body_cap_bytes)),
     with_tunnel (tunnel_method ''api_diagnostics_visual_freshness'')
       (op_route MethodPost (PathExact ''/api/diagnostics/visual-freshness'') OpDisplayInput (BodyCapped diagnostics_body_cap_bytes)),
     with_tunnel (tunnel_method ''api_displays'')
       (op_route MethodGet (PathExact ''/api/displays'') OpDisplayView BodyNone),
     public_route MethodAny (PathUnder ''/api/peer-pairing/requests'') BodyStreaming,
     public_route MethodGet (PathExact ''/api/hosted-control/bootstrap'') BodyNone,
     public_route MethodPost (PathExact ''/api/hosted-control/requests'') (BodyCapped hosted_control_request_body_cap_bytes),
     public_route MethodPost (PathExact ''/api/hosted-control/requests/poll'') (BodyCapped hosted_control_request_body_cap_bytes),
     public_route MethodPost (PathExact ''/api/hosted-control/anchor-decisions'') BodyDefault,
     public_route MethodGet (PathExact ''/api/hosted-control/certificate-ledger'') BodyNone,
     public_route MethodPost (PathExact ''/api/hosted-control/witness-reports'') (BodyCapped hosted_witness_report_body_cap_bytes),
     public_own_origin_route MethodPost (PathExact ''/api/hosted-control/passkey/register/start'') (BodyCapped custom_domain_passkey_body_cap_bytes),
     public_own_origin_route MethodPost (PathExact ''/api/hosted-control/passkey/register/finish'') (BodyCapped custom_domain_passkey_body_cap_bytes),
     public_own_origin_route MethodPost (PathExact ''/api/hosted-control/passkey/start'') (BodyCapped custom_domain_passkey_body_cap_bytes),
     public_own_origin_route MethodPost (PathExact ''/api/hosted-control/passkey/finish'') (BodyCapped custom_domain_passkey_body_cap_bytes),
     op_route MethodPost (PathExact ''/api/hosted-control/ws-ticket'') OpPresenceRead BodyNone,
     with_tunnel (tunnel_method_with_op ''api_access_org_present'' OpAccessInspect)
       (public_route MethodPost (PathExact ''/api/access/org-grants'') (BodyCapped max_org_grant_doc_bytes))]"

definition routes_12 :: "route list" where
  "routes_12 = [
     with_tunnel (tunnel_method_with_op ''api_access_org_orl'' OpAccessInspect)
       (public_route MethodGet (PathSegments ''/api/access/orgs'' [SegCapture ''org_handle'', SegLiteral ''revocations'']) BodyNone),
     with_tunnel (tunnel_method_with_op ''api_access_org_orl_apply'' OpPresenceRead)
       (public_route MethodPost (PathExact ''/api/access/orgs/revocations/apply'') (BodyCapped max_org_orl_bytes)),
     with_tunnel (tunnel_method_with_op ''api_access_org_renew'' OpAccessInspect)
       (public_route MethodPost (PathExact ''/api/access/org-grants/renew'') (BodyCapped max_org_grant_doc_bytes)),
     with_tunnel (tunnel_method ''api_access_iam_upsert_user_client_grant'')
       (fleet_route MethodPost (PathExact ''/api/access/iam/user-client-grants'') OpAccessManage BodyDefault),
     with_tunnel (tunnel_method ''api_access_iam_update_grant'')
       (fleet_route MethodPost (PathExact ''/api/access/iam/grants/update'') OpAccessManage BodyDefault),
     with_tunnel (tunnel_method ''api_access_org_trust'')
       (fleet_route MethodPost (PathExact ''/api/access/orgs/trust'') OpAccessManage BodyDefault),
     with_tunnel (tunnel_method ''api_access_org_revoke'')
       (fleet_route MethodPost (PathExact ''/api/access/orgs/revoke'') OpAccessManage BodyDefault),
     with_tunnel (tunnel_method ''api_access_org_issue'')
       (op_route MethodPost (PathExact ''/api/access/org-grants/issue'') OpAccessManage BodyDefault),
     with_tunnel (tunnel_method ''api_access_org_revoke_member'')
       (op_route MethodPost (PathExact ''/api/access/org-grants/revoke-member'') OpAccessManage BodyDefault),
     with_tunnel (tunnel_method ''api_access_org_issuer_init'')
       (op_route MethodPost (PathExact ''/api/access/org-grants/issuers/init'') OpAccessManage BodyDefault),
     with_tunnel (tunnel_method ''api_access_org_issuer_delegate'')
       (op_route MethodPost (PathExact ''/api/access/org-grants/issuers/delegate'') OpAccessManage BodyDefault),
     with_tunnel (tunnel_method ''api_access_org_issuer_install'')
       (op_route MethodPost (PathExact ''/api/access/org-grants/issuers/install'') OpAccessManage BodyDefault),
     with_tunnel (tunnel_method ''api_access_enrollment_decide'')
       (fleet_route MethodPost (PathExact ''/api/access/enrollment-requests/decide'') OpAccessManage BodyDefault),
     with_tunnel (tunnel_method ''api_access_enrollment_requests'')
       (fleet_route MethodGet (PathExact ''/api/access/enrollment-requests'') OpAccessInspect BodyNone)]"

definition routes_13 :: "route list" where
  "routes_13 = [
     with_tunnel (tunnel_method ''api_access_iam_state'')
       (fleet_route MethodGet (PathExact ''/api/access/iam/state'') OpAccessInspect BodyNone),
     with_tunnel (tunnel_method ''api_access_overview'')
       (fleet_route MethodGet (PathExact ''/api/access/overview'') OpAccessInspect BodyNone),
     op_route MethodGet (PathExact ''/api/access/hosted-control'') OpAccessManage BodyNone,
     op_route MethodPost (PathUnder ''/api/access/hosted-control'') OpAccessManage BodyDefault,
     with_tunnel (tunnel_method ''api_access_connect_status'')
       (fleet_route MethodGet (PathExact ''/api/access/connect/status'') OpAccessInspect BodyNone),
     with_tunnel (tunnel_method ''api_access_connect_claim_code'')
       (fleet_route MethodGet (PathExact ''/api/access/connect/claim-code'') OpAccessManage BodyNone),
     with_tunnel (tunnel_method ''api_access_connect_config'')
       (fleet_route MethodPost (PathExact ''/api/access/connect/config'') OpAccessManage BodyDefault),
     with_tunnel (tunnel_method ''api_access_connect_unclaim'')
       (fleet_route MethodPost (PathExact ''/api/access/connect/unclaim'') OpAccessManage BodyDefault),
     with_tunnel (tunnel_method ''api_access_set_tier'')
       (fleet_route MethodPost (PathExact ''/api/access/tier'') OpAccessManage BodyDefault),
     with_tunnel (tunnel_method ''api_fleet_cert_request'')
       (fleet_route MethodPost (PathExact ''/api/access/fleet-cert/request'') OpAccessManage BodyDefault),
     with_tunnel (tunnel_method ''api_dashboard_targets'')
       (op_route MethodGet (PathExact ''/api/dashboard/targets'') OpAccessInspect BodyNone),
     with_tunnel (tunnel_method ''api_dashboard_tabs'')
       (op_route MethodGet (PathExact ''/api/dashboard/tabs'') OpAccessInspect BodyNone),
     with_tunnel (tunnel_method ''api_peer_pairing_invite'')
       (federation_route MethodPost (PathSegments ''/api/peers'' [SegLiteral ''pairing'', SegLiteral ''invite'']) BodyDefault),
     with_tunnel (tunnel_method ''api_peer_pairing_request_access'')
       (federation_route MethodPost (PathSegments ''/api/peers'' [SegLiteral ''pairing'', SegLiteral ''request-access'']) BodyDefault)]"

definition routes_14 :: "route list" where
  "routes_14 = [
     with_tunnel (tunnel_method ''api_peer_pairing_request_access_poll'')
       (federation_route MethodPost (PathSegments ''/api/peers'' [SegLiteral ''pairing'', SegLiteral ''request-access'', SegLiteral ''poll'']) BodyDefault),
     with_tunnel (tunnel_method ''api_peer_pairing_requests'')
       (federation_route MethodGet (PathSegments ''/api/peers'' [SegLiteral ''pairing'', SegLiteral ''requests'']) BodyDefault),
     with_tunnel (tunnel_method ''api_peer_pairing_identities'')
       (federation_route MethodGet (PathSegments ''/api/peers'' [SegLiteral ''pairing'', SegLiteral ''identities'']) BodyDefault),
     with_tunnel (tunnel_method ''api_peer_pairing_identity_revoke'')
       (federation_route MethodPost (PathSegments ''/api/peers'' [SegLiteral ''pairing'', SegLiteral ''identities'', SegLiteral ''revoke'']) BodyDefault),
     with_tunnel (tunnel_method ''api_peer_pairing_request_decision'')
       (federation_route MethodPost (PathSegments ''/api/peers'' [SegLiteral ''pairing'', SegLiteral ''requests'', SegCapture ''code'', SegCapture ''decision'']) BodyDefault),
     with_tunnel (tunnel_method ''api_peer_pairing_join'')
       (federation_route MethodPost (PathSegments ''/api/peers'' [SegLiteral ''pairing'', SegLiteral ''join'']) BodyDefault),
     with_tunnel (tunnel_method ''api_peers'')
       (federation_route MethodGet (PathExact ''/api/peers'') BodyDefault),
     with_tunnel (tunnel_method ''api_peer_add'')
       (federation_route MethodPost (PathExact ''/api/peers'') BodyDefault),
     with_tunnel (tunnel_method ''api_peer_remove'')
       (federation_route MethodDelete (PathExact ''/api/peers'') BodyDefault),
     with_tunnel (tunnel_method ''api_peer_eligible'')
       (federation_route MethodGet (PathExact ''/api/peers/eligible'') BodyDefault),
     with_tunnel (tunnel_method ''api_peer_message'')
       (federation_route MethodPost (PathSegments ''/api/peers'' [SegCapture ''peer_id'', SegLiteral ''message'']) BodyDefault),
     with_tunnel (tunnel_method ''api_peer_task'')
       (federation_route MethodPost (PathSegments ''/api/peers'' [SegCapture ''peer_id'', SegLiteral ''task'']) BodyDefault)]"

definition routes_15 :: "route list" where
  "routes_15 = [
     with_tunnel (tunnel_method ''api_peer_approval'')
       (federation_route MethodPost (PathSegments ''/api/peers'' [SegCapture ''peer_id'', SegLiteral ''approval'']) BodyDefault),
     with_tunnel (tunnel_method ''api_peer_session_control'')
       (federation_route MethodPost (PathSegments ''/api/peers'' [SegCapture ''peer_id'', SegLiteral ''session-control'']) BodyDefault),
     with_tunnel (tunnel_method ''api_peer_session_detail'')
       (federation_route MethodGet (PathSegments ''/api/peers'' [SegCapture ''peer_id'', SegLiteral ''session-detail'']) BodyDefault),
     with_tunnel (tunnel_method ''api_peer_webrtc_signal'')
       (federation_route MethodPost (PathSegments ''/api/peers'' [SegCapture ''peer_id'', SegLiteral ''webrtc'']) BodyDefault),
     with_tunnel (tunnel_method ''api_peer_file_transfer_signal'')
       (federation_route MethodPost (PathSegments ''/api/peers'' [SegCapture ''peer_id'', SegLiteral ''file-transfer-webrtc'']) BodyDefault),
     with_tunnel (tunnel_method ''api_peer_dashboard_control_signal'')
       (federation_route MethodPost (PathSegments ''/api/peers'' [SegCapture ''peer_id'', SegLiteral ''dashboard-control-webrtc'']) BodyDefault),
     federation_route MethodAny (PathUnder ''/api/peers'') BodyDefault,
     with_tunnel (tunnel_method ''api_coordinator_route'')
       (federation_route MethodPost (PathExact ''/api/coordinator/route'') BodyDefault),
     \<lparr> ro_method = MethodPost, ro_pattern = PathExact ''/mcp'', ro_authz = AuthzMcpToken, ro_cors = CorsOwnOrigin,
         ro_body = BodyCapped mcp_body_cap_bytes, ro_tunnel = None \<rparr>,
     \<lparr> ro_method = MethodGet, ro_pattern = PathExact ''/mcp'', ro_authz = AuthzMcpToken, ro_cors = CorsOwnOrigin,
         ro_body = BodyNone, ro_tunnel = None \<rparr>,
     \<lparr> ro_method = MethodDelete, ro_pattern = PathExact ''/mcp'', ro_authz = AuthzMcpToken, ro_cors = CorsOwnOrigin,
         ro_body = BodyNone, ro_tunnel = None \<rparr>]"

text \<open>Match order is declaration order.\<close>

definition ROUTES :: "route list" where
  "ROUTES = routes_01 @ routes_02 @ routes_03 @ routes_04 @ routes_05 @ routes_06 @ routes_07
     @ routes_08 @ routes_09 @ routes_10 @ routes_11 @ routes_12 @ routes_13 @ routes_14 @ routes_15"

lemmas route_rows = routes_01_def routes_02_def routes_03_def routes_04_def routes_05_def routes_06_def routes_07_def routes_08_def routes_09_def routes_10_def routes_11_def routes_12_def routes_13_def routes_14_def routes_15_def

section \<open>Matching\<close>

fun parts_match :: "segment_spec list \<Rightarrow> string list \<Rightarrow> string list option" where
  "parts_match [] [] = Some []"
| "parts_match (spec # specs) (part # parts) =
     (if part = [] then None
      else (case spec of
          SegCapture _ \<Rightarrow> map_option ((#) part) (parts_match specs parts)
        | SegLiteral literal \<Rightarrow> if part \<noteq> literal then None else parts_match specs parts
        | SegOneOf options \<Rightarrow> if part \<notin> set options then None
            else map_option ((#) part) (parts_match specs parts)))"
| "parts_match _ _ = None"

definition segments_match :: "string \<Rightarrow> string \<Rightarrow> segment_spec list \<Rightarrow> string list option" where
  "segments_match req_path stem specs =
     Option.bind (Option.bind (strip_prefix stem req_path) (strip_prefix ''/'')) (\<lambda>rest.
       let parts = split_on (CHR 0x2F) rest in
       if length parts \<noteq> length specs then None else parts_match specs parts)"

text \<open>The captures of a match, in declaration order.\<close>

fun pattern_matches :: "path_pattern \<Rightarrow> string \<Rightarrow> string list option" where
  "pattern_matches (PathExact stem) req_path = (if req_path = stem then Some [] else None)"
| "pattern_matches (PathUnder stem) req_path = (if under req_path stem then Some [] else None)"
| "pattern_matches (PathSegments stem specs) req_path = segments_match req_path stem specs"

fun match_in :: "route list \<Rightarrow> string \<Rightarrow> string \<Rightarrow> (route \<times> string list) option" where
  "match_in [] req_method req_path = None"
| "match_in (r # rs) req_method req_path =
     (if \<not> method_matches (ro_method r) req_method then match_in rs req_method req_path
      else (case pattern_matches (ro_pattern r) req_path of
          Some captures \<Rightarrow> Some (r, captures)
        | None \<Rightarrow> match_in rs req_method req_path))"

definition match_route :: "string \<Rightarrow> string \<Rightarrow> (route \<times> string list) option" where
  "match_route req_method req_path = match_in ROUTES req_method req_path"

datatype table_classification = Matched "peer_operation option" | NoMatch

definition route_operation :: "route \<Rightarrow> string \<Rightarrow> string \<Rightarrow> peer_operation option" where
  "route_operation r req_method req_path = (case ro_authz r of
     AuthzOperation op \<Rightarrow> Some op
   | AuthzPublic \<Rightarrow> None
   | AuthzMcpToken \<Rightarrow> None
   | AuthzPeerFederation \<Rightarrow> federation_http_operation req_method req_path)"

definition classify :: "string \<Rightarrow> string \<Rightarrow> table_classification" where
  "classify req_method req_path = (case match_route req_method req_path of
     Some (r, _) \<Rightarrow> Matched (route_operation r req_method req_path)
   | None \<Rightarrow> NoMatch)"

definition dashboard_http_operation :: "string \<Rightarrow> string \<Rightarrow> peer_operation option" where
  "dashboard_http_operation req_method req_path = (case classify req_method req_path of
     Matched op \<Rightarrow> op | NoMatch \<Rightarrow> None)"

definition preflight_posture :: "string \<Rightarrow> cors_posture option" where
  "preflight_posture req_path =
     map_option ro_cors (find (\<lambda>r. pattern_matches (ro_pattern r) req_path \<noteq> None) ROUTES)"

definition allowed_methods_for_path :: "string \<Rightarrow> string option" where
  "allowed_methods_for_path req_path =
     (let rs = filter (\<lambda>r. pattern_matches (ro_pattern r) req_path \<noteq> None) ROUTES;
          declares = (\<lambda>m. list_ex (\<lambda>r. ro_method r = m \<or> ro_method r = MethodAny) rs)
      in if rs = [] then None
         else Some (join_with '', '' ((if declares MethodGet then [''GET''] else [])
                @ (if declares MethodPost then [''POST''] else [])
                @ (if declares MethodDelete then [''DELETE''] else []) @ [''OPTIONS''])))"

section \<open>The tunnel twin\<close>

fun spec_label :: "segment_spec \<Rightarrow> string option" where
  "spec_label (SegCapture name) = Some (''{'' @ name @ ''}'')"
| "spec_label (SegLiteral literal) = Some literal"
| "spec_label (SegOneOf _) = None"

fun leaf_path :: "string \<Rightarrow> segment_spec list \<Rightarrow> string option" where
  "leaf_path out [] = Some out"
| "leaf_path out (spec # specs) = Option.bind (spec_label spec) (\<lambda>l. leaf_path (out @ ''/'' @ l) specs)"

definition canonical_leaf :: "route \<Rightarrow> (string \<times> string) option" where
  "canonical_leaf r =
     Option.bind (case ro_method r of MethodGet \<Rightarrow> Some ''GET'' | MethodPost \<Rightarrow> Some ''POST''
                    | MethodDelete \<Rightarrow> Some ''DELETE'' | MethodAny \<Rightarrow> None) (\<lambda>verb.
     map_option (\<lambda>path. (verb, path))
       (case ro_pattern r of PathExact stem \<Rightarrow> Some stem | PathUnder _ \<Rightarrow> None
          | PathSegments stem specs \<Rightarrow> leaf_path stem specs))"

definition tunnel_operation :: "route \<Rightarrow> peer_operation option" where
  "tunnel_operation r = (case ro_tunnel r of None \<Rightarrow> None
     | Some spec \<Rightarrow> (case ts_op_override spec of
         Some op \<Rightarrow> Some op
       | None \<Rightarrow> (case ro_authz r of
           AuthzOperation op \<Rightarrow> Some op
         | AuthzPeerFederation \<Rightarrow> Option.bind (canonical_leaf r)
             (\<lambda>(verb, path). federation_http_operation verb path)
         | AuthzPublic \<Rightarrow> None
         | AuthzMcpToken \<Rightarrow> None)))"

definition tunnel_specs :: "(route \<times> tunnel_spec) list" where
  "tunnel_specs = List.map_filter (\<lambda>r. map_option (\<lambda>s. (r, s)) (ro_tunnel r)) ROUTES"

end
