(* ===== verification/GatewayHttp.thy ===== *)
theory GatewayHttp
  imports TextLines IamEvaluate
begin

text \<open>
  What the gateway reads out of the head of an HTTP request
  (\<open>src/src/bin/caller/web_gateway/http.rs\<close>, \<open>routes_access.rs\<close>): the request target, headers,
  query parameters and their decoding, loopback addresses, and the origins taken for the
  daemon's own. A head is its bytes; the URL parser is the argument of \<open>origin_world\<close>.
\<close>

section \<open>Text of the standard library\<close>

definition split_once :: "char \<Rightarrow> string \<Rightarrow> (string \<times> string) option" where
  "split_once d s = (let a = takeWhile (\<lambda>c. c \<noteq> d) s in
     if length a = length s then None else Some (a, drop (length a + 1) s))"

definition eq_ignore_ascii_case :: "string \<Rightarrow> string \<Rightarrow> bool" where
  "eq_ignore_ascii_case a b = (to_ascii_lowercase a = to_ascii_lowercase b)"

text \<open>
  \<open>String::from_utf8_lossy\<close>: the length of the sequence at the head of the bytes, and whether it
  is well formed; an ill-formed prefix is replaced as a whole.
\<close>

definition cont_byte :: "nat list \<Rightarrow> nat \<Rightarrow> nat \<Rightarrow> nat \<Rightarrow> bool" where
  "cont_byte bs i lo hi = (i < length bs \<and> lo \<le> bs ! i \<and> bs ! i \<le> hi)"

definition second_range :: "nat \<Rightarrow> nat \<times> nat" where
  "second_range b = (if b = 224 then (160, 191) else if b = 237 then (128, 159)
     else if b = 240 then (144, 191) else if b = 244 then (128, 143) else (128, 191))"

definition utf8_width :: "nat \<Rightarrow> nat" where
  "utf8_width b = (if b < 128 then 1 else if 194 \<le> b \<and> b \<le> 223 then 2
     else if 224 \<le> b \<and> b \<le> 239 then 3 else if 240 \<le> b \<and> b \<le> 244 then 4 else 0)"

definition utf8_head :: "nat list \<Rightarrow> nat \<times> bool" where
  "utf8_head bs = (let b = hd bs; w = utf8_width b; (lo, hi) = second_range b in
     if w = 1 then (1, True)
     else if w = 0 \<or> \<not> cont_byte bs 1 lo hi then (1, False)
     else if w = 2 then (2, True)
     else if \<not> cont_byte bs 2 128 191 then (2, False)
     else if w = 3 then (3, True)
     else if \<not> cont_byte bs 3 128 191 then (3, False) else (4, True))"

lemma utf8_head_pos: "0 < fst (utf8_head bs)"
  by (auto simp: utf8_head_def Let_def split: prod.splits)

lemma utf8_drop_less:
  assumes "(n, v) = utf8_head (map of_char s)" and "s \<noteq> []"
  shows "length s - n < length s"
proof -
  have "n = fst (utf8_head (map of_char s))" using assms(1) by (metis fst_conv)
  with utf8_head_pos have "0 < n" by metis
  with assms(2) show ?thesis by (simp add: diff_less)
qed

definition replacement_char :: string where
  "replacement_char = [CHR 0xEF, CHR 0xBF, CHR 0xBD]"

function from_utf8_lossy :: "string \<Rightarrow> string" where
  "from_utf8_lossy s = (if s = [] then []
     else (case utf8_head (map of_char s) of
        (n, True) \<Rightarrow> take n s @ from_utf8_lossy (drop n s)
      | (n, False) \<Rightarrow> replacement_char @ from_utf8_lossy (drop n s)))"
  by pat_completeness auto
termination by (relation "measure length") (auto dest: utf8_drop_less)

declare from_utf8_lossy.simps [simp del]

lemma ascii_bound: "\<not> digit7 c \<Longrightarrow> (of_char c :: nat) < 128"
  by (cases c) (simp add: of_char_def)

text \<open>ASCII text is itself.\<close>

lemma from_utf8_lossy_ascii: "list_all (\<lambda>c. \<not> digit7 c) s \<Longrightarrow> from_utf8_lossy s = s"
proof (induction s)
  case (Cons c s)
  then have "utf8_head (map of_char (c # s)) = (1, True)"
    using ascii_bound [of c] by (simp add: utf8_head_def utf8_width_def Let_def split: prod.split)
  with Cons show ?case by (subst from_utf8_lossy.simps) simp
qed (simp add: from_utf8_lossy.simps)

section \<open>Query decoding\<close>

definition hex_value :: "char \<Rightarrow> nat option" where
  "hex_value c = (let b = (of_char c :: nat) in
     if 48 \<le> b \<and> b \<le> 57 then Some (b - 48)
     else if 97 \<le> b \<and> b \<le> 102 then Some (b - 97 + 10)
     else if 65 \<le> b \<and> b \<le> 70 then Some (b - 65 + 10) else None)"

text \<open>
  The query decoders differ in the two digits they take after a percent sign: \<open>from_str_radix\<close>
  also reads a plus sign and one digit.
\<close>

definition hex_pair :: "char \<Rightarrow> char \<Rightarrow> nat option" where
  "hex_pair h l = (case (hex_value h, hex_value l) of (Some a, Some b) \<Rightarrow> Some (16 * a + b) | _ \<Rightarrow> None)"

definition radix_pair :: "char \<Rightarrow> char \<Rightarrow> nat option" where
  "radix_pair h l = (if h = CHR ''+'' then hex_value l else hex_pair h l)"

fun decode_with :: "(char \<Rightarrow> char \<Rightarrow> nat option) \<Rightarrow> string \<Rightarrow> string" where
  "decode_with pair (c # h # l # s) =
     (if c = CHR 0x25 then
        (case pair h l of Some n \<Rightarrow> char_of n # decode_with pair s
         | None \<Rightarrow> c # decode_with pair (h # l # s))
      else (if c = CHR ''+'' then CHR '' '' else c) # decode_with pair (h # l # s))"
| "decode_with pair (c # s) = (if c = CHR ''+'' then CHR '' '' else c) # decode_with pair s"
| "decode_with pair [] = []"

definition percent_decode_query_value :: "string \<Rightarrow> string" where
  "percent_decode_query_value v = from_utf8_lossy (decode_with hex_pair v)"

definition url_decode :: "string \<Rightarrow> string" where
  "url_decode s = from_utf8_lossy (decode_with radix_pair s)"

section \<open>Head of a request\<close>

definition request_line :: "string \<Rightarrow> string" where
  "request_line header_text = (case lines header_text of [] \<Rightarrow> [] | l # _ \<Rightarrow> l)"

definition parse_request_target :: "string \<Rightarrow> string \<times> string \<times> string" where
  "parse_request_target line =
     (let parts = split_whitespace line;
          meth = (case parts of [] \<Rightarrow> [] | m # _ \<Rightarrow> m);
          target = (case parts of _ # t # _ \<Rightarrow> t | _ \<Rightarrow> [])
      in case split_once CHR ''?'' target of
           Some (path, query) \<Rightarrow> (meth, path, query)
         | None \<Rightarrow> (meth, target, []))"

definition first_some :: "('a \<Rightarrow> 'b option) \<Rightarrow> 'a list \<Rightarrow> 'b option" where
  "first_some f xs = (case List.map_filter f xs of [] \<Rightarrow> None | y # _ \<Rightarrow> Some y)"

definition header_field :: "string \<Rightarrow> string \<Rightarrow> string option" where
  "header_field header_name line = Option.bind (split_once CHR '':'' line) (\<lambda>(name, v).
     if eq_ignore_ascii_case (trim name) header_name then Some (trim v) else None)"

definition http_header_value :: "string \<Rightarrow> string \<Rightarrow> string option" where
  "http_header_value header_text header_name =
     first_some (header_field header_name) (drop 1 (lines header_text))"

definition http_header_present :: "string \<Rightarrow> string \<Rightarrow> bool" where
  "http_header_present header_text header_name = (http_header_value header_text header_name \<noteq> None)"

definition query_pair :: "string \<Rightarrow> string \<times> string" where
  "query_pair pair = (case split_once CHR ''='' pair of Some kv \<Rightarrow> kv | None \<Rightarrow> (pair, []))"

definition request_query :: "string \<Rightarrow> string option" where
  "request_query line = (case split_whitespace line of
     _ # t # _ \<Rightarrow> map_option snd (split_once CHR ''?'' t) | _ \<Rightarrow> None)"

definition query_param :: "string \<Rightarrow> string \<Rightarrow> string option" where
  "query_param line key = Option.bind (request_query line) (\<lambda>query.
     first_some (\<lambda>pair. case query_pair pair of (k, v) \<Rightarrow>
         if url_decode k = key then Some (url_decode v) else None)
       (split_on CHR ''&'' query))"

text \<open>The readers of \<open>Origin\<close> and \<open>Host\<close> look at the start of every line, the request line included.\<close>

definition leading_field :: "string \<Rightarrow> string \<Rightarrow> string option" where
  "leading_field field header_text =
     (case find (\<lambda>line. starts_with (to_ascii_lowercase line) (field @ '':'')) (lines header_text) of
        None \<Rightarrow> None
      | Some line \<Rightarrow> (let v = trim (drop (length field + 1) line) in if v = [] then None else Some v))"

definition extract_origin_header :: "string \<Rightarrow> string option" where
  "extract_origin_header header_text = leading_field ''origin'' header_text"

definition extract_host_header :: "string \<Rightarrow> string option" where
  "extract_host_header header_text = leading_field ''host'' header_text"

definition has_reverse_proxy_provenance :: "string \<Rightarrow> bool" where
  "has_reverse_proxy_provenance header_text = list_ex (\<lambda>line.
     case split_once CHR '':'' line of None \<Rightarrow> False
     | Some (name, _) \<Rightarrow> (let n = to_ascii_lowercase (trim name) in
         n \<in> {''forwarded'', ''via'', ''x-real-ip''} \<or> starts_with n ''x-forwarded-''))
     (drop 1 (lines header_text))"

definition has_browser_origin_headers :: "string \<Rightarrow> bool" where
  "has_browser_origin_headers header_text = (http_header_present header_text ''origin''
     \<or> http_header_present header_text ''sec-fetch-site''
     \<or> http_header_present header_text ''sec-fetch-dest''
     \<or> http_header_present header_text ''sec-fetch-user'')"

text \<open>A bearer credential (\<open>Bearer\<close> or \<open>bearer\<close>, nothing else).\<close>

definition bearer_of :: "string \<Rightarrow> string option" where
  "bearer_of v = (case strip_prefix ''Bearer '' v of Some r \<Rightarrow> Some r
     | None \<Rightarrow> strip_prefix ''bearer '' v)"

section \<open>Addresses\<close>

datatype ip_addr = IpV4 "32 word" | IpV6 "128 word"

text \<open>An IPv4-mapped address is its IPv4 address.\<close>

fun to_canonical :: "ip_addr \<Rightarrow> ip_addr" where
  "to_canonical (IpV4 a) = IpV4 a"
| "to_canonical (IpV6 a) = (if drop_bit 32 a = 0xFFFF then IpV4 (ucast a) else IpV6 a)"

fun is_loopback :: "ip_addr \<Rightarrow> bool" where
  "is_loopback (IpV4 a) = (drop_bit 24 a = 127)"
| "is_loopback (IpV6 a) = (a = 1)"

definition client_ip_is_loopback :: "ip_addr \<Rightarrow> bool" where
  "client_ip_is_loopback ip = is_loopback (to_canonical ip)"

text \<open>\<open>IpAddr::from_str\<close>: dotted quads, then colon-separated groups.\<close>

definition ipv4_value :: "string \<Rightarrow> nat" where
  "ipv4_value s = foldl (\<lambda>a p. 256 * a + digits_value p) 0 (split_on CHR ''.'' s)"

definition hex_number :: "string \<Rightarrow> nat" where
  "hex_number s = foldl (\<lambda>a c. 16 * a + (case hex_value c of Some n \<Rightarrow> n | None \<Rightarrow> 0)) 0 s"

definition group_values :: "string \<Rightarrow> nat list" where
  "group_values s = (if s = [] then [] else concat (map (\<lambda>p.
     if is_h16 p then [hex_number p] else [ipv4_value p div 65536, ipv4_value p mod 65536])
     (split_on CHR '':'' s)))"

definition ipv6_value :: "string \<Rightarrow> nat" where
  "ipv6_value s = foldl (\<lambda>a g. 65536 * a + g) 0 (case find_sub ''::'' s of
     None \<Rightarrow> group_values s
   | Some i \<Rightarrow> (let l = group_values (take i s); r = group_values (drop (i + 2) s)
       in l @ replicate (8 - length l - length r) 0 @ r))"

definition parse_ip_addr :: "string \<Rightarrow> ip_addr option" where
  "parse_ip_addr s = (if is_ipv4 s then Some (IpV4 (of_nat (ipv4_value s)))
     else if is_ipv6 s then Some (IpV6 (of_nat (ipv6_value s))) else None)"

section \<open>Origins\<close>

datatype url_host = HostDomain string | HostIpv4 "32 word" | HostIpv6 "128 word"

text \<open>What the gateway reads of a URL beside \<open>url_view\<close>: the port written in it and the typed host.\<close>

record gateway_url = url_view +
  gu_written_port :: "nat option"
  gu_host :: "url_host option"

type_synonym url_parser = "string \<Rightarrow> gateway_url option"

fun loopback_host :: "(string \<Rightarrow> string) \<Rightarrow> url_host option \<Rightarrow> bool" where
  "loopback_host f (Some (HostDomain h)) = eq_ignore_ascii_case (f h) ''localhost''"
| "loopback_host f (Some (HostIpv4 a)) = client_ip_is_loopback (IpV4 a)"
| "loopback_host f (Some (HostIpv6 a)) = client_ip_is_loopback (IpV6 a)"
| "loopback_host f None = False"

definition request_origin_text :: "url_parser \<Rightarrow> string \<Rightarrow> string option" where
  "request_origin_text parse v = (let s = trim v in
     if s = [] \<or> eq_ignore_ascii_case s ''null'' then None
     else Option.bind (parse s) (\<lambda>u. map_option (\<lambda>h.
       (if uv_scheme u = ''ws'' then ''http'' else if uv_scheme u = ''wss'' then ''https''
        else uv_scheme u) @ ''://'' @ to_ascii_lowercase h
         @ (case gu_written_port u of Some p \<Rightarrow> '':'' @ dec_string p | None \<Rightarrow> [])) (uv_host u)))"

definition is_cleartext_loopback_origin :: "url_parser \<Rightarrow> string \<Rightarrow> bool" where
  "is_cleartext_loopback_origin parse origin = (case parse (trim origin) of None \<Rightarrow> False
     | Some u \<Rightarrow> uv_scheme u \<in> {''http'', ''ws''}
         \<and> (case uv_host u of None \<Rightarrow> False
            | Some h0 \<Rightarrow> (let h = trim_end_char CHR ''.''
                  (trim_end_char (CHR 0x5D) (trim_start_char (CHR 0x5B) h0)) in
                eq_ignore_ascii_case h ''localhost''
                \<or> (case parse_ip_addr h of Some a \<Rightarrow> client_ip_is_loopback a | None \<Rightarrow> False))))"

definition is_own_or_app_origin :: "url_parser \<Rightarrow> string \<Rightarrow> bool \<Rightarrow> string \<Rightarrow> bool" where
  "is_own_or_app_origin parse origin0 is_tls header_text = (let origin = trim origin0 in
     if eq_ignore_ascii_case origin ''null'' \<or> origin = [] then False
     else if starts_with (to_ascii_lowercase origin) ''intendant://'' then True
     else case request_origin_text parse origin of None \<Rightarrow> False
       | Some normalized \<Rightarrow> (case extract_host_header header_text of None \<Rightarrow> False
           | Some host \<Rightarrow>
               request_origin_text parse ((if is_tls then ''https'' else ''http'') @ ''://'' @ host)
                 = Some normalized
               \<and> (is_tls \<or> is_cleartext_loopback_origin parse origin)))"

definition origin_is_loopback_host :: "url_parser \<Rightarrow> string \<Rightarrow> bool" where
  "origin_is_loopback_host parse origin0 = (let origin = trim origin0 in
     case parse origin of None \<Rightarrow> False
     | Some u \<Rightarrow> uv_scheme u \<in> {''http'', ''https''} \<and> origin = uv_origin u
         \<and> loopback_host (trim_end_char CHR ''.'') (gu_host u))"

end
