(* ===== verification/GatewayMcp.thy ===== *)
theory GatewayMcp
  imports GatewayHttp IdentityStore
begin

text \<open>
  The gate of \<open>/mcp\<close> (\<open>src/src/bin/caller/web_gateway/mcp_gate.rs\<close>) and the access contexts of
  \<open>routes_access.rs\<close>: the registry of supervised sessions and the credentials derived from it,
  how a request's token binds, and the principal a request acts as on every rung of the ladder.
  A session log is its identity, alive while the daemon holds it. SHA-256, the \<open>uuid\<close> crate and
  the URL parser are arguments; an IAM file is what its load yields.
\<close>

section \<open>Supervised sessions\<close>

record serve_entry =
  se_session_log :: nat
  se_credential_epoch :: string
  se_initialize_reported :: bool
  se_tools_reported :: bool

type_synonym mcp_registry = "string \<rightharpoonup> serve_entry"

datatype mcp_milestone = MilestoneInitialize | MilestoneToolsServed nat

definition registration_epoch :: "nat list \<Rightarrow> mcp_registry \<Rightarrow> string \<Rightarrow> string option" where
  "registration_epoch live reg sid = Option.bind (reg sid) (\<lambda>e.
     if se_session_log e \<in> set live then Some (se_credential_epoch e) else None)"

text \<open>A respawn over the same log keeps its epoch; a new log takes the fresh one.\<close>

definition register_supervised_mcp_session ::
  "nat list \<Rightarrow> string \<Rightarrow> string \<Rightarrow> nat \<Rightarrow> mcp_registry \<Rightarrow> mcp_registry" where
  "register_supervised_mcp_session live fresh sid session_log reg =
     (let kept = (\<lambda>s. Option.bind (reg s) (\<lambda>e. if se_session_log e \<in> set live then Some e else None));
          epoch = (case kept sid of
              Some e \<Rightarrow> if se_session_log e = session_log then se_credential_epoch e else fresh
            | None \<Rightarrow> fresh)
      in kept(sid \<mapsto> \<lparr> se_session_log = session_log, se_credential_epoch = epoch,
           se_initialize_reported = False, se_tools_reported = False \<rparr>))"

fun milestone_reported :: "mcp_milestone \<Rightarrow> serve_entry \<Rightarrow> bool" where
  "milestone_reported MilestoneInitialize e = se_initialize_reported e"
| "milestone_reported (MilestoneToolsServed _) e = se_tools_reported e"

fun mark_milestone :: "mcp_milestone \<Rightarrow> serve_entry \<Rightarrow> serve_entry" where
  "mark_milestone MilestoneInitialize e = e\<lparr> se_initialize_reported := True \<rparr>"
| "mark_milestone (MilestoneToolsServed _) e = e\<lparr> se_tools_reported := True \<rparr>"

fun milestone_line :: "mcp_milestone \<Rightarrow> string" where
  "milestone_line MilestoneInitialize = ''Intendant MCP endpoint: client connected''"
| "milestone_line (MilestoneToolsServed n) =
     ''Intendant MCP endpoint: served '' @ dec_string n @ '' tools''"

text \<open>The line a serve writes, into the log of the session and onto the bus.\<close>

definition note_supervised_mcp_serve ::
  "nat list \<Rightarrow> string \<Rightarrow> mcp_milestone \<Rightarrow> mcp_registry \<Rightarrow> mcp_registry \<times> (nat \<times> string) option" where
  "note_supervised_mcp_serve live sid m reg = (case reg sid of
     None \<Rightarrow> (reg, None)
   | Some e \<Rightarrow>
       if milestone_reported m e then (reg, None)
       else if se_session_log e \<notin> set live then (reg(sid := None), None)
       else (reg(sid \<mapsto> mark_milestone m e), Some (se_session_log e, milestone_line m)))"

section \<open>Credentials\<close>

text \<open>What the process knows at the gate.\<close>

record gateway_world =
  gw_parse_url :: url_parser
  gw_sha256_hex :: "string \<Rightarrow> string"
  gw_uuid_text :: "string \<Rightarrow> string option"
  gw_process_token :: string
  gw_admission_token :: string
  gw_refusal_message :: string
  gw_live_logs :: "nat list"
  gw_registry :: mcp_registry

definition epoch_tag :: string where
  "epoch_tag = CHR 0x00 # ''supervised-session-incarnation-v1'' @ [CHR 0x00]"

definition credential_input :: "string \<Rightarrow> string \<Rightarrow> string option \<Rightarrow> string" where
  "credential_input token_base sid epoch = token_base @ CHR 0x00 # sid
     @ (case epoch of None \<Rightarrow> [] | Some e \<Rightarrow> epoch_tag @ e)"

definition derive_session_mcp_credential ::
  "(string \<Rightarrow> string) \<Rightarrow> string \<Rightarrow> string \<Rightarrow> string option \<Rightarrow> string" where
  "derive_session_mcp_credential sha token_base sid epoch = sha (credential_input token_base sid epoch)"

text \<open>Nothing is expected of a session whose log is gone; an unregistered session has no epoch.\<close>

definition expected_session_mcp_credential ::
  "gateway_world \<Rightarrow> string \<Rightarrow> (string \<times> string option) option" where
  "expected_session_mcp_credential g sid = (case gw_registry g sid of
     None \<Rightarrow> Some (derive_session_mcp_credential (gw_sha256_hex g) (gw_process_token g) sid None, None)
   | Some e \<Rightarrow> if se_session_log e \<notin> set (gw_live_logs g) then None
       else Some (derive_session_mcp_credential (gw_sha256_hex g) (gw_process_token g) sid
              (Some (se_credential_epoch e)), Some (se_credential_epoch e)))"

definition session_scoped_mcp_token :: "gateway_world \<Rightarrow> string \<Rightarrow> string \<Rightarrow> string" where
  "session_scoped_mcp_token g fresh sid = (case expected_session_mcp_credential g sid of
     Some (token, _) \<Rightarrow> token
   | None \<Rightarrow> derive_session_mcp_credential (gw_sha256_hex g) (gw_process_token g) sid (Some fresh))"

definition matches_admission_token :: "gateway_world \<Rightarrow> string \<Rightarrow> bool" where
  "matches_admission_token g candidate =
     (gw_sha256_hex g (trim candidate) = gw_sha256_hex g (gw_admission_token g))"

definition loopback_token_presented :: "gateway_world \<Rightarrow> string \<Rightarrow> bool" where
  "loopback_token_presented g header_text =
     (let holds = (\<lambda>v. case v of None \<Rightarrow> False | Some c \<Rightarrow> matches_admission_token g c) in
      holds (http_header_value header_text ''x-intendant-loopback-token'')
      \<or> holds (query_param (request_line header_text) ''token'')
      \<or> holds (Option.bind (http_header_value header_text ''authorization'')
                (\<lambda>v. bearer_of (trim v))))"

section \<open>What a request presents\<close>

definition is_mcp_request_path :: "string \<Rightarrow> bool" where
  "is_mcp_request_path line = (case parse_request_target line of (_, path, _) \<Rightarrow> path = ''/mcp'')"

definition normalize_codex_managed_context :: "string \<Rightarrow> string" where
  "normalize_codex_managed_context v =
     (if to_ascii_lowercase (trim v) \<in> {''managed'', ''patched'', ''intendant'', ''on'', ''true'',
           ''enabled'', ''1''} then ''managed'' else ''vanilla'')"

definition codex_managed_context_enabled :: "string \<Rightarrow> bool" where
  "codex_managed_context_enabled v = (normalize_codex_managed_context v = ''managed'')"

text \<open>Session, managed context and tool profile: the last pair that sets one wins.\<close>

type_synonym mcp_context = "string option \<times> bool option \<times> string option"

definition mcp_context_pair :: "string \<Rightarrow> mcp_context \<Rightarrow> mcp_context" where
  "mcp_context_pair pair c = (case query_pair pair of (k, v) \<Rightarrow> (case c of (sid, mc, tp) \<Rightarrow>
     if k \<in> {''session_id'', ''session'', ''intendant_session''}
     then (if trim v \<noteq> [] then Some (percent_decode_query_value v) else sid, mc, tp)
     else if k = ''managed_context'' then (sid, Some (codex_managed_context_enabled v), tp)
     else if k \<in> {''tool_profile'', ''tools'', ''toolset'', ''toolsets''} \<and> trim v \<noteq> []
     then (sid, mc, Some (percent_decode_query_value v))
     else c))"

definition mcp_context_from_request_line :: "string \<Rightarrow> mcp_context" where
  "mcp_context_from_request_line line = (case request_query line of
     None \<Rightarrow> (None, None, None)
   | Some query \<Rightarrow> fold mcp_context_pair (split_on CHR ''&'' query) (None, None, None))"

definition request_session :: "string \<Rightarrow> string option" where
  "request_session header_text = fst (mcp_context_from_request_line (request_line header_text))"

datatype mcp_token_binding =
    BindingMissing
  | BindingProcess
  | BindingSession string
  | BindingInvalid

definition classify_mcp_token ::
  "gateway_world \<Rightarrow> string option \<Rightarrow> string \<Rightarrow> (mcp_token_binding \<times> string option) option" where
  "classify_mcp_token g session candidate =
     (if candidate = gw_process_token g then Some (BindingProcess, None)
      else Option.bind session (\<lambda>sid.
        Option.bind (expected_session_mcp_credential g sid) (\<lambda>(token, epoch).
          if token = candidate then Some (BindingSession sid, epoch) else None)))"

definition explicit_mcp_token :: "string \<Rightarrow> string option" where
  "explicit_mcp_token header_text = (case query_param (request_line header_text) ''mcp_token'' of
     Some t \<Rightarrow> Some t | None \<Rightarrow> http_header_value header_text ''x-intendant-mcp-token'')"

definition mcp_bearer :: "string \<Rightarrow> string option" where
  "mcp_bearer header_text = Option.bind (http_header_value header_text ''authorization'')
     (\<lambda>v. map_option trim (bearer_of (trim v)))"

definition mcp_request_token_authentication ::
  "gateway_world \<Rightarrow> string \<Rightarrow> mcp_token_binding \<times> string option" where
  "mcp_request_token_authentication g header_text =
     (let classify = classify_mcp_token g (request_session header_text) in
      case explicit_mcp_token header_text of
        Some candidate \<Rightarrow> (case classify candidate of Some b \<Rightarrow> b | None \<Rightarrow> (BindingInvalid, None))
      | None \<Rightarrow> (case Option.bind (mcp_bearer header_text) classify of
            Some b \<Rightarrow> b | None \<Rightarrow> (BindingMissing, None)))"

definition mcp_request_token_binding :: "gateway_world \<Rightarrow> string \<Rightarrow> mcp_token_binding" where
  "mcp_request_token_binding g header_text = fst (mcp_request_token_authentication g header_text)"

definition mcp_gate_session :: "gateway_world \<Rightarrow> string \<Rightarrow> string option" where
  "mcp_gate_session g header_text = (case mcp_request_token_binding g header_text of
     BindingSession sid \<Rightarrow> Some sid
   | BindingProcess \<Rightarrow> request_session header_text
   | _ \<Rightarrow> None)"

definition loopback_mcp_auth_matches :: "gateway_world \<Rightarrow> string \<Rightarrow> bool" where
  "loopback_mcp_auth_matches g header_text = (case mcp_request_token_binding g header_text of
     BindingProcess \<Rightarrow> True | BindingSession _ \<Rightarrow> True | _ \<Rightarrow> False)"

definition is_loopback_cleartext_mcp_request :: "gateway_world \<Rightarrow> ip_addr \<Rightarrow> bool \<Rightarrow> string \<Rightarrow> bool" where
  "is_loopback_cleartext_mcp_request g peer_addr is_tls header_text =
     (\<not> is_tls \<and> client_ip_is_loopback peer_addr \<and> is_mcp_request_path (request_line header_text)
      \<and> \<not> has_browser_origin_headers header_text \<and> loopback_mcp_auth_matches g header_text)"

section \<open>Access contexts\<close>

record peer_connection_identity =
  pc_fingerprint :: string
  pc_label :: string
  pc_profile :: string
  pc_class :: identity_class
  pc_filesystem :: fs_policy
  pc_record :: "identity_record option"

text \<open>\<open>RequestAuthority\<close>: the acting principal with the state it was resolved in.\<close>

record access_context =
  ac_principal :: access_principal
  ac_iam_state :: "local_iam_state option"
  ac_peer_filesystem :: "fs_policy option"

definition context_of :: "access_principal \<Rightarrow> local_iam_state option \<Rightarrow> access_context" where
  "context_of p st = \<lparr> ac_principal = p, ac_iam_state = st, ac_peer_filesystem = None \<rparr>"

lemma context_of_simps [simp]:
  "ac_principal (context_of p st) = p" "ac_iam_state (context_of p st) = st"
  "ac_peer_filesystem (context_of p st) = None"
  by (simp_all add: context_of_def)

definition fs_scope :: "access_context \<Rightarrow> fs_policy option" where
  "fs_scope a = (case ac_peer_filesystem a of Some fs \<Rightarrow> Some fs
     | None \<Rightarrow> (case ac_iam_state a of
         Some st \<Rightarrow> fs_scope_for_principal st (ac_principal a)
       | None \<Rightarrow> if ap_grant_id (ac_principal a) \<noteq> None
                 then Some \<lparr> fp_read_roots = [], fp_write_roots = [] \<rparr> else None))"

definition context_decision ::
  "hosted_world \<Rightarrow> origin_world \<Rightarrow> access_context \<Rightarrow> peer_operation \<Rightarrow> access_decision" where
  "context_decision w ow a op = (case ac_iam_state a of
     Some st \<Rightarrow> evaluate_principal_operation_with_state w ow st (ac_principal a) op
   | None \<Rightarrow> evaluate_principal_operation (ac_principal a) op)"

definition registration_authn_kind :: string where
  "registration_authn_kind = ''supervised_mcp_registration''"

definition stamp_mcp_registration :: "string option \<Rightarrow> access_context \<Rightarrow> access_context" where
  "stamp_mcp_registration epoch a = a\<lparr> ac_principal := (ac_principal a)\<lparr> ap_authn :=
     filter (\<lambda>row. jstr ''kind'' row \<noteq> Some registration_authn_kind) (ap_authn (ac_principal a))
     @ (case epoch of None \<Rightarrow> []
        | Some e \<Rightarrow> [JObj [(''kind'', JStr registration_authn_kind), (''epoch'', JStr e)]]) \<rparr> \<rparr>"

definition supervised_mcp_epoch_from_principal ::
  "(string \<Rightarrow> string option) \<Rightarrow> access_principal \<Rightarrow> string option" where
  "supervised_mcp_epoch_from_principal uuid_text p =
     (case filter (\<lambda>row. jstr ''kind'' row = Some registration_authn_kind) (ap_authn p) of
        [row] \<Rightarrow> Option.bind (jstr ''epoch'' row) (\<lambda>e. if uuid_text e = Some e then Some e else None)
      | _ \<Rightarrow> None)"

definition transport_of :: "bool \<Rightarrow> string" where
  "transport_of is_tls = (if is_tls then ''https'' else ''http'')"

definition authority_free_http_access_context :: "bool \<Rightarrow> access_context" where
  "authority_free_http_access_context is_tls = context_of (authority_free_http (transport_of is_tls)) None"

definition peer_identity_access_principal ::
  "peer_connection_identity \<Rightarrow> string \<Rightarrow> access_principal" where
  "peer_identity_access_principal i transport = (case pc_class i of
     PeerClass \<Rightarrow> peer_daemon (pc_fingerprint i) (pc_label i) (pc_profile i) transport
   | AgentClass \<Rightarrow> agent_client (pc_fingerprint i) (pc_label i) (pc_profile i) transport)"

text \<open>Each lookup reads its own clock: \<open>now k\<close> is the reading of the \<open>k\<close>th.\<close>

definition browser_mtls_principal_for_state ::
  "(nat \<Rightarrow> int) \<Rightarrow> local_iam_state \<Rightarrow> string option \<Rightarrow> string \<Rightarrow> access_principal" where
  "browser_mtls_principal_for_state now st fp transport =
     (case Option.bind fp (\<lambda>f. case principal_for_browser_mtls_cert (now 0) st f transport of
          Some p \<Rightarrow> Some p
        | None \<Rightarrow> principal_for_browser_mtls_cert_any_status (now 1) st f transport) of
        Some p \<Rightarrow> p | None \<Rightarrow> ungranted_browser_mtls fp transport)"

text \<open>The load of the IAM file: absent, a state, or an error text.\<close>

type_synonym iam_load = "string + local_iam_state option"

definition state_or_default :: "local_iam_state option \<Rightarrow> local_iam_state" where
  "state_or_default st = (case st of Some s \<Rightarrow> s | None \<Rightarrow> default_iam_state)"

text \<open>What the transport knows of a request.\<close>

record transport_facts =
  tf_identity :: "peer_connection_identity option"
  tf_cert_fingerprint :: "string option"
  tf_cert_present :: bool
  tf_is_tls :: bool
  tf_peer_addr :: ip_addr

definition http_access_context ::
  "gateway_world \<Rightarrow> (nat \<Rightarrow> int) \<Rightarrow> iam_load \<Rightarrow> transport_facts \<Rightarrow> bool \<Rightarrow> string + access_context" where
  "http_access_context g now loaded tf trusted_local_admitted = (case tf_identity tf of
     Some i \<Rightarrow> Inr \<lparr> ac_principal = peer_identity_access_principal i ''peer-http'',
                     ac_iam_state = None, ac_peer_filesystem = Some (pc_filesystem i) \<rparr>
   | None \<Rightarrow>
       if tf_cert_fingerprint tf \<noteq> None \<or> tf_cert_present tf
       then rbind loaded (\<lambda>st. Inr (context_of
              (browser_mtls_principal_for_state now (state_or_default st) (tf_cert_fingerprint tf)
                (transport_of (tf_is_tls tf))) (Some (state_or_default st))))
       else if \<not> trusted_local_admitted then Inl (gw_refusal_message g)
       else Inr (context_of (root_dashboard_session ''trusted-dashboard-http''
              (transport_of (tf_is_tls tf))) None))"

datatype dashboard_grant =
    GrantPeer peer_connection_identity
  | GrantUserClient access_principal local_iam_state
  | GrantTrustedLocal

definition dashboard_control_grant_for_client ::
  "gateway_world \<Rightarrow> (nat \<Rightarrow> int) \<Rightarrow> iam_load \<Rightarrow> transport_facts \<Rightarrow> bool \<Rightarrow> string + dashboard_grant" where
  "dashboard_control_grant_for_client g now loaded tf trusted_local_admitted = (case tf_identity tf of
     Some i \<Rightarrow> (if pc_class i = AgentClass
       then Inl ''agent identities have no dashboard-control surface; the agent lane is /mcp only''
       else Inr (GrantPeer i))
   | None \<Rightarrow>
       if tf_cert_fingerprint tf \<noteq> None \<or> tf_cert_present tf
       then rbind loaded (\<lambda>st. Inr (GrantUserClient
              (browser_mtls_principal_for_state now (state_or_default st) (tf_cert_fingerprint tf)
                ''webrtc-datachannel'') (state_or_default st)))
       else if \<not> trusted_local_admitted then Inl (gw_refusal_message g)
       else Inr GrantTrustedLocal)"

definition mcp_agent_session_context ::
  "(nat \<Rightarrow> int) \<Rightarrow> iam_load \<Rightarrow> string \<Rightarrow> string \<Rightarrow> bool \<Rightarrow> (nat \<times> string) + access_context" where
  "mcp_agent_session_context now loaded sid transport authenticated = (case loaded of
     Inl message \<Rightarrow> Inl (500, message)
   | Inr st \<Rightarrow> (case Option.bind st (\<lambda>s.
          case principal_for_agent_session (now 0) (now 1) s sid transport of
            Some p \<Rightarrow> Some (context_of p (Some s))
          | None \<Rightarrow> map_option (\<lambda>p. context_of p (Some s))
              (principal_for_agent_session_any_status (now 2) (now 3) s sid transport)) of
        Some a \<Rightarrow> Inr a
      | None \<Rightarrow> Inr (context_of
          (supervised_agent_session_default sid transport authenticated) None)))"

definition map_right :: "('a \<Rightarrow> 'b) \<Rightarrow> 'e + 'a \<Rightarrow> 'e + 'b" where
  "map_right f r = rbind r (\<lambda>x. Inr (f x))"

definition invalid_token_message :: string where
  "invalid_token_message =
     ''invalid mcp_token; use the URL Intendant injected (INTENDANT_MCP_URL)''"

definition session_only_message :: string where
  "session_only_message = ''this listener serves session-scoped MCP tokens only '' @ em_dash @ '' call with your injected INTENDANT_MCP_URL, or use the daemon's main gateway port''"

definition session_only_mcp_access_context ::
  "gateway_world \<Rightarrow> (nat \<Rightarrow> int) \<Rightarrow> iam_load \<Rightarrow> string \<Rightarrow> (nat \<times> string) + access_context" where
  "session_only_mcp_access_context g now loaded header_text =
     (case mcp_request_token_authentication g header_text of (binding, epoch) \<Rightarrow>
       (case binding of
          BindingSession sid \<Rightarrow> map_right (stamp_mcp_registration epoch)
            (mcp_agent_session_context now loaded sid ''http'' True)
        | BindingInvalid \<Rightarrow> Inl (401, invalid_token_message)
        | _ \<Rightarrow> Inl (403, session_only_message)))"

definition cross_origin_mcp_message :: string where
  "cross_origin_mcp_message = ''cross-origin /mcp requests are refused; only pages served by this daemon (or its app bundle) may call /mcp without an mcp_token''"

definition token_required_message :: string where
  "token_required_message =
     ''mcp_token required: tokenless /mcp is only served to loopback clients''"

definition scoped_loopback_message :: string where
  "scoped_loopback_message = ''agent sessions are scoped on this daemon, so tokenless loopback /mcp is disabled; call with your injected INTENDANT_MCP_URL, or create a local_process IAM grant to state what bare loopback callers may do''"

text \<open>The rung of a tokenless process on loopback.\<close>

definition loopback_mcp_context ::
  "(nat \<Rightarrow> int) \<Rightarrow> iam_load \<Rightarrow> string \<Rightarrow> (nat \<times> string) + access_context" where
  "loopback_mcp_context now loaded transport = (case loaded of
     Inl message \<Rightarrow> Inl (500, message)
   | Inr None \<Rightarrow> Inr (context_of (local_loopback_mcp_default transport) None)
   | Inr (Some st) \<Rightarrow> (case principal_for_loopback_mcp (now 0) st transport of
        Some p \<Rightarrow> Inr (context_of p (Some st))
      | None \<Rightarrow> (case principal_for_loopback_mcp_any_status (now 1) st transport of
          Some p \<Rightarrow> Inr (context_of p (Some st))
        | None \<Rightarrow> if agent_session_scoping_present st then Inl (401, scoped_loopback_message)
            else Inr (context_of (local_loopback_mcp_default transport) None))))"

definition mcp_http_access_context ::
  "gateway_world \<Rightarrow> (nat \<Rightarrow> int) \<Rightarrow> iam_load \<Rightarrow> transport_facts \<Rightarrow> string
     \<Rightarrow> (nat \<times> string) + access_context" where
  "mcp_http_access_context g now loaded tf header_text =
     (let loopback_admitted = loopback_token_presented g header_text;
          dashboard_equivalent = (case http_access_context g now loaded tf loopback_admitted of
              Inl message \<Rightarrow> Inl (500, message) | Inr a \<Rightarrow> Inr a);
          transport = transport_of (tf_is_tls tf)
      in if tf_identity tf \<noteq> None then dashboard_equivalent
      else (case mcp_request_token_authentication g header_text of (binding, epoch) \<Rightarrow>
       (case binding of
          BindingInvalid \<Rightarrow> Inl (401, invalid_token_message)
        | BindingSession sid \<Rightarrow> map_right (stamp_mcp_registration epoch)
            (mcp_agent_session_context now loaded sid transport True)
        | BindingProcess \<Rightarrow> (case request_session header_text of
              None \<Rightarrow> Inr (context_of (mcp_token_holder transport) None)
            | Some sid \<Rightarrow> mcp_agent_session_context now loaded sid transport False)
        | BindingMissing \<Rightarrow>
            if has_browser_origin_headers header_text
            then (if (case extract_origin_header header_text of None \<Rightarrow> False
                      | Some origin \<Rightarrow> is_own_or_app_origin (gw_parse_url g) origin (tf_is_tls tf) header_text)
                  then dashboard_equivalent else Inl (403, cross_origin_mcp_message))
            else if tf_cert_fingerprint tf \<noteq> None then dashboard_equivalent
            else if \<not> client_ip_is_loopback (tf_peer_addr tf) then Inl (401, token_required_message)
            else if \<not> loopback_admitted then Inl (401, gw_refusal_message g)
            else loopback_mcp_context now loaded transport)))"

text \<open>The header lines of an answer: the origin of the daemon's own pages, or none.\<close>

definition crlf :: string where "crlf = [CHR 0x0D, CHR 0x0A]"

definition mcp_cors_header_segment :: "gateway_world \<Rightarrow> string \<Rightarrow> bool \<Rightarrow> string" where
  "mcp_cors_header_segment g header_text is_tls =
     (case extract_origin_header header_text of
        Some origin \<Rightarrow> if is_own_or_app_origin (gw_parse_url g) origin is_tls header_text
          then ''Access-Control-Allow-Origin: '' @ origin @ crlf
             @ ''Access-Control-Expose-Headers: Mcp-Session-Id'' @ crlf @ ''Vary: Origin'' @ crlf
          else ''Vary: Origin'' @ crlf
      | None \<Rightarrow> ''Vary: Origin'' @ crlf)"

end
