(* ===== verification/GatewayLanes.thy ===== *)
theory GatewayLanes
  imports GatewayMcp GatewayRoutes HostedLane HostedTables
begin

text \<open>
  What the front door asks before any authority is resolved: which requests are free of it
  (\<open>access_gates.rs\<close>, \<open>routes_hosted_control.rs\<close> and the doors of \<open>routes_access.rs\<close>,
  \<open>routes_peers.rs\<close>, \<open>routes_codex_cloud.rs\<close>, \<open>routes_github.rs\<close>), which public lane a connection
  is on, and which origins may drive it. The lists of peer routes and of identities are what
  their stores hold.
\<close>

section \<open>Requests free of authority\<close>

text \<open>The method and the path, less the query, of the doors that read the raw request line.\<close>

definition door_target :: "string \<Rightarrow> (string \<times> string) option" where
  "door_target line = (case split_whitespace line of
     m # t # _ \<Rightarrow> Some (m, takeWhile (\<lambda>c. c \<noteq> CHR ''?'') t) | _ \<Rightarrow> None)"

definition peer_request_path :: string where "peer_request_path = ''/api/peer-pairing/requests''"
definition codex_cloud_enroll_path :: string where
  "codex_cloud_enroll_path = ''/api/codex-cloud/enroll''"
definition github_callback_path :: string where
  "github_callback_path = ''/api/integrations/github/callback''"

definition is_public_peer_access_request_path :: "string \<Rightarrow> bool" where
  "is_public_peer_access_request_path line = (case door_target line of None \<Rightarrow> False
     | Some (_, path) \<Rightarrow> path = peer_request_path
         \<or> (case strip_prefix peer_request_path path of None \<Rightarrow> False
            | Some rest \<Rightarrow> starts_with rest ''/''))"

definition org_handle_char :: "char \<Rightarrow> bool" where
  "org_handle_char c = (is_digit c \<or> (CHR ''a'' \<le> c \<and> c \<le> CHR ''z'') \<or> c = CHR ''-'')"

definition valid_org_handle :: "string \<Rightarrow> bool" where
  "valid_org_handle raw = (let h = trim raw in
     2 \<le> length h \<and> length h \<le> 40 \<and> list_all org_handle_char h
     \<and> \<not> starts_with h ''-'' \<and> \<not> ends_with h ''-'')"

definition strip_suffix :: "string \<Rightarrow> string \<Rightarrow> string option" where
  "strip_suffix suffix s = map_option rev (strip_prefix (rev suffix) (rev s))"

definition is_public_org_grant_path :: "string \<Rightarrow> bool" where
  "is_public_org_grant_path line = (case door_target line of None \<Rightarrow> False
     | Some (m, path) \<Rightarrow>
         (m = ''POST'' \<and> path \<in> {''/api/access/org-grants'', ''/api/access/org-grants/renew'',
            ''/api/access/orgs/revocations/apply''})
         \<or> (m = ''GET'' \<and> (case Option.bind (strip_prefix ''/api/access/orgs/'' path)
                (strip_suffix ''/revocations'') of
              None \<Rightarrow> False | Some handle \<Rightarrow> valid_org_handle handle)))"

definition is_public_connect_bootstrap_path :: "string \<Rightarrow> bool" where
  "is_public_connect_bootstrap_path line = (case door_target line of None \<Rightarrow> False
     | Some (m, path) \<Rightarrow> m = ''GET'' \<and> path \<in> {''/connect/bootstrap'', ''/connect/status''})"

definition is_public_codex_cloud_enroll_path :: "string \<Rightarrow> bool" where
  "is_public_codex_cloud_enroll_path line =
     (door_target line = Some (''POST'', codex_cloud_enroll_path))"

definition is_public_github_manifest_callback_path :: "string \<Rightarrow> bool" where
  "is_public_github_manifest_callback_path line =
     (door_target line = Some (''GET'', github_callback_path))"

definition is_connect_dashboard_signaling_path :: "string \<Rightarrow> bool" where
  "is_connect_dashboard_signaling_path path =
     (path \<in> {''/connect/dashboard/offer'', ''/connect/dashboard/ice'', ''/connect/dashboard/close''})"

definition embedded_static_assets :: "string list" where
  "embedded_static_assets =
     [''/wasm-web/presence_web_bg.wasm'', ''/wasm-station/station_web_bg.wasm'',
      ''/wasm-web/presence_web.js'', ''/wasm-station/station_web.js'', ''/wasm-xr/xr_web_bg.wasm'',
      ''/wasm-xr/xr_web.js'', ''/three.module.min.js'', ''/codemirror-bundle.js'',
      ''/codemirror-bundle.css'', ''/audio-processor.js'', ''/vault-kernel.js'',
      ''/tile-test-harness.js'', ''/xterm.min.js'', ''/xterm-addon-fit.min.js'', ''/xterm.css'',
      ''/fonts/hanken-grotesk-latin.woff2'', ''/fonts/hanken-grotesk-latin-ext.woff2'',
      ''/fonts/jetbrains-mono-latin.woff2'', ''/fonts/jetbrains-mono-latin-ext.woff2'',
      ''/icon-128.png'', ''/favicon.ico'', ''/icon-512.png'', ''/icon-512-maskable.png'',
      ''/apple-touch-icon.png'', ''/manifest.webmanifest'']"

definition is_public_dashboard_shell_or_asset :: "string \<Rightarrow> string \<Rightarrow> bool" where
  "is_public_dashboard_shell_or_asset meth path = (meth \<in> {''GET'', ''HEAD''}
     \<and> (path \<in> {''/'', ''/index.html'', ''/app'', ''/access''}
        \<or> path = ''/.well-known/agent-card.json'' \<or> path \<in> set embedded_static_assets))"

definition allows_remote_certless_http :: "string \<Rightarrow> string \<Rightarrow> string \<Rightarrow> bool" where
  "allows_remote_certless_http line meth path =
     (is_public_peer_access_request_path line \<or> is_public_org_grant_path line
      \<or> is_public_connect_bootstrap_path line \<or> is_public_codex_cloud_enroll_path line
      \<or> is_public_github_manifest_callback_path line
      \<or> is_public_dashboard_shell_or_asset meth path)"

definition passkey_paths :: "string list" where
  "passkey_paths = [''/api/hosted-control/passkey/start'', ''/api/hosted-control/passkey/finish'',
     ''/api/hosted-control/passkey/register/start'', ''/api/hosted-control/passkey/register/finish'']"

definition is_public_hosted_control_path :: "string \<Rightarrow> string \<Rightarrow> bool" where
  "is_public_hosted_control_path meth path =
     ((meth = ''GET'' \<and> path \<in> {''/api/hosted-control/bootstrap'', ''/api/hosted-control/certificate-ledger''})
      \<or> (meth = ''POST'' \<and> (path \<in> {''/api/hosted-control/requests'', ''/api/hosted-control/requests/poll'',
             ''/api/hosted-control/anchor-decisions'', ''/api/hosted-control/witness-reports''}
           \<or> path \<in> set passkey_paths)))"

definition is_custom_domain_only_hosted_control_path :: "string \<Rightarrow> string \<Rightarrow> bool" where
  "is_custom_domain_only_hosted_control_path meth path = (meth = ''POST'' \<and> path \<in> set passkey_paths)"

definition is_fleet_only_hosted_control_path :: "string \<Rightarrow> string \<Rightarrow> bool" where
  "is_fleet_only_hosted_control_path meth path = (is_public_hosted_control_path meth path
     \<and> \<not> (meth = ''GET'' \<and> path = ''/api/hosted-control/certificate-ledger''))"

section \<open>The public control lane\<close>

record public_control_lane =
  pl_discovery_only :: bool
  pl_public_lease_ingress :: bool
  pl_configured :: bool
  pl_live_custom_domain :: "string option"
  pl_custom_domain_revoked :: bool

definition is_public_lease_ingress :: "bool \<Rightarrow> bool \<Rightarrow> bool" where
  "is_public_lease_ingress discovery_only custom_domain_sni = (discovery_only \<or> custom_domain_sni)"

definition is_public_control_lane_configured :: "bool \<Rightarrow> bool \<Rightarrow> bool \<Rightarrow> bool" where
  "is_public_control_lane_configured discovery_only custom_domain_sni fleet_lane_enabled =
     (custom_domain_sni \<or> (discovery_only \<and> fleet_lane_enabled))"

definition classify_public_control_lane ::
  "bool \<Rightarrow> string option \<Rightarrow> bool \<Rightarrow> bool \<Rightarrow> public_control_lane" where
  "classify_public_control_lane discovery0 selected custom_domain_enabled fleet_lane_enabled =
     (let live = (if custom_domain_enabled then selected else None);
          revoked = (selected \<noteq> None \<and> live = None);
          discovery_only = (discovery0 \<or> revoked)
      in \<lparr> pl_discovery_only = discovery_only,
           pl_public_lease_ingress = is_public_lease_ingress discovery_only (live \<noteq> None),
           pl_configured = (\<not> revoked
              \<and> is_public_control_lane_configured discovery_only (live \<noteq> None) fleet_lane_enabled),
           pl_live_custom_domain = live, pl_custom_domain_revoked = revoked \<rparr>)"

definition custom_domain_hosted_authority_revoked :: "bool \<Rightarrow> bool \<Rightarrow> bool \<Rightarrow> bool" where
  "custom_domain_hosted_authority_revoked selected hosted_authority_present enabled =
     (selected \<and> hosted_authority_present \<and> \<not> enabled)"

section \<open>The origin of a public request\<close>

definition bare_authority :: "gateway_url \<Rightarrow> bool" where
  "bare_authority u = (uv_username u = [] \<and> uv_password u = None \<and> uv_path u = ''/''
     \<and> uv_query u = None \<and> uv_fragment u = None)"

definition fleet_origin_from_request :: "url_parser \<Rightarrow> string \<Rightarrow> bool \<Rightarrow> string + string" where
  "fleet_origin_from_request parse header_text is_tls =
     (if \<not> is_tls then Inl ''hosted control requires daemon-terminated HTTPS''
      else case Option.bind (extract_host_header header_text) trimmed_nonempty of
        None \<Rightarrow> Inl ''request has no Host authority''
      | Some authority \<Rightarrow> (case parse (''https://'' @ authority) of
          None \<Rightarrow> Inl ''request Host authority is invalid''
        | Some u \<Rightarrow> if bare_authority u then Inr (uv_origin u)
            else Inl ''request Host authority is invalid''))"

definition public_origin_from_request ::
  "url_parser \<Rightarrow> string \<Rightarrow> bool \<Rightarrow> string option \<Rightarrow> string option \<Rightarrow> string option \<Rightarrow> string + string" where
  "public_origin_from_request parse header_text is_tls server_name fleet_domain custom_domain =
     rbind (fleet_origin_from_request parse header_text is_tls) (\<lambda>origin.
     if fleet_domain \<noteq> None \<and> custom_domain \<noteq> None
     then Inl ''public TLS server-name provenance is ambiguous''
     else (case server_name of
       None \<Rightarrow> Inl ''hosted control requires an exact public TLS server name''
     | Some selected \<Rightarrow>
         if (case (fleet_domain, custom_domain) of (Some n, None) \<Rightarrow> n \<noteq> selected
             | (None, Some n) \<Rightarrow> n \<noteq> selected | _ \<Rightarrow> False)
         then Inl ''public TLS server-name provenance does not match its lane''
         else (case Option.bind (parse origin) uv_host of
             None \<Rightarrow> Inl ''request Host authority has no DNS name''
           | Some request_name \<Rightarrow> if request_name \<noteq> selected
               then Inl ''request Host name must equal the exact public TLS server name''
               else Inr origin)))"

text \<open>\<open>i64::from_str\<close>.\<close>

definition parse_i64 :: "string \<Rightarrow> int option" where
  "parse_i64 s = (let (neg, ds) = (case s of
         c # r \<Rightarrow> if c = CHR ''-'' then (True, r) else if c = CHR ''+'' then (False, r) else (False, s)
       | [] \<Rightarrow> (False, s));
       n = (if neg then - int (digits_value ds) else int (digits_value ds))
     in if ds \<noteq> [] \<and> list_all is_digit ds \<and> - (2 ^ 63) \<le> n \<and> n < 2 ^ 63 then Some n else None)"

definition required_header :: "string \<Rightarrow> string \<Rightarrow> string + string" where
  "required_header header_text header_name =
     (case Option.bind (http_header_value header_text header_name) trimmed_nonempty of
        Some v \<Rightarrow> Inr v | None \<Rightarrow> Inl (''missing '' @ header_name @ '' header''))"

definition hosted_request_proof_from_headers :: "string \<Rightarrow> string + request_proof" where
  "hosted_request_proof_from_headers header_text =
     rbind (required_header header_text ''x-intendant-hosted-lease'') (\<lambda>lease.
     rbind (required_header header_text ''x-intendant-hosted-nonce'') (\<lambda>nonce.
     rbind (required_header header_text ''x-intendant-hosted-timestamp'') (\<lambda>at.
     rbind (case parse_i64 at of Some n \<Rightarrow> Inr n
            | None \<Rightarrow> Inl ''x-intendant-hosted-timestamp is invalid'') (\<lambda>n.
     rbind (required_header header_text ''x-intendant-hosted-proof'') (\<lambda>signature.
     Inr \<lparr> qp_lease_id = lease, qp_nonce = nonce, qp_timestamp_unix_ms = n,
           qp_signature = signature \<rparr>)))))"

section \<open>Origins that may drive a route\<close>

text \<open>The routes to peers this daemon dials, as \<open>(WebSocket URL, browser TCP URL)\<close>; none without a registry.\<close>

record fleet_view =
  fv_peer_routes :: "(string option \<times> string option) list"
  fv_identities :: "identity_record list"
  fv_now_unix :: int

definition is_fleet_cors_access_path :: "string \<Rightarrow> bool" where
  "is_fleet_cors_access_path path = (preflight_posture path = Some CorsFleetAllowlist)"

definition fleet_identity_origins :: "url_parser \<Rightarrow> identity_record list \<Rightarrow> (string \<times> int option) list" where
  "fleet_identity_origins parse rs = List.map_filter (\<lambda>r.
     if identity_record.ir_status r \<noteq> StatusApproved then None
     else map_option (\<lambda>o'. (o', ir_expires_at r))
            (Option.bind (ir_card_url r) (request_origin_text parse))) rs"

definition fleet_access_origin_allowed ::
  "url_parser \<Rightarrow> fleet_view \<Rightarrow> string \<Rightarrow> bool \<Rightarrow> string \<Rightarrow> bool" where
  "fleet_access_origin_allowed parse fv origin0 is_tls header_text = (let origin = trim origin0 in
     is_own_or_app_origin parse origin is_tls header_text
     \<or> (case request_origin_text parse origin of None \<Rightarrow> False
        | Some normalized \<Rightarrow>
            list_ex (\<lambda>(ws, via). Option.bind ws (request_origin_text parse) = Some normalized
               \<or> Option.bind via (request_origin_text parse) = Some normalized) (fv_peer_routes fv)
            \<or> list_ex (\<lambda>(o', expires).
                 (case expires of None \<Rightarrow> True | Some e \<Rightarrow> fv_now_unix fv < e) \<and> o' = normalized)
                (fleet_identity_origins parse (fv_identities fv))))"

definition session_data_origin_allowed ::
  "url_parser \<Rightarrow> fleet_view \<Rightarrow> string \<Rightarrow> ip_addr \<Rightarrow> bool \<Rightarrow> string \<Rightarrow> bool" where
  "session_data_origin_allowed parse fv origin peer_addr is_tls header_text =
     ((client_ip_is_loopback peer_addr \<and> \<not> has_reverse_proxy_provenance header_text
       \<and> origin_is_loopback_host parse origin)
      \<or> fleet_access_origin_allowed parse fv origin is_tls header_text)"

datatype cross_origin_decision = OriginAuthorityFree | OriginOwn | OriginEcho string | OriginRefuse

definition cross_origin_request_decision ::
  "url_parser \<Rightarrow> fleet_view \<Rightarrow> string \<Rightarrow> string \<Rightarrow> bool \<Rightarrow> ip_addr \<Rightarrow> bool \<Rightarrow> string
     \<Rightarrow> cross_origin_decision" where
  "cross_origin_request_decision parse fv origin path authority_free peer_addr is_tls header_text =
     (if authority_free then OriginAuthorityFree
      else if is_own_or_app_origin parse origin is_tls header_text then OriginOwn
      else if (is_fleet_cors_access_path path \<or> path = ''/config'')
              \<and> fleet_access_origin_allowed parse fv origin is_tls header_text
      then OriginEcho origin
      else if preflight_posture path = Some CorsFleetOrLoopback
              \<and> session_data_origin_allowed parse fv origin peer_addr is_tls header_text
      then OriginEcho origin
      else OriginRefuse)"

end
