(* ===== verification/GatewayDoor.thy ===== *)
theory GatewayDoor
  imports GatewayLanes
begin

text \<open>
  The front door of the gateway: \<open>serve_http_request\<close>
  (\<open>src/src/bin/caller/web_gateway/http_dispatch.rs\<close>) from the parsed head to the point where a
  handler takes over, with the transport gates of \<open>access_gates.rs\<close>. Every early return is a
  refusal, in the order the code has them. The bytes of a response, audit lines on the bus and
  what a connection retains for its teardown are outside the model; a request body is the
  outcome of reading it.
\<close>

section \<open>Transport\<close>

datatype gateway_ingress = IngressDirect | IngressReachabilityRelay | IngressSessionMcp

text \<open>What the listener knows of a connection beside \<open>transport_facts\<close>.\<close>

record edge_facts = transport_facts +
  ef_ingress :: gateway_ingress
  ef_server_name :: "string option"
  ef_fleet_origin :: "string option"
  ef_custom_domain :: "string option"

definition direct_loopback_dashboard_request ::
  "url_parser \<Rightarrow> gateway_ingress \<Rightarrow> ip_addr \<Rightarrow> string \<Rightarrow> bool" where
  "direct_loopback_dashboard_request parse ingress peer_addr header_text =
     (ingress = IngressDirect \<and> client_ip_is_loopback peer_addr
      \<and> \<not> has_reverse_proxy_provenance header_text
      \<and> (case Option.bind (extract_host_header header_text) (\<lambda>a. parse (''http://'' @ trim a)) of
           None \<Rightarrow> False
         | Some u \<Rightarrow> bare_authority u \<and> loopback_host (\<lambda>h. h) (gu_host u)))"

definition remote_dashboard_client_auth_missing ::
  "gateway_world \<Rightarrow> edge_facts \<Rightarrow> string \<Rightarrow> bool" where
  "remote_dashboard_client_auth_missing g ef header_text =
     (\<not> (direct_loopback_dashboard_request (gw_parse_url g) (ef_ingress ef) (tf_peer_addr ef) header_text
          \<and> loopback_token_presented g header_text)
      \<and> (case tf_cert_fingerprint ef of None \<Rightarrow> True | Some fp \<Rightarrow> trim fp = [])
      \<and> tf_identity ef = None)"

fun cleartext_loopback_admitted ::
  "gateway_world \<Rightarrow> gateway_ingress \<Rightarrow> ip_addr \<Rightarrow> bool \<Rightarrow> string \<Rightarrow> bool" where
  "cleartext_loopback_admitted g IngressDirect peer_addr is_tls header_text =
     (is_loopback_cleartext_mcp_request g peer_addr is_tls header_text
      \<or> (\<not> is_tls \<and> client_ip_is_loopback peer_addr \<and> \<not> has_browser_origin_headers header_text
          \<and> loopback_token_presented g header_text))"
| "cleartext_loopback_admitted g IngressSessionMcp peer_addr is_tls header_text =
     is_loopback_cleartext_mcp_request g peer_addr is_tls header_text"
| "cleartext_loopback_admitted g IngressReachabilityRelay peer_addr is_tls header_text = False"

definition direct_loopback_missing_admission_token ::
  "gateway_world \<Rightarrow> edge_facts \<Rightarrow> string \<Rightarrow> bool" where
  "direct_loopback_missing_admission_token g ef header_text =
     (direct_loopback_dashboard_request (gw_parse_url g) (ef_ingress ef) (tf_peer_addr ef) header_text
      \<and> \<not> loopback_token_presented g header_text)"

definition request_names_known_fleet_origin ::
  "url_parser \<Rightarrow> origin_world \<Rightarrow> string \<Rightarrow> bool" where
  "request_names_known_fleet_origin parse ow header_text =
     (case Option.bind (Option.bind (extract_host_header header_text)
              (\<lambda>a. parse (''https://'' @ a))) uv_host of
        None \<Rightarrow> False | Some host \<Rightarrow> is_fleet_server_name ow (Some host))"

section \<open>Gates on a route\<close>

definition is_federation_path :: "string \<Rightarrow> bool" where
  "is_federation_path line = (case parse_request_target line of (_, path, _) \<Rightarrow>
     under path ''/api/peers'' \<or> starts_with path ''/api/coordinator/''
     \<or> under path ''/api/sessions'' \<or> under path ''/api/worktrees'')"

definition legacy_protected_http_operation :: "string \<Rightarrow> peer_operation option" where
  "legacy_protected_http_operation path =
     (if starts_with path ''/recordings/'' \<or> path = ''/recordings'' then Some OpRuntimeControl
      else if starts_with path ''/frames/'' \<or> path = ''/debug'' then Some OpSessionInspect
      else if path = ''/config'' then Some OpPresenceRead else None)"

definition required_operation :: "string \<Rightarrow> string \<Rightarrow> peer_operation option" where
  "required_operation meth path = (case dashboard_http_operation meth path of
     Some op \<Rightarrow> Some op | None \<Rightarrow> legacy_protected_http_operation path)"

text \<open>The reader of the federation bearer takes the field name as it stands, on every line.\<close>

definition authorization_line :: "string \<Rightarrow> string option" where
  "authorization_line header_text = first_some (\<lambda>line. Option.bind (split_once CHR '':'' line)
     (\<lambda>(name, v). if eq_ignore_ascii_case name ''authorization'' then Some (trim v) else None))
     (lines header_text)"

definition verify_bearer_token ::
  "gateway_world \<Rightarrow> string \<Rightarrow> string option \<Rightarrow> (nat \<times> string) + unit" where
  "verify_bearer_token g header_text expected_token = (case expected_token of None \<Rightarrow> Inr ()
   | Some expected \<Rightarrow>
       if loopback_token_presented g header_text then Inr ()
       else (case authorization_line header_text of
         None \<Rightarrow> Inl (401, ''missing Authorization header'')
       | Some auth \<Rightarrow> (case bearer_of auth of
           None \<Rightarrow> Inl (401, ''Authorization header must use Bearer scheme'')
         | Some token \<Rightarrow> if trim token = expected then Inr ()
             else Inl (401, ''invalid bearer token''))))"

definition peer_filesystem_query_request :: "string \<Rightarrow> string \<Rightarrow> (peer_operation \<times> fs_access_kind) option" where
  "peer_filesystem_query_request meth path =
     (if meth = ''GET'' \<and> path \<in> {''/api/fs/stat'', ''/api/fs/list'', ''/api/fs/read''}
      then Some (OpFilesystemRead, FsRead) else None)"

text \<open>The file system: the home directory, which paths exist, and how they resolve.\<close>

record file_view =
  fw_home :: "path option"
  fw_exists :: "path \<Rightarrow> bool"
  fw_canonicalize :: "path \<Rightarrow> path option"

definition parse_path :: "string \<Rightarrow> path" where
  "parse_path s = \<lparr> p_absolute = starts_with s ''/'',
     p_comps = filter (\<lambda>c. c \<noteq> [] \<and> c \<noteq> ''.'') (split_on (CHR 0x2F) s) \<rparr>"

definition path_join :: "path \<Rightarrow> path \<Rightarrow> path" where
  "path_join a b = (if p_absolute b then b else a\<lparr> p_comps := p_comps a @ p_comps b \<rparr>)"

definition expand_dashboard_fs_path :: "path option \<Rightarrow> string \<Rightarrow> string + path" where
  "expand_dashboard_fs_path home raw = (let trimmed = trim raw in
     rbind (if trimmed = [] \<or> trimmed = ''~''
            then (case home of None \<Rightarrow> Inl ''could not resolve home directory'' | Some h \<Rightarrow> Inr h)
            else (case strip_prefix ''~/'' trimmed of
                Some rest \<Rightarrow> (case home of None \<Rightarrow> Inl ''could not resolve home directory''
                   | Some h \<Rightarrow> Inr (path_join h (parse_path rest)))
              | None \<Rightarrow> Inr (parse_path trimmed))) (\<lambda>p.
     if p_absolute p then Inr p
     else Inl (''path must be absolute or start with ~/ (got '' @ trimmed @ '')'')))"

text \<open>Why the door refuses: an error text, or a path outside a scope.\<close>

datatype door_error = ErrorText string | ErrorScope fs_error

definition authorize_http_filesystem_access ::
  "hosted_world \<Rightarrow> origin_world \<Rightarrow> file_view \<Rightarrow> access_context \<Rightarrow> peer_connection_identity option
     \<Rightarrow> peer_operation \<Rightarrow> fs_access_kind \<Rightarrow> string \<Rightarrow> door_error + unit" where
  "authorize_http_filesystem_access w ow fw a identity op kind raw =
     (let d = context_decision w ow a op;
          within = (\<lambda>scope. rbind (map_err ErrorText (expand_dashboard_fs_path (fw_home fw) raw)) (\<lambda>p.
             map_err ErrorScope
               (filesystem_access_allowed (fw_exists fw) (fw_canonicalize fw) scope kind p)))
      in if \<not> de_allowed d then Inl (ErrorText (de_reason d))
         else (case identity of
             Some i \<Rightarrow> within (pc_filesystem i)
           | None \<Rightarrow> (case Option.bind (ac_iam_state a)
                          (\<lambda>st. fs_scope_for_principal st (ac_principal a)) of
               None \<Rightarrow> Inr () | Some scope \<Rightarrow> within scope)))"

section \<open>Preflight\<close>

type_synonym header_lines = "(string \<times> string) list"

definition preflight_allow_headers :: string where
  "preflight_allow_headers = ''Content-Type, Authorization, MCP-Protocol-Version, Mcp-Session-Id''"

definition grant_lines :: "string \<Rightarrow> string \<Rightarrow> header_lines" where
  "grant_lines origin methods = [(''Access-Control-Allow-Origin'', origin),
     (''Access-Control-Allow-Methods'', methods),
     (''Access-Control-Allow-Headers'', preflight_allow_headers),
     (''Access-Control-Max-Age'', ''86400'')]"

definition echo_lines :: "string option \<Rightarrow> string \<Rightarrow> header_lines" where
  "echo_lines allowed methods = (case allowed of
     Some origin \<Rightarrow> grant_lines origin methods | None \<Rightarrow> []) @ [(''Vary'', ''Origin'')]"

definition filter_option :: "('a \<Rightarrow> bool) \<Rightarrow> 'a option \<Rightarrow> 'a option" where
  "filter_option P v = Option.bind v (\<lambda>x. if P x then Some x else None)"

definition preflight_own_origin :: "string \<Rightarrow> string \<Rightarrow> bool" where
  "preflight_own_origin line path = (case preflight_posture path of
     Some posture \<Rightarrow> posture = CorsOwnOrigin
   | None \<Rightarrow> (starts_with path ''/api/'' \<and> \<not> is_fleet_cors_access_path path
               \<and> \<not> is_public_peer_access_request_path line)
             \<or> path = ''/mcp'' \<or> is_connect_dashboard_signaling_path path)"

definition preflight_lines ::
  "url_parser \<Rightarrow> fleet_view \<Rightarrow> ip_addr \<Rightarrow> bool \<Rightarrow> string \<Rightarrow> header_lines" where
  "preflight_lines parse fv peer_addr is_tls header_text =
     (let line = request_line header_text;
          path = fst (snd (parse_request_target line));
          methods = (\<lambda>d. case allowed_methods_for_path path of Some m \<Rightarrow> m | None \<Rightarrow> d);
          origin = extract_origin_header header_text
      in if preflight_own_origin line path
         then echo_lines (filter_option (\<lambda>x. is_own_or_app_origin parse x is_tls header_text) origin)
                (methods ''GET, POST, DELETE, OPTIONS'')
         else if preflight_posture path = Some CorsFleetOrLoopback
         then echo_lines (filter_option (\<lambda>x. session_data_origin_allowed parse fv x peer_addr is_tls
                header_text) origin) (methods ''GET, POST, OPTIONS'')
         else if preflight_posture path = Some CorsFleetAllowlist
         then echo_lines (filter_option (\<lambda>x. fleet_access_origin_allowed parse fv x is_tls header_text)
                origin) (methods ''GET, POST, OPTIONS'')
         else grant_lines ''*'' (methods ''GET, POST, DELETE, OPTIONS''))"

section \<open>The context of the door\<close>

text \<open>
  One authority operation on the bounded pool of workers: it runs, or the pool is full, or the
  worker dies. The switches of a custom domain, the IAM snapshots and the worker are read anew
  at each use, and so is the clock of a lease: the argument is the number of the reading.
\<close>

datatype worker_run = WorkerRuns | WorkerBusy | WorkerStopped

definition hosted_authority_busy_error :: string where
  "hosted_authority_busy_error = ''hosted-control authority work is busy; retry the request''"

record door_world =
  dw_gateway :: gateway_world
  dw_hosted :: "nat \<Rightarrow> hosted_world"
  dw_origins :: origin_world
  dw_fleet :: fleet_view
  dw_files :: file_view
  dw_runtime :: hosted_runtime
  dw_crypto :: crypto
  dw_transient :: transient_world
  dw_readings :: readings
  dw_view :: "nat \<Rightarrow> local_iam_state"
  dw_worker :: "nat \<Rightarrow> worker_run"
  dw_custom_enabled :: "nat \<Rightarrow> bool"
  dw_clock :: "nat \<Rightarrow> int"
  dw_iam_file :: iam_load
  dw_fleet_lane_enabled :: bool
  dw_relay_peer_admission :: bool
  dw_bearer_token :: "string option"
  dw_client_cert_required :: bool
  dw_read_body :: "nat \<Rightarrow> (nat \<times> string) + string"

fun run_hosted_authority_io :: "worker_run \<Rightarrow> 's \<Rightarrow> ('s \<Rightarrow> 's \<times> (string + 'a)) \<Rightarrow> 's \<times> (string + 'a)" where
  "run_hosted_authority_io WorkerRuns s operation = operation s"
| "run_hosted_authority_io WorkerBusy s operation = (s, Inl hosted_authority_busy_error)"
| "run_hosted_authority_io WorkerStopped s operation =
     (s, Inl ''hosted-control authority worker stopped unexpectedly'')"

definition hosted_authority_error_status :: "string \<Rightarrow> nat" where
  "hosted_authority_error_status e = (if e = hosted_authority_busy_error then 429 else 403)"

definition lease_context :: "verified_lease \<Rightarrow> access_context" where
  "lease_context v = context_of (vl_principal v) (Some (vl_iam_state v))"

text \<open>What the door decides; an admission carries the matched row, its captures and the body.\<close>

datatype door_outcome =
    DoorRefuse nat door_error
  | DoorPreflight header_lines
  | DoorClosed
  | DoorAdmit access_context "string option" "(route \<times> string list \<times> string) option"

section \<open>The stages\<close>

type_synonym 'a staged = "(nat \<times> door_error) + 'a"

definition refuse :: "nat \<Rightarrow> string \<Rightarrow> 'a staged" where
  "refuse status message = Inl (status, ErrorText message)"

definition discovery_only_ingress :: "door_world \<Rightarrow> edge_facts \<Rightarrow> string \<Rightarrow> bool" where
  "discovery_only_ingress dw ef header_text = (ef_ingress ef = IngressReachabilityRelay
     \<or> ef_fleet_origin ef \<noteq> None
     \<or> request_names_known_fleet_origin (gw_parse_url (dw_gateway dw)) (dw_origins dw) header_text)"

definition door_lane :: "door_world \<Rightarrow> edge_facts \<Rightarrow> string \<Rightarrow> public_control_lane" where
  "door_lane dw ef header_text = classify_public_control_lane
     (discovery_only_ingress dw ef header_text) (ef_custom_domain ef) (dw_custom_enabled dw 0)
     (dw_fleet_lane_enabled dw)"

definition admitted_relay_peer :: "door_world \<Rightarrow> edge_facts \<Rightarrow> string \<Rightarrow> string \<Rightarrow> bool" where
  "admitted_relay_peer dw ef header_text path = (dw_relay_peer_admission dw
     \<and> discovery_only_ingress dw ef header_text \<and> ef_custom_domain ef = None
     \<and> (case tf_identity ef of None \<Rightarrow> False
        | Some i \<Rightarrow> pc_class i = PeerClass \<or> path = ''/mcp''))"

definition authority_free_request :: "string \<Rightarrow> string \<Rightarrow> string \<Rightarrow> bool" where
  "authority_free_request line meth path =
     (allows_remote_certless_http line meth path \<or> is_public_hosted_control_path meth path)"

definition hosted_runtime_enabled :: "hosted_runtime \<Rightarrow> bool" where
  "hosted_runtime_enabled rt = (rt_enabled rt \<and> rt_init_error rt = None)"

definition wants_lease ::
  "door_world \<Rightarrow> public_control_lane \<Rightarrow> string \<Rightarrow> string \<Rightarrow> string \<Rightarrow> bool" where
  "wants_lease dw lane header_text meth path = (pl_configured lane
     \<and> \<not> authority_free_request (request_line header_text) meth path
     \<and> hosted_runtime_enabled (dw_runtime dw) \<and> path \<noteq> ''/mcp''
     \<and> http_header_value header_text ''x-intendant-hosted-lease'' \<noteq> None)"

definition lease_transport :: "edge_facts \<Rightarrow> public_control_lane \<Rightarrow> string" where
  "lease_transport ef lane = (if pl_live_custom_domain lane \<noteq> None then ''custom-domain-https''
     else if ef_ingress ef = IngressReachabilityRelay then ''hosted-relay-https''
     else ''hosted-fleet-https'')"

definition verify_lease_request ::
  "door_world \<Rightarrow> edge_facts \<Rightarrow> public_control_lane \<Rightarrow> string \<Rightarrow> string \<Rightarrow> string \<Rightarrow> lane_files
     \<Rightarrow> lane_files \<times> (string + verified_lease)" where
  "verify_lease_request dw ef lane header_text meth path fs =
     (case rbind (hosted_request_proof_from_headers header_text) (\<lambda>proof.
        rbind (public_origin_from_request (gw_parse_url (dw_gateway dw)) header_text (tf_is_tls ef)
                 (ef_server_name ef) (ef_fleet_origin ef) (pl_live_custom_domain lane)) (\<lambda>origin.
        Inr (proof, origin))) of
        Inl e \<Rightarrow> (fs, Inl e)
      | Inr (proof, origin) \<Rightarrow> run_hosted_authority_io (dw_worker dw 0) fs
          (verify_request_proof (dw_runtime dw) (dw_crypto dw) (dw_hosted dw 0) (dw_transient dw)
             (dw_readings dw) (dw_view dw 0) meth
             (case split_whitespace (request_line header_text) of _ # t # _ \<Rightarrow> t | _ \<Rightarrow> path)
             origin proof (lease_transport ef lane)))"

definition origin_gate ::
  "door_world \<Rightarrow> edge_facts \<Rightarrow> string \<Rightarrow> string \<Rightarrow> bool \<Rightarrow> string option staged" where
  "origin_gate dw ef header_text path exempt =
     (case extract_origin_header header_text of
        Some origin \<Rightarrow> (case cross_origin_request_decision (gw_parse_url (dw_gateway dw)) (dw_fleet dw)
              origin path exempt (tf_peer_addr ef) (tf_is_tls ef) header_text of
            OriginAuthorityFree \<Rightarrow> Inr None
          | OriginOwn \<Rightarrow> Inr None
          | OriginEcho allowed \<Rightarrow> Inr (Some allowed)
          | OriginRefuse \<Rightarrow> refuse 403 ''cross-origin caller is not allowed on this API'')
      | None \<Rightarrow>
          if \<not> exempt \<and> map_option (\<lambda>v. to_ascii_lowercase (trim v))
               (http_header_value header_text ''sec-fetch-site'') \<in> {Some ''cross-site'', Some ''same-site''}
          then refuse 403 ''cross-site browser navigation is not allowed on this route''
          else Inr None)"

definition transport_gate ::
  "door_world \<Rightarrow> edge_facts \<Rightarrow> string \<Rightarrow> bool \<Rightarrow> verified_lease option \<Rightarrow> unit staged" where
  "transport_gate dw ef header_text authority_free v =
     (let g = dw_gateway dw; missing = remote_dashboard_client_auth_missing g ef header_text in
      if ((dw_client_cert_required dw \<and> \<not> tf_cert_present ef) \<or> missing)
         \<and> \<not> cleartext_loopback_admitted g (ef_ingress ef) (tf_peer_addr ef) (tf_is_tls ef) header_text
         \<and> \<not> authority_free \<and> v = None
      then refuse 401 (if direct_loopback_missing_admission_token g ef header_text
             then gw_refusal_message g
             else if missing then ''verified client certificate or authenticated peer identity required for remote dashboard access''
             else ''mTLS client certificate required'')
      else Inr ())"

definition door_context ::
  "door_world \<Rightarrow> edge_facts \<Rightarrow> string \<Rightarrow> bool \<Rightarrow> verified_lease option \<Rightarrow> access_context staged" where
  "door_context dw ef header_text authority_free v = (case v of
     Some lease \<Rightarrow> Inr (lease_context lease)
   | None \<Rightarrow> if authority_free then Inr (authority_free_http_access_context (tf_is_tls ef))
       else (let g = dw_gateway dw in
         case http_access_context g (dw_clock dw) (dw_iam_file dw) (transport_facts.truncate ef)
                (loopback_token_presented g header_text
                 \<or> is_loopback_cleartext_mcp_request g (tf_peer_addr ef) (tf_is_tls ef) header_text) of
           Inr a \<Rightarrow> Inr a | Inl message \<Rightarrow> refuse 500 message))"

definition operation_gate ::
  "door_world \<Rightarrow> nat \<Rightarrow> access_context \<Rightarrow> peer_operation option \<Rightarrow> unit staged" where
  "operation_gate dw k a op = (case op of None \<Rightarrow> Inr ()
   | Some o' \<Rightarrow> (let d = context_decision (dw_hosted dw k) (dw_origins dw) a o' in
       if de_allowed d then Inr () else refuse 403 (de_reason d)))"

definition file_gate ::
  "door_world \<Rightarrow> nat \<Rightarrow> edge_facts \<Rightarrow> access_context \<Rightarrow> string \<Rightarrow> string \<Rightarrow> string \<Rightarrow> unit staged" where
  "file_gate dw k ef a line meth path = (case peer_filesystem_query_request meth path of
     None \<Rightarrow> Inr ()
   | Some (op, kind) \<Rightarrow> map_err (\<lambda>e. (403, e)) (authorize_http_filesystem_access (dw_hosted dw k)
       (dw_origins dw) (dw_files dw) a (tf_identity ef) op kind (or_empty (query_param line ''path''))))"

definition federation_gate ::
  "door_world \<Rightarrow> access_context \<Rightarrow> string \<Rightarrow> string \<Rightarrow> string \<Rightarrow> unit staged" where
  "federation_gate dw a header_text meth path =
     (if \<not> is_federation_path (request_line header_text) then Inr ()
      else rbind (operation_gate dw 1 a (federation_http_operation meth path)) (\<lambda>_.
        map_err (\<lambda>(status, message). (status, ErrorText message))
          (verify_bearer_token (dw_gateway dw) header_text (dw_bearer_token dw))))"

definition lease_route_gate ::
  "door_world \<Rightarrow> nat \<Rightarrow> verified_lease option \<Rightarrow> string \<Rightarrow> string \<Rightarrow> string \<Rightarrow> unit staged" where
  "lease_route_gate dw k v meth path message = (case v of None \<Rightarrow> Inr ()
   | Some lease \<Rightarrow> (case hosted_preset_for_principal (dw_hosted dw k) (vl_iam_state lease)
                          (vl_principal lease) of
       Inr preset \<Rightarrow> if hosted_http_route_allowed preset meth path then Inr () else refuse 403 message
     | Inl _ \<Rightarrow> refuse 403 message))"

definition body_cap :: "body_policy \<Rightarrow> nat option" where
  "body_cap p = (case p of BodyNone \<Rightarrow> None | BodyStreaming \<Rightarrow> None
     | BodyDefault \<Rightarrow> Some default_body_cap_bytes | BodyCapped cap \<Rightarrow> Some cap)"

definition custom_domain_live :: "door_world \<Rightarrow> nat \<Rightarrow> edge_facts \<Rightarrow> string + unit" where
  "custom_domain_live dw k ef = (if ef_custom_domain ef \<noteq> None \<and> \<not> dw_custom_enabled dw k
     then Inl ''custom-domain control became unavailable during the request'' else Inr ())"

text \<open>A lease is read again once the body is in, and the gates of the route run on what it is now.\<close>

definition refresh_lease ::
  "door_world \<Rightarrow> edge_facts \<Rightarrow> verified_lease \<Rightarrow> string \<Rightarrow> string \<Rightarrow> string \<Rightarrow> access_context staged" where
  "refresh_lease dw ef v line meth path =
     rbind (map_err (\<lambda>e. (hosted_authority_error_status e, ErrorText e))
       (rbind (custom_domain_live dw 3 ef) (\<lambda>_.
        rbind (snd (run_hosted_authority_io (dw_worker dw 1) () (\<lambda>s. (s,
           revalidate_verified_lease (dw_runtime dw) (dw_crypto dw) (dw_hosted dw 2) (dw_view dw 1) v))))
          (\<lambda>current.
        rbind (custom_domain_live dw 4 ef) (\<lambda>_. Inr current))))) (\<lambda>current.
     rbind (operation_gate dw 3 (lease_context current) (required_operation meth path)) (\<lambda>_.
     rbind (file_gate dw 3 ef (lease_context current) line meth path) (\<lambda>_.
     rbind (lease_route_gate dw 3 (Some current) meth path
              ''route is outside the current hosted lease HTTP projection'') (\<lambda>_.
     Inr (lease_context current)))))"

definition staged_outcome :: "('a \<Rightarrow> door_outcome) \<Rightarrow> 'a staged \<Rightarrow> door_outcome" where
  "staged_outcome f r = (case r of Inl (status, e) \<Rightarrow> DoorRefuse status e | Inr x \<Rightarrow> f x)"

definition dispatch_route ::
  "door_world \<Rightarrow> edge_facts \<Rightarrow> access_context \<Rightarrow> verified_lease option \<Rightarrow> string option
     \<Rightarrow> string \<Rightarrow> string \<Rightarrow> string \<Rightarrow> door_outcome" where
  "dispatch_route dw ef a v fleet_origin line meth path = (case match_route meth path of
     None \<Rightarrow> DoorAdmit a fleet_origin None
   | Some (r, captures) \<Rightarrow>
       (case (case body_cap (ro_body r) of None \<Rightarrow> Inr [] | Some cap \<Rightarrow> dw_read_body dw cap) of
          Inl (status, message) \<Rightarrow> DoorRefuse status (ErrorText message)
        | Inr body \<Rightarrow>
            if ef_custom_domain ef \<noteq> None \<and> \<not> dw_custom_enabled dw 2 then DoorClosed
            else (case v of
                None \<Rightarrow> DoorAdmit a fleet_origin (Some (r, captures, body))
              | Some lease \<Rightarrow> staged_outcome
                  (\<lambda>a'. DoorAdmit a' fleet_origin (Some (r, captures, body)))
                  (refresh_lease dw ef lease line meth path))))"

text \<open>From the gate of the origin to the handler.\<close>

definition serve_verified ::
  "door_world \<Rightarrow> edge_facts \<Rightarrow> string \<Rightarrow> verified_lease option \<Rightarrow> door_outcome" where
  "serve_verified dw ef header_text v =
     (let line = request_line header_text;
          (meth, path, _) = parse_request_target line;
          authority_free = authority_free_request line meth path
      in staged_outcome (\<lambda>(fleet_origin, a). dispatch_route dw ef a v fleet_origin line meth path)
       (rbind (origin_gate dw ef header_text path
            (authority_free \<and> \<not> is_custom_domain_only_hosted_control_path meth path)) (\<lambda>fleet_origin.
        rbind (transport_gate dw ef header_text authority_free v) (\<lambda>_.
        rbind (if custom_domain_hosted_authority_revoked (ef_custom_domain ef \<noteq> None) (v \<noteq> None)
                    (dw_custom_enabled dw 1)
               then refuse 403 ''custom-domain control became unavailable while request authority was being verified''
               else Inr ()) (\<lambda>_.
        rbind (door_context dw ef header_text authority_free v) (\<lambda>a.
        rbind (file_gate dw 1 ef a line meth path) (\<lambda>_.
        rbind (federation_gate dw a header_text meth path) (\<lambda>_.
        rbind (operation_gate dw 1 a (required_operation meth path)) (\<lambda>_.
        rbind (lease_route_gate dw 1 v meth path ''route is outside the hosted lease HTTP projection'') (\<lambda>_.
        Inr (fleet_origin, a)))))))))))"

definition serve_http_request ::
  "door_world \<Rightarrow> edge_facts \<Rightarrow> string \<Rightarrow> lane_files \<Rightarrow> lane_files \<times> door_outcome" where
  "serve_http_request dw ef header_text fs =
     (let line = request_line header_text;
          (meth, path, _) = parse_request_target line;
          lane = door_lane dw ef header_text;
          stop = (\<lambda>status message. (fs, DoorRefuse status (ErrorText message)))
      in if ef_ingress ef = IngressSessionMcp \<and> path \<noteq> ''/mcp''
         then stop 403 ''this listener serves session-scoped /mcp only''
         else if query_param line ''connect'' = Some ''1''
         then stop 403 ''Hosted Connect mode is not served from the daemon origin.''
         else if meth = ''OPTIONS''
         then (fs, DoorPreflight (preflight_lines (gw_parse_url (dw_gateway dw)) (dw_fleet dw)
                (tf_peer_addr ef) (tf_is_tls ef) header_text))
         else if is_custom_domain_only_hosted_control_path meth path \<and> pl_live_custom_domain lane = None
         then stop 404 ''custom-domain passkey endpoint is unavailable on this TLS name''
         else if is_fleet_only_hosted_control_path meth path
                 \<and> (\<not> pl_public_lease_ingress lane \<or> \<not> pl_configured lane)
         then stop 404 ''hosted-control browser entry points require a configured public TLS lane''
         else if wants_lease dw lane header_text meth path
         then (case verify_lease_request dw ef lane header_text meth path fs of
             (fs', Inl e) \<Rightarrow> (fs', DoorRefuse (if e = hosted_authority_busy_error then 429 else 401) (ErrorText e))
           | (fs', Inr v) \<Rightarrow> (fs', serve_verified dw ef header_text (Some v)))
         else if pl_public_lease_ingress lane \<and> \<not> authority_free_request line meth path
                 \<and> \<not> admitted_relay_peer dw ef header_text path
         then stop 403 (if ef_custom_domain ef \<noteq> None
                then ''this public endpoint requires a valid bounded lease; use a trusted direct surface for root administration''
                else ''the public fleet-name endpoint is discovery-only without a valid bounded lease; use loopback or the independently fingerprint-verified direct mTLS address for control'')
         else (fs, serve_verified dw ef header_text None))"

text \<open>The handlers of \<open>/mcp\<close> resolve the principal of a call on their own ladder.\<close>

definition mcp_call_context ::
  "door_world \<Rightarrow> edge_facts \<Rightarrow> string \<Rightarrow> (nat \<times> string) + access_context" where
  "mcp_call_context dw ef header_text =
     (if ef_ingress ef = IngressSessionMcp
      then session_only_mcp_access_context (dw_gateway dw) (dw_clock dw) (dw_iam_file dw) header_text
      else mcp_http_access_context (dw_gateway dw) (dw_clock dw) (dw_iam_file dw)
             (transport_facts.truncate ef) header_text)"

end
