(* ===== verification/McpLaws.thy ===== *)
theory McpLaws
  imports GatewayMcp IamLaws
begin

text \<open>
  The ladder of \<open>/mcp\<close>: what a session's token proves and for how long, and that a session with
  a grant of its own never acts on anything else.
\<close>

section \<open>Tokens\<close>



lemma classify_session:
  "classify_mcp_token g session c = Some (BindingSession s, e) \<longleftrightarrow>
     c \<noteq> gw_process_token g \<and> session = Some s
     \<and> expected_session_mcp_credential g s = Some (c, e)"
  by (auto simp: classify_mcp_token_def split: if_splits bind_splits)

lemma expected_Some:
  "expected_session_mcp_credential g sid = Some (t, e) \<longleftrightarrow>
     t = gw_sha256_hex g (credential_input (gw_process_token g) sid e)
     \<and> (case gw_registry g sid of None \<Rightarrow> e = None
        | Some x \<Rightarrow> se_session_log x \<in> set (gw_live_logs g) \<and> e = Some (se_credential_epoch x))"
  by (auto simp: expected_session_mcp_credential_def derive_session_mcp_credential_def
      split: option.splits)




section \<open>Sessions with a grant of their own\<close>










lemma stamp_simps [simp]:
  "ac_iam_state (stamp_mcp_registration e a) = ac_iam_state a"
  "ac_peer_filesystem (stamp_mcp_registration e a) = ac_peer_filesystem a"
  by (simp_all add: stamp_mcp_registration_def)




section \<open>The separator of a credential\<close>

text \<open>The identifier that spells out a session and its epoch.\<close>

definition spelled_session :: "string \<Rightarrow> string \<Rightarrow> string" where
  "spelled_session sid epoch = sid @ epoch_tag @ epoch"

lemma spelled_credential:
  "credential_input t (spelled_session sid e) None = credential_input t sid (Some e)"
  by (simp add: credential_input_def spelled_session_def)

definition carries_session :: "local_iam_state \<Rightarrow> string \<Rightarrow> bool" where
  "carries_session st v = (\<exists>p \<in> set (is_principals st). \<exists>a \<in> set (ip_authn p).
     authn_matches ''agent_session'' ''session_id'' (trim v) a)"

lemma carries_none:
  "\<not> carries_session st v \<Longrightarrow> principal_for_authn n st ''agent_session'' ''session_id'' v t = None"
  "\<not> carries_session st v \<Longrightarrow> principal_for_authn_any_status n st ''agent_session'' ''session_id'' v t = None"
  by (auto simp: carries_session_def principal_for_authn_def principal_for_authn_any_status_def Let_def
      split: option.splits dest!: find_Some_in)

text \<open>
  C29: a session identifier is not checked for the zero byte that separates the parts of a
  credential, so the token of a registered session is also the token of an unregistered one that
  spells out its epoch: whoever holds the token and knows the epoch authenticates as that other
  session, which no exact grant scopes, and acts on the root default.
\<close>

theorem token_names_a_second_session:
  assumes "gw_registry g sid = Some x" and "se_session_log x \<in> set (gw_live_logs g)"
    and "expected_session_mcp_credential g sid = Some (token, e)" and "token \<noteq> gw_process_token g"
    and "gw_registry g (spelled_session sid (se_credential_epoch x)) = None"
    and "\<not> carries_session st (spelled_session sid (se_credential_epoch x))"
    and "\<not> carries_session st ''*''"
  shows "let other = spelled_session sid (se_credential_epoch x) in
     classify_mcp_token g (Some other) token = Some (BindingSession other, None)
     \<and> (\<exists>c. mcp_agent_session_context now (Inr (Some st)) other transport True = Inr c
          \<and> (\<forall>w ow op. de_allowed (context_decision w ow c op)))"
proof -
  let ?other = "spelled_session sid (se_credential_epoch x)"
  let ?c = "context_of (supervised_agent_session_default ?other transport True) None"
  have "expected_session_mcp_credential g ?other = Some (token, None)"
    using assms(1,3,5) by (simp add: expected_Some spelled_credential)
  then have "classify_mcp_token g (Some ?other) token = Some (BindingSession ?other, None)"
    using assms(4) by (simp add: classify_session)
  moreover have "mcp_agent_session_context now (Inr (Some st)) ?other transport True = Inr ?c"
    using assms(6,7) by (simp add: mcp_agent_session_context_def principal_for_agent_session_def
        principal_for_agent_session_any_status_def carries_none)
  moreover have "de_allowed (context_decision w ow ?c op)" for w ow op
    by (simp add: context_decision_def evaluate_principal_operation_def
        supervised_agent_session_default_def root_dashboard_session_def)
  ultimately show ?thesis unfolding Let_def by blast
qed

section \<open>A daemon with two sessions\<close>

definition demo_serves :: mcp_registry where
  "demo_serves = [''a'' \<mapsto> \<lparr> se_session_log = 1, se_credential_epoch = ''e1'',
     se_initialize_reported = False, se_tools_reported = False \<rparr>]"

definition demo_gateway :: gateway_world where
  "demo_gateway = \<lparr> gw_parse_url = (\<lambda>_. None), gw_sha256_hex = (\<lambda>s. s), gw_uuid_text = Some,
     gw_process_token = ''p'', gw_admission_token = ''t'', gw_refusal_message = ''refused'',
     gw_live_logs = [1, 2], gw_registry = demo_serves \<rparr>"

lemma demo_gateway_simps [simp]:
  "gw_parse_url demo_gateway = (\<lambda>_. None)" "gw_sha256_hex demo_gateway = (\<lambda>s. s)"
  "gw_process_token demo_gateway = ''p''" "gw_admission_token demo_gateway = ''t''"
  "gw_live_logs demo_gateway = [1, 2]" "gw_registry demo_gateway = demo_serves"
  "gw_refusal_message demo_gateway = ''refused''"
  by (simp_all add: demo_gateway_def)

definition demo_token :: string where
  "demo_token = credential_input ''p'' ''a'' (Some ''e1'')"

lemma demo_expected: "expected_session_mcp_credential demo_gateway ''a'' = Some (demo_token, Some ''e1'')"
  by (simp add: expected_Some demo_token_def demo_serves_def)

lemma demo_token_not_process: "demo_token \<noteq> ''p''"
  by (simp add: demo_token_def credential_input_def)




theorem token_names_a_second_session_witness:
  "let other = spelled_session ''a'' ''e1'' in
     classify_mcp_token demo_gateway (Some other) demo_token = Some (BindingSession other, None)"
proof -
  have "gw_registry demo_gateway (spelled_session ''a'' ''e1'') = None"
    by (simp add: demo_serves_def spelled_session_def epoch_tag_def)
  moreover have "\<not> carries_session default_iam_state v" for v
    by (simp add: carries_session_def default_iam_state_def)
  ultimately show ?thesis
    using token_names_a_second_session [where x = "\<lparr> se_session_log = 1, se_credential_epoch = ''e1'',
        se_initialize_reported = False, se_tools_reported = False \<rparr>", OF _ _ demo_expected,
        of default_iam_state] demo_token_not_process
    by (simp add: demo_serves_def Let_def)
qed









end
