(* ===== verification/DoorLaws.thy ===== *)
theory DoorLaws
  imports GatewayDoor IamLaws
begin

text \<open>
  What passes the front door: authority only with a credential, root only from this machine, the
  operation of the route in every case, and on the public lanes a lease, a paired machine or
  nothing. The stages an admission has passed are stated once; every law is read off them.
\<close>

section \<open>An admission\<close>

lemma staged_outcome_Admit:
  "staged_outcome f r = DoorAdmit a o' x \<longleftrightarrow> (\<exists>y. r = Inr y \<and> f y = DoorAdmit a o' x)"
  by (auto simp: staged_outcome_def split: sum.splits prod.splits)

lemma refuse_not_Inr [simp]: "refuse s m \<noteq> Inr y" "Inr y \<noteq> refuse s m"
  by (simp_all add: refuse_def)

lemma map_err_Inr [simp]: "map_err f r = Inr y \<longleftrightarrow> r = Inr y"
  by (cases r) (simp_all add: map_err_def)

lemma operation_gate_Inr:
  "operation_gate dw k a op = Inr () \<longleftrightarrow> (case op of None \<Rightarrow> True
     | Some o' \<Rightarrow> de_allowed (context_decision (dw_hosted dw k) (dw_origins dw) a o'))"
  by (auto simp: operation_gate_def Let_def split: option.splits)

lemma lease_route_gate_Inr:
  "lease_route_gate dw k v meth path m = Inr () \<longleftrightarrow> (case v of None \<Rightarrow> True
     | Some lease \<Rightarrow> \<exists>preset. hosted_preset_for_principal (dw_hosted dw k) (vl_iam_state lease)
            (vl_principal lease) = Inr preset \<and> hosted_http_route_allowed preset meth path)"
  by (auto simp: lease_route_gate_def split: option.splits sum.splits)

text \<open>
  The stages an admission has passed: with a lease \<open>v\<close> or none, into the context \<open>a0\<close> at the head
  of the request and \<open>a\<close> at the handler.
\<close>

definition passed ::
  "door_world \<Rightarrow> edge_facts \<Rightarrow> string \<Rightarrow> verified_lease option \<Rightarrow> access_context \<Rightarrow> access_context \<Rightarrow> bool" where
  "passed dw ef h v a0 a = (let line = request_line h; (meth, path, _) = parse_request_target line;
      free = authority_free_request line meth path in
     transport_gate dw ef h free v = Inr () \<and> door_context dw ef h free v = Inr a0
     \<and> (\<exists>o'. origin_gate dw ef h path (free \<and> \<not> is_custom_domain_only_hosted_control_path meth path) = Inr o')
     \<and> federation_gate dw a0 h meth path = Inr ()
     \<and> operation_gate dw 1 a0 (required_operation meth path) = Inr ()
     \<and> lease_route_gate dw 1 v meth path ''route is outside the hosted lease HTTP projection'' = Inr ()
     \<and> (a = a0 \<and> (v = None \<or> match_route meth path = None)
        \<or> (\<exists>lease current. v = Some lease \<and> a = lease_context current
             \<and> revalidate_verified_lease (dw_runtime dw) (dw_crypto dw) (dw_hosted dw 2) (dw_view dw 1) lease
                 = Inr current
             \<and> operation_gate dw 3 a (required_operation meth path) = Inr ()
             \<and> lease_route_gate dw 3 (Some current) meth path
                 ''route is outside the current hosted lease HTTP projection'' = Inr ())))"

lemma run_worker_Inr:
  "snd (run_hosted_authority_io k s f) = Inr y \<longleftrightarrow> k = WorkerRuns \<and> snd (f s) = Inr y"
  by (cases k) auto

lemma refresh_parts:
  assumes "refresh_lease dw ef v line meth path = Inr a"
  shows "\<exists>current. a = lease_context current
    \<and> revalidate_verified_lease (dw_runtime dw) (dw_crypto dw) (dw_hosted dw 2) (dw_view dw 1) v = Inr current
    \<and> operation_gate dw 3 a (required_operation meth path) = Inr ()
    \<and> lease_route_gate dw 3 (Some current) meth path
        ''route is outside the current hosted lease HTTP projection'' = Inr ()"
  using assms by (auto simp: refresh_lease_def run_worker_Inr)

lemma dispatch_parts:
  assumes "dispatch_route dw ef a0 v fl line meth path = DoorAdmit a o' x"
  shows "(v = None \<or> match_route meth path = None) \<and> a = a0
    \<or> match_route meth path \<noteq> None \<and> (\<exists>lease. v = Some lease
        \<and> refresh_lease dw ef lease line meth path = Inr a)"
  using assms by (auto simp: dispatch_route_def staged_outcome_Admit split: option.splits sum.splits
      prod.splits if_splits)

lemma serve_verified_passed:
  assumes "serve_verified dw ef h v = DoorAdmit a o' x"
  shows "\<exists>a0. passed dw ef h v a0 a"
proof -
  obtain meth path q where t: "parse_request_target (request_line h) = (meth, path, q)"
    by (cases "parse_request_target (request_line h)") auto
  from assms obtain fl a0 where g:
    "origin_gate dw ef h path (authority_free_request (request_line h) meth path
        \<and> \<not> is_custom_domain_only_hosted_control_path meth path) = Inr fl"
    "transport_gate dw ef h (authority_free_request (request_line h) meth path) v = Inr ()"
    "door_context dw ef h (authority_free_request (request_line h) meth path) v = Inr a0"
    "federation_gate dw a0 h meth path = Inr ()"
    "operation_gate dw 1 a0 (required_operation meth path) = Inr ()"
    "lease_route_gate dw 1 v meth path ''route is outside the hosted lease HTTP projection'' = Inr ()"
    and d: "dispatch_route dw ef a0 v fl (request_line h) meth path = DoorAdmit a o' x"
    unfolding serve_verified_def Let_def t by (auto simp: staged_outcome_Admit)
  show ?thesis
  proof (intro exI [of _ a0])
    show "passed dw ef h v a0 a"
      using g dispatch_parts [OF d] refresh_parts
      unfolding passed_def Let_def t by (auto dest!: refresh_parts)
  qed
qed

text \<open>How a request gets that far.\<close>

lemma served_parts:
  assumes "snd (serve_http_request dw ef h fs) = DoorAdmit a o' x"
    and "parse_request_target (request_line h) = (meth, path, q)"
  obtains v a0 where "passed dw ef h v a0 a"
    and "ef_ingress ef = IngressSessionMcp \<longrightarrow> path = ''/mcp''"
    and "v = None \<Longrightarrow> pl_public_lease_ingress (door_lane dw ef h)
           \<Longrightarrow> authority_free_request (request_line h) meth path \<or> admitted_relay_peer dw ef h path"
    and "\<And>lease. v = Some lease \<Longrightarrow> wants_lease dw (door_lane dw ef h) h meth path
           \<and> (\<exists>fs'. verify_lease_request dw ef (door_lane dw ef h) h meth path fs = (fs', Inr lease))"
  using assms unfolding serve_http_request_def Let_def
  by (auto split: if_splits prod.splits sum.splits dest!: serve_verified_passed intro: that)

section \<open>Contexts\<close>

lemma authority_free_powerless:
  "\<not> de_allowed (context_decision w ow (authority_free_http_access_context t) op)"
  by (simp add: authority_free_http_access_context_def context_decision_def
      evaluate_principal_operation_def machine_kind_def authority_free_http_def)

text \<open>The context of an admission without a lease, by what its caller showed.\<close>

lemma door_context_cases:
  assumes "door_context dw ef h free None = Inr a"
  shows "free \<and> a = authority_free_http_access_context (tf_is_tls ef)
    \<or> tf_identity ef \<noteq> None \<or> ac_iam_state a \<noteq> None
    \<or> \<not> free \<and> tf_identity ef = None \<and> tf_cert_fingerprint ef = None
      \<and> a = context_of (root_dashboard_session ''trusted-dashboard-http'' (transport_of (tf_is_tls ef))) None"
proof (cases free)
  case False
  then obtain adm where "http_access_context (dw_gateway dw) (dw_clock dw) (dw_iam_file dw)
      (transport_facts.truncate ef) adm = Inr a"
    using assms by (auto simp: door_context_def Let_def split: sum.splits)
  moreover have "tf_identity (transport_facts.truncate ef) = tf_identity ef"
    "tf_cert_fingerprint (transport_facts.truncate ef) = tf_cert_fingerprint ef"
    "tf_is_tls (transport_facts.truncate ef) = tf_is_tls ef"
    by (simp_all add: transport_facts.truncate_def)
  ultimately show ?thesis using False
    by (auto simp: http_access_context_def split: option.splits if_splits)
qed (use assms in \<open>auto simp: door_context_def\<close>)

lemma lease_context_state [simp]: "ac_iam_state (lease_context v) = Some (vl_iam_state v)"
  by (simp add: lease_context_def)

text \<open>
  What makes a request local: its socket peer is this machine, no relay or public TLS name brought
  it, and it shows the per-boot token or a token of the \<open>/mcp\<close> lane.
\<close>

definition local_request :: "door_world \<Rightarrow> edge_facts \<Rightarrow> string \<Rightarrow> bool" where
  "local_request dw ef h = (client_ip_is_loopback (tf_peer_addr ef)
     \<and> ef_ingress ef \<noteq> IngressReachabilityRelay
     \<and> ef_fleet_origin ef = None \<and> ef_custom_domain ef = None
     \<and> \<not> request_names_known_fleet_origin (gw_parse_url (dw_gateway dw)) (dw_origins dw) h
     \<and> (loopback_token_presented (dw_gateway dw) h
        \<or> is_loopback_cleartext_mcp_request (dw_gateway dw) (tf_peer_addr ef) (tf_is_tls ef) h))"

lemma transport_local:
  assumes "transport_gate dw ef h False None = Inr ()" "tf_identity ef = None"
    and "tf_cert_fingerprint ef = None"
  shows "client_ip_is_loopback (tf_peer_addr ef)
    \<and> (loopback_token_presented (dw_gateway dw) h
       \<or> is_loopback_cleartext_mcp_request (dw_gateway dw) (tf_peer_addr ef) (tf_is_tls ef) h)"
  using assms by (cases "ef_ingress ef")
    (auto simp: transport_gate_def Let_def remote_dashboard_client_auth_missing_def
      direct_loopback_dashboard_request_def is_loopback_cleartext_mcp_request_def split: if_splits)

lemma private_lane:
  assumes "\<not> pl_public_lease_ingress (door_lane dw ef h)"
  shows "ef_ingress ef \<noteq> IngressReachabilityRelay \<and> ef_fleet_origin ef = None
    \<and> ef_custom_domain ef = None
    \<and> \<not> request_names_known_fleet_origin (gw_parse_url (dw_gateway dw)) (dw_origins dw) h"
  using assms by (auto simp: door_lane_def classify_public_control_lane_def Let_def
      is_public_lease_ingress_def discovery_only_ingress_def)

text \<open>
  C6: a request that may do anything at all without a paired identity and without a stored grant is
  the owner on this machine: the connection is from loopback, came over no relay and under no public
  name of the fleet or a custom domain, and the request shows the per-boot admission token or a token
  of the \<open>/mcp\<close> lane.
\<close>

theorem implicit_root_is_local:
  assumes "snd (serve_http_request dw ef h fs) = DoorAdmit a o' x"
    and "de_allowed (context_decision w ow a op)"
    and "tf_identity ef = None" and "ac_iam_state a = None"
  shows "local_request dw ef h
    \<and> a = context_of (root_dashboard_session ''trusted-dashboard-http'' (transport_of (tf_is_tls ef))) None"
proof -
  obtain meth path q where t: "parse_request_target (request_line h) = (meth, path, q)"
    by (cases "parse_request_target (request_line h)") auto
  obtain v a0 where p: "passed dw ef h v a0 a"
    and l: "v = None \<Longrightarrow> pl_public_lease_ingress (door_lane dw ef h)
           \<Longrightarrow> authority_free_request (request_line h) meth path \<or> admitted_relay_peer dw ef h path"
    using served_parts [OF assms(1) t] by metis
  let ?free = "authority_free_request (request_line h) meth path"
  have a: "a = a0" using p assms(4) unfolding passed_def Let_def t by auto
  have v: "v = None" using p assms(4) a unfolding passed_def Let_def t
    by (auto simp: door_context_def split: option.splits)
  have "door_context dw ef h ?free None = Inr a" "transport_gate dw ef h ?free None = Inr ()"
    using p a v unfolding passed_def Let_def t by auto
  moreover have "a \<noteq> authority_free_http_access_context (tf_is_tls ef)"
    using assms(2) authority_free_powerless by metis
  ultimately have c: "\<not> ?free" "tf_cert_fingerprint ef = None" "transport_gate dw ef h False None = Inr ()"
    "a = context_of (root_dashboard_session ''trusted-dashboard-http'' (transport_of (tf_is_tls ef))) None"
    using door_context_cases [of dw ef h ?free a] assms(3,4) by auto
  then have "\<not> pl_public_lease_ingress (door_lane dw ef h)"
    using l [OF v] assms(3) by (auto simp: admitted_relay_peer_def)
  with c transport_local [OF c(3) assms(3) c(2)] private_lane show ?thesis
    by (auto simp: local_request_def)
qed

section \<open>Gates\<close>

lemma federation_gate_op:
  assumes "federation_gate dw a h meth path = Inr ()" "is_federation_path (request_line h)"
    and "federation_http_operation meth path = Some op"
  shows "de_allowed (context_decision (dw_hosted dw 1) (dw_origins dw) a op)"
  using assms by (auto simp: federation_gate_def operation_gate_Inr)

text \<open>
  C18: the door lets no request past it that its caller may not make: with the operation the route
  table or the legacy surface asks for, the context handed to the handler is one the evaluator
  allows it, at one of the two moments the door asks; on the federation surface a caller without a
  lease also has the operation of that surface, and every caller has shown the bearer where one is
  set.
\<close>

theorem door_enforces_table:
  assumes "snd (serve_http_request dw ef h fs) = DoorAdmit a o' x"
    and "parse_request_target (request_line h) = (meth, path, q)"
  shows "(\<forall>op. required_operation meth path = Some op \<longrightarrow>
      (\<exists>k \<in> {1, 3}. de_allowed (context_decision (dw_hosted dw k) (dw_origins dw) a op)))
    \<and> (is_federation_path (request_line h) \<longrightarrow>
        verify_bearer_token (dw_gateway dw) h (dw_bearer_token dw) = Inr ()
        \<and> (\<not> wants_lease dw (door_lane dw ef h) h meth path \<longrightarrow>
             (\<forall>op. federation_http_operation meth path = Some op \<longrightarrow>
                de_allowed (context_decision (dw_hosted dw 1) (dw_origins dw) a op))))"
proof -
  obtain v a0 where p: "passed dw ef h v a0 a"
    and w: "\<And>lease. v = Some lease \<Longrightarrow> wants_lease dw (door_lane dw ef h) h meth path"
    using served_parts [OF assms] by metis
  then have g: "operation_gate dw 1 a0 (required_operation meth path) = Inr ()"
    "federation_gate dw a0 h meth path = Inr ()"
    "a = a0 \<or> operation_gate dw 3 a (required_operation meth path) = Inr ()"
    "v = None \<Longrightarrow> a = a0"
    unfolding passed_def Let_def assms(2) by auto
  then have "\<exists>k \<in> {1, 3}. de_allowed (context_decision (dw_hosted dw k) (dw_origins dw) a op)"
    if "required_operation meth path = Some op" for op
    using that by (auto simp: operation_gate_Inr)
  moreover have "verify_bearer_token (dw_gateway dw) h (dw_bearer_token dw) = Inr ()"
    if "is_federation_path (request_line h)"
    using that g(2) by (auto simp: federation_gate_def)
  moreover have "de_allowed (context_decision (dw_hosted dw 1) (dw_origins dw) a op)"
    if "is_federation_path (request_line h)" "federation_http_operation meth path = Some op"
      "\<not> wants_lease dw (door_lane dw ef h) h meth path" for op
    using federation_gate_op [OF g(2) that(1,2)] g(4) w that(3) by (cases v) auto
  ultimately show ?thesis by simp
qed

section \<open>The public lanes\<close>

lemma lease_kept:
  "revalidate_verified_lease rt cr w view v = Inr c \<Longrightarrow> vl_document c = vl_document v"
  by (auto simp: revalidate_verified_lease_def split: if_splits)

text \<open>
  C16: over a relay, under a name of the fleet or on the owner's own domain, only three kinds of
  request reach a handler: one free of authority, which may do nothing; one of a paired machine,
  where the owner admits those; and one under a lease that was verified for this very request, on a
  route its preset projects.
\<close>

theorem public_lanes_admit_no_owner:
  assumes "snd (serve_http_request dw ef h fs) = DoorAdmit a o' x"
    and "parse_request_target (request_line h) = (meth, path, q)"
    and "ef_ingress ef = IngressReachabilityRelay \<or> ef_fleet_origin ef \<noteq> None \<or> ef_custom_domain ef \<noteq> None"
  shows "a = authority_free_http_access_context (tf_is_tls ef)
    \<or> tf_identity ef \<noteq> None \<and> admitted_relay_peer dw ef h path
      \<and> ac_peer_filesystem a = map_option pc_filesystem (tf_identity ef)
    \<or> (\<exists>lease current fs'. verify_lease_request dw ef (door_lane dw ef h) h meth path fs = (fs', Inr lease)
        \<and> a = lease_context current \<and> vl_document current = vl_document lease
        \<and> (\<exists>k \<in> {1, 3}. \<exists>preset. hosted_preset_for_principal (dw_hosted dw k) (vl_iam_state current)
             (vl_principal current) = Inr preset \<and> hosted_http_route_allowed preset meth path))"
proof -
  obtain v a0 where p: "passed dw ef h v a0 a"
    and l: "v = None \<Longrightarrow> pl_public_lease_ingress (door_lane dw ef h)
           \<Longrightarrow> authority_free_request (request_line h) meth path \<or> admitted_relay_peer dw ef h path"
    and w: "\<And>lease. v = Some lease \<Longrightarrow>
           (\<exists>fs'. verify_lease_request dw ef (door_lane dw ef h) h meth path fs = (fs', Inr lease))"
    using served_parts [OF assms(1,2)] by metis
  have pub: "pl_public_lease_ingress (door_lane dw ef h)"
    by (rule ccontr) (use private_lane [of dw ef h] assms(3) in auto)
  note p' = p [unfolded passed_def Let_def assms(2), simplified]
  show ?thesis
  proof (cases v)
    case None
    then have a: "a = a0" "door_context dw ef h (authority_free_request (request_line h) meth path) None = Inr a"
      using p' by auto
    show ?thesis
    proof (cases "authority_free_request (request_line h) meth path")
      case True
      with a show ?thesis by (simp add: door_context_def)
    next
      case False
      then have r: "admitted_relay_peer dw ef h path" using l [OF None pub] by simp
      then obtain i where i: "tf_identity ef = Some i"
        by (auto simp: admitted_relay_peer_def split: option.splits)
      then have "ac_peer_filesystem a = Some (pc_filesystem i)"
        using a(2) False by (auto simp: door_context_def http_access_context_def Let_def
            transport_facts.truncate_def split: sum.splits)
      with r i show ?thesis by simp
    qed
  next
    case (Some lease)
    then have a0: "a0 = lease_context lease"
      and r1: "\<exists>preset. hosted_preset_for_principal (dw_hosted dw 1) (vl_iam_state lease) (vl_principal lease)
          = Inr preset \<and> hosted_http_route_allowed preset meth path"
      using p' by (auto simp: door_context_def lease_route_gate_Inr)
    obtain fs' where f: "verify_lease_request dw ef (door_lane dw ef h) h meth path fs = (fs', Inr lease)"
      using w [OF Some] by blast
    consider "a = a0" | current where "a = lease_context current"
      "vl_document current = vl_document lease"
      "\<exists>preset. hosted_preset_for_principal (dw_hosted dw 3) (vl_iam_state current)
          (vl_principal current) = Inr preset \<and> hosted_http_route_allowed preset meth path"
      using p' Some by (auto simp: lease_route_gate_Inr dest: lease_kept)
    then show ?thesis
    proof cases
      case 1
      with a0 r1 f show ?thesis by blast
    next
      case 2
      with f show ?thesis by blast
    qed
  qed
qed

section \<open>Preflight\<close>

lemma granted_origin:
  "(''Access-Control-Allow-Origin'', x) \<in> set (echo_lines v m) \<longleftrightarrow> v = Some x"
  by (auto simp: echo_lines_def grant_lines_def split: option.splits)

lemma filter_option_Some: "filter_option P v = Some x \<longleftrightarrow> v = Some x \<and> P x"
  by (auto simp: filter_option_def split: bind_splits)

text \<open>
  C27: a preflight promises exactly what the door keeps: on a route the table scopes to origins, the
  answer to \<open>OPTIONS\<close> grants the caller's origin if and only if a request of that origin passes
  the gate of the origin; a browser is never let through to be refused, nor turned away from a
  route it may use.
\<close>

theorem preflight_agrees:
  assumes "extract_origin_header h = Some origin"
    and "parse_request_target (request_line h) = (meth, path, q)"
    and "preflight_posture path = Some posture" and "posture \<noteq> CorsPublic" and "path \<noteq> ''/config''"
  shows "(''Access-Control-Allow-Origin'', origin) \<in> set (preflight_lines parse fv addr is_tls h)
    \<longleftrightarrow> cross_origin_request_decision parse fv origin path False addr is_tls h \<noteq> OriginRefuse"
proof -
  have l: "fst (snd (parse_request_target (request_line h))) = path" by (simp add: assms(2))
  have trimmed: "trim origin = origin"
    using assms(1) by (auto simp: extract_origin_header_def leading_field_def Let_def
        split: option.splits if_splits)
  have own: "is_own_or_app_origin parse origin is_tls h
      \<Longrightarrow> fleet_access_origin_allowed parse fv origin is_tls h"
    by (simp add: fleet_access_origin_allowed_def Let_def trimmed)
  show ?thesis
    using own assms(3,4,5)
    by (cases posture)
      (auto simp: preflight_lines_def Let_def l preflight_own_origin_def assms(1) granted_origin
        filter_option_Some cross_origin_request_decision_def is_fleet_cors_access_path_def
        session_data_origin_allowed_def)
qed

end
