(* ===== verification/DoorDemo.thy ===== *)
theory DoorDemo
  imports DoorLaws McpLaws
begin

text \<open>
  Requests at the front door: the owner on this machine with the per-boot token, and a paired
  machine over the relay.
\<close>

section \<open>The daemon\<close>

definition local_url :: gateway_url where
  "local_url = \<lparr> uv_scheme = ''http'', uv_host = Some ''localhost'', uv_port = Some 80, uv_username = [],
     uv_password = None, uv_path = ''/'', uv_query = None, uv_fragment = None,
     uv_origin = ''http://localhost'', gu_written_port = None,
     gu_host = Some (HostDomain ''localhost'') \<rparr>"

definition local_parser :: url_parser where
  "local_parser s = (if s = ''http://localhost'' then Some local_url else None)"

definition door_gateway :: gateway_world where
  "door_gateway = demo_gateway\<lparr> gw_parse_url := local_parser \<rparr>"

definition demo_door :: door_world where
  "demo_door = \<lparr> dw_gateway = door_gateway, dw_hosted = (\<lambda>_. demo_world), dw_origins = demo_origins,
     dw_fleet = \<lparr> fv_peer_routes = [], fv_identities = [], fv_now_unix = 2 \<rparr>,
     dw_files = \<lparr> fw_home = None, fw_exists = (\<lambda>_. False), fw_canonicalize = (\<lambda>_. None) \<rparr>,
     dw_runtime = \<lparr> rt_enabled = False, rt_init_error = None, rt_identity = None,
        rt_daemon_id = ''d1'', rt_daemon_label = ''desk'' \<rparr>,
     dw_crypto = \<lparr> cr_b64_decode = (\<lambda>_. None), cr_b64u = (\<lambda>_. []), cr_key_fingerprint = (\<lambda>_. []),
        cr_p256_verify = (\<lambda>_ _ _. False), cr_verify_b64u = (\<lambda>_ _ _. False) \<rparr>,
     dw_transient = \<lparr> tw_sha = (\<lambda>s. s), tw_parse_url = (\<lambda>_. None), tw_size = (\<lambda>_. 0) \<rparr>,
     dw_readings = (\<lambda>_. 2000), dw_view = (\<lambda>_. default_iam_state), dw_worker = (\<lambda>_. WorkerRuns),
     dw_custom_enabled = (\<lambda>_. False), dw_clock = (\<lambda>_. 2000), dw_iam_file = Inr None,
     dw_fleet_lane_enabled = False, dw_relay_peer_admission = True, dw_bearer_token = None,
     dw_client_cert_required = False, dw_read_body = (\<lambda>_. Inr []) \<rparr>"

definition demo_peer :: peer_connection_identity where
  "demo_peer = \<lparr> pc_fingerprint = ''f1'', pc_label = ''lab'', pc_profile = ''peer-root'',
     pc_class = PeerClass, pc_filesystem = \<lparr> fp_read_roots = [], fp_write_roots = [] \<rparr>, pc_record = None \<rparr>"

definition local_edge :: edge_facts where
  "local_edge = \<lparr> tf_identity = None, tf_cert_fingerprint = None, tf_cert_present = False,
     tf_is_tls = False, tf_peer_addr = IpV4 0x7F000001, ef_ingress = IngressDirect,
     ef_server_name = None, ef_fleet_origin = None, ef_custom_domain = None \<rparr>"

definition relay_edge :: edge_facts where
  "relay_edge = local_edge\<lparr> tf_identity := Some demo_peer, tf_is_tls := True,
     ef_ingress := IngressReachabilityRelay \<rparr>"

definition demo_head :: string where
  "demo_head = ''GET /api/transfers HTTP/1.1'' @ crlf @ ''Host: localhost'' @ crlf
     @ ''x-intendant-loopback-token: t'' @ crlf @ crlf"

definition demo_files0 :: lane_files where
  "demo_files0 = \<lparr> lf_iam = None, lf_transient = None \<rparr>"

section \<open>The head\<close>

lemma head_line: "request_line demo_head = ''GET /api/transfers HTTP/1.1''" by code_simp

lemma head_target:
  "parse_request_target ''GET /api/transfers HTTP/1.1'' = (''GET'', ''/api/transfers'', [])"
  "query_param ''GET /api/transfers HTTP/1.1'' ''connect'' = None"
  "split_whitespace ''GET /api/transfers HTTP/1.1'' = [''GET'', ''/api/transfers'', ''HTTP/1.1'']"
  by code_simp+

lemma head_fields:
  "extract_host_header demo_head = Some ''localhost''" "extract_origin_header demo_head = None"
  "http_header_value demo_head ''x-intendant-loopback-token'' = Some ''t''"
  "http_header_value demo_head ''sec-fetch-site'' = None"
  "\<not> has_reverse_proxy_provenance demo_head"
  by code_simp+

lemma head_free:
  "\<not> authority_free_request ''GET /api/transfers HTTP/1.1'' ''GET'' ''/api/transfers''"
  "\<not> is_public_hosted_control_path ''GET'' ''/api/transfers''"
  "\<not> is_custom_domain_only_hosted_control_path ''GET'' ''/api/transfers''"
  "\<not> is_fleet_only_hosted_control_path ''GET'' ''/api/transfers''"
  "\<not> is_federation_path ''GET /api/transfers HTTP/1.1''"
  "peer_filesystem_query_request ''GET'' ''/api/transfers'' = None"
  by code_simp+

text \<open>The row the head is dispatched to.\<close>

definition demo_row :: route where
  "demo_row = with_tunnel (tunnel_method ''api_transfer_jobs'')
     (op_route MethodGet (PathExact ''/api/transfers'') OpFilesystemRead BodyNone)"

lemma head_row: "match_route ''GET'' ''/api/transfers'' = Some (demo_row, [])"
  by (simp add: match_route_def ROUTES_def routes_01_def with_tunnel_def op_route_def demo_row_def)

lemma demo_row_simps [simp]:
  "ro_authz demo_row = AuthzOperation OpFilesystemRead" "ro_body demo_row = BodyNone"
  by (simp_all add: demo_row_def with_tunnel_def op_route_def)

lemma head_operation: "required_operation ''GET'' ''/api/transfers'' = Some OpFilesystemRead"
  by (simp add: required_operation_def dashboard_http_operation_def classify_def head_row
      route_operation_def)

lemma demo_door_simps [simp]:
  "dw_gateway demo_door = door_gateway" "dw_hosted demo_door = (\<lambda>_. demo_world)"
  "dw_origins demo_door = demo_origins" "dw_custom_enabled demo_door = (\<lambda>_. False)"
  "dw_iam_file demo_door = Inr None" "\<not> dw_fleet_lane_enabled demo_door"
  "dw_relay_peer_admission demo_door" "\<not> dw_client_cert_required demo_door"
  by (simp_all add: demo_door_def)

lemma edge_simps [simp]:
  "tf_identity local_edge = None" "tf_cert_fingerprint local_edge = None"
  "\<not> tf_cert_present local_edge" "\<not> tf_is_tls local_edge" "tf_peer_addr local_edge = IpV4 0x7F000001"
  "ef_ingress local_edge = IngressDirect" "ef_fleet_origin local_edge = None"
  "ef_custom_domain local_edge = None"
  "tf_identity relay_edge = Some demo_peer" "tf_is_tls relay_edge"
  "ef_ingress relay_edge = IngressReachabilityRelay" "ef_fleet_origin relay_edge = None"
  "ef_custom_domain relay_edge = None"
  by (simp_all add: local_edge_def relay_edge_def)

lemma door_gateway_simps [simp]:
  "gw_parse_url door_gateway = local_parser" "gw_sha256_hex door_gateway = (\<lambda>s. s)"
  "gw_admission_token door_gateway = ''t''"
  by (simp_all add: door_gateway_def)

lemma demo_loopback: "client_ip_is_loopback (IpV4 0x7F000001)"
  by (simp add: client_ip_is_loopback_def drop_bit_eq_div)

lemma demo_presented: "loopback_token_presented door_gateway demo_head"
proof -
  have "trim ''t'' = ''t''" by (rule trim_plain) code_simp
  then show ?thesis by (simp add: loopback_token_presented_def Let_def head_fields matches_admission_token_def)
qed

lemma demo_direct: "direct_loopback_dashboard_request local_parser IngressDirect (IpV4 0x7F000001) demo_head"
proof -
  have "trim ''localhost'' = ''localhost''" by (rule trim_plain) code_simp
  moreover have "eq_ignore_ascii_case ''localhost'' ''localhost''" by code_simp
  ultimately show ?thesis by (simp add: direct_loopback_dashboard_request_def demo_loopback head_fields
        local_parser_def local_url_def bare_authority_def)
qed

lemma demo_unknown_name: "\<not> request_names_known_fleet_origin local_parser demo_origins demo_head"
  by (simp add: request_names_known_fleet_origin_def head_fields local_parser_def)

lemma demo_origin_gate: "origin_gate demo_door ef demo_head path exempt = Inr None"
  by (simp add: origin_gate_def head_fields)

lemma demo_no_lease: "\<not> wants_lease demo_door lane demo_head meth path"
  by (simp add: wants_lease_def hosted_runtime_enabled_def demo_door_def)

section \<open>The owner at home\<close>

definition demo_root :: access_context where
  "demo_root = context_of (root_dashboard_session ''trusted-dashboard-http'' ''http'') None"

lemma demo_root_allowed: "de_allowed (context_decision w ow demo_root op)"
  by (simp add: demo_root_def context_decision_def evaluate_principal_operation_def root_dashboard_session_def)

lemma owner_context: "door_context demo_door local_edge demo_head False None = Inr demo_root"
  by (simp add: door_context_def Let_def demo_presented http_access_context_def
      transport_facts.truncate_def demo_root_def transport_of_def)

lemma owner_transport: "transport_gate demo_door local_edge demo_head False None = Inr ()"
  by (simp add: transport_gate_def Let_def remote_dashboard_client_auth_missing_def demo_direct demo_presented)

lemma owner_lane: "\<not> pl_public_lease_ingress (door_lane demo_door local_edge demo_head)"
  by (simp add: door_lane_def classify_public_control_lane_def Let_def is_public_lease_ingress_def
      discovery_only_ingress_def demo_unknown_name)

lemma owner_served: "snd (serve_http_request demo_door local_edge demo_head fs)
    = DoorAdmit demo_root None (Some (demo_row, [], []))"
  using head_free owner_lane
  by (simp add: serve_http_request_def Let_def head_line head_target demo_no_lease serve_verified_def
      demo_origin_gate owner_transport custom_domain_hosted_authority_revoked_def owner_context
      file_gate_def federation_gate_def operation_gate_def head_operation demo_root_allowed
      lease_route_gate_def staged_outcome_def dispatch_route_def head_row body_cap_def)

theorem implicit_root_is_local_witness:
  "local_request demo_door local_edge demo_head
   \<and> de_allowed (context_decision demo_world demo_origins demo_root OpShellSpawn)"
  using implicit_root_is_local [OF owner_served demo_root_allowed] demo_root_allowed
  by (simp add: demo_root_def)

theorem door_enforces_table_witness:
  "\<exists>k. k \<in> {1, 3} \<and> de_allowed (context_decision (dw_hosted demo_door k) (dw_origins demo_door)
      demo_root OpFilesystemRead)"
  using door_enforces_table [OF owner_served [of demo_files0], of "''GET''" "''/api/transfers''" "[]"]
    head_operation by (simp add: head_line head_target)

section \<open>A paired machine over the relay\<close>

definition peer_context :: access_context where
  "peer_context = \<lparr> ac_principal = peer_daemon ''f1'' ''lab'' ''peer-root'' ''peer-http'',
     ac_iam_state = None, ac_peer_filesystem = Some \<lparr> fp_read_roots = [], fp_write_roots = [] \<rparr> \<rparr>"

lemma peer_reads: "de_allowed (context_decision demo_world demo_origins peer_context OpFilesystemRead)"
proof -
  have "profile_allows_operation ''peer-root'' OpFilesystemRead" by code_simp
  then show ?thesis by (simp add: context_decision_def peer_context_def evaluate_principal_operation_def
        peer_daemon_def machine_principal_def machine_kind_def Let_def)
qed

lemma peer_door_context: "door_context demo_door relay_edge demo_head False None = Inr peer_context"
  by (simp add: door_context_def Let_def http_access_context_def transport_facts.truncate_def
      peer_identity_access_principal_def demo_peer_def peer_context_def)

lemma peer_transport: "transport_gate demo_door relay_edge demo_head False None = Inr ()"
  by (simp add: transport_gate_def Let_def remote_dashboard_client_auth_missing_def)

lemma peer_admitted: "admitted_relay_peer demo_door relay_edge demo_head path"
  by (simp add: admitted_relay_peer_def discovery_only_ingress_def demo_peer_def)

lemma peer_served: "snd (serve_http_request demo_door relay_edge demo_head fs)
    = DoorAdmit peer_context None (Some (demo_row, [], []))"
  using head_free peer_admitted peer_reads
  by (simp add: serve_http_request_def Let_def head_line head_target demo_no_lease serve_verified_def
      demo_origin_gate peer_transport custom_domain_hosted_authority_revoked_def peer_door_context
      file_gate_def federation_gate_def operation_gate_def head_operation
      lease_route_gate_def staged_outcome_def dispatch_route_def head_row body_cap_def)

theorem public_lanes_admit_no_owner_witness:
  "tf_identity relay_edge \<noteq> None \<and> admitted_relay_peer demo_door relay_edge demo_head ''/api/transfers''"
proof -
  have "peer_context \<noteq> authority_free_http_access_context t" for t
    using peer_reads authority_free_powerless by metis
  moreover have "peer_context \<noteq> lease_context c" for c
  proof -
    have "ac_iam_state peer_context = None" by (simp add: peer_context_def)
    then show ?thesis using lease_context_state [of c] by (metis option.distinct(1))
  qed
  ultimately show ?thesis
    using public_lanes_admit_no_owner [OF peer_served [of demo_files0], of "''GET''" "''/api/transfers''" "[]"]
    by (simp add: head_line head_target)
qed

section \<open>A preflight\<close>

definition demo_preflight :: string where
  "demo_preflight = ''OPTIONS /api/fs/stat HTTP/1.1'' @ crlf @ ''Host: localhost'' @ crlf
     @ ''Origin: http://localhost'' @ crlf @ crlf"

lemma preflight_head:
  "extract_origin_header demo_preflight = Some ''http://localhost''"
  "extract_host_header demo_preflight = Some ''localhost''"
  "parse_request_target (request_line demo_preflight) = (''OPTIONS'', ''/api/fs/stat'', [])"
  by code_simp+

lemma preflight_row: "preflight_posture ''/api/fs/stat'' = Some CorsOwnOrigin"
  by (simp add: preflight_posture_def ROUTES_def routes_01_def with_tunnel_def op_route_def)

lemma preflight_own: "is_own_or_app_origin local_parser ''http://localhost'' False demo_preflight"
proof -
  have t: "trim ''http://localhost'' = ''http://localhost''" by (rule trim_plain) code_simp
  have "\<not> eq_ignore_ascii_case ''http://localhost'' ''null''" "eq_ignore_ascii_case ''localhost'' ''localhost''"
    "\<not> starts_with (to_ascii_lowercase ''http://localhost'') ''intendant://''"
    "trim_end_char CHR ''.'' (trim_end_char (CHR 0x5D) (trim_start_char (CHR 0x5B) ''localhost'')) = ''localhost''"
    by code_simp+
  with t show ?thesis
    by (simp add: is_own_or_app_origin_def Let_def request_origin_text_def preflight_head
        is_cleartext_loopback_origin_def local_parser_def local_url_def)
qed

theorem preflight_agrees_witness:
  "(''Access-Control-Allow-Origin'', ''http://localhost'')
     \<in> set (preflight_lines local_parser (dw_fleet demo_door) (IpV4 0x7F000001) False demo_preflight)"
  using preflight_agrees [OF preflight_head(1,3) preflight_row, of local_parser "dw_fleet demo_door"
      "IpV4 0x7F000001" False] preflight_own by (simp add: cross_origin_request_decision_def)

end
