(* ===== verification/AgendaTypes.thy ===== *)
theory AgendaTypes
  imports Autonomy
begin

text \<open>
  The vocabulary of the agenda (\<open>src/src/bin/caller/agenda/types.rs\<close>, with the ask types of
  \<open>src/src/bin/caller/types.rs\<close> and \<open>AgentLaunchConfig\<close> of \<open>src/src/bin/caller/event.rs\<close>):
  items, the effects scheduled on them, and the durable operations of the log.

  SHA-256 and the JSON encoding of a manifest are arguments of the functions that use them.
\<close>

section \<open>Limits\<close>

definition max_title_chars :: nat where "max_title_chars = 500"
definition max_body_bytes :: nat where "max_body_bytes = 65536"
definition max_tags :: nat where "max_tags = 32"
definition max_tag_chars :: nat where "max_tag_chars = 100"
definition max_source_chars :: nat where "max_source_chars = 100"
definition max_annotations_per_item :: nat where "max_annotations_per_item = 500"
definition max_uncleared_blockers :: nat where "max_uncleared_blockers = 32"
definition max_relies_on :: nat where "max_relies_on = 32"
definition max_criterion_chars :: nat where "max_criterion_chars = 1000"
definition max_relates_to :: nat where "max_relates_to = 32"
definition relates_to_link_kinds :: "string list" where
  "relates_to_link_kinds = [''duplicates'', ''supersedes'', ''follow_up_of'', ''evidences'']"
definition max_part_of_depth :: nat where "max_part_of_depth = 16"
definition max_children_per_hub :: nat where "max_children_per_hub = 500"
definition max_refs_per_item :: nat where "max_refs_per_item = 32"
definition max_requested_runs_view :: nat where "max_requested_runs_view = 8"
definition default_suspend_after_failures :: u32 where "default_suspend_after_failures = 3"
definition recurrence_min_every_ms :: u64 where "recurrence_min_every_ms = 900000"
definition trigger_match_tags_max :: nat where "trigger_match_tags_max = 8"
definition max_binding_refs_per_manifest :: nat where "max_binding_refs_per_manifest = 16"
definition max_attestation_refs :: nat where "max_attestation_refs = 8"
definition max_attestation_note_bytes :: nat where "max_attestation_note_bytes = 4096"

lemmas agenda_limits [table_simps] = max_title_chars_def max_body_bytes_def max_tags_def
  max_tag_chars_def max_source_chars_def max_annotations_per_item_def max_uncleared_blockers_def
  max_relies_on_def max_criterion_chars_def max_relates_to_def max_part_of_depth_def
  max_children_per_hub_def max_refs_per_item_def max_requested_runs_view_def
  default_suspend_after_failures_def recurrence_min_every_ms_def trigger_match_tags_max_def
  max_binding_refs_per_manifest_def max_attestation_refs_def max_attestation_note_bytes_def

section \<open>Attribution\<close>

datatype agenda_kind = Note | Task | Question

datatype agenda_status = Open | Done | Retired

text \<open>The fields every attributed view repeats; \<open>sourced\<close> adds the self-described label.\<close>

record attribution =
  at_principal :: "string option"
  at_session_id :: "string option"
  at_kind :: "string option"

record sourced = attribution +
  so_source :: "string option"

type_synonym agenda_actor = attribution

definition default_actor :: agenda_actor where
  "default_actor = \<lparr> at_principal = None, at_session_id = None, at_kind = None \<rparr>"

definition actor_is_empty :: "agenda_actor \<Rightarrow> bool" where
  "actor_is_empty a = (at_principal a = None \<and> at_session_id a = None \<and> at_kind a = None)"

section \<open>Questions and answers\<close>

record question_annotation =
  qa_preview :: string
  qa_note :: string

record question_option =
  qo_label :: string
  qo_description :: string

datatype preview_source =
    HtmlPreview string string
  | ImagePreview string string string
  | TextPreview string

record question_preview =
  qp_label :: string
  qp_source :: preview_source

record user_question =
  uq_question :: string
  uq_header :: string
  uq_options :: "question_option list"
  uq_multi_select :: bool
  uq_pick_min :: "u8 option"
  uq_pick_max :: "u8 option"
  uq_free_text :: "bool option"
  uq_previews :: "question_preview list"
  uq_consequence :: string

definition pick_bounds :: "user_question \<Rightarrow> u8 \<times> u8" where
  "pick_bounds q =
    (let option_count = (of_nat (min (length (uq_options q)) 255) :: u8);
         default_max = (if uq_multi_select q then max option_count 1 else 1);
         mx = max (case uq_pick_max q of None \<Rightarrow> default_max | Some m \<Rightarrow> m) 1;
         mx' = (if 0 < option_count then min mx option_count else mx);
         mn = min (case uq_pick_min q of None \<Rightarrow> 1 | Some m \<Rightarrow> m) mx'
     in (mn, mx'))"

definition free_text_allowed :: "user_question \<Rightarrow> bool" where
  "free_text_allowed q = (case uq_free_text q of None \<Rightarrow> True | Some b \<Rightarrow> b)"

record ask_resolution =
  rs_answers :: "string btree"
  rs_selections :: "string list btree"
  rs_followups :: "string btree"
  rs_annotations :: "question_annotation list btree"

definition resolution_is_empty :: "ask_resolution \<Rightarrow> bool" where
  "resolution_is_empty r = (rs_answers r = [] \<and> rs_selections r = [] \<and> rs_followups r = []
     \<and> rs_annotations r = [])"

record agenda_ask =
  ak_ask_id :: u64
  ak_questions :: "user_question list"

record answer_ack = attribution +
  ac_at_ms :: u64

record agenda_answer = attribution +
  aw_text :: string
  aw_at_ms :: u64
  aw_structured :: "ask_resolution option"
  aw_delivered :: "bool option"
  aw_acknowledged :: "answer_ack option"

record agenda_dismissal = attribution +
  ds_action :: string
  ds_at_ms :: u64

section \<open>Manifests and effects\<close>

record recurrence_spec =
  rc_every_ms :: u64
  rc_until_ms :: "u64 option"
  rc_max_occurrences :: "u32 option"
  rc_suspend_after :: "u32 option"

definition suspend_threshold :: "recurrence_spec \<Rightarrow> u32" where
  "suspend_threshold r = max (case rc_suspend_after r of
     None \<Rightarrow> default_suspend_after_failures | Some n \<Rightarrow> n) 1"

datatype trigger_spec = OnUnblock | OnItemMatch agenda_kind "string list"

record binding_ref =
  br_locator :: string
  br_sha256 :: string

datatype attestation_outcome = Achieved | Partial | Blocked | Abandoned

record agent_launch_config =
  lc_agent :: "string option"
  lc_agent_command :: "string option"
  lc_claude_model :: "string option"
  lc_claude_permission_mode :: "string option"
  lc_claude_effort :: "string option"
  lc_claude_auth_mode :: "string option"
  lc_kimi_model :: "string option"
  lc_kimi_thinking :: "string option"
  lc_kimi_permission_mode :: "string option"
  lc_kimi_allowed_tools :: "string option"
  lc_kimi_plan_mode :: "bool option"
  lc_kimi_swarm_mode :: "bool option"
  lc_pi_model :: "string option"
  lc_pi_thinking :: "string option"
  lc_pi_allowed_tools :: "string option"
  lc_codex_model :: "string option"
  lc_codex_reasoning_effort :: "string option"
  lc_codex_sandbox :: "string option"
  lc_codex_approval_policy :: "string option"
  lc_codex_managed_context :: "string option"
  lc_codex_context_archive :: "string option"
  lc_codex_service_tier :: "string option"
  lc_dial :: "dial_config option"

definition launch_config_is_empty :: "agent_launch_config \<Rightarrow> bool" where
  "launch_config_is_empty c =
    (lc_agent c = None \<and> lc_agent_command c = None \<and> lc_claude_model c = None
     \<and> lc_claude_permission_mode c = None \<and> lc_claude_effort c = None
     \<and> lc_claude_auth_mode c = None \<and> lc_kimi_model c = None \<and> lc_kimi_thinking c = None
     \<and> lc_kimi_permission_mode c = None \<and> lc_kimi_allowed_tools c = None
     \<and> lc_kimi_plan_mode c = None \<and> lc_kimi_swarm_mode c = None \<and> lc_pi_model c = None
     \<and> lc_pi_thinking c = None \<and> lc_pi_allowed_tools c = None \<and> lc_codex_model c = None
     \<and> lc_codex_reasoning_effort c = None \<and> lc_codex_sandbox c = None
     \<and> lc_codex_approval_policy c = None \<and> lc_codex_managed_context c = None
     \<and> lc_codex_context_archive c = None \<and> lc_codex_service_tier c = None \<and> lc_dial c = None)"

record session_manifest =
  mf_goal :: string
  mf_fire_at_ms :: u64
  mf_orchestrate :: bool
  mf_interactive :: bool
  mf_project_root :: "string option"
  mf_agent_config :: "agent_launch_config option"
  mf_recurrence :: "recurrence_spec option"
  mf_trigger :: "trigger_spec option"
  mf_binding_refs :: "binding_ref list"

record agenda_approval =
  ap_digest :: string
  ap_at_ms :: u64
  ap_principal :: "string option"
  ap_kind :: "string option"

record agenda_withdrawal = attribution +
  wd_at_ms :: u64
  wd_reason :: "string option"

record agenda_attestation =
  tt_outcome :: attestation_outcome
  tt_note :: "string option"
  tt_refs :: "binding_ref list"
  tt_at_ms :: u64
  tt_session_id :: "string option"

record agenda_run =
  rn_occurrence_id :: string
  rn_state :: string
  rn_session_id :: "string option"
  rn_at_ms :: u64
  rn_note :: "string option"
  rn_attestation :: "agenda_attestation option"

record requested_run =
  rq_at_ms :: u64
  rq_principal :: "string option"
  rq_kind :: "string option"

record fireability_refusal =
  fr_field :: string
  fr_reason :: string

record agenda_effect =
  ef_effect_id :: string
  ef_manifest :: session_manifest
  ef_digest :: string
  ef_proposed_ms :: u64
  ef_proposed_principal :: "string option"
  ef_proposed_session_id :: "string option"
  ef_proposed_kind :: "string option"
  ef_approval :: "agenda_approval option"
  ef_withdrawn :: "agenda_withdrawal option"
  ef_last_run :: "agenda_run option"
  ef_consecutive_failures :: u32
  ef_requested :: "requested_run list"
  ef_next_fire_ms :: "u64 option"
  ef_last_run_attempt :: "u32 option"
  ef_fireability_refusal :: "fireability_refusal option"

definition suspended :: "agenda_effect \<Rightarrow> bool" where
  "suspended e = (case (mf_recurrence (ef_manifest e), mf_trigger (ef_manifest e)) of
     (Some r, _) \<Rightarrow> suspend_threshold r \<le> ef_consecutive_failures e
   | (None, Some _) \<Rightarrow> default_suspend_after_failures \<le> ef_consecutive_failures e
   | (None, None) \<Rightarrow> False)"

text \<open>
  The digest an approval binds. \<open>sha\<close> is SHA-256 and \<open>to_json\<close> the manifest's canonical JSON
  (empty where the encoder fails).
\<close>

definition manifest_digest ::
    "(string \<Rightarrow> string) \<Rightarrow> (session_manifest \<Rightarrow> string) \<Rightarrow> string \<Rightarrow> string \<Rightarrow> session_manifest \<Rightarrow> string" where
  "manifest_digest sha to_json item_id effect_id manifest =
     hex_string (take 16 (sha (''agenda-effect'' @ [CHR 0x00] @ item_id @ [CHR 0x00] @ effect_id
        @ [CHR 0x00] @ to_json manifest)))"

section \<open>Items\<close>

record agenda_provenance = sourced +
  pv_created_ms :: u64

record agenda_annotation = sourced +
  an_text :: string
  an_at_ms :: u64
  an_pickup :: bool
  an_live :: bool

record blocker_clear = sourced +
  bc_at_ms :: u64

record agenda_blocker = sourced +
  bl_blocker_id :: string
  bl_criterion :: string
  bl_set_ms :: u64
  bl_cleared :: "blocker_clear option"

record agenda_dependency = sourced +
  dp_target_id :: string
  dp_added_ms :: u64

record agenda_placement = sourced +
  pl_parent_id :: string
  pl_added_ms :: u64

record agenda_relation = sourced +
  rl_target_id :: string
  rl_link_kind :: "string option"
  rl_added_ms :: u64

datatype ref_type = FileRef | DirRef | MemoryRef | SessionRef | UrlRef

fun ref_type_str :: "ref_type \<Rightarrow> string" where
  "ref_type_str FileRef = ''file''"
| "ref_type_str DirRef = ''dir''"
| "ref_type_str MemoryRef = ''memory''"
| "ref_type_str SessionRef = ''session''"
| "ref_type_str UrlRef = ''url''"

record agenda_ref = sourced +
  rf_ref_type :: ref_type
  rf_locator :: string
  rf_digest :: "string option"
  rf_must_read :: bool
  rf_label :: "string option"
  rf_added_ms :: u64

record watched_by =
  wb_watcher_item_id :: string
  wb_watcher_title :: string
  wb_effect_id :: string
  wb_due_ms :: "u64 option"

record blocked_on =
  bo_cause :: string
  bo_title :: string
  bo_target_id :: "string option"
  bo_target_status :: "string option"
  bo_blocker_id :: "string option"
  bo_target_completable :: bool

record agenda_item =
  it_id :: string
  it_kind :: agenda_kind
  it_title :: string
  it_body :: string
  it_tags :: "string list"
  it_due_ms :: "u64 option"
  it_provenance :: agenda_provenance
  it_status :: agenda_status
  it_updated_ms :: u64
  it_completed_ms :: "u64 option"
  it_answer :: "agenda_answer option"
  it_effects :: "agenda_effect list"
  it_ask :: "agenda_ask option"
  it_dismissed :: "agenda_dismissal option"
  it_annotations :: "agenda_annotation list"
  it_blockers :: "agenda_blocker list"
  it_relies_on :: "agenda_dependency list"
  it_refs :: "agenda_ref list"
  it_part_of :: "agenda_placement option"
  it_relates_to :: "agenda_relation list"
  it_deferred_until :: "u64 option"
  it_watched_by :: "watched_by option"
  it_blocked_on :: "blocked_on list option"
  it_completable :: bool

definition answer_awaiting_pickup :: "agenda_item \<Rightarrow> bool" where
  "answer_awaiting_pickup it = (it_kind it = Question \<and> it_status it = Done
     \<and> (case it_answer it of None \<Rightarrow> False
         | Some a \<Rightarrow> aw_delivered a \<noteq> Some True \<and> aw_acknowledged a = None))"

definition opt_list :: "'a option \<Rightarrow> 'a list" where
  "opt_list x = (case x of None \<Rightarrow> [] | Some a \<Rightarrow> [a])"

definition referenced_session_ids :: "agenda_item \<Rightarrow> string list" where
  "referenced_session_ids it =
     opt_list (at_session_id (it_provenance it))
     @ opt_list (Option.bind (it_answer it) at_session_id)
     @ opt_list (Option.bind (Option.bind (it_answer it) aw_acknowledged) at_session_id)
     @ concat (map (\<lambda>e. opt_list (ef_proposed_session_id e)
                     @ opt_list (Option.bind (ef_last_run e) rn_session_id)) (it_effects it))
     @ concat (map (\<lambda>n. if an_pickup n \<and> an_live n then opt_list (at_session_id n) else [])
                 (it_annotations it))
     @ concat (map (\<lambda>r. if rf_ref_type r = SessionRef then [rf_locator r] else []) (it_refs it))"

section \<open>Operations\<close>

record ref_spec =
  sp_ref_type :: ref_type
  sp_locator :: string
  sp_must_read :: bool
  sp_label :: "string option"

record agenda_patch =
  pt_title :: "string option"
  pt_body :: "string option"
  pt_tags :: "string list option"
  pt_due_ms :: "u64 option option"

definition patch_is_empty :: "agenda_patch \<Rightarrow> bool" where
  "patch_is_empty p = (pt_title p = None \<and> pt_body p = None \<and> pt_tags p = None \<and> pt_due_ms p = None)"

datatype agenda_op =
    OpAdd string agenda_kind string string "string list" "u64 option" "agenda_ask option"
  | OpPatch string agenda_patch
  | OpComplete string
  | OpReopen string
  | OpRetire string
  | OpAnswer string string "ask_resolution option"
  | OpAcknowledgeAnswer string
  | OpDismiss string string
  | OpAnnotate string string
  | OpPickUp string
  | OpSetBlocker string string string
  | OpClearBlocker string string
  | OpAddReliesOn string string
  | OpRemoveReliesOn string string
  | OpAddPartOf string string
  | OpRemovePartOf string string
  | OpAddRelatesTo string string "string option"
  | OpRemoveRelatesTo string string
  | OpAddRef string ref_type string "string option" bool "string option"
  | OpRemoveRef string ref_type string
  | OpProposeEffect string string session_manifest
  | OpApproveEffect string string string
  | OpRevokeEffect string string
  | OpWithdrawEffect string string "string option"
  | OpRequestOccurrence string string string u64
  | OpRecordOccurrence string string string string "string option" "string option"
  | OpAttest string string string attestation_outcome "string option" "binding_ref list"
  | OpRecordAskDelivery string bool "string option"

fun op_item_id :: "agenda_op \<Rightarrow> string" where
  "op_item_id (OpAdd i _ _ _ _ _ _) = i"
| "op_item_id (OpPatch i _) = i"
| "op_item_id (OpComplete i) = i"
| "op_item_id (OpReopen i) = i"
| "op_item_id (OpRetire i) = i"
| "op_item_id (OpAnswer i _ _) = i"
| "op_item_id (OpAcknowledgeAnswer i) = i"
| "op_item_id (OpDismiss i _) = i"
| "op_item_id (OpAnnotate i _) = i"
| "op_item_id (OpPickUp i) = i"
| "op_item_id (OpSetBlocker i _ _) = i"
| "op_item_id (OpClearBlocker i _) = i"
| "op_item_id (OpAddReliesOn i _) = i"
| "op_item_id (OpRemoveReliesOn i _) = i"
| "op_item_id (OpAddPartOf i _) = i"
| "op_item_id (OpRemovePartOf i _) = i"
| "op_item_id (OpAddRelatesTo i _ _) = i"
| "op_item_id (OpRemoveRelatesTo i _) = i"
| "op_item_id (OpAddRef i _ _ _ _ _) = i"
| "op_item_id (OpRemoveRef i _ _) = i"
| "op_item_id (OpProposeEffect i _ _) = i"
| "op_item_id (OpApproveEffect i _ _) = i"
| "op_item_id (OpRevokeEffect i _) = i"
| "op_item_id (OpWithdrawEffect i _ _) = i"
| "op_item_id (OpRequestOccurrence i _ _ _) = i"
| "op_item_id (OpRecordOccurrence i _ _ _ _ _) = i"
| "op_item_id (OpAttest i _ _ _ _ _) = i"
| "op_item_id (OpRecordAskDelivery i _ _) = i"

record op_record =
  or_v :: u32
  or_at_ms :: u64
  or_actor :: "agenda_actor option"
  or_source :: "string option"
  or_op :: agenda_op

definition agenda_log_version :: u32 where "agenda_log_version = 1"

record agenda_counts =
  ct_open :: u64
  ct_done :: u64
  ct_retired :: u64

text \<open>The bounds of a question are always satisfiable and within the options it offers.\<close>

lemma pick_bounds_sound:
  assumes "pick_bounds q = (mn, mx)"
  shows "mn \<le> mx \<and> 1 \<le> mx \<and> (uq_options q \<noteq> [] \<longrightarrow> unat mx \<le> length (uq_options q))"
proof -
  let ?c = "of_nat (min (length (uq_options q)) 255) :: u8"
  have c: "unat ?c = min (length (uq_options q)) 255"
    by (simp add: unat_of_nat)
  have pos: "1 \<le> ?c" if "0 < ?c" using that by (simp add: word_le_nat_alt word_less_nat_alt)
  obtain x m where mx: "mx = (if 0 < ?c then min (max x 1) ?c else max x 1)" and mn: "mn = min m mx"
    using assms by (auto simp: pick_bounds_def Let_def)
  have "mn \<le> mx" by (simp add: mn)
  moreover have "1 \<le> mx" using pos by (auto simp: mx)
  moreover have "unat mx \<le> length (uq_options q)" if "uq_options q \<noteq> []"
  proof -
    have "0 < ?c" using that c by (simp add: word_less_nat_alt)
    then have "mx \<le> ?c" by (simp add: mx)
    then show ?thesis using c by (simp add: word_le_nat_alt)
  qed
  ultimately show ?thesis by blast
qed

end
