(* ===== verification/AgendaFold.thy ===== *)
theory AgendaFold
  imports AgendaTypes TextLines
begin

text \<open>
  The fold that derives the agenda's items from its log (\<open>apply_op\<close> of
  \<open>src/src/bin/caller/agenda/types.rs\<close>): one function per operation, on the item it
  addresses. A line the fold cannot apply is a warning and changes nothing.

  \<open>dig\<close> is \<open>manifest_digest\<close> at the build's SHA-256 and JSON encoder.
\<close>

section \<open>Reading and updating the map of items\<close>

type_synonym items = "agenda_item btree"

type_synonym digester = "string \<Rightarrow> string \<Rightarrow> session_manifest \<Rightarrow> string"

definition arrow :: string where "arrow = [CHR 0xE2, CHR 0x86, CHR 0x92]"
definition both_arrow :: string where "both_arrow = [CHR 0xE2, CHR 0x86, CHR 0x94]"

definition rec_actor :: "op_record \<Rightarrow> agenda_actor" where
  "rec_actor rec = (case or_actor rec of None \<Rightarrow> default_actor | Some a \<Rightarrow> a)"

definition on_item ::
    "items \<Rightarrow> string \<Rightarrow> string \<Rightarrow> (agenda_item \<Rightarrow> string + agenda_item) \<Rightarrow> items \<times> string option" where
  "on_item items i verb f = (case bt_get items i of
     None \<Rightarrow> (items, Some (verb @ '' for unknown '' @ i @ '' ignored''))
   | Some it \<Rightarrow> (case f it of
       Inl w \<Rightarrow> (items, Some w)
     | Inr it' \<Rightarrow> (bt_put i it' items, None)))"

text \<open>The first element a predicate holds of: updated, removed.\<close>

fun update_first :: "('a \<Rightarrow> bool) \<Rightarrow> ('a \<Rightarrow> 'e + 'a) \<Rightarrow> 'e \<Rightarrow> 'a list \<Rightarrow> 'e + 'a list" where
  "update_first P f e [] = Inl e"
| "update_first P f e (x # xs) =
     (if P x then rbind (f x) (\<lambda>y. Inr (y # xs))
      else rbind (update_first P f e xs) (\<lambda>ys. Inr (x # ys)))"

fun remove_first :: "('a \<Rightarrow> bool) \<Rightarrow> 'a list \<Rightarrow> 'a list" where
  "remove_first P [] = []"
| "remove_first P (x # xs) = (if P x then xs else x # remove_first P xs)"

definition touch :: "op_record \<Rightarrow> agenda_item \<Rightarrow> agenda_item" where
  "touch rec it = it\<lparr>it_updated_ms := or_at_ms rec\<rparr>"

definition on_effect ::
    "agenda_item \<Rightarrow> string \<Rightarrow> string \<Rightarrow> (agenda_effect \<Rightarrow> string + agenda_effect)
       \<Rightarrow> string + agenda_item" where
  "on_effect it eid verb f =
     rbind (update_first (\<lambda>e. ef_effect_id e = eid) f
              (verb @ '' for unknown effect on '' @ it_id it @ '' ignored'') (it_effects it))
       (\<lambda>es. Inr (it\<lparr>it_effects := es\<rparr>))"

section \<open>Notes, blockers, links and references\<close>

definition new_annotation :: "op_record \<Rightarrow> string \<Rightarrow> bool \<Rightarrow> agenda_annotation" where
  "new_annotation rec text pickup =
     \<lparr> at_principal = at_principal (rec_actor rec), at_session_id = at_session_id (rec_actor rec),
       at_kind = at_kind (rec_actor rec), so_source = or_source rec,
       an_text = text, an_at_ms = or_at_ms rec, an_pickup = pickup, an_live = False \<rparr>"

definition add_note :: "op_record \<Rightarrow> string \<Rightarrow> agenda_item \<Rightarrow> agenda_item" where
  "add_note rec text it = it\<lparr>it_annotations := it_annotations it @ [new_annotation rec text False]\<rparr>"

definition fold_add ::
    "op_record \<Rightarrow> string \<Rightarrow> agenda_kind \<Rightarrow> string \<Rightarrow> string \<Rightarrow> string list \<Rightarrow> u64 option
       \<Rightarrow> agenda_ask option \<Rightarrow> agenda_item" where
  "fold_add rec i kind title body tags due ask =
     \<lparr> it_id = i, it_kind = kind, it_title = title, it_body = body, it_tags = tags,
       it_due_ms = due,
       it_provenance = \<lparr> at_principal = at_principal (rec_actor rec),
          at_session_id = at_session_id (rec_actor rec), at_kind = at_kind (rec_actor rec),
          so_source = or_source rec, pv_created_ms = or_at_ms rec \<rparr>,
       it_status = Open, it_updated_ms = or_at_ms rec, it_completed_ms = None,
       it_answer = None, it_effects = [], it_ask = ask, it_dismissed = None,
       it_annotations = [], it_blockers = [], it_relies_on = [], it_refs = [],
       it_part_of = None, it_relates_to = [], it_deferred_until = None, it_watched_by = None,
       it_blocked_on = None, it_completable = False \<rparr>"

definition fold_annotate :: "op_record \<Rightarrow> string \<Rightarrow> agenda_item \<Rightarrow> string + agenda_item" where
  "fold_annotate rec text it = Inr (touch rec (add_note rec text it))"

definition fold_pick_up :: "op_record \<Rightarrow> agenda_item \<Rightarrow> string + agenda_item" where
  "fold_pick_up rec it =
    (if it_status it \<noteq> Open then Inl (''pick_up on non-open '' @ it_id it @ '' ignored'')
     else case at_session_id (rec_actor rec) of
       None \<Rightarrow> Inl (''pick_up without a session on '' @ it_id it @ '' ignored'')
     | Some s \<Rightarrow> Inr (touch rec (it\<lparr>it_annotations :=
           filter (\<lambda>n. \<not> (an_pickup n \<and> at_session_id n = Some s)) (it_annotations it)
           @ [new_annotation rec ''picked up live by this session'' True]\<rparr>)))"

definition fold_set_blocker ::
    "op_record \<Rightarrow> string \<Rightarrow> string \<Rightarrow> agenda_item \<Rightarrow> string + agenda_item" where
  "fold_set_blocker rec bid criterion it =
    (if list_ex (\<lambda>b. bl_blocker_id b = bid) (it_blockers it)
     then Inl (''duplicate blocker '' @ bid @ '' on '' @ it_id it @ '' ignored'')
     else Inr (touch rec (it\<lparr>it_blockers := it_blockers it @
       [\<lparr> at_principal = at_principal (rec_actor rec), at_session_id = at_session_id (rec_actor rec),
          at_kind = at_kind (rec_actor rec), so_source = or_source rec, bl_blocker_id = bid,
          bl_criterion = criterion, bl_set_ms = or_at_ms rec, bl_cleared = None \<rparr>]\<rparr>)))"

definition fold_clear_blocker :: "op_record \<Rightarrow> string \<Rightarrow> agenda_item \<Rightarrow> string + agenda_item" where
  "fold_clear_blocker rec bid it =
     rbind (update_first (\<lambda>b. bl_blocker_id b = bid)
        (\<lambda>b. if bl_cleared b \<noteq> None
              then Inl (''blocker '' @ bid @ '' on '' @ it_id it @ '' already cleared'')
              else Inr (b\<lparr>bl_cleared := Some \<lparr> at_principal = at_principal (rec_actor rec),
                 at_session_id = at_session_id (rec_actor rec), at_kind = at_kind (rec_actor rec),
                 so_source = or_source rec, bc_at_ms = or_at_ms rec \<rparr>\<rparr>))
        (''clear_blocker for unknown '' @ bid @ '' on '' @ it_id it @ '' ignored'') (it_blockers it))
       (\<lambda>bs. Inr (touch rec (it\<lparr>it_blockers := bs\<rparr>)))"

definition fold_add_relies_on :: "op_record \<Rightarrow> string \<Rightarrow> agenda_item \<Rightarrow> string + agenda_item" where
  "fold_add_relies_on rec target it =
    (if target = it_id it then Inl (''self-link on '' @ it_id it @ '' ignored'')
     else if list_ex (\<lambda>d. dp_target_id d = target) (it_relies_on it)
     then Inl (''duplicate link '' @ it_id it @ arrow @ target @ '' ignored'')
     else Inr (touch rec (it\<lparr>it_relies_on := it_relies_on it @
       [\<lparr> at_principal = at_principal (rec_actor rec), at_session_id = at_session_id (rec_actor rec),
          at_kind = at_kind (rec_actor rec), so_source = or_source rec, dp_target_id = target,
          dp_added_ms = or_at_ms rec \<rparr>]\<rparr>)))"

definition fold_remove_relies_on :: "op_record \<Rightarrow> string \<Rightarrow> agenda_item \<Rightarrow> string + agenda_item" where
  "fold_remove_relies_on rec target it =
    (let kept = filter (\<lambda>d. dp_target_id d \<noteq> target) (it_relies_on it) in
     if length kept = length (it_relies_on it)
     then Inl (''remove_relies_on for absent link '' @ it_id it @ arrow @ target @ '' ignored'')
     else Inr (touch rec (it\<lparr>it_relies_on := kept\<rparr>)))"

definition fold_add_part_of :: "op_record \<Rightarrow> string \<Rightarrow> agenda_item \<Rightarrow> string + agenda_item" where
  "fold_add_part_of rec parent it = (case it_part_of it of
     Some p \<Rightarrow> Inl (''add_part_of on '' @ it_id it @ '' already placed under '' @ pl_parent_id p
                   @ '' ignored'')
   | None \<Rightarrow> Inr (touch rec (it\<lparr>it_part_of := Some
        \<lparr> at_principal = at_principal (rec_actor rec), at_session_id = at_session_id (rec_actor rec),
          at_kind = at_kind (rec_actor rec), so_source = or_source rec, pl_parent_id = parent,
          pl_added_ms = or_at_ms rec \<rparr>\<rparr>)))"

definition fold_remove_part_of :: "op_record \<Rightarrow> string \<Rightarrow> agenda_item \<Rightarrow> string + agenda_item" where
  "fold_remove_part_of rec parent it =
    (if map_option pl_parent_id (it_part_of it) = Some parent
     then Inr (touch rec (it\<lparr>it_part_of := None\<rparr>))
     else Inl (''remove_part_of for absent placement '' @ it_id it @ arrow @ parent @ '' ignored''))"

definition fold_add_relates_to ::
    "op_record \<Rightarrow> string \<Rightarrow> string option \<Rightarrow> agenda_item \<Rightarrow> string + agenda_item" where
  "fold_add_relates_to rec target link_kind it =
    (if list_ex (\<lambda>l. rl_target_id l = target) (it_relates_to it)
     then Inl (''duplicate relation '' @ it_id it @ both_arrow @ target @ '' ignored'')
     else Inr (touch rec (it\<lparr>it_relates_to := it_relates_to it @
       [\<lparr> at_principal = at_principal (rec_actor rec), at_session_id = at_session_id (rec_actor rec),
          at_kind = at_kind (rec_actor rec), so_source = or_source rec, rl_target_id = target,
          rl_link_kind = link_kind, rl_added_ms = or_at_ms rec \<rparr>]\<rparr>)))"

definition fold_remove_relates_to :: "op_record \<Rightarrow> string \<Rightarrow> agenda_item \<Rightarrow> string + agenda_item" where
  "fold_remove_relates_to rec target it =
    (let kept = filter (\<lambda>l. rl_target_id l \<noteq> target) (it_relates_to it) in
     if length kept = length (it_relates_to it)
     then Inl (''remove_relates_to for absent relation '' @ it_id it @ both_arrow @ target @ '' ignored'')
     else Inr (touch rec (it\<lparr>it_relates_to := kept\<rparr>)))"

definition fold_add_ref ::
    "op_record \<Rightarrow> ref_type \<Rightarrow> string \<Rightarrow> string option \<Rightarrow> bool \<Rightarrow> string option \<Rightarrow> agenda_item
       \<Rightarrow> string + agenda_item" where
  "fold_add_ref rec rt locator digest must_read label it =
    (if list_ex (\<lambda>r. rf_ref_type r = rt \<and> rf_locator r = locator) (it_refs it)
     then Inl (''duplicate '' @ ref_type_str rt @ '' ref on '' @ it_id it @ '' ignored'')
     else Inr (touch rec (it\<lparr>it_refs := it_refs it @
       [\<lparr> at_principal = at_principal (rec_actor rec), at_session_id = at_session_id (rec_actor rec),
          at_kind = at_kind (rec_actor rec), so_source = or_source rec, rf_ref_type = rt,
          rf_locator = locator, rf_digest = digest, rf_must_read = must_read, rf_label = label,
          rf_added_ms = or_at_ms rec \<rparr>]\<rparr>)))"

definition fold_remove_ref ::
    "op_record \<Rightarrow> ref_type \<Rightarrow> string \<Rightarrow> agenda_item \<Rightarrow> string + agenda_item" where
  "fold_remove_ref rec rt locator it =
    (let kept = filter (\<lambda>r. \<not> (rf_ref_type r = rt \<and> rf_locator r = locator)) (it_refs it) in
     if length kept = length (it_refs it)
     then Inl (''remove_ref for absent '' @ ref_type_str rt @ '' ref on '' @ it_id it @ '' ignored'')
     else Inr (touch rec (it\<lparr>it_refs := kept\<rparr>)))"

section \<open>Presentation and lifecycle\<close>

definition fold_patch :: "op_record \<Rightarrow> agenda_patch \<Rightarrow> agenda_item \<Rightarrow> string + agenda_item" where
  "fold_patch rec p it =
    (let it1 = (case pt_title p of None \<Rightarrow> it | Some t \<Rightarrow> it\<lparr>it_title := t\<rparr>);
         it2 = (case pt_body p of None \<Rightarrow> it1 | Some b \<Rightarrow> it1\<lparr>it_body := b\<rparr>);
         it3 = (case pt_tags p of None \<Rightarrow> it2 | Some ts \<Rightarrow> it2\<lparr>it_tags := ts\<rparr>);
         it4 = (case pt_due_ms p of None \<Rightarrow> it3 | Some d \<Rightarrow> it3\<lparr>it_due_ms := d\<rparr>)
     in Inr (touch rec it4))"

definition moot_reason :: string where
  "moot_reason = ''item completed before the proposal was approved''"

definition pending_proposal :: "agenda_effect \<Rightarrow> bool" where
  "pending_proposal e = (ef_approval e = None \<and> ef_withdrawn e = None)"

definition withdraw_mark :: "op_record \<Rightarrow> string option \<Rightarrow> agenda_effect \<Rightarrow> agenda_effect" where
  "withdraw_mark rec reason e = e\<lparr>
     ef_withdrawn := Some \<lparr> at_principal = at_principal (rec_actor rec),
       at_session_id = at_session_id (rec_actor rec), at_kind = at_kind (rec_actor rec),
       wd_at_ms = or_at_ms rec, wd_reason = reason \<rparr>,
     ef_requested := []\<rparr>"

definition map_first :: "('a \<Rightarrow> bool) \<Rightarrow> ('a \<Rightarrow> 'a) \<Rightarrow> 'a list \<Rightarrow> 'a list" where
  "map_first P f xs = (case update_first P (\<lambda>x. Inr (f x)) () xs of Inl _ \<Rightarrow> xs | Inr ys \<Rightarrow> ys)"

definition moot_proposal :: "op_record \<Rightarrow> agenda_item \<Rightarrow> agenda_item" where
  "moot_proposal rec it = (case find pending_proposal (it_effects it) of
     None \<Rightarrow> it
   | Some e \<Rightarrow> (let it' = add_note rec
           (''scheduled-session proposal mooted by completion '' @ em_dash @ '' '' @ moot_reason) it
       in if ef_last_run e = None
          then it'\<lparr>it_effects := remove_first pending_proposal (it_effects it)\<rparr>
          else it'\<lparr>it_effects :=
            map_first pending_proposal (withdraw_mark rec (Some moot_reason)) (it_effects it)\<rparr>))"

definition fold_complete :: "op_record \<Rightarrow> agenda_item \<Rightarrow> string + agenda_item" where
  "fold_complete rec it = (case it_status it of
     Open \<Rightarrow> Inr (touch rec ((moot_proposal rec it)
        \<lparr>it_status := Done, it_completed_ms := Some (or_at_ms rec)\<rparr>))
   | Done \<Rightarrow> Inr it
   | Retired \<Rightarrow> Inl (''complete on retired '' @ it_id it @ '' ignored''))"

definition fold_reopen :: "op_record \<Rightarrow> agenda_item \<Rightarrow> string + agenda_item" where
  "fold_reopen rec it = (case it_status it of
     Open \<Rightarrow> Inr it
   | _ \<Rightarrow> Inr (touch rec (it\<lparr>it_status := Open, it_completed_ms := None, it_answer := None,
                           it_dismissed := None\<rparr>)))"

definition fold_retire :: "op_record \<Rightarrow> agenda_item \<Rightarrow> string + agenda_item" where
  "fold_retire rec it = (case it_status it of
     Retired \<Rightarrow> Inr it
   | _ \<Rightarrow> Inr (touch rec (it\<lparr>it_status := Retired\<rparr>)))"

section \<open>Effects\<close>

definition fold_propose_effect ::
    "digester \<Rightarrow> op_record \<Rightarrow> string \<Rightarrow> session_manifest \<Rightarrow> agenda_item \<Rightarrow> string + agenda_item" where
  "fold_propose_effect dig rec eid manifest it =
    (let effect = (\<lambda>last_run. \<lparr> ef_effect_id = eid, ef_manifest = manifest,
           ef_digest = dig (it_id it) eid manifest, ef_proposed_ms = or_at_ms rec,
           ef_proposed_principal = at_principal (rec_actor rec),
           ef_proposed_session_id = at_session_id (rec_actor rec),
           ef_proposed_kind = at_kind (rec_actor rec),
           ef_approval = None, ef_withdrawn = None, ef_last_run = last_run,
           ef_consecutive_failures = 0, ef_requested = [], ef_next_fire_ms = None,
           ef_last_run_attempt = None, ef_fireability_refusal = None \<rparr>);
         carried = (\<lambda>e. Option.bind (ef_last_run e)
                       (\<lambda>run. if rn_state run = ''started'' then Some run else None));
         effects = (case find (\<lambda>e. ef_effect_id e = eid) (it_effects it) of
             Some _ \<Rightarrow> map_first (\<lambda>e. ef_effect_id e = eid) (\<lambda>e. effect (carried e)) (it_effects it)
           | None \<Rightarrow> it_effects it @ [effect None])
     in Inr (touch rec (it\<lparr>it_effects := effects\<rparr>)))"

definition fold_approve_effect ::
    "op_record \<Rightarrow> string \<Rightarrow> string \<Rightarrow> agenda_item \<Rightarrow> string + agenda_item" where
  "fold_approve_effect rec eid digest it =
     rbind (on_effect it eid ''approve_effect'' (\<lambda>e.
        if ef_digest e \<noteq> digest
        then Inl (''approve_effect digest mismatch on '' @ it_id it @ '' ignored (manifest superseded)'')
        else Inr (e\<lparr>ef_approval := Some \<lparr> ap_digest = digest, ap_at_ms = or_at_ms rec,
               ap_principal = at_principal (rec_actor rec), ap_kind = at_kind (rec_actor rec) \<rparr>,
             ef_consecutive_failures := 0\<rparr>)))
       (\<lambda>it'. Inr (touch rec it'))"

definition fold_revoke_effect :: "op_record \<Rightarrow> string \<Rightarrow> agenda_item \<Rightarrow> string + agenda_item" where
  "fold_revoke_effect rec eid it =
     rbind (on_effect it eid ''revoke_effect'' (\<lambda>e.
        Inr (e\<lparr>ef_approval := None, ef_requested := []\<rparr>)))
       (\<lambda>it'. Inr (touch rec it'))"

definition fold_withdraw_effect ::
    "op_record \<Rightarrow> string \<Rightarrow> string option \<Rightarrow> agenda_item \<Rightarrow> string + agenda_item" where
  "fold_withdraw_effect rec eid reason it =
    (case find (\<lambda>e. ef_effect_id e = eid) (it_effects it) of
       None \<Rightarrow> Inl (''withdraw_effect for unknown effect on '' @ it_id it @ '' ignored'')
     | Some e \<Rightarrow>
         if ef_approval e \<noteq> None
         then Inl (''withdraw_effect on approved effect on '' @ it_id it @ '' ignored'')
         else (let it' = add_note rec (case reason of
                   Some r \<Rightarrow> ''withdrew the scheduled-session proposal '' @ em_dash @ '' '' @ r
                 | None \<Rightarrow> ''withdrew the scheduled-session proposal'') it;
               es = (if ef_last_run e = None
                     then remove_first (\<lambda>e. ef_effect_id e = eid) (it_effects it)
                     else map_first (\<lambda>e. ef_effect_id e = eid) (withdraw_mark rec reason) (it_effects it))
               in Inr (touch rec (it'\<lparr>it_effects := es\<rparr>))))"

definition fold_request_occurrence ::
    "op_record \<Rightarrow> string \<Rightarrow> string \<Rightarrow> u64 \<Rightarrow> agenda_item \<Rightarrow> string + agenda_item" where
  "fold_request_occurrence rec eid digest instant it =
     rbind (on_effect it eid ''request_occurrence'' (\<lambda>e.
        if ef_digest e \<noteq> digest
        then Inl (''request_occurrence digest mismatch on '' @ it_id it @ '' ignored (manifest revised)'')
        else (let rs = ef_requested e @ [\<lparr> rq_at_ms = instant,
                  rq_principal = at_principal (rec_actor rec), rq_kind = at_kind (rec_actor rec) \<rparr>]
              in Inr (e\<lparr>ef_requested := drop (length rs - max_requested_runs_view) rs\<rparr>))))
       (\<lambda>it'. Inr (touch rec it'))"

definition streak_after :: "string \<Rightarrow> attestation_outcome option \<Rightarrow> u32 \<Rightarrow> u32" where
  "streak_after state carried n =
    (if state = ''failed'' \<or> state = ''unknown'' then sat_add n 1
     else if state = ''completed'' then (case carried of
         Some Blocked \<Rightarrow> sat_add n 1
       | Some Abandoned \<Rightarrow> sat_add n 1
       | Some Partial \<Rightarrow> n
       | Some Achieved \<Rightarrow> 0
       | None \<Rightarrow> 0)
     else n)"

definition fold_record_occurrence ::
    "op_record \<Rightarrow> string \<Rightarrow> string \<Rightarrow> string \<Rightarrow> string option \<Rightarrow> string option \<Rightarrow> agenda_item
       \<Rightarrow> string + agenda_item" where
  "fold_record_occurrence rec eid occ state session note it =
     rbind (on_effect it eid ''record_occurrence'' (\<lambda>e.
        let attestation = Option.bind (ef_last_run e)
              (\<lambda>run. if rn_occurrence_id run = occ then rn_attestation run else None)
        in Inr (e\<lparr>ef_last_run := Some \<lparr> rn_occurrence_id = occ, rn_state = state,
                 rn_session_id = session, rn_at_ms = or_at_ms rec, rn_note = note,
                 rn_attestation = attestation \<rparr>,
               ef_consecutive_failures :=
                 streak_after state (map_option tt_outcome attestation) (ef_consecutive_failures e)\<rparr>)))
       (\<lambda>it'. Inr (touch rec it'))"

definition fold_attest ::
    "op_record \<Rightarrow> string \<Rightarrow> string \<Rightarrow> attestation_outcome \<Rightarrow> string option \<Rightarrow> binding_ref list
       \<Rightarrow> agenda_item \<Rightarrow> string + agenda_item" where
  "fold_attest rec eid occ outcome note refs it =
     rbind (on_effect it eid ''attest'' (\<lambda>e. case ef_last_run e of
        Some run \<Rightarrow> if rn_occurrence_id run = occ
          then Inr (e\<lparr>ef_last_run := Some (run\<lparr>rn_attestation := Some \<lparr> tt_outcome = outcome,
                 tt_note = note, tt_refs = refs, tt_at_ms = or_at_ms rec,
                 tt_session_id = at_session_id (rec_actor rec) \<rparr>\<rparr>)\<rparr>)
          else Inl (''attest for occurrence '' @ occ @ '' on '' @ it_id it
             @ '' attaches to no current run (superseded) '' @ em_dash @ '' kept as op history'')
      | None \<Rightarrow> Inl (''attest for occurrence '' @ occ @ '' on '' @ it_id it
             @ '' attaches to no current run (superseded) '' @ em_dash @ '' kept as op history'')))
       (\<lambda>it'. Inr (touch rec it'))"

section \<open>Questions\<close>

definition fold_answer ::
    "op_record \<Rightarrow> string \<Rightarrow> ask_resolution option \<Rightarrow> agenda_item \<Rightarrow> string + agenda_item" where
  "fold_answer rec text structured it =
    (if it_kind it \<noteq> Question then Inl (''answer on non-question '' @ it_id it @ '' ignored'')
     else case it_status it of
       Open \<Rightarrow> Inr (touch rec (it\<lparr>it_answer := Some
           \<lparr> at_principal = at_principal (rec_actor rec),
             at_session_id = at_session_id (rec_actor rec), at_kind = at_kind (rec_actor rec),
             aw_text = text, aw_at_ms = or_at_ms rec, aw_structured = structured,
             aw_delivered = None, aw_acknowledged = None \<rparr>,
           it_dismissed := None, it_status := Done, it_completed_ms := Some (or_at_ms rec)\<rparr>))
     | _ \<Rightarrow> Inl (''answer on resolved '' @ it_id it @ '' ignored''))"

definition fold_acknowledge_answer :: "op_record \<Rightarrow> agenda_item \<Rightarrow> string + agenda_item" where
  "fold_acknowledge_answer rec it =
    (if it_kind it \<noteq> Question \<or> it_status it \<noteq> Done
     then Inl (''acknowledge_answer on unanswered question '' @ it_id it @ '' ignored'')
     else case it_answer it of
       None \<Rightarrow> Inl (''acknowledge_answer on '' @ it_id it @ '' without a current answer ignored'')
     | Some a \<Rightarrow>
         if aw_delivered a = Some True \<or> aw_acknowledged a \<noteq> None
         then Inl (''acknowledge_answer on already picked-up '' @ it_id it @ '' ignored'')
         else Inr (touch rec (it\<lparr>it_answer := Some (a\<lparr>aw_acknowledged := Some
             \<lparr> at_principal = at_principal (rec_actor rec),
               at_session_id = at_session_id (rec_actor rec), at_kind = at_kind (rec_actor rec),
               ac_at_ms = or_at_ms rec \<rparr>\<rparr>)\<rparr>)))"

definition fold_record_ask_delivery :: "op_record \<Rightarrow> bool \<Rightarrow> agenda_item \<Rightarrow> string + agenda_item" where
  "fold_record_ask_delivery rec delivered it = (case it_answer it of
     None \<Rightarrow> Inl (''record_ask_delivery on '' @ it_id it @ '' without a current answer ignored'')
   | Some a \<Rightarrow> Inr (touch rec (it\<lparr>it_answer := Some (a\<lparr>aw_delivered := Some delivered\<rparr>)\<rparr>)))"

definition fold_dismiss :: "op_record \<Rightarrow> string \<Rightarrow> agenda_item \<Rightarrow> string + agenda_item" where
  "fold_dismiss rec action it =
    (if it_kind it \<noteq> Question then Inl (''dismiss on non-question '' @ it_id it @ '' ignored'')
     else case it_status it of
       Open \<Rightarrow> Inr (touch rec (it\<lparr>it_dismissed := Some
           \<lparr> at_principal = at_principal (rec_actor rec),
             at_session_id = at_session_id (rec_actor rec), at_kind = at_kind (rec_actor rec),
             ds_action = action, ds_at_ms = or_at_ms rec \<rparr>\<rparr>))
     | _ \<Rightarrow> Inl (''dismiss on resolved '' @ it_id it @ '' ignored''))"

section \<open>The fold\<close>

fun apply_op :: "digester \<Rightarrow> items \<Rightarrow> op_record \<Rightarrow> items \<times> string option" where
  "apply_op dig items rec = (case or_op rec of
     OpAdd i kind title body tags due ask \<Rightarrow>
       (if bt_get items i \<noteq> None then (items, Some (''duplicate add for '' @ i @ '' ignored''))
        else (bt_put i (fold_add rec i kind title body tags due ask) items, None))
   | OpAnnotate i text \<Rightarrow> on_item items i ''annotate'' (fold_annotate rec text)
   | OpPickUp i \<Rightarrow> on_item items i ''pick_up'' (fold_pick_up rec)
   | OpSetBlocker i b c \<Rightarrow> on_item items i ''set_blocker'' (fold_set_blocker rec b c)
   | OpClearBlocker i b \<Rightarrow> on_item items i ''clear_blocker'' (fold_clear_blocker rec b)
   | OpAddReliesOn i t \<Rightarrow> on_item items i ''add_relies_on'' (fold_add_relies_on rec t)
   | OpRemoveReliesOn i t \<Rightarrow> on_item items i ''remove_relies_on'' (fold_remove_relies_on rec t)
   | OpAddPartOf i p \<Rightarrow>
       (if p = i then (items, Some (''self-placement on '' @ i @ '' ignored''))
        else on_item items i ''add_part_of'' (fold_add_part_of rec p))
   | OpRemovePartOf i p \<Rightarrow> on_item items i ''remove_part_of'' (fold_remove_part_of rec p)
   | OpAddRelatesTo i t k \<Rightarrow>
       (if t = i then (items, Some (''self-relation on '' @ i @ '' ignored''))
        else on_item items i ''add_relates_to'' (fold_add_relates_to rec t k))
   | OpRemoveRelatesTo i t \<Rightarrow> on_item items i ''remove_relates_to'' (fold_remove_relates_to rec t)
   | OpAddRef i rt l d m lab \<Rightarrow> on_item items i ''add_ref'' (fold_add_ref rec rt l d m lab)
   | OpRemoveRef i rt l \<Rightarrow> on_item items i ''remove_ref'' (fold_remove_ref rec rt l)
   | OpPatch i p \<Rightarrow> on_item items i ''patch'' (fold_patch rec p)
   | OpComplete i \<Rightarrow> on_item items i ''complete'' (fold_complete rec)
   | OpReopen i \<Rightarrow> on_item items i ''reopen'' (fold_reopen rec)
   | OpRetire i \<Rightarrow> on_item items i ''retire'' (fold_retire rec)
   | OpProposeEffect i e m \<Rightarrow> on_item items i ''propose_effect'' (fold_propose_effect dig rec e m)
   | OpApproveEffect i e d \<Rightarrow> on_item items i ''approve_effect'' (fold_approve_effect rec e d)
   | OpRevokeEffect i e \<Rightarrow> on_item items i ''revoke_effect'' (fold_revoke_effect rec e)
   | OpWithdrawEffect i e r \<Rightarrow> on_item items i ''withdraw_effect'' (fold_withdraw_effect rec e r)
   | OpRequestOccurrence i e d t \<Rightarrow>
       on_item items i ''request_occurrence'' (fold_request_occurrence rec e d t)
   | OpRecordOccurrence i e occ st s n \<Rightarrow>
       on_item items i ''record_occurrence'' (fold_record_occurrence rec e occ st s n)
   | OpAttest i e occ outcome n refs \<Rightarrow>
       on_item items i ''attest'' (fold_attest rec e occ outcome n refs)
   | OpAnswer i text st \<Rightarrow> on_item items i ''answer'' (fold_answer rec text st)
   | OpAcknowledgeAnswer i \<Rightarrow> on_item items i ''acknowledge_answer'' (fold_acknowledge_answer rec)
   | OpRecordAskDelivery i d s \<Rightarrow>
       on_item items i ''record_ask_delivery'' (fold_record_ask_delivery rec d)
   | OpDismiss i a \<Rightarrow> on_item items i ''dismiss'' (fold_dismiss rec a))"

declare apply_op.simps [simp del]

text \<open>Folding a whole log.\<close>

definition fold_records :: "digester \<Rightarrow> items \<Rightarrow> op_record list \<Rightarrow> items" where
  "fold_records dig items recs = foldl (\<lambda>m r. fst (apply_op dig m r)) items recs"

section \<open>Judgments over the folded items\<close>

definition dependency_state :: "items \<Rightarrow> agenda_dependency \<Rightarrow> bool \<times> string option" where
  "dependency_state items link = (case bt_get items (dp_target_id link) of
     None \<Rightarrow> (False, Some ''target_missing'')
   | Some t \<Rightarrow> (case it_status t of
       Done \<Rightarrow> (True, None) | Retired \<Rightarrow> (False, Some ''target_retired'') | Open \<Rightarrow> (False, None)))"

definition is_blocked :: "items \<Rightarrow> agenda_item \<Rightarrow> bool" where
  "is_blocked items it = (it_status it = Open
     \<and> (list_ex (\<lambda>b. bl_cleared b = None) (it_blockers it)
        \<or> list_ex (\<lambda>l. \<not> fst (dependency_state items l)) (it_relies_on it)))"

fun count_item :: "agenda_counts \<Rightarrow> agenda_item \<Rightarrow> agenda_counts" where
  "count_item c it = (case it_status it of
     Open \<Rightarrow> c\<lparr>ct_open := ct_open c + 1\<rparr>
   | Done \<Rightarrow> c\<lparr>ct_done := ct_done c + 1\<rparr>
   | Retired \<Rightarrow> c\<lparr>ct_retired := ct_retired c + 1\<rparr>)"

definition counts :: "items \<Rightarrow> agenda_counts" where
  "counts items = foldl (\<lambda>c (i, it). count_item c it)
     \<lparr> ct_open = 0, ct_done = 0, ct_retired = 0 \<rparr> items"

section \<open>A warning changes nothing, and an operation touches one item\<close>

lemma on_item_warn: "on_item items i verb f = (items', Some w) \<Longrightarrow> items' = items"
  by (auto simp: on_item_def split: option.splits sum.splits)

lemma on_item_ok:
  "on_item items i verb f = (items', None) \<Longrightarrow>
     \<exists>it it'. bt_get items i = Some it \<and> f it = Inr it' \<and> items' = bt_put i it' items"
  by (auto simp: on_item_def split: option.splits sum.splits)

lemma apply_op_warn: "apply_op dig items rec = (items', Some w) \<Longrightarrow> items' = items"
  by (auto simp: apply_op.simps split: agenda_op.splits if_splits dest: on_item_warn)

interpretation agenda: tolerant_fold "apply_op dig" "fold_records dig" for dig
  by unfold_locales (auto simp: fold_records_def dest: apply_op_warn)

definition puts :: "items \<Rightarrow> string \<Rightarrow> items \<Rightarrow> bool" where
  "puts items i items' = (items' = items \<or> (\<exists>it. items' = bt_put i it items))"

lemma on_item_puts: "puts items i (fst (on_item items i verb f))"
  by (auto simp: puts_def on_item_def split: option.splits sum.splits)

lemma apply_op_puts: "puts items (op_item_id (or_op rec)) (fst (apply_op dig items rec))"
  by (auto simp: apply_op.simps on_item_puts split: agenda_op.splits)
    (auto simp: puts_def)

lemma apply_op_frame:
  "j \<noteq> op_item_id (or_op rec) \<Longrightarrow> bt_get (fst (apply_op dig items rec)) j = bt_get items j"
  using apply_op_puts [of items rec dig] by (auto simp: puts_def)

lemma apply_op_wf: "bt_wf items \<Longrightarrow> bt_wf (fst (apply_op dig items rec))"
  using apply_op_puts [of items rec dig] by (auto simp: puts_def)

section \<open>The invariant of an item\<close>

definition status_ok ::
    "agenda_kind \<Rightarrow> agenda_status \<Rightarrow> u64 option \<Rightarrow> agenda_answer option \<Rightarrow> agenda_dismissal option \<Rightarrow> bool" where
  "status_ok kind status completed answer dismissed =
     ((status = Open \<longrightarrow> completed = None \<and> answer = None)
     \<and> (status = Done \<longrightarrow> completed \<noteq> None)
     \<and> (answer \<noteq> None \<longrightarrow> kind = Question) \<and> (dismissed \<noteq> None \<longrightarrow> kind = Question))"

definition blockers_ok :: "agenda_blocker list \<Rightarrow> bool" where
  "blockers_ok bs = distinct (map bl_blocker_id bs)"

definition relies_ok :: "string \<Rightarrow> agenda_dependency list \<Rightarrow> bool" where
  "relies_ok i ds = distinct (i # map dp_target_id ds)"

definition relates_ok :: "string \<Rightarrow> agenda_relation list \<Rightarrow> bool" where
  "relates_ok i ls = distinct (i # map rl_target_id ls)"

definition refs_ok :: "agenda_ref list \<Rightarrow> bool" where
  "refs_ok rs = distinct (map (\<lambda>r. (rf_ref_type r, rf_locator r)) rs)"

definition placement_ok :: "string \<Rightarrow> agenda_placement option \<Rightarrow> bool" where
  "placement_ok i p = (map_option pl_parent_id p \<noteq> Some i)"

definition notes_ok :: "agenda_annotation list \<Rightarrow> bool" where
  "notes_ok ns = (distinct (map at_session_id (filter an_pickup ns))
     \<and> (\<forall>n \<in> set ns. (an_pickup n \<longrightarrow> at_session_id n \<noteq> None) \<and> \<not> an_live n))"

definition effect_ok :: "digester \<Rightarrow> string \<Rightarrow> agenda_effect \<Rightarrow> bool" where
  "effect_ok dig i e = (ef_digest e = dig i (ef_effect_id e) (ef_manifest e)
     \<and> (\<forall>a. ef_approval e = Some a \<longrightarrow> ap_digest a = ef_digest e)
     \<and> length (ef_requested e) \<le> max_requested_runs_view
     \<and> ef_next_fire_ms e = None \<and> ef_last_run_attempt e = None \<and> ef_fireability_refusal e = None)"

definition effects_ok :: "digester \<Rightarrow> string \<Rightarrow> agenda_effect list \<Rightarrow> bool" where
  "effects_ok dig i es = (distinct (map ef_effect_id es) \<and> (\<forall>e \<in> set es. effect_ok dig i e))"

definition item_ok :: "digester \<Rightarrow> string \<Rightarrow> agenda_item \<Rightarrow> bool" where
  "item_ok dig i it = (it_id it = i
     \<and> status_ok (it_kind it) (it_status it) (it_completed_ms it) (it_answer it) (it_dismissed it)
     \<and> blockers_ok (it_blockers it) \<and> relies_ok i (it_relies_on it)
     \<and> relates_ok i (it_relates_to it) \<and> refs_ok (it_refs it) \<and> placement_ok i (it_part_of it)
     \<and> notes_ok (it_annotations it) \<and> effects_ok dig i (it_effects it)
     \<and> it_deferred_until it = None \<and> it_watched_by it = None \<and> it_blocked_on it = None
     \<and> \<not> it_completable it)"

lemmas item_part_defs [inv_defs] = status_ok_def blockers_ok_def relies_ok_def relates_ok_def
  refs_ok_def placement_ok_def

subsection \<open>Lists changed in one place\<close>

lemma update_first_split:
  "update_first P f w xs = Inr ys \<Longrightarrow>
     \<exists>pre x y post. xs = pre @ x # post \<and> ys = pre @ y # post \<and> P x \<and> f x = Inr y"
proof (induction xs arbitrary: ys)
  case (Cons a xs)
  show ?case
  proof (cases "P a")
    case True
    with Cons.prems show ?thesis by (auto intro!: exI [of _ "[]"])
  next
    case False
    with Cons.prems obtain zs where zs: "update_first P f w xs = Inr zs" "ys = a # zs" by auto
    from Cons.IH [OF zs(1)] obtain pre x y post where
      "xs = pre @ x # post" "zs = pre @ y # post" "P x" "f x = Inr y" by blast
    with zs(2) show ?thesis by (intro exI [of _ "a # pre"]) auto
  qed
qed simp

lemma map_first_split:
  "map_first P f xs = xs \<or>
     (\<exists>pre x post. xs = pre @ x # post \<and> map_first P f xs = pre @ f x # post \<and> P x)"
proof (cases "update_first P (\<lambda>x. Inr (f x)) () xs")
  case (Inl u)
  then show ?thesis by (simp add: map_first_def)
next
  case (Inr ys)
  from update_first_split [OF Inr] Inr show ?thesis by (auto simp: map_first_def)
qed

lemma remove_first_subset: "set (remove_first P xs) \<subseteq> set xs"
  by (induction xs) auto

lemma remove_first_distinct: "distinct (map k xs) \<Longrightarrow> distinct (map k (remove_first P xs))"
proof (induction xs)
  case (Cons x xs)
  then show ?case using remove_first_subset [of P xs] by auto
qed simp

lemma effects_ok_update:
  assumes "effects_ok dig i es" "update_first (\<lambda>e. ef_effect_id e = eid) f w es = Inr es'"
    and "\<And>e e'. effect_ok dig i e \<Longrightarrow> f e = Inr e' \<Longrightarrow>
           effect_ok dig i e' \<and> ef_effect_id e' = ef_effect_id e"
  shows "effects_ok dig i es'"
proof -
  from update_first_split [OF assms(2)] obtain pre x y post where
    s: "es = pre @ x # post" "es' = pre @ y # post" "f x = Inr y" by blast
  with assms(1) have "effect_ok dig i x" by (simp add: effects_ok_def)
  from assms(3) [OF this s(3)] s(1,2) assms(1) show ?thesis
    by (auto simp: effects_ok_def)
qed

lemma effects_ok_map_first:
  assumes "effects_ok dig i es"
    and "\<And>e. effect_ok dig i e \<Longrightarrow> P e \<Longrightarrow> effect_ok dig i (f e) \<and> ef_effect_id (f e) = ef_effect_id e"
  shows "effects_ok dig i (map_first P f es)"
  using map_first_split [of P f es]
proof
  assume "map_first P f es = es"
  with assms(1) show ?thesis by simp
next
  assume "\<exists>pre x post. es = pre @ x # post \<and> map_first P f es = pre @ f x # post \<and> P x"
  then obtain pre x post where s: "es = pre @ x # post" "map_first P f es = pre @ f x # post" "P x"
    by blast
  with assms(1) have "effect_ok dig i x" by (simp add: effects_ok_def)
  from assms(2) [OF this s(3)] s(1,2) assms(1) show ?thesis
    by (auto simp: effects_ok_def)
qed

lemma effects_ok_remove_first: "effects_ok dig i es \<Longrightarrow> effects_ok dig i (remove_first P es)"
  using remove_first_subset [of P es] by (auto simp: effects_ok_def remove_first_distinct)

lemma distinct_map_snoc: "distinct (map k (xs @ [x])) \<longleftrightarrow> distinct (map k xs) \<and> k x \<notin> k ` set xs"
  by auto

lemma notes_ok_snoc: "notes_ok ns \<Longrightarrow> \<not> an_pickup n \<Longrightarrow> \<not> an_live n \<Longrightarrow> notes_ok (ns @ [n])"
  by (auto simp: notes_ok_def)

lemma new_annotation_simps [simp]:
  "an_pickup (new_annotation rec text b) = b" "\<not> an_live (new_annotation rec text b)"
  "at_session_id (new_annotation rec text b) = at_session_id (rec_actor rec)"
  by (simp_all add: new_annotation_def)

lemma item_ok_touch: "item_ok dig i it \<Longrightarrow> item_ok dig i (touch rec it)"
  by (simp add: item_ok_def touch_def)

subsection \<open>Every operation preserves it\<close>

lemma item_ok_part:
  assumes "item_ok dig i it"
  shows "blockers_ok bs \<Longrightarrow> item_ok dig i (it\<lparr>it_blockers := bs\<rparr>)"
    and "relies_ok i ds \<Longrightarrow> item_ok dig i (it\<lparr>it_relies_on := ds\<rparr>)"
    and "relates_ok i ls \<Longrightarrow> item_ok dig i (it\<lparr>it_relates_to := ls\<rparr>)"
    and "refs_ok rs \<Longrightarrow> item_ok dig i (it\<lparr>it_refs := rs\<rparr>)"
    and "placement_ok i p \<Longrightarrow> item_ok dig i (it\<lparr>it_part_of := p\<rparr>)"
    and "notes_ok ns \<Longrightarrow> item_ok dig i (it\<lparr>it_annotations := ns\<rparr>)"
    and "effects_ok dig i es \<Longrightarrow> item_ok dig i (it\<lparr>it_effects := es\<rparr>)"
    and "item_ok dig i (it\<lparr>it_title := t\<rparr>)" and "item_ok dig i (it\<lparr>it_body := b\<rparr>)"
    and "item_ok dig i (it\<lparr>it_tags := ts\<rparr>)" and "item_ok dig i (it\<lparr>it_due_ms := d\<rparr>)"
  using assms by (simp_all add: item_ok_def)

lemma item_okD:
  assumes "item_ok dig i it"
  shows "it_id it = i" and "blockers_ok (it_blockers it)" and "relies_ok i (it_relies_on it)"
    and "relates_ok i (it_relates_to it)" and "refs_ok (it_refs it)"
    and "placement_ok i (it_part_of it)" and "notes_ok (it_annotations it)"
    and "effects_ok dig i (it_effects it)"
    and "status_ok (it_kind it) (it_status it) (it_completed_ms it) (it_answer it) (it_dismissed it)"
  using assms by (simp_all add: item_ok_def)

lemma item_ok_note: "item_ok dig i it \<Longrightarrow> item_ok dig i (add_note rec msg it)"
  unfolding add_note_def by (intro item_ok_part notes_ok_snoc item_okD) simp_all

lemma item_ok_on_effect:
  assumes "item_ok dig i it" "on_effect it eid w f = Inr it'"
    and "\<And>e e'. effect_ok dig i e \<Longrightarrow> f e = Inr e' \<Longrightarrow>
           effect_ok dig i e' \<and> ef_effect_id e' = ef_effect_id e"
  shows "item_ok dig i it'"
proof -
  obtain es where es: "update_first (\<lambda>e. ef_effect_id e = eid) f
      (w @ '' for unknown effect on '' @ it_id it @ '' ignored'') (it_effects it) = Inr es"
      "it' = it\<lparr>it_effects := es\<rparr>"
    using assms(2) by (auto simp: on_effect_def)
  have "effects_ok dig i (it_effects it)" using assms(1) by (rule item_okD)
  from effects_ok_update [OF this es(1) assms(3)] show ?thesis
    using item_ok_part(7) [OF assms(1)] es(2) by blast
qed

lemma add_ok: "item_ok dig i (fold_add rec i kind title body tags due ask)"
  by (simp add: item_ok_def inv_defs fold_add_def notes_ok_def effects_ok_def)

lemma annotate_ok: "item_ok dig i it \<Longrightarrow> fold_annotate rec msg it = Inr it' \<Longrightarrow> item_ok dig i it'"
  by (auto simp: fold_annotate_def intro: item_ok_touch item_ok_note)

lemma pick_up_ok:
  assumes "item_ok dig i it" "fold_pick_up rec it = Inr it'"
  shows "item_ok dig i it'"
proof -
  obtain s where s: "at_session_id (rec_actor rec) = Some s"
    and it': "it' = touch rec (it\<lparr>it_annotations :=
           filter (\<lambda>n. \<not> (an_pickup n \<and> at_session_id n = Some s)) (it_annotations it)
           @ [new_annotation rec ''picked up live by this session'' True]\<rparr>)"
    using assms(2) by (auto simp: fold_pick_up_def split: if_splits option.splits)
  let ?ns = "filter (\<lambda>n. \<not> (an_pickup n \<and> at_session_id n = Some s)) (it_annotations it)"
  have n: "notes_ok (it_annotations it)" using assms(1) by (rule item_okD)
  have eq: "filter an_pickup ?ns = filter (\<lambda>n. at_session_id n \<noteq> Some s) (filter an_pickup (it_annotations it))"
    unfolding filter_filter by (rule filter_cong) auto
  have "distinct (map at_session_id (filter an_pickup (it_annotations it)))"
    using n by (simp add: notes_ok_def)
  then have "distinct (map at_session_id (filter an_pickup ?ns))"
    unfolding eq by (rule distinct_map_filter)
  then have "notes_ok (?ns @ [new_annotation rec msg True])" for msg
    using n s by (auto simp: notes_ok_def)
  then show ?thesis
    unfolding it' by (intro item_ok_touch item_ok_part assms(1))
qed

lemma set_blocker_ok:
  "item_ok dig i it \<Longrightarrow> fold_set_blocker rec b c it = Inr it' \<Longrightarrow> item_ok dig i it'"
  using item_okD(2) [of dig i it]
  by (auto simp: fold_set_blocker_def blockers_ok_def list_ex_iff
      intro!: item_ok_touch item_ok_part split: if_splits)

lemma clear_blocker_ok:
  assumes "item_ok dig i it" "fold_clear_blocker rec b it = Inr it'"
  shows "item_ok dig i it'"
proof -
  obtain bs where bs: "it' = touch rec (it\<lparr>it_blockers := bs\<rparr>)"
    and "map bl_blocker_id bs = map bl_blocker_id (it_blockers it)"
    using assms(2)
    by (auto simp: fold_clear_blocker_def dest!: update_first_split split: if_splits)
  then show ?thesis
    using item_okD(2) [OF assms(1)] assms(1)
    by (auto simp: blockers_ok_def intro!: item_ok_touch item_ok_part)
qed

lemma add_relies_on_ok:
  "item_ok dig i it \<Longrightarrow> fold_add_relies_on rec t it = Inr it' \<Longrightarrow> item_ok dig i it'"
  using item_okD(1,3) [of dig i it]
  by (auto simp: fold_add_relies_on_def relies_ok_def list_ex_iff
      intro!: item_ok_touch item_ok_part split: if_splits)

lemma remove_relies_on_ok:
  "item_ok dig i it \<Longrightarrow> fold_remove_relies_on rec t it = Inr it' \<Longrightarrow> item_ok dig i it'"
  using item_okD(3) [of dig i it]
  by (auto simp: fold_remove_relies_on_def relies_ok_def Let_def distinct_map_filter
      intro!: item_ok_touch item_ok_part split: if_splits)

lemma add_part_of_ok:
  "item_ok dig i it \<Longrightarrow> p \<noteq> i \<Longrightarrow> fold_add_part_of rec p it = Inr it' \<Longrightarrow> item_ok dig i it'"
  by (auto simp: fold_add_part_of_def placement_ok_def
      intro!: item_ok_touch item_ok_part split: option.splits)

lemma remove_part_of_ok:
  "item_ok dig i it \<Longrightarrow> fold_remove_part_of rec p it = Inr it' \<Longrightarrow> item_ok dig i it'"
  by (auto simp: fold_remove_part_of_def placement_ok_def
      intro!: item_ok_touch item_ok_part split: if_splits)

lemma add_relates_to_ok:
  "item_ok dig i it \<Longrightarrow> t \<noteq> i \<Longrightarrow> fold_add_relates_to rec t k it = Inr it' \<Longrightarrow> item_ok dig i it'"
  using item_okD(4) [of dig i it]
  by (auto simp: fold_add_relates_to_def relates_ok_def list_ex_iff
      intro!: item_ok_touch item_ok_part split: if_splits)

lemma remove_relates_to_ok:
  "item_ok dig i it \<Longrightarrow> fold_remove_relates_to rec t it = Inr it' \<Longrightarrow> item_ok dig i it'"
  using item_okD(4) [of dig i it]
  by (auto simp: fold_remove_relates_to_def relates_ok_def Let_def distinct_map_filter
      intro!: item_ok_touch item_ok_part split: if_splits)

lemma add_ref_ok:
  "item_ok dig i it \<Longrightarrow> fold_add_ref rec rt l d m lab it = Inr it' \<Longrightarrow> item_ok dig i it'"
  using item_okD(5) [of dig i it]
  by (auto simp: fold_add_ref_def refs_ok_def list_ex_iff
      intro!: item_ok_touch item_ok_part split: if_splits)

lemma remove_ref_ok:
  "item_ok dig i it \<Longrightarrow> fold_remove_ref rec rt l it = Inr it' \<Longrightarrow> item_ok dig i it'"
  using item_okD(5) [of dig i it]
  by (auto simp: fold_remove_ref_def refs_ok_def Let_def distinct_map_filter
      intro!: item_ok_touch item_ok_part split: if_splits)

lemma patch_ok:
  "item_ok dig i it \<Longrightarrow> fold_patch rec p it = Inr it' \<Longrightarrow> item_ok dig i it'"
  by (auto simp: fold_patch_def Let_def
      intro!: item_ok_touch item_ok_part split: option.splits)

lemma withdraw_mark_ok:
  "effect_ok dig i e \<Longrightarrow> effect_ok dig i (withdraw_mark rec reason e)
     \<and> ef_effect_id (withdraw_mark rec reason e) = ef_effect_id e"
  by (auto simp: effect_ok_def withdraw_mark_def)

lemma moot_proposal_ok:
  assumes ok: "item_ok dig i it"
  shows "item_ok dig i (moot_proposal rec it)"
proof -
  have "effects_ok dig i (it_effects it)" using ok by (rule item_okD)
  then have "effects_ok dig i (remove_first P (it_effects it))"
    "effects_ok dig i (map_first P (withdraw_mark rec r) (it_effects it))" for P r
    by (auto intro: effects_ok_remove_first effects_ok_map_first simp: withdraw_mark_ok)
  then show ?thesis
    using ok by (auto simp: moot_proposal_def Let_def intro!: item_ok_part(7) item_ok_note
        split: option.splits)
qed

lemma moot_proposal_fields [simp]:
  "it_status (moot_proposal rec it) = it_status it" "it_kind (moot_proposal rec it) = it_kind it"
  "it_answer (moot_proposal rec it) = it_answer it"
  "it_dismissed (moot_proposal rec it) = it_dismissed it"
  by (auto simp: moot_proposal_def Let_def add_note_def split: option.splits)

lemma item_ok_status:
  assumes "item_ok dig i it"
    and "status_ok (it_kind it) s c a d"
  shows "item_ok dig i (it\<lparr>it_status := s, it_completed_ms := c, it_answer := a, it_dismissed := d\<rparr>)"
  using assms by (simp add: item_ok_def)

lemma complete_ok:
  assumes "item_ok dig i it" "fold_complete rec it = Inr it'"
  shows "item_ok dig i it'"
proof (cases "it_status it")
  case Open
  let ?m = "moot_proposal rec it"
  have m: "item_ok dig i ?m" using assms(1) by (rule moot_proposal_ok)
  have "status_ok (it_kind ?m) Done (Some (or_at_ms rec)) (it_answer ?m) (it_dismissed ?m)"
    using item_okD(9) [OF m] Open by (simp add: status_ok_def)
  with m have "item_ok dig i (?m\<lparr>it_status := Done, it_completed_ms := Some (or_at_ms rec)\<rparr>)"
    by (simp add: item_ok_def)
  then show ?thesis
    using assms(2) Open by (auto simp: fold_complete_def intro: item_ok_touch)
qed (use assms in \<open>auto simp: fold_complete_def\<close>)

lemma reopen_ok:
  assumes "item_ok dig i it" "fold_reopen rec it = Inr it'"
  shows "item_ok dig i it'"
proof (cases "it_status it = Open")
  case False
  have "status_ok (it_kind it) Open None None None" by (simp add: status_ok_def)
  from item_ok_status [OF assms(1) this] show ?thesis
    using assms(2) False
    by (auto simp: fold_reopen_def intro: item_ok_touch split: agenda_status.splits)
qed (use assms in \<open>auto simp: fold_reopen_def\<close>)

lemma retire_ok:
  assumes "item_ok dig i it" "fold_retire rec it = Inr it'"
  shows "item_ok dig i it'"
proof (cases "it_status it = Retired")
  case False
  have "status_ok (it_kind it) Retired (it_completed_ms it) (it_answer it) (it_dismissed it)"
    using item_okD(9) [OF assms(1)] by (simp add: status_ok_def)
  with assms(1) have "item_ok dig i (it\<lparr>it_status := Retired\<rparr>)" by (simp add: item_ok_def)
  then show ?thesis
    using assms(2) False
    by (auto simp: fold_retire_def intro: item_ok_touch split: agenda_status.splits)
qed (use assms in \<open>auto simp: fold_retire_def\<close>)

lemma propose_effect_ok:
  assumes "item_ok dig i it" "fold_propose_effect dig rec eid m it = Inr it'"
  shows "item_ok dig i it'"
proof -
  have ok: "effects_ok dig i (it_effects it)" "it_id it = i"
    using item_okD [OF assms(1)] by blast+
  let ?new = "\<lambda>run. \<lparr> ef_effect_id = eid, ef_manifest = m, ef_digest = dig (it_id it) eid m,
      ef_proposed_ms = or_at_ms rec, ef_proposed_principal = at_principal (rec_actor rec),
      ef_proposed_session_id = at_session_id (rec_actor rec),
      ef_proposed_kind = at_kind (rec_actor rec), ef_approval = None, ef_withdrawn = None,
      ef_last_run = run, ef_consecutive_failures = 0, ef_requested = [], ef_next_fire_ms = None,
      ef_last_run_attempt = None, ef_fireability_refusal = None \<rparr>"
  have new: "effect_ok dig i (?new run)" for run
    using ok(2) by (simp add: effect_ok_def)
  have "effects_ok dig i (map_first (\<lambda>e. ef_effect_id e = eid) (\<lambda>e. ?new (c e)) (it_effects it))" for c
    using ok(1) new by (rule_tac effects_ok_map_first) auto
  moreover have "effects_ok dig i (it_effects it @ [?new None])"
    if "find (\<lambda>e. ef_effect_id e = eid) (it_effects it) = None"
    using that ok(1) new by (auto simp: effects_ok_def find_None_iff)
  ultimately show ?thesis
    using assms by (auto simp: fold_propose_effect_def Let_def intro!: item_ok_touch item_ok_part(7)
        split: option.splits)
qed

lemma approve_effect_ok:
  "item_ok dig i it \<Longrightarrow> fold_approve_effect rec eid d it = Inr it' \<Longrightarrow> item_ok dig i it'"
  by (auto simp: fold_approve_effect_def effect_ok_def intro!: item_ok_touch
      elim!: item_ok_on_effect split: if_splits)

lemma revoke_effect_ok:
  "item_ok dig i it \<Longrightarrow> fold_revoke_effect rec eid it = Inr it' \<Longrightarrow> item_ok dig i it'"
  by (auto simp: fold_revoke_effect_def effect_ok_def intro!: item_ok_touch elim!: item_ok_on_effect)

lemma withdraw_effect_ok:
  assumes "item_ok dig i it" "fold_withdraw_effect rec eid reason it = Inr it'"
  shows "item_ok dig i it'"
proof -
  have "effects_ok dig i (it_effects it)" using assms(1) by (rule item_okD)
  then have "effects_ok dig i (remove_first P (it_effects it))"
    "effects_ok dig i (map_first P (withdraw_mark rec reason) (it_effects it))" for P
    by (auto intro: effects_ok_remove_first effects_ok_map_first simp: withdraw_mark_ok)
  then show ?thesis
    using assms by (auto simp: fold_withdraw_effect_def Let_def
        intro!: item_ok_touch item_ok_part(7) item_ok_note split: option.splits if_splits)
qed

lemma request_occurrence_ok:
  "item_ok dig i it \<Longrightarrow> fold_request_occurrence rec eid d t it = Inr it' \<Longrightarrow> item_ok dig i it'"
  by (auto simp: fold_request_occurrence_def effect_ok_def Let_def intro!: item_ok_touch
      elim!: item_ok_on_effect split: if_splits)

lemma record_occurrence_ok:
  "item_ok dig i it \<Longrightarrow> fold_record_occurrence rec eid occ st s n it = Inr it' \<Longrightarrow> item_ok dig i it'"
  by (auto simp: fold_record_occurrence_def effect_ok_def Let_def intro!: item_ok_touch
      elim!: item_ok_on_effect)

lemma attest_ok:
  "item_ok dig i it \<Longrightarrow> fold_attest rec eid occ out n refs it = Inr it' \<Longrightarrow> item_ok dig i it'"
  by (auto simp: fold_attest_def effect_ok_def intro!: item_ok_touch elim!: item_ok_on_effect
      split: option.splits if_splits)

lemma answer_ok:
  assumes "item_ok dig i it" "fold_answer rec msg st it = Inr it'"
  shows "item_ok dig i it'"
proof -
  have k: "it_kind it = Question" "it_status it = Open"
    using assms(2) by (auto simp: fold_answer_def split: if_splits agenda_status.splits)
  then have "status_ok (it_kind it) Done (Some (or_at_ms rec)) (Some a) None" for a
    by (simp add: status_ok_def)
  with assms(1) have "item_ok dig i (it\<lparr>it_answer := Some a, it_dismissed := None, it_status := Done,
      it_completed_ms := Some (or_at_ms rec)\<rparr>)" for a
    by (simp add: item_ok_def)
  then show ?thesis
    using assms(2) k by (auto simp: fold_answer_def intro: item_ok_touch)
qed

lemma answer_update_ok:
  assumes "item_ok dig i it" "it_answer it = Some a"
  shows "item_ok dig i (it\<lparr>it_answer := Some a'\<rparr>)"
  using assms by (simp add: item_ok_def status_ok_def)

lemma acknowledge_answer_ok:
  "item_ok dig i it \<Longrightarrow> fold_acknowledge_answer rec it = Inr it' \<Longrightarrow> item_ok dig i it'"
  by (auto simp: fold_acknowledge_answer_def intro!: item_ok_touch answer_update_ok
      split: if_splits option.splits)

lemma record_ask_delivery_ok:
  "item_ok dig i it \<Longrightarrow> fold_record_ask_delivery rec d it = Inr it' \<Longrightarrow> item_ok dig i it'"
  by (auto simp: fold_record_ask_delivery_def intro!: item_ok_touch answer_update_ok
      split: option.splits)

lemma dismiss_ok:
  assumes "item_ok dig i it" "fold_dismiss rec act it = Inr it'"
  shows "item_ok dig i it'"
proof -
  have k: "it_kind it = Question" "it_status it = Open"
    using assms(2) by (auto simp: fold_dismiss_def split: if_splits agenda_status.splits)
  then have "item_ok dig i (it\<lparr>it_dismissed := Some d\<rparr>)" for d
    using assms(1) by (simp add: item_ok_def status_ok_def)
  then show ?thesis
    using assms(2) k by (auto simp: fold_dismiss_def intro: item_ok_touch)
qed

lemmas fold_ok = annotate_ok pick_up_ok set_blocker_ok clear_blocker_ok add_relies_on_ok
  remove_relies_on_ok add_part_of_ok remove_part_of_ok add_relates_to_ok remove_relates_to_ok
  add_ref_ok remove_ref_ok patch_ok complete_ok reopen_ok retire_ok propose_effect_ok
  approve_effect_ok revoke_effect_ok withdraw_effect_ok request_occurrence_ok
  record_occurrence_ok attest_ok answer_ok acknowledge_answer_ok record_ask_delivery_ok dismiss_ok

section \<open>The invariant of the ledger\<close>

definition ledger_ok :: "digester \<Rightarrow> items \<Rightarrow> bool" where
  "ledger_ok dig items = (bt_wf items \<and> (\<forall>i it. bt_get items i = Some it \<longrightarrow> item_ok dig i it))"

lemma ledger_ok_get: "ledger_ok dig items \<Longrightarrow> bt_get items i = Some it \<Longrightarrow> item_ok dig i it"
  by (simp add: ledger_ok_def)

lemma ledger_ok_put:
  "ledger_ok dig items \<Longrightarrow> item_ok dig i it \<Longrightarrow> ledger_ok dig (bt_put i it items)"
  by (auto simp: ledger_ok_def)

lemma ledger_ok_on_item:
  assumes "ledger_ok dig items" "on_item items i verb f = (items', None)"
    and "\<And>it it'. item_ok dig i it \<Longrightarrow> f it = Inr it' \<Longrightarrow> item_ok dig i it'"
  shows "ledger_ok dig items'"
  using on_item_ok [OF assms(2)] assms(1,3) ledger_ok_get ledger_ok_put by metis

lemma apply_op_ok:
  "ledger_ok dig items \<Longrightarrow> apply_op dig items rec = (items', None) \<Longrightarrow> ledger_ok dig items'"
  by (auto simp: apply_op.simps split: agenda_op.splits if_splits
      elim!: ledger_ok_on_item dest: fold_ok intro!: ledger_ok_put add_ok)

lemma fold_records_ok: "ledger_ok dig items \<Longrightarrow> ledger_ok dig (fold_records dig items recs)"
  by (rule agenda.run_invariant) (auto intro: apply_op_ok)

lemma ledger_ok_empty: "ledger_ok dig []"
  by (simp add: ledger_ok_def)

section \<open>What becomes of an effect\<close>

text \<open>How an accepted operation may change an effect of item \<open>i\<close> that it does not create.\<close>

definition kept :: "agenda_effect \<Rightarrow> agenda_effect \<Rightarrow> bool" where
  "kept e e' = (ef_effect_id e' = ef_effect_id e \<and> ef_manifest e' = ef_manifest e
     \<and> ef_digest e' = ef_digest e)"

fun effect_step :: "agenda_op \<Rightarrow> string \<Rightarrow> agenda_effect \<Rightarrow> agenda_effect \<Rightarrow> bool" where
  "effect_step (OpApproveEffect j eid d) i e e' =
     (if j = i \<and> eid = ef_effect_id e then ef_digest e = d \<and> ef_consecutive_failures e' = 0 else e' = e)"
| "effect_step (OpRevokeEffect j eid) i e e' =
     (if j = i \<and> eid = ef_effect_id e
      then ef_approval e' = None \<and> ef_consecutive_failures e' = ef_consecutive_failures e else e' = e)"
| "effect_step (OpWithdrawEffect j eid r) i e e' =
     (e' = e \<or> j = i \<and> eid = ef_effect_id e \<and> ef_approval e = None \<and> ef_approval e' = None
        \<and> ef_consecutive_failures e' = ef_consecutive_failures e)"
| "effect_step (OpComplete j) i e e' =
     (e' = e \<or> ef_approval e = None \<and> ef_approval e' = None
        \<and> ef_consecutive_failures e' = ef_consecutive_failures e)"
| "effect_step (OpRequestOccurrence j eid d t) i e e' =
     (ef_approval e' = ef_approval e \<and> ef_consecutive_failures e' = ef_consecutive_failures e)"
| "effect_step (OpRecordOccurrence j eid occ st s n) i e e' =
     (if j = i \<and> eid = ef_effect_id e
      then ef_approval e' = ef_approval e
         \<and> (\<exists>carried. ef_consecutive_failures e' = streak_after st carried (ef_consecutive_failures e))
      else e' = e)"
| "effect_step (OpAttest j eid occ out n refs) i e e' =
     (ef_approval e' = ef_approval e \<and> ef_consecutive_failures e' = ef_consecutive_failures e)"
| "effect_step (OpProposeEffect j eid m) i e e' = (e' = e \<and> \<not> (j = i \<and> eid = ef_effect_id e))"
| "effect_step op i e e' = (e' = e)"

definition traced :: "op_record \<Rightarrow> string \<Rightarrow> agenda_item \<Rightarrow> agenda_effect \<Rightarrow> bool" where
  "traced rec i it e' = ((\<exists>e \<in> set (it_effects it). kept e e' \<and> effect_step (or_op rec) i e e')
     \<or> (\<exists>m. or_op rec = OpProposeEffect i (ef_effect_id e') m
          \<and> ef_approval e' = None \<and> ef_consecutive_failures e' = 0))"

lemma kept_refl [simp]: "kept e e"
  by (simp add: kept_def)

lemma traced_same:
  "e' \<in> set (it_effects it) \<Longrightarrow> effect_step (or_op rec) i e' e' \<Longrightarrow> traced rec i it e'"
  by (auto simp: traced_def)

lemma on_effect_traced:
  assumes "on_effect it eid w f = Inr it'" "distinct (map ef_effect_id (it_effects it))"
    and "e' \<in> set (it_effects it')"
    and "\<And>e e1. ef_effect_id e = eid \<Longrightarrow> f e = Inr e1 \<Longrightarrow> kept e e1 \<and> effect_step (or_op rec) i e e1"
    and "\<And>e. ef_effect_id e \<noteq> eid \<Longrightarrow> effect_step (or_op rec) i e e"
  shows "traced rec i it e'"
proof -
  obtain es where es: "update_first (\<lambda>e. ef_effect_id e = eid) f
      (w @ '' for unknown effect on '' @ it_id it @ '' ignored'') (it_effects it) = Inr es"
      "it' = it\<lparr>it_effects := es\<rparr>"
    using assms(1) by (auto simp: on_effect_def)
  from update_first_split [OF es(1)] obtain pre x y post where
    s: "it_effects it = pre @ x # post" "es = pre @ y # post" "ef_effect_id x = eid" "f x = Inr y"
    by blast
  show ?thesis
  proof (cases "e' = y")
    case True
    then show ?thesis using assms(4) [OF s(3,4)] s(1) by (auto simp: traced_def)
  next
    case False
    then have m: "e' \<in> set pre \<union> set post" using assms(3) es(2) s(2) by auto
    have "ef_effect_id e' \<in> ef_effect_id ` (set pre \<union> set post)" using m by (rule imageI)
    moreover have "ef_effect_id x \<notin> ef_effect_id ` (set pre \<union> set post)"
      using assms(2) s(1) by auto
    ultimately have "ef_effect_id e' \<noteq> eid" using s(3) by metis
    then have "effect_step (or_op rec) i e' e'" by (rule assms(5))
    moreover have "e' \<in> set (it_effects it)" using m s(1) by auto
    ultimately show ?thesis by (intro traced_same)
  qed
qed

lemma map_first_Cons:
  "map_first P f (x # xs) = (if P x then f x # xs else x # map_first P f xs)"
  by (simp add: map_first_def split: sum.split)

lemma map_first_Nil [simp]: "map_first P f [] = []"
  by (simp add: map_first_def)

lemma map_first_key:
  "distinct (map k xs) \<Longrightarrow> map_first (\<lambda>x. k x = c) f xs = map (\<lambda>x. if k x = c then f x else x) xs"
proof (induction xs)
  case (Cons x xs)
  have "map (\<lambda>y. if k y = c then f y else y) xs = xs" if "k x = c"
    using Cons.prems that by (intro map_idI) (metis image_eqI list.set_map distinct.simps(2) list.simps(9))
  then show ?case using Cons by (simp add: map_first_Cons)
qed simp

lemma map_first_mem: "e' \<in> set (map_first P f es) \<Longrightarrow> e' \<in> set es \<or> (\<exists>e \<in> set es. P e \<and> e' = f e)"
  using map_first_split [of P f es] by auto

lemma withdraw_mark_simps [simp]:
  "ef_approval (withdraw_mark rec r e) = ef_approval e"
  "ef_consecutive_failures (withdraw_mark rec r e) = ef_consecutive_failures e"
  "ef_effect_id (withdraw_mark rec r e) = ef_effect_id e"
  "kept e (withdraw_mark rec r e)"
  by (simp_all add: withdraw_mark_def kept_def)

lemma touch_effects [simp]: "it_effects (touch rec it) = it_effects it"
  by (simp add: touch_def)

lemma add_note_effects [simp]: "it_effects (add_note rec msg it) = it_effects it"
  by (simp add: add_note_def)

text \<open>Operations that are not about effects leave them alone.\<close>

lemma annotate_effects: "fold_annotate rec msg it = Inr it' \<Longrightarrow> it_effects it' = it_effects it"
  by (auto simp: fold_annotate_def Let_def)

lemma pick_up_effects: "fold_pick_up rec it = Inr it' \<Longrightarrow> it_effects it' = it_effects it"
  by (auto simp: fold_pick_up_def Let_def split: if_splits option.splits)

lemma set_blocker_effects: "fold_set_blocker rec b c it = Inr it' \<Longrightarrow> it_effects it' = it_effects it"
  by (auto simp: fold_set_blocker_def Let_def split: if_splits)

lemma clear_blocker_effects: "fold_clear_blocker rec b it = Inr it' \<Longrightarrow> it_effects it' = it_effects it"
  by (auto simp: fold_clear_blocker_def Let_def)

lemma add_relies_on_effects: "fold_add_relies_on rec t it = Inr it' \<Longrightarrow> it_effects it' = it_effects it"
  by (auto simp: fold_add_relies_on_def Let_def split: if_splits)

lemma remove_relies_on_effects: "fold_remove_relies_on rec t it = Inr it' \<Longrightarrow> it_effects it' = it_effects it"
  by (auto simp: fold_remove_relies_on_def Let_def split: if_splits)

lemma add_part_of_effects: "fold_add_part_of rec t it = Inr it' \<Longrightarrow> it_effects it' = it_effects it"
  by (auto simp: fold_add_part_of_def Let_def split: option.splits)

lemma remove_part_of_effects: "fold_remove_part_of rec t it = Inr it' \<Longrightarrow> it_effects it' = it_effects it"
  by (auto simp: fold_remove_part_of_def Let_def split: if_splits)

lemma add_relates_to_effects: "fold_add_relates_to rec t k it = Inr it' \<Longrightarrow> it_effects it' = it_effects it"
  by (auto simp: fold_add_relates_to_def Let_def split: if_splits)

lemma remove_relates_to_effects: "fold_remove_relates_to rec t it = Inr it' \<Longrightarrow> it_effects it' = it_effects it"
  by (auto simp: fold_remove_relates_to_def Let_def split: if_splits)

lemma add_ref_effects: "fold_add_ref rec rt l d m lab it = Inr it' \<Longrightarrow> it_effects it' = it_effects it"
  by (auto simp: fold_add_ref_def Let_def split: if_splits)

lemma remove_ref_effects: "fold_remove_ref rec rt l it = Inr it' \<Longrightarrow> it_effects it' = it_effects it"
  by (auto simp: fold_remove_ref_def Let_def split: if_splits)

lemma patch_effects: "fold_patch rec p it = Inr it' \<Longrightarrow> it_effects it' = it_effects it"
  by (auto simp: fold_patch_def Let_def split: option.splits)

lemma reopen_effects: "fold_reopen rec it = Inr it' \<Longrightarrow> it_effects it' = it_effects it"
  by (auto simp: fold_reopen_def Let_def split: agenda_status.splits)

lemma retire_effects: "fold_retire rec it = Inr it' \<Longrightarrow> it_effects it' = it_effects it"
  by (auto simp: fold_retire_def Let_def split: agenda_status.splits)

lemma answer_effects: "fold_answer rec msg st it = Inr it' \<Longrightarrow> it_effects it' = it_effects it"
  by (auto simp: fold_answer_def Let_def split: if_splits agenda_status.splits)

lemma acknowledge_answer_effects: "fold_acknowledge_answer rec it = Inr it' \<Longrightarrow> it_effects it' = it_effects it"
  by (auto simp: fold_acknowledge_answer_def Let_def split: if_splits option.splits)

lemma record_ask_delivery_effects: "fold_record_ask_delivery rec dl it = Inr it' \<Longrightarrow> it_effects it' = it_effects it"
  by (auto simp: fold_record_ask_delivery_def Let_def split: option.splits)

lemma dismiss_effects: "fold_dismiss rec a it = Inr it' \<Longrightarrow> it_effects it' = it_effects it"
  by (auto simp: fold_dismiss_def Let_def split: if_splits agenda_status.splits)

lemmas plain_effects = annotate_effects pick_up_effects set_blocker_effects clear_blocker_effects add_relies_on_effects remove_relies_on_effects add_part_of_effects remove_part_of_effects add_relates_to_effects remove_relates_to_effects add_ref_effects remove_ref_effects patch_effects reopen_effects retire_effects answer_effects acknowledge_answer_effects record_ask_delivery_effects dismiss_effects

lemma traced_withdrawn:
  assumes "e' \<in> set (it_effects it) \<or>
      (\<exists>e \<in> set (it_effects it). ef_approval e = None \<and> Q e \<and> e' = withdraw_mark rec r e)"
    and "\<And>e. effect_step (or_op rec) i e e"
    and "\<And>e. ef_approval e = None \<Longrightarrow> Q e \<Longrightarrow> effect_step (or_op rec) i e (withdraw_mark rec r e)"
  shows "traced rec i it e'"
  using assms withdraw_mark_simps(4) kept_refl unfolding traced_def by blast

lemma withdrawn_mem:
  assumes "es' \<in> {es, remove_first P es, map_first P f es}" "e' \<in> set es'"
  shows "e' \<in> set es \<or> (\<exists>e \<in> set es. P e \<and> e' = f e)"
  using assms map_first_mem [of e' P f es] remove_first_subset [of P es] by blast

lemma complete_traced:
  assumes "fold_complete rec it = Inr it'" "or_op rec = OpComplete i" "e' \<in> set (it_effects it')"
  shows "traced rec i it e'"
proof (rule traced_withdrawn [where Q = "\<lambda>e. True" and r = "Some moot_reason"])
  have "it_effects it' \<in> {it_effects it, remove_first pending_proposal (it_effects it),
      map_first pending_proposal (withdraw_mark rec (Some moot_reason)) (it_effects it)}"
    using assms(1)
    by (auto simp: fold_complete_def moot_proposal_def Let_def
        split: agenda_status.splits option.splits if_splits)
  then show "e' \<in> set (it_effects it) \<or>
      (\<exists>e \<in> set (it_effects it). ef_approval e = None \<and> True \<and> e' = withdraw_mark rec (Some moot_reason) e)"
    using withdrawn_mem [OF _ assms(3)] unfolding pending_proposal_def by blast
qed (simp_all add: assms(2))

lemma withdraw_traced:
  assumes "fold_withdraw_effect rec eid r it = Inr it'" "or_op rec = OpWithdrawEffect i eid r"
    and "e' \<in> set (it_effects it')" "distinct (map ef_effect_id (it_effects it))"
  shows "traced rec i it e'"
proof -
  obtain e0 where e0: "find (\<lambda>e. ef_effect_id e = eid) (it_effects it) = Some e0" "ef_approval e0 = None"
    using assms(1) by (auto simp: fold_withdraw_effect_def split: option.splits if_splits)
  then have e0': "e0 \<in> set (it_effects it)" "ef_effect_id e0 = eid"
    by (auto dest: find_Some_in)
  have "inj_on ef_effect_id (set (it_effects it))" using assms(4) by (simp add: distinct_map)
  with e0 e0' have app: "ef_approval e = None" if "e \<in> set (it_effects it)" "ef_effect_id e = eid" for e
    using that by (metis inj_onD)
  show ?thesis
  proof (rule traced_withdrawn [where Q = "\<lambda>e. ef_effect_id e = eid" and r = r])
    have "it_effects it' \<in> {remove_first (\<lambda>e. ef_effect_id e = eid) (it_effects it),
        map_first (\<lambda>e. ef_effect_id e = eid) (withdraw_mark rec r) (it_effects it)}"
      using assms(1)
      by (auto simp: fold_withdraw_effect_def Let_def split: option.splits if_splits)
    then show "e' \<in> set (it_effects it) \<or> (\<exists>e \<in> set (it_effects it). ef_approval e = None
        \<and> ef_effect_id e = eid \<and> e' = withdraw_mark rec r e)"
      using withdrawn_mem [where P = "\<lambda>e. ef_effect_id e = eid", OF _ assms(3)] app by blast
  qed (simp_all add: assms(2))
qed

lemma propose_traced:
  assumes "fold_propose_effect dig rec eid m it = Inr it'" "or_op rec = OpProposeEffect i eid m"
    and "e' \<in> set (it_effects it')" "distinct (map ef_effect_id (it_effects it))"
  shows "traced rec i it e'"
proof -
  let ?Q = "\<lambda>e. ef_effect_id e = eid \<and> ef_approval e = None \<and> ef_consecutive_failures e = 0"
  obtain new where new: "it_effects it' = (case find (\<lambda>e. ef_effect_id e = eid) (it_effects it) of
        Some _ \<Rightarrow> map_first (\<lambda>e. ef_effect_id e = eid)
           (\<lambda>e. new (Option.bind (ef_last_run e)
              (\<lambda>run. if rn_state run = ''started'' then Some run else None))) (it_effects it)
      | None \<Rightarrow> it_effects it @ [new None])" "\<forall>r. ?Q (new r)"
    using assms(1) by (auto simp: fold_propose_effect_def Let_def touch_def)
  have "?Q e' \<or> e' \<in> set (it_effects it) \<and> ef_effect_id e' \<noteq> eid"
  proof (cases "find (\<lambda>e. ef_effect_id e = eid) (it_effects it)")
    case None
    have "set (it_effects it') \<subseteq> set (it_effects it) \<union> {e. ?Q e}"
      unfolding new(1) None option.case using new(2) by auto
    moreover have "\<forall>e \<in> set (it_effects it). ef_effect_id e \<noteq> eid"
      using None by (simp add: find_None_iff)
    ultimately show ?thesis using assms(3) by blast
  next
    case (Some e0)
    have "set (it_effects it') \<subseteq> {e \<in> set (it_effects it). ef_effect_id e \<noteq> eid} \<union> {e. ?Q e}"
      unfolding new(1) Some option.case map_first_key [OF assms(4)] using new(2) by auto
    then show ?thesis using assms(3) by blast
  qed
  then show ?thesis using assms(2) by (auto simp: traced_def)
qed

text \<open>Every effect of an item after an accepted operation, traced to the item before it.\<close>

lemma on_item_get:
  assumes "on_item items j verb f = (items', None)" "bt_get items' i = Some it'"
  shows "(i \<noteq> j \<and> bt_get items i = Some it') \<or>
    (i = j \<and> (\<exists>it. bt_get items i = Some it \<and> f it = Inr it'))"
  using on_item_ok [OF assms(1)] assms(2) by (auto split: if_splits)

lemma other_item_step: "op_item_id op \<noteq> i \<Longrightarrow> effect_step op i e e"
  by (cases op) auto

lemma plain_step:
  "(case op of OpApproveEffect _ _ _ \<Rightarrow> False | OpRevokeEffect _ _ \<Rightarrow> False
      | OpRecordOccurrence _ _ _ _ _ _ \<Rightarrow> False | OpProposeEffect _ _ _ \<Rightarrow> False
      | _ \<Rightarrow> True) \<Longrightarrow> effect_step op i e e"
  by (cases op) auto

lemma item_traced:
  assumes "on_item items j verb f = (items', None)" "bt_get items' i = Some it'"
    and "op_item_id (or_op rec) = j" and "ledger_ok dig items" and "e' \<in> set (it_effects it')"
    and "\<And>it. f it = Inr it' \<Longrightarrow> i = j \<Longrightarrow> distinct (map ef_effect_id (it_effects it)) \<Longrightarrow> traced rec i it e'"
  shows "\<exists>it. bt_get items i = Some it \<and> traced rec i it e'"
  using on_item_get [OF assms(1,2)]
proof
  assume "i \<noteq> j \<and> bt_get items i = Some it'"
  then show ?thesis using assms(3,5) traced_same other_item_step by metis
next
  assume "i = j \<and> (\<exists>it. bt_get items i = Some it \<and> f it = Inr it')"
  then obtain it where it: "i = j" "bt_get items i = Some it" "f it = Inr it'" by blast
  have "distinct (map ef_effect_id (it_effects it))"
    using item_okD(8) [OF ledger_ok_get [OF assms(4) it(2)]] by (simp add: effects_ok_def)
  then show ?thesis using assms(6) it by blast
qed

lemma approve_traced:
  assumes "fold_approve_effect rec eid d it = Inr it'" "or_op rec = OpApproveEffect i eid d"
    and "e' \<in> set (it_effects it')" "distinct (map ef_effect_id (it_effects it))"
  shows "traced rec i it e'"
proof -
  obtain it1 where it1: "on_effect it eid ''approve_effect'' (\<lambda>e. if ef_digest e \<noteq> d
        then Inl (''approve_effect digest mismatch on '' @ it_id it @ '' ignored (manifest superseded)'')
        else Inr (e\<lparr>ef_approval := Some \<lparr> ap_digest = d, ap_at_ms = or_at_ms rec,
               ap_principal = at_principal (rec_actor rec), ap_kind = at_kind (rec_actor rec) \<rparr>,
             ef_consecutive_failures := 0\<rparr>)) = Inr it1" "it' = touch rec it1"
    using assms(1) unfolding fold_approve_effect_def by auto
  show ?thesis
    by (rule on_effect_traced [OF it1(1) assms(4)])
      (use assms(2,3) it1(2) in \<open>auto simp: kept_def split: if_splits\<close>)
qed

lemma revoke_traced:
  assumes "fold_revoke_effect rec eid it = Inr it'" "or_op rec = OpRevokeEffect i eid"
    and "e' \<in> set (it_effects it')" "distinct (map ef_effect_id (it_effects it))"
  shows "traced rec i it e'"
proof -
  obtain it1 where it1: "on_effect it eid ''revoke_effect''
      (\<lambda>e. Inr (e\<lparr>ef_approval := None, ef_requested := []\<rparr>)) = Inr it1" "it' = touch rec it1"
    using assms(1) unfolding fold_revoke_effect_def by auto
  show ?thesis
    by (rule on_effect_traced [OF it1(1) assms(4)])
      (use assms(2,3) it1(2) in \<open>auto simp: kept_def\<close>)
qed

lemma request_traced:
  assumes "fold_request_occurrence rec eid d t it = Inr it'"
    and "or_op rec = OpRequestOccurrence i eid d t"
    and "e' \<in> set (it_effects it')" "distinct (map ef_effect_id (it_effects it))"
  shows "traced rec i it e'"
proof -
  obtain it1 f where it1: "on_effect it eid ''request_occurrence'' f = Inr it1" "it' = touch rec it1"
    and f: "\<And>e e1. f e = Inr e1 \<Longrightarrow> \<exists>rs. e1 = e\<lparr>ef_requested := rs\<rparr>"
    using assms(1) unfolding fold_request_occurrence_def rbind_eq_Inr Let_def
    by (fastforce split: if_splits)
  show ?thesis
    by (rule on_effect_traced [OF it1(1) assms(4)])
      (use assms(2,3) it1(2) in \<open>auto simp: kept_def dest!: f\<close>)
qed

lemma record_traced:
  assumes "fold_record_occurrence rec eid occ st s n it = Inr it'"
    and "or_op rec = OpRecordOccurrence i eid occ st s n"
    and "e' \<in> set (it_effects it')" "distinct (map ef_effect_id (it_effects it))"
  shows "traced rec i it e'"
proof -
  obtain it1 f where it1: "on_effect it eid ''record_occurrence'' f = Inr it1" "it' = touch rec it1"
    and f: "\<And>e e1. f e = Inr e1 \<Longrightarrow> \<exists>run c. e1 = e\<lparr>ef_last_run := run,
       ef_consecutive_failures := streak_after st c (ef_consecutive_failures e)\<rparr>"
    using assms(1) unfolding fold_record_occurrence_def rbind_eq_Inr Let_def by fastforce
  show ?thesis
    by (rule on_effect_traced [OF it1(1) assms(4)])
      (use assms(2,3) it1(2) in \<open>auto simp: kept_def dest!: f\<close>)
qed

lemma attest_traced:
  assumes "fold_attest rec eid occ out n refs it = Inr it'"
    and "or_op rec = OpAttest i eid occ out n refs"
    and "e' \<in> set (it_effects it')" "distinct (map ef_effect_id (it_effects it))"
  shows "traced rec i it e'"
proof -
  obtain it1 f where it1: "on_effect it eid ''attest'' f = Inr it1" "it' = touch rec it1"
    and f: "\<And>e e1. f e = Inr e1 \<Longrightarrow> \<exists>run. e1 = e\<lparr>ef_last_run := run\<rparr>"
    using assms(1) unfolding fold_attest_def rbind_eq_Inr
    by (fastforce split: if_splits option.splits)
  show ?thesis
    by (rule on_effect_traced [OF it1(1) assms(4)])
      (use assms(2,3) it1(2) in \<open>auto simp: kept_def dest!: f\<close>)
qed

lemma plain_traced:
  assumes "it_effects it' = it_effects it" "effect_step (or_op rec) i e' e'"
    and "e' \<in> set (it_effects it')"
  shows "traced rec i it e'"
  using assms by (auto intro: traced_same)

lemma apply_op_traced:
  assumes "apply_op dig items rec = (items', None)" "ledger_ok dig items"
    and "bt_get items' i = Some it'" "e' \<in> set (it_effects it')"
  shows "\<exists>it. bt_get items i = Some it \<and> traced rec i it e'"
proof (cases "or_op rec")
  case (OpAdd j kind title body tags due ask)
  with assms have "i \<noteq> j"
    by (auto simp: apply_op.simps fold_add_def split: if_splits)
  with OpAdd assms show ?thesis
    by (auto simp: apply_op.simps split: if_splits intro!: traced_same)
next
  case (OpApproveEffect j eid d)
  with assms show ?thesis
    by (auto simp: apply_op.simps elim!: item_traced dest: approve_traced)
next
  case (OpRevokeEffect j eid)
  with assms show ?thesis
    by (auto simp: apply_op.simps elim!: item_traced dest: revoke_traced)
next
  case (OpWithdrawEffect j eid r)
  with assms show ?thesis
    by (auto simp: apply_op.simps elim!: item_traced dest: withdraw_traced)
next
  case (OpRequestOccurrence j eid d t)
  with assms show ?thesis
    by (auto simp: apply_op.simps elim!: item_traced dest: request_traced)
next
  case (OpRecordOccurrence j eid occ st s n)
  with assms show ?thesis
    by (auto simp: apply_op.simps elim!: item_traced dest: record_traced)
next
  case (OpAttest j eid occ out n refs)
  with assms show ?thesis
    by (auto simp: apply_op.simps elim!: item_traced dest: attest_traced)
next
  case (OpProposeEffect j eid m)
  with assms show ?thesis
    by (auto simp: apply_op.simps elim!: item_traced dest: propose_traced)
next
  case (OpComplete j)
  with assms show ?thesis
    by (auto simp: apply_op.simps elim!: item_traced dest: complete_traced)
qed (use assms in \<open>auto simp: apply_op.simps split: if_splits elim!: item_traced
       intro!: plain_traced dest: plain_effects\<close>)

section \<open>The reply of a question\<close>

definition reply_state :: "agenda_item \<Rightarrow> agenda_kind \<times> agenda_status \<times> agenda_answer option" where
  "reply_state it = (it_kind it, it_status it, it_answer it)"

lemma reply_state_simps [simp]:
  "reply_state (touch rec it) = reply_state it" "reply_state (add_note rec msg it) = reply_state it"
  "reply_state (it\<lparr>it_effects := es\<rparr>) = reply_state it"
  "reply_state (it\<lparr>it_blockers := bs\<rparr>) = reply_state it"
  "reply_state (it\<lparr>it_relies_on := ds\<rparr>) = reply_state it"
  "reply_state (it\<lparr>it_relates_to := ls\<rparr>) = reply_state it"
  "reply_state (it\<lparr>it_refs := rs\<rparr>) = reply_state it"
  "reply_state (it\<lparr>it_part_of := p\<rparr>) = reply_state it"
  "reply_state (it\<lparr>it_annotations := ns\<rparr>) = reply_state it"
  "reply_state (it\<lparr>it_dismissed := dm\<rparr>) = reply_state it"
  "reply_state (it\<lparr>it_title := t\<rparr>) = reply_state it" "reply_state (it\<lparr>it_body := b\<rparr>) = reply_state it"
  "reply_state (it\<lparr>it_tags := ts\<rparr>) = reply_state it" "reply_state (it\<lparr>it_due_ms := d\<rparr>) = reply_state it"
  by (simp_all add: reply_state_def touch_def add_note_def)

lemma on_effect_reply: "on_effect it eid w f = Inr it' \<Longrightarrow> reply_state it' = reply_state it"
  by (auto simp: on_effect_def)

lemma annotate_reply: "fold_annotate rec msg it = Inr it' \<Longrightarrow> reply_state it' = reply_state it"
  by (auto simp: fold_annotate_def Let_def split: if_splits option.splits agenda_status.splits dest: on_effect_reply)

lemma pick_up_reply: "fold_pick_up rec it = Inr it' \<Longrightarrow> reply_state it' = reply_state it"
  by (auto simp: fold_pick_up_def Let_def split: if_splits option.splits agenda_status.splits dest: on_effect_reply)

lemma set_blocker_reply: "fold_set_blocker rec b c it = Inr it' \<Longrightarrow> reply_state it' = reply_state it"
  by (auto simp: fold_set_blocker_def Let_def split: if_splits option.splits agenda_status.splits dest: on_effect_reply)

lemma clear_blocker_reply: "fold_clear_blocker rec b it = Inr it' \<Longrightarrow> reply_state it' = reply_state it"
  by (auto simp: fold_clear_blocker_def Let_def split: if_splits option.splits agenda_status.splits dest: on_effect_reply)

lemma add_relies_on_reply: "fold_add_relies_on rec t it = Inr it' \<Longrightarrow> reply_state it' = reply_state it"
  by (auto simp: fold_add_relies_on_def Let_def split: if_splits option.splits agenda_status.splits dest: on_effect_reply)

lemma remove_relies_on_reply: "fold_remove_relies_on rec t it = Inr it' \<Longrightarrow> reply_state it' = reply_state it"
  by (auto simp: fold_remove_relies_on_def Let_def split: if_splits option.splits agenda_status.splits dest: on_effect_reply)

lemma add_part_of_reply: "fold_add_part_of rec t it = Inr it' \<Longrightarrow> reply_state it' = reply_state it"
  by (auto simp: fold_add_part_of_def Let_def split: if_splits option.splits agenda_status.splits dest: on_effect_reply)

lemma remove_part_of_reply: "fold_remove_part_of rec t it = Inr it' \<Longrightarrow> reply_state it' = reply_state it"
  by (auto simp: fold_remove_part_of_def Let_def split: if_splits option.splits agenda_status.splits dest: on_effect_reply)

lemma add_relates_to_reply: "fold_add_relates_to rec t k it = Inr it' \<Longrightarrow> reply_state it' = reply_state it"
  by (auto simp: fold_add_relates_to_def Let_def split: if_splits option.splits agenda_status.splits dest: on_effect_reply)

lemma remove_relates_to_reply: "fold_remove_relates_to rec t it = Inr it' \<Longrightarrow> reply_state it' = reply_state it"
  by (auto simp: fold_remove_relates_to_def Let_def split: if_splits option.splits agenda_status.splits dest: on_effect_reply)

lemma add_ref_reply: "fold_add_ref rec rt l d m lab it = Inr it' \<Longrightarrow> reply_state it' = reply_state it"
  by (auto simp: fold_add_ref_def Let_def split: if_splits option.splits agenda_status.splits dest: on_effect_reply)

lemma remove_ref_reply: "fold_remove_ref rec rt l it = Inr it' \<Longrightarrow> reply_state it' = reply_state it"
  by (auto simp: fold_remove_ref_def Let_def split: if_splits option.splits agenda_status.splits dest: on_effect_reply)

lemma patch_reply: "fold_patch rec p it = Inr it' \<Longrightarrow> reply_state it' = reply_state it"
  by (auto simp: fold_patch_def Let_def split: if_splits option.splits agenda_status.splits dest: on_effect_reply)

lemma dismiss_reply: "fold_dismiss rec a it = Inr it' \<Longrightarrow> reply_state it' = reply_state it"
  by (auto simp: fold_dismiss_def Let_def split: if_splits option.splits agenda_status.splits dest: on_effect_reply)

lemma propose_effect_reply: "fold_propose_effect dig rec eid m it = Inr it' \<Longrightarrow> reply_state it' = reply_state it"
  by (auto simp: fold_propose_effect_def Let_def split: if_splits option.splits agenda_status.splits dest: on_effect_reply)

lemma approve_effect_reply: "fold_approve_effect rec eid d it = Inr it' \<Longrightarrow> reply_state it' = reply_state it"
  by (auto simp: fold_approve_effect_def Let_def split: if_splits option.splits agenda_status.splits dest: on_effect_reply)

lemma revoke_effect_reply: "fold_revoke_effect rec eid it = Inr it' \<Longrightarrow> reply_state it' = reply_state it"
  by (auto simp: fold_revoke_effect_def Let_def split: if_splits option.splits agenda_status.splits dest: on_effect_reply)

lemma withdraw_effect_reply: "fold_withdraw_effect rec eid r it = Inr it' \<Longrightarrow> reply_state it' = reply_state it"
  by (auto simp: fold_withdraw_effect_def Let_def split: if_splits option.splits agenda_status.splits dest: on_effect_reply)

lemma request_occurrence_reply: "fold_request_occurrence rec eid d t it = Inr it' \<Longrightarrow> reply_state it' = reply_state it"
  by (auto simp: fold_request_occurrence_def Let_def split: if_splits option.splits agenda_status.splits dest: on_effect_reply)

lemma record_occurrence_reply: "fold_record_occurrence rec eid occ st s n it = Inr it' \<Longrightarrow> reply_state it' = reply_state it"
  by (auto simp: fold_record_occurrence_def Let_def split: if_splits option.splits agenda_status.splits dest: on_effect_reply)

lemma attest_reply: "fold_attest rec eid occ out n refs it = Inr it' \<Longrightarrow> reply_state it' = reply_state it"
  by (auto simp: fold_attest_def Let_def split: if_splits option.splits agenda_status.splits dest: on_effect_reply)

lemmas plain_reply = annotate_reply pick_up_reply set_blocker_reply clear_blocker_reply add_relies_on_reply remove_relies_on_reply add_part_of_reply remove_part_of_reply add_relates_to_reply remove_relates_to_reply add_ref_reply remove_ref_reply patch_reply dismiss_reply propose_effect_reply approve_effect_reply revoke_effect_reply withdraw_effect_reply request_occurrence_reply record_occurrence_reply attest_reply

lemma awaiting_reply_state: "answer_awaiting_pickup it = (case reply_state it of (k, st, a) \<Rightarrow>
    k = Question \<and> st = Done \<and> (case a of None \<Rightarrow> False
       | Some x \<Rightarrow> aw_delivered x \<noteq> Some True \<and> aw_acknowledged x = None))"
  by (simp add: answer_awaiting_pickup_def reply_state_def)

lemma awaiting_same: "reply_state it' = reply_state it \<Longrightarrow> answer_awaiting_pickup it' = answer_awaiting_pickup it"
  by (simp add: awaiting_reply_state)

text \<open>
  An answered question stays in the pickup inbox through every operation but four: its
  acknowledgement, a delivery that reached its session, its reopening and its retirement.
  Answering puts it there.
\<close>

theorem answer_stays_awaiting:
  assumes "apply_op dig items rec = (items', None)"
    and "bt_get items i = Some it" "bt_get items' i = Some it'"
  shows "(answer_awaiting_pickup it \<and> \<not> answer_awaiting_pickup it' \<longrightarrow>
        or_op rec \<in> {OpAcknowledgeAnswer i, OpReopen i, OpRetire i}
        \<or> (\<exists>s. or_op rec = OpRecordAskDelivery i True s))
    \<and> ((\<exists>msg st. or_op rec = OpAnswer i msg st) \<longrightarrow> answer_awaiting_pickup it')"
proof (cases "or_op rec")
  case (OpAdd j kind title body tags due ask)
  with assms show ?thesis by (auto simp: apply_op.simps split: if_splits)
next
  case (OpComplete j)
  with assms show ?thesis
    by (auto simp: apply_op.simps fold_complete_def answer_awaiting_pickup_def
        dest!: on_item_get split: agenda_status.splits)
next
  case (OpAnswer j msg st)
  with assms show ?thesis
    by (auto simp: apply_op.simps fold_answer_def answer_awaiting_pickup_def touch_def
        dest!: on_item_get split: agenda_status.splits if_splits)
next
  case (OpAcknowledgeAnswer j)
  with assms show ?thesis by (auto simp: apply_op.simps dest!: on_item_get)
next
  case (OpReopen j)
  with assms show ?thesis by (auto simp: apply_op.simps dest!: on_item_get)
next
  case (OpRetire j)
  with assms show ?thesis by (auto simp: apply_op.simps dest!: on_item_get)
next
  case (OpRecordAskDelivery j d s)
  with assms show ?thesis
    by (cases d) (auto simp: apply_op.simps fold_record_ask_delivery_def answer_awaiting_pickup_def
        touch_def dest!: on_item_get split: option.splits)
qed (use assms in \<open>auto simp: apply_op.simps split: if_splits dest!: on_item_get
       dest: plain_reply [THEN awaiting_same]\<close>)

section \<open>Where approvals come from and how suspensions end\<close>

lemma effect_step_approved:
  assumes "effect_step op i e e'" "kept e e'" "ef_approval e' \<noteq> None"
  shows "(\<exists>d. op = OpApproveEffect i (ef_effect_id e') d \<and> d = ef_digest e')
    \<or> ef_approval e \<noteq> None \<and> op \<noteq> OpRevokeEffect i (ef_effect_id e)
       \<and> (\<forall>m. op \<noteq> OpProposeEffect i (ef_effect_id e) m)"
  using assms by (cases op) (auto simp: kept_def split: if_splits)

text \<open>
  C1: whatever the log, an approved effect is approved for exactly the manifest it carries:
  some accepted line approved the digest of that manifest, and no later accepted line
  revoked the effect or proposed another revision of it.
\<close>

theorem approval_provenance:
  assumes "bt_get (fold_records dig [] recs) i = Some it" and "e \<in> set (it_effects it)"
    and "ef_approval e \<noteq> None"
  shows "\<exists>pre r post. accepted (apply_op dig) [] recs = pre @ r # post
     \<and> or_op r = OpApproveEffect i (ef_effect_id e) (dig i (ef_effect_id e) (ef_manifest e))
     \<and> (\<forall>r' \<in> set post. or_op r' \<noteq> OpRevokeEffect i (ef_effect_id e)
          \<and> (\<forall>m. or_op r' \<noteq> OpProposeEffect i (ef_effect_id e) m))"
  using assms
proof (induction recs arbitrary: it e rule: rev_induct)
  case Nil
  then show ?case by (simp add: fold_records_def)
next
  case (snoc r recs)
  let ?m = "fold_records dig [] recs" and ?m' = "fold_records dig [] (recs @ [r])"
  note acc = agenda.accepted_snoc [of dig "[]" recs r]
  have ok: "ledger_ok dig ?m" "ledger_ok dig ?m'"
    by (intro fold_records_ok ledger_ok_empty)+
  consider (warned) "?m' = ?m" "snd (apply_op dig ?m r) \<noteq> None"
    | (ok) "apply_op dig ?m r = (?m', None)"
    using agenda.run_snoc_cases [of dig "[]" recs r] by blast
  then show ?case
  proof cases
    case warned
    with snoc.prems snoc.IH [of it e] acc show ?thesis by simp
  next
    case ok: ok
    have acc': "accepted (apply_op dig) [] (recs @ [r]) = accepted (apply_op dig) [] recs @ [r]"
      using acc ok by simp
    obtain it0 where it0: "bt_get ?m i = Some it0" "traced r i it0 e"
      using apply_op_traced [OF ok \<open>ledger_ok dig ?m\<close> snoc.prems(1,2)] by blast
    then obtain e0 where e0: "e0 \<in> set (it_effects it0)" "kept e0 e" "effect_step (or_op r) i e0 e"
      using snoc.prems(3) by (auto simp: traced_def)
    have dig: "ef_digest e = dig i (ef_effect_id e) (ef_manifest e)"
      using item_okD(8) [OF ledger_ok_get [OF \<open>ledger_ok dig ?m'\<close> snoc.prems(1)]] snoc.prems(2)
      by (simp add: effects_ok_def effect_ok_def)
    show ?thesis
    proof (cases "or_op r = OpApproveEffect i (ef_effect_id e) (ef_digest e)")
      case True
      then show ?thesis
        using acc' dig by (intro exI [of _ "accepted (apply_op dig) [] recs"] exI [of _ r]
            exI [of _ "[]"]) simp
    next
      case False
      with effect_step_approved [OF e0(3,2) snoc.prems(3)]
      have keep: "ef_approval e0 \<noteq> None" "or_op r \<noteq> OpRevokeEffect i (ef_effect_id e0)"
        "\<forall>m. or_op r \<noteq> OpProposeEffect i (ef_effect_id e0) m" by auto
      have same: "ef_effect_id e = ef_effect_id e0" "ef_manifest e = ef_manifest e0"
        using e0(2) by (simp_all add: kept_def)
      from snoc.IH [OF it0(1) e0(1) keep(1)] obtain pre q post where
        "accepted (apply_op dig) [] recs = pre @ q # post"
        "or_op q = OpApproveEffect i (ef_effect_id e) (dig i (ef_effect_id e) (ef_manifest e))"
        "\<forall>r' \<in> set post. or_op r' \<noteq> OpRevokeEffect i (ef_effect_id e)
          \<and> (\<forall>m. or_op r' \<noteq> OpProposeEffect i (ef_effect_id e) m)"
        unfolding same by blast
      then show ?thesis
        using acc' keep(2,3) same
        by (intro exI [of _ pre] exI [of _ q] exI [of _ "post @ [r]"]) auto
    qed
  qed
qed

lemma streak_drop: "streak_after st c n < n \<Longrightarrow> st = ''completed''"
  using sat_add_mono [of n 1] by (auto simp: streak_after_def split: if_splits option.splits
      attestation_outcome.splits)

lemma suspended_kept:
  assumes "kept e e'" "suspended e" "\<not> suspended e'"
  shows "ef_consecutive_failures e' < ef_consecutive_failures e"
  using assms by (auto simp: suspended_def kept_def split: option.splits)

text \<open>
  A suspended effect runs again only by the owner's hand or by a success: the one
  operation that can end its suspension is an approval, a fresh proposal, or the record of
  a completed occurrence of it.
\<close>

theorem suspension_release:
  assumes "items = fold_records dig [] recs" and "apply_op dig items rec = (items', None)"
    and "bt_get items i = Some it" and "e \<in> set (it_effects it)" and "suspended e"
    and "bt_get items' i = Some it'" and "e' \<in> set (it_effects it')"
    and "ef_effect_id e' = ef_effect_id e" and "\<not> suspended e'"
  shows "(\<exists>d. or_op rec = OpApproveEffect i (ef_effect_id e) d)
    \<or> (\<exists>m. or_op rec = OpProposeEffect i (ef_effect_id e) m)
    \<or> (\<exists>occ s n. or_op rec = OpRecordOccurrence i (ef_effect_id e) occ ''completed'' s n)"
proof -
  have ok: "ledger_ok dig items"
    unfolding assms(1) by (intro fold_records_ok ledger_ok_empty)
  obtain it0 where it0: "bt_get items i = Some it0" "traced rec i it0 e'"
    using apply_op_traced [OF assms(2) ok assms(6,7)] by blast
  then have "it0 = it" using assms(3) by simp
  show ?thesis
  proof (cases "\<exists>m. or_op rec = OpProposeEffect i (ef_effect_id e) m")
    case False
    then obtain e0 where e0: "e0 \<in> set (it_effects it)" "kept e0 e'" "effect_step (or_op rec) i e0 e'"
      using it0(2) \<open>it0 = it\<close> assms(8) by (auto simp: traced_def)
    have "inj_on ef_effect_id (set (it_effects it))"
      using item_okD(8) [OF ledger_ok_get [OF ok assms(3)]] by (simp add: effects_ok_def distinct_map)
    then have "e0 = e"
      using e0(1,2) assms(4,8) by (simp add: kept_def inj_on_eq_iff)
    then have "ef_consecutive_failures e' < ef_consecutive_failures e"
      using suspended_kept e0(2) assms(5,9) by blast
    then show ?thesis
      using e0(3) \<open>e0 = e\<close> by (cases "or_op rec") (auto split: if_splits dest: streak_drop)
  qed blast
qed

text \<open>
  C32: the state folded from any log is well formed: keys are sorted and each key holds the
  item of that id; status, completion time, reply and dismissal agree; links, references,
  blockers and pickup markers are not duplicated and never point back at the item; each
  effect carries the digest of its own manifest and an approval only of that digest, and at
  most eight requested runs.
\<close>

theorem agenda_fold_invariant:
  "bt_wf (fold_records dig [] recs)
   \<and> (\<forall>i it. bt_get (fold_records dig [] recs) i = Some it \<longrightarrow> item_ok dig i it)"
  using fold_records_ok [OF ledger_ok_empty, of dig recs] by (simp add: ledger_ok_def)

text \<open>
  Replay is tolerant and incremental: folding in two pieces is folding at once, the lines
  that warned can be dropped, and a line changes no item but the one it names.
\<close>

theorem replay_tolerant:
  "fold_records dig items (xs @ ys) = fold_records dig (fold_records dig items xs) ys
   \<and> fold_records dig items (accepted (apply_op dig) items xs) = fold_records dig items xs
   \<and> (snd (apply_op dig items rec) \<noteq> None \<longrightarrow> fst (apply_op dig items rec) = items)
   \<and> (j \<noteq> op_item_id (or_op rec) \<longrightarrow> bt_get (fst (apply_op dig items rec)) j = bt_get items j)"
proof (intro conjI impI)
  show "fold_records dig items (xs @ ys) = fold_records dig (fold_records dig items xs) ys"
    by (rule agenda.run_append)
  show "fold_records dig items (accepted (apply_op dig) items xs) = fold_records dig items xs"
    by (rule agenda.run_accepted)
  show "fst (apply_op dig items rec) = items" if "snd (apply_op dig items rec) \<noteq> None"
    using that apply_op_warn by (metis option.exhaust prod.collapse)
qed (rule apply_op_frame)

section \<open>A log at work\<close>

definition demo_manifest :: session_manifest where
  "demo_manifest = \<lparr> mf_goal = ''tidy'', mf_fire_at_ms = 10, mf_orchestrate = False,
     mf_interactive = False, mf_project_root = None, mf_agent_config = None,
     mf_recurrence = Some \<lparr> rc_every_ms = 900000, rc_until_ms = None, rc_max_occurrences = None,
        rc_suspend_after = Some 1 \<rparr>,
     mf_trigger = None, mf_binding_refs = [] \<rparr>"

definition demo_dig :: digester where
  "demo_dig i e m = i @ e @ mf_goal m"

definition rec_of :: "agenda_op \<Rightarrow> op_record" where
  "rec_of op = \<lparr> or_v = 1, or_at_ms = 5, or_actor = None, or_source = None, or_op = op \<rparr>"

definition demo_log :: "op_record list" where
  "demo_log = map rec_of
     [OpAdd ''a'' Task ''t'' [] [] None None, OpProposeEffect ''a'' ''e'' demo_manifest,
      OpApproveEffect ''a'' ''e'' ''aetidy'', OpComplete ''b'',
      OpRecordOccurrence ''a'' ''e'' ''o'' ''failed'' None None]"

lemmas demo_simps = demo_log_def rec_of_def fold_records_def apply_op.simps on_item_def fold_add_def
  fold_propose_effect_def fold_approve_effect_def fold_record_occurrence_def on_effect_def
  rec_actor_def default_actor_def touch_def Let_def streak_after_def demo_dig_def demo_manifest_def
  map_first_def sat_add_def suspended_def suspend_threshold_def

lemma demo_state:
  "\<exists>it e. bt_get (fold_records demo_dig [] demo_log) ''a'' = Some it \<and> it_effects it = [e]
     \<and> ef_effect_id e = ''e'' \<and> ef_manifest e = demo_manifest \<and> ef_approval e \<noteq> None
     \<and> suspended e"
  by (simp add: demo_simps)

theorem approval_provenance_witness:
  "\<exists>r \<in> set (accepted (apply_op demo_dig) [] demo_log).
     or_op r = OpApproveEffect ''a'' ''e'' (demo_dig ''a'' ''e'' demo_manifest)"
proof -
  obtain it e where d: "bt_get (fold_records demo_dig [] demo_log) ''a'' = Some it"
      "it_effects it = [e]" "ef_effect_id e = ''e''" "ef_manifest e = demo_manifest"
      "ef_approval e \<noteq> None"
    using demo_state by blast
  then have "e \<in> set (it_effects it)" by simp
  from approval_provenance [OF d(1) this d(5)] d(3,4) show ?thesis by auto
qed

theorem agenda_fold_invariant_witness:
  "\<exists>it. bt_get (fold_records demo_dig [] demo_log) ''a'' = Some it \<and> item_ok demo_dig ''a'' it"
  using demo_state agenda_fold_invariant [of demo_dig demo_log] by blast

theorem suspension_release_witness:
  "\<exists>items' it' e'. apply_op demo_dig (fold_records demo_dig [] demo_log)
        (rec_of (OpApproveEffect ''a'' ''e'' ''aetidy'')) = (items', None)
     \<and> bt_get items' ''a'' = Some it' \<and> e' \<in> set (it_effects it') \<and> \<not> suspended e'
     \<and> (\<exists>d. or_op (rec_of (OpApproveEffect ''a'' ''e'' ''aetidy'')) = OpApproveEffect ''a'' ''e'' d)"
proof -
  obtain it e where d: "bt_get (fold_records demo_dig [] demo_log) ''a'' = Some it"
      "it_effects it = [e]" "ef_effect_id e = ''e''" "suspended e"
    using demo_state by blast
  have "\<exists>items' it' e'. apply_op demo_dig (fold_records demo_dig [] demo_log)
        (rec_of (OpApproveEffect ''a'' ''e'' ''aetidy'')) = (items', None)
      \<and> bt_get items' ''a'' = Some it' \<and> it_effects it' = [e'] \<and> ef_effect_id e' = ''e''
      \<and> \<not> suspended e'"
    by (simp add: demo_simps)
  then obtain items' it' e' where n: "apply_op demo_dig (fold_records demo_dig [] demo_log)
        (rec_of (OpApproveEffect ''a'' ''e'' ''aetidy'')) = (items', None)"
      "bt_get items' ''a'' = Some it'" "it_effects it' = [e']" "ef_effect_id e' = ''e''"
      "\<not> suspended e'" by blast
  from suspension_release [OF refl n(1) d(1) _ d(4) n(2), of e'] d n
  have "\<exists>d. or_op (rec_of (OpApproveEffect ''a'' ''e'' ''aetidy'')) = OpApproveEffect ''a'' ''e'' d"
    by (auto simp: rec_of_def)
  with n show ?thesis by auto
qed

theorem replay_tolerant_witness:
  "snd (apply_op demo_dig [] (rec_of (OpComplete ''b''))) \<noteq> None
   \<and> fst (apply_op demo_dig [] (rec_of (OpComplete ''b''))) = []"
proof -
  have "snd (apply_op demo_dig [] (rec_of (OpComplete ''b''))) \<noteq> None"
    by (simp add: demo_simps)
  then show ?thesis using replay_tolerant by blast
qed

theorem answer_stays_awaiting_witness:
  "\<exists>items' it'. apply_op demo_dig
       (fold_records demo_dig [] [rec_of (OpAdd ''q'' Question ''t'' [] [] None None)])
       (rec_of (OpAnswer ''q'' ''yes'' None)) = (items', None)
     \<and> bt_get items' ''q'' = Some it' \<and> answer_awaiting_pickup it'"
proof -
  let ?m = "fold_records demo_dig [] [rec_of (OpAdd ''q'' Question ''t'' [] [] None None)]"
  have "\<exists>it items' it'. bt_get ?m ''q'' = Some it
      \<and> apply_op demo_dig ?m (rec_of (OpAnswer ''q'' ''yes'' None)) = (items', None)
      \<and> bt_get items' ''q'' = Some it'"
    by (simp add: demo_simps fold_answer_def)
  then obtain it items' it' where m: "bt_get ?m ''q'' = Some it"
      "apply_op demo_dig ?m (rec_of (OpAnswer ''q'' ''yes'' None)) = (items', None)"
      "bt_get items' ''q'' = Some it'" by blast
  from answer_stays_awaiting [OF m(2,1,3)] m show ?thesis by (auto simp: rec_of_def)
qed

end
