(* ===== verification/AgendaIntake.thy ===== *)
theory AgendaIntake
  imports AgendaFold
begin

text \<open>
  The intake of the agenda (\<open>src/src/bin/caller/agenda/store.rs\<close>, with the authorization of
  \<open>handle.rs\<close> and the fireability check of \<open>fireability.rs\<close>): a frontend's command is
  authorized, its id prefixes are resolved, it is validated against the folded items and
  turned into the operation the log records.

  The text of an error is shortened to a tag for its branch: the branches and their category
  are the code's, the interpolated values are not kept. The file system, SHA-256, the
  resolution of a project root and the launch-config check are the fields of \<open>intake_env\<close>.
\<close>

section \<open>Errors and commands\<close>

datatype agenda_error =
    NotFound string
  | Invalid string
  | Transition string
  | NotPermitted string string
  | SessionRequired string string
  | IoError

type_synonym 'a intake = "agenda_error + 'a"
type_synonym src = "string option"

record propose_spec =
  pp_goal :: string
  pp_fire_at_ms :: u64
  pp_orchestrate :: bool
  pp_interactive :: "bool option"
  pp_recurrence :: "recurrence_spec option"
  pp_agent_config :: "agent_launch_config option"
  pp_trigger :: "trigger_spec option"
  pp_project_root :: "string option"
  pp_binding_refs :: "binding_ref list"

record start_spec =
  sn_goal :: "string option"
  sn_project_root :: "string option"
  sn_interactive :: "bool option"
  sn_agent_config :: "agent_launch_config option"

text \<open>The commands, with their \<open>source\<close> label last; \<open>Ask\<close> and \<open>Stamp\<close> are not modelled.\<close>

datatype agenda_command =
    CmdAdd agenda_kind string string "string list" "u64 option" "ref_spec list" src
  | CmdPatch string agenda_patch src
  | CmdComplete string src
  | CmdReopen string src
  | CmdRetire string src
  | CmdAnswer string string "ask_resolution option" src
  | CmdAcknowledgeAnswer string src
  | CmdProposeEffect string propose_spec src
  | CmdRequestOccurrence string
  | CmdAnnotate string string src
  | CmdPickUp string src
  | CmdAttest string string attestation_outcome "string option" "binding_ref list" src
  | CmdSetBlocker string string src
  | CmdClearBlocker string string src
  | CmdAddReliesOn string string src
  | CmdRemoveReliesOn string string src
  | CmdAddPartOf string string src
  | CmdRemovePartOf string string src
  | CmdPlace string string src
  | CmdAddRelatesTo string string "string option" src
  | CmdRemoveRelatesTo string string src
  | CmdAddRef string ref_type string bool "string option" src
  | CmdRemoveRef string ref_type string src
  | CmdApproveEffect string string
  | CmdRevokeEffect string
  | CmdWithdrawEffect string "string option" src
  | CmdStartNow string start_spec

fun take_source :: "agenda_command \<Rightarrow> src" where
  "take_source (CmdAdd _ _ _ _ _ _ s) = s"
| "take_source (CmdPatch _ _ s) = s"
| "take_source (CmdComplete _ s) = s"
| "take_source (CmdReopen _ s) = s"
| "take_source (CmdRetire _ s) = s"
| "take_source (CmdAnswer _ _ _ s) = s"
| "take_source (CmdAcknowledgeAnswer _ s) = s"
| "take_source (CmdProposeEffect _ _ s) = s"
| "take_source (CmdRequestOccurrence _) = None"
| "take_source (CmdAnnotate _ _ s) = s"
| "take_source (CmdPickUp _ s) = s"
| "take_source (CmdAttest _ _ _ _ _ s) = s"
| "take_source (CmdSetBlocker _ _ s) = s"
| "take_source (CmdClearBlocker _ _ s) = s"
| "take_source (CmdAddReliesOn _ _ s) = s"
| "take_source (CmdRemoveReliesOn _ _ s) = s"
| "take_source (CmdAddPartOf _ _ s) = s"
| "take_source (CmdRemovePartOf _ _ s) = s"
| "take_source (CmdPlace _ _ s) = s"
| "take_source (CmdAddRelatesTo _ _ _ s) = s"
| "take_source (CmdRemoveRelatesTo _ _ s) = s"
| "take_source (CmdAddRef _ _ _ _ _ s) = s"
| "take_source (CmdRemoveRef _ _ _ s) = s"
| "take_source (CmdApproveEffect _ _) = None"
| "take_source (CmdRevokeEffect _) = None"
| "take_source (CmdWithdrawEffect _ _ s) = s"
| "take_source (CmdStartNow _ _) = None"

section \<open>The world the intake reads\<close>

record path_stat =
  ps_is_file :: bool
  ps_is_dir :: bool
  ps_len :: u64

record intake_env =
  ie_sha :: "string \<Rightarrow> string"
  ie_stat :: "string \<Rightarrow> path_stat option"
  ie_landed :: "string \<Rightarrow> string option"
  ie_digest_file :: "string \<Rightarrow> string option"
  ie_read_file :: "string \<Rightarrow> string option"
  ie_seal :: "string \<Rightarrow> string \<Rightarrow> bool"
  ie_verify_sealed :: "binding_ref \<Rightarrow> bool"
  ie_resolve_project :: "string option \<Rightarrow> string option \<Rightarrow> string + string"
  ie_default_agent :: "string option"
  ie_validate_launch :: "agent_launch_config \<Rightarrow> string + unit"
  ie_staleness_ms :: u64

definition is_absolute :: "string \<Rightarrow> bool" where
  "is_absolute p = starts_with p ''/''"

section \<open>Field validation\<close>

definition max_ref_label_chars :: nat where "max_ref_label_chars = 100"
definition max_ref_file_locator_chars :: nat where "max_ref_file_locator_chars = 1000"
definition max_ref_id_locator_chars :: nat where "max_ref_id_locator_chars = 200"
definition max_ref_url_locator_chars :: nat where "max_ref_url_locator_chars = 2000"
definition max_ref_file_hash_bytes :: u64 where "max_ref_file_hash_bytes = 67108864"

definition validate_title :: "string \<Rightarrow> string intake" where
  "validate_title title0 =
    (let title = trim title0 in
     if title = [] then Inl (Invalid ''title must not be empty'')
     else if max_title_chars < chars_count title then Inl (Invalid ''title too long'')
     else Inr title)"

definition validate_body :: "string \<Rightarrow> string intake" where
  "validate_body body =
    (if max_body_bytes < length body then Inl (Invalid ''body too long'') else Inr body)"

definition validate_answer :: "string \<Rightarrow> string intake" where
  "validate_answer text0 =
    (let txt = trim text0 in
     if txt = [] then Inl (Invalid ''answer must not be empty'')
     else if max_body_bytes < length txt then Inl (Invalid ''answer too long'')
     else Inr txt)"

fun collect_tags :: "string list \<Rightarrow> string list \<Rightarrow> string list intake" where
  "collect_tags out [] = Inr out"
| "collect_tags out (t # ts) =
    (let tag = trim t in
     if tag = [] then Inl (Invalid ''tags must not be empty'')
     else if max_tag_chars < chars_count tag then Inl (Invalid ''tag too long'')
     else collect_tags (if tag \<in> set out then out else out @ [tag]) ts)"

definition validate_tags :: "string list \<Rightarrow> string list intake" where
  "validate_tags tags = rbind (collect_tags [] tags) (\<lambda>out.
     if max_tags < length out then Inl (Invalid ''too many tags'') else Inr out)"

definition validate_source :: "string option \<Rightarrow> string option intake" where
  "validate_source s0 = (case s0 of
     None \<Rightarrow> Inr None
   | Some s \<Rightarrow> (let t = trim s in
       if t = [] then Inl (Invalid ''source label must not be empty'')
       else if max_source_chars < chars_count t then Inl (Invalid ''source label too long'')
       else Inr (Some t)))"

fun check_trigger_tags :: "string list \<Rightarrow> unit intake" where
  "check_trigger_tags [] = Inr ()"
| "check_trigger_tags (t # ts) =
    (if trim t = [] then Inl (Invalid ''on_item_match tags must not be empty'')
     else if max_tag_chars < chars_count t then Inl (Invalid ''on_item_match tag too long'')
     else check_trigger_tags ts)"

fun validate_trigger :: "trigger_spec \<Rightarrow> unit intake" where
  "validate_trigger OnUnblock = Inr ()"
| "validate_trigger (OnItemMatch k tags) =
    (if tags = [] then Inl (Invalid ''on_item_match requires at least one tag'')
     else if trigger_match_tags_max < length tags then Inl (Invalid ''on_item_match: too many tags'')
     else check_trigger_tags tags)"

section \<open>References\<close>

record validated_ref =
  vr_ref_type :: ref_type
  vr_locator :: string
  vr_digest :: "string option"
  vr_must_read :: bool
  vr_label :: "string option"

definition validate_ref_label :: "string option \<Rightarrow> string option intake" where
  "validate_ref_label l0 = (case l0 of
     None \<Rightarrow> Inr None
   | Some l \<Rightarrow> (let t = trim l in
       if t = [] then Inl (Invalid ''ref label must not be empty'')
       else if max_ref_label_chars < chars_count t then Inl (Invalid ''ref label too long'')
       else Inr (Some t)))"

definition slashless :: "string \<Rightarrow> string" where
  "slashless s = (let t = rev (dropWhile (\<lambda>c. c = CHR ''/'') (rev s)) in if t = [] then ''/'' else t)"

definition landing :: "intake_env \<Rightarrow> (path_stat \<Rightarrow> bool) \<Rightarrow> string \<Rightarrow> string" where
  "landing w ok p = (case ie_landed w p of
     None \<Rightarrow> p
   | Some q \<Rightarrow> (case ie_stat w q of Some st \<Rightarrow> if ok st then q else p | None \<Rightarrow> p))"

text \<open>The locator as stored, and the digest a file reference is attached with.\<close>

definition resolve_locator ::
    "intake_env \<Rightarrow> ref_type \<Rightarrow> string \<Rightarrow> (string \<times> string option) intake" where
  "resolve_locator w rt loc = (case rt of
     FileRef \<Rightarrow>
       if max_ref_file_locator_chars < chars_count loc then Inl (Invalid ''file ref path too long'')
       else if \<not> is_absolute loc then Inl (Invalid ''file ref path must be absolute'')
       else let p = landing w ps_is_file loc in (case ie_stat w p of
           None \<Rightarrow> Inl (Invalid ''file ref not readable'')
         | Some st \<Rightarrow>
             if \<not> ps_is_file st then Inl (Invalid ''file ref is not a regular file'')
             else if max_ref_file_hash_bytes < ps_len st then Inl (Invalid ''file ref too large'')
             else (case ie_digest_file w p of
                 None \<Rightarrow> Inl (Invalid ''cannot digest file ref'')
               | Some d \<Rightarrow> Inr (p, Some d)))
   | DirRef \<Rightarrow>
       if max_ref_file_locator_chars < chars_count loc then Inl (Invalid ''dir ref path too long'')
       else if \<not> is_absolute loc then Inl (Invalid ''dir ref path must be absolute'')
       else let p = landing w ps_is_dir loc in (case ie_stat w p of
           None \<Rightarrow> Inl (Invalid ''dir ref not readable'')
         | Some st \<Rightarrow> if \<not> ps_is_dir st then Inl (Invalid ''dir ref is not a directory'')
                     else Inr (p, None))
   | MemoryRef \<Rightarrow>
       if max_ref_id_locator_chars < chars_count loc then Inl (Invalid ''memory ref locator too long'')
       else Inr (loc, None)
   | SessionRef \<Rightarrow>
       if max_ref_id_locator_chars < chars_count loc then Inl (Invalid ''session ref locator too long'')
       else Inr (loc, None)
   | UrlRef \<Rightarrow>
       if max_ref_url_locator_chars < chars_count loc then Inl (Invalid ''url ref too long'')
       else if \<not> starts_with loc ''http://'' \<and> \<not> starts_with loc ''https://''
       then Inl (Invalid ''url ref must start with http:// or https://'')
       else Inr (loc, None))"

definition validate_ref ::
    "intake_env \<Rightarrow> ref_type \<Rightarrow> string \<Rightarrow> bool \<Rightarrow> string option \<Rightarrow> validated_ref intake" where
  "validate_ref w rt locator0 must_read label0 =
    (let loc0 = trim locator0 in
     if loc0 = [] then Inl (Invalid ''ref locator must not be empty'')
     else let loc = (if rt = DirRef then slashless loc0 else loc0) in
       rbind (validate_ref_label label0) (\<lambda>label.
       rbind (resolve_locator w rt loc) (\<lambda>(loc', digest).
         Inr \<lparr> vr_ref_type = rt, vr_locator = loc', vr_digest = digest,
               vr_must_read = must_read, vr_label = label \<rparr>)))"

fun collect_refs ::
    "intake_env \<Rightarrow> validated_ref list \<Rightarrow> ref_spec list \<Rightarrow> validated_ref list intake" where
  "collect_refs w out [] = Inr out"
| "collect_refs w out (s # ss) =
     rbind (validate_ref w (sp_ref_type s) (sp_locator s) (sp_must_read s) (sp_label s)) (\<lambda>v.
       if list_ex (\<lambda>u. vr_ref_type u = vr_ref_type v \<and> vr_locator u = vr_locator v) out
       then Inl (Invalid ''duplicate ref in one park'')
       else collect_refs w (out @ [v]) ss)"

definition validate_park_refs :: "intake_env \<Rightarrow> ref_spec list \<Rightarrow> validated_ref list intake" where
  "validate_park_refs w refs =
    (if max_refs_per_item < length refs then Inl (Invalid ''too many refs'') else collect_refs w [] refs)"

section \<open>Pinned references\<close>

definition binding_ref_path :: "string \<Rightarrow> string intake" where
  "binding_ref_path locator =
    (if \<not> starts_with locator ''file:'' then Inl (Invalid ''binding ref must use the file: scheme'')
     else if max_ref_file_locator_chars < chars_count locator
     then Inl (Invalid ''binding ref path too long'')
     else if \<not> is_absolute (drop 5 locator)
     then Inl (Invalid ''binding ref must carry an absolute path'')
     else Inr (drop 5 locator))"

definition is_hexdigit :: "char \<Rightarrow> bool" where
  "is_hexdigit c = (c \<in> set ''0123456789abcdefABCDEF'')"

text \<open>The pin, lower-cased, checked against the daemon's own read; with the bytes it read.\<close>

definition verify_stated_ref :: "intake_env \<Rightarrow> binding_ref \<Rightarrow> (binding_ref \<times> string) intake" where
  "verify_stated_ref w r =
     rbind (binding_ref_path (br_locator r)) (\<lambda>path.
       (let sha = to_ascii_lowercase (br_sha256 r) in
        if length sha \<noteq> 64 \<or> \<not> list_all is_hexdigit sha
        then Inl (Invalid ''sha256 must be 64 hex characters'')
        else (case ie_stat w path of
            None \<Rightarrow> Inl (Invalid ''pinned ref not readable'')
          | Some st \<Rightarrow>
              if \<not> ps_is_file st then Inl (Invalid ''pinned ref is not a regular file'')
              else if max_ref_file_hash_bytes < ps_len st then Inl (Invalid ''pinned ref too large'')
              else (case ie_read_file w path of
                  None \<Rightarrow> Inl (Invalid ''cannot read pinned ref'')
                | Some bytes \<Rightarrow>
                    if hex_string (ie_sha w bytes) \<noteq> sha
                    then Inl (Invalid ''stated pin does not match the live content'')
                    else Inr (\<lparr> br_locator = br_locator r, br_sha256 = sha \<rparr>, bytes)))))"

fun collect_binding_refs ::
    "intake_env \<Rightarrow> binding_ref list \<Rightarrow> binding_ref list \<Rightarrow> binding_ref list \<Rightarrow> binding_ref list intake" where
  "collect_binding_refs w carried out [] = Inr out"
| "collect_binding_refs w carried out (r # rs) =
    (if list_ex (\<lambda>s. br_locator s = br_locator r) out
     then Inl (Invalid ''binding ref is listed twice'')
     else let norm = \<lparr> br_locator = br_locator r, br_sha256 = to_ascii_lowercase (br_sha256 r) \<rparr> in
       if list_ex (\<lambda>p. br_locator p = br_locator norm \<and> br_sha256 p = br_sha256 norm) carried
       then (if ie_verify_sealed w norm then collect_binding_refs w carried (out @ [norm]) rs
             else Inl (Invalid ''sealed snapshot does not verify''))
       else rbind (verify_stated_ref w r) (\<lambda>(v, bytes).
         if ie_seal w (br_sha256 v) bytes then collect_binding_refs w carried (out @ [v]) rs
         else Inl IoError))"

definition validate_binding_refs ::
    "intake_env \<Rightarrow> binding_ref list \<Rightarrow> binding_ref list \<Rightarrow> binding_ref list intake" where
  "validate_binding_refs w refs carried =
    (if max_binding_refs_per_manifest < length refs then Inl (Invalid ''too many binding refs'')
     else collect_binding_refs w carried [] refs)"

fun collect_attestation_refs ::
    "intake_env \<Rightarrow> binding_ref list \<Rightarrow> binding_ref list \<Rightarrow> binding_ref list intake" where
  "collect_attestation_refs w out [] = Inr out"
| "collect_attestation_refs w out (r # rs) =
    (if list_ex (\<lambda>s. br_locator s = br_locator r) out
     then Inl (Invalid ''attestation ref is listed twice'')
     else rbind (verify_stated_ref w r) (\<lambda>(v, _). collect_attestation_refs w (out @ [v]) rs))"

definition validate_attestation_refs ::
    "intake_env \<Rightarrow> binding_ref list \<Rightarrow> binding_ref list intake" where
  "validate_attestation_refs w refs =
    (if max_attestation_refs < length refs then Inl (Invalid ''too many attestation refs'')
     else collect_attestation_refs w [] refs)"

section \<open>Minted names\<close>

definition mint_blocker_id :: "(string \<Rightarrow> string) \<Rightarrow> string \<Rightarrow> string \<Rightarrow> u64 \<Rightarrow> string" where
  "mint_blocker_id sha item_id criterion at_ms =
     ''bk-'' @ hex_string (take 6 (sha (''agenda-blocker'' @ [CHR 0x00] @ item_id @ [CHR 0x00]
        @ criterion @ [CHR 0x00] @ dec_string (unat at_ms))))"

definition occurrence_id :: "(string \<Rightarrow> string) \<Rightarrow> string \<Rightarrow> u64 \<Rightarrow> string" where
  "occurrence_id sha item_id due_ms =
     hex_string (take 16 (sha (''reminder'' @ [CHR 0x00] @ item_id @ [CHR 0x00]
        @ dec_string (unat due_ms))))"

definition session_effect_id :: "(string \<Rightarrow> string) \<Rightarrow> agenda_item \<Rightarrow> string \<Rightarrow> u64 \<Rightarrow> string" where
  "session_effect_id sha it i at_ms = (case it_effects it of
     e # _ \<Rightarrow> ef_effect_id e
   | [] \<Rightarrow> ''ef-'' @ take 12 (occurrence_id sha i at_ms))"

end
