(* ===== verification/Fireability.thy ===== *)
theory Fireability
  imports AgendaIntake
begin

text \<open>
  The fireability check (\<open>src/src/bin/caller/agenda/fireability.rs\<close>): whether a manifest, as
  it stands, could ever fire. The project chain and the launch-config rules are fields of
  \<open>intake_env\<close>; the executor and the floor legs are modelled. A refusal keeps the field it names.
\<close>

datatype fireability_field = ProjectField | ExecutorField | FloorField

fun field_str :: "fireability_field \<Rightarrow> string" where
  "field_str ProjectField = ''project''"
| "field_str ExecutorField = ''executor''"
| "field_str FloorField = ''floor''"

record refusal =
  rf_field :: fireability_field
  rf_reason :: string

definition refusal_message :: "refusal \<Rightarrow> string" where
  "refusal_message r = ''unfireable('' @ field_str (rf_field r) @ ''): '' @ rf_reason r"

definition refusal_view :: "refusal \<Rightarrow> fireability_refusal" where
  "refusal_view r = \<lparr> fr_field = field_str (rf_field r), fr_reason = rf_reason r \<rparr>"

record candidate =
  fc_fire_at_ms :: u64
  fc_recurrence :: "recurrence_spec option"
  fc_trigger :: "trigger_spec option"
  fc_project_root :: "string option"
  fc_agent_config :: "agent_launch_config option"

definition of_manifest :: "session_manifest \<Rightarrow> candidate" where
  "of_manifest m = \<lparr> fc_fire_at_ms = mf_fire_at_ms m, fc_recurrence = mf_recurrence m,
     fc_trigger = mf_trigger m, fc_project_root = mf_project_root m,
     fc_agent_config = mf_agent_config m \<rparr>"

record resolution =
  rl_project_root :: string
  rl_agent :: string

section \<open>The executor leg\<close>

definition default_launch_config :: agent_launch_config where
  "default_launch_config = \<lparr> lc_agent = None, lc_agent_command = None, lc_claude_model = None,
     lc_claude_permission_mode = None, lc_claude_effort = None, lc_claude_auth_mode = None,
     lc_kimi_model = None, lc_kimi_thinking = None, lc_kimi_permission_mode = None,
     lc_kimi_allowed_tools = None, lc_kimi_plan_mode = None, lc_kimi_swarm_mode = None,
     lc_pi_model = None, lc_pi_thinking = None, lc_pi_allowed_tools = None, lc_codex_model = None,
     lc_codex_reasoning_effort = None, lc_codex_sandbox = None, lc_codex_approval_policy = None,
     lc_codex_managed_context = None, lc_codex_context_archive = None,
     lc_codex_service_tier = None, lc_dial = None \<rparr>"

text \<open>A trimmed, non-empty selection.\<close>

definition explicit_choice :: "string option \<Rightarrow> string option" where
  "explicit_choice x = Option.bind x (\<lambda>s. if trim s = [] then None else Some (trim s))"

definition validate_executor ::
    "intake_env \<Rightarrow> agent_launch_config option \<Rightarrow> refusal + string" where
  "validate_executor w config =
    (let explicit = explicit_choice (Option.bind config lc_agent);
         agent = (case explicit of Some a \<Rightarrow> a | None \<Rightarrow>
            (case ie_default_agent w of Some a \<Rightarrow> a | None \<Rightarrow> ''internal''));
         base = (case config of Some c \<Rightarrow> c | None \<Rightarrow> default_launch_config)
     in case ie_validate_launch w (base\<lparr>lc_agent := Some agent\<rparr>) of
          Inl reason \<Rightarrow> Inl \<lparr> rf_field = ExecutorField, rf_reason = reason \<rparr>
        | Inr _ \<Rightarrow> Inr agent)"

section \<open>The floor leg\<close>

definition by_max :: "u64 \<Rightarrow> recurrence_spec \<Rightarrow> u32 \<Rightarrow> u64" where
  "by_max fire rc m = sat_add fire (sat_mul (ucast (sat_sub m 1)) (rc_every_ms rc))"

definition by_until :: "u64 \<Rightarrow> recurrence_spec \<Rightarrow> u64 \<Rightarrow> u64" where
  "by_until fire rc u =
    (if u \<le> fire \<or> rc_every_ms rc = 0 then fire
     else sat_add fire ((u - fire) div rc_every_ms rc * rc_every_ms rc))"

definition last_series_instant :: "u64 \<Rightarrow> recurrence_spec \<Rightarrow> u64 option" where
  "last_series_instant fire rc =
    (case (map_option (by_max fire rc) (rc_max_occurrences rc),
           map_option (by_until fire rc) (rc_until_ms rc)) of
       (Some a, Some b) \<Rightarrow> Some (min a b)
     | (Some a, None) \<Rightarrow> Some a
     | (None, Some b) \<Rightarrow> Some b
     | (None, None) \<Rightarrow> None)"

definition validate_floor :: "candidate \<Rightarrow> u64 \<Rightarrow> u64 \<Rightarrow> refusal + unit" where
  "validate_floor c staleness now =
    (if fc_fire_at_ms c = 0
     then Inl \<lparr> rf_field = FloorField, rf_reason = ''fire_at_ms must be set'' \<rparr>
     else if fc_trigger c \<noteq> None then Inr ()
     else let window = sat_sub now staleness in
       (case fc_recurrence c of
          None \<Rightarrow> if fc_fire_at_ms c < window
            then Inl \<lparr> rf_field = FloorField, rf_reason = ''the fire window already passed'' \<rparr>
            else Inr ()
        | Some rc \<Rightarrow> (case last_series_instant (fc_fire_at_ms c) rc of
              Some l \<Rightarrow> if l < window
                then Inl \<lparr> rf_field = FloorField, rf_reason = ''the series is already spent'' \<rparr>
                else Inr ()
            | None \<Rightarrow> Inr ())))"

definition fireable ::
    "intake_env \<Rightarrow> candidate \<Rightarrow> string option \<Rightarrow> u64 \<Rightarrow> refusal + resolution" where
  "fireable w c session now =
    (case ie_resolve_project w (fc_project_root c) session of
       Inl reason \<Rightarrow> Inl \<lparr> rf_field = ProjectField, rf_reason = reason \<rparr>
     | Inr root \<Rightarrow>
         rbind (validate_executor w (fc_agent_config c)) (\<lambda>agent.
         rbind (validate_floor c (ie_staleness_ms w) now) (\<lambda>_.
           Inr \<lparr> rl_project_root = root, rl_agent = agent \<rparr>)))"

section \<open>The floor is exact\<close>

text \<open>The instants a bounded series can fire at, over the naturals.\<close>

definition series_index :: "u64 \<Rightarrow> recurrence_spec \<Rightarrow> nat \<Rightarrow> bool" where
  "series_index fire rc k =
    ((case rc_max_occurrences rc of None \<Rightarrow> True | Some m \<Rightarrow> k \<le> unat m - 1)
     \<and> (case rc_until_ms rc of None \<Rightarrow> True
        | Some u \<Rightarrow> k = 0 \<or> unat fire + k * unat (rc_every_ms rc) \<le> unat u))"

definition series_instant :: "u64 \<Rightarrow> recurrence_spec \<Rightarrow> nat \<Rightarrow> nat" where
  "series_instant fire rc k = unat fire + k * unat (rc_every_ms rc)"

lemma series_instant_mono: "j \<le> k \<Longrightarrow> series_instant fire rc j \<le> series_instant fire rc k"
  by (simp add: series_instant_def)

lemma by_max_nat:
  "unat (by_max fire rc m) = min (series_instant fire rc (unat m - 1)) (2 ^ 64 - 1)"
proof -
  have "unat (ucast x :: u64) = unat x" for x :: u32
    by transfer simp
  then have "unat (ucast (sat_sub m 1) :: u64) = unat (sat_sub m 1)" .
  then have "unat (ucast (sat_sub m 1) :: u64) = unat m - 1"
    by (simp add: unat_sat_sub)
  then show ?thesis
    by (auto simp: by_max_def unat_sat_add unat_sat_mul series_instant_def)
qed

lemma by_until_nat:
  assumes "fire < u" "rc_every_ms rc \<noteq> 0"
  shows "unat (by_until fire rc u)
    = series_instant fire rc ((unat u - unat fire) div unat (rc_every_ms rc))"
proof -
  let ?e = "rc_every_ms rc"
  have d: "unat (u - fire) = unat u - unat fire"
    using assms(1) by (simp add: unat_sub)
  have le: "(unat u - unat fire) div unat ?e * unat ?e \<le> unat u - unat fire"
    by simp
  have u: "unat u < 2 ^ 64" using unsigned_less [of u] by simp
  have m: "unat ((u - fire) div ?e * ?e) = (unat u - unat fire) div unat ?e * unat ?e"
    using order_le_less_trans [OF le] u
    by (subst unat_mult_lem [THEN iffD1]) (simp_all add: unat_div d)
  have "unat fire + (unat u - unat fire) div unat ?e * unat ?e \<le> 2 ^ 64 - 1"
    using le u assms(1) unfolding word_less_nat_alt by linarith
  then show ?thesis
    using assms m by (auto simp: by_until_def unat_sat_add series_instant_def)
qed

lemma last_in_series:
  assumes "last_series_instant fire rc = Some l" "rc_every_ms rc \<noteq> 0"
  obtains k where "series_index fire rc k" "unat l = min (series_instant fire rc k) (2 ^ 64 - 1)"
    "\<forall>j. series_index fire rc j \<longrightarrow> j \<le> k"
proof -
  let ?e = "unat (rc_every_ms rc)"
  have e: "0 < ?e" using assms(2) by (simp add: unat_gt_0)
  let ?q = "\<lambda>u. if u \<le> fire then 0 else (unat u - unat fire) div ?e"
  have until: "unat (by_until fire rc u) = series_instant fire rc (?q u)" for u
    using by_until_nat [of fire u rc] assms(2) by (auto simp: by_until_def series_instant_def)
  have small: "series_instant fire rc (?q u) \<le> 2 ^ 64 - 1" for u
    using until [of u] unat_le_max [of "by_until fire rc u"] by simp
  have idx: "k = 0 \<or> series_instant fire rc k \<le> unat u \<longleftrightarrow> k \<le> ?q u" for k u
  proof (cases "u \<le> fire")
    case True
    then have "unat u \<le> unat fire" by (simp add: word_le_nat_alt)
    then have "series_instant fire rc k \<le> unat u \<Longrightarrow> k = 0"
      using e by (cases k) (auto simp: series_instant_def)
    with True show ?thesis by auto
  next
    case False
    then have lt: "unat fire < unat u" by (simp add: word_le_nat_alt)
    then have "unat fire + k * ?e \<le> unat u \<longleftrightarrow> k * ?e \<le> unat u - unat fire" by linarith
    then show ?thesis using False lt e
      by (auto simp: series_instant_def less_eq_div_iff_mult_less_eq)
  qed
  have index: "series_index fire rc k \<longleftrightarrow>
      (case rc_max_occurrences rc of None \<Rightarrow> True | Some m \<Rightarrow> k \<le> unat m - 1)
      \<and> (case rc_until_ms rc of None \<Rightarrow> True | Some u \<Rightarrow> k \<le> ?q u)" for k
    using idx by (auto simp: series_index_def series_instant_def split: option.split)
  have mono: "min (series_instant fire rc j) (series_instant fire rc k)
      = series_instant fire rc (min j k)" for j k
    using series_instant_mono [of j k fire rc] series_instant_mono [of k j fire rc]
    by (cases "j \<le> k") (simp_all add: min_absorb1 min_absorb2)
  consider (max) m where "rc_max_occurrences rc = Some m" "rc_until_ms rc = None"
    | (until) u where "rc_max_occurrences rc = None" "rc_until_ms rc = Some u"
    | (both) m u where "rc_max_occurrences rc = Some m" "rc_until_ms rc = Some u"
    using assms(1) by (cases "rc_max_occurrences rc"; cases "rc_until_ms rc")
      (auto simp: last_series_instant_def)
  then show ?thesis
  proof cases
    case (max m)
    then have "unat l = min (series_instant fire rc (unat m - 1)) (2 ^ 64 - 1)"
      using assms(1) by_max_nat [of fire rc m] by (auto simp: last_series_instant_def)
    then show ?thesis using max by (intro that [of "unat m - 1"]) (simp_all add: index)
  next
    case (until u)
    then have "unat l = series_instant fire rc (?q u)"
      using assms(1) \<open>\<And>u. unat (by_until fire rc u) = _ u\<close>
      by (auto simp: last_series_instant_def)
    then show ?thesis using until small [of u]
      by (intro that [of "?q u"]) (simp_all add: index)
  next
    case (both m u)
    then have "unat l = min (unat (by_max fire rc m)) (unat (by_until fire rc u))"
      using assms(1) by (auto simp: last_series_instant_def min_def word_le_nat_alt)
    then have "unat l = min (series_instant fire rc (min (unat m - 1) (?q u))) (2 ^ 64 - 1)"
      using mono [of "unat m - 1" "?q u"] small [of u] until [of u] by_max_nat [of fire rc m]
      by (metis min.assoc min.commute min_absorb1)
    then show ?thesis using both
      by (intro that [of "min (unat m - 1) (?q u)"]) (simp_all add: index)
  qed
qed

text \<open>
  For a manifest with no trigger the floor leg accepts exactly when the manifest still
  has an instant that is not missed: its one instant, or some instant of its series within
  the run cap and the end date. Saturation never changes the verdict.
\<close>

theorem floor_is_exact:
  assumes "fc_fire_at_ms c \<noteq> 0" "fc_trigger c = None"
    and "\<forall>rc. fc_recurrence c = Some rc \<longrightarrow> rc_every_ms rc \<noteq> 0"
  shows "validate_floor c staleness now = Inr () \<longleftrightarrow>
    (case fc_recurrence c of
       None \<Rightarrow> unat now - unat staleness \<le> unat (fc_fire_at_ms c)
     | Some rc \<Rightarrow> \<exists>k. series_index (fc_fire_at_ms c) rc k
         \<and> unat now - unat staleness \<le> series_instant (fc_fire_at_ms c) rc k)"
proof (cases "fc_recurrence c")
  case None
  then show ?thesis
    using assms by (auto simp: validate_floor_def Let_def word_less_nat_alt unat_sat_sub)
next
  case (Some rc)
  let ?fire = "fc_fire_at_ms c" and ?w = "sat_sub now staleness"
  have e: "rc_every_ms rc \<noteq> 0" using assms(3) Some by blast
  have w: "unat ?w = unat now - unat staleness" by (rule unat_sat_sub)
  have verdict: "validate_floor c staleness now = Inr () \<longleftrightarrow>
      (case last_series_instant ?fire rc of None \<Rightarrow> True | Some l \<Rightarrow> unat ?w \<le> unat l)"
    using assms(1,2) Some
    by (auto simp: validate_floor_def Let_def word_less_nat_alt split: option.split)
  show ?thesis
  proof (cases "last_series_instant ?fire rc")
    case None
    then have "series_index ?fire rc (unat ?w)"
      by (auto simp: last_series_instant_def series_index_def split: option.splits)
    moreover have "unat ?w \<le> series_instant ?fire rc (unat ?w)"
      using e by (simp add: series_instant_def unat_gt_0 trans_le_add2 leI)
    ultimately show ?thesis using verdict None Some w by auto
  next
    case last: (Some l)
    from last_in_series [OF last e] obtain k where k: "series_index ?fire rc k"
      "unat l = min (series_instant ?fire rc k) (2 ^ 64 - 1)"
      "\<forall>j. series_index ?fire rc j \<longrightarrow> j \<le> k" by blast
    have "unat ?w \<le> 2 ^ 64 - 1" using unat_le_max [of ?w] by simp
    then have "unat ?w \<le> unat l \<longleftrightarrow> unat ?w \<le> series_instant ?fire rc k"
      by (simp add: k(2))
    also have "\<dots> \<longleftrightarrow> (\<exists>j. series_index ?fire rc j \<and> unat ?w \<le> series_instant ?fire rc j)"
      using k(1,3) series_instant_mono order_trans by blast
    finally show ?thesis using verdict last Some w by simp
  qed
qed

definition demo_candidate :: candidate where
  "demo_candidate = \<lparr> fc_fire_at_ms = 10,
     fc_recurrence = Some \<lparr> rc_every_ms = 5, rc_until_ms = Some 30,
        rc_max_occurrences = Some 3, rc_suspend_after = None \<rparr>,
     fc_trigger = None, fc_project_root = None, fc_agent_config = None \<rparr>"

theorem floor_is_exact_witness:
  "validate_floor demo_candidate 3 23 = Inr () \<and> validate_floor demo_candidate 3 24 \<noteq> Inr ()"
proof -
  have idx: "series_index 10 (the (fc_recurrence demo_candidate)) k \<longleftrightarrow> k \<le> 2" for k
    by (auto simp: series_index_def demo_candidate_def)
  have inst: "series_instant 10 (the (fc_recurrence demo_candidate)) k = 10 + 5 * k" for k
    by (simp add: series_instant_def demo_candidate_def)
  have "validate_floor demo_candidate s n = Inr ()
      \<longleftrightarrow> (\<exists>k \<le> 2. unat n - unat s \<le> 10 + 5 * k)" for s n
    using floor_is_exact [of demo_candidate s n] idx inst by (simp add: demo_candidate_def) 
  then show ?thesis by (auto intro: exI [of _ 2])
qed

end
