(* ===== verification/AgendaCommands.thy ===== *)
theory AgendaCommands
  imports Fireability
begin

text \<open>
  From a command to the operation it becomes (\<open>store.rs\<close>): the resolution of id prefixes, the
  placement rails, and \<open>command_to_op\<close>, arm by arm; with the actor gate of \<open>handle.rs\<close>. The
  commands with an arm of their own in \<open>apply_command\<close> are in \<open>AgendaStore\<close>.
\<close>

section \<open>The actor gate\<close>

definition owner_surface :: "agenda_actor option \<Rightarrow> bool" where
  "owner_surface a = (Option.bind a at_kind \<in> {Some ''dashboard'', Some ''local_process''})"

definition attributed_session :: "agenda_actor option \<Rightarrow> bool" where
  "attributed_session a = (case a of None \<Rightarrow> False | Some x \<Rightarrow>
     at_kind x = Some ''agent_session''
     \<and> (case at_session_id x of None \<Rightarrow> False | Some i \<Rightarrow> trim i \<noteq> []))"

definition actor_label :: "agenda_actor option \<Rightarrow> string" where
  "actor_label a = (case Option.bind a at_kind of None \<Rightarrow> ''unattributed'' | Some k \<Rightarrow> k)"

definition owner_verb :: "agenda_command \<Rightarrow> string option" where
  "owner_verb c = (case c of
     CmdApproveEffect _ _ \<Rightarrow> Some ''approve_effect''
   | CmdRevokeEffect _ \<Rightarrow> Some ''revoke_effect''
   | CmdStartNow _ _ \<Rightarrow> Some ''start_now''
   | CmdRequestOccurrence _ \<Rightarrow> Some ''request_occurrence''
   | _ \<Rightarrow> None)"

definition is_pick_up :: "agenda_command \<Rightarrow> bool" where
  "is_pick_up c = (case c of CmdPickUp _ _ \<Rightarrow> True | _ \<Rightarrow> False)"

definition authorize_command :: "agenda_command \<Rightarrow> agenda_actor option \<Rightarrow> unit intake" where
  "authorize_command c a =
    (if is_pick_up c
     then (if attributed_session a then Inr () else Inl (SessionRequired ''pick_up'' (actor_label a)))
     else case owner_verb c of
       None \<Rightarrow> Inr ()
     | Some verb \<Rightarrow> if owner_surface a then Inr () else Inl (NotPermitted verb (actor_label a)))"

section \<open>Resolving ids\<close>

definition require :: "items \<Rightarrow> string \<Rightarrow> agenda_item intake" where
  "require items i = (case bt_get items i of None \<Rightarrow> Inl (NotFound i) | Some it \<Rightarrow> Inr it)"

definition resolve_write_id :: "items \<Rightarrow> string \<Rightarrow> string intake" where
  "resolve_write_id items needle =
    (if bt_get items needle \<noteq> None then Inr needle
     else if needle = [] then Inl (NotFound needle)
     else case filter (\<lambda>k. starts_with k needle) (map fst items) of
       [only] \<Rightarrow> Inr only
     | _ # _ # _ \<Rightarrow> Inl (Invalid ''id prefix is ambiguous'')
     | [] \<Rightarrow> Inl (NotFound needle))"

text \<open>The set of stored targets and live keys a removal prefix matches, without repetition.\<close>

definition removal_matches :: "items \<Rightarrow> string list \<Rightarrow> string \<Rightarrow> string list" where
  "removal_matches items stored needle =
     remdups (filter (\<lambda>k. starts_with k needle) (stored @ map fst items))"

definition resolve_removal_target :: "items \<Rightarrow> string list \<Rightarrow> string \<Rightarrow> string intake" where
  "resolve_removal_target items stored needle =
    (if needle \<in> set stored \<or> bt_get items needle \<noteq> None then Inr needle
     else if needle = [] then Inr needle
     else case removal_matches items stored needle of
       [] \<Rightarrow> Inr needle
     | [only] \<Rightarrow> Inr only
     | _ \<Rightarrow> Inl (Invalid ''target prefix is ambiguous''))"

fun resolve_command_ids :: "items \<Rightarrow> agenda_command \<Rightarrow> agenda_command intake" where
  "resolve_command_ids m (CmdAdd k t b ts d rs s) = Inr (CmdAdd k t b ts d rs s)"
| "resolve_command_ids m (CmdPatch i p s) = rbind (resolve_write_id m i) (\<lambda>j. Inr (CmdPatch j p s))"
| "resolve_command_ids m (CmdComplete i s) = rbind (resolve_write_id m i) (\<lambda>j. Inr (CmdComplete j s))"
| "resolve_command_ids m (CmdReopen i s) = rbind (resolve_write_id m i) (\<lambda>j. Inr (CmdReopen j s))"
| "resolve_command_ids m (CmdRetire i s) = rbind (resolve_write_id m i) (\<lambda>j. Inr (CmdRetire j s))"
| "resolve_command_ids m (CmdAnswer i t st s) =
     rbind (resolve_write_id m i) (\<lambda>j. Inr (CmdAnswer j t st s))"
| "resolve_command_ids m (CmdAcknowledgeAnswer i s) =
     rbind (resolve_write_id m i) (\<lambda>j. Inr (CmdAcknowledgeAnswer j s))"
| "resolve_command_ids m (CmdProposeEffect i p s) =
     rbind (resolve_write_id m i) (\<lambda>j. Inr (CmdProposeEffect j p s))"
| "resolve_command_ids m (CmdRequestOccurrence i) =
     rbind (resolve_write_id m i) (\<lambda>j. Inr (CmdRequestOccurrence j))"
| "resolve_command_ids m (CmdAnnotate i t s) =
     rbind (resolve_write_id m i) (\<lambda>j. Inr (CmdAnnotate j t s))"
| "resolve_command_ids m (CmdPickUp i s) = rbind (resolve_write_id m i) (\<lambda>j. Inr (CmdPickUp j s))"
| "resolve_command_ids m (CmdAttest i occ out n rs s) =
     rbind (resolve_write_id m i) (\<lambda>j. Inr (CmdAttest j occ out n rs s))"
| "resolve_command_ids m (CmdSetBlocker i c s) =
     rbind (resolve_write_id m i) (\<lambda>j. Inr (CmdSetBlocker j c s))"
| "resolve_command_ids m (CmdClearBlocker i b s) =
     rbind (resolve_write_id m i) (\<lambda>j. Inr (CmdClearBlocker j b s))"
| "resolve_command_ids m (CmdAddReliesOn i t s) =
     rbind (resolve_write_id m i) (\<lambda>j. rbind (resolve_write_id m t) (\<lambda>u. Inr (CmdAddReliesOn j u s)))"
| "resolve_command_ids m (CmdRemoveReliesOn i t s) =
     rbind (resolve_write_id m i) (\<lambda>j. rbind (require m j) (\<lambda>it.
     rbind (resolve_removal_target m (map dp_target_id (it_relies_on it)) t) (\<lambda>u.
       Inr (CmdRemoveReliesOn j u s))))"
| "resolve_command_ids m (CmdAddPartOf i p s) =
     rbind (resolve_write_id m i) (\<lambda>j. rbind (resolve_write_id m p) (\<lambda>q. Inr (CmdAddPartOf j q s)))"
| "resolve_command_ids m (CmdRemovePartOf i p s) =
     rbind (resolve_write_id m i) (\<lambda>j.
       if p = [] then Inr (CmdRemovePartOf j p s)
       else rbind (require m j) (\<lambda>it.
         rbind (resolve_removal_target m (map pl_parent_id (opt_list (it_part_of it))) p) (\<lambda>q.
           Inr (CmdRemovePartOf j q s))))"
| "resolve_command_ids m (CmdPlace i p s) =
     rbind (resolve_write_id m i) (\<lambda>j. rbind (resolve_write_id m p) (\<lambda>q. Inr (CmdPlace j q s)))"
| "resolve_command_ids m (CmdAddRelatesTo i t k s) =
     rbind (resolve_write_id m i) (\<lambda>j. rbind (resolve_write_id m t) (\<lambda>u. Inr (CmdAddRelatesTo j u k s)))"
| "resolve_command_ids m (CmdRemoveRelatesTo i t s) =
     rbind (resolve_write_id m i) (\<lambda>j. rbind (require m j) (\<lambda>it.
     rbind (resolve_removal_target m (map rl_target_id (it_relates_to it)) t) (\<lambda>u.
       Inr (CmdRemoveRelatesTo j u s))))"
| "resolve_command_ids m (CmdAddRef i rt l mr lab s) =
     rbind (resolve_write_id m i) (\<lambda>j. Inr (CmdAddRef j rt l mr lab s))"
| "resolve_command_ids m (CmdRemoveRef i rt l s) =
     rbind (resolve_write_id m i) (\<lambda>j. Inr (CmdRemoveRef j rt l s))"
| "resolve_command_ids m (CmdApproveEffect i d) =
     rbind (resolve_write_id m i) (\<lambda>j. Inr (CmdApproveEffect j d))"
| "resolve_command_ids m (CmdRevokeEffect i) =
     rbind (resolve_write_id m i) (\<lambda>j. Inr (CmdRevokeEffect j))"
| "resolve_command_ids m (CmdWithdrawEffect i r s) =
     rbind (resolve_write_id m i) (\<lambda>j. Inr (CmdWithdrawEffect j r s))"
| "resolve_command_ids m (CmdStartNow i p) =
     rbind (resolve_write_id m i) (\<lambda>j. Inr (CmdStartNow j p))"

section \<open>Placement\<close>

definition parent_of :: "items \<Rightarrow> string \<Rightarrow> string option" where
  "parent_of m i = map_option pl_parent_id (Option.bind (bt_get m i) it_part_of)"

text \<open>
  The walk from the proposed parent to the root. The counter never passes
  \<open>max_part_of_depth\<close>, so the recursion on the room that is left is the loop.
\<close>

fun ancestor_walk :: "items \<Rightarrow> string \<Rightarrow> nat \<Rightarrow> nat \<Rightarrow> string \<Rightarrow> nat intake" where
  "ancestor_walk m i 0 ancestors cursor = (case parent_of m cursor of
     None \<Rightarrow> Inr ancestors
   | Some p \<Rightarrow> if p = i then Inl (Invalid ''placement cycle'')
               else Inl (Invalid ''placement exceeds the depth rail''))"
| "ancestor_walk m i (Suc room) ancestors cursor = (case parent_of m cursor of
     None \<Rightarrow> Inr ancestors
   | Some p \<Rightarrow> if p = i then Inl (Invalid ''placement cycle'')
               else ancestor_walk m i room (Suc ancestors) p)"

definition children_of :: "items \<Rightarrow> string list \<Rightarrow> string list" where
  "children_of m frontier = map (\<lambda>(k, it). it_id it)
     (filter (\<lambda>(k, it). case it_part_of it of None \<Rightarrow> False | Some p \<Rightarrow> pl_parent_id p \<in> set frontier) m)"

text \<open>The loop runs while \<open>height \<le> max_part_of_depth\<close>: \<open>room\<close> is the rounds that are left.\<close>

fun subtree_rounds :: "items \<Rightarrow> nat \<Rightarrow> nat \<Rightarrow> string list \<Rightarrow> nat" where
  "subtree_rounds m 0 height frontier = height"
| "subtree_rounds m (Suc room) height frontier =
    (let next_frontier = children_of m frontier in
     if next_frontier = [] then height else subtree_rounds m room (Suc height) next_frontier)"

definition subtree_height :: "items \<Rightarrow> string \<Rightarrow> nat" where
  "subtree_height m i = subtree_rounds m (Suc max_part_of_depth) 0 [i]"

definition validate_placement :: "items \<Rightarrow> string \<Rightarrow> string \<Rightarrow> unit intake" where
  "validate_placement m i parent =
    (if parent = i then Inl (Invalid ''an item cannot be placed under itself'')
     else rbind (ancestor_walk m i (max_part_of_depth - 1) 1 parent) (\<lambda>ancestors.
       if max_part_of_depth < ancestors + 1 + subtree_height m i
       then Inl (Invalid ''placement exceeds the depth rail'')
       else if max_children_per_hub \<le> length (children_of m [parent])
       then Inl (Invalid ''the hub already has its limit of children'')
       else Inr ()))"

section \<open>The arms of \<open>command_to_op\<close>\<close>

definition to_patch :: "agenda_patch \<Rightarrow> string \<Rightarrow> agenda_op intake" where
  "to_patch p i =
    (if patch_is_empty p then Inl (Invalid ''patch changes nothing'')
     else rbind (opt_try validate_title (pt_title p)) (\<lambda>t.
       rbind (opt_try validate_body (pt_body p)) (\<lambda>b.
       rbind (opt_try validate_tags (pt_tags p)) (\<lambda>ts.
         Inr (OpPatch i \<lparr> pt_title = t, pt_body = b, pt_tags = ts, pt_due_ms = pt_due_ms p \<rparr>)))))"

definition to_complete :: "agenda_item \<Rightarrow> string \<Rightarrow> agenda_op intake" where
  "to_complete it i = (case it_status it of
     Open \<Rightarrow> Inr (OpComplete i)
   | Done \<Rightarrow> Inl (Transition ''already done'')
   | Retired \<Rightarrow> Inl (Transition ''retired: reopen it first''))"

definition to_reopen :: "agenda_item \<Rightarrow> string \<Rightarrow> agenda_op intake" where
  "to_reopen it i = (if it_status it = Open then Inl (Transition ''already open'') else Inr (OpReopen i))"

definition to_retire :: "agenda_item \<Rightarrow> string \<Rightarrow> agenda_op intake" where
  "to_retire it i =
    (if it_status it = Retired then Inl (Transition ''already retired'') else Inr (OpRetire i))"

definition to_answer ::
    "agenda_item \<Rightarrow> string \<Rightarrow> string \<Rightarrow> ask_resolution option \<Rightarrow> agenda_op intake" where
  "to_answer it i txt structured =
    (if it_kind it \<noteq> Question then Inl (Invalid ''not a question'')
     else case it_status it of
       Open \<Rightarrow> rbind (validate_answer txt) (\<lambda>t.
         Inr (OpAnswer i t (case structured of None \<Rightarrow> None
           | Some r \<Rightarrow> if resolution_is_empty r then None else Some r)))
     | Done \<Rightarrow> Inl (Transition ''already answered'')
     | Retired \<Rightarrow> Inl (Transition ''retired: reopen it first''))"

definition to_acknowledge :: "agenda_item \<Rightarrow> string \<Rightarrow> agenda_op intake" where
  "to_acknowledge it i =
    (if it_kind it \<noteq> Question then Inl (Invalid ''not a question'')
     else if it_status it = Open then Inl (Transition ''not answered yet'')
     else if it_status it = Retired then Inl (Transition ''retired: reopen it first'')
     else case it_answer it of
       None \<Rightarrow> Inl (Transition ''completed without an answer'')
     | Some a \<Rightarrow>
         if \<not> answer_awaiting_pickup it
         then Inl (Transition (if aw_delivered a = Some True then ''already delivered''
                               else ''already acknowledged''))
         else Inr (OpAcknowledgeAnswer i))"

definition check_recurrence :: "recurrence_spec \<Rightarrow> u64 \<Rightarrow> unit intake" where
  "check_recurrence rc fire =
    (if rc_every_ms rc < recurrence_min_every_ms then Inl (Invalid ''recurrence cadence floor'')
     else if (case rc_until_ms rc of None \<Rightarrow> False | Some u \<Rightarrow> u \<le> fire)
     then Inl (Invalid ''recurrence until_ms must be after fire_at_ms'')
     else if rc_max_occurrences rc = Some 0
     then Inl (Invalid ''recurrence max_occurrences must be at least 1'')
     else if rc_suspend_after rc = Some 0
     then Inl (Invalid ''recurrence suspend_after_failures must be at least 1'')
     else Inr ())"

definition check_trigger :: "trigger_spec option \<Rightarrow> recurrence_spec option \<Rightarrow> unit intake" where
  "check_trigger trig rc = (case trig of
     None \<Rightarrow> Inr ()
   | Some t \<Rightarrow> if rc \<noteq> None then Inl (Invalid ''manifest-cadence-and-trigger-exclusive'')
              else validate_trigger t)"

definition check_goal :: "string \<Rightarrow> string intake" where
  "check_goal goal0 =
    (let goal = trim goal0 in
     if goal = [] then Inl (Invalid ''goal must not be empty'')
     else if max_body_bytes < length goal then Inl (Invalid ''goal too long'')
     else Inr goal)"

definition recorded_config ::
    "agent_launch_config option \<Rightarrow> string \<Rightarrow> agent_launch_config" where
  "recorded_config config agent =
    (let c = (case config of None \<Rightarrow> default_launch_config | Some c \<Rightarrow> c)
     in if explicit_choice (lc_agent c) = None then c\<lparr>lc_agent := Some agent\<rparr> else c)"

definition to_propose ::
    "intake_env \<Rightarrow> agenda_item \<Rightarrow> string \<Rightarrow> propose_spec \<Rightarrow> u64 \<Rightarrow> agenda_op intake" where
  "to_propose w it i p now =
    (if it_status it \<noteq> Open then Inl (Transition ''not open'')
     else let config = (case pp_agent_config p of None \<Rightarrow> None
            | Some c \<Rightarrow> if launch_config_is_empty c then None else Some c)
     in rbind (case pp_recurrence p of None \<Rightarrow> Inr ()
               | Some rc \<Rightarrow> check_recurrence rc (pp_fire_at_ms p)) (\<lambda>_.
        rbind (check_trigger (pp_trigger p) (pp_recurrence p)) (\<lambda>_.
        case fireable w \<lparr> fc_fire_at_ms = pp_fire_at_ms p, fc_recurrence = pp_recurrence p,
               fc_trigger = pp_trigger p, fc_project_root = explicit_choice (pp_project_root p),
               fc_agent_config = config \<rparr> (at_session_id (it_provenance it)) now of
          Inl r \<Rightarrow> Inl (Invalid (refusal_message r))
        | Inr res \<Rightarrow>
            rbind (check_goal (pp_goal p)) (\<lambda>goal.
            rbind (validate_binding_refs w (pp_binding_refs p)
                (case it_effects it of [] \<Rightarrow> [] | e # _ \<Rightarrow> mf_binding_refs (ef_manifest e))) (\<lambda>refs.
              Inr (OpProposeEffect i (session_effect_id (ie_sha w) it i (pp_fire_at_ms p))
                \<lparr> mf_goal = goal, mf_fire_at_ms = pp_fire_at_ms p,
                  mf_orchestrate = pp_orchestrate p,
                  mf_interactive = (case pp_interactive p of None \<Rightarrow> False | Some b \<Rightarrow> b),
                  mf_project_root = Some (rl_project_root res),
                  mf_agent_config = Some (recorded_config config (rl_agent res)),
                  mf_recurrence = pp_recurrence p, mf_trigger = pp_trigger p,
                  mf_binding_refs = refs \<rparr>))))))"

definition to_annotate :: "agenda_item \<Rightarrow> string \<Rightarrow> string \<Rightarrow> agenda_op intake" where
  "to_annotate it i text0 =
    (let txt = trim text0 in
     if txt = [] then Inl (Invalid ''annotation must not be empty'')
     else if max_body_bytes < length txt then Inl (Invalid ''annotation too long'')
     else if max_annotations_per_item \<le> length (it_annotations it)
     then Inl (Invalid ''too many annotations'')
     else Inr (OpAnnotate i txt))"

definition to_pick_up :: "agenda_item \<Rightarrow> string \<Rightarrow> agenda_op intake" where
  "to_pick_up it i =
    (if it_status it \<noteq> Open then Inl (Transition ''not open'')
     else if max_annotations_per_item \<le> length (it_annotations it)
     then Inl (Invalid ''too many annotations'')
     else Inr (OpPickUp i))"

definition to_attest ::
    "intake_env \<Rightarrow> agenda_item \<Rightarrow> string \<Rightarrow> string \<Rightarrow> attestation_outcome \<Rightarrow> string option
       \<Rightarrow> binding_ref list \<Rightarrow> agenda_op intake" where
  "to_attest w it i occ outcome note refs = (case it_effects it of
     [] \<Rightarrow> Inl (Invalid ''attest: no scheduled-session effect'')
   | e # _ \<Rightarrow>
       rbind (case note of None \<Rightarrow> Inr None
              | Some n \<Rightarrow> if max_attestation_note_bytes < length (trim n)
                  then Inl (Invalid ''attest note too long'')
                  else Inr (if trim n = [] then None else Some (trim n))) (\<lambda>note'.
       rbind (validate_attestation_refs w refs) (\<lambda>refs'.
         Inr (OpAttest i (ef_effect_id e) occ outcome note' refs'))))"

definition to_set_blocker ::
    "intake_env \<Rightarrow> agenda_item \<Rightarrow> string \<Rightarrow> string \<Rightarrow> u64 \<Rightarrow> agenda_op intake" where
  "to_set_blocker w it i criterion0 now =
    (if it_status it \<noteq> Open then Inl (Transition ''not open'')
     else let criterion = trim criterion0;
              uncleared = filter (\<lambda>b. bl_cleared b = None) (it_blockers it);
              bid = mint_blocker_id (ie_sha w) i criterion now
       in if criterion = [] then Inl (Invalid ''criterion must not be empty'')
          else if max_criterion_chars < chars_count criterion then Inl (Invalid ''criterion too long'')
          else if list_ex (\<lambda>b. bl_criterion b = criterion) uncleared
          then Inl (Transition ''already blocked on exactly this criterion'')
          else if max_uncleared_blockers \<le> length uncleared
          then Inl (Invalid ''too many uncleared blockers'')
          else if list_ex (\<lambda>b. bl_blocker_id b = bid) (it_blockers it)
          then Inl (Invalid ''blocker id collision'')
          else Inr (OpSetBlocker i bid criterion))"

definition to_clear_blocker :: "agenda_item \<Rightarrow> string \<Rightarrow> string \<Rightarrow> agenda_op intake" where
  "to_clear_blocker it i needle0 =
    (case filter (\<lambda>b. bl_cleared b = None \<and> starts_with (bl_blocker_id b) (trim needle0))
            (it_blockers it) of
       [] \<Rightarrow> Inl (NotFound ''no uncleared blocker matching'')
     | [b] \<Rightarrow> Inr (OpClearBlocker i (bl_blocker_id b))
     | _ \<Rightarrow> Inl (Invalid ''blocker prefix is ambiguous''))"

definition to_add_relies_on ::
    "items \<Rightarrow> agenda_item \<Rightarrow> string \<Rightarrow> string \<Rightarrow> agenda_op intake" where
  "to_add_relies_on m it i target0 =
    (if it_status it \<noteq> Open then Inl (Transition ''not open'')
     else let target = trim target0 in
       if target = i then Inl (Invalid ''an item cannot rely on itself'')
       else rbind (require m target) (\<lambda>_.
         if list_ex (\<lambda>l. dp_target_id l = target) (it_relies_on it)
         then Inl (Transition ''already relies on it'')
         else if max_relies_on \<le> length (it_relies_on it) then Inl (Invalid ''too many dependencies'')
         else Inr (OpAddReliesOn i target)))"

definition to_remove_relies_on :: "agenda_item \<Rightarrow> string \<Rightarrow> string \<Rightarrow> agenda_op intake" where
  "to_remove_relies_on it i target0 =
    (let target = trim target0 in
     if \<not> list_ex (\<lambda>l. dp_target_id l = target) (it_relies_on it)
     then Inl (NotFound ''no live dependency'')
     else Inr (OpRemoveReliesOn i target))"

definition to_add_part_of :: "items \<Rightarrow> string \<Rightarrow> string \<Rightarrow> agenda_op intake" where
  "to_add_part_of m i parent0 =
    (let parent = trim parent0 in
     rbind (require m i) (\<lambda>it.
       if it_part_of it \<noteq> None then Inl (Transition ''already placed'')
       else rbind (require m parent) (\<lambda>_.
         rbind (validate_placement m i parent) (\<lambda>_. Inr (OpAddPartOf i parent)))))"

definition to_remove_part_of :: "agenda_item \<Rightarrow> string \<Rightarrow> string \<Rightarrow> agenda_op intake" where
  "to_remove_part_of it i parent0 =
    (let parent = trim parent0 in case it_part_of it of
       Some p \<Rightarrow> if parent = [] \<or> pl_parent_id p = parent then Inr (OpRemovePartOf i (pl_parent_id p))
                 else Inl (NotFound ''placed elsewhere'')
     | None \<Rightarrow> Inl (NotFound ''not placed''))"

definition to_add_relates_to ::
    "items \<Rightarrow> string \<Rightarrow> string \<Rightarrow> string option \<Rightarrow> agenda_op intake" where
  "to_add_relates_to m i target0 kind0 =
    (let target = trim target0; kind = explicit_choice kind0 in
     if (case kind of None \<Rightarrow> False | Some k \<Rightarrow> k \<notin> set relates_to_link_kinds)
     then Inl (Invalid ''unknown link kind'')
     else rbind (require m i) (\<lambda>it.
       if target = i then Inl (Invalid ''an item cannot relate to itself'')
       else rbind (require m target) (\<lambda>tgt.
         if list_ex (\<lambda>e. rl_target_id e = target) (it_relates_to it)
            \<or> list_ex (\<lambda>e. rl_target_id e = i) (it_relates_to tgt)
         then Inl (Transition ''already related'')
         else if max_relates_to \<le> length (it_relates_to it) then Inl (Invalid ''too many relations'')
         else Inr (OpAddRelatesTo i target kind))))"

definition to_remove_relates_to ::
    "items \<Rightarrow> agenda_item \<Rightarrow> string \<Rightarrow> string \<Rightarrow> agenda_op intake" where
  "to_remove_relates_to m it i target0 =
    (let target = trim target0 in
     if list_ex (\<lambda>e. rl_target_id e = target) (it_relates_to it) then Inr (OpRemoveRelatesTo i target)
     else if (case bt_get m target of None \<Rightarrow> False
              | Some t \<Rightarrow> list_ex (\<lambda>e. rl_target_id e = i) (it_relates_to t))
     then Inr (OpRemoveRelatesTo target i)
     else Inl (NotFound ''not related''))"

definition to_add_ref ::
    "intake_env \<Rightarrow> agenda_item \<Rightarrow> string \<Rightarrow> ref_type \<Rightarrow> string \<Rightarrow> bool \<Rightarrow> string option
       \<Rightarrow> agenda_op intake" where
  "to_add_ref w it i rt locator must_read label =
     rbind (validate_ref w rt locator must_read label) (\<lambda>v.
       if list_ex (\<lambda>r. rf_ref_type r = vr_ref_type v \<and> rf_locator r = vr_locator v) (it_refs it)
       then Inl (Transition ''already carries this ref'')
       else if max_refs_per_item \<le> length (it_refs it) then Inl (Invalid ''too many refs'')
       else Inr (OpAddRef i (vr_ref_type v) (vr_locator v) (vr_digest v) (vr_must_read v) (vr_label v)))"

definition to_remove_ref :: "agenda_item \<Rightarrow> string \<Rightarrow> ref_type \<Rightarrow> string \<Rightarrow> agenda_op intake" where
  "to_remove_ref it i rt locator0 =
    (let locator = trim locator0 in
     if \<not> list_ex (\<lambda>r. rf_ref_type r = rt \<and> rf_locator r = locator) (it_refs it)
     then Inl (NotFound ''no live ref matching'')
     else Inr (OpRemoveRef i rt locator))"

definition to_approve ::
    "intake_env \<Rightarrow> agenda_item \<Rightarrow> string \<Rightarrow> string \<Rightarrow> u64 \<Rightarrow> agenda_op intake" where
  "to_approve w it i digest now =
    (if it_status it \<noteq> Open then Inl (Transition ''not open'')
     else case it_effects it of
       [] \<Rightarrow> Inl (NotFound ''no proposed scheduled session'')
     | e # _ \<Rightarrow>
         if ef_withdrawn e \<noteq> None then Inl (Transition ''proposal was withdrawn'')
         else if ef_approval e \<noteq> None \<and> \<not> suspended e then Inl (Transition ''already approved'')
         else if ef_digest e \<noteq> trim digest then Inl (Invalid ''digest mismatch'')
         else (case fireable w (of_manifest (ef_manifest e)) (at_session_id (it_provenance it)) now of
             Inl r \<Rightarrow> Inl (Invalid (refusal_message r))
           | Inr _ \<Rightarrow> Inr (OpApproveEffect i (ef_effect_id e) (ef_digest e))))"

definition to_revoke :: "agenda_item \<Rightarrow> string \<Rightarrow> agenda_op intake" where
  "to_revoke it i = (case it_effects it of
     [] \<Rightarrow> Inl (NotFound ''no scheduled session'')
   | e # _ \<Rightarrow> if ef_approval e = None then Inl (Transition ''not approved'')
              else Inr (OpRevokeEffect i (ef_effect_id e)))"

definition to_withdraw :: "agenda_item \<Rightarrow> string \<Rightarrow> string option \<Rightarrow> agenda_op intake" where
  "to_withdraw it i reason = (case it_effects it of
     [] \<Rightarrow> Inl (NotFound ''no proposed scheduled session'')
   | e # _ \<Rightarrow>
       if ef_approval e \<noteq> None then Inl (Transition ''scheduled session is approved'')
       else if ef_withdrawn e \<noteq> None then Inl (Transition ''already withdrawn'')
       else (case explicit_choice reason of
           None \<Rightarrow> Inr (OpWithdrawEffect i (ef_effect_id e) None)
         | Some r \<Rightarrow> if max_body_bytes < length r then Inl (Invalid ''reason too long'')
                    else Inr (OpWithdrawEffect i (ef_effect_id e) (Some r))))"

fun command_to_op :: "intake_env \<Rightarrow> items \<Rightarrow> u64 \<Rightarrow> agenda_command \<Rightarrow> agenda_op intake" where
  "command_to_op w m now (CmdPatch i p s) = rbind (require m i) (\<lambda>_. to_patch p i)"
| "command_to_op w m now (CmdComplete i s) = rbind (require m i) (\<lambda>it. to_complete it i)"
| "command_to_op w m now (CmdReopen i s) = rbind (require m i) (\<lambda>it. to_reopen it i)"
| "command_to_op w m now (CmdRetire i s) = rbind (require m i) (\<lambda>it. to_retire it i)"
| "command_to_op w m now (CmdAnswer i t st s) = rbind (require m i) (\<lambda>it. to_answer it i t st)"
| "command_to_op w m now (CmdAcknowledgeAnswer i s) = rbind (require m i) (\<lambda>it. to_acknowledge it i)"
| "command_to_op w m now (CmdProposeEffect i p s) = rbind (require m i) (\<lambda>it. to_propose w it i p now)"
| "command_to_op w m now (CmdAnnotate i t s) = rbind (require m i) (\<lambda>it. to_annotate it i t)"
| "command_to_op w m now (CmdPickUp i s) = rbind (require m i) (\<lambda>it. to_pick_up it i)"
| "command_to_op w m now (CmdAttest i occ out n rs s) =
     rbind (require m i) (\<lambda>it. to_attest w it i occ out n rs)"
| "command_to_op w m now (CmdSetBlocker i c s) = rbind (require m i) (\<lambda>it. to_set_blocker w it i c now)"
| "command_to_op w m now (CmdClearBlocker i b s) = rbind (require m i) (\<lambda>it. to_clear_blocker it i b)"
| "command_to_op w m now (CmdAddReliesOn i t s) = rbind (require m i) (\<lambda>it. to_add_relies_on m it i t)"
| "command_to_op w m now (CmdRemoveReliesOn i t s) =
     rbind (require m i) (\<lambda>it. to_remove_relies_on it i t)"
| "command_to_op w m now (CmdAddPartOf i p s) = to_add_part_of m i p"
| "command_to_op w m now (CmdRemovePartOf i p s) = rbind (require m i) (\<lambda>it. to_remove_part_of it i p)"
| "command_to_op w m now (CmdAddRelatesTo i t k s) = to_add_relates_to m i t k"
| "command_to_op w m now (CmdRemoveRelatesTo i t s) =
     rbind (require m i) (\<lambda>it. to_remove_relates_to m it i t)"
| "command_to_op w m now (CmdAddRef i rt l mr lab s) =
     rbind (require m i) (\<lambda>it. to_add_ref w it i rt l mr lab)"
| "command_to_op w m now (CmdRemoveRef i rt l s) = rbind (require m i) (\<lambda>it. to_remove_ref it i rt l)"
| "command_to_op w m now (CmdApproveEffect i d) = rbind (require m i) (\<lambda>it. to_approve w it i d now)"
| "command_to_op w m now (CmdRevokeEffect i) = rbind (require m i) (\<lambda>it. to_revoke it i)"
| "command_to_op w m now (CmdWithdrawEffect i r s) = rbind (require m i) (\<lambda>it. to_withdraw it i r)"
| "command_to_op w m now (CmdAdd _ _ _ _ _ _ _) = Inl (Invalid ''internal: add must route through apply_command'')"
| "command_to_op w m now (CmdStartNow _ _) =
     Inl (Invalid ''internal: start_now must route through apply_command'')"
| "command_to_op w m now (CmdPlace _ _ _) = Inl (Invalid ''internal: place must route through apply_command'')"
| "command_to_op w m now (CmdRequestOccurrence _) =
     Inl (Invalid ''internal: request_occurrence must route through apply_command'')"

section \<open>Resolution is idempotent\<close>

lemma bt_get_live: "bt_get m k \<noteq> None \<longleftrightarrow> k \<in> fst ` set m"
  by (simp add: map_of_eq_None_iff)

lemma resolve_write_id_live:
  assumes "resolve_write_id m n = Inr j"
  shows "bt_get m j \<noteq> None"
proof (cases "bt_get m n = None")
  case True
  with assms have "filter (\<lambda>k. starts_with k n) (map fst m) = [j]"
    by (auto simp: resolve_write_id_def split: if_splits list.splits)
  then have "j \<in> set (filter (\<lambda>k. starts_with k n) (map fst m))"
    by (metis list.set_intros(1))
  then show ?thesis unfolding bt_get_live by simp
qed (use assms in \<open>auto simp: resolve_write_id_def\<close>)

lemma resolve_write_id_fix: "bt_get m j \<noteq> None \<Longrightarrow> resolve_write_id m j = Inr j"
  by (simp add: resolve_write_id_def)

lemma removal_matches_in:
  "k \<in> set (removal_matches m stored n) \<Longrightarrow> (k \<in> set stored \<or> bt_get m k \<noteq> None) \<and> starts_with k n"
  unfolding bt_get_live by (auto simp: removal_matches_def)

lemma resolve_removal_fix:
  assumes "resolve_removal_target m stored n = Inr u"
  shows "resolve_removal_target m stored u = Inr u \<and> (n \<noteq> [] \<longrightarrow> u \<noteq> [])"
proof (cases "u = n")
  case False
  then have "u \<in> set (removal_matches m stored n)"
    using assms by (auto simp: resolve_removal_target_def split: if_splits list.splits)
  from removal_matches_in [OF this] False show ?thesis
    by (auto simp: resolve_removal_target_def starts_with_iff)
qed (use assms in simp)

lemma require_eq_Inr [simp]: "require m i = Inr it \<longleftrightarrow> bt_get m i = Some it"
  by (simp add: require_def split: option.split)

text \<open>
  Resolving the ids of a command twice is resolving them once, so resolving at the handle
  and again in the store agrees on unchanged items.
\<close>

theorem resolve_idempotent:
  assumes "resolve_command_ids m c = Inr c'"
  shows "resolve_command_ids m c' = Inr c'"
proof -
  have fix_id: "resolve_write_id m j = Inr j" if "resolve_write_id m n = Inr j" for n j
    using that resolve_write_id_live resolve_write_id_fix by blast
  have fix_rm: "resolve_removal_target m st u = Inr u"
    if "resolve_removal_target m st n = Inr u" for st n u
    using that resolve_removal_fix by blast
  have fix_ne: "u \<noteq> []" if "resolve_removal_target m st n = Inr u" "n \<noteq> []" for st n u
    using that resolve_removal_fix by blast
  show ?thesis
    using assms
  proof (cases c)
    case (CmdRemoveReliesOn i t s)
    with assms obtain j it u where "resolve_write_id m i = Inr j" "bt_get m j = Some it"
      "resolve_removal_target m (map dp_target_id (it_relies_on it)) t = Inr u"
      "c' = CmdRemoveReliesOn j u s" by auto
    then show ?thesis using fix_id fix_rm by simp
  next
    case (CmdRemoveRelatesTo i t s)
    with assms obtain j it u where "resolve_write_id m i = Inr j" "bt_get m j = Some it"
      "resolve_removal_target m (map rl_target_id (it_relates_to it)) t = Inr u"
      "c' = CmdRemoveRelatesTo j u s" by auto
    then show ?thesis using fix_id fix_rm by simp
  next
    case (CmdRemovePartOf i t s)
    show ?thesis
    proof (cases "t = []")
      case False
      with CmdRemovePartOf assms obtain j it u where "resolve_write_id m i = Inr j"
        "bt_get m j = Some it" "c' = CmdRemovePartOf j u s"
        "resolve_removal_target m (map pl_parent_id (opt_list (it_part_of it))) t = Inr u" by auto
      then show ?thesis using fix_id fix_rm fix_ne False by simp
    qed (use assms CmdRemovePartOf in \<open>auto intro: fix_id\<close>)
  qed (auto intro: fix_id)
qed


theorem resolve_idempotent_witness:
  "resolve_command_ids [(''0a'', fold_add (rec_of (OpComplete ''0a'')) ''0a'' Task ''t'' [] [] None None)]
       (CmdComplete ''0'' None) = Inr (CmdComplete ''0a'' None)
   \<and> resolve_command_ids [(''0a'', fold_add (rec_of (OpComplete ''0a'')) ''0a'' Task ''t'' [] [] None None)]
       (CmdComplete ''0a'' None) = Inr (CmdComplete ''0a'' None)"
proof -
  have r: "resolve_command_ids [(''0a'', fold_add (rec_of (OpComplete ''0a'')) ''0a'' Task ''t'' [] [] None None)]
       (CmdComplete ''0'' None) = Inr (CmdComplete ''0a'' None)"
    by (simp add: resolve_write_id_def)
  from resolve_idempotent [OF r] r show ?thesis by blast
qed

end
