(* ===== verification/AgendaRails.thy ===== *)
theory AgendaRails
  imports AgendaCommands
begin

text \<open>
  What the strict intake buys: the tolerant fold never warns about an operation the intake
  produced, and the rails of the intake (one effect per item, the counts of links, references
  and blockers, the placement forest) are invariants of the ledger.
\<close>

section \<open>The fold accepts what the intake produces\<close>

lemma update_first_accepts:
  assumes "x \<in> set xs" "P x" "\<And>y. y \<in> set xs \<Longrightarrow> P y \<Longrightarrow> \<exists>z. f y = Inr z"
  shows "\<exists>ys. update_first P f w xs = Inr ys"
  using assms
proof (induction xs)
  case (Cons a xs)
  show ?case
  proof (cases "P a")
    case False
    with Cons.prems have "x \<in> set xs" by auto
    from Cons.IH [OF this Cons.prems(2)] Cons.prems(3) False show ?thesis by auto
  qed (use Cons.prems(3) [of a] in auto)
qed simp

lemma rbind_update_first_accepts:
  assumes "x \<in> set xs" "P x" "\<And>y. y \<in> set xs \<Longrightarrow> P y \<Longrightarrow> \<exists>z. f y = Inr z"
  shows "\<exists>z. rbind (update_first P f w xs) (\<lambda>ys. Inr (g ys)) = Inr z"
  using update_first_accepts [of x xs P f w] assms by auto

lemma filter_shrinks: "length (filter P xs) = length xs \<longleftrightarrow> (\<forall>x \<in> set xs. P x)"
  by (metis filter_id_conv length_filter_less linorder_less_linear nless_le)

definition accepts :: "(agenda_item \<Rightarrow> string + agenda_item) \<Rightarrow> agenda_item \<Rightarrow> bool" where
  "accepts f it = (case f it of Inl _ \<Rightarrow> False | Inr _ \<Rightarrow> True)"

lemma accepts_Inr: "accepts f it \<longleftrightarrow> (\<exists>it'. f it = Inr it')"
  by (auto simp: accepts_def split: sum.split)

lemma on_item_accepts:
  "bt_get m i = Some it \<Longrightarrow> accepts f it \<Longrightarrow> snd (on_item m i verb f) = None"
  by (auto simp: on_item_def accepts_Inr)

lemma on_effect_head:
  "it_effects it = e # es \<Longrightarrow> f e = Inr e' \<Longrightarrow>
     on_effect it (ef_effect_id e) verb f = Inr (it\<lparr>it_effects := e' # es\<rparr>)"
  by (simp add: on_effect_def)

lemma accept_patch: "to_patch p i = Inr op \<Longrightarrow> \<exists>p'. op = OpPatch i p' \<and> (\<forall>it. accepts (fold_patch rec p') it)"
  by (auto simp: to_patch_def accepts_Inr fold_patch_def Let_def split: if_splits)

lemma accept_complete:
  "to_complete it i = Inr op \<Longrightarrow> op = OpComplete i \<and> accepts (fold_complete rec) it"
  by (auto simp: to_complete_def accepts_Inr fold_complete_def split: agenda_status.splits)

lemma accept_reopen: "to_reopen it i = Inr op \<Longrightarrow> op = OpReopen i \<and> accepts (fold_reopen rec) it"
  by (cases "it_status it") (auto simp: to_reopen_def accepts_Inr fold_reopen_def split: if_splits)

lemma accept_retire: "to_retire it i = Inr op \<Longrightarrow> op = OpRetire i \<and> accepts (fold_retire rec) it"
  by (cases "it_status it") (auto simp: to_retire_def accepts_Inr fold_retire_def split: if_splits)

lemma accept_answer:
  "to_answer it i t st = Inr op \<Longrightarrow> \<exists>t' st'. op = OpAnswer i t' st' \<and> accepts (fold_answer rec t' st') it"
  by (auto simp: to_answer_def accepts_Inr fold_answer_def split: if_splits agenda_status.splits)

lemma accept_acknowledge:
  "to_acknowledge it i = Inr op \<Longrightarrow>
     op = OpAcknowledgeAnswer i \<and> accepts (fold_acknowledge_answer rec) it"
  by (auto simp: to_acknowledge_def accepts_Inr fold_acknowledge_answer_def
      answer_awaiting_pickup_def split: if_splits option.splits)

lemma accept_propose:
  "to_propose w it i p now = Inr op \<Longrightarrow>
     \<exists>m. op = OpProposeEffect i (session_effect_id (ie_sha w) it i (pp_fire_at_ms p)) m
       \<and> accepts (fold_propose_effect dig rec (session_effect_id (ie_sha w) it i (pp_fire_at_ms p)) m) it"
  by (auto simp: to_propose_def Let_def accepts_Inr fold_propose_effect_def
      split: if_splits option.splits sum.splits)

lemma accept_annotate:
  "to_annotate it i t = Inr op \<Longrightarrow> \<exists>t'. op = OpAnnotate i t' \<and> accepts (fold_annotate rec t') it"
  by (auto simp: to_annotate_def Let_def accepts_Inr fold_annotate_def split: if_splits)

lemma accept_pick_up:
  "to_pick_up it i = Inr op \<Longrightarrow> at_session_id (rec_actor rec) \<noteq> None \<Longrightarrow>
     op = OpPickUp i \<and> accepts (fold_pick_up rec) it"
  by (auto simp: to_pick_up_def accepts_Inr fold_pick_up_def split: if_splits)

lemma accept_attest:
  assumes "to_attest w it i occ out n rs = Inr op"
    and "\<exists>e es run. it_effects it = e # es \<and> ef_last_run e = Some run \<and> rn_occurrence_id run = occ"
  shows "\<exists>eid n' rs'. op = OpAttest i eid occ out n' rs' \<and> accepts (fold_attest rec eid occ out n' rs') it"
proof -
  from assms(2) obtain e es run where e: "it_effects it = e # es" "ef_last_run e = Some run"
    "rn_occurrence_id run = occ" by blast
  with assms(1) obtain n' rs' where "op = OpAttest i (ef_effect_id e) occ out n' rs'"
    by (auto simp: to_attest_def)
  moreover have "accepts (fold_attest rec (ef_effect_id e) occ out n' rs') it"
    using e by (simp add: accepts_Inr fold_attest_def on_effect_head [OF e(1)])
  ultimately show ?thesis by blast
qed

lemma accept_set_blocker:
  "to_set_blocker w it i c now = Inr op \<Longrightarrow>
     \<exists>b c'. op = OpSetBlocker i b c' \<and> accepts (fold_set_blocker rec b c') it"
  by (auto simp: to_set_blocker_def Let_def accepts_Inr fold_set_blocker_def split: if_splits)

lemma accept_clear_blocker:
  assumes "to_clear_blocker it i n = Inr op" "blockers_ok (it_blockers it)"
  shows "\<exists>b. op = OpClearBlocker i b \<and> accepts (fold_clear_blocker rec b) it"
proof -
  let ?P = "\<lambda>b. bl_cleared b = None \<and> starts_with (bl_blocker_id b) (trim n)"
  obtain b where b: "filter ?P (it_blockers it) = [b]" "op = OpClearBlocker i (bl_blocker_id b)"
    using assms(1) by (auto simp: to_clear_blocker_def split: list.splits)
  then have "b \<in> set (filter ?P (it_blockers it))" by (metis list.set_intros(1))
  then have mem: "b \<in> set (it_blockers it)" "bl_cleared b = None" by auto
  have "inj_on bl_blocker_id (set (it_blockers it))"
    using assms(2) by (simp add: blockers_ok_def distinct_map)
  then have uniq: "bl_cleared y = None"
    if "y \<in> set (it_blockers it)" "bl_blocker_id y = bl_blocker_id b" for y
    using that mem by (metis inj_onD)
  have "accepts (fold_clear_blocker rec (bl_blocker_id b)) it"
    unfolding accepts_Inr fold_clear_blocker_def
    by (intro rbind_update_first_accepts [OF mem(1)]) (auto simp: uniq)
  with b(2) show ?thesis by blast
qed

lemma accept_add_relies_on:
  "to_add_relies_on m it i t = Inr op \<Longrightarrow> it_id it = i \<Longrightarrow>
     \<exists>u. op = OpAddReliesOn i u \<and> accepts (fold_add_relies_on rec u) it"
  by (auto simp: to_add_relies_on_def Let_def accepts_Inr fold_add_relies_on_def split: if_splits)

lemma accept_remove_relies_on:
  "to_remove_relies_on it i t = Inr op \<Longrightarrow>
     \<exists>u. op = OpRemoveReliesOn i u \<and> accepts (fold_remove_relies_on rec u) it"
  by (auto simp: to_remove_relies_on_def Let_def accepts_Inr fold_remove_relies_on_def
      filter_shrinks list_ex_iff split: if_splits)

lemma accept_add_part_of:
  "to_add_part_of m i p = Inr op \<Longrightarrow> bt_get m i = Some it \<Longrightarrow>
     op = OpAddPartOf i (trim p) \<and> trim p \<noteq> i \<and> validate_placement m i (trim p) = Inr ()
     \<and> it_part_of it = None \<and> accepts (fold_add_part_of rec (trim p)) it"
  by (auto simp: to_add_part_of_def Let_def accepts_Inr fold_add_part_of_def validate_placement_def
      split: if_splits)

lemma accept_remove_part_of:
  "to_remove_part_of it i p = Inr op \<Longrightarrow>
     \<exists>q. op = OpRemovePartOf i q \<and> accepts (fold_remove_part_of rec q) it"
  by (auto simp: to_remove_part_of_def Let_def accepts_Inr fold_remove_part_of_def
      split: if_splits option.splits)

lemma accept_add_relates_to:
  "to_add_relates_to m i t k = Inr op \<Longrightarrow> bt_get m i = Some it \<Longrightarrow>
     \<exists>u k'. op = OpAddRelatesTo i u k' \<and> u \<noteq> i \<and> accepts (fold_add_relates_to rec u k') it"
  by (auto simp: to_add_relates_to_def Let_def accepts_Inr fold_add_relates_to_def split: if_splits)

lemma accept_remove_relates_to:
  "to_remove_relates_to m it i t = Inr op \<Longrightarrow> bt_get m i = Some it \<Longrightarrow>
     \<exists>j u jt. op = OpRemoveRelatesTo j u \<and> bt_get m j = Some jt
       \<and> accepts (fold_remove_relates_to rec u) jt"
  by (auto simp: to_remove_relates_to_def Let_def accepts_Inr fold_remove_relates_to_def
      filter_shrinks list_ex_iff split: if_splits option.splits)

lemma accept_add_ref:
  "to_add_ref w it i rt l mr lab = Inr op \<Longrightarrow>
     \<exists>rt' l' d mr' lab'. op = OpAddRef i rt' l' d mr' lab'
       \<and> accepts (fold_add_ref rec rt' l' d mr' lab') it"
proof -
  assume "to_add_ref w it i rt l mr lab = Inr op"
  then obtain v :: validated_ref where "op = OpAddRef i (vr_ref_type v) (vr_locator v)
      (vr_digest v) (vr_must_read v) (vr_label v)"
    "\<not> list_ex (\<lambda>r. rf_ref_type r = vr_ref_type v \<and> rf_locator r = vr_locator v) (it_refs it)"
    by (auto simp: to_add_ref_def split: if_splits)
  then show ?thesis by (auto simp: accepts_Inr fold_add_ref_def)
qed

lemma accept_remove_ref:
  "to_remove_ref it i rt l = Inr op \<Longrightarrow>
     \<exists>l'. op = OpRemoveRef i rt l' \<and> accepts (fold_remove_ref rec rt l') it"
  by (auto simp: to_remove_ref_def Let_def accepts_Inr fold_remove_ref_def
      filter_shrinks list_ex_iff split: if_splits)

lemma accept_approve:
  "to_approve w it i d now = Inr op \<Longrightarrow> \<exists>eid d'. op = OpApproveEffect i eid d'
     \<and> accepts (fold_approve_effect rec eid d') it"
  by (auto simp: to_approve_def accepts_Inr fold_approve_effect_def on_effect_def
      split: if_splits list.splits sum.splits)

lemma accept_revoke:
  "to_revoke it i = Inr op \<Longrightarrow> \<exists>eid. op = OpRevokeEffect i eid \<and> accepts (fold_revoke_effect rec eid) it"
  by (auto simp: to_revoke_def accepts_Inr fold_revoke_effect_def on_effect_def
      split: if_splits list.splits)

lemma accept_withdraw:
  "to_withdraw it i r = Inr op \<Longrightarrow> \<exists>eid r'. op = OpWithdrawEffect i eid r'
     \<and> accepts (fold_withdraw_effect rec eid r') it"
  by (auto simp: to_withdraw_def accepts_Inr fold_withdraw_effect_def Let_def
      split: if_splits list.splits option.splits)

text \<open>
  An attestation is current when it names the last run of the item's effect; the one other
  thing the intake leaves to the tenant edge is that a pickup has a session.
\<close>

definition attest_current :: "items \<Rightarrow> agenda_command \<Rightarrow> bool" where
  "attest_current m c = (case c of
     CmdAttest i occ _ _ _ _ \<Rightarrow> (case bt_get m i of None \<Rightarrow> False
       | Some it \<Rightarrow> (case it_effects it of [] \<Rightarrow> False
         | e # _ \<Rightarrow> (case ef_last_run e of None \<Rightarrow> False | Some r \<Rightarrow> rn_occurrence_id r = occ)))
   | _ \<Rightarrow> True)"

lemma authorized_pick_up:
  "authorize_command (CmdPickUp i s) a = Inr () \<Longrightarrow> \<exists>x. a = Some x \<and> at_session_id x \<noteq> None"
  by (auto simp: authorize_command_def is_pick_up_def attributed_session_def split: if_splits option.splits)

text \<open>
  Strict intake, tolerant fold: on a well-formed ledger, the operation an authorized
  command becomes is never refused by the fold, except the attestation of an occurrence that
  is not the effect's last run.
\<close>

theorem intake_never_warns:
  assumes ok: "ledger_ok dig m" and auth: "authorize_command c (or_actor rec) = Inr ()"
    and op: "command_to_op w m now c = Inr (or_op rec)" and att: "attest_current m c"
  shows "snd (apply_op dig m rec) = None"
proof -
  have acc: "snd (on_item m i verb f) = None" if "bt_get m i = Some it" "accepts f it" for i verb f it
    using that by (rule on_item_accepts)
  show ?thesis
  proof (cases c)
    case (CmdPatch i p s)
    with op obtain it where it: "bt_get m i = Some it" "to_patch p i = Inr (or_op rec)" by auto
    from accept_patch [OF it(2), of rec] obtain p' where
      "or_op rec = OpPatch i p'" "accepts (fold_patch rec p') it" by blast
    with acc it(1) show ?thesis by (simp add: apply_op.simps)
  next
    case (CmdAttest i occ out n rs s)
    with att obtain it e es run where it: "bt_get m i = Some it" "it_effects it = e # es"
      "ef_last_run e = Some run" "rn_occurrence_id run = occ"
      by (auto simp: attest_current_def split: option.splits list.splits)
    with CmdAttest op have "to_attest w it i occ out n rs = Inr (or_op rec)" by simp
    from accept_attest [OF this, of rec] it obtain eid n' rs' where
      "or_op rec = OpAttest i eid occ out n' rs'" "accepts (fold_attest rec eid occ out n' rs') it"
      by blast
    with acc it(1) show ?thesis by (simp add: apply_op.simps)
  next
    case (CmdClearBlocker i b s)
    with op obtain it where it: "bt_get m i = Some it" "to_clear_blocker it i b = Inr (or_op rec)"
      by auto
    from accept_clear_blocker [OF it(2)] item_okD(2) [OF ledger_ok_get [OF ok it(1)]]
    show ?thesis using acc it(1) by (fastforce simp: apply_op.simps)
  next
    case (CmdPickUp i s)
    with auth authorized_pick_up obtain x where "or_actor rec = Some x" "at_session_id x \<noteq> None"
      by blast
    then have "at_session_id (rec_actor rec) \<noteq> None" by (simp add: rec_actor_def)
    with CmdPickUp op show ?thesis
      by (auto simp: apply_op.simps dest!: accept_pick_up intro: acc)
  next
    case (CmdAddReliesOn i t s)
    with op obtain it where it: "bt_get m i = Some it" "to_add_relies_on m it i t = Inr (or_op rec)"
      by auto
    from accept_add_relies_on [OF it(2)] item_okD(1) [OF ledger_ok_get [OF ok it(1)]]
    show ?thesis using acc it(1) by (fastforce simp: apply_op.simps)
  next
    case (CmdAddPartOf i p s)
    with op obtain it where it: "bt_get m i = Some it" by (auto simp: to_add_part_of_def Let_def)
    from CmdAddPartOf op accept_add_part_of [OF _ it, of p _ rec] it acc show ?thesis
      by (auto simp: apply_op.simps)
  next
    case (CmdAddRelatesTo i t k s)
    with op obtain it where it: "bt_get m i = Some it"
      by (auto simp: to_add_relates_to_def Let_def split: if_splits)
    with CmdAddRelatesTo op show ?thesis
      by (auto simp: apply_op.simps dest!: accept_add_relates_to [OF _ it, of _ _ _ rec] intro: acc)
  next
    case (CmdRemoveRelatesTo i t s)
    with op obtain it where "bt_get m i = Some it" "to_remove_relates_to m it i t = Inr (or_op rec)"
      by auto
    from accept_remove_relates_to [OF this(2,1), of rec] show ?thesis
      by (auto simp: apply_op.simps intro: acc)
  qed (use op in \<open>auto simp: apply_op.simps intro: acc
      dest!: accept_complete [where rec = rec]
        accept_reopen [where rec = rec] accept_retire [where rec = rec]
        accept_answer [where rec = rec] accept_acknowledge [where rec = rec]
        accept_propose [where rec = rec and dig = dig] accept_annotate [where rec = rec]
        accept_set_blocker [where rec = rec] accept_remove_relies_on [where rec = rec]
        accept_remove_part_of [where rec = rec] accept_add_ref [where rec = rec]
        accept_remove_ref [where rec = rec] accept_approve [where rec = rec]
        accept_revoke [where rec = rec] accept_withdraw [where rec = rec]\<close>)
qed

section \<open>What an operation leaves alone\<close>

text \<open>The parts of an item the rails count.\<close>

definition graph_state :: "agenda_item \<Rightarrow> agenda_placement option \<times> agenda_dependency list
    \<times> agenda_relation list \<times> agenda_ref list \<times> agenda_blocker list" where
  "graph_state it = (it_part_of it, it_relies_on it, it_relates_to it, it_refs it, it_blockers it)"

lemma graph_state_simps [simp]:
  "graph_state (touch rec it) = graph_state it" "graph_state (add_note rec msg it) = graph_state it"
  "graph_state (it\<lparr>it_effects := es\<rparr>) = graph_state it"
  "graph_state (it\<lparr>it_annotations := ns\<rparr>) = graph_state it"
  "graph_state (it\<lparr>it_status := st\<rparr>) = graph_state it"
  "graph_state (it\<lparr>it_completed_ms := c\<rparr>) = graph_state it"
  "graph_state (it\<lparr>it_answer := a\<rparr>) = graph_state it"
  "graph_state (it\<lparr>it_dismissed := dm\<rparr>) = graph_state it"
  "graph_state (it\<lparr>it_title := t\<rparr>) = graph_state it" "graph_state (it\<lparr>it_body := b\<rparr>) = graph_state it"
  "graph_state (it\<lparr>it_tags := ts\<rparr>) = graph_state it" "graph_state (it\<lparr>it_due_ms := d\<rparr>) = graph_state it"
  by (simp_all add: graph_state_def touch_def add_note_def)

lemma moot_graph [simp]: "graph_state (moot_proposal rec it) = graph_state it"
  by (auto simp: moot_proposal_def Let_def split: option.splits)

lemma on_effect_graph:
  "on_effect it eid w f = Inr it' \<Longrightarrow>
     graph_state it' = graph_state it \<and> length (it_effects it') = length (it_effects it)"
  by (auto simp: on_effect_def dest: update_first_split)

lemma item_plain_graph:
  "fold_annotate rec msg it = Inr it' \<Longrightarrow> graph_state it' = graph_state it"
  "fold_pick_up rec it = Inr it' \<Longrightarrow> graph_state it' = graph_state it"
  "fold_patch rec p it = Inr it' \<Longrightarrow> graph_state it' = graph_state it"
  "fold_complete rec it = Inr it' \<Longrightarrow> graph_state it' = graph_state it"
  "fold_reopen rec it = Inr it' \<Longrightarrow> graph_state it' = graph_state it"
  "fold_retire rec it = Inr it' \<Longrightarrow> graph_state it' = graph_state it"
  "fold_answer rec msg st it = Inr it' \<Longrightarrow> graph_state it' = graph_state it"
  "fold_acknowledge_answer rec it = Inr it' \<Longrightarrow> graph_state it' = graph_state it"
  "fold_record_ask_delivery rec dl it = Inr it' \<Longrightarrow> graph_state it' = graph_state it"
  "fold_dismiss rec act it = Inr it' \<Longrightarrow> graph_state it' = graph_state it"
  "fold_propose_effect dig rec eid mf it = Inr it' \<Longrightarrow> graph_state it' = graph_state it"
  "fold_withdraw_effect rec eid r it = Inr it' \<Longrightarrow> graph_state it' = graph_state it"
  by (auto simp: fold_annotate_def fold_pick_up_def fold_patch_def fold_complete_def fold_reopen_def
      fold_retire_def fold_answer_def fold_acknowledge_answer_def fold_record_ask_delivery_def
      fold_dismiss_def fold_propose_effect_def fold_withdraw_effect_def Let_def
      split: if_splits option.splits agenda_status.splits)

lemma effect_plain_graph:
  "fold_approve_effect rec eid d it = Inr it' \<Longrightarrow> graph_state it' = graph_state it \<and> length (it_effects it') = length (it_effects it)"
  "fold_revoke_effect rec eid it = Inr it' \<Longrightarrow> graph_state it' = graph_state it \<and> length (it_effects it') = length (it_effects it)"
  "fold_request_occurrence rec eid d t it = Inr it' \<Longrightarrow> graph_state it' = graph_state it \<and> length (it_effects it') = length (it_effects it)"
  "fold_record_occurrence rec eid occ st s n it = Inr it' \<Longrightarrow> graph_state it' = graph_state it \<and> length (it_effects it') = length (it_effects it)"
  "fold_attest rec eid occ out n refs it = Inr it' \<Longrightarrow> graph_state it' = graph_state it \<and> length (it_effects it') = length (it_effects it)"
  unfolding fold_approve_effect_def fold_revoke_effect_def fold_request_occurrence_def
    fold_record_occurrence_def fold_attest_def
  by (auto dest!: on_effect_graph)

lemma length_map_first [simp]: "length (map_first P f xs) = length xs"
  using map_first_split [of P f xs] by auto

lemma length_remove_first: "length (remove_first P xs) \<le> length xs"
  by (induction xs) auto

theorem intake_never_warns_witness:
  "\<exists>v. snd (apply_op demo_dig (fold_records demo_dig [] [rec_of (OpAdd ''a'' Task ''t'' [] [] None None)])
     (rec_of (OpComplete ''a''))) = None
   \<and> command_to_op v (fold_records demo_dig [] [rec_of (OpAdd ''a'' Task ''t'' [] [] None None)]) 5
       (CmdComplete ''a'' None) = Inr (OpComplete ''a'')"
proof -
  let ?m = "fold_records demo_dig [] [rec_of (OpAdd ''a'' Task ''t'' [] [] None None)]"
  have ok: "ledger_ok demo_dig ?m" by (rule fold_records_ok [OF ledger_ok_empty])
  have op: "command_to_op v ?m 5 (CmdComplete ''a'' None) = Inr (or_op (rec_of (OpComplete ''a'')))" for v
    by (simp add: require_def to_complete_def demo_simps)
  have "authorize_command (CmdComplete ''a'' None) (or_actor (rec_of (OpComplete ''a''))) = Inr ()"
    by (simp add: authorize_command_def is_pick_up_def owner_verb_def)
  from intake_never_warns [OF ok this op] op show ?thesis by (auto simp: attest_current_def rec_of_def)
qed

section \<open>The rails as an invariant\<close>

definition uncleared :: "agenda_item \<Rightarrow> agenda_blocker list" where
  "uncleared it = filter (\<lambda>b. bl_cleared b = None) (it_blockers it)"

definition within_limits :: "agenda_item \<Rightarrow> bool" where
  "within_limits it = (length (it_relies_on it) \<le> max_relies_on
     \<and> length (it_relates_to it) \<le> max_relates_to \<and> length (it_refs it) \<le> max_refs_per_item
     \<and> length (uncleared it) \<le> max_uncleared_blockers \<and> length (it_effects it) \<le> 1)"

text \<open>The side conditions the intake checks before an operation is appended.\<close>

definition op_in_limits :: "items \<Rightarrow> agenda_op \<Rightarrow> bool" where
  "op_in_limits m op = (case op of
     OpAddReliesOn i t \<Rightarrow> (\<forall>it. bt_get m i = Some it \<longrightarrow> length (it_relies_on it) < max_relies_on)
   | OpAddRelatesTo i t k \<Rightarrow> (\<forall>it. bt_get m i = Some it \<longrightarrow> length (it_relates_to it) < max_relates_to)
   | OpAddRef i rt l d mr lab \<Rightarrow> (\<forall>it. bt_get m i = Some it \<longrightarrow> length (it_refs it) < max_refs_per_item)
   | OpSetBlocker i b c \<Rightarrow> (\<forall>it. bt_get m i = Some it \<longrightarrow> length (uncleared it) < max_uncleared_blockers)
   | OpProposeEffect i e mf \<Rightarrow> (\<forall>it. bt_get m i = Some it \<longrightarrow>
        (case it_effects it of [] \<Rightarrow> True | x # _ \<Rightarrow> ef_effect_id x = e))
   | _ \<Rightarrow> True)"

text \<open>The operation each command becomes.\<close>

definition op_matches :: "agenda_command \<Rightarrow> agenda_op \<Rightarrow> bool" where
  "op_matches c op = (case c of
     CmdPatch i p s \<Rightarrow> (\<exists>p'. op = OpPatch i p')
   | CmdComplete i s \<Rightarrow> op = OpComplete i
   | CmdReopen i s \<Rightarrow> op = OpReopen i
   | CmdRetire i s \<Rightarrow> op = OpRetire i
   | CmdAnswer i t st s \<Rightarrow> (\<exists>t' st'. op = OpAnswer i t' st')
   | CmdAcknowledgeAnswer i s \<Rightarrow> op = OpAcknowledgeAnswer i
   | CmdProposeEffect i p s \<Rightarrow> (\<exists>e mf. op = OpProposeEffect i e mf)
   | CmdAnnotate i t s \<Rightarrow> (\<exists>t'. op = OpAnnotate i t')
   | CmdPickUp i s \<Rightarrow> op = OpPickUp i
   | CmdAttest i occ out n rs s \<Rightarrow> (\<exists>e n' rs'. op = OpAttest i e occ out n' rs')
   | CmdSetBlocker i b s \<Rightarrow> (\<exists>b' b''. op = OpSetBlocker i b' b'')
   | CmdClearBlocker i b s \<Rightarrow> (\<exists>b'. op = OpClearBlocker i b')
   | CmdAddReliesOn i t s \<Rightarrow> op = OpAddReliesOn i (trim t)
   | CmdRemoveReliesOn i t s \<Rightarrow> op = OpRemoveReliesOn i (trim t)
   | CmdAddPartOf i p s \<Rightarrow> op = OpAddPartOf i (trim p)
   | CmdRemovePartOf i p s \<Rightarrow> (\<exists>q. op = OpRemovePartOf i q)
   | CmdAddRelatesTo i t k s \<Rightarrow> op = OpAddRelatesTo i (trim t) (explicit_choice k)
   | CmdRemoveRelatesTo i t s \<Rightarrow> op = OpRemoveRelatesTo i (trim t) \<or> op = OpRemoveRelatesTo (trim t) i
   | CmdAddRef i rt l mr lab s \<Rightarrow> (\<exists>rt' l' d mr' lab'. op = OpAddRef i rt' l' d mr' lab')
   | CmdRemoveRef i rt l s \<Rightarrow> op = OpRemoveRef i rt (trim l)
   | CmdApproveEffect i d \<Rightarrow> (\<exists>e d'. op = OpApproveEffect i e d')
   | CmdRevokeEffect i \<Rightarrow> (\<exists>e. op = OpRevokeEffect i e)
   | CmdWithdrawEffect i r s \<Rightarrow> (\<exists>e r'. op = OpWithdrawEffect i e r')
   | _ \<Rightarrow> False)"

lemma intake_shape:
  assumes "command_to_op w m now c = Inr op"
  shows "op_matches c op"
proof -
  obtain rec :: op_record where "or_op rec = op"
    using op_record.select_convs(5) by metis
  have attest: "\<exists>e n' rs'. op = OpAttest i e occ out n' rs'" if "to_attest w it i occ out n rs = Inr op"
    for it i occ out n rs using that by (auto simp: to_attest_def split: list.splits)
  have pick: "op = OpPickUp i" if "to_pick_up it i = Inr op" for it i
    using that by (auto simp: to_pick_up_def split: if_splits)
  have clear: "\<exists>b. op = OpClearBlocker i b" if "to_clear_blocker it i n = Inr op" for it i n
    using that by (auto simp: to_clear_blocker_def split: list.splits)
  have propose: "\<exists>e mf. op = OpProposeEffect i e mf" if "to_propose w it i p now = Inr op" for it i p
    using accept_propose [OF that] by blast
  have ref: "\<exists>rt' l' d mr' lab'. op = OpAddRef i rt' l' d mr' lab'"
    if "to_add_ref w it i rt l mr lab = Inr op" for it i rt l mr lab
    using accept_add_ref [OF that] by blast
  have block: "\<exists>b' b''. op = OpSetBlocker i b' b''" if "to_set_blocker w it i b now = Inr op" for it i b
    using accept_set_blocker [OF that] by blast
  have patch: "\<exists>p'. op = OpPatch i p'" if "to_patch p i = Inr op" for i p
    using accept_patch [OF that] by blast
  have part: "\<exists>q. op = OpRemovePartOf i q" if "to_remove_part_of it i p = Inr op" for it i p
    using accept_remove_part_of [OF that] by blast
  have edges: "to_add_relies_on m it i t = Inr op \<Longrightarrow> op = OpAddReliesOn i (trim t)"
    "to_remove_relies_on it i t = Inr op \<Longrightarrow> op = OpRemoveReliesOn i (trim t)"
    "to_add_part_of m i t = Inr op \<Longrightarrow> op = OpAddPartOf i (trim t)"
    "to_add_relates_to m i t k = Inr op \<Longrightarrow> op = OpAddRelatesTo i (trim t) (explicit_choice k)"
    "to_remove_relates_to m it i t = Inr op \<Longrightarrow>
       op = OpRemoveRelatesTo i (trim t) \<or> op = OpRemoveRelatesTo (trim t) i"
    "to_remove_ref it i rt t = Inr op \<Longrightarrow> op = OpRemoveRef i rt (trim t)" for it i t k rt
    by (auto simp: to_add_relies_on_def to_remove_relies_on_def to_add_part_of_def
        to_add_relates_to_def to_remove_relates_to_def to_remove_ref_def Let_def split: if_splits)
  show ?thesis
    using assms
    by (cases c) (auto simp: op_matches_def
        dest: attest pick clear propose ref block patch part edges
          accept_complete [where rec = rec] accept_reopen [where rec = rec]
          accept_retire [where rec = rec] accept_answer [where rec = rec]
          accept_acknowledge [where rec = rec] accept_annotate [where rec = rec]
          accept_approve [where rec = rec] accept_revoke [where rec = rec]
          accept_withdraw [where rec = rec])
qed

lemma intake_in_limits:
  assumes "command_to_op w m now c = Inr op"
  shows "op_in_limits m op"
proof -
  have propose: "op_in_limits m op" if "to_propose w it i p now = Inr op" "bt_get m i = Some it" for it i p
  proof -
    from accept_propose [OF that(1)] obtain mf where
      "op = OpProposeEffect i (session_effect_id (ie_sha w) it i (pp_fire_at_ms p)) mf" by blast
    with that(2) show ?thesis
      by (simp add: op_in_limits_def session_effect_id_def split: list.split)
  qed
  have ref: "op_in_limits m op" if "to_add_ref w it i rt l mr lab = Inr op" "bt_get m i = Some it"
    for it i rt l mr lab
    using that by (auto simp: op_in_limits_def to_add_ref_def split: if_splits)
  show ?thesis
  proof (cases c)
    case (CmdAddReliesOn i t s)
    with assms show ?thesis
      by (auto simp: op_in_limits_def to_add_relies_on_def Let_def split: if_splits)
  next
    case (CmdAddRelatesTo i t k s)
    with assms show ?thesis
      by (auto simp: op_in_limits_def to_add_relates_to_def Let_def split: if_splits)
  next
    case (CmdSetBlocker i b s)
    with assms show ?thesis
      by (auto simp: op_in_limits_def to_set_blocker_def uncleared_def Let_def split: if_splits)
  next
    case (CmdProposeEffect i p s)
    with assms propose show ?thesis by auto
  next
    case (CmdAddRef i rt l mr lab s)
    with assms ref show ?thesis by auto
  qed (use intake_shape [OF assms] in \<open>auto simp: op_matches_def op_in_limits_def\<close>)
qed

lemma within_graph:
  "graph_state it' = graph_state it \<Longrightarrow> length (it_effects it') \<le> length (it_effects it)
     \<Longrightarrow> within_limits it \<Longrightarrow> within_limits it'"
  by (simp add: within_limits_def graph_state_def uncleared_def)

lemma within_same:
  "graph_state it' = graph_state it \<Longrightarrow> it_effects it' = it_effects it
     \<Longrightarrow> within_limits it \<Longrightarrow> within_limits it'"
  by (rule within_graph) simp_all

lemma plain_limits:
  assumes "within_limits it"
  shows "fold_annotate rec msg it = Inr it' \<Longrightarrow> within_limits it'"
    and "fold_pick_up rec it = Inr it' \<Longrightarrow> within_limits it'"
    and "fold_patch rec p it = Inr it' \<Longrightarrow> within_limits it'"
    and "fold_reopen rec it = Inr it' \<Longrightarrow> within_limits it'"
    and "fold_retire rec it = Inr it' \<Longrightarrow> within_limits it'"
    and "fold_answer rec msg st it = Inr it' \<Longrightarrow> within_limits it'"
    and "fold_acknowledge_answer rec it = Inr it' \<Longrightarrow> within_limits it'"
    and "fold_record_ask_delivery rec dl it = Inr it' \<Longrightarrow> within_limits it'"
    and "fold_dismiss rec act it = Inr it' \<Longrightarrow> within_limits it'"
    and "fold_approve_effect rec eid d it = Inr it' \<Longrightarrow> within_limits it'"
    and "fold_revoke_effect rec eid it = Inr it' \<Longrightarrow> within_limits it'"
    and "fold_request_occurrence rec eid d t it = Inr it' \<Longrightarrow> within_limits it'"
    and "fold_record_occurrence rec eid occ rst s n it = Inr it' \<Longrightarrow> within_limits it'"
    and "fold_attest rec eid occ out n refs it = Inr it' \<Longrightarrow> within_limits it'"
  using assms
  by (auto simp: within_limits_def uncleared_def graph_state_def
      dest: item_plain_graph effect_plain_graph plain_effects)

lemma complete_limits: "within_limits it \<Longrightarrow> fold_complete rec it = Inr it' \<Longrightarrow> within_limits it'"
proof (rule within_graph)
  assume "fold_complete rec it = Inr it'"
  then show "graph_state it' = graph_state it" by (rule item_plain_graph)
  from \<open>fold_complete rec it = Inr it'\<close> show "length (it_effects it') \<le> length (it_effects it)"
    by (auto simp: fold_complete_def moot_proposal_def touch_def Let_def length_remove_first
        split: agenda_status.splits option.splits)
qed

lemma withdraw_limits:
  "within_limits it \<Longrightarrow> fold_withdraw_effect rec eid r it = Inr it' \<Longrightarrow> within_limits it'"
proof (rule within_graph)
  assume "fold_withdraw_effect rec eid r it = Inr it'"
  then show "graph_state it' = graph_state it" by (rule item_plain_graph)
  from \<open>fold_withdraw_effect rec eid r it = Inr it'\<close>
  show "length (it_effects it') \<le> length (it_effects it)"
    by (auto simp: fold_withdraw_effect_def touch_def Let_def length_remove_first
        split: if_splits option.splits)
qed

lemma propose_limits:
  assumes "within_limits it" "fold_propose_effect dig rec eid mf it = Inr it'"
    and "case it_effects it of [] \<Rightarrow> True | x # _ \<Rightarrow> ef_effect_id x = eid"
  shows "within_limits it'"
proof -
  have "length (it_effects it') \<le> 1"
    using assms by (auto simp: fold_propose_effect_def within_limits_def touch_def Let_def
        split: list.splits)
  moreover have "graph_state it' = graph_state it"
    using assms(2) by (rule item_plain_graph)
  ultimately show ?thesis using assms(1) by (simp add: within_limits_def graph_state_def uncleared_def)
qed

lemma clear_blocker_limits:
  assumes "within_limits it" "fold_clear_blocker rec b it = Inr it'"
  shows "within_limits it'"
proof -
  obtain pre x y post where "it_blockers it = pre @ x # post" "it_blockers it' = pre @ y # post"
    and y: "bl_cleared y \<noteq> None" and same: "it_relies_on it' = it_relies_on it"
    "it_relates_to it' = it_relates_to it" "it_refs it' = it_refs it" "it_effects it' = it_effects it"
    using assms(2) by (auto simp: fold_clear_blocker_def touch_def dest!: update_first_split
        split: if_splits)
  then have "length (uncleared it') \<le> length (uncleared it)" by (auto simp: uncleared_def)
  with assms(1) same show ?thesis by (simp add: within_limits_def)
qed

lemma shrink_limits:
  assumes "within_limits it"
  shows "fold_remove_relies_on rec t it = Inr it' \<Longrightarrow> within_limits it'"
    and "fold_remove_relates_to rec t it = Inr it' \<Longrightarrow> within_limits it'"
    and "fold_remove_ref rec rt l it = Inr it' \<Longrightarrow> within_limits it'"
    and "fold_add_part_of rec p it = Inr it' \<Longrightarrow> within_limits it'"
    and "fold_remove_part_of rec p it = Inr it' \<Longrightarrow> within_limits it'"
  using assms
  by (auto simp: fold_remove_relies_on_def fold_remove_relates_to_def fold_remove_ref_def
      fold_add_part_of_def fold_remove_part_of_def Let_def within_limits_def uncleared_def touch_def
      intro: order_trans [OF length_filter_le] split: if_splits option.splits)

lemma grow_limits:
  assumes "within_limits it"
  shows "length (it_relies_on it) < max_relies_on \<Longrightarrow>
      fold_add_relies_on rec t it = Inr it' \<Longrightarrow> within_limits it'"
    and "length (it_relates_to it) < max_relates_to \<Longrightarrow>
      fold_add_relates_to rec t k it = Inr it' \<Longrightarrow> within_limits it'"
    and "length (it_refs it) < max_refs_per_item \<Longrightarrow>
      fold_add_ref rec rt l d mr lab it = Inr it' \<Longrightarrow> within_limits it'"
    and "length (uncleared it) < max_uncleared_blockers \<Longrightarrow>
      fold_set_blocker rec b c it = Inr it' \<Longrightarrow> within_limits it'"
  using assms
  by (auto simp: fold_add_relies_on_def fold_add_relates_to_def fold_add_ref_def fold_set_blocker_def
      within_limits_def uncleared_def touch_def split: if_splits)

lemma add_limits: "within_limits (fold_add rec i k t b ts d a)"
  by (simp add: within_limits_def fold_add_def uncleared_def)

definition all_within :: "items \<Rightarrow> bool" where
  "all_within m = (\<forall>i it. bt_get m i = Some it \<longrightarrow> within_limits it)"

lemma all_within_on_item:
  assumes "all_within m" "on_item m i verb f = (m', None)"
    and "\<And>it it'. bt_get m i = Some it \<Longrightarrow> within_limits it \<Longrightarrow> f it = Inr it' \<Longrightarrow> within_limits it'"
  shows "all_within m'"
  using on_item_ok [OF assms(2)] assms(1,3) by (auto simp: all_within_def split: if_splits)

lemma limits_kept:
  assumes "all_within m" "op_in_limits m (or_op rec)" "apply_op dig m rec = (m', None)"
  shows "all_within m'"
proof (cases "or_op rec")
  case (OpAdd i k t b ts d a)
  with assms show ?thesis
    by (auto simp: apply_op.simps all_within_def add_limits split: if_splits)
next
  case (OpProposeEffect i e mf)
  with assms show ?thesis
    by (auto simp: apply_op.simps op_in_limits_def elim!: all_within_on_item intro: propose_limits)
next
  case (OpAddReliesOn i t)
  with assms show ?thesis
    by (auto simp: apply_op.simps op_in_limits_def elim!: all_within_on_item intro: grow_limits)
next
  case (OpAddRelatesTo i t k)
  with assms show ?thesis
    by (auto simp: apply_op.simps op_in_limits_def elim!: all_within_on_item intro: grow_limits
        split: if_splits)
next
  case (OpAddRef i rt l d mr lab)
  with assms show ?thesis
    by (auto simp: apply_op.simps op_in_limits_def elim!: all_within_on_item intro: grow_limits)
next
  case (OpSetBlocker i b c)
  with assms show ?thesis
    by (auto simp: apply_op.simps op_in_limits_def elim!: all_within_on_item intro: grow_limits)
qed (use assms in \<open>auto simp: apply_op.simps elim!: all_within_on_item split: if_splits
      intro: plain_limits complete_limits withdraw_limits clear_blocker_limits shrink_limits\<close>)

section \<open>The placement forest\<close>

text \<open>\<open>climb f k x\<close> is the ancestor \<open>k\<close> steps above \<open>x\<close>, along the partial parent function \<open>f\<close>.\<close>

fun climb :: "(string \<Rightarrow> string option) \<Rightarrow> nat \<Rightarrow> string \<Rightarrow> string option" where
  "climb f 0 x = Some x"
| "climb f (Suc k) x = Option.bind (f x) (climb f k)"

lemma climb_add: "climb f (j + k) x = Option.bind (climb f j x) (climb f k)"
  by (induction j arbitrary: x) (auto split: bind_splits)

lemma climb_Suc_end: "climb f (Suc k) x = Some y \<longleftrightarrow> (\<exists>z. climb f k x = Some z \<and> f z = Some y)"
  using climb_add [of f k 1 x] by (auto simp: bind_eq_Some_conv)

lemma climb_None_le: "climb f k x = None \<Longrightarrow> k \<le> n \<Longrightarrow> climb f n x = None"
  using climb_add [of f k "n - k" x] by simp

lemma climb_sub:
  "\<forall>x. g x = None \<or> g x = f x \<Longrightarrow> climb g k x = Some y \<Longrightarrow> climb f k x = Some y"
proof (induction k arbitrary: x)
  case (Suc k)
  then obtain z where "g x = Some z" "climb g k z = Some y" by (auto simp: bind_eq_Some_conv)
  moreover from this Suc.prems(1) have "f x = Some z" by (metis option.distinct(1))
  ultimately show ?case using Suc by simp
qed simp

lemma climb_avoid:
  "(\<forall>j < k. climb f j x \<noteq> Some i) \<Longrightarrow> climb (f(i := v)) k x = climb f k x"
proof (induction k arbitrary: x)
  case (Suc k)
  have "x \<noteq> i" using Suc.prems by force
  moreover have "climb (f(i := v)) k y = climb f k y" if "f x = Some y" for y
    using that Suc.prems by (intro Suc.IH) (auto dest: spec [of _ "Suc _"])
  ultimately show ?case by (cases "f x") (simp_all del: fun_upd_apply add: fun_upd_other)
qed simp

definition forest :: "(string \<Rightarrow> string option) \<Rightarrow> bool" where
  "forest f = (\<forall>x. climb f max_part_of_depth x = None)"

definition hubs_ok :: "(string \<Rightarrow> string option) \<Rightarrow> bool" where
  "hubs_ok f = (finite (dom f) \<and> (\<forall>p. card {k. f k = Some p} \<le> max_children_per_hub))"

text \<open>What the placement check establishes about the proposed edge.\<close>

definition may_place :: "(string \<Rightarrow> string option) \<Rightarrow> string \<Rightarrow> string \<Rightarrow> bool" where
  "may_place f i p = ((\<forall>k. climb f k p \<noteq> Some i)
     \<and> (\<exists>a h. climb f a p = None \<and> (\<forall>k x. climb f k x = Some i \<longrightarrow> k \<le> h)
              \<and> a + 1 + h \<le> max_part_of_depth)
     \<and> card {k. f k = Some p} < max_children_per_hub)"

lemma forest_acyclic: "forest f \<Longrightarrow> climb f (Suc k) x \<noteq> Some x"
proof
  assume a: "forest f" "climb f (Suc k) x = Some x"
  have "climb f (n * Suc k) x = Some x" for n
  proof (induction n)
    case (Suc n)
    have "Suc n * Suc k = Suc k + n * Suc k" by simp
    then have "climb f (Suc n * Suc k) x = Option.bind (climb f (Suc k) x) (climb f (n * Suc k))"
      by (metis climb_add)
    then show ?case unfolding a(2) using Suc by (metis bind.bind_lunit)
  qed simp
  then have "climb f (max_part_of_depth * Suc k) x = Some x" .
  moreover have "climb f (max_part_of_depth * Suc k) x = None"
    by (rule climb_None_le [of _ max_part_of_depth]) (use a(1) in \<open>auto simp: forest_def\<close>)
  ultimately show False by simp
qed

lemma forest_sub: "\<forall>x. g x = None \<or> g x = f x \<Longrightarrow> forest f \<Longrightarrow> forest g"
  unfolding forest_def using climb_sub by (metis option.exhaust option.distinct(1))

lemma hubs_sub:
  assumes "\<forall>x. g x = None \<or> g x = f x" "hubs_ok f"
  shows "hubs_ok g"
proof -
  have sub: "{k. g k = Some p} \<subseteq> {k. f k = Some p}" for p
    using assms(1) by (metis (mono_tags, lifting) Collect_mono option.distinct(1))
  have "dom g \<subseteq> dom f"
  proof
    fix x assume "x \<in> dom g"
    then have "g x \<noteq> None" by (simp add: dom_def)
    moreover from this assms(1) have "g x = f x" by metis
    ultimately show "x \<in> dom f" by (simp add: dom_def)
  qed
  moreover have "finite {k. f k = Some p}" for p
    using assms(2) by (auto simp: hubs_ok_def dom_def intro: rev_finite_subset)
  ultimately show ?thesis
    using assms(2) sub card_mono order_trans finite_subset unfolding hubs_ok_def by metis
qed

lemma may_place_sub:
  assumes "\<forall>x. g x = None \<or> g x = f x" "hubs_ok f" "may_place f i p"
  shows "may_place g i p"
proof -
  have "{k. g k = Some p} \<subseteq> {k. f k = Some p}"
    using assms(1) by (metis (mono_tags, lifting) Collect_mono option.distinct(1))
  moreover have "finite {k. f k = Some p}"
    using assms(2) by (auto simp: hubs_ok_def dom_def intro: rev_finite_subset)
  ultimately have "card {k. g k = Some p} < max_children_per_hub"
    using assms(3) card_mono le_less_trans unfolding may_place_def by blast
  moreover obtain a h where "climb f a p = None" "\<forall>k x. climb f k x = Some i \<longrightarrow> k \<le> h"
    "a + 1 + h \<le> max_part_of_depth" using assms(3) by (auto simp: may_place_def)
  moreover from this have "climb g a p = None" "\<forall>k x. climb g k x = Some i \<longrightarrow> k \<le> h"
    using climb_sub [OF assms(1)] by (metis option.exhaust option.distinct(1), blast)
  ultimately show ?thesis
    using assms(3) climb_sub [OF assms(1)] unfolding may_place_def by metis
qed

lemma place_forest:
  assumes "forest f" "may_place f i p"
  shows "forest (f(i := Some p))"
  unfolding forest_def
proof
  fix x
  let ?f = "f(i := Some p)"
  obtain a h where a: "climb f a p = None" "\<forall>k x. climb f k x = Some i \<longrightarrow> k \<le> h"
    "a + 1 + h \<le> max_part_of_depth" using assms(2) by (auto simp: may_place_def)
  show "climb ?f max_part_of_depth x = None"
  proof (cases "\<exists>k. climb f k x = Some i")
    case True
    define k where "k = (LEAST k. climb f k x = Some i)"
    have k: "climb f k x = Some i" "\<forall>j < k. climb f j x \<noteq> Some i"
      using True unfolding k_def by (auto intro: LeastI dest: not_less_Least)
    have "climb ?f k x = Some i" using climb_avoid [OF k(2), of "Some p"] k(1) by simp
    moreover have "climb ?f a p = None"
      using climb_avoid [of a f p i "Some p"] assms(2) a(1) by (simp add: may_place_def)
    ultimately have "climb ?f (k + Suc a) x = None"
      unfolding climb_add by simp
    moreover have "k \<le> h" using a(2) k(1) by blast
    then have "k + Suc a \<le> max_part_of_depth" using a(3) by linarith
    ultimately show ?thesis by (rule climb_None_le)
  next
    case False
    then show ?thesis
      using climb_avoid [of max_part_of_depth f x i "Some p"] assms(1) by (simp add: forest_def)
  qed
qed

lemma place_hubs:
  assumes "hubs_ok f" "may_place f i p"
  shows "hubs_ok (f(i := Some p))"
  unfolding hubs_ok_def
proof (intro conjI allI)
  have fin: "finite {k. f k = Some q}" for q
    using assms(1) by (auto simp: hubs_ok_def dom_def intro: rev_finite_subset)
  show "finite (dom (f(i := Some p)))" using assms(1) by (simp add: hubs_ok_def)
  fix q
  have "{k. (f(i := Some p)) k = Some q} \<subseteq> (if q = p then insert i {k. f k = Some q} else {k. f k = Some q})"
    by (auto split: if_splits)
  then have "card {k. (f(i := Some p)) k = Some q}
      \<le> card (if q = p then insert i {k. f k = Some q} else {k. f k = Some q})"
    by (rule card_mono [rotated]) (simp add: fin)
  also have "\<dots> \<le> max_children_per_hub"
    using assms fin card_insert_le_m1 [of max_children_per_hub "{k. f k = Some q}" i]
    by (auto simp: hubs_ok_def may_place_def table_simps)
  finally show "card {k. (f(i := Some p)) k = Some q} \<le> max_children_per_hub" .
qed

section \<open>The placement check establishes it\<close>

lemma ancestor_walk_sound:
  "ancestor_walk m i room n c = Inr a \<Longrightarrow>
     n \<le> a \<and> a \<le> n + room \<and> climb (parent_of m) (Suc a - n) c = None
     \<and> (\<forall>k. climb (parent_of m) (Suc k) c \<noteq> Some i)"
proof (induction m i room n c rule: ancestor_walk.induct)
  case (1 m i n c)
  then show ?case by (auto split: option.splits if_splits)
next
  case (2 m i room n c)
  show ?case
  proof (cases "parent_of m c")
    case None
    with "2.prems" show ?thesis by auto
  next
    case (Some p)
    with "2.prems" have walk: "p \<noteq> i" "ancestor_walk m i room (Suc n) p = Inr a"
      by (auto split: if_splits)
    from "2.IH" [OF Some walk] have ih: "Suc n \<le> a" "a \<le> Suc n + room"
      "climb (parent_of m) (a - n) p = None" "\<forall>k. climb (parent_of m) (Suc k) p \<noteq> Some i" by auto
    have "climb (parent_of m) k p \<noteq> Some i" for k
      using ih(4) walk(1) by (cases k) auto
    moreover have "Suc a - n = Suc (a - n)" using ih(1) by simp
    ultimately show ?thesis using ih Some by simp
  qed
qed

lemma parent_of_mem:
  assumes "ledger_ok dig m" "parent_of m y = Some f" "f \<in> set frontier"
  shows "y \<in> set (children_of m frontier)"
proof -
  obtain it p where it: "bt_get m y = Some it" "it_part_of it = Some p" "pl_parent_id p = f"
    using assms(2) by (auto simp: parent_of_def bind_eq_Some_conv)
  then have "(y, it) \<in> set m" by (auto dest: map_of_SomeD)
  moreover have "it_id it = y"
    using item_okD(1) [OF ledger_ok_get [OF assms(1) it(1)]] .
  ultimately show ?thesis
    using it assms(3) unfolding children_of_def set_map set_filter by force
qed

lemma subtree_rounds_ge: "h \<le> subtree_rounds m room h frontier"
  by (induction m room h frontier rule: subtree_rounds.induct) (auto simp: Let_def)

lemma subtree_rounds_reach:
  "ledger_ok dig m \<Longrightarrow> climb (parent_of m) k x = Some y \<Longrightarrow> y \<in> set frontier \<Longrightarrow> k \<le> room
    \<Longrightarrow> h + k \<le> subtree_rounds m room h frontier"
proof (induction m room h frontier arbitrary: k y rule: subtree_rounds.induct)
  case (2 m room h frontier)
  show ?case
  proof (cases k)
    case (Suc j)
    then obtain z where z: "climb (parent_of m) j x = Some z" "parent_of m z = Some y"
      using "2.prems"(2) climb_Suc_end by blast
    have "z \<in> set (children_of m frontier)"
      by (rule parent_of_mem [OF "2.prems"(1) z(2) "2.prems"(3)])
    then have ne: "children_of m frontier \<noteq> []" by auto
    have "Suc h + j \<le> subtree_rounds m room (Suc h) (children_of m frontier)"
      using "2.IH" [OF refl ne "2.prems"(1) z(1)] \<open>z \<in> _\<close> "2.prems"(4) Suc by simp
    with ne Suc show ?thesis by simp
  qed (use subtree_rounds_ge [of h m "Suc room" frontier] in simp)
qed (use subtree_rounds_ge in simp)

lemma length_children:
  assumes "ledger_ok dig m"
  shows "length (children_of m [p]) = card {k. parent_of m k = Some p}"
proof -
  let ?Q = "\<lambda>(k, it). case it_part_of it of None \<Rightarrow> False | Some q \<Rightarrow> pl_parent_id q \<in> set [p]"
  have dist: "distinct (map fst m)"
    using assms bt_wf_distinct by (auto simp: ledger_ok_def)
  have "length (children_of m [p]) = length (map fst (filter ?Q m))"
    by (simp add: children_of_def)
  also have "\<dots> = card (set (map fst (filter ?Q m)))"
    by (rule distinct_card [symmetric]) (rule distinct_map_filter [OF dist])
  also have "set (map fst (filter ?Q m)) = {k. parent_of m k = Some p}"
    using dist
    by (force simp: parent_of_def bind_eq_Some_conv split: option.splits dest: map_of_SomeD)
  finally show ?thesis .
qed

lemma validate_may_place:
  assumes ok: "ledger_ok dig m" and "forest (parent_of m)" and "validate_placement m i p = Inr ()"
  shows "may_place (parent_of m) i p"
proof -
  let ?f = "parent_of m"
  from assms(3) obtain a where a: "p \<noteq> i" "ancestor_walk m i (max_part_of_depth - 1) 1 p = Inr a"
    "a + 1 + subtree_height m i \<le> max_part_of_depth"
    "length (children_of m [p]) < max_children_per_hub"
    by (auto simp: validate_placement_def split: if_splits)
  from ancestor_walk_sound [OF a(2)] have walk: "climb ?f a p = None"
    "\<forall>k. climb ?f (Suc k) p \<noteq> Some i" by auto
  have "climb ?f k p \<noteq> Some i" for k
    using walk(2) a(1) by (cases k) auto
  moreover have "k \<le> subtree_height m i" if "climb ?f k x = Some i" for k x
  proof -
    have "k \<le> Suc max_part_of_depth"
      using that assms(2) climb_None_le [of ?f max_part_of_depth x k] by (force simp: forest_def)
    then show ?thesis
      using subtree_rounds_reach [OF ok that, of "[i]" "Suc max_part_of_depth" 0]
      by (simp add: subtree_height_def)
  qed
  ultimately show ?thesis
    using walk(1) a(3,4) length_children [OF ok] unfolding may_place_def by metis
qed

section \<open>Every operation keeps it\<close>

definition op_in_forest :: "items \<Rightarrow> agenda_op \<Rightarrow> bool" where
  "op_in_forest m op = (case op of
     OpAddPartOf i p \<Rightarrow> may_place (parent_of m) i p
   | _ \<Rightarrow> True)"

definition item_parent :: "agenda_item \<Rightarrow> string option" where
  "item_parent it = map_option pl_parent_id (it_part_of it)"

lemma parent_of_item: "parent_of m x = Option.bind (bt_get m x) item_parent"
  by (cases "bt_get m x") (simp_all add: parent_of_def item_parent_def)

lemma graph_parent: "graph_state it' = graph_state it \<Longrightarrow> item_parent it' = item_parent it"
  by (simp add: graph_state_def item_parent_def)

lemma parent_of_on_item:
  assumes "on_item m i verb f = (m', None)"
    and "\<And>it it'. f it = Inr it' \<Longrightarrow> item_parent it' = None \<or> item_parent it' = item_parent it"
  shows "\<forall>x. parent_of m' x = None \<or> parent_of m' x = parent_of m x"
proof -
  obtain it it' where it: "bt_get m i = Some it" "f it = Inr it'" "m' = bt_put i it' m"
    using on_item_ok [OF assms(1)] by blast
  from assms(2) [OF it(2)] it(1,3) show ?thesis by (auto simp: parent_of_item)
qed

lemma edge_parent:
  "fold_set_blocker rec b c it = Inr it' \<Longrightarrow> item_parent it' = item_parent it"
  "fold_clear_blocker rec b it = Inr it' \<Longrightarrow> item_parent it' = item_parent it"
  "fold_add_relies_on rec t it = Inr it' \<Longrightarrow> item_parent it' = item_parent it"
  "fold_remove_relies_on rec t it = Inr it' \<Longrightarrow> item_parent it' = item_parent it"
  "fold_add_relates_to rec t k it = Inr it' \<Longrightarrow> item_parent it' = item_parent it"
  "fold_remove_relates_to rec t it = Inr it' \<Longrightarrow> item_parent it' = item_parent it"
  "fold_add_ref rec rt l d mr lab it = Inr it' \<Longrightarrow> item_parent it' = item_parent it"
  "fold_remove_ref rec rt l it = Inr it' \<Longrightarrow> item_parent it' = item_parent it"
  "fold_remove_part_of rec p it = Inr it' \<Longrightarrow> item_parent it' = None"
  by (auto simp: fold_set_blocker_def fold_clear_blocker_def fold_add_relies_on_def
      fold_remove_relies_on_def fold_add_relates_to_def fold_remove_relates_to_def fold_add_ref_def
      fold_remove_ref_def fold_remove_part_of_def item_parent_def touch_def Let_def split: if_splits)

lemma parent_shrinks:
  assumes "apply_op dig m rec = (m', None)" "\<forall>i p. or_op rec \<noteq> OpAddPartOf i p"
  shows "\<forall>x. parent_of m' x = None \<or> parent_of m' x = parent_of m x"
proof (cases "or_op rec")
  case (OpAdd i k t b ts d a)
  with assms(1) show ?thesis
    by (auto simp: apply_op.simps parent_of_item fold_add_def item_parent_def split: if_splits)
qed (use assms in \<open>auto simp: apply_op.simps split: if_splits elim!: parent_of_on_item [rule_format]
      dest: edge_parent item_plain_graph [THEN graph_parent]
        effect_plain_graph [THEN conjunct1, THEN graph_parent]\<close>)

definition placement_ok_ledger :: "items \<Rightarrow> bool" where
  "placement_ok_ledger m = (forest (parent_of m) \<and> hubs_ok (parent_of m))"

lemma forest_kept:
  assumes "placement_ok_ledger m" "op_in_forest m (or_op rec)" "apply_op dig m rec = (m', None)"
  shows "placement_ok_ledger m'"
proof (cases "\<exists>i p. or_op rec = OpAddPartOf i p")
  case True
  then obtain i p where op: "or_op rec = OpAddPartOf i p" by blast
  with assms(3) obtain it it' where it: "bt_get m i = Some it" "fold_add_part_of rec p it = Inr it'"
    "m' = bt_put i it' m" by (auto simp: apply_op.simps split: if_splits dest!: on_item_ok)
  then have "item_parent it' = Some p"
    by (auto simp: fold_add_part_of_def item_parent_def touch_def split: option.splits)
  with it(3) have "parent_of m' = (parent_of m)(i := Some p)"
    by (auto simp: parent_of_item fun_eq_iff)
  then show ?thesis
    using assms(1,2) op place_forest place_hubs
    by (simp add: placement_ok_ledger_def op_in_forest_def)
next
  case False
  with parent_shrinks [OF assms(3)] assms(1) forest_sub hubs_sub show ?thesis
    unfolding placement_ok_ledger_def by blast
qed

lemma intake_in_forest:
  assumes "ledger_ok dig m" "placement_ok_ledger m" "command_to_op w m now c = Inr op"
  shows "op_in_forest m op"
proof (cases "\<exists>i p. op = OpAddPartOf i p")
  case True
  then obtain i p where op: "op = OpAddPartOf i p" by blast
  with intake_shape [OF assms(3)] obtain q s where "c = CmdAddPartOf i q s" "p = trim q"
    by (cases c) (auto simp: op_matches_def)
  with assms(3) have "validate_placement m i p = Inr ()"
    by (auto simp: to_add_part_of_def Let_def split: if_splits)
  then show ?thesis
    using op validate_may_place assms(1,2) by (simp add: op_in_forest_def placement_ok_ledger_def)
qed (auto simp: op_in_forest_def split: agenda_op.splits)

end
