(* ===== verification/AgendaLog.thy ===== *)
theory AgendaLog
  imports AgendaRails TextLines
begin

text \<open>
  The log file of the agenda (\<open>store.rs\<close>): the lines of the file, the two-phase parse of a
  line, the fold of the bytes, opening, refreshing from a file other daemons append to, and
  appending. The file is a byte string; a store is the state folded from a prefix of it. The
  JSON parser and serializer and the ULID codec are arguments; a line is handed to the parser
  as its bytes, so the replacement of malformed UTF-8 is part of that argument.
\<close>

section \<open>A trimmed carriage return\<close>

lemma starts_with_snoc: "starts_with (x @ [c]) w \<longleftrightarrow> starts_with x w \<or> w = x @ [c]"
proof
  assume "starts_with (x @ [c]) w"
  then obtain r where "x @ [c] = w @ r" by (auto simp: starts_with_iff)
  then show "starts_with x w \<or> w = x @ [c]"
    by (cases r rule: rev_cases) (auto simp: starts_with_iff)
qed (auto simp: starts_with_iff)

lemma strip_one_snoc:
  assumes "\<forall>w \<in> set ws. length w \<le> 1 \<or> last w \<noteq> c" "x \<noteq> []"
  shows "strip_one ws (x @ [c]) = map_option (\<lambda>t. t @ [c]) (strip_one ws x)"
  using assms
proof (induction ws)
  case (Cons w ws)
  have ne: "w \<noteq> x @ [c]" using Cons.prems by (cases x) auto
  show ?case
  proof (cases "starts_with x w")
    case True
    then have "length w \<le> length x" by (auto simp: starts_with_iff)
    with True Cons show ?thesis by (auto simp: starts_with_snoc)
  next
    case False
    with ne Cons show ?thesis by (simp add: starts_with_snoc)
  qed
qed simp

lemma strip_one_single:
  assumes "\<forall>w \<in> set ws. w = [c] \<or> \<not> starts_with (c # y) w \<or> w = []" "[c] \<in> set ws"
  shows "strip_one ws (c # y) = Some y"
  using assms by (induction ws) auto

lemma strip_all_nil [simp]: "strip_all ws [] = []"
  using strip_all_le [of ws "[]"] by simp

lemma strip_all_snoc:
  assumes "\<forall>w \<in> set ws. length w \<le> 1 \<or> last w \<noteq> c" "[c] \<in> set ws"
  shows "strip_all ws (x @ [c]) = (if strip_all ws x = [] then [] else strip_all ws x @ [c])"
proof (induction "length x" arbitrary: x rule: less_induct)
  case less
  show ?case
  proof (cases "x = []")
    case True
    have "strip_one ws [c] = Some []"
      using assms(2) by (intro strip_one_single) (auto simp: starts_with_iff Cons_eq_append_conv)
    then show ?thesis using True by (subst strip_all.simps) simp
  next
    case False
    show ?thesis
    proof (cases "strip_one ws x")
      case None
      then have "strip_all ws x = x" "strip_all ws (x @ [c]) = x @ [c]"
        using strip_one_snoc [OF assms(1) False] by (subst strip_all.simps, simp)+
      with False show ?thesis by simp
    next
      case (Some t)
      then have "strip_all ws x = strip_all ws t" "strip_all ws (x @ [c]) = strip_all ws (t @ [c])"
        using strip_one_snoc [OF assms(1) False] by (subst strip_all.simps, simp)+
      then show ?thesis using less [OF strip_one_shorter [OF Some]] by simp
    qed
  qed
qed

lemma ws_seqs_cr:
  "list_all (\<lambda>w. length w \<le> 1 \<or> last w \<noteq> CHR 0x0D) ws_seqs"
  "list_all (\<lambda>w. w = [CHR 0x0D] \<or> w = [] \<or> hd w \<noteq> CHR 0x0D) (map rev ws_seqs)"
  "[CHR 0x0D] \<in> set ws_seqs" "[CHR 0x0D] \<in> set (map rev ws_seqs)"
  by code_simp+

lemma trim_snoc_cr: "trim (x @ [CHR 0x0D]) = trim x"
proof -
  have "strip_one (map rev ws_seqs) (CHR 0x0D # y) = Some y" for y
  proof (rule strip_one_single)
    show "\<forall>w \<in> set (map rev ws_seqs). w = [CHR 0x0D] \<or> \<not> starts_with (CHR 0x0D # y) w \<or> w = []"
    proof
      fix w assume "w \<in> set (map rev ws_seqs)"
      then have "w = [CHR 0x0D] \<or> w = [] \<or> hd w \<noteq> CHR 0x0D"
        using ws_seqs_cr(2) unfolding list_all_iff by blast
      then show "w = [CHR 0x0D] \<or> \<not> starts_with (CHR 0x0D # y) w \<or> w = []"
        by (cases w) auto
    qed
  qed (rule ws_seqs_cr)
  then have "strip_all (map rev ws_seqs) (CHR 0x0D # y) = strip_all (map rev ws_seqs) y" for y
    by (subst strip_all.simps) simp
  moreover have "strip_all ws_seqs (x @ [CHR 0x0D])
      = (if strip_all ws_seqs x = [] then [] else strip_all ws_seqs x @ [CHR 0x0D])"
    by (rule strip_all_snoc) (use ws_seqs_cr(1,3) in \<open>simp_all only: list_all_iff\<close>)
  ultimately show ?thesis by (simp add: trim_def)
qed

lemma trim_strip_cr [simp]: "trim (strip_cr l) = trim l"
proof (cases "l \<noteq> [] \<and> last l = CHR 0x0D")
  case True
  then have "l = butlast l @ [CHR 0x0D]" using append_butlast_last_id [of l] by simp
  then have "trim l = trim (butlast l)" using trim_snoc_cr [of "butlast l"] by simp
  with True show ?thesis by (simp add: strip_cr_def)
qed (auto simp: strip_cr_def)

section \<open>Parsing a line\<close>

record store_env =
  se_intake :: intake_env
  se_manifest_json :: "session_manifest \<Rightarrow> string"
  se_from_str :: "string \<Rightarrow> json option"
  se_from_value :: "json \<Rightarrow> op_record option"
  se_to_string :: "op_record \<Rightarrow> string option"
  se_ulid_show :: "128 word \<Rightarrow> string"
  se_ulid_parse :: "string \<Rightarrow> 128 word option"
  se_ulid_increment :: "128 word \<Rightarrow> 128 word option"

definition env_dig :: "store_env \<Rightarrow> digester" where
  "env_dig w = manifest_digest (ie_sha (se_intake w)) (se_manifest_json w)"

definition known_ops :: "string list" where
  "known_ops = [''add'', ''patch'', ''complete'', ''reopen'', ''retire'', ''answer'',
     ''acknowledge_answer'', ''dismiss'', ''annotate'', ''pick_up'', ''set_blocker'',
     ''clear_blocker'', ''add_relies_on'', ''remove_relies_on'', ''add_ref'', ''remove_ref'',
     ''add_part_of'', ''remove_part_of'', ''add_relates_to'', ''remove_relates_to'',
     ''propose_effect'', ''approve_effect'', ''revoke_effect'', ''withdraw_effect'',
     ''request_occurrence'', ''record_occurrence'', ''record_ask_delivery'', ''attest'']"

definition json_as_u64 :: "json \<Rightarrow> nat option" where
  "json_as_u64 v = (case v of JInt n \<Rightarrow> if 0 \<le> n \<and> n < 2 ^ 64 then Some (nat n) else None | _ \<Rightarrow> None)"

definition parse_record :: "store_env \<Rightarrow> string \<Rightarrow> string + op_record" where
  "parse_record w line = (case se_from_str w line of
     None \<Rightarrow> Inl ''not JSON''
   | Some v \<Rightarrow> (case Option.bind (json_get v ''v'') json_as_u64 of
       None \<Rightarrow> Inl ''missing version''
     | Some n \<Rightarrow>
         if unat agenda_log_version < n then Inl ''line version is newer than this build''
         else (case Option.bind (Option.bind (json_get v ''op'') (\<lambda>p. json_get p ''type'')) json_as_str of
             None \<Rightarrow> Inl ''missing op.type''
           | Some t \<Rightarrow> if t \<notin> set known_ops then Inl ''unknown op type''
               else (case se_from_value w v of None \<Rightarrow> Inl ''malformed op'' | Some r \<Rightarrow> Inr r))))"

section \<open>Folding the bytes\<close>

record fold_outcome =
  fo_items :: items
  fo_ops :: u64
  fo_skipped :: u64
  fo_lines :: u64
  fo_item_seqs :: "u64 btree"

definition empty_fold :: fold_outcome where
  "empty_fold = \<lparr> fo_items = [], fo_ops = 0, fo_skipped = 0, fo_lines = 0, fo_item_seqs = [] \<rparr>"

definition fold_line :: "store_env \<Rightarrow> fold_outcome \<Rightarrow> string \<Rightarrow> fold_outcome" where
  "fold_line w fo raw =
    (let seq = fo_lines fo; fo1 = fo\<lparr>fo_lines := seq + 1\<rparr>; line = trim raw in
     if line = [] then fo1
     else case parse_record w line of
       Inl _ \<Rightarrow> fo1\<lparr>fo_skipped := fo_skipped fo + 1\<rparr>
     | Inr rec \<Rightarrow> (case apply_op (env_dig w) (fo_items fo) rec of
         (m, Some _) \<Rightarrow> fo1\<lparr>fo_items := m, fo_ops := fo_ops fo + 1\<rparr>
       | (m, None) \<Rightarrow> fo1\<lparr>fo_items := m, fo_ops := fo_ops fo + 1,
             fo_item_seqs := bt_put (op_item_id (or_op rec)) seq (fo_item_seqs fo)\<rparr>))"

definition fold_bytes :: "store_env \<Rightarrow> string \<Rightarrow> fold_outcome" where
  "fold_bytes w bytes = foldl (fold_line w) empty_fold (lines bytes)"

lemma fold_line_trim: "trim a = trim b \<Longrightarrow> fold_line w fo a = fold_line w fo b"
  by (simp add: fold_line_def)

text \<open>
  What a log of lines promises whoever folds it with a step that looks at the trimmed line only:
  a suffix is folded on from where the last ended line stopped, ending a torn line changes
  nothing, and one more line is one more step.
\<close>

locale line_fold =
  fixes step :: "'s \<Rightarrow> string \<Rightarrow> 's"
  assumes step_trim: "trim a = trim b \<Longrightarrow> step s a = step s b"
begin

lemma run_append: "ended a \<Longrightarrow> foldl step s (lines (a @ b)) = foldl step (foldl step s (lines a)) (lines b)"
  by (simp add: lines_append)

lemma run_terminated: "foldl step s (lines (terminated a)) = foldl step s (lines a)"
proof (cases "ended a")
  case False
  then obtain ls l where "lines a = ls @ [l]" "lines (terminated a) = ls @ [strip_cr l]"
    using lines_terminated by blast
  then show ?thesis using step_trim [of "strip_cr l" l] by simp
qed (simp add: terminated_def)

lemma run_line:
  assumes "ended a" "newline \<notin> set body"
  shows "foldl step s (lines (a @ body @ [newline])) = step (foldl step s (lines a)) body"
  using run_append [OF assms(1), of s "body @ [newline]"] lines_one [OF assms(2)]
    step_trim [of "strip_cr body" body] by simp

end

interpretation ops_log: line_fold "fold_line w" for w
  by unfold_locales (rule fold_line_trim)

lemma fold_bytes_append:
  "ended a \<Longrightarrow> fold_bytes w (a @ b) = foldl (fold_line w) (fold_bytes w a) (lines b)"
  unfolding fold_bytes_def by (rule ops_log.run_append)

lemma fold_bytes_terminated: "fold_bytes w (terminated s) = fold_bytes w s"
  unfolding fold_bytes_def by (rule ops_log.run_terminated)

lemma fold_bytes_line:
  assumes "ended s" "newline \<notin> set body"
  shows "fold_bytes w (s @ body @ [newline]) = fold_line w (fold_bytes w s) body"
  unfolding fold_bytes_def by (rule ops_log.run_line [OF assms])

text \<open>The records among the lines; the state is their fold, so its invariant holds of any file.\<close>

definition line_records :: "store_env \<Rightarrow> string list \<Rightarrow> op_record list" where
  "line_records w ls = concat (map (\<lambda>l. if trim l = [] then [] else
     (case parse_record w (trim l) of Inl _ \<Rightarrow> [] | Inr r \<Rightarrow> [r])) ls)"

lemma fold_lines_items:
  "fo_items (foldl (fold_line w) fo ls) = fold_records (env_dig w) (fo_items fo) (line_records w ls)"
proof (induction ls arbitrary: fo)
  case Nil
  then show ?case by (simp add: line_records_def fold_records_def)
next
  case (Cons l ls)
  have "fo_items (fold_line w fo l) = fold_records (env_dig w) (fo_items fo) (line_records w [l])"
    by (auto simp: fold_line_def line_records_def fold_records_def Let_def
        split: sum.split prod.split option.split)
  moreover have "line_records w (l # ls) = line_records w [l] @ line_records w ls"
    by (simp add: line_records_def)
  ultimately show ?case using Cons agenda.run_append by simp
qed

end
