(* ===== verification/AgendaStore.thy ===== *)
theory AgendaStore
  imports AgendaLog "HOL-Library.Option_ord"
begin

text \<open>
  The store over the log file (\<open>store.rs\<close>): opening, refreshing from a file other daemons
  append to, appending, minting ids and serving pages of the raw log. The file is part of the
  state. Every file operation first lets the other daemons append what the schedule says, and
  may fail, a write after some of its bytes; an empty schedule is a store left alone.
\<close>

section \<open>The store\<close>

record io_step =
  is_foreign :: string
  is_fail :: "nat option"

record agenda_store =
  st_disk :: string
  st_io :: "io_step list"
  st_items :: items
  st_last_id :: "128 word option"
  st_ops :: u64
  st_skipped :: u64
  st_folded_len :: u64
  st_log_lines :: u64
  st_item_seqs :: "u64 btree"
  st_foreign :: "string list"

type_synonym 'a outcome = "'a intake \<times> agenda_store"

definition next_io :: "agenda_store \<Rightarrow> nat option \<times> agenda_store" where
  "next_io st = (case st_io st of [] \<Rightarrow> (None, st)
   | s # r \<Rightarrow> (is_fail s, st\<lparr>st_disk := st_disk st @ is_foreign s, st_io := r\<rparr>))"

definition write_all :: "string \<Rightarrow> agenda_store \<Rightarrow> unit outcome" where
  "write_all bytes st = (case next_io st of
     (None, st1) \<Rightarrow> (Inr (), st1\<lparr>st_disk := st_disk st1 @ bytes\<rparr>)
   | (Some k, st1) \<Rightarrow> (Inl IoError, st1\<lparr>st_disk := st_disk st1 @ take k bytes\<rparr>))"

definition file_len :: "string \<Rightarrow> u64" where
  "file_len s = of_nat (length s)"

definition max_item_id :: "store_env \<Rightarrow> items \<Rightarrow> 128 word option" where
  "max_item_id w m = (if m = [] then None else se_ulid_parse w (fst (last m)))"

definition terminate_tail :: "string \<Rightarrow> agenda_store \<Rightarrow> unit outcome" where
  "terminate_tail bytes st =
    (if ended bytes then (Inr (), st)
     else case write_all [newline] st of
       (Inr _, st1) \<Rightarrow> (Inr (), st1\<lparr>st_folded_len := st_folded_len st1 + 1\<rparr>)
     | (Inl e, st1) \<Rightarrow> (Inl e, st1))"

section \<open>Opening and refreshing\<close>

definition load :: "store_env \<Rightarrow> string \<Rightarrow> agenda_store \<Rightarrow> agenda_store" where
  "load w bytes st = (let fo = fold_bytes w bytes in
     st\<lparr>st_items := fo_items fo, st_ops := fo_ops fo, st_skipped := fo_skipped fo,
       st_folded_len := file_len bytes, st_log_lines := fo_lines fo,
       st_item_seqs := fo_item_seqs fo\<rparr>)"

definition open_store :: "store_env \<Rightarrow> string \<Rightarrow> io_step list \<Rightarrow> unit outcome" where
  "open_store w disk io =
    (let st0 = \<lparr> st_disk = disk, st_io = io, st_items = [], st_last_id = None, st_ops = 0,
       st_skipped = 0, st_folded_len = 0, st_log_lines = 0, st_item_seqs = [], st_foreign = [] \<rparr>
     in case next_io st0 of
       (Some _, st1) \<Rightarrow> (Inl IoError, st1)
     | (None, st1) \<Rightarrow>
         let st2 = load w (st_disk st1) st1
         in terminate_tail (st_disk st1) (st2\<lparr>st_last_id := max_item_id w (st_items st2)\<rparr>))"

definition note_foreign :: "string \<Rightarrow> string list \<Rightarrow> string list" where
  "note_foreign i xs = (if i \<in> set xs then xs else xs @ [i])"

definition absorb_line :: "store_env \<Rightarrow> agenda_store \<Rightarrow> string \<Rightarrow> agenda_store" where
  "absorb_line w st raw =
    (let seq = st_log_lines st; st1 = st\<lparr>st_log_lines := seq + 1\<rparr>; line = trim raw in
     if line = [] then st1
     else case parse_record w line of
       Inl _ \<Rightarrow> st1\<lparr>st_skipped := st_skipped st + 1\<rparr>
     | Inr rec \<Rightarrow> (case apply_op (env_dig w) (st_items st) rec of
         (m, Some _) \<Rightarrow> st1\<lparr>st_items := m, st_ops := st_ops st + 1\<rparr>
       | (m, None) \<Rightarrow>
           let i = op_item_id (or_op rec)
           in st1\<lparr>st_items := m, st_ops := st_ops st + 1,
                st_item_seqs := bt_put i seq (st_item_seqs st),
                st_foreign := note_foreign i (st_foreign st)\<rparr>))"

definition changed_ids :: "items \<Rightarrow> items \<Rightarrow> string list" where
  "changed_ids old new = map fst (filter (\<lambda>(i, it). bt_get old i \<noteq> Some it) new)"

text \<open>Growth folds the appended suffix only; a shorter file is folded afresh.\<close>

definition absorb_suffix :: "store_env \<Rightarrow> agenda_store \<Rightarrow> unit outcome" where
  "absorb_suffix w st =
    (let suffix = drop (unat (st_folded_len st)) (st_disk st);
         st1 = foldl (absorb_line w) st (lines suffix)
     in terminate_tail suffix
          (st1\<lparr>st_folded_len := st_folded_len st1 + file_len suffix,
             st_last_id := max (st_last_id st1) (max_item_id w (st_items st1))\<rparr>))"

definition refold :: "store_env \<Rightarrow> agenda_store \<Rightarrow> unit outcome" where
  "refold w st =
    (let st1 = load w (st_disk st) st
     in terminate_tail (st_disk st)
          (st1\<lparr>st_foreign := fold note_foreign (changed_ids (st_items st) (st_items st1)) (st_foreign st),
             st_last_id := max (st_last_id st1) (max_item_id w (st_items st1))\<rparr>))"

definition refresh_if_stale :: "store_env \<Rightarrow> agenda_store \<Rightarrow> unit outcome" where
  "refresh_if_stale w st = (case next_io st of
     (Some _, st1) \<Rightarrow> (Inl IoError, st1)
   | (None, st1) \<Rightarrow>
     let disk_len = file_len (st_disk st1) in
     if disk_len = st_folded_len st1 then (Inr (), st1)
     else case next_io st1 of
       (Some _, st2) \<Rightarrow> (Inl IoError, st2)
     | (None, st2) \<Rightarrow> if st_folded_len st1 < disk_len then absorb_suffix w st2 else refold w st2)"

definition drain_foreign_changes :: "agenda_store \<Rightarrow> string list \<times> agenda_store" where
  "drain_foreign_changes st = (st_foreign st, st\<lparr>st_foreign := []\<rparr>)"

section \<open>Appending and minting\<close>

definition append_op :: "store_env \<Rightarrow> agenda_op \<Rightarrow> agenda_actor option \<Rightarrow> string option
    \<Rightarrow> u64 \<Rightarrow> agenda_store \<Rightarrow> agenda_item outcome" where
  "append_op w op actor source now st =
    (let i = op_item_id op;
         rec = \<lparr> or_v = agenda_log_version, or_at_ms = now, or_actor = actor, or_source = source,
                 or_op = op \<rparr>
     in case se_to_string w rec of
       None \<Rightarrow> (Inl (Invalid ''encoding op''), st)
     | Some body \<Rightarrow>
         let line = body @ [newline]
         in case write_all line st of
           (Inl e, st1) \<Rightarrow> (Inl e, st1)
         | (Inr _, st1) \<Rightarrow>
             let st2 = st1\<lparr>st_folded_len := st_folded_len st1 + file_len line,
                   st_log_lines := st_log_lines st1 + 1,
                   st_item_seqs := bt_put i (st_log_lines st1) (st_item_seqs st1),
                   st_items := fst (apply_op (env_dig w) (st_items st1) rec),
                   st_ops := st_ops st1 + 1\<rparr>
             in (case bt_get (st_items st2) i of
                   None \<Rightarrow> Inl (Invalid ''internal: item missing after fold'')
                 | Some it \<Rightarrow> Inr it, st2))"

definition mint_id :: "store_env \<Rightarrow> 128 word \<Rightarrow> agenda_store \<Rightarrow> string outcome" where
  "mint_id w candidate st =
    (case st_last_id st of
       Some prev \<Rightarrow>
         if candidate \<le> prev
         then (case se_ulid_increment w prev of
             None \<Rightarrow> (Inl (Invalid ''id space exhausted; retry''), st)
           | Some minted \<Rightarrow> (Inr (se_ulid_show w minted), st\<lparr>st_last_id := Some minted\<rparr>))
         else (Inr (se_ulid_show w candidate), st\<lparr>st_last_id := Some candidate\<rparr>)
     | None \<Rightarrow> (Inr (se_ulid_show w candidate), st\<lparr>st_last_id := Some candidate\<rparr>))"

section \<open>Reads\<close>

definition item_of :: "store_env \<Rightarrow> string \<Rightarrow> agenda_store \<Rightarrow> agenda_item option \<times> agenda_store" where
  "item_of w i st = (let st1 = snd (refresh_if_stale w st) in (bt_get (st_items st1) i, st1))"

definition attested_as :: "string list \<Rightarrow> agenda_item \<Rightarrow> bool" where
  "attested_as sids it = (\<exists>ef \<in> set (it_effects it). case ef_last_run ef of
      None \<Rightarrow> False
    | Some run \<Rightarrow> rn_attestation run \<noteq> None
        \<and> (case rn_session_id run of None \<Rightarrow> False | Some s \<Rightarrow> s \<in> set sids))"

definition session_occurrence_attested :: "store_env \<Rightarrow> string list \<Rightarrow> agenda_store \<Rightarrow> bool \<times> agenda_store" where
  "session_occurrence_attested w sids st =
    (let st1 = snd (refresh_if_stale w st)
     in (\<exists>it \<in> snd ` set (st_items st1). attested_as sids it, st1))"

definition open_ask :: "store_env \<Rightarrow> u64 \<Rightarrow> agenda_store \<Rightarrow> agenda_item option \<times> agenda_store" where
  "open_ask w ask st = (let st1 = snd (refresh_if_stale w st)
     in (find (\<lambda>it. it_status it = Open \<and> (case it_ask it of None \<Rightarrow> False | Some a \<Rightarrow> ak_ask_id a = ask))
           (map snd (st_items st1)), st1))"


datatype ops_line = Line u64 bool json | Raw u64 string

record agenda_ops_page =
  pg_ops :: "ops_line list"
  pg_next_since :: u64
  pg_log_len :: u64
  pg_filtered :: bool

definition agenda_ops_max_limit :: nat where "agenda_ops_max_limit = 2000"

definition line_item :: "json \<Rightarrow> string option" where
  "line_item v = Option.bind (Option.bind (json_get v ''op'') (\<lambda>p. json_get p ''id'')) json_as_str"

definition line_known :: "json \<Rightarrow> bool" where
  "line_known v =
    (case Option.bind (Option.bind (json_get v ''op'') (\<lambda>p. json_get p ''type'')) json_as_str of
       None \<Rightarrow> False | Some t \<Rightarrow> t \<in> set known_ops)"

definition ops_entry :: "store_env \<Rightarrow> string option \<Rightarrow> u64 \<Rightarrow> string \<Rightarrow> ops_line option" where
  "ops_entry w item seq raw =
    (let line = trim raw in
     if line = [] then None
     else case se_from_str w line of
       Some v \<Rightarrow> (if item \<noteq> None \<and> line_item v \<noteq> item then None
                  else Some (Line seq (line_known v) v))
     | None \<Rightarrow> (if item \<noteq> None then None else Some (Raw seq line)))"

text \<open>The loop of a page: entries so far, lines seen, and where the page filled.\<close>

fun page_loop :: "(u64 \<Rightarrow> string \<Rightarrow> 'e option) \<Rightarrow> u64 \<Rightarrow> nat \<Rightarrow> string list \<Rightarrow> u64
    \<Rightarrow> 'e list \<Rightarrow> u64 \<Rightarrow> u64 option \<Rightarrow> 'e list \<times> u64 \<times> u64 option" where
  "page_loop entry since limit [] seq es log_len next = (es, log_len, next)"
| "page_loop entry since limit (raw # ls) seq es log_len next =
    (if next \<noteq> None \<or> seq < since
     then page_loop entry since limit ls (seq + 1) es (seq + 1) next
     else case entry seq raw of
       None \<Rightarrow> page_loop entry since limit ls (seq + 1) es (seq + 1) next
     | Some e \<Rightarrow> page_loop entry since limit ls (seq + 1) (es @ [e]) (seq + 1)
         (if limit \<le> length (es @ [e]) then Some (seq + 1) else next))"

definition ops_page :: "store_env \<Rightarrow> u64 \<Rightarrow> string option \<Rightarrow> nat \<Rightarrow> string \<Rightarrow> agenda_ops_page" where
  "ops_page w since item limit bytes =
    (let (ops, log_len, next) =
           page_loop (ops_entry w item) since (min agenda_ops_max_limit (max 1 limit)) (lines bytes)
             0 [] 0 None
     in \<lparr> pg_ops = ops, pg_next_since = (case next of None \<Rightarrow> log_len | Some n \<Rightarrow> n),
          pg_log_len = log_len, pg_filtered = item \<noteq> None \<rparr>)"

definition read_ops :: "store_env \<Rightarrow> u64 \<Rightarrow> string option \<Rightarrow> nat \<Rightarrow> agenda_store
    \<Rightarrow> agenda_ops_page outcome" where
  "read_ops w since item limit st = (case refresh_if_stale w st of
     (Inl e, st1) \<Rightarrow> (Inl e, st1)
   | (Inr _, st1) \<Rightarrow> (case next_io st1 of
       (Some _, st2) \<Rightarrow> (Inl IoError, st2)
     | (None, st2) \<Rightarrow> (Inr (ops_page w since item limit (st_disk st2)), st2)))"

section \<open>Convergence with the file\<close>

definition derived :: "agenda_store \<Rightarrow> fold_outcome" where
  "derived st = \<lparr> fo_items = st_items st, fo_ops = st_ops st, fo_skipped = st_skipped st,
     fo_lines = st_log_lines st, fo_item_seqs = st_item_seqs st \<rparr>"

definition converged :: "store_env \<Rightarrow> agenda_store \<Rightarrow> bool" where
  "converged w st = (derived st = fold_bytes w (st_disk st)
     \<and> st_folded_len st = file_len (st_disk st) \<and> ended (st_disk st))"

definition behind :: "store_env \<Rightarrow> agenda_store \<Rightarrow> bool" where
  "behind w st = (\<exists>p r. st_disk st = p @ r \<and> ended p \<and> derived st = fold_bytes w p
     \<and> st_folded_len st = file_len p)"

lemma converged_behind: "converged w st \<Longrightarrow> behind w st"
  unfolding converged_def behind_def by (metis append_Nil2)

lemma derived_absorb: "derived (absorb_line w st l) = fold_line w (derived st) l"
  by (auto simp: absorb_line_def fold_line_def derived_def Let_def
      split: sum.split prod.split option.split)

lemma absorb_keeps:
  "st_disk (absorb_line w st l) = st_disk st" "st_io (absorb_line w st l) = st_io st"
  "st_folded_len (absorb_line w st l) = st_folded_len st" "st_last_id (absorb_line w st l) = st_last_id st"
  by (auto simp: absorb_line_def Let_def split: sum.split prod.split option.split)

lemma absorb_lines:
  "derived (foldl (absorb_line w) st ls) = foldl (fold_line w) (derived st) ls"
  "st_disk (foldl (absorb_line w) st ls) = st_disk st" "st_io (foldl (absorb_line w) st ls) = st_io st"
  "st_folded_len (foldl (absorb_line w) st ls) = st_folded_len st"
  "st_last_id (foldl (absorb_line w) st ls) = st_last_id st"
  by (induction ls arbitrary: st) (simp_all add: derived_absorb absorb_keeps)

lemma derived_load: "derived (load w b st) = fold_bytes w b"
  by (simp add: derived_def load_def Let_def)

lemma derived_upd [simp]:
  "derived (st\<lparr>st_folded_len := a\<rparr>) = derived st" "derived (st\<lparr>st_last_id := b\<rparr>) = derived st"
  "derived (st\<lparr>st_foreign := c\<rparr>) = derived st" "derived (st\<lparr>st_disk := d\<rparr>) = derived st"
  "derived (st\<lparr>st_io := e\<rparr>) = derived st"
  by (simp_all add: derived_def)

lemma file_len_append: "file_len (a @ b) = file_len a + file_len b"
  by (simp add: file_len_def)

lemma unat_file_len: "length s < 2 ^ 64 \<Longrightarrow> unat (file_len s) = length s"
  by (simp add: file_len_def unsigned_of_nat take_bit_nat_eq_self)

text \<open>A schedule in which nothing fails; and the rest of one, quiet after the step it names.\<close>

definition no_fail :: "agenda_store \<Rightarrow> bool" where
  "no_fail st = list_all (\<lambda>s. is_fail s = None) (st_io st)"

definition io_quiet :: "agenda_store \<Rightarrow> bool" where
  "io_quiet st = list_all (\<lambda>s. is_fail s = None \<and> is_foreign s = []) (st_io st)"

definition io_rest :: "nat \<Rightarrow> agenda_store \<Rightarrow> agenda_store" where
  "io_rest n st = st\<lparr>st_io := drop n (st_io st)\<rparr>"

lemma next_io_ok:
  assumes "no_fail st"
  obtains f where "next_io st = (None, st\<lparr>st_disk := st_disk st @ f, st_io := drop 1 (st_io st)\<rparr>)"
proof (cases "st_io st")
  case Nil
  then have "next_io st = (None, st\<lparr>st_disk := st_disk st @ [], st_io := drop 1 (st_io st)\<rparr>)"
    by (simp add: next_io_def)
  then show ?thesis by (rule that)
next
  case (Cons s r)
  with assms have "next_io st = (None, st\<lparr>st_disk := st_disk st @ is_foreign s, st_io := drop 1 (st_io st)\<rparr>)"
    by (simp add: next_io_def no_fail_def)
  then show ?thesis by (rule that)
qed

lemma next_io_calm:
  "io_quiet st \<Longrightarrow> next_io st = (None, st\<lparr>st_io := drop 1 (st_io st)\<rparr>)"
  by (cases "st_io st") (auto simp: next_io_def io_quiet_def)

lemma io_quiet_drop: "io_quiet st \<Longrightarrow> st_io st' = drop n (st_io st) \<Longrightarrow> io_quiet st'"
  by (simp add: io_quiet_def list_all_iff) (metis in_set_dropD)

lemma no_fail_drop: "no_fail st \<Longrightarrow> st_io st' = drop n (st_io st) \<Longrightarrow> no_fail st'"
  by (simp add: no_fail_def list_all_iff) (metis in_set_dropD)

text \<open>Terminating the tail of the whole file, whose fold the store already is.\<close>

lemma terminate_converges:
  assumes "io_quiet st" "derived st = fold_bytes w (st_disk st)" "st_folded_len st = file_len (st_disk st)"
    and "ended tail \<longleftrightarrow> ended (st_disk st)"
  shows "\<exists>st'. terminate_tail tail st = (Inr (), st') \<and> converged w st'
    \<and> st_disk st' = terminated (st_disk st) \<and> io_quiet st'"
proof (cases "ended tail")
  case True
  with assms show ?thesis
    by (intro exI [of _ st]) (simp add: terminate_tail_def converged_def terminated_def)
next
  case False
  let ?st = "st\<lparr>st_io := drop 1 (st_io st), st_disk := st_disk st @ [newline],
    st_folded_len := st_folded_len st + 1\<rparr>"
  have e: "\<not> ended (st_disk st)" using False assms(4) by simp
  have "terminate_tail tail st = (Inr (), ?st)"
    using False next_io_calm [OF assms(1)] by (simp add: terminate_tail_def write_all_def)
  moreover have "fold_bytes w (st_disk st @ [newline]) = fold_bytes w (st_disk st)"
    using fold_bytes_terminated [of w "st_disk st"] e by (simp add: terminated_def)
  then have "converged w ?st"
    using assms(2,3) by (simp add: converged_def ended_def file_len_def)
  moreover have "io_quiet ?st" by (rule io_quiet_drop [OF assms(1), of _ 1]) simp
  ultimately show ?thesis using e by (simp add: terminated_def)
qed


lemma terminate_grows: "io_quiet st \<Longrightarrow> length (st_disk st) \<le> length (st_disk (snd (terminate_tail t st)))"
  by (simp add: terminate_tail_def write_all_def next_io_calm)

lemma absorb_grows: "io_quiet st \<Longrightarrow> length (st_disk st) \<le> length (st_disk (snd (absorb_suffix w st)))"
  unfolding absorb_suffix_def Let_def
  by (rule order_trans [OF _ terminate_grows]) (simp_all add: absorb_lines io_quiet_def)

lemma ended_append: "ended a \<Longrightarrow> ended (a @ b) \<longleftrightarrow> ended b"
  by (cases "b = []") (auto simp: ended_def)

lemma refold_converges:
  assumes "io_quiet st"
  shows "\<exists>st'. refold w st = (Inr (), st') \<and> converged w st' \<and> st_disk st' = terminated (st_disk st)
    \<and> io_quiet st'"
proof -
  let ?l = "load w (st_disk st) st"
  let ?st = "?l\<lparr>st_foreign := fold note_foreign (changed_ids (st_items st) (st_items ?l)) (st_foreign st),
    st_last_id := max (st_last_id ?l) (max_item_id w (st_items ?l))\<rparr>"
  have "io_quiet ?st" "st_disk ?st = st_disk st" "st_folded_len ?st = file_len (st_disk ?st)"
    using assms by (simp_all add: io_quiet_def load_def Let_def)
  moreover from this(2) have "derived ?st = fold_bytes w (st_disk ?st)" by (simp add: derived_load)
  ultimately show ?thesis
    using terminate_converges [of ?st w "st_disk st"] unfolding refold_def Let_def by metis
qed

lemma absorb_converges:
  assumes "behind w st" "io_quiet st" "length (st_disk st) < 2 ^ 64"
  shows "\<exists>st'. absorb_suffix w st = (Inr (), st') \<and> converged w st'
    \<and> st_disk st' = terminated (st_disk st) \<and> io_quiet st'"
proof -
  obtain p r where p: "st_disk st = p @ r" "ended p" "derived st = fold_bytes w p"
    "st_folded_len st = file_len p" using assms(1) by (auto simp: behind_def)
  have r: "drop (unat (st_folded_len st)) (st_disk st) = r"
    using unat_file_len [of p] p(1,4) assms(3) by simp
  let ?l = "foldl (absorb_line w) st (lines r)"
  let ?st = "?l\<lparr>st_folded_len := st_folded_len ?l + file_len r,
    st_last_id := max (st_last_id ?l) (max_item_id w (st_items ?l))\<rparr>"
  have "io_quiet ?st" "st_disk ?st = st_disk st" "st_folded_len ?st = file_len (st_disk ?st)"
    using assms(2) p(1,4) by (simp_all add: io_quiet_def absorb_lines file_len_append)
  moreover have "derived ?st = fold_bytes w (st_disk ?st)"
    using p fold_bytes_append [OF p(2), of w r] by (simp add: absorb_lines)
  moreover have "ended r \<longleftrightarrow> ended (st_disk ?st)"
    using p(1) ended_append [OF p(2)] by (simp add: absorb_lines)
  ultimately show ?thesis
    using terminate_converges [of ?st w r] r unfolding absorb_suffix_def Let_def by metis
qed

text \<open>Opening is a fold of the whole file.\<close>

lemma open_converges:
  "\<exists>st. open_store w disk [] = (Inr (), st) \<and> converged w st \<and> st_disk st = terminated disk \<and> io_quiet st"
proof -
  let ?st0 = "\<lparr> st_disk = disk, st_io = [], st_items = [], st_last_id = None, st_ops = 0,
    st_skipped = 0, st_folded_len = 0, st_log_lines = 0, st_item_seqs = [], st_foreign = [] \<rparr>"
  let ?st = "(load w disk ?st0)\<lparr>st_last_id := max_item_id w (st_items (load w disk ?st0))\<rparr>"
  have "io_quiet ?st" "st_disk ?st = disk" "st_folded_len ?st = file_len (st_disk ?st)"
    "derived ?st = fold_bytes w (st_disk ?st)"
    by (simp_all add: io_quiet_def derived_load) (simp_all add: load_def Let_def)
  moreover have "open_store w disk [] = terminate_tail disk ?st"
    by (simp add: open_store_def next_io_def Let_def)
  ultimately show ?thesis using terminate_converges [of ?st w disk] by simp
qed

text \<open>
  C26: refreshing converges: however other daemons append before the refresh looks at the file,
  while it looks and while it reads, folding only the suffix leaves the store equal to a fold
  of the whole file, its last line ended, as reopening the file would.
\<close>

theorem refresh_converges:
  assumes "behind w st" and "no_fail st" and "io_quiet (io_rest 2 st)"
    and "length (st_disk (snd (refresh_if_stale w st))) < 2 ^ 64"
  shows "fst (refresh_if_stale w st) = Inr () \<and> converged w (snd (refresh_if_stale w st))"
proof -
  obtain p r where p: "st_disk st = p @ r" "ended p" "derived st = fold_bytes w p"
    "st_folded_len st = file_len p" using assms(1) by (auto simp: behind_def)
  obtain f where st1: "next_io st = (None, st\<lparr>st_disk := st_disk st @ f, st_io := drop 1 (st_io st)\<rparr>)"
    (is "_ = (None, ?st1)") using next_io_ok [OF assms(2)] by blast
  show ?thesis
  proof (cases "file_len (st_disk ?st1) = st_folded_len ?st1")
    case True
    then have res: "refresh_if_stale w st = (Inr (), ?st1)" by (simp add: refresh_if_stale_def st1)
    then have "length (st_disk ?st1) < 2 ^ 64" using assms(4) by simp
    then have "length (st_disk ?st1) = length p"
      using unat_file_len [of "st_disk ?st1"] unat_file_len [of p] True p(1,4) by simp
    then have "st_disk ?st1 = p" using p(1) by simp
    then show ?thesis using res p(2,3,4) by (simp add: converged_def)
  next
    case False
    have "no_fail ?st1" by (rule no_fail_drop [OF assms(2), of _ 1]) simp
    from next_io_ok [OF this] obtain g where st2: "next_io ?st1
        = (None, st\<lparr>st_disk := st_disk st @ f @ g, st_io := drop 2 (st_io st)\<rparr>)"
      (is "_ = (None, ?st2)") by (auto simp: numeral_2_eq_2)
    have q: "io_quiet ?st2" using assms(3) by (simp add: io_rest_def io_quiet_def)
    have res: "refresh_if_stale w st = (if st_folded_len ?st1 < file_len (st_disk ?st1)
        then absorb_suffix w ?st2 else refold w ?st2)"
      unfolding refresh_if_stale_def st1 using False st2 by (simp add: Let_def)
    show ?thesis
    proof (cases "st_folded_len ?st1 < file_len (st_disk ?st1)")
      case True
      have "behind w ?st2" using p by (auto simp: behind_def)
      moreover have "length (st_disk ?st2) < 2 ^ 64"
        using absorb_grows [OF q, of w] assms(4) res True by simp
      ultimately show ?thesis using absorb_converges [OF _ q] res True by fastforce
    next
      case False
      moreover obtain st' where "refold w ?st2 = (Inr (), st')" "converged w st'"
        using refold_converges [OF q, of w] by blast
      ultimately show ?thesis using res by simp
    qed
  qed
qed


section \<open>Appending keeps the store the fold of the file\<close>

text \<open>What the line codec promises of one record: one line, which parses back to it.\<close>

definition encodes :: "store_env \<Rightarrow> op_record \<Rightarrow> string \<Rightarrow> bool" where
  "encodes w rec body = (se_to_string w rec = Some body \<and> newline \<notin> set body \<and> trim body \<noteq> []
     \<and> parse_record w (trim body) = Inr rec)"

definition record_of :: "agenda_op \<Rightarrow> agenda_actor option \<Rightarrow> string option \<Rightarrow> u64 \<Rightarrow> op_record" where
  "record_of op actor source now =
     \<lparr> or_v = agenda_log_version, or_at_ms = now, or_actor = actor, or_source = source, or_op = op \<rparr>"

lemma record_of_op [simp]: "or_op (record_of op a s n) = op"
  by (simp add: record_of_def)




text \<open>
  An append refuses without touching the derived state when the record cannot be written,
  whatever prefix of the line reached the file.
\<close>

theorem append_failure_safe:
  assumes "append_op w op actor source now st = (Inl IoError, st')"
  shows "derived st' = derived st \<and> st_folded_len st' = st_folded_len st
    \<and> (\<exists>f. st_disk st' = st_disk st @ f)"
  using assms
  by (cases "st_io st")
    (auto simp: append_op_def write_all_def next_io_def Let_def derived_def
      split: option.splits prod.splits sum.splits if_splits)

section \<open>Minted ids\<close>

text \<open>What the ids promise: an increment is larger, and the shown form keeps the order.\<close>

definition ulid_laws :: "store_env \<Rightarrow> bool" where
  "ulid_laws w = ((\<forall>u v. se_ulid_increment w u = Some v \<longrightarrow> u < v)
     \<and> (\<forall>u v. u < v \<longrightarrow> se_ulid_show w u < se_ulid_show w v))"

definition ids_covered :: "store_env \<Rightarrow> agenda_store \<Rightarrow> bool" where
  "ids_covered w st = (\<forall>k \<in> fst ` set (st_items st).
     \<exists>u. k = se_ulid_show w u \<and> Some u \<le> st_last_id st)"

lemma mint_above:
  assumes "mint_id w candidate st = (Inr i, st')" "ulid_laws w" "ids_covered w st"
  shows "\<exists>u. i = se_ulid_show w u \<and> st' = st\<lparr>st_last_id := Some u\<rparr> \<and> st_last_id st < Some u
    \<and> (\<forall>k \<in> fst ` set (st_items st). k < i)"
proof -
  obtain u where u: "i = se_ulid_show w u" "st' = st\<lparr>st_last_id := Some u\<rparr>" "st_last_id st < Some u"
    using assms(1,2)
    by (auto simp: mint_id_def ulid_laws_def less_option_def split: option.splits if_splits)
  have "k < i" if k: "k \<in> fst ` set (st_items st)" for k
  proof -
    obtain v where v: "k = se_ulid_show w v" "Some v \<le> st_last_id st"
      using assms(3) k unfolding ids_covered_def by blast
    then have "v < u" using u(3) by (cases "st_last_id st") auto
    with v(1) u(1) assms(2) show ?thesis by (simp add: ulid_laws_def)
  qed
  with u show ?thesis by blast
qed

text \<open>
  A minted id is above every id minted or folded before, so it is the key of no item and
  creation order is id order, whatever the clock does.
\<close>

theorem mint_fresh:
  assumes "mint_id w candidate st = (Inr i, st')" and "ulid_laws w" and "ids_covered w st"
  shows "bt_get (st_items st') i = None \<and> (\<forall>k \<in> fst ` set (st_items st'). k < i)
    \<and> st_last_id st < st_last_id st'"
proof -
  from mint_above [OF assms] obtain u where u: "st' = st\<lparr>st_last_id := Some u\<rparr>"
    "st_last_id st < Some u" "\<forall>k \<in> fst ` set (st_items st). k < i" by blast
  then have "i \<notin> fst ` set (st_items st')" by auto
  then have "bt_get (st_items st') i = None" by (simp add: map_of_eq_None_iff)
  with u show ?thesis by simp
qed

section \<open>Pages of the raw log\<close>

fun page_from :: "(u64 \<Rightarrow> string \<Rightarrow> 'e option) \<Rightarrow> u64 \<Rightarrow> u64 \<Rightarrow> string list \<Rightarrow> 'e list" where
  "page_from entry since seq [] = []"
| "page_from entry since seq (raw # ls) =
    (if seq < since then [] else opt_list (entry seq raw)) @ page_from entry since (seq + 1) ls"

lemma page_loop_full:
  "page_loop entry since limit ls seq es seq (Some x) = (es, seq + of_nat (length ls), Some x)"
  by (induction ls arbitrary: seq) (simp_all add: algebra_simps)

lemma word_step:
  assumes "unat (seq :: u64) + Suc n < 2 ^ 64"
  shows "unat (seq + 1) = Suc (unat seq)"
  using assms unat_word_ariths(1) [of seq 1] by simp

lemma page_from_skip:
  "unat seq + length ls < 2 ^ 64 \<Longrightarrow> unat seq + length ls \<le> unat since \<Longrightarrow> page_from entry since seq ls = []"
proof (induction ls arbitrary: seq)
  case (Cons raw ls)
  then show ?case using word_step [of seq "length ls"] by (simp add: word_less_nat_alt)
qed simp

lemma page_from_since:
  "unat seq + length ls < 2 ^ 64 \<Longrightarrow> since \<le> seq \<Longrightarrow> page_from entry since seq ls = page_from entry seq seq ls"
proof (induction ls arbitrary: seq since)
  case (Cons raw ls)
  have n: "unat (seq + 1) = Suc (unat seq)" using word_step Cons.prems(1) by simp
  then have "seq \<le> seq + 1" by (simp add: word_le_nat_alt)
  then show ?case
    using Cons.IH [of "seq + 1" since] Cons.IH [of "seq + 1" seq] n Cons.prems
    by (simp add: leD order_trans)
qed simp

lemma page_loop_page:
  assumes "unat seq + length ls < 2 ^ 64" "length es < limit"
  shows "case page_loop entry since limit ls seq es seq None of (es', len, next) \<Rightarrow>
     len = seq + of_nat (length ls)
     \<and> (case next of
          None \<Rightarrow> es' = es @ page_from entry since seq ls \<and> length es' < limit
        | Some x \<Rightarrow> \<exists>fs. es' = es @ fs \<and> length es' = limit \<and> since < x \<and> seq < x
            \<and> unat x \<le> unat seq + length ls
            \<and> page_from entry since seq ls = fs @ page_from entry x seq ls)"
  using assms
proof (induction ls arbitrary: seq es)
  case (Cons raw ls)
  have n: "unat (seq + 1) = Suc (unat seq)" "unat (seq + 1) + length ls < 2 ^ 64"
    using word_step [of seq "length ls"] Cons.prems(1) by simp_all
  have lt: "seq < seq + 1" using n(1) by (simp add: word_less_nat_alt)
  show ?case
  proof (cases "seq < since \<or> entry seq raw = None")
    case True
    have "page_loop entry since limit (raw # ls) seq es seq None
        = page_loop entry since limit ls (seq + 1) es (seq + 1) None"
      "page_from entry since seq (raw # ls) = page_from entry since (seq + 1) ls"
      "seq + 1 < x \<Longrightarrow> page_from entry x seq (raw # ls) = page_from entry x (seq + 1) ls" for x
      using True lt by (auto simp: opt_list_def)
    then show ?thesis
      using Cons.IH [OF n(2) Cons.prems(2)] lt n(1)
      by (auto simp: algebra_simps split: prod.splits option.splits)
  next
    case False
    then obtain e where e: "entry seq raw = Some e" "\<not> seq < since" by auto
    show ?thesis
    proof (cases "limit \<le> length (es @ [e])")
      case full: True
      then have "page_loop entry since limit (raw # ls) seq es seq None
          = (es @ [e], seq + of_nat (length (raw # ls)), Some (seq + 1))"
        using e by (simp add: page_loop_full algebra_simps)
      moreover have "page_from entry since seq (raw # ls) = [e] @ page_from entry (seq + 1) seq (raw # ls)"
        using e lt page_from_since [OF n(2), of since entry] by (simp add: not_less opt_list_def)
      ultimately show ?thesis using full e lt Cons.prems(2) n(1)
        by (auto simp: not_less)
    next
      case room: False
      then have "page_loop entry since limit (raw # ls) seq es seq None
          = page_loop entry since limit ls (seq + 1) (es @ [e]) (seq + 1) None"
        "page_from entry since seq (raw # ls) = e # page_from entry since (seq + 1) ls"
        "seq + 1 < x \<Longrightarrow> page_from entry x seq (raw # ls) = page_from entry x (seq + 1) ls" for x
        using e lt by (auto simp: opt_list_def)
      then show ?thesis
        using Cons.IH [OF n(2), of "es @ [e]"] room lt n(1)
        by (auto simp: algebra_simps split: prod.splits option.splits)
    qed
  qed
qed simp

lemma page_tiles:
  assumes "length ls < 2 ^ 64" "0 < limit"
    and "page_loop entry since limit ls 0 [] 0 None = (es, len, nxt)"
  shows "page_from entry since 0 ls = es @ page_from entry (case nxt of None \<Rightarrow> len | Some n \<Rightarrow> n) 0 ls"
    "len = of_nat (length ls)" "length es \<le> limit"
    "length es < limit \<Longrightarrow> (case nxt of None \<Rightarrow> len | Some n \<Rightarrow> n) = len"
    "since < len \<Longrightarrow> since < (case nxt of None \<Rightarrow> len | Some n \<Rightarrow> n)"
proof -
  from page_loop_page [of 0 ls "[]" limit entry since] assms
  have body: "len = of_nat (length ls)"
    "case nxt of None \<Rightarrow> es = page_from entry since 0 ls \<and> length es < limit
     | Some x \<Rightarrow> length es = limit \<and> since < x \<and> page_from entry since 0 ls = es @ page_from entry x 0 ls"
    by (auto split: option.splits)
  have "page_from entry (of_nat (length ls)) 0 ls = []"
    using page_from_skip [of 0 ls "of_nat (length ls)"] assms(1)
    by (simp add: unsigned_of_nat take_bit_nat_eq_self)
  with body show "page_from entry since 0 ls = es @ page_from entry (case nxt of None \<Rightarrow> len | Some n \<Rightarrow> n) 0 ls"
    "len = of_nat (length ls)" "length es \<le> limit"
    "length es < limit \<Longrightarrow> (case nxt of None \<Rightarrow> len | Some n \<Rightarrow> n) = len"
    "since < len \<Longrightarrow> since < (case nxt of None \<Rightarrow> len | Some n \<Rightarrow> n)"
    by (auto split: option.splits)
qed

text \<open>
  Pages tile the log: a page and what its cursor leaves are everything from the requested
  line on, in order and without repetition; a page holds at most the clamped limit, only the
  last one may hold less, and the cursor always moves.
\<close>

theorem ops_pages_tile:
  assumes "length (lines bytes) < 2 ^ 64" and "ops_page w since item limit bytes = pg"
  shows "page_from (ops_entry w item) since 0 (lines bytes)
      = pg_ops pg @ page_from (ops_entry w item) (pg_next_since pg) 0 (lines bytes)
    \<and> pg_log_len pg = of_nat (length (lines bytes))
    \<and> length (pg_ops pg) \<le> min 2000 (max 1 limit)
    \<and> (length (pg_ops pg) < min 2000 (max 1 limit) \<longrightarrow> pg_next_since pg = pg_log_len pg)
    \<and> (since < pg_log_len pg \<longrightarrow> since < pg_next_since pg)"
proof -
  let ?l = "min agenda_ops_max_limit (max 1 limit)"
  obtain es len nxt where r: "page_loop (ops_entry w item) since ?l (lines bytes) 0 [] 0 None = (es, len, nxt)"
    by (cases "page_loop (ops_entry w item) since ?l (lines bytes) 0 [] 0 None") auto
  have "0 < ?l" by (simp add: agenda_ops_max_limit_def)
  from page_tiles [OF assms(1) this r] assms(2) r show ?thesis
    by (auto simp: ops_page_def agenda_ops_max_limit_def)
qed


section \<open>Positions\<close>

lemma fold_line_positions:
  "fo_lines (fold_line w fo l) = fo_lines fo + 1"
  "fo_item_seqs (fold_line w fo l) = fo_item_seqs fo
   \<or> (\<exists>rec. parse_record w (trim l) = Inr rec
        \<and> fo_item_seqs (fold_line w fo l) = bt_put (op_item_id (or_op rec)) (fo_lines fo) (fo_item_seqs fo))"
  by (auto simp: fold_line_def Let_def split: sum.split prod.split option.split)

lemma fold_lines_count: "fo_lines (foldl (fold_line w) fo ls) = fo_lines fo + of_nat (length ls)"
  by (induction ls arbitrary: fo) (simp_all add: fold_line_positions)

text \<open>
  One sequence space: the store's position is the number of lines of the file, and the
  position it keeps for an item is that of a line whose operation names the item.
\<close>

theorem positions_are_lines:
  assumes "converged w st" and "length (lines (st_disk st)) < 2 ^ 64"
    and "bt_get (st_item_seqs st) i = Some seq"
  shows "unat (st_log_lines st) = length (lines (st_disk st)) \<and> seq < st_log_lines st
    \<and> (\<exists>rec. parse_record w (trim (lines (st_disk st) ! unat seq)) = Inr rec
          \<and> op_item_id (or_op rec) = i)"
proof -
  define ls where "ls = lines (st_disk st)"
  let ?at = "\<lambda>ls seq. unat seq < length ls
    \<and> (\<exists>rec. parse_record w (trim (ls ! unat seq)) = Inr rec \<and> op_item_id (or_op rec) = i)"
  have at: "bt_get (fo_item_seqs (foldl (fold_line w) empty_fold ls)) i = Some seq \<Longrightarrow> ?at ls seq"
    if "length ls < 2 ^ 64" for ls seq
    using that
  proof (induction ls arbitrary: seq rule: rev_induct)
    case (snoc l ls)
    let ?fo = "foldl (fold_line w) empty_fold ls"
    have len: "length ls < 2 ^ 64" using snoc.prems by simp
    show ?case
    proof (cases "bt_get (fo_item_seqs ?fo) i = Some seq")
      case True
      with snoc.IH [OF True len] show ?thesis by (auto simp: nth_append)
    next
      case False
      with snoc.prems(1) fold_line_positions(2) [of w ?fo l] obtain rec where
        rec: "parse_record w (trim l) = Inr rec" "op_item_id (or_op rec) = i" "seq = fo_lines ?fo"
        by (auto split: if_splits)
      have "unat seq = length ls"
        using rec(3) len
        by (simp add: fold_lines_count empty_fold_def unsigned_of_nat take_bit_nat_eq_self)
      with rec show ?thesis by simp
    qed
  qed (simp add: empty_fold_def)
  have der: "derived st = foldl (fold_line w) empty_fold ls"
    using assms(1) by (simp add: converged_def fold_bytes_def ls_def)
  from arg_cong [OF der, of fo_item_seqs] have "?at ls seq"
    using assms(2,3) by (intro at) (simp_all add: derived_def ls_def)
  moreover from arg_cong [OF der, of fo_lines] have "unat (st_log_lines st) = length ls"
    using assms(2)
    by (simp add: derived_def fold_lines_count empty_fold_def ls_def unsigned_of_nat take_bit_nat_eq_self)
  ultimately show ?thesis by (simp add: ls_def word_less_nat_alt)
qed

section \<open>A race the length does not see\<close>

text \<open>
  When another daemon's bytes land between a store's refresh and its own append, the store
  counts its own line as if it followed what it had folded: its next refresh skips as many of
  the foreign bytes as its line is long, and folds the rest, its own line among it when the
  foreign bytes are at least as long.
\<close>

theorem foreign_race:
  assumes "converged w st" and "st_io st = [\<lparr> is_foreign = f, is_fail = None \<rparr>]"
    and "encodes w (record_of op actor source now) body"
    and "snd (apply_op (env_dig w) (st_items st) (record_of op actor source now)) = None"
    and "f \<noteq> []" and "length (st_disk st) + length f + length body + 1 < 2 ^ 64"
  shows "let st1 = snd (append_op w op actor source now st); line = body @ [newline] in
    st_disk st1 = st_disk st @ f @ line \<and> refresh_if_stale w st1 = absorb_suffix w st1
    \<and> drop (unat (st_folded_len st1)) (st_disk st1) = drop (length line) (f @ line)"
proof -
  obtain m where m: "apply_op (env_dig w) (st_items st) (record_of op actor source now) = (m, None)"
    using assms(4) by (metis prod.collapse)
  define st1 where "st1 = snd (append_op w op actor source now st)"
  let ?line = "body @ [newline]"
  have st1: "st_disk st1 = st_disk st @ f @ ?line" "st_io st1 = []"
    "st_folded_len st1 = file_len (st_disk st @ ?line)"
    using assms(1,2,3) m
    by (auto simp: st1_def append_op_def write_all_def next_io_def Let_def encodes_def record_of_def
        converged_def file_len_append split: option.splits)
  have n: "unat (st_folded_len st1) = length (st_disk st) + length ?line"
    using st1(3) assms(6) unat_file_len [of "st_disk st @ ?line"] by simp
  moreover have "unat (file_len (st_disk st1)) = length (st_disk st) + length f + length ?line"
    using st1(1) assms(6) unat_file_len [of "st_disk st1"] by simp
  ultimately have "st_folded_len st1 < file_len (st_disk st1)"
    using assms(5) by (simp add: word_less_nat_alt)
  then have "refresh_if_stale w st1 = absorb_suffix w st1"
    using st1(2) by (auto simp: refresh_if_stale_def next_io_def Let_def)
  then show ?thesis using n st1(1) by (simp add: st1_def [symmetric] Let_def)
qed

section \<open>A store at work\<close>

definition demo_intake :: intake_env where
  "demo_intake = \<lparr> ie_sha = id, ie_stat = Map.empty, ie_landed = Map.empty, ie_digest_file = Map.empty,
     ie_read_file = Map.empty, ie_seal = (\<lambda>_ _. False), ie_verify_sealed = (\<lambda>_. False),
     ie_resolve_project = (\<lambda>_ _. Inr ''/p''), ie_default_agent = Some ''codex'',
     ie_validate_launch = (\<lambda>_. Inr ()), ie_staleness_ms = 0 \<rparr>"

definition demo_codec :: "(string \<times> op_record) list" where
  "demo_codec = [(''a'', rec_of (OpAdd ''0'' Task ''t'' [] [] None None)),
     (''b'', rec_of (OpAnnotate ''0'' ''mine'')), (''c'', rec_of (OpAnnotate ''0'' ''theirs'')),
     (''d'', rec_of (OpProposeEffect ''0'' ''e'' demo_manifest)),
     (''e'', rec_of (OpAttest ''0'' ''e'' ''o'' Achieved None []))]"

definition demo_env :: store_env where
  "demo_env = \<lparr> se_intake = demo_intake, se_manifest_json = mf_goal,
     se_from_str = (\<lambda>l. Some (JObj [(''v'', JInt 1),
        (''op'', JObj [(''type'', JStr ''add''), (''id'', JStr l)])])),
     se_from_value = (\<lambda>v. Option.bind (line_item v) (map_of demo_codec)),
     se_to_string = (\<lambda>r. case map_of (map (\<lambda>(k, r). (r, k)) demo_codec) r of
        None \<Rightarrow> Some ''z'' | Some k \<Rightarrow> Some k),
     se_ulid_show = (\<lambda>u. replicate (unat u) (CHR ''0'')), se_ulid_parse = (\<lambda>s. Some (of_nat (length s))),
     se_ulid_increment = (\<lambda>u. if u = -1 then None else Some (u + 1)) \<rparr>"

definition demo_store :: agenda_store where
  "demo_store = snd (open_store demo_env [CHR ''a'', newline] [])"


lemma demo_codes:
  "trim ''a'' = ''a''" "trim ''b'' = ''b''" "trim ''c'' = ''c''"
  "parse_record demo_env ''a'' = Inr (rec_of (OpAdd ''0'' Task ''t'' [] [] None None))"
  "parse_record demo_env ''b'' = Inr (rec_of (OpAnnotate ''0'' ''mine''))"
  "parse_record demo_env ''c'' = Inr (rec_of (OpAnnotate ''0'' ''theirs''))"
  by code_simp+

lemma demo_disk: "st_disk demo_store = [CHR ''a'', newline]" "st_io demo_store = []"
  by code_simp+

lemma demo_converged: "converged demo_env demo_store" "io_quiet demo_store"
  using open_converges [of demo_env "[CHR ''a'', newline]"]
  by (auto simp: demo_store_def)

lemma demo_record: "record_of op None None 5 = rec_of op"
  by (simp add: record_of_def rec_of_def agenda_log_version_def)

lemma demo_encodes: "encodes demo_env (rec_of (OpAnnotate ''0'' ''mine'')) ''b''"
proof -
  have "se_to_string demo_env (rec_of (OpAnnotate ''0'' ''mine'')) = Some ''b''"
    by (simp add: demo_env_def demo_codec_def rec_of_def)
  then show ?thesis by (simp add: encodes_def demo_codes newline_def)
qed

lemma demo_accepts:
  "snd (apply_op (env_dig demo_env) (st_items demo_store) (rec_of (OpAnnotate ''0'' ''mine''))) = None"
  by code_simp


theorem refresh_converges_witness:
  "converged demo_env (snd (refresh_if_stale demo_env
     (demo_store\<lparr>st_io := [\<lparr> is_foreign = [CHR ''b''], is_fail = None \<rparr>]\<rparr>)))"
proof -
  let ?st = "demo_store\<lparr>st_io := [\<lparr> is_foreign = [CHR ''b''], is_fail = None \<rparr>]\<rparr>"
  have "behind demo_env ?st"
    using converged_behind [OF demo_converged(1)] by (simp add: behind_def derived_def)
  moreover have "no_fail ?st" "io_quiet (io_rest 2 ?st)" by (simp_all add: no_fail_def io_quiet_def io_rest_def)
  moreover have "st_disk (snd (refresh_if_stale demo_env ?st)) = [CHR ''a'', newline, CHR ''b'', newline]"
    by code_simp
  ultimately show ?thesis using refresh_converges [of demo_env ?st] by simp
qed


theorem append_failure_safe_witness:
  "\<exists>st'. append_op demo_env (OpAnnotate ''0'' ''mine'') None None 5
       (demo_store\<lparr>st_io := [\<lparr> is_foreign = [], is_fail = Some 1 \<rparr>]\<rparr>) = (Inl IoError, st')
     \<and> st_items st' = st_items demo_store"
proof -
  let ?st = "demo_store\<lparr>st_io := [\<lparr> is_foreign = [], is_fail = Some 1 \<rparr>]\<rparr>"
  let ?r = "append_op demo_env (OpAnnotate ''0'' ''mine'') None None 5 ?st"
  have "fst ?r = Inl IoError"
    using demo_encodes demo_record [of "OpAnnotate ''0'' ''mine''"]
    by (simp add: append_op_def write_all_def next_io_def Let_def encodes_def record_of_def)
  then have "?r = (Inl IoError, snd ?r)" by (metis prod.collapse)
  from append_failure_safe [OF this] show ?thesis
    using \<open>?r = _\<close> by (auto simp: derived_def)
qed

lemma word_succ_less:
  fixes u :: "'a::len word"
  assumes "u \<noteq> - 1"
  shows "u < u + 1"
proof -
  have "1 + u \<noteq> 0" using assms by (metis add.commute add_eq_0_iff)
  from unatSuc [OF this] show ?thesis by (simp add: word_less_nat_alt add.commute)
qed

theorem mint_fresh_witness:
  "\<exists>i st'. mint_id demo_env 3 (demo_store\<lparr>st_items := [(''00000'', snd (hd (st_items demo_store)))],
       st_last_id := Some 5\<rparr>) = (Inr i, st')
     \<and> ''00000'' < i"
proof -
  let ?st = "demo_store\<lparr>st_items := [(''00000'', snd (hd (st_items demo_store)))], st_last_id := Some 5\<rparr>"
  have pre: "replicate m c < replicate n c" if "m < n" for m n and c :: char
    using that
  proof (induction m arbitrary: n)
    case 0
    then show ?case by (cases n) auto
  next
    case (Suc m)
    then show ?case by (cases n) auto
  qed
  obtain i st' where r: "mint_id demo_env 3 ?st = (Inr i, st')" and same: "st_items st' = st_items ?st"
    by (simp add: mint_id_def demo_env_def)
  have "u < v" if "se_ulid_increment demo_env u = Some v" for u v
    using that word_succ_less [of u] by (auto simp: demo_env_def split: if_splits)
  moreover have "se_ulid_show demo_env u < se_ulid_show demo_env v" if "u < v" for u v
    using that pre by (simp add: demo_env_def word_less_nat_alt)
  ultimately have laws: "ulid_laws demo_env" by (simp add: ulid_laws_def)
  have "''00000'' = se_ulid_show demo_env 5"
    by code_simp
  then have "ids_covered demo_env ?st"
    by (simp add: ids_covered_def exI [of _ 5])
  from mint_fresh [OF r laws this] show ?thesis using r same by auto
qed

theorem ops_pages_tile_witness:
  "pg_next_since (ops_page demo_env 0 None 1 [CHR ''a'', newline, CHR ''b'', newline]) = 1
   \<and> page_from (ops_entry demo_env None) 0 0 [''a'', ''b'']
       = pg_ops (ops_page demo_env 0 None 1 [CHR ''a'', newline, CHR ''b'', newline])
         @ page_from (ops_entry demo_env None) 1 0 [''a'', ''b'']"
proof -
  have l: "lines [CHR ''a'', newline, CHR ''b'', newline] = [''a'', ''b'']" by code_simp
  have n: "pg_next_since (ops_page demo_env 0 None 1 [CHR ''a'', newline, CHR ''b'', newline]) = 1"
    by code_simp
  from ops_pages_tile [OF _ refl, of "[CHR ''a'', newline, CHR ''b'', newline]" demo_env None 0 1] l n
  show ?thesis by simp
qed

theorem positions_are_lines_witness:
  "bt_get (st_item_seqs demo_store) ''0'' = Some 0 \<and> unat (st_log_lines demo_store) = 1"
proof -
  have l: "lines (st_disk demo_store) = [''a'']" by code_simp
  have s: "bt_get (st_item_seqs demo_store) ''0'' = Some 0" by code_simp
  from positions_are_lines [OF demo_converged(1) _ s] l s show ?thesis by simp
qed

text \<open>The foreign annotation is lost to the store and its own is folded twice.\<close>

theorem foreign_race_witness:
  "let st = demo_store\<lparr>st_io := [\<lparr> is_foreign = [CHR ''c'', newline], is_fail = None \<rparr>]\<rparr>;
       st1 = snd (append_op demo_env (OpAnnotate ''0'' ''mine'') None None 5 st);
       st2 = snd (refresh_if_stale demo_env st1)
   in map an_text (concat (map (\<lambda>(i, it). it_annotations it) (st_items st2))) = [''mine'', ''mine'']
      \<and> map an_text (concat (map (\<lambda>(i, it). it_annotations it)
          (fo_items (fold_bytes demo_env (st_disk st2))))) = [''theirs'', ''mine'']"
proof -
  let ?st = "demo_store\<lparr>st_io := [\<lparr> is_foreign = [CHR ''c'', newline], is_fail = None \<rparr>]\<rparr>"
  let ?st1 = "snd (append_op demo_env (OpAnnotate ''0'' ''mine'') None None 5 ?st)"
  have conv: "converged demo_env ?st"
    using demo_converged(1) by (simp add: converged_def derived_def)
  have acc: "snd (apply_op (env_dig demo_env) (st_items ?st) (record_of (OpAnnotate ''0'' ''mine'') None None 5)) = None"
    using demo_accepts by (simp add: demo_record)
  have "refresh_if_stale demo_env ?st1 = absorb_suffix demo_env ?st1"
    using foreign_race [OF conv _ _ acc, of "[CHR ''c'', newline]" "''b''"] demo_encodes
    by (simp add: Let_def demo_disk demo_record)
  then have s2: "snd (refresh_if_stale demo_env ?st1) = snd (absorb_suffix demo_env ?st1)" by simp
  have a: "map an_text (concat (map (\<lambda>(i, it). it_annotations it)
      (st_items (snd (absorb_suffix demo_env ?st1))))) = [''mine'', ''mine'']"
    by code_simp
  have b: "map an_text (concat (map (\<lambda>(i, it). it_annotations it)
      (fo_items (fold_bytes demo_env (st_disk (snd (absorb_suffix demo_env ?st1))))))) = [''theirs'', ''mine'']"
    by code_simp
  show ?thesis unfolding Let_def s2 using a b by blast
qed

end
