(* ===== verification/AgendaJournal.thy ===== *)
theory AgendaJournal
  imports AgendaStore
begin

text \<open>
  The occurrence journal (\<open>reminders.rs\<close>): the append-only file of what the scheduler set out to
  do and what became of it, its fold, the append under the cross-process lock, and its pages.
  As in \<open>AgendaStore\<close> the file is part of the state, every file operation first lets other
  daemons append what the schedule says, and may fail. The typed and untyped JSON parsers and
  the encoder of a row are arguments; malformed UTF-8 is the parsers' business.
\<close>

section \<open>Rows\<close>

datatype reminder_urgency = MuteUrgency | InfoUrgency | AttentionUrgency | UrgentUrgency

datatype occurrence_state =
    Prepared | Delivered | Suppressed | Missed | Started | Completed | Failed | Unknown

definition terminal_state :: "occurrence_state \<Rightarrow> bool" where
  "terminal_state s = (s \<noteq> Prepared \<and> s \<noteq> Started)"

record occurrence_record =
  oj_v :: u32
  oj_at_ms :: u64
  oj_occurrence_id :: string
  oj_item_id :: string
  oj_due_ms :: u64
  oj_state :: occurrence_state
  oj_urgency :: "reminder_urgency option"
  oj_session_id :: "string option"
  oj_generation :: "u64 option"
  oj_boot_id :: "string option"
  oj_attempt :: "u32 option"

record journal_stamp =
  js_boot_id :: string
  js_generation :: "u64 option"

record journal_env =
  je_value :: "string \<Rightarrow> json option"
  je_typed :: "string \<Rightarrow> occurrence_record option"
  je_encode :: "occurrence_record \<Rightarrow> string option"

section \<open>Folding rows\<close>

record occurrence_progress =
  oc_prepared :: bool
  oc_started :: "string option"
  oc_started_history :: "string list"
  oc_terminal :: "occurrence_state option"
  oc_item_id :: "string option"
  oc_writer_boot_id :: "string option"
  oc_attempt :: "u32 option"

definition no_progress :: occurrence_progress where
  "no_progress = \<lparr> oc_prepared = False, oc_started = None, oc_started_history = [],
     oc_terminal = None, oc_item_id = None, oc_writer_boot_id = None, oc_attempt = None \<rparr>"

definition note_session :: "string option \<Rightarrow> string list \<Rightarrow> string list" where
  "note_session s hist = (case s of None \<Rightarrow> hist | Some i \<Rightarrow> if i \<in> set hist then hist else hist @ [i])"

definition fold_record_into :: "occurrence_progress \<Rightarrow> occurrence_record \<Rightarrow> occurrence_progress" where
  "fold_record_into e0 rec =
    (let e1 = (if oj_item_id rec \<noteq> [] \<and> oc_item_id e0 = None
               then e0\<lparr>oc_item_id := Some (oj_item_id rec)\<rparr> else e0);
         e = (if oj_attempt rec \<noteq> None then e1\<lparr>oc_attempt := oj_attempt rec\<rparr> else e1)
     in case oj_state rec of
       Prepared \<Rightarrow> e\<lparr>oc_prepared := True, oc_writer_boot_id := oj_boot_id rec\<rparr>
     | Started \<Rightarrow> e\<lparr>oc_prepared := True, oc_started := oj_session_id rec,
         oc_writer_boot_id := oj_boot_id rec, oc_terminal := None,
         oc_started_history := note_session (oj_session_id rec) (oc_started_history e)\<rparr>
     | s \<Rightarrow> e\<lparr>oc_terminal := Some s\<rparr>)"

definition progress_in :: "occurrence_progress btree \<Rightarrow> string \<Rightarrow> occurrence_progress" where
  "progress_in m occ = (case bt_get m occ of None \<Rightarrow> no_progress | Some p \<Rightarrow> p)"

definition fold_entry :: "occurrence_progress btree \<Rightarrow> occurrence_record \<Rightarrow> occurrence_progress btree" where
  "fold_entry m rec = bt_put (oj_occurrence_id rec)
     (fold_record_into (progress_in m (oj_occurrence_id rec)) rec) m"

definition fold_generation :: "u64 \<Rightarrow> occurrence_record \<Rightarrow> u64" where
  "fold_generation g rec = (case oj_generation rec of None \<Rightarrow> g | Some n \<Rightarrow> max g n)"

type_synonym journal_fold = "occurrence_progress btree \<times> u64"

definition journal_line :: "journal_env \<Rightarrow> journal_fold \<Rightarrow> string \<Rightarrow> journal_fold" where
  "journal_line w s raw = (let line = trim raw in
     if line = [] then s
     else case je_typed w line of
       None \<Rightarrow> s
     | Some rec \<Rightarrow> (fold_entry (fst s) rec, fold_generation (snd s) rec))"

definition fold_journal :: "journal_env \<Rightarrow> string \<Rightarrow> occurrence_progress btree \<times> u64 \<times> u64" where
  "fold_journal w bytes = (case foldl (journal_line w) ([], 0) (lines bytes) of
     (m, g) \<Rightarrow> (m, file_len bytes, g))"

definition journal_generation_floor :: "journal_env \<Rightarrow> string option \<Rightarrow> u64" where
  "journal_generation_floor w bytes = (case bytes of None \<Rightarrow> 0 | Some b \<Rightarrow> snd (snd (fold_journal w b)))"

section \<open>The journal\<close>

record occurrence_journal =
  jn_disk :: string
  jn_io :: "io_step list"
  jn_state :: "occurrence_progress btree"
  jn_folded_len :: u64
  jn_max_generation :: u64
  jn_stamp :: "journal_stamp option"

datatype io_error = IoFailed | EncodeFailed

type_synonym 'a journaled = "(io_error + 'a) \<times> occurrence_journal"

definition jn_next :: "occurrence_journal \<Rightarrow> nat option \<times> occurrence_journal" where
  "jn_next j = (case jn_io j of [] \<Rightarrow> (None, j)
   | s # r \<Rightarrow> (is_fail s, j\<lparr>jn_disk := jn_disk j @ is_foreign s, jn_io := r\<rparr>))"

definition jn_step :: "occurrence_journal \<Rightarrow> unit journaled" where
  "jn_step j = (case jn_next j of (None, j1) \<Rightarrow> (Inr (), j1) | (Some _, j1) \<Rightarrow> (Inl IoFailed, j1))"

definition jn_then :: "'a journaled \<Rightarrow> ('a \<Rightarrow> occurrence_journal \<Rightarrow> 'b journaled) \<Rightarrow> 'b journaled" where
  "jn_then r f = (case r of (Inl e, j) \<Rightarrow> (Inl e, j) | (Inr a, j) \<Rightarrow> f a j)"

definition jn_write :: "string \<Rightarrow> occurrence_journal \<Rightarrow> unit journaled" where
  "jn_write bytes j = (case jn_next j of
     (None, j1) \<Rightarrow> (Inr (), j1\<lparr>jn_disk := jn_disk j1 @ bytes\<rparr>)
   | (Some k, j1) \<Rightarrow> (Inl IoFailed, j1\<lparr>jn_disk := jn_disk j1 @ take k bytes\<rparr>))"

definition jn_load :: "journal_env \<Rightarrow> occurrence_journal \<Rightarrow> occurrence_journal" where
  "jn_load w j = (case fold_journal w (jn_disk j) of (m, len, g) \<Rightarrow>
     j\<lparr>jn_state := m, jn_folded_len := len, jn_max_generation := g\<rparr>)"

text \<open>Reading the whole file and folding it.\<close>

definition reread :: "journal_env \<Rightarrow> occurrence_journal \<Rightarrow> unit journaled" where
  "reread w j = jn_then (jn_step j) (\<lambda>_ j1. (Inr (), jn_load w j1))"

definition open_journal :: "journal_env \<Rightarrow> string \<Rightarrow> io_step list \<Rightarrow> unit journaled" where
  "open_journal w disk io = reread w \<lparr> jn_disk = disk, jn_io = io, jn_state = [], jn_folded_len = 0,
     jn_max_generation = 0, jn_stamp = None \<rparr>"

definition set_stamp :: "journal_stamp option \<Rightarrow> occurrence_journal \<Rightarrow> occurrence_journal" where
  "set_stamp s j = j\<lparr>jn_stamp := s\<rparr>"

definition refresh_journal :: "journal_env \<Rightarrow> occurrence_journal \<Rightarrow> unit journaled" where
  "refresh_journal w j = jn_then (jn_step j) (\<lambda>_ j1.
     if file_len (jn_disk j1) = jn_folded_len j1 then (Inr (), j1) else reread w j1)"

definition terminate_torn_tail :: "occurrence_journal \<Rightarrow> bool journaled" where
  "terminate_torn_tail j = jn_then (jn_step j) (\<lambda>_ j1.
     if jn_disk j1 = [] then (Inr False, j1)
     else jn_then (jn_step j1) (\<lambda>_ j2.
       if last (jn_disk j2) = newline then (Inr False, j2)
       else jn_then (jn_write [newline] j2) (\<lambda>_ j3. (Inr True, j3))))"

definition stamped :: "journal_stamp option \<Rightarrow> occurrence_record \<Rightarrow> occurrence_record" where
  "stamped st rec = (case st of None \<Rightarrow> rec
   | Some s \<Rightarrow> if oj_generation rec = None \<or> oj_boot_id rec = None
       then rec\<lparr>oj_boot_id := (if oj_boot_id rec = None then Some (js_boot_id s) else oj_boot_id rec),
         oj_generation := (if oj_generation rec = None then js_generation s else oj_generation rec)\<rparr>
       else rec)"

definition write_record :: "journal_env \<Rightarrow> occurrence_record \<Rightarrow> occurrence_journal \<Rightarrow> unit journaled" where
  "write_record w rec j = (case je_encode w rec of
     None \<Rightarrow> (Inl EncodeFailed, j)
   | Some body \<Rightarrow> let line = body @ [newline] in
       jn_then (jn_write line j) (\<lambda>_ j1.
       jn_then (if terminal_state (oj_state rec) then (Inr (), j1) else jn_step j1) (\<lambda>_ j2.
         (Inr (), j2\<lparr>jn_folded_len := jn_folded_len j2 + file_len line,
            jn_max_generation := fold_generation (jn_max_generation j2) rec,
            jn_state := fold_entry (jn_state j2) rec\<rparr>))))"

definition append_locked :: "journal_env \<Rightarrow> occurrence_record \<Rightarrow> occurrence_journal \<Rightarrow> unit journaled" where
  "append_locked w rec j =
     jn_then (refresh_journal w j) (\<lambda>_ j1.
     jn_then (terminate_torn_tail j1) (\<lambda>sealed j2.
     jn_then (if sealed then reread w j2 else (Inr (), j2)) (\<lambda>_ j3.
       write_record w (stamped (jn_stamp j3) rec) j3)))"

text \<open>The lock is taken first and released last; a failed release is reported only after a success.\<close>

definition journal_append :: "journal_env \<Rightarrow> occurrence_record \<Rightarrow> occurrence_journal \<Rightarrow> unit journaled" where
  "journal_append w rec j = jn_then (jn_step j) (\<lambda>_ j1. case append_locked w rec j1 of
     (Inl e, j2) \<Rightarrow> (Inl e, snd (jn_step j2))
   | (Inr _, j2) \<Rightarrow> jn_step j2)"

section \<open>What the fold knows\<close>

definition journal_progress :: "occurrence_journal \<Rightarrow> string \<Rightarrow> occurrence_progress" where
  "journal_progress j occ = progress_in (jn_state j) occ"

definition started_sessions_for_item :: "occurrence_journal \<Rightarrow> string \<Rightarrow> string list" where
  "started_sessions_for_item j i = concat (map oc_started_history
     (filter (\<lambda>p. oc_item_id p = Some i) (map snd (jn_state j))))"

definition started_unresolved_for_item :: "occurrence_journal \<Rightarrow> string \<Rightarrow> bool" where
  "started_unresolved_for_item j i = list_ex (\<lambda>p. oc_item_id p = Some i \<and> oc_started p \<noteq> None
     \<and> oc_terminal p = None) (map snd (jn_state j))"

record started_unresolved_row =
  su_occurrence_id :: string
  su_session_id :: "string option"
  su_writer_boot_id :: "string option"

definition started_unresolved :: "occurrence_journal \<Rightarrow> started_unresolved_row list" where
  "started_unresolved j = map (\<lambda>(occ, p). \<lparr> su_occurrence_id = occ, su_session_id = oc_started p,
       su_writer_boot_id = oc_writer_boot_id p \<rparr>)
     (filter (\<lambda>(occ, p). oc_started p \<noteq> None \<and> oc_terminal p = None) (jn_state j))"

record prepared_unresolved_row =
  pu_occurrence_id :: string
  pu_item_id :: "string option"
  pu_writer_boot_id :: "string option"

definition prepared_unresolved :: "occurrence_journal \<Rightarrow> prepared_unresolved_row list" where
  "prepared_unresolved j = map (\<lambda>(occ, p). \<lparr> pu_occurrence_id = occ, pu_item_id = oc_item_id p,
       pu_writer_boot_id = oc_writer_boot_id p \<rparr>)
     (filter (\<lambda>(occ, p). oc_prepared p \<and> oc_started p = None \<and> oc_terminal p = None) (jn_state j))"

datatype session_lineage_role = Tip | Superseded

fun session_lineage_role_str :: "session_lineage_role \<Rightarrow> string" where
  "session_lineage_role_str Tip = ''tip''"
| "session_lineage_role_str Superseded = ''superseded''"

record session_occurrence_link =
  sl_occurrence_id :: string
  sl_item_id :: string
  sl_state :: occurrence_state
  sl_lineage_role :: session_lineage_role
  sl_attempt :: "u32 option"

definition session_link :: "string \<Rightarrow> string \<Rightarrow> occurrence_progress \<Rightarrow> string \<Rightarrow> session_occurrence_link" where
  "session_link occ i p s = \<lparr> sl_occurrence_id = occ, sl_item_id = i,
     sl_state = (case oc_terminal p of None \<Rightarrow> Started | Some t \<Rightarrow> t),
     sl_lineage_role = (if oc_started p = Some s then Tip else Superseded),
     sl_attempt = oc_attempt p \<rparr>"

definition link_sessions :: "(string \<rightharpoonup> session_occurrence_link) \<Rightarrow> string \<times> occurrence_progress
    \<Rightarrow> (string \<rightharpoonup> session_occurrence_link)" where
  "link_sessions links e = (case e of (occ, p) \<Rightarrow> (case oc_item_id p of
      None \<Rightarrow> links
    | Some i \<Rightarrow> if i = [] then links
        else foldl (\<lambda>l s. l(s \<mapsto> session_link occ i p s)) links (oc_started_history p)))"

definition session_links :: "occurrence_journal \<Rightarrow> (string \<rightharpoonup> session_occurrence_link)" where
  "session_links j = foldl link_sessions Map.empty (jn_state j)"

section \<open>Pages\<close>

text \<open>The bytes up to and including the last newline.\<close>

definition complete_journal_prefix :: "string \<Rightarrow> string" where
  "complete_journal_prefix bytes = rev (dropWhile (\<lambda>c. c \<noteq> newline) (rev bytes))"

definition agenda_occurrences_max_limit :: nat where "agenda_occurrences_max_limit = 2000"

definition occurrence_entry :: "journal_env \<Rightarrow> string option \<Rightarrow> u64 \<Rightarrow> string \<Rightarrow> ops_line option" where
  "occurrence_entry w item seq raw = (let line = trim raw in
     if line = [] then None
     else case je_value w line of
       Some v \<Rightarrow> (if item \<noteq> None \<and> Option.bind (json_get v ''item_id'') json_as_str \<noteq> item then None
                  else Some (Line seq (je_typed w line \<noteq> None) v))
     | None \<Rightarrow> (if item \<noteq> None then None else Some (Raw seq line)))"

record agenda_occurrences_page =
  op_occurrences :: "ops_line list"
  op_next_since :: u64
  op_log_len :: u64
  op_filtered :: bool

definition occurrences_page :: "journal_env \<Rightarrow> u64 \<Rightarrow> string option \<Rightarrow> nat \<Rightarrow> string
    \<Rightarrow> agenda_occurrences_page" where
  "occurrences_page w since item limit bytes =
    (let (es, log_len, next) = page_loop (occurrence_entry w item) since
           (min agenda_occurrences_max_limit (max 1 limit)) (lines (complete_journal_prefix bytes))
           0 [] 0 None
     in \<lparr> op_occurrences = es, op_next_since = (case next of None \<Rightarrow> log_len | Some n \<Rightarrow> n),
          op_log_len = log_len, op_filtered = item \<noteq> None \<rparr>)"

definition read_page :: "journal_env \<Rightarrow> u64 \<Rightarrow> string option \<Rightarrow> nat \<Rightarrow> occurrence_journal
    \<Rightarrow> agenda_occurrences_page journaled" where
  "read_page w since item limit j =
     jn_then (refresh_journal w j) (\<lambda>_ j1. jn_then (jn_step j1) (\<lambda>_ j2.
       (Inr (occurrences_page w since item limit (jn_disk j2)), j2)))"

section \<open>Sequencing with failures\<close>

text \<open>
  A triple of a journal operation: from a state with the first property the operation returns
  into the second, or fails into the third.
\<close>

definition jtriple :: "(occurrence_journal \<Rightarrow> bool) \<Rightarrow> (occurrence_journal \<Rightarrow> 'a journaled)
    \<Rightarrow> ('a \<Rightarrow> occurrence_journal \<Rightarrow> bool) \<Rightarrow> (occurrence_journal \<Rightarrow> bool) \<Rightarrow> bool" where
  "jtriple P c Q E = (\<forall>j. P j \<longrightarrow> (case c j of (Inr a, j') \<Rightarrow> Q a j' | (Inl e, j') \<Rightarrow> E j'))"

lemma jtripleI: "(\<And>j. P j \<Longrightarrow> case c j of (Inr a, j') \<Rightarrow> Q a j' | (Inl e, j') \<Rightarrow> E j') \<Longrightarrow> jtriple P c Q E"
  by (simp add: jtriple_def)

lemma jtripleD: "jtriple P c Q E \<Longrightarrow> P j \<Longrightarrow> case c j of (Inr a, j') \<Rightarrow> Q a j' | (Inl e, j') \<Rightarrow> E j'"
  by (simp add: jtriple_def)

lemma jtriple_then:
  assumes "jtriple P c R E" and "\<And>a. jtriple (R a) (f a) Q E"
  shows "jtriple P (\<lambda>j. jn_then (c j) f) Q E"
proof (rule jtripleI)
  fix j assume "P j"
  note first = jtripleD [OF assms(1) this]
  obtain r j1 where c: "c j = (r, j1)" by (cases "c j")
  show "case jn_then (c j) f of (Inr a, j') \<Rightarrow> Q a j' | (Inl e, j') \<Rightarrow> E j'"
  proof (cases r)
    case (Inl e)
    with first c show ?thesis by (simp add: jn_then_def)
  next
    case (Inr a)
    with first c have "R a j1" by simp
    from jtripleD [OF assms(2) this] Inr c show ?thesis by (simp add: jn_then_def)
  qed
qed

lemma jtriple_weaken:
  assumes "jtriple P c Q E" "\<And>j. P' j \<Longrightarrow> P j" "\<And>a j. Q a j \<Longrightarrow> Q' a j" "\<And>j. E j \<Longrightarrow> E' j"
  shows "jtriple P' c Q' E'"
  using assms unfolding jtriple_def by (fastforce split: prod.splits sum.splits)

lemma jtriple_return: "(\<And>j. P j \<Longrightarrow> Q a j) \<Longrightarrow> jtriple P (\<lambda>j. (Inr a, j)) Q E"
  by (simp add: jtriple_def)

lemma jtriple_if:
  assumes "\<And>j. P j \<Longrightarrow> b j \<longleftrightarrow> t" "t \<Longrightarrow> jtriple P c Q E" "\<not> t \<Longrightarrow> jtriple P d Q E"
  shows "jtriple P (\<lambda>j. if b j then c j else d j) Q E"
  using assms by (cases t) (auto simp: jtriple_def)

text \<open>
  Under the lock nobody else writes; the schedule may still fail, unless \<open>b\<close>. What an operation
  is about: the bytes, what was folded of them and the stamp.
\<close>

definition locked :: "bool \<Rightarrow> occurrence_journal \<Rightarrow> bool" where
  "locked b j = list_all (\<lambda>s. is_foreign s = [] \<and> (b \<longrightarrow> is_fail s = None)) (jn_io j)"

definition jview :: "occurrence_journal \<Rightarrow> occurrence_progress btree \<times> u64 \<times> u64" where
  "jview j = (jn_state j, jn_folded_len j, jn_max_generation j)"

definition core :: "occurrence_journal \<Rightarrow> string \<times> (occurrence_progress btree \<times> u64 \<times> u64) \<times> journal_stamp option" where
  "core j = (jn_disk j, jview j, jn_stamp j)"

lemma core_io [simp]: "core (j\<lparr>jn_io := io\<rparr>) = core j"
  by (simp add: core_def jview_def)

lemma core_eq: "core j = (d, v, s) \<longleftrightarrow> jn_disk j = d \<and> jview j = v \<and> jn_stamp j = s"
  by (auto simp: core_def)

lemma jn_next_locked:
  assumes "locked b j"
  obtains k where "jn_next j = (k, j\<lparr>jn_io := drop 1 (jn_io j)\<rparr>)" "b \<longrightarrow> k = None"
    "locked b (j\<lparr>jn_io := drop 1 (jn_io j)\<rparr>)"
proof (cases "jn_io j")
  case Nil
  with assms show ?thesis by (intro that [of None]) (simp_all add: jn_next_def locked_def)
next
  case (Cons s r)
  with assms show ?thesis
    by (intro that [of "is_fail s"]) (simp_all add: jn_next_def locked_def)
qed

lemma step_triple:
  "jtriple (\<lambda>j. locked b j \<and> core j = c) jn_step (\<lambda>_ j. locked b j \<and> core j = c) (\<lambda>j. \<not> b \<and> core j = c)"
proof (rule jtripleI)
  fix j assume j: "locked b j \<and> core j = c"
  then obtain k where "jn_next j = (k, j\<lparr>jn_io := drop 1 (jn_io j)\<rparr>)" "b \<longrightarrow> k = None"
    "locked b (j\<lparr>jn_io := drop 1 (jn_io j)\<rparr>)" using jn_next_locked by blast
  with j show "case jn_step j of (Inr _, j') \<Rightarrow> locked b j' \<and> core j' = c | (Inl e, j') \<Rightarrow> \<not> b \<and> core j' = c"
    by (auto simp: jn_step_def split: option.split)
qed

lemma write_triple:
  "jtriple (\<lambda>j. locked b j \<and> core j = (d, v, s)) (jn_write bytes)
     (\<lambda>_ j. locked b j \<and> core j = (d @ bytes, v, s))
     (\<lambda>j. \<not> b \<and> (\<exists>k. core j = (d @ take k bytes, v, s)))"
proof (rule jtripleI)
  fix j assume j: "locked b j \<and> core j = (d, v, s)"
  then obtain k where "jn_next j = (k, j\<lparr>jn_io := drop 1 (jn_io j)\<rparr>)" "b \<longrightarrow> k = None"
    "locked b (j\<lparr>jn_io := drop 1 (jn_io j)\<rparr>)" using jn_next_locked by blast
  with j show "case jn_write bytes j of (Inr _, j') \<Rightarrow> locked b j' \<and> core j' = (d @ bytes, v, s)
      | (Inl e, j') \<Rightarrow> \<not> b \<and> (\<exists>k. core j' = (d @ take k bytes, v, s))"
    by (auto simp: jn_write_def core_def jview_def locked_def split: option.split)
qed

section \<open>The file and its fold\<close>

lemma journal_line_trim: "trim a = trim b \<Longrightarrow> journal_line w s a = journal_line w s b"
  by (simp add: journal_line_def)

interpretation occ_log: line_fold "journal_line w" for w
  by unfold_locales (rule journal_line_trim)

text \<open>What the row codec promises of one row: one line, which parses back to it.\<close>

definition jencodes :: "journal_env \<Rightarrow> occurrence_record \<Rightarrow> string \<Rightarrow> bool" where
  "jencodes w rec body = (je_encode w rec = Some body \<and> newline \<notin> set body \<and> trim body \<noteq> []
     \<and> je_typed w (trim body) = Some rec)"

lemma fold_journal_row:
  assumes "ended d" "jencodes w rec body" "fold_journal w d = (m, len, g)"
  shows "fold_journal w (d @ body @ [newline])
    = (fold_entry m rec, len + file_len (body @ [newline]), fold_generation g rec)"
  using occ_log.run_line [OF assms(1), of body w "([], 0)"] assms(2,3)
  by (auto simp: fold_journal_def jencodes_def journal_line_def file_len_append split: prod.splits)

lemma fold_journal_len: "fst (snd (fold_journal w d)) = file_len d"
  by (simp add: fold_journal_def split: prod.split)

text \<open>
  A view lags behind the file when it is the fold of a prefix of it; it has then at least seen \<open>q\<close>
  when the prefix starts with it.
\<close>

definition lags :: "journal_env \<Rightarrow> string \<Rightarrow> string \<Rightarrow> occurrence_progress btree \<times> u64 \<times> u64 \<Rightarrow> bool" where
  "lags w q d v = (\<exists>p r. d = q @ p @ r \<and> v = fold_journal w (q @ p))"

lemma lags_fold: "lags w q d v \<Longrightarrow> lags w q d (fold_journal w d)"
  unfolding lags_def by (metis append_Nil2)

lemma lags_whole [simp]: "lags w [] d (fold_journal w d)"
  unfolding lags_def by (metis append_Nil append_Nil2)

lemma lags_append: "lags w q d v \<Longrightarrow> lags w q (d @ r) v"
  unfolding lags_def by (metis append_assoc)

lemma lags_longer: "lags w q d v \<Longrightarrow> \<exists>r. t = d @ r \<Longrightarrow> lags w q t (fold_journal w t)"
  by (metis lags_append lags_fold)

lemma lags_seen: "d = q @ r \<Longrightarrow> lags w q d (fold_journal w d)"
  unfolding lags_def by (metis append_Nil2)

lemma lags_caught_up:
  assumes "lags w q d v" "length d < 2 ^ 64" "file_len d = fst (snd v)"
  shows "v = fold_journal w d"
proof -
  obtain p r where p: "d = p @ r" "v = fold_journal w p"
    using assms(1) unfolding lags_def by (metis append_assoc)
  then have "file_len (p @ r) = file_len p" using assms(3) by (simp add: fold_journal_len)
  then have "length (p @ r) = length p"
    using p(1) assms(2) unat_file_len [of p] unat_file_len [of "p @ r"] by simp
  then show ?thesis using p by simp
qed

lemma load_core: "core j = (d, v, s) \<Longrightarrow> core (jn_load w j) = (d, fold_journal w d, s)"
  by (auto simp: jn_load_def core_def jview_def split: prod.splits)

lemma load_io [simp]: "jn_io (jn_load w j) = jn_io j"
  by (simp add: jn_load_def split: prod.split)

lemma reread_triple:
  "jtriple (\<lambda>j. locked b j \<and> core j = (d, v, s)) (reread w)
     (\<lambda>_ j. locked b j \<and> core j = (d, fold_journal w d, s)) (\<lambda>j. \<not> b \<and> core j = (d, v, s))"
  unfolding reread_def
  by (rule jtriple_then [OF step_triple])
     (auto simp: jtriple_def load_core locked_def)

lemma refresh_triple:
  assumes "lags w q d v" "length d < 2 ^ 64"
  shows "jtriple (\<lambda>j. locked b j \<and> core j = (d, v, s)) (refresh_journal w)
     (\<lambda>_ j. locked b j \<and> core j = (d, fold_journal w d, s)) (\<lambda>j. \<not> b \<and> core j = (d, v, s))"
  unfolding refresh_journal_def
proof (rule jtriple_then [OF step_triple])
  show "jtriple (\<lambda>j. locked b j \<and> core j = (d, v, s))
      (\<lambda>j. if file_len (jn_disk j) = jn_folded_len j then (Inr (), j) else reread w j)
      (\<lambda>_ j. locked b j \<and> core j = (d, fold_journal w d, s)) (\<lambda>j. \<not> b \<and> core j = (d, v, s))"
  proof (rule jtriple_if [where t = "file_len d = fst (snd v)"])
    assume "file_len d = fst (snd v)"
    then have "v = fold_journal w d" by (rule lags_caught_up [OF assms])
    then show "jtriple (\<lambda>j. locked b j \<and> core j = (d, v, s)) (\<lambda>j. (Inr (), j))
      (\<lambda>_ j. locked b j \<and> core j = (d, fold_journal w d, s)) (\<lambda>j. \<not> b \<and> core j = (d, v, s))"
      by (simp add: jtriple_return)
  next
    show "file_len (jn_disk j) = jn_folded_len j \<longleftrightarrow> file_len d = fst (snd v)"
      if "locked b j \<and> core j = (d, v, s)" for j
      using that by (auto simp: core_eq jview_def)
  qed (rule reread_triple)
qed

lemma seal_triple:
  "jtriple (\<lambda>j. locked b j \<and> core j = (d, v, s)) terminate_torn_tail
     (\<lambda>sealed j. sealed = (\<not> ended d) \<and> locked b j \<and> core j = (terminated d, v, s))
     (\<lambda>j. \<not> b \<and> (\<exists>r. core j = (d @ r, v, s)))"
proof -
  let ?P = "\<lambda>j. locked b j \<and> core j = (d, v, s)"
  let ?Q = "\<lambda>sealed j. sealed = (\<not> ended d) \<and> locked b j \<and> core j = (terminated d, v, s)"
  let ?E = "\<lambda>j. \<not> b \<and> (\<exists>r. core j = (d @ r, v, s))"
  have step: "jtriple ?P jn_step (\<lambda>_. ?P) ?E"
    by (rule jtriple_weaken [OF step_triple]) auto
  have wr: "jtriple ?P (jn_write [newline]) (\<lambda>_ j. locked b j \<and> core j = (d @ [newline], v, s)) ?E"
    by (rule jtriple_weaken [OF write_triple]) auto
  have seal: "jtriple ?P (\<lambda>j. jn_then (jn_write [newline] j) (\<lambda>_ j3. (Inr True, j3))) ?Q ?E" if "\<not> ended d"
    using that by (intro jtriple_then [OF wr] jtriple_return) (simp add: terminated_def)
  have quiet: "jtriple ?P (\<lambda>j. (Inr False, j)) ?Q ?E" if "ended d"
    using that by (intro jtriple_return) (simp add: terminated_def)
  have look: "jtriple ?P (\<lambda>j. if last (jn_disk j) = newline then (Inr False, j)
      else jn_then (jn_write [newline] j) (\<lambda>_ j3. (Inr True, j3))) ?Q ?E" if "d \<noteq> []"
    by (rule jtriple_if [OF _ quiet seal]) (use that in \<open>auto simp: core_eq ended_def\<close>)
  show ?thesis
    unfolding terminate_torn_tail_def
    by (rule jtriple_then [OF step], rule jtriple_if [where t = "d = []", OF _ quiet jtriple_then [OF step look]])
       (auto simp: core_eq ended_def)
qed

lemma write_record_triple:
  assumes "jencodes w rec body" "ended d"
  shows "jtriple (\<lambda>j. locked b j \<and> core j = (d, fold_journal w d, s)) (write_record w rec)
     (\<lambda>_ j. locked b j \<and> core j = (d @ body @ [newline], fold_journal w (d @ body @ [newline]), s))
     (\<lambda>j. \<not> b \<and> (\<exists>r. core j = (d @ r, fold_journal w d, s)))"
proof -
  let ?line = "body @ [newline]"
  let ?E = "\<lambda>j. \<not> b \<and> (\<exists>r. core j = (d @ r, fold_journal w d, s))"
  let ?R = "\<lambda>j. locked b j \<and> core j = (d @ ?line, fold_journal w d, s)"
  have enc: "je_encode w rec = Some body" using assms(1) by (simp add: jencodes_def)
  have wr: "jtriple (\<lambda>j. locked b j \<and> core j = (d, fold_journal w d, s)) (jn_write ?line) (\<lambda>_. ?R) ?E"
    by (rule jtriple_weaken [OF write_triple]) auto
  have sync: "jtriple ?R (\<lambda>j. if terminal_state (oj_state rec) then (Inr (), j) else jn_step j) (\<lambda>_. ?R) ?E"
    by (rule jtriple_if [OF refl], rule jtriple_return)
       (auto intro: jtriple_weaken [OF step_triple])
  obtain m len g where v: "fold_journal w d = (m, len, g)" by (cases "fold_journal w d")
  have "jtriple ?R (\<lambda>j. (Inr (), j\<lparr>jn_folded_len := jn_folded_len j + file_len ?line,
            jn_max_generation := fold_generation (jn_max_generation j) rec,
            jn_state := fold_entry (jn_state j) rec\<rparr>))
     (\<lambda>_ j. locked b j \<and> core j = (d @ ?line, fold_journal w (d @ ?line), s)) ?E"
    using fold_journal_row [OF assms(2,1) v] v
    by (simp add: jtriple_def core_def jview_def locked_def)
  from jtriple_then [OF wr jtriple_then [OF sync this]]
  show ?thesis by (simp add: write_record_def [abs_def] enc Let_def)
qed

text \<open>After a failure: nothing of the file is lost, and the view lags.\<close>

definition trails :: "journal_env \<Rightarrow> string \<Rightarrow> string \<Rightarrow> journal_stamp option \<Rightarrow> occurrence_journal \<Rightarrow> bool" where
  "trails w q d s j = ((\<exists>r. jn_disk j = d @ r) \<and> jn_stamp j = s \<and> lags w q (jn_disk j) (jview j))"

lemma trailsI: "core j = (d @ r, v, s) \<Longrightarrow> lags w q (d @ r) v \<Longrightarrow> trails w q d s j"
  by (auto simp: trails_def core_eq)

lemma trailsI0: "core j = (d, v, s) \<Longrightarrow> lags w q d v \<Longrightarrow> trails w q d s j"
  by (rule trailsI [of _ _ "[]"]) simp_all

lemma trails_at:
  "t = d @ r \<Longrightarrow> lags w q d v \<Longrightarrow> core j = (t @ x, fold_journal w t, s) \<Longrightarrow> trails w q d s j"
  using lags_append [OF lags_fold [OF lags_append], of w q d v r x] by (auto simp: trails_def core_eq)

lemma append_locked_triple:
  assumes "jencodes w (stamped s rec) body" "lags w q d v" "length d < 2 ^ 64"
  shows "jtriple (\<lambda>j. locked b j \<and> core j = (d, v, s)) (append_locked w rec)
     (\<lambda>_ j. locked b j \<and> core j = (terminated d @ body @ [newline],
         fold_journal w (terminated d @ body @ [newline]), s))
     (\<lambda>j. \<not> b \<and> trails w q d s j)"
proof -
  let ?E = "\<lambda>j. \<not> b \<and> trails w q d s j"
  let ?t = "terminated d" and ?f = "fold_journal w d"
  let ?R = "\<lambda>j. locked b j \<and> core j = (?t, fold_journal w ?t, s)"
  have t: "ended ?t" "\<exists>r. ?t = d @ r" "ended d \<Longrightarrow> ?t = d" by (auto simp: terminated_def ended_def)
  have refresh: "jtriple (\<lambda>j. locked b j \<and> core j = (d, v, s)) (refresh_journal w)
      (\<lambda>_ j. locked b j \<and> core j = (d, ?f, s)) ?E"
    by (rule jtriple_weaken [OF refresh_triple [OF assms(2,3)]])
       (use assms(2) in \<open>auto intro: trailsI0\<close>)
  have seal: "jtriple (\<lambda>j. locked b j \<and> core j = (d, ?f, s)) terminate_torn_tail
      (\<lambda>sealed j. sealed = (\<not> ended d) \<and> locked b j \<and> core j = (?t, ?f, s)) ?E"
    by (rule jtriple_weaken [OF seal_triple]) (auto intro!: trailsI [OF _ lags_append [OF lags_fold [OF assms(2)]]])
  have again: "jtriple (\<lambda>j. sealed = (\<not> ended d) \<and> locked b j \<and> core j = (?t, ?f, s))
      (\<lambda>j. if sealed then reread w j else (Inr (), j)) (\<lambda>_. ?R) ?E" for sealed
    by (rule jtriple_if [OF refl])
       (use t in \<open>auto intro!: jtriple_return jtriple_weaken [OF reread_triple [of b ?t ?f s]]
          intro: trailsI [OF _ lags_append [OF lags_fold [OF assms(2)]]]\<close>)
  have row: "jtriple ?R (\<lambda>j. write_record w (stamped (jn_stamp j) rec) j)
      (\<lambda>_ j. locked b j \<and> core j = (?t @ body @ [newline], fold_journal w (?t @ body @ [newline]), s)) ?E"
  proof -
    have "jtriple ?R (write_record w (stamped s rec))
      (\<lambda>_ j. locked b j \<and> core j = (?t @ body @ [newline], fold_journal w (?t @ body @ [newline]), s)) ?E"
      by (rule jtriple_weaken [OF write_record_triple [OF assms(1) t(1), of b s]])
         (use t(2) in \<open>auto intro: trails_at [OF _ assms(2)]\<close>)
    then show ?thesis by (auto simp: jtriple_def core_eq)
  qed
  show ?thesis
    unfolding append_locked_def
    by (intro jtriple_then [OF refresh] jtriple_then [OF seal] jtriple_then [OF again] row)
qed


section \<open>Appending, whatever fails\<close>

text \<open>What others appended before the lock was taken.\<close>

definition arrived :: "occurrence_journal \<Rightarrow> string" where
  "arrived j = (case jn_io j of [] \<Rightarrow> [] | s # _ \<Rightarrow> is_foreign s)"

definition lock_held :: "bool \<Rightarrow> occurrence_journal \<Rightarrow> bool" where
  "lock_held b j = (locked b (j\<lparr>jn_io := drop 1 (jn_io j)\<rparr>)
     \<and> (b \<longrightarrow> (case jn_io j of [] \<Rightarrow> True | s # _ \<Rightarrow> is_fail s = None)))"

lemma lock_step:
  "lock_held b j \<Longrightarrow> case jn_step j of
     (Inr _, j1) \<Rightarrow> locked b j1 \<and> core j1 = (jn_disk j @ arrived j, jview j, jn_stamp j)
   | (Inl e, j1) \<Rightarrow> \<not> b \<and> core j1 = (jn_disk j @ arrived j, jview j, jn_stamp j)"
  by (cases "jn_io j")
     (auto simp: jn_step_def jn_next_def lock_held_def locked_def core_def jview_def arrived_def
        split: option.split)

lemma journal_append_cases:
  assumes "jencodes w (stamped (jn_stamp j) rec) body" "lags w q (jn_disk j) (jview j)" "lock_held b j"
    and d: "d = jn_disk j @ arrived j" and "length d < 2 ^ 64"
  shows "case journal_append w rec j of
     (Inr _, j') \<Rightarrow> core j' = (terminated d @ body @ [newline],
         fold_journal w (terminated d @ body @ [newline]), jn_stamp j)
   | (Inl e, j') \<Rightarrow> \<not> b \<and> trails w q d (jn_stamp j) j'"
proof -
  let ?s = "jn_stamp j" and ?d' = "terminated d @ body @ [newline]"
  obtain r1 j1 where one: "jn_step j = (r1, j1)" by (cases "jn_step j")
  have lag: "lags w q d (jview j)" using assms(2) d by (simp add: lags_append)
  have t: "\<exists>r. terminated d @ body @ [newline] = d @ r" by (simp add: terminated_def)
  note first = lock_step [OF assms(3), unfolded one, folded d]
  show ?thesis
  proof (cases r1)
    case (Inl e)
    with first one lag show ?thesis
      by (auto simp: journal_append_def jn_then_def intro: trailsI0)
  next
    case (Inr u)
    with first have j1: "locked b j1 \<and> core j1 = (d, jview j, ?s)" by simp
    obtain r2 j2 where two: "append_locked w rec j1 = (r2, j2)" by (cases "append_locked w rec j1")
    note second = jtripleD [OF append_locked_triple [OF assms(1) lag assms(5)] j1, unfolded two]
    have run: "journal_append w rec j = (case r2 of Inl e \<Rightarrow> (Inl e, snd (jn_step j2)) | Inr _ \<Rightarrow> jn_step j2)"
      using one two Inr by (simp add: journal_append_def jn_then_def split: sum.split)
    have keeps: "\<exists>g. jn_disk (snd (jn_step j2)) = jn_disk j2 @ g \<and> jview (snd (jn_step j2)) = jview j2
        \<and> jn_stamp (snd (jn_step j2)) = jn_stamp j2"
      by (cases "jn_io j2") (auto simp: jn_step_def jn_next_def jview_def split: option.split)
    show ?thesis
    proof (cases r2)
      case (Inl e)
      with second have "\<not> b" "trails w q d ?s j2" by auto
      moreover from this(2) keeps have "trails w q d ?s (snd (jn_step j2))"
        unfolding trails_def by (metis append.assoc lags_append)
      ultimately show ?thesis using run Inl by simp
    next
      case (Inr v)
      with second have j2: "locked b j2 \<and> core j2 = (?d', fold_journal w ?d', ?s)" by simp
      have "trails w q d ?s j3" if "core j3 = (?d', fold_journal w ?d', ?s)" for j3
        using that t lags_longer [OF lag t] by (auto simp: trails_def core_eq)
      with jtripleD [OF step_triple j2] run Inr show ?thesis
        by (auto split: prod.splits sum.splits)
    qed
  qed
qed

text \<open>
  C25: an append to the journal is one row at the end of the file, after a torn tail was ended,
  whatever other daemons wrote before the lock was taken; the journal is then the fold of the
  whole file, so the progress of the occurrence is what the row makes of the progress the file
  recorded, foreign rows included.
\<close>

theorem journal_append_replays:
  assumes "lags w [] (jn_disk j) (jview j)" and "lock_held True j"
    and "jencodes w (stamped (jn_stamp j) rec) body"
    and "d = jn_disk j @ arrived j" and "length d < 2 ^ 64"
  shows "\<exists>j'. journal_append w rec j = (Inr (), j')
    \<and> jn_disk j' = terminated d @ body @ [newline] \<and> jview j' = fold_journal w (jn_disk j')
    \<and> journal_progress j' (oj_occurrence_id rec)
      = fold_record_into (progress_in (fst (fold_journal w d)) (oj_occurrence_id rec))
          (stamped (jn_stamp j) rec)"
proof -
  obtain r j' where run: "journal_append w rec j = (r, j')" by (cases "journal_append w rec j")
  with journal_append_cases [OF assms(3,1,2,4,5)] obtain u where
    core: "r = Inr u" "core j' = (terminated d @ body @ [newline],
      fold_journal w (terminated d @ body @ [newline]), jn_stamp j)"
    by (cases r) auto
  obtain m len g where t: "fold_journal w (terminated d) = (m, len, g)" by (cases "fold_journal w (terminated d)")
  have e: "ended (terminated d)" by (simp add: terminated_def ended_def)
  have m: "fst (fold_journal w d) = m"
    using t occ_log.run_terminated [of w "([], 0)" d] by (simp add: fold_journal_def split: prod.splits)
  have "jn_state j' = fold_entry m (stamped (jn_stamp j) rec)"
    using core(2) fold_journal_row [OF e assms(3) t] by (simp add: core_eq jview_def)
  moreover have "oj_occurrence_id (stamped (jn_stamp j) rec) = oj_occurrence_id rec"
    by (simp add: stamped_def split: option.split)
  ultimately have "journal_progress j' (oj_occurrence_id rec)
      = fold_record_into (progress_in m (oj_occurrence_id rec)) (stamped (jn_stamp j) rec)"
    by (simp add: journal_progress_def progress_in_def fold_entry_def)
  with run core m show ?thesis by (simp add: core_eq)
qed

text \<open>
  C39: whatever step of an append fails, the lock, a read, the write after any of its bytes, the
  sync or the release, no byte of the file is lost and the journal still is the fold of a prefix
  of it that is no shorter than what it had seen, which is all the next append or refresh needs.
\<close>

theorem journal_append_recovers:
  assumes "lags w q (jn_disk j) (jview j)" and "lock_held False j"
    and "jencodes w (stamped (jn_stamp j) rec) body"
    and "length (jn_disk j @ arrived j) < 2 ^ 64"
  shows "lags w q (jn_disk (snd (journal_append w rec j))) (jview (snd (journal_append w rec j)))
    \<and> (\<exists>r. jn_disk (snd (journal_append w rec j)) = jn_disk j @ arrived j @ r)"
proof -
  obtain r j' where run: "journal_append w rec j = (r, j')" by (cases "journal_append w rec j")
  have t: "\<exists>r. terminated d @ x = d @ r" for d x by (simp add: terminated_def)
  from journal_append_cases [OF assms(3,1,2) refl assms(4)] run show ?thesis
    using t [of "jn_disk j @ arrived j"] lags_longer [OF lags_append [OF assms(1)] t]
    by (cases r) (auto simp: core_eq trails_def)
qed


section \<open>What the rows of an occurrence add up to\<close>

definition progress_ok :: "occurrence_progress \<Rightarrow> bool" where
  "progress_ok p = (distinct (oc_started_history p)
     \<and> (\<forall>s. oc_started p = Some s \<longrightarrow> s \<in> set (oc_started_history p))
     \<and> (oc_started_history p \<noteq> [] \<longrightarrow> oc_prepared p)
     \<and> (\<forall>t. oc_terminal p = Some t \<longrightarrow> terminal_state t))"

lemma progress_ok_none [simp]: "progress_ok no_progress"
  by (simp add: progress_ok_def no_progress_def)

lemma progress_ok_fold: "progress_ok e \<Longrightarrow> progress_ok (fold_record_into e rec)"
  by (auto simp: progress_ok_def fold_record_into_def Let_def note_session_def terminal_state_def
      split: occurrence_state.splits option.splits)

lemma history_grows: "set (oc_started_history e) \<subseteq> set (oc_started_history (fold_record_into e rec))"
  by (auto simp: fold_record_into_def Let_def note_session_def split: occurrence_state.splits option.splits)

lemma item_kept: "oc_item_id e = Some i \<Longrightarrow> oc_item_id (fold_record_into e rec) = Some i"
  by (auto simp: fold_record_into_def Let_def split: occurrence_state.splits)

lemma terminal_kept:
  "oc_terminal e \<noteq> None \<Longrightarrow> oj_state rec \<noteq> Started \<Longrightarrow> oc_terminal (fold_record_into e rec) \<noteq> None"
  by (auto simp: fold_record_into_def Let_def split: occurrence_state.splits)

definition journal_ok :: "occurrence_progress btree \<Rightarrow> bool" where
  "journal_ok m = (bt_wf m \<and> (\<forall>p \<in> snd ` set m. progress_ok p))"

lemma bt_put_values: "snd ` set (bt_put k v m) \<subseteq> insert v (snd ` set m)"
  by (induction k v m rule: bt_put.induct) auto

lemma progress_in_ok: "journal_ok m \<Longrightarrow> progress_ok (progress_in m occ)"
  by (auto simp: journal_ok_def progress_in_def split: option.split dest!: map_of_SomeD)

lemma fold_entry_ok: "journal_ok m \<Longrightarrow> journal_ok (fold_entry m rec)"
  using bt_put_values progress_in_ok [of m "oj_occurrence_id rec"]
  by (fastforce simp: journal_ok_def fold_entry_def progress_ok_fold)

lemma fold_journal_ok: "journal_ok (fst (fold_journal w bytes))"
proof -
  have "journal_ok (fst (foldl (journal_line w) s ls))" if "journal_ok (fst s)" for s ls
    using that
    by (induction ls arbitrary: s) (auto simp: journal_line_def Let_def fold_entry_ok split: option.split)
  from this [of "([], 0)" "lines bytes"] show ?thesis
    by (auto simp: fold_journal_def journal_ok_def split: prod.splits)
qed

section \<open>Cursors\<close>

lemma page_from_append:
  "page_from entry since seq (a @ b)
    = page_from entry since seq a @ page_from entry since (seq + of_nat (length a)) b"
  by (induction a arbitrary: seq) (simp_all add: algebra_simps)

lemma dropWhile_split: "\<exists>x. s = x @ dropWhile P s"
  by (metis takeWhile_dropWhile_id)

lemma prefix_ended: "ended (complete_journal_prefix s)"
proof (cases "dropWhile (\<lambda>c. c \<noteq> newline) (rev s)")
  case (Cons c r)
  then have "c = newline" using hd_dropWhile [of "\<lambda>c. c \<noteq> newline" "rev s"] by auto
  with Cons show ?thesis by (simp add: complete_journal_prefix_def ended_def)
qed (simp add: complete_journal_prefix_def ended_def)

lemma prefix_grows: "\<exists>c. complete_journal_prefix (a @ b) = complete_journal_prefix a @ c"
proof (cases "newline \<in> set b")
  case True
  then have "complete_journal_prefix (a @ b) = a @ complete_journal_prefix b"
    by (simp add: complete_journal_prefix_def dropWhile_append1)
  moreover obtain x where "rev a = x @ dropWhile (\<lambda>c. c \<noteq> newline) (rev a)"
    using dropWhile_split by blast
  then have "a = complete_journal_prefix a @ rev x"
    unfolding complete_journal_prefix_def by (metis rev_append rev_rev_ident)
  ultimately show ?thesis by (metis append.assoc)
next
  case False
  then have "complete_journal_prefix (a @ b) = complete_journal_prefix a"
    unfolding complete_journal_prefix_def rev_append by (subst dropWhile_append2) auto
  then show ?thesis by simp
qed

text \<open>
  A cursor survives the growth of the journal: a page read from one state of the file, and
  what is read later from its cursor, are everything the later file has from the first line asked
  for, in order, without a gap and without a repetition, whatever was appended in between and
  however the file was torn when the page was read.
\<close>

theorem occurrence_cursor_stable:
  assumes "occurrences_page w since item limit bytes = pg" and "since \<le> op_log_len pg"
    and "length (lines (complete_journal_prefix (bytes @ later))) < 2 ^ 64"
  shows "page_from (occurrence_entry w item) since 0 (lines (complete_journal_prefix (bytes @ later)))
    = op_occurrences pg @ page_from (occurrence_entry w item) (op_next_since pg) 0
        (lines (complete_journal_prefix (bytes @ later)))"
proof -
  let ?e = "occurrence_entry w item" and ?l = "min agenda_occurrences_max_limit (max 1 limit)"
  let ?a = "lines (complete_journal_prefix bytes)" and ?n = "op_next_since pg"
  obtain c where "complete_journal_prefix (bytes @ later) = complete_journal_prefix bytes @ c"
    using prefix_grows by blast
  then obtain ls where ls: "lines (complete_journal_prefix (bytes @ later)) = ?a @ ls"
    using lines_append [OF prefix_ended] by metis
  with assms(3) have len: "length ?a < 2 ^ 64" "length ?a + length ls < 2 ^ 64" by simp_all
  then have ua: "unat (of_nat (length ?a) :: u64) = length ?a"
    by (simp add: unsigned_of_nat take_bit_nat_eq_self)
  obtain es n nxt where run: "page_loop ?e since ?l ?a 0 [] 0 None = (es, n, nxt)"
    by (cases "page_loop ?e since ?l ?a 0 [] 0 None") auto
  have pg: "op_occurrences pg = es" "op_log_len pg = n" "?n = (case nxt of None \<Rightarrow> n | Some x \<Rightarrow> x)"
    using assms(1) run by (auto simp: occurrences_page_def)
  have "0 < ?l" by (simp add: agenda_occurrences_max_limit_def)
  note tiles = page_tiles [OF len(1) this run, folded pg(3)]
  have "page_from ?e since 0 ?a = es @ page_from ?e ?n 0 ?a" "n = of_nat (length ?a)"
    using tiles(1,2) .
  have "?n \<le> of_nat (length ?a)"
  proof (cases nxt)
    case (Some x)
    from page_loop_page [of 0 ?a "[]" ?l ?e since] run len(1) Some \<open>0 < ?l\<close>
    show ?thesis using pg(3) ua by (auto simp: word_le_nat_alt)
  qed (use pg(3) tiles(2) in simp)
  moreover have "since \<le> of_nat (length ?a)" using assms(2) pg(2) tiles(2) by simp
  ultimately have "page_from ?e since (of_nat (length ?a)) ls = page_from ?e ?n (of_nat (length ?a)) ls"
    using page_from_since [of "of_nat (length ?a)" ls _ ?e] ua len(2) by metis
  with tiles(1) show ?thesis by (simp add: ls page_from_append pg(1))
qed

end
