(* ===== verification/AgendaApply.thy ===== *)
theory AgendaApply
  imports AgendaJournal
begin

text \<open>
  Commands end to end: \<open>apply_command\<close> of \<open>store.rs\<close> with the arms that append several
  operations (park, re-parent, run now, start now), the daemon's own write-backs, and the gate
  of \<open>AgendaHandle::apply\<close>. What is proved: which commands leave no trace when refused, that
  every command keeps the ledger's rails, and that nobody but the owner arms an effect.
\<close>

section \<open>Sequencing\<close>

definition then_run :: "'a outcome \<Rightarrow> ('a \<Rightarrow> agenda_store \<Rightarrow> 'b outcome) \<Rightarrow> 'b outcome" where
  "then_run r f = (case r of (Inl e, st) \<Rightarrow> (Inl e, st) | (Inr a, st) \<Rightarrow> f a st)"

definition check_then :: "'a intake \<Rightarrow> agenda_store \<Rightarrow> ('a \<Rightarrow> 'b outcome) \<Rightarrow> 'b outcome" where
  "check_then c st f = (case c of Inl e \<Rightarrow> (Inl e, st) | Inr a \<Rightarrow> f a)"

section \<open>Parking and placing\<close>

fun append_refs :: "store_env \<Rightarrow> string \<Rightarrow> validated_ref list \<Rightarrow> agenda_actor option \<Rightarrow> string option
    \<Rightarrow> u64 \<Rightarrow> agenda_item \<Rightarrow> agenda_store \<Rightarrow> agenda_item outcome" where
  "append_refs w i [] actor source now it st = (Inr it, st)"
| "append_refs w i (v # vs) actor source now it st =
     then_run (append_op w (OpAddRef i (vr_ref_type v) (vr_locator v) (vr_digest v) (vr_must_read v)
         (vr_label v)) actor source now st)
       (append_refs w i vs actor source now)"

definition apply_add :: "store_env \<Rightarrow> 128 word \<Rightarrow> agenda_kind \<Rightarrow> string \<Rightarrow> string \<Rightarrow> string list
    \<Rightarrow> u64 option \<Rightarrow> ref_spec list \<Rightarrow> agenda_actor option \<Rightarrow> string option \<Rightarrow> u64 \<Rightarrow> agenda_store
    \<Rightarrow> agenda_item outcome" where
  "apply_add w candidate kind title0 body0 tags0 due refs actor source now st =
    check_then (validate_title title0) st (\<lambda>title.
    check_then (validate_body body0) st (\<lambda>body.
    check_then (validate_tags tags0) st (\<lambda>tags.
    check_then (validate_park_refs (se_intake w) refs) st (\<lambda>validated.
    then_run (mint_id w candidate st) (\<lambda>i st1.
    then_run (append_op w (OpAdd i kind title body tags due None) actor source now st1)
      (append_refs w i validated actor source now))))))"

definition apply_place :: "store_env \<Rightarrow> string \<Rightarrow> string \<Rightarrow> agenda_actor option \<Rightarrow> string option \<Rightarrow> u64
    \<Rightarrow> agenda_store \<Rightarrow> agenda_item outcome" where
  "apply_place w i under0 actor source now st =
    (let under = trim under0; m = st_items st in
     check_then (require m i) st (\<lambda>it.
     check_then (require m under) st (\<lambda>_.
     let current = map_option pl_parent_id (it_part_of it) in
     if current = Some under then (Inl (Transition ''already placed there''), st)
     else check_then (validate_placement m i under) st (\<lambda>_.
       let add = append_op w (OpAddPartOf i under) actor source now in
       case current of
         None \<Rightarrow> add st
       | Some p \<Rightarrow> then_run (append_op w (OpRemovePartOf i p) actor source now st) (\<lambda>_. add)))))"

section \<open>Running now\<close>

definition in_flight :: "agenda_effect \<Rightarrow> bool" where
  "in_flight ef = (case ef_last_run ef of None \<Rightarrow> False | Some r \<Rightarrow> rn_state r = ''started'')"

text \<open>A request is pending until a write-back at or after its instant.\<close>

definition request_pending :: "agenda_effect \<Rightarrow> bool" where
  "request_pending ef = (ef_requested ef \<noteq> [] \<and>
     \<not> (case ef_last_run ef of None \<Rightarrow> False
        | Some r \<Rightarrow> rq_at_ms (last (ef_requested ef)) \<le> rn_at_ms r))"

definition check_request :: "agenda_effect \<Rightarrow> string \<Rightarrow> unit intake" where
  "check_request ef digest =
    (if mf_recurrence (ef_manifest ef) = None \<and> mf_trigger (ef_manifest ef) = None
     then Inl (Transition ''manifest is one-shot'')
     else case ef_approval ef of
       None \<Rightarrow> Inl (Transition ''standing manifest is not approved'')
     | Some ap \<Rightarrow>
         if ap_digest ap \<noteq> digest \<or> ef_digest ef \<noteq> digest then Inl (Invalid ''digest mismatch'')
         else if suspended ef then Inl (Transition ''standing session is suspended'')
         else if in_flight ef then Inl (Transition ''a run is in flight'')
         else if request_pending ef then Inl (Transition ''a requested run is pending'')
         else Inr ())"

definition request_occurrence_of :: "store_env \<Rightarrow> string \<Rightarrow> string \<Rightarrow> string \<Rightarrow> agenda_actor option
    \<Rightarrow> u64 \<Rightarrow> agenda_store \<Rightarrow> agenda_item outcome" where
  "request_occurrence_of w i eid digest actor now st =
    check_then (require (st_items st) i) st (\<lambda>it.
    case find (\<lambda>e. ef_effect_id e = eid) (it_effects it) of
      None \<Rightarrow> (Inl (NotFound i), st)
    | Some ef \<Rightarrow> check_then (check_request ef digest) st (\<lambda>_.
        append_op w (OpRequestOccurrence i eid digest now) actor None now st))"

section \<open>Starting now\<close>

definition start_now_goal_statement :: "agenda_item \<Rightarrow> string" where
  "start_now_goal_statement it =
     ''Agenda follow-through for item '' @ it_id it @ '': '' @ it_title it
     @ (if trim (it_body it) \<noteq> []
        then [newline, newline] @ ''Item body (quoted):'' @ [newline] @ it_body it else [])"

definition start_now_goal_run_coda :: string where
  "start_now_goal_run_coda = [newline, newline]
     @ ''Work the item, then state the outcome plainly '' @ em_dash @ '' it is written back to ''
     @ ''the agenda item, and `intendant ctl agenda` from this session records ''
     @ ''attributed progress (annotate/complete) on it.''"

definition start_now_interactive_coda :: string where
  "start_now_interactive_coda = [newline, newline]
     @ ''The owner opened this session interactively from the agenda: take stock ''
     @ ''of the item, then follow their direction '' @ em_dash @ '' they are in the loop, so ask ''
     @ ''rather than assume.''"

definition is_char_boundary :: "string \<Rightarrow> nat \<Rightarrow> bool" where
  "is_char_boundary s k = (k = 0 \<or> k = length s \<or> k < length s \<and> \<not> is_continuation (s ! k))"

fun floor_boundary :: "string \<Rightarrow> nat \<Rightarrow> nat" where
  "floor_boundary s 0 = 0"
| "floor_boundary s (Suc k) = (if is_char_boundary s (Suc k) then Suc k else floor_boundary s k)"

definition bounded_goal :: "string \<Rightarrow> string" where
  "bounded_goal goal =
    (if max_body_bytes < length goal then take (floor_boundary goal max_body_bytes) goal else goal)"

definition start_goal :: "agenda_item \<Rightarrow> string option \<Rightarrow> bool \<Rightarrow> string intake" where
  "start_goal it override interactive =
    (let coda = if interactive then start_now_interactive_coda else start_now_goal_run_coda;
         edited = (case override of None \<Rightarrow> [] | Some g \<Rightarrow> trim g)
     in if edited = [] then Inr (bounded_goal (start_now_goal_statement it @ coda))
        else if max_body_bytes < length edited then Inl (Invalid ''goal too long'')
        else Inr (bounded_goal (edited @ coda)))"

text \<open>The approved recurring manifest the gesture decorates, if the item has one.\<close>

definition standing_effect :: "agenda_item \<Rightarrow> agenda_effect option" where
  "standing_effect it = (case it_effects it of
     [] \<Rightarrow> None
   | ef # _ \<Rightarrow> if mf_recurrence (ef_manifest ef) \<noteq> None \<and> ef_approval ef \<noteq> None then Some ef else None)"

definition present_config :: "agent_launch_config option \<Rightarrow> agent_launch_config option" where
  "present_config c = Option.bind c (\<lambda>c. if launch_config_is_empty c then None else Some c)"

definition start_overrides :: "start_spec \<Rightarrow> agenda_effect \<Rightarrow> bool" where
  "start_overrides sp ef = (sn_goal sp \<noteq> None \<or> present_config (sn_agent_config sp) \<noteq> None
     \<or> (case sn_interactive sp of None \<Rightarrow> False | Some b \<Rightarrow> b \<noteq> mf_interactive (ef_manifest ef)))"

definition start_manifest :: "string \<Rightarrow> start_spec \<Rightarrow> bool \<Rightarrow> u64 \<Rightarrow> session_manifest" where
  "start_manifest goal sp interactive now =
     \<lparr> mf_goal = goal, mf_fire_at_ms = now, mf_orchestrate = False, mf_interactive = interactive,
       mf_project_root = sn_project_root sp, mf_agent_config = present_config (sn_agent_config sp),
       mf_recurrence = None, mf_trigger = None, mf_binding_refs = [] \<rparr>"

definition start_now :: "store_env \<Rightarrow> string \<Rightarrow> start_spec \<Rightarrow> agenda_actor option \<Rightarrow> u64
    \<Rightarrow> agenda_store \<Rightarrow> agenda_item outcome" where
  "start_now w i sp actor now st =
    check_then (require (st_items st) i) st (\<lambda>it.
    if it_status it \<noteq> Open then (Inl (Transition ''not open''), st)
    else case standing_effect it of
      Some ef \<Rightarrow>
        if start_overrides sp ef then (Inl (Transition ''runs a standing approved manifest''), st)
        else request_occurrence_of w i (ef_effect_id ef) (ef_digest ef) actor now st
    | None \<Rightarrow>
        check_then (case present_config (sn_agent_config sp) of
            None \<Rightarrow> Inr ()
          | Some c \<Rightarrow> (case ie_validate_launch (se_intake w) c of Inl e \<Rightarrow> Inl (Invalid e) | Inr _ \<Rightarrow> Inr ())) st (\<lambda>_.
        let interactive = (case sn_interactive sp of None \<Rightarrow> True | Some b \<Rightarrow> b) in
        check_then (start_goal it (sn_goal sp) interactive) st (\<lambda>goal.
        let eid = session_effect_id (ie_sha (se_intake w)) it i now;
            manifest = start_manifest goal sp interactive now
        in then_run (append_op w (OpProposeEffect i eid manifest) actor None now st) (\<lambda>_.
             append_op w (OpApproveEffect i eid (env_dig w i eid manifest)) actor None now))))"


section \<open>The daemon's own write-backs\<close>

definition daemon_actor :: agenda_actor where
  "daemon_actor = \<lparr> at_principal = None, at_session_id = None, at_kind = Some ''daemon'' \<rparr>"

record occurrence_write_back =
  ow_item_id :: string
  ow_effect_id :: string
  ow_occurrence_id :: string
  ow_state :: string
  ow_session_id :: "string option"
  ow_note :: "string option"

definition record_occurrence :: "store_env \<Rightarrow> occurrence_write_back \<Rightarrow> u64 \<Rightarrow> agenda_store
    \<Rightarrow> agenda_item outcome" where
  "record_occurrence w ow now st =
    then_run (refresh_if_stale w st) (\<lambda>_ st1.
    check_then (require (st_items st1) (ow_item_id ow)) st1 (\<lambda>_.
    append_op w (OpRecordOccurrence (ow_item_id ow) (ow_effect_id ow) (ow_occurrence_id ow)
        (ow_state ow) (ow_session_id ow) (map_option (take_chars 500) (ow_note ow)))
      (Some daemon_actor) None now st1))"

definition record_ask_delivery :: "store_env \<Rightarrow> string \<Rightarrow> bool \<Rightarrow> string option \<Rightarrow> u64 \<Rightarrow> agenda_store
    \<Rightarrow> agenda_item outcome" where
  "record_ask_delivery w i delivered sid now st =
    then_run (refresh_if_stale w st) (\<lambda>_ st1.
    check_then (require (st_items st1) i) st1 (\<lambda>it.
    if it_answer it = None then (Inl (Invalid ''no current answer to mark''), st1)
    else append_op w (OpRecordAskDelivery i delivered sid) (Some daemon_actor) None now st1))"

definition dismiss_question :: "store_env \<Rightarrow> string \<Rightarrow> string \<Rightarrow> agenda_actor option \<Rightarrow> u64
    \<Rightarrow> agenda_store \<Rightarrow> agenda_item outcome" where
  "dismiss_question w i action actor now st =
    then_run (refresh_if_stale w st) (\<lambda>_ st1.
    check_then (require (st_items st1) i) st1 (\<lambda>it.
    if it_kind it \<noteq> Question then (Inl (Invalid ''not a question''), st1)
    else if it_status it \<noteq> Open then (Inl (Transition ''not open''), st1)
    else append_op w (OpDismiss i action) actor None now st1))"

section \<open>One command\<close>

definition dispatch :: "store_env \<Rightarrow> 128 word \<Rightarrow> agenda_command \<Rightarrow> agenda_actor option \<Rightarrow> string option
    \<Rightarrow> u64 \<Rightarrow> agenda_store \<Rightarrow> agenda_item outcome" where
  "dispatch w candidate cmd actor source now st = (case cmd of
     CmdAdd kind title body tags due refs _ \<Rightarrow>
       apply_add w candidate kind title body tags due refs actor source now st
   | CmdPlace i hub _ \<Rightarrow> apply_place w i hub actor source now st
   | CmdRequestOccurrence i \<Rightarrow>
       check_then (require (st_items st) i) st (\<lambda>it. case it_effects it of
         [] \<Rightarrow> (Inl (NotFound i), st)
       | ef # _ \<Rightarrow> request_occurrence_of w i (ef_effect_id ef) (ef_digest ef) actor now st)
   | CmdStartNow i sp \<Rightarrow> start_now w i sp actor now st
   | _ \<Rightarrow> check_then (command_to_op (se_intake w) (st_items st) now cmd) st (\<lambda>op.
       append_op w op actor source now st))"

definition apply_command :: "store_env \<Rightarrow> 128 word \<Rightarrow> agenda_command \<Rightarrow> agenda_actor option \<Rightarrow> u64
    \<Rightarrow> agenda_store \<Rightarrow> agenda_item outcome" where
  "apply_command w candidate cmd0 actor now st =
    then_run (refresh_if_stale w st) (\<lambda>_ st1.
    check_then (resolve_command_ids (st_items st1) cmd0) st1 (\<lambda>cmd.
    check_then (validate_source (take_source cmd)) st1 (\<lambda>source.
    dispatch w candidate cmd actor source now st1)))"

section \<open>The handle's gate\<close>

text \<open>The journal is what it knows of an occurrence, or nothing when it cannot be read.\<close>

definition verify_attest_binding ::
    "(string \<Rightarrow> occurrence_progress option) \<Rightarrow> string \<Rightarrow> string \<Rightarrow> agenda_actor option \<Rightarrow> unit intake" where
  "verify_attest_binding journal i occ actor = (case Option.bind actor at_session_id of
     None \<Rightarrow> Inl (Invalid ''non-session actors cannot attest'')
   | Some sid \<Rightarrow> (case journal occ of
       None \<Rightarrow> Inl (Invalid ''the occurrence journal is unavailable'')
     | Some p \<Rightarrow> (case oc_item_id p of
         None \<Rightarrow> Inl (NotFound ''occurrence not in the journal'')
       | Some owner \<Rightarrow>
           if owner \<noteq> i then Inl (Invalid ''occurrence belongs to another item'')
           else if sid \<notin> set (oc_started_history p) then Inl (Invalid ''session not in the started lineage'')
           else Inr ())))"

definition immediate :: "agenda_command \<Rightarrow> bool" where
  "immediate cmd = (case cmd of CmdStartNow _ _ \<Rightarrow> True | CmdRequestOccurrence _ \<Rightarrow> True | _ \<Rightarrow> False)"

definition pre_resolved :: "agenda_command \<Rightarrow> bool" where
  "pre_resolved cmd = (case cmd of CmdStartNow _ _ \<Rightarrow> True | CmdAttest _ _ _ _ _ _ \<Rightarrow> True | _ \<Rightarrow> False)"

text \<open>Start-now resolves its project at the gate, unless a standing manifest will fire as approved.\<close>

definition resolve_start :: "store_env \<Rightarrow> agenda_command \<Rightarrow> agenda_store \<Rightarrow> agenda_command outcome" where
  "resolve_start w cmd st = (case cmd of
     CmdStartNow i sp \<Rightarrow> (case item_of w i st of
       (None, st1) \<Rightarrow> (Inl (NotFound i), st1)
     | (Some it, st1) \<Rightarrow>
         if standing_effect it \<noteq> None then (Inr cmd, st1)
         else (case ie_resolve_project (se_intake w) (sn_project_root sp)
                 (at_session_id (it_provenance it)) of
           Inl e \<Rightarrow> (Inl (Invalid e), st1)
         | Inr root \<Rightarrow> (Inr (CmdStartNow i (sp\<lparr>sn_project_root := Some root\<rparr>)), st1)))
   | _ \<Rightarrow> (Inr cmd, st))"

definition handle_apply :: "store_env \<Rightarrow> (string \<Rightarrow> occurrence_progress option) \<Rightarrow> bool \<Rightarrow> 128 word
    \<Rightarrow> agenda_command \<Rightarrow> agenda_actor option \<Rightarrow> u64 \<Rightarrow> agenda_store \<Rightarrow> agenda_item outcome" where
  "handle_apply w journal draining candidate cmd0 actor now st0 =
    check_then (authorize_command cmd0 actor) st0 (\<lambda>_.
    if immediate cmd0 \<and> draining then (Inl (Invalid ''daemon_draining''), st0)
    else then_run (if pre_resolved cmd0
        then then_run (refresh_if_stale w st0) (\<lambda>_ st. (resolve_command_ids (st_items st) cmd0, st))
        else (Inr cmd0, st0)) (\<lambda>cmd st.
      check_then (case cmd of CmdAttest i occ _ _ _ _ \<Rightarrow> verify_attest_binding journal i occ actor
          | _ \<Rightarrow> Inr ()) st (\<lambda>_.
      then_run (resolve_start w cmd st) (\<lambda>cmd' st'.
      apply_command w candidate cmd' actor now st'))))"


section \<open>What an append does to the derived state\<close>

definition rails :: "store_env \<Rightarrow> agenda_store \<Rightarrow> bool" where
  "rails w st = (ledger_ok (env_dig w) (st_items st) \<and> all_within (st_items st)
     \<and> placement_ok_ledger (st_items st) \<and> ids_covered w st)"

lemma append_op_cases:
  assumes "append_op w op actor source now st = (r, st')"
  shows "(\<exists>e. r = Inl e \<and> st_items st' = st_items st \<and> st_last_id st' = st_last_id st
       \<and> (e = IoError \<or> se_to_string w (record_of op actor source now) = None \<and> st' = st))
    \<or> (st_items st' = fst (apply_op (env_dig w) (st_items st) (record_of op actor source now))
       \<and> st_last_id st' = st_last_id st
       \<and> (\<forall>it. r = Inr it \<longrightarrow> bt_get (st_items st') (op_item_id op) = Some it)
       \<and> (\<forall>e. r = Inl e \<longrightarrow> bt_get (st_items st') (op_item_id op) = None))"
  using assms
  by (cases "st_io st")
    (auto simp: append_op_def write_all_def next_io_def Let_def record_of_def
      split: option.splits prod.splits sum.splits if_splits)

lemma append_op_Inr:
  assumes "append_op w op actor source now st = (Inr it, st')"
  shows "st_items st' = fst (apply_op (env_dig w) (st_items st) (record_of op actor source now))
    \<and> st_last_id st' = st_last_id st \<and> bt_get (st_items st') (op_item_id op) = Some it"
  using append_op_cases [OF assms] by auto

lemma append_op_item:
  "append_op w op actor source now st = (Inr it, st') \<Longrightarrow> bt_get (st_items st') (op_item_id op) = Some it"
  by (blast dest: append_op_Inr)

text \<open>A condition that accepted operations keep is kept by an append.\<close>

lemma append_op_keeps:
  assumes "append_op w op actor source now st = (r, st')" "I (st_items st)"
    and "\<And>m'. apply_op (env_dig w) (st_items st) (record_of op actor source now) = (m', None) \<Longrightarrow> I m'"
  shows "I (st_items st')"
proof -
  have "I (fst (apply_op (env_dig w) (st_items st) (record_of op actor source now)))"
  proof (cases "snd (apply_op (env_dig w) (st_items st) (record_of op actor source now))")
    case None
    then show ?thesis using assms(3) by (metis prod.collapse)
  next
    case (Some x)
    then show ?thesis using assms(2) apply_op_warn by (metis prod.collapse)
  qed
  then show ?thesis using append_op_cases [OF assms(1)] assms(2) by auto
qed

lemma on_item_keys:
  assumes "on_item m i verb f = (m', None)"
  shows "fst ` set m' = fst ` set m"
proof -
  obtain it it' where "bt_get m i = Some it" "m' = bt_put i it' m" using on_item_ok [OF assms] by blast
  moreover from this have "i \<in> fst ` set m" by (metis bt_get_live option.distinct(1))
  ultimately show ?thesis by (simp add: insert_absorb)
qed

lemma apply_op_keys:
  assumes "\<forall>i k t b ts d a. or_op rec \<noteq> OpAdd i k t b ts d a"
  shows "fst ` set (fst (apply_op dig m rec)) = fst ` set m"
proof (cases "snd (apply_op dig m rec)")
  case None
  then obtain m' where m': "apply_op dig m rec = (m', None)" by (metis prod.collapse)
  define keys where "keys = (\<lambda>m :: items. fst ` set m)"
  have "keys m' = keys m" if "on_item m i verb f = (m', None)" for i verb f
    using on_item_keys [OF that] by (simp add: keys_def)
  with m' assms have "keys m' = keys m"
    by (auto simp: apply_op.simps split: agenda_op.splits if_splits)
  then show ?thesis using m' by (simp add: keys_def)
qed (use apply_op_warn in \<open>metis prod.collapse\<close>)

lemma append_rails:
  assumes "append_op w op actor source now st = (r, st')" "rails w st"
    and "op_in_limits (st_items st) op" "op_in_forest (st_items st) op"
    and "\<And>i k t b ts d a. op = OpAdd i k t b ts d a \<Longrightarrow>
      \<exists>u. i = se_ulid_show w u \<and> Some u \<le> st_last_id st"
  shows "rails w st'"
proof -
  have ok: "ledger_ok (env_dig w) (st_items st)" "all_within (st_items st)"
    "placement_ok_ledger (st_items st)" "ids_covered w st" using assms(2) by (simp_all add: rails_def)
  have "ledger_ok (env_dig w) (st_items st')"
    by (rule append_op_keeps [OF assms(1), of "ledger_ok (env_dig w)", OF ok(1)])
      (use ok(1) apply_op_ok in blast)
  moreover have "all_within (st_items st')"
    by (rule append_op_keeps [OF assms(1), of all_within, OF ok(2)])
      (use ok(2) assms(3) limits_kept in \<open>metis record_of_op\<close>)
  moreover have "placement_ok_ledger (st_items st')"
    by (rule append_op_keeps [OF assms(1), of placement_ok_ledger, OF ok(3)])
      (use ok(3) assms(4) forest_kept in \<open>metis record_of_op\<close>)
  moreover have "ids_covered w st'"
  proof -
    let ?cov = "\<lambda>m. \<forall>k \<in> fst ` set m. \<exists>u. k = se_ulid_show w u \<and> Some u \<le> st_last_id st"
    have "?cov (st_items st')"
    proof (rule append_op_keeps [OF assms(1), of ?cov])
      show "?cov (st_items st)" using ok(4) by (simp add: ids_covered_def)
      fix m'
      assume m': "apply_op (env_dig w) (st_items st) (record_of op actor source now) = (m', None)"
      show "?cov m'"
      proof (cases "\<exists>i k t b ts d a. op = OpAdd i k t b ts d a")
        case True
        then obtain i k t b ts d a where op: "op = OpAdd i k t b ts d a" by blast
        with m' have "\<exists>it. m' = bt_put i it (st_items st)"
          by (auto simp: apply_op.simps split: if_splits)
        then have "fst ` set m' = insert i (fst ` set (st_items st))" by (metis set_keys_put)
        then show ?thesis using assms(5) [OF op] ok(4) by (auto simp: ids_covered_def)
      next
        case False
        then have "fst ` set m' = fst ` set (st_items st)"
          using apply_op_keys [of "record_of op actor source now" "env_dig w" "st_items st"] m' by simp
        then show ?thesis using ok(4) by (simp add: ids_covered_def)
      qed
    qed
    moreover have "st_last_id st' = st_last_id st" using append_op_cases [OF assms(1)] by auto
    ultimately show ?thesis by (simp add: ids_covered_def)
  qed
  ultimately show ?thesis by (simp add: rails_def)
qed


section \<open>Every command keeps the rails\<close>

lemma check_then_cases:
  assumes "check_then c st f = (r, st')"
  shows "(\<exists>e. c = Inl e \<and> r = Inl e \<and> st' = st) \<or> (\<exists>a. c = Inr a \<and> f a = (r, st'))"
  using assms by (auto simp: check_then_def split: sum.splits)

lemma then_run_cases:
  assumes "then_run x f = (r, st')"
  shows "(\<exists>e. x = (Inl e, st') \<and> r = Inl e) \<or> (\<exists>a st1. x = (Inr a, st1) \<and> f a st1 = (r, st'))"
  using assms by (auto simp: then_run_def split: prod.splits sum.splits)

definition plain_op :: "agenda_op \<Rightarrow> bool" where
  "plain_op op = (case op of OpAdd _ _ _ _ _ _ _ \<Rightarrow> False | OpAddPartOf _ _ \<Rightarrow> False
     | OpAddReliesOn _ _ \<Rightarrow> False | OpAddRelatesTo _ _ _ \<Rightarrow> False | OpAddRef _ _ _ _ _ _ \<Rightarrow> False
     | OpSetBlocker _ _ _ \<Rightarrow> False | OpProposeEffect _ _ _ \<Rightarrow> False | _ \<Rightarrow> True)"

lemma append_plain_rails:
  assumes "append_op w op actor source now st = (r, st')" "rails w st" "plain_op op"
  shows "rails w st'"
  by (rule append_rails [OF assms(1,2)])
    (use assms(3) in \<open>auto simp: plain_op_def op_in_limits_def op_in_forest_def split: agenda_op.splits\<close>)

lemma add_ref_grows:
  assumes "bt_get m i = Some it"
    and "bt_get (fst (apply_op dig m rec)) i = Some it'" "or_op rec = OpAddRef i rt l d mr lab"
  shows "length (it_refs it') \<le> Suc (length (it_refs it))"
  using assms
  by (auto simp: apply_op.simps on_item_def fold_add_ref_def touch_def Let_def
      split: sum.splits if_splits option.splits)

lemma append_refs_rails:
  assumes "append_refs w i vs actor source now it0 st = (r, st')" "rails w st"
    and "bt_get (st_items st) i = Some it" "length (it_refs it) + length vs \<le> max_refs_per_item"
  shows "rails w st'"
  using assms
proof (induction vs arbitrary: it0 it st)
  case (Cons v vs)
  let ?op = "OpAddRef i (vr_ref_type v) (vr_locator v) (vr_digest v) (vr_must_read v) (vr_label v)"
  have lim: "op_in_limits (st_items st) ?op" "op_in_forest (st_items st) ?op"
    using Cons.prems(3,4) by (simp_all add: op_in_limits_def op_in_forest_def)
  from then_run_cases [OF Cons.prems(1) [unfolded append_refs.simps]] show ?case
  proof (elim disjE exE conjE)
    fix e assume "append_op w ?op actor source now st = (Inl e, st')"
    from append_rails [OF this Cons.prems(2) lim] show ?thesis by simp
  next
    fix it1 st1
    assume a: "append_op w ?op actor source now st = (Inr it1, st1)"
      "append_refs w i vs actor source now it1 st1 = (r, st')"
    have r1: "rails w st1" using append_rails [OF a(1) Cons.prems(2) lim] by simp
    have it1: "bt_get (st_items st1) i = Some it1"
      "st_items st1 = fst (apply_op (env_dig w) (st_items st) (record_of ?op actor source now))"
      using append_op_Inr [OF a(1), unfolded op_item_id.simps] by blast+
    have "length (it_refs it1) \<le> Suc (length (it_refs it))"
      by (rule add_ref_grows [OF Cons.prems(3) it1(1) [unfolded it1(2)] record_of_op])
    with Cons.prems(4) have "length (it_refs it1) + length vs \<le> max_refs_per_item" by simp
    from Cons.IH [OF a(2) r1 it1(1) this] show ?thesis .
  qed
qed simp

lemma collect_refs_length:
  "collect_refs w out ss = Inr vs \<Longrightarrow> length vs = length out + length ss"
proof (induction ss arbitrary: out)
  case (Cons s ss)
  then obtain v where "collect_refs w (out @ [v]) ss = Inr vs"
    by (auto simp: rbind_eq_Inr split: if_splits)
  from Cons.IH [OF this] show ?case by simp
qed simp

lemma added_item:
  assumes "append_op w (OpAdd i k t b ts d a) actor source now st = (Inr it, st')"
    and "bt_get (st_items st) i = None"
  shows "bt_get (st_items st') i = Some it \<and> it_refs it = []"
  using append_op_Inr [OF assms(1)] assms(2)
  by (auto simp: apply_op.simps fold_add_def)

lemma ids_covered_mono:
  assumes "ids_covered w st" "st_last_id st \<le> Some u"
  shows "ids_covered w (st\<lparr>st_last_id := Some u\<rparr>)"
  unfolding ids_covered_def
proof
  fix k assume "k \<in> fst ` set (st_items (st\<lparr>st_last_id := Some u\<rparr>))"
  then have "k \<in> fst ` set (st_items st)" by simp
  then obtain v where v: "k = se_ulid_show w v" "Some v \<le> st_last_id st"
    using assms(1) unfolding ids_covered_def by blast
  from v(2) assms(2) have "Some v \<le> Some u" by (rule order_trans)
  with v(1) show "\<exists>v. k = se_ulid_show w v \<and> Some v \<le> st_last_id (st\<lparr>st_last_id := Some u\<rparr>)"
    by (intro exI [of _ v]) simp
qed

lemma apply_add_rails:
  assumes "apply_add w candidate kind t0 b0 ts0 due refs actor source now st = (r, st')"
    and "rails w st" "ulid_laws w"
  shows "rails w st'"
proof (cases "st' = st")
  case False
  then obtain t b ts vs where v: "validate_park_refs (se_intake w) refs = Inr vs"
    and run: "then_run (mint_id w candidate st) (\<lambda>i st1.
      then_run (append_op w (OpAdd i kind t b ts due None) actor source now st1)
        (append_refs w i vs actor source now)) = (r, st')"
    using assms(1) unfolding apply_add_def by (auto dest!: check_then_cases)
  have len: "length vs \<le> max_refs_per_item"
    using v collect_refs_length by (auto simp: validate_park_refs_def split: if_splits)
  have "\<not> (\<exists>e. mint_id w candidate st = (Inl e, st'))"
    using False by (auto simp: mint_id_def split: option.splits if_splits)
  with then_run_cases [OF run] obtain i st1 where m: "mint_id w candidate st = (Inr i, st1)"
    and rest: "then_run (append_op w (OpAdd i kind t b ts due None) actor source now st1)
        (append_refs w i vs actor source now) = (r, st')" by blast
  have cov: "ids_covered w st" using assms(2) by (simp add: rails_def)
  from mint_above [OF m assms(3) cov] obtain u where u: "i = se_ulid_show w u"
    "st1 = st\<lparr>st_last_id := Some u\<rparr>" "st_last_id st < Some u"
    "\<forall>k \<in> fst ` set (st_items st). k < i" by blast
  have r1: "rails w st1"
    using assms(2) u(2) ids_covered_mono [OF cov less_imp_le [OF u(3)]] by (simp add: rails_def)
  have fresh: "bt_get (st_items st1) i = None" using u(2,4) by (auto simp: map_of_eq_None_iff)
  have keep: "rails w st2" if "append_op w (OpAdd i kind t b ts due None) actor source now st1 = (x, st2)" for x st2
    by (rule append_rails [OF that r1])
      (use u(1,2) in \<open>auto simp: op_in_limits_def op_in_forest_def\<close>)
  from then_run_cases [OF rest] show ?thesis
  proof (elim disjE exE conjE)
    fix it2 st2
    assume a: "append_op w (OpAdd i kind t b ts due None) actor source now st1 = (Inr it2, st2)"
      "append_refs w i vs actor source now it2 st2 = (r, st')"
    from append_refs_rails [OF a(2) keep [OF a(1)]] added_item [OF a(1) fresh] len
    show ?thesis by simp
  qed (rule keep)
qed (use assms(2) in simp)


lemma request_rails:
  assumes "request_occurrence_of w i eid d actor now st = (r, st')" "rails w st"
  shows "rails w st'"
proof (cases "st' = st")
  case False
  then have "append_op w (OpRequestOccurrence i eid d now) actor None now st = (r, st')"
    using assms(1) unfolding request_occurrence_of_def
    by (auto dest!: check_then_cases split: option.splits)
  then show ?thesis using append_plain_rails assms(2) by (simp add: plain_op_def)
qed (use assms(2) in simp)

lemma propose_first_in_limits:
  assumes "bt_get m i = Some it"
  shows "op_in_limits m (OpProposeEffect i (session_effect_id sha it i now) mf)"
  using assms by (auto simp: op_in_limits_def session_effect_id_def split: list.split)

lemma start_now_rails:
  assumes "start_now w i sp actor now st = (r, st')" "rails w st"
  shows "rails w st'"
proof (cases "st' = st")
  case False
  then obtain it where it: "bt_get (st_items st) i = Some it"
    using assms(1) unfolding start_now_def by (auto dest!: check_then_cases)
  let ?run = "\<lambda>mf. then_run (append_op w (OpProposeEffect i (session_effect_id (ie_sha (se_intake w)) it i now) mf)
      actor None now st) (\<lambda>_. append_op w (OpApproveEffect i
        (session_effect_id (ie_sha (se_intake w)) it i now)
        (env_dig w i (session_effect_id (ie_sha (se_intake w)) it i now) mf)) actor None now)"
  have rest: "(\<exists>ef :: agenda_effect. request_occurrence_of w i (ef_effect_id ef) (ef_digest ef) actor now st = (r, st'))
      \<or> (\<exists>mf. ?run mf = (r, st'))"
  proof (cases "standing_effect it")
    case None
    then have "st' = st \<or> (\<exists>mf. ?run mf = (r, st'))"
      using assms(1) it by (auto simp: start_now_def check_then_def require_def Let_def
          split: if_splits option.splits sum.splits)
    with False show ?thesis by blast
  next
    case (Some ef)
    then have "st' = st \<or> request_occurrence_of w i (ef_effect_id ef) (ef_digest ef) actor now st = (r, st')"
      using assms(1) it by (auto simp: start_now_def check_then_def require_def split: if_splits)
    with False show ?thesis by blast
  qed
  let ?eid = "session_effect_id (ie_sha (se_intake w)) it i now"
  from rest show ?thesis
  proof (elim disjE exE)
    fix mf assume run: "then_run (append_op w (OpProposeEffect i ?eid mf) actor None now st)
      (\<lambda>_. append_op w (OpApproveEffect i ?eid (env_dig w i ?eid mf)) actor None now) = (r, st')"
    have keep: "rails w st1" if "append_op w (OpProposeEffect i ?eid mf) actor None now st = (x, st1)" for x st1
      by (rule append_rails [OF that assms(2) propose_first_in_limits [OF it]])
        (simp_all add: op_in_forest_def)
    from then_run_cases [OF run] show ?thesis
      by (elim disjE exE conjE) (use keep append_plain_rails in \<open>auto simp: plain_op_def\<close>)
  qed (use request_rails assms(2) in blast)
qed (use assms(2) in simp)

text \<open>Removing the old edge first leaves the checked placement lawful.\<close>

lemma apply_place_rails:
  assumes "apply_place w i under0 actor source now st = (r, st')" "rails w st"
  shows "rails w st'"
proof (cases "st' = st")
  case False
  let ?u = "trim under0" and ?m = "st_items st"
  let ?add = "append_op w (OpAddPartOf i ?u) actor source now"
  from False assms(1) obtain it where it: "bt_get ?m i = Some it"
    and val: "validate_placement ?m i ?u = Inr ()"
    and run: "(case map_option pl_parent_id (it_part_of it) of None \<Rightarrow> ?add st
       | Some p \<Rightarrow> then_run (append_op w (OpRemovePartOf i p) actor source now st) (\<lambda>_. ?add)) = (r, st')"
    unfolding apply_place_def Let_def
    by (auto dest!: check_then_cases split: if_splits)
  have ok: "ledger_ok (env_dig w) ?m" "placement_ok_ledger ?m"
    using assms(2) by (simp_all add: rails_def)
  have may: "may_place (parent_of ?m) i ?u"
    using validate_may_place [OF ok(1) _ val] ok(2) by (simp add: placement_ok_ledger_def)
  have add: "rails w st2" if "?add st1 = (x, st2)" "rails w st1" "may_place (parent_of (st_items st1)) i ?u" for x st1 st2
    by (rule append_rails [OF that(1,2)]) (use that(3) in \<open>auto simp: op_in_limits_def op_in_forest_def\<close>)
  show ?thesis
  proof (cases "map_option pl_parent_id (it_part_of it)")
    case None
    with run add [of st] assms(2) may show ?thesis by simp
  next
    case (Some p)
    with run have "then_run (append_op w (OpRemovePartOf i p) actor source now st) (\<lambda>_. ?add) = (r, st')"
      by simp
    from then_run_cases [OF this] show ?thesis
    proof (elim disjE exE conjE)
      fix it1 st1
      assume a: "append_op w (OpRemovePartOf i p) actor source now st = (Inr it1, st1)" "?add st1 = (r, st')"
      have r1: "rails w st1" using append_plain_rails [OF a(1) assms(2)] by (simp add: plain_op_def)
      let ?sub = "\<lambda>m. \<forall>x. parent_of m x = None \<or> parent_of m x = parent_of ?m x"
      have "?sub (st_items st1)"
      proof (rule append_op_keeps [OF a(1), of ?sub])
        fix m'
        assume "apply_op (env_dig w) ?m (record_of (OpRemovePartOf i p) actor source now) = (m', None)"
        from parent_shrinks [OF this] show "?sub m'" by simp
      qed simp
      from may_place_sub [OF this _ may] ok(2) have "may_place (parent_of (st_items st1)) i ?u"
        by (simp add: placement_ok_ledger_def)
      from add [OF a(2) r1 this] show ?thesis .
    qed (use append_plain_rails assms(2) in \<open>simp add: plain_op_def\<close>)
  qed
qed (use assms(2) in simp)

lemma intake_not_add: "command_to_op v m now c = Inr op \<Longrightarrow> op \<noteq> OpAdd i k t b ts d a"
  using intake_shape [of v m now c op] by (cases c) (auto simp: op_matches_def)

lemma dispatch_rails:
  assumes "dispatch w candidate c actor source now st = (r, st')" "rails w st" "ulid_laws w"
  shows "rails w st'"
proof (cases "st' = st")
  case False
  have ok: "ledger_ok (env_dig w) (st_items st)" "placement_ok_ledger (st_items st)"
    using assms(2) by (simp_all add: rails_def)
  have plain: "rails w st'" if "check_then (command_to_op (se_intake w) (st_items st) now c) st
      (\<lambda>op. append_op w op actor source now st) = (r, st')"
  proof -
    from check_then_cases [OF that] False obtain op where
      op: "command_to_op (se_intake w) (st_items st) now c = Inr op" "append_op w op actor source now st = (r, st')"
      by auto
    show ?thesis
      by (rule append_rails [OF op(2) assms(2)])
        (use intake_in_limits [OF op(1)] intake_in_forest [OF ok op(1)] intake_not_add [OF op(1)] in auto)
  qed
  show ?thesis
  proof (cases c)
    case (CmdAdd k t b ts d rs s)
    with assms apply_add_rails show ?thesis by (simp add: dispatch_def)
  next
    case (CmdPlace i p s)
    with assms apply_place_rails show ?thesis by (simp add: dispatch_def)
  next
    case (CmdRequestOccurrence i)
    with assms(1) have "st' = st
        \<or> (\<exists>ef :: agenda_effect. request_occurrence_of w i (ef_effect_id ef) (ef_digest ef) actor now st = (r, st'))"
      by (auto simp: dispatch_def check_then_def require_def split: list.splits option.splits)
    with False request_rails assms(2) show ?thesis by blast
  next
    case (CmdStartNow i sp)
    with assms start_now_rails show ?thesis by (simp add: dispatch_def)
  qed (use plain assms(1) in \<open>simp_all add: dispatch_def\<close>)
qed (use assms(2) in simp)

text \<open>
  C19: every command, refused half way or not, keeps the ledger's rails: well-formed items
  under their keys, the per-item limits, a placement forest of bounded depth with bounded
  hubs, and ids below the mint floor.
\<close>

theorem commands_keep_rails:
  assumes "ulid_laws w" and "rails w (snd (refresh_if_stale w st))"
  shows "rails w (snd (apply_command w candidate cmd actor now st))"
proof -
  obtain r1 st1 where r: "refresh_if_stale w st = (r1, st1)" by fastforce
  obtain r' st' where a: "apply_command w candidate cmd actor now st = (r', st')" by fastforce
  have "st' = st1 \<or> (\<exists>c s. dispatch w candidate c actor s now st1 = (r', st'))"
    using a r unfolding apply_command_def by (auto dest!: then_run_cases check_then_cases)
  then have "rails w st'" using dispatch_rails assms r by auto
  then show ?thesis using a by simp
qed


section \<open>A refusal leaves no trace\<close>

lemma apply_op_live: "bt_get m k \<noteq> None \<Longrightarrow> bt_get (fst (apply_op dig m rec)) k \<noteq> None"
  using apply_op_puts [of m rec dig] by (auto simp: puts_def)

lemma append_refused:
  assumes "append_op w op actor source now st = (Inl e, st')" "se_to_string w (record_of op actor source now) \<noteq> None"
    and "bt_get (st_items st) (op_item_id op) \<noteq> None \<or> (\<exists>i k t b ts d a. op = OpAdd i k t b ts d a)"
  shows "e = IoError"
proof -
  let ?m = "fst (apply_op (env_dig w) (st_items st) (record_of op actor source now))"
  have "bt_get ?m (op_item_id op) \<noteq> None"
    using assms(3)
  proof
    assume "\<exists>i k t b ts d a. op = OpAdd i k t b ts d a"
    then show ?thesis by (auto simp: apply_op.simps)
  qed (rule apply_op_live)
  then show ?thesis using append_op_cases [OF assms(1)] assms(2) by auto
qed

lemma append_live:
  assumes "append_op w op actor source now st = (Inr it, st')" "bt_get (st_items st) k \<noteq> None"
  shows "bt_get (st_items st') k \<noteq> None"
  using append_op_Inr [OF assms(1)] apply_op_live [OF assms(2)] by simp

lemma intake_live:
  assumes "command_to_op v m now c = Inr op"
  shows "bt_get m (op_item_id op) \<noteq> None"
  using intake_shape [OF assms] assms
  by (cases c) (auto simp: op_matches_def to_add_part_of_def to_add_relates_to_def
      to_remove_relates_to_def rbind_eq_Inr Let_def split: if_splits option.splits)

lemma refs_refused:
  assumes "append_refs w i vs actor source now it0 st = (Inl e, st')" "\<forall>rec. se_to_string w rec \<noteq> None"
    and "bt_get (st_items st) i \<noteq> None"
  shows "e = IoError"
  using assms
proof (induction vs arbitrary: it0 st)
  case (Cons v vs)
  let ?op = "OpAddRef i (vr_ref_type v) (vr_locator v) (vr_digest v) (vr_must_read v) (vr_label v)"
  from then_run_cases [OF Cons.prems(1) [unfolded append_refs.simps]] show ?case
  proof (elim disjE exE conjE)
    fix e' assume "append_op w ?op actor source now st = (Inl e', st')" "Inl e = (Inl e' :: agenda_item intake)"
    with append_refused Cons.prems(2,3) show ?thesis by fastforce
  next
    fix it1 st1
    assume a: "append_op w ?op actor source now st = (Inr it1, st1)"
      "append_refs w i vs actor source now it1 st1 = (Inl e, st')"
    from Cons.IH [OF a(2) Cons.prems(2) append_live [OF a(1) Cons.prems(3)]] show ?thesis .
  qed
qed simp

text \<open>Two appends to one live item.\<close>

lemma pair_refused:
  assumes "then_run (append_op w op1 actor s1 now st) (\<lambda>_. append_op w op2 actor s2 now) = (Inl e, st')"
    and "\<forall>rec. se_to_string w rec \<noteq> None" "bt_get (st_items st) i \<noteq> None"
    and "op_item_id op1 = i" "op_item_id op2 = i"
  shows "e = IoError"
  using then_run_cases [OF assms(1)]
proof (elim disjE exE conjE)
  fix e' assume "append_op w op1 actor s1 now st = (Inl e', st')" "Inl e = (Inl e' :: agenda_item intake)"
  with append_refused assms(2-4) show ?thesis by fastforce
next
  fix it1 st1 assume a: "append_op w op1 actor s1 now st = (Inr it1, st1)"
    "append_op w op2 actor s2 now st1 = (Inl e, st')"
  from append_refused [OF a(2)] append_live [OF a(1) assms(3)] assms(2,5) show ?thesis by auto
qed

definition untouched :: "agenda_store \<Rightarrow> agenda_store \<Rightarrow> bool" where
  "untouched st st' = (\<exists>u. st' = st\<lparr>st_last_id := u\<rparr>)"

lemma untouched_refl [simp]: "untouched st st"
  unfolding untouched_def by (rule exI [of _ "st_last_id st"]) simp

lemma apply_add_refused:
  assumes "apply_add w candidate kind t0 b0 ts0 due refs actor source now st = (Inl e, st')"
    and "\<forall>rec. se_to_string w rec \<noteq> None" "e \<noteq> IoError"
  shows "untouched st st'"
proof (cases "st' = st")
  case False
  then obtain t b ts vs where
    run: "then_run (mint_id w candidate st) (\<lambda>i st1.
      then_run (append_op w (OpAdd i kind t b ts due None) actor source now st1)
        (append_refs w i vs actor source now)) = (Inl e, st')"
    using assms(1) unfolding apply_add_def by (auto dest!: check_then_cases)
  have "\<not> (\<exists>e. mint_id w candidate st = (Inl e, st'))"
    using False by (auto simp: mint_id_def split: option.splits if_splits)
  with then_run_cases [OF run] obtain i st1 where
    rest: "then_run (append_op w (OpAdd i kind t b ts due None) actor source now st1)
        (append_refs w i vs actor source now) = (Inl e, st')" by blast
  have False using then_run_cases [OF rest]
  proof (elim disjE exE conjE)
    fix e' assume "append_op w (OpAdd i kind t b ts due None) actor source now st1 = (Inl e', st')"
      "Inl e = (Inl e' :: agenda_item intake)"
    with append_refused assms(2,3) show False by fastforce
  next
    fix it2 st2
    assume a: "append_op w (OpAdd i kind t b ts due None) actor source now st1 = (Inr it2, st2)"
      "append_refs w i vs actor source now it2 st2 = (Inl e, st')"
    have "bt_get (st_items st2) i \<noteq> None" using append_op_item [OF a(1)] by simp
    with refs_refused [OF a(2) assms(2)] assms(3) show False by simp
  qed
  then show ?thesis ..
qed simp

lemma apply_place_refused:
  assumes "apply_place w i under0 actor source now st = (Inl e, st')"
    and "\<forall>rec. se_to_string w rec \<noteq> None" "e \<noteq> IoError"
  shows "st' = st"
proof (rule ccontr)
  let ?add = "append_op w (OpAddPartOf i (trim under0)) actor source now"
  assume "st' \<noteq> st"
  with assms(1) obtain it where it: "bt_get (st_items st) i = Some it"
    and run: "(case map_option pl_parent_id (it_part_of it) of None \<Rightarrow> ?add st
       | Some p \<Rightarrow> then_run (append_op w (OpRemovePartOf i p) actor source now st) (\<lambda>_. ?add)) = (Inl e, st')"
    unfolding apply_place_def Let_def by (auto dest!: check_then_cases split: if_splits)
  have live: "bt_get (st_items st) i \<noteq> None" using it by simp
  have "?add st \<noteq> (Inl e, st')"
    using append_refused [of w "OpAddPartOf i (trim under0)"] assms(2,3) live by fastforce
  moreover have "then_run (append_op w (OpRemovePartOf i p) actor source now st) (\<lambda>_. ?add) \<noteq> (Inl e, st')" for p
    using pair_refused [of w "OpRemovePartOf i p" actor source now st "OpAddPartOf i (trim under0)" source e st' i]
      assms(2,3) live by auto
  ultimately show False using run by (auto split: option.splits)
qed

lemma request_refused:
  assumes "request_occurrence_of w i eid d actor now st = (Inl e, st')"
    and "\<forall>rec. se_to_string w rec \<noteq> None" "e \<noteq> IoError"
  shows "st' = st"
proof (rule ccontr)
  assume "st' \<noteq> st"
  with assms(1) have "append_op w (OpRequestOccurrence i eid d now) actor None now st = (Inl e, st')"
    "bt_get (st_items st) i \<noteq> None"
    unfolding request_occurrence_of_def by (auto dest!: check_then_cases split: option.splits)
  with append_refused assms(2,3) show False by fastforce
qed


text \<open>The two outcomes of starting now: a request of the standing manifest, or a mint and its approval.\<close>

lemma start_now_cases:
  assumes "start_now w i sp actor now st = (r, st')" "\<not> (st' = st \<and> (\<exists>e. r = Inl e))"
  obtains it ef where "bt_get (st_items st) i = Some it" "standing_effect it = Some ef"
      "request_occurrence_of w i (ef_effect_id ef) (ef_digest ef) actor now st = (r, st')"
  | it goal interactive eid mf where "bt_get (st_items st) i = Some it" "it_status it = Open"
      "standing_effect it = None" "start_goal it (sn_goal sp) interactive = Inr goal"
      "eid = session_effect_id (ie_sha (se_intake w)) it i now" "mf = start_manifest goal sp interactive now"
      "then_run (append_op w (OpProposeEffect i eid mf) actor None now st)
        (\<lambda>_. append_op w (OpApproveEffect i eid (env_dig w i eid mf)) actor None now) = (r, st')"
proof -
  obtain it where it: "bt_get (st_items st) i = Some it"
    using assms unfolding start_now_def by (auto dest!: check_then_cases)
  show ?thesis
  proof (cases "standing_effect it")
    case None
    let ?int = "case sn_interactive sp of None \<Rightarrow> True | Some b \<Rightarrow> b"
    let ?eid = "session_effect_id (ie_sha (se_intake w)) it i now"
    have "st' = st \<and> (\<exists>e. r = Inl e) \<or> (\<exists>goal. it_status it = Open \<and> start_goal it (sn_goal sp) ?int = Inr goal
        \<and> then_run (append_op w (OpProposeEffect i ?eid (start_manifest goal sp ?int now)) actor None now st)
          (\<lambda>_. append_op w (OpApproveEffect i ?eid (env_dig w i ?eid (start_manifest goal sp ?int now)))
             actor None now) = (r, st'))"
      using assms(1) it None by (auto simp: start_now_def check_then_def require_def Let_def
          split: if_splits option.splits sum.splits)
    with assms(2) that(2) [OF it _ None _ refl refl] show ?thesis by blast
  next
    case (Some ef)
    have "st' = st \<and> (\<exists>e. r = Inl e)
        \<or> request_occurrence_of w i (ef_effect_id ef) (ef_digest ef) actor now st = (r, st')"
      using assms(1) it Some by (auto simp: start_now_def check_then_def require_def split: if_splits)
    with assms(2) that(1) [OF it Some] show ?thesis by blast
  qed
qed

lemma start_now_refused:
  assumes "start_now w i sp actor now st = (Inl e, st')"
    and "\<forall>rec. se_to_string w rec \<noteq> None" "e \<noteq> IoError"
  shows "st' = st"
proof (rule ccontr)
  assume "st' \<noteq> st"
  then have "\<not> (st' = st \<and> (\<exists>e'. (Inl e :: agenda_item intake) = Inl e'))" by simp
  with assms(1) show False
  proof (cases rule: start_now_cases)
    case (1 it ef)
    from request_refused [OF 1(3) assms(2,3)] \<open>st' \<noteq> st\<close> show False by simp
  next
    case (2 it goal interactive eid mf)
    from pair_refused [OF 2(7) assms(2), of i] 2(1) assms(3) show False by simp
  qed
qed

lemma dispatch_refused:
  assumes "dispatch w candidate c actor source now st = (Inl e, st')"
    and "\<forall>rec. se_to_string w rec \<noteq> None" "e \<noteq> IoError"
  shows "untouched st st'"
proof -
  have plain: "st' = st" if "check_then (command_to_op (se_intake w) (st_items st) now c) st
      (\<lambda>op. append_op w op actor source now st) = (Inl e, st')"
  proof (rule ccontr)
    assume "st' \<noteq> st"
    with check_then_cases [OF that] obtain op where
      op: "command_to_op (se_intake w) (st_items st) now c = Inr op" "append_op w op actor source now st = (Inl e, st')"
      by auto
    from append_refused [OF op(2)] intake_live [OF op(1)] assms(2,3) show False by simp
  qed
  show ?thesis
  proof (cases c)
    case (CmdAdd k t b ts d rs s)
    with assms apply_add_refused show ?thesis by (simp add: dispatch_def)
  next
    case (CmdPlace i p s)
    with assms(1) have "apply_place w i p actor source now st = (Inl e, st')" by (simp add: dispatch_def)
    from apply_place_refused [OF this assms(2,3)] show ?thesis by simp
  next
    case (CmdRequestOccurrence i)
    with assms(1) have "st' = st
        \<or> (\<exists>ef :: agenda_effect. request_occurrence_of w i (ef_effect_id ef) (ef_digest ef) actor now st = (Inl e, st'))"
      by (auto simp: dispatch_def check_then_def require_def split: list.splits option.splits)
    with request_refused assms(2,3) show ?thesis by force
  next
    case (CmdStartNow i sp)
    with assms(1) have "start_now w i sp actor now st = (Inl e, st')" by (simp add: dispatch_def)
    from start_now_refused [OF this assms(2,3)] show ?thesis by simp
  qed (use plain assms(1) in \<open>simp_all add: dispatch_def\<close>)
qed

text \<open>
  C36: a command that is refused for any reason but a failing file leaves the file and all
  derived state as the refresh before it left them: a command of several operations validates
  everything before it appends the first.
\<close>

theorem refusal_leaves_no_trace:
  assumes "\<forall>rec. se_to_string w rec \<noteq> None" and "refresh_if_stale w st = (Inr (), st1)"
    and "apply_command w candidate cmd actor now st = (Inl e, st')" and "e \<noteq> IoError"
  shows "derived st' = derived st1 \<and> st_disk st' = st_disk st1 \<and> st_folded_len st' = st_folded_len st1"
proof -
  have "untouched st1 st'"
    using assms dispatch_refused [OF _ assms(1,4)]
    unfolding apply_command_def by (auto dest!: then_run_cases check_then_cases)
  then show ?thesis by (auto simp: untouched_def)
qed


section \<open>Start now\<close>

lemma floor_boundary_props: "floor_boundary s k \<le> k \<and> is_char_boundary s (floor_boundary s k)"
  by (induction k) (auto simp: is_char_boundary_def)

lemma bounded_goal_length: "length (bounded_goal g) \<le> max_body_bytes"
  using floor_boundary_props [of g max_body_bytes] by (simp add: bounded_goal_def)

text \<open>
  Whatever the edited goal, the title and the body, the goal a start-now manifest carries
  is a prefix of the reviewed text and its coda, cut at a character boundary and within the
  bound a proposed goal has.
\<close>

theorem start_goal_bounded:
  assumes "start_goal it override interactive = Inr goal"
  shows "length goal \<le> 65536 \<and> (\<exists>whole rest. whole = goal @ rest \<and> is_char_boundary whole (length goal)
    \<and> whole = (if trim (case override of None \<Rightarrow> [] | Some g \<Rightarrow> g) = [] then start_now_goal_statement it
               else trim (the override))
            @ (if interactive then start_now_interactive_coda else start_now_goal_run_coda))"
proof -
  define whole where "whole = (if trim (case override of None \<Rightarrow> [] | Some g \<Rightarrow> g) = []
      then start_now_goal_statement it else trim (the override))
    @ (if interactive then start_now_interactive_coda else start_now_goal_run_coda)"
  define k where "k = (if max_body_bytes < length whole then floor_boundary whole max_body_bytes else length whole)"
  have nil: "trim [] = []" by (simp add: trim_def)
  have goal: "goal = bounded_goal whole"
    using assms by (auto simp: start_goal_def whole_def Let_def nil split: option.splits if_splits)
  have "goal = take k whole" unfolding goal bounded_goal_def k_def by simp
  moreover have "k \<le> length whole" "is_char_boundary whole k"
    using floor_boundary_props [of whole max_body_bytes] by (auto simp: is_char_boundary_def k_def)
  ultimately have "whole = goal @ drop k whole" "is_char_boundary whole (length goal)" by simp_all
  moreover have "length goal \<le> 65536"
    using bounded_goal_length [of whole] goal by (simp add: max_body_bytes_def)
  ultimately show ?thesis unfolding whole_def [symmetric] by blast
qed

lemma propose_single:
  assumes "length (it_effects it) \<le> 1" "eid = session_effect_id sha it i now"
  shows "\<exists>it' e. fold_propose_effect dig rec eid mf it = Inr it' \<and> it_effects it' = [e]
    \<and> ef_effect_id e = eid \<and> ef_manifest e = mf \<and> ef_digest e = dig (it_id it) eid mf"
  using assms by (cases "it_effects it") (auto simp: fold_propose_effect_def touch_def Let_def
      session_effect_id_def map_first_def)

lemma approve_single:
  assumes "it_effects it = [e]"
  shows "\<exists>it' e'. fold_approve_effect rec (ef_effect_id e) (ef_digest e) it = Inr it' \<and> it_effects it' = [e']
    \<and> kept e e' \<and> (\<exists>ap. ef_approval e' = Some ap \<and> ap_digest ap = ef_digest e)"
  using assms by (simp add: fold_approve_effect_def on_effect_def touch_def kept_def)

lemma append_on_item:
  assumes "append_op w op actor source now st = (Inr it', st')"
    and "apply_op (env_dig w) (st_items st) (record_of op actor source now)
           = on_item (st_items st) (op_item_id op) verb f"
    and "bt_get (st_items st) (op_item_id op) = Some it" "f it = Inr it1"
  shows "it' = it1 \<and> bt_get (st_items st') (op_item_id op) = Some it1"
  using append_op_Inr [OF assms(1)] assms(2-4) by (auto simp: on_item_def)

text \<open>
  Starting now, on an item with no approved recurring manifest, leaves the item with one
  effect: the manifest minted from the reviewed goal, due at once, and approved for exactly
  its own digest.
\<close>

theorem start_now_arms_minted:
  assumes "rails w st" and "bt_get (st_items st) i = Some it" and "standing_effect it = None"
    and "start_now w i sp actor now st = (Inr it', st')"
  shows "\<exists>e goal interactive ap. it_effects it' = [e] \<and> bt_get (st_items st') i = Some it'
    \<and> start_goal it (sn_goal sp) interactive = Inr goal
    \<and> ef_manifest e = start_manifest goal sp interactive now
    \<and> ef_digest e = env_dig w i (ef_effect_id e) (ef_manifest e)
    \<and> ef_approval e = Some ap \<and> ap_digest ap = ef_digest e"
proof -
  have lim: "length (it_effects it) \<le> 1" "it_id it = i"
    using assms(1,2) item_okD(1) [OF ledger_ok_get]
    by (auto simp: rails_def all_within_def within_limits_def)
  have "\<not> (st' = st \<and> (\<exists>e. (Inr it' :: agenda_item intake) = Inl e))" by simp
  with assms(4) show ?thesis
  proof (cases rule: start_now_cases)
    case (2 it0 goal interactive eid mf)
    with assms(2) have it0: "it0 = it" by simp
    let ?op1 = "OpProposeEffect i eid mf" and ?op2 = "OpApproveEffect i eid (env_dig w i eid mf)"
    from then_run_cases [OF 2(7)] obtain it1 st1 where
      a: "append_op w ?op1 actor None now st = (Inr it1, st1)" "append_op w ?op2 actor None now st1 = (Inr it', st')"
      by auto
    let ?rec1 = "record_of ?op1 actor None now" and ?rec2 = "record_of ?op2 actor None now"
    from propose_single [OF lim(1) 2(5) [unfolded it0], of "env_dig w" ?rec1 mf] obtain itp e where
      p: "fold_propose_effect (env_dig w) ?rec1 eid mf it = Inr itp" "it_effects itp = [e]"
        "ef_effect_id e = eid" "ef_manifest e = mf" "ef_digest e = env_dig w i eid mf"
      using lim(2) by auto
    from append_on_item [OF a(1), of "''propose_effect''" "fold_propose_effect (env_dig w) ?rec1 eid mf" it itp]
    have s1: "bt_get (st_items st1) i = Some itp"
      using assms(2) p(1) by (simp add: apply_op.simps)
    from approve_single [OF p(2), of ?rec2] obtain ita e' ap where
      q: "fold_approve_effect ?rec2 eid (env_dig w i eid mf) itp = Inr ita" "it_effects ita = [e']"
        "kept e e'" "ef_approval e' = Some ap" "ap_digest ap = ef_digest e"
      using p(3,5) by auto
    from append_on_item [OF a(2), of "''approve_effect''" "fold_approve_effect ?rec2 eid (env_dig w i eid mf)" itp ita]
    have "it' = ita" "bt_get (st_items st') i = Some ita"
      using s1 q(1) by (simp_all add: apply_op.simps)
    with q p 2(4,6) it0 show ?thesis
      by (intro exI [of _ e'] exI [of _ goal] exI [of _ interactive] exI [of _ ap]) (auto simp: kept_def)
  qed (use assms(2,3) in auto)
qed


section \<open>Nobody but the owner arms an effect\<close>

text \<open>Every approved effect of the later items was the same manifest, already approved, before.\<close>

definition arms_nothing :: "items \<Rightarrow> items \<Rightarrow> bool" where
  "arms_nothing m m' = (\<forall>i it' e'. bt_get m' i = Some it' \<and> e' \<in> set (it_effects it') \<and> ef_approval e' \<noteq> None
     \<longrightarrow> (\<exists>it e. bt_get m i = Some it \<and> e \<in> set (it_effects it) \<and> kept e e' \<and> ef_approval e \<noteq> None))"

lemma arms_nothing_refl [simp]: "arms_nothing m m"
  unfolding arms_nothing_def using kept_refl by blast

lemma arms_nothing_trans: "arms_nothing a b \<Longrightarrow> arms_nothing b c \<Longrightarrow> arms_nothing a c"
  unfolding arms_nothing_def kept_def by metis

lemma append_arms_nothing:
  assumes "append_op w op actor source now st = (r, st')" "ledger_ok (env_dig w) (st_items st)"
    and "\<And>i eid d. op \<noteq> OpApproveEffect i eid d"
  shows "arms_nothing (st_items st) (st_items st') \<and> ledger_ok (env_dig w) (st_items st')"
proof (rule append_op_keeps [OF assms(1), of "\<lambda>m. arms_nothing (st_items st) m \<and> ledger_ok (env_dig w) m"])
  fix m' assume step: "apply_op (env_dig w) (st_items st) (record_of op actor source now) = (m', None)"
  have "arms_nothing (st_items st) m'"
    unfolding arms_nothing_def
  proof (intro allI impI, elim conjE)
    fix i it' e' assume e': "bt_get m' i = Some it'" "e' \<in> set (it_effects it')" "ef_approval e' \<noteq> None"
    from apply_op_traced [OF step assms(2) e'(1,2)] obtain it where
      it: "bt_get (st_items st) i = Some it" "traced (record_of op actor source now) i it e'" by blast
    from it(2) e'(3) obtain e where e: "e \<in> set (it_effects it)" "kept e e'" "effect_step op i e e'"
      by (auto simp: traced_def)
    from effect_step_approved [OF e(3,2) e'(3)] assms(3) have "ef_approval e \<noteq> None" by blast
    with it(1) e show "\<exists>it e. bt_get (st_items st) i = Some it \<and> e \<in> set (it_effects it) \<and> kept e e'
        \<and> ef_approval e \<noteq> None" by blast
  qed
  with apply_op_ok [OF assms(2) step]
  show "arms_nothing (st_items st) m' \<and> ledger_ok (env_dig w) m'" by simp
qed (use assms(2) in simp)

lemma refs_arm_nothing:
  assumes "append_refs w i vs actor source now it0 st = (r, st')" "ledger_ok (env_dig w) (st_items st)"
  shows "arms_nothing (st_items st) (st_items st')"
  using assms
proof (induction vs arbitrary: it0 st)
  case (Cons v vs)
  let ?op = "OpAddRef i (vr_ref_type v) (vr_locator v) (vr_digest v) (vr_must_read v) (vr_label v)"
  from then_run_cases [OF Cons.prems(1) [unfolded append_refs.simps]] show ?case
  proof (elim disjE exE conjE)
    fix it1 st1 assume a: "append_op w ?op actor source now st = (Inr it1, st1)"
      "append_refs w i vs actor source now it1 st1 = (r, st')"
    from append_arms_nothing [OF a(1) Cons.prems(2)] Cons.IH [OF a(2)] arms_nothing_trans show ?thesis by blast
  qed (use append_arms_nothing Cons.prems(2) in blast)
qed simp

lemma pair_arms_nothing:
  assumes "then_run (append_op w op1 actor s1 now st) (\<lambda>_. append_op w op2 actor s2 now) = (r, st')"
    and "ledger_ok (env_dig w) (st_items st)"
    and "\<And>i eid d. op1 \<noteq> OpApproveEffect i eid d" "\<And>i eid d. op2 \<noteq> OpApproveEffect i eid d"
  shows "arms_nothing (st_items st) (st_items st')"
  using then_run_cases [OF assms(1)]
proof (elim disjE exE conjE)
  fix it1 st1 assume a: "append_op w op1 actor s1 now st = (Inr it1, st1)" "append_op w op2 actor s2 now st1 = (r, st')"
  from append_arms_nothing [OF a(1) assms(2,3)] append_arms_nothing [OF a(2) _ assms(4)] arms_nothing_trans
  show ?thesis by blast
qed (use append_arms_nothing assms(2,3) in blast)

lemma dispatch_arms_nothing:
  assumes "dispatch w candidate c actor source now st = (r, st')" "ledger_ok (env_dig w) (st_items st)"
    and "owner_verb c = None"
  shows "arms_nothing (st_items st) (st_items st')"
proof (cases "st_items st' = st_items st")
  case False
  then have ne: "st' \<noteq> st" by auto
  have plain: "arms_nothing (st_items st) (st_items st')"
    if "check_then (command_to_op (se_intake w) (st_items st) now c) st
      (\<lambda>op. append_op w op actor source now st) = (r, st')"
  proof -
    from check_then_cases [OF that] ne obtain op where
      op: "command_to_op (se_intake w) (st_items st) now c = Inr op" "append_op w op actor source now st = (r, st')"
      by auto
    have "op \<noteq> OpApproveEffect i eid d" for i eid d
      using intake_shape [OF op(1)] assms(3) by (cases c) (auto simp: op_matches_def owner_verb_def)
    from append_arms_nothing [OF op(2) assms(2) this] show ?thesis by blast
  qed
  show ?thesis
  proof (cases c)
    case (CmdAdd k t b ts d rs s)
    then have "apply_add w candidate k t b ts d rs actor source now st = (r, st')"
      using assms(1) by (simp add: dispatch_def)
    with ne obtain t' b' ts' vs where
      run: "then_run (mint_id w candidate st) (\<lambda>i st1.
        then_run (append_op w (OpAdd i k t' b' ts' d None) actor source now st1)
          (append_refs w i vs actor source now)) = (r, st')"
      unfolding apply_add_def by (auto dest!: check_then_cases)
    have mint: "st_items st1 = st_items st" if "mint_id w candidate st = (x, st1)" for x st1
      using that by (auto simp: mint_id_def split: option.splits if_splits)
    with then_run_cases [OF run] False obtain i st1 where m: "st_items st1 = st_items st"
      and rest: "then_run (append_op w (OpAdd i k t' b' ts' d None) actor source now st1)
          (append_refs w i vs actor source now) = (r, st')" by blast
    from then_run_cases [OF rest] show ?thesis
    proof (elim disjE exE conjE)
      fix it2 st2 assume a: "append_op w (OpAdd i k t' b' ts' d None) actor source now st1 = (Inr it2, st2)"
        "append_refs w i vs actor source now it2 st2 = (r, st')"
      from append_arms_nothing [OF a(1)] refs_arm_nothing [OF a(2)] assms(2) m arms_nothing_trans
      show ?thesis by auto
    next
      fix e assume "append_op w (OpAdd i k t' b' ts' d None) actor source now st1 = (Inl e, st')"
      from append_arms_nothing [OF this] assms(2) m show ?thesis by auto
    qed
  next
    case (CmdPlace i p s)
    let ?add = "append_op w (OpAddPartOf i (trim p)) actor source now"
    from CmdPlace assms(1) have "apply_place w i p actor source now st = (r, st')" by (simp add: dispatch_def)
    with ne obtain it :: agenda_item where
      run: "(case map_option pl_parent_id (it_part_of it) of None \<Rightarrow> ?add st
       | Some q \<Rightarrow> then_run (append_op w (OpRemovePartOf i q) actor source now st) (\<lambda>_. ?add)) = (r, st')"
      unfolding apply_place_def Let_def by (auto dest!: check_then_cases split: if_splits)
    then show ?thesis
      using append_arms_nothing [of w "OpAddPartOf i (trim p)" actor source now st r st']
        pair_arms_nothing [of w "OpRemovePartOf i q" actor source now st "OpAddPartOf i (trim p)" source r st' for q]
        assms(2) by (auto split: option.splits)
  qed (use plain assms(1,3) in \<open>simp_all add: dispatch_def owner_verb_def\<close>)
qed simp

text \<open>A store left alone refreshes without change.\<close>

definition lone :: "agenda_store \<Rightarrow> bool" where
  "lone st = list_all (\<lambda>s. is_foreign s = []) (st_io st)"

lemma refresh_lone:
  assumes "converged w st" "lone st" "refresh_if_stale w st = (r, st')"
  shows "st' = st\<lparr>st_io := drop 1 (st_io st)\<rparr> \<and> converged w st' \<and> lone st'"
  using assms
  by (cases "st_io st") (auto simp: refresh_if_stale_def next_io_def converged_def derived_def lone_def
      Let_def split: option.splits if_splits)

lemma resolved_verb: "resolve_command_ids m c = Inr c' \<Longrightarrow> owner_verb c' = owner_verb c"
  by (cases c) (auto simp: owner_verb_def rbind_eq_Inr split: if_splits option.splits)


text \<open>
  C14: on a ledger no other daemon writes, a command arms nothing unless it comes from an
  owner surface: whatever an agent, a peer or an unattributed caller sends through the
  handle, every effect approved afterwards is the same manifest, approved before.
\<close>

theorem agents_never_arm:
  assumes "converged w st" and "lone st" and "ledger_ok (env_dig w) (st_items st)"
    and "\<not> owner_surface actor"
  shows "arms_nothing (st_items st)
    (st_items (snd (handle_apply w journal draining candidate cmd actor now st)))"
proof -
  obtain r st' where run: "handle_apply w journal draining candidate cmd actor now st = (r, st')"
    by fastforce
  have good: "st_items st' = st_items st \<or> (\<exists>c st2. owner_verb c = None \<and> converged w st2 \<and> lone st2
      \<and> st_items st2 = st_items st \<and> apply_command w candidate c actor now st2 = (r, st'))"
  proof (cases "authorize_command cmd actor = Inr ()")
    case True
    then have verb: "owner_verb cmd = None"
      using assms(4) by (auto simp: authorize_command_def owner_verb_def is_pick_up_def
          split: if_splits option.splits agenda_command.splits)
    then have start: "resolve_start w c st2 = (Inr c, st2)" if "owner_verb c = None" for c st2
      using that by (cases c) (auto simp: resolve_start_def owner_verb_def)
    let ?pre = "if pre_resolved cmd then then_run (refresh_if_stale w st)
      (\<lambda>_ st. (resolve_command_ids (st_items st) cmd, st)) else (Inr cmd, st)"
    have pre: "st_items st1 = st_items st \<and> converged w st1 \<and> lone st1
        \<and> (\<forall>c. x = Inr c \<longrightarrow> owner_verb c = None)" if "?pre = (x, st1)" for x st1
      using that assms(1,2) verb
      by (auto split: if_splits dest!: then_run_cases refresh_lone [OF assms(1,2)] resolved_verb)
    let ?rest = "\<lambda>c st1. check_then (case c of CmdAttest i occ _ _ _ _ \<Rightarrow> verify_attest_binding journal i occ actor
        | _ \<Rightarrow> Inr ()) st1 (\<lambda>_. then_run (resolve_start w c st1) (\<lambda>c'. apply_command w candidate c' actor now))"
    have after: "then_run ?pre ?rest = (r, st')" if "st' \<noteq> st"
      using run True that unfolding handle_apply_def by (simp add: check_then_def split: if_splits)
    show ?thesis
    proof (cases "st' = st")
      case False
      from then_run_cases [OF after [OF False]] show ?thesis
      proof (elim disjE exE conjE)
        fix e assume "?pre = (Inl e, st')"
        from pre [OF this] show ?thesis by simp
      next
        fix c st1 assume c: "?pre = (Inr c, st1)" "?rest c st1 = (r, st')"
        from pre [OF c(1)] have ok: "st_items st1 = st_items st" "converged w st1" "lone st1" "owner_verb c = None"
          by simp_all
        from check_then_cases [OF c(2)] have "st' = st1 \<or> apply_command w candidate c actor now st1 = (r, st')"
          unfolding start [OF ok(4)] by (auto simp: then_run_def)
        with ok show ?thesis by blast
      qed
    qed simp
  next
    case False
    then show ?thesis using run by (auto simp: handle_apply_def check_then_def split: sum.splits)
  qed
  have "arms_nothing (st_items st) (st_items st')"
    using good
  proof (elim disjE exE conjE)
    fix c st2 assume c: "owner_verb c = None" "converged w st2" "lone st2" "st_items st2 = st_items st"
      "apply_command w candidate c actor now st2 = (r, st')"
    obtain r3 st3 where ref: "refresh_if_stale w st2 = (r3, st3)" by fastforce
    have st3: "st_items st3 = st_items st" using refresh_lone [OF c(2,3) ref] c(4) by simp
    have "st' = st3 \<or> (\<exists>d s. resolve_command_ids (st_items st3) c = Inr d
        \<and> dispatch w candidate d actor s now st3 = (r, st'))"
      using c(5) ref unfolding apply_command_def by (auto dest!: then_run_cases check_then_cases)
    moreover have "owner_verb d = None" if "resolve_command_ids (st_items st3) c = Inr d" for d
      using resolved_verb [OF that] c(1) by simp
    ultimately show ?thesis
      using dispatch_arms_nothing assms(3) st3 by (metis arms_nothing_refl)
  qed simp
  then show ?thesis using run by simp
qed


section \<open>An attestation of a superseded occurrence\<close>

text \<open>
  The intake accepts the attestation of an occurrence that is not the effect's last run,
  and the fold warns: the line is appended and no item changes, but the live store advances
  the item's position to a line no replay of the file would record for it.
\<close>

theorem superseded_attest_diverges:
  assumes "converged w st" and "io_quiet st" and "bt_get (st_items st) i = Some it"
    and "it_effects it = e # es" and "map_option rn_occurrence_id (ef_last_run e) \<noteq> Some occ"
    and "command_to_op v (st_items st) now (CmdAttest i occ out note refs src) = Inr op"
    and "encodes w (record_of op actor source now) body"
  shows "let st' = snd (append_op w op actor source now st) in
    st_disk st' = st_disk st @ body @ [newline] \<and> st_items st' = st_items st
    \<and> bt_get (st_item_seqs st') i = Some (st_log_lines st)
    \<and> fo_item_seqs (fold_bytes w (st_disk st')) = st_item_seqs st"
proof -
  let ?rec = "record_of op actor source now"
  from assms(3,4,6) obtain n' rs where op: "op = OpAttest i (ef_effect_id e) occ out n' rs"
    by (auto simp: to_attest_def rbind_eq_Inr)
  have "\<exists>x. fold_attest ?rec (ef_effect_id e) occ out n' rs it = Inl x"
    using assms(4,5) by (cases "ef_last_run e") (auto simp: fold_attest_def on_effect_def)
  then obtain x where warn: "apply_op (env_dig w) (st_items st) ?rec = (st_items st, Some x)"
    using assms(3) op by (auto simp: apply_op.simps on_item_def)
  have body: "newline \<notin> set body" "trim body \<noteq> []" "parse_record w (trim body) = Inr ?rec"
    "se_to_string w ?rec = Some body" using assms(7) by (simp_all add: encodes_def)
  have app: "snd (append_op w op actor source now st) =
    st\<lparr>st_io := drop 1 (st_io st), st_disk := st_disk st @ body @ [newline],
       st_folded_len := st_folded_len st + file_len (body @ [newline]),
       st_log_lines := st_log_lines st + 1,
       st_item_seqs := bt_put i (st_log_lines st) (st_item_seqs st),
       st_items := st_items st, st_ops := st_ops st + 1\<rparr>"
    using assms(3) op warn body(4) next_io_calm [OF assms(2)]
    by (simp add: append_op_def write_all_def Let_def record_of_def)
  have "fold_bytes w (st_disk st @ body @ [newline]) = fold_line w (derived st) body"
    using fold_bytes_line [OF _ body(1), of "st_disk st" w] assms(1) by (simp add: converged_def)
  then have "fo_item_seqs (fold_bytes w (st_disk st @ body @ [newline])) = st_item_seqs st"
    using body(2,3) warn by (simp add: fold_line_def derived_def Let_def)
  with app show ?thesis by (simp add: Let_def)
qed

section \<open>Commands at work\<close>

lemma demo_ulids: "ulid_laws demo_env"
proof -
  have pre: "replicate m c < replicate n c" if "m < n" for m n and c :: char
    using that
  proof (induction m arbitrary: n)
    case 0
    then show ?case by (cases n) auto
  next
    case (Suc m)
    then show ?case by (cases n) auto
  qed
  have "u < v" if "se_ulid_increment demo_env u = Some v" for u v
    using that word_succ_less [of u] by (auto simp: demo_env_def split: if_splits)
  moreover have "se_ulid_show demo_env u < se_ulid_show demo_env v" if "u < v" for u v
    using that pre by (simp add: demo_env_def word_less_nat_alt)
  ultimately show ?thesis by (simp add: ulid_laws_def)
qed

definition demo_item :: agenda_item where
  "demo_item = fold_add (rec_of (OpAdd ''0'' Task ''t'' [] [] None None)) ''0'' Task ''t'' [] [] None None"

lemma demo_items: "st_items demo_store = [(''0'', demo_item)]" "st_last_id demo_store = Some 1"
proof -
  have l: "lines [CHR ''a'', newline] = [''a'']" by code_simp
  have t: "ended [CHR ''a'', newline]" by code_simp
  have i: "fo_items (fold_bytes demo_env [CHR ''a'', newline]) = [(''0'', demo_item)]"
    unfolding fold_bytes_def l
    by (simp add: fold_line_def demo_codes Let_def apply_op.simps rec_of_def demo_item_def empty_fold_def)
  then show "st_items demo_store = [(''0'', demo_item)]" "st_last_id demo_store = Some 1"
    using t by (simp_all add: demo_store_def open_store_def next_io_def load_def Let_def terminate_tail_def
        max_item_id_def demo_env_def)
qed

lemma demo_rails: "rails demo_env demo_store"
proof -
  have "ledger_ok (env_dig demo_env) (st_items demo_store)"
    using fold_records_ok [OF ledger_ok_empty, of "env_dig demo_env" "[rec_of (OpAdd ''0'' Task ''t'' [] [] None None)]"]
    by (simp add: demo_items demo_item_def fold_records_def apply_op.simps rec_of_def)
  moreover have "all_within (st_items demo_store)"
    by (simp add: demo_items all_within_def demo_item_def add_limits)
  moreover
  have par: "parent_of (st_items demo_store) = Map.empty"
    by (auto simp: parent_of_item demo_items demo_item_def item_parent_def fold_add_def fun_eq_iff)
  have eq: "max_part_of_depth = Suc 15" by (simp add: max_part_of_depth_def)
  have cl: "climb Map.empty max_part_of_depth x = None" for x
    unfolding eq climb.simps by simp
  from par have "placement_ok_ledger (st_items demo_store)"
    using cl by (simp add: placement_ok_ledger_def forest_def hubs_ok_def)
  moreover have "''0'' = se_ulid_show demo_env 1" by code_simp
  then have "ids_covered demo_env demo_store"
    by (auto simp: ids_covered_def demo_items intro!: exI [of _ 1])
  ultimately show ?thesis by (simp add: rails_def)
qed

lemma demo_lone: "lone demo_store" "refresh_if_stale demo_env demo_store = (Inr (), demo_store)"
proof -
  show "lone demo_store" by (simp add: lone_def demo_disk)
  show "refresh_if_stale demo_env demo_store = (Inr (), demo_store)"
    using demo_converged(1) by (simp add: refresh_if_stale_def next_io_def demo_disk converged_def)
qed

theorem commands_keep_rails_witness:
  "rails demo_env (snd (apply_command demo_env 0 (CmdComplete ''0'' None) None 7 demo_store))"
  using commands_keep_rails [OF demo_ulids] demo_rails demo_lone by simp

theorem agents_never_arm_witness:
  "arms_nothing (st_items demo_store) (st_items (snd (handle_apply demo_env (\<lambda>_. None) False 0
     (CmdStartNow ''0'' \<lparr> sn_goal = None, sn_project_root = None, sn_interactive = None,
        sn_agent_config = None \<rparr>) (Some daemon_actor) 7 demo_store)))"
  by (rule agents_never_arm [OF demo_converged(1) demo_lone(1)])
    (use demo_rails in \<open>simp_all add: rails_def owner_surface_def daemon_actor_def\<close>)

theorem start_goal_bounded_witness:
  "\<exists>goal. start_goal demo_item (Some ''go'') True = Inr goal \<and> length goal \<le> 65536"
proof -
  have "trim ''go'' = ''go''" by code_simp
  then obtain goal where "start_goal demo_item (Some ''go'') True = Inr goal"
    by (simp add: start_goal_def Let_def max_body_bytes_def)
  with start_goal_bounded [OF this] show ?thesis by blast
qed

theorem refusal_leaves_no_trace_witness:
  "\<exists>e st'. apply_command demo_env 0 (CmdReopen ''0'' None) None 7 demo_store = (Inl e, st')
     \<and> st_disk st' = [CHR ''a'', newline]"
proof -
  have r: "apply_command demo_env 0 (CmdReopen ''0'' None) None 7 demo_store
      = (Inl (Transition ''already open''), demo_store)"
    by (simp add: apply_command_def demo_lone then_run_def check_then_def dispatch_def demo_items
        resolve_write_id_def validate_source_def require_def to_reopen_def demo_item_def fold_add_def)
  have "\<forall>rec. se_to_string demo_env rec \<noteq> None" by (simp add: demo_env_def split: option.split)
  from refusal_leaves_no_trace [OF this demo_lone(2) r] r show ?thesis by (simp add: demo_disk)
qed


lemma append_op_total:
  assumes "io_quiet st" "se_to_string w (record_of op actor source now) \<noteq> None"
    and "bt_get (st_items st) (op_item_id op) \<noteq> None"
  shows "\<exists>it st'. append_op w op actor source now st = (Inr it, st') \<and> io_quiet st'"
proof -
  obtain r st' where a: "append_op w op actor source now st = (r, st')" by fastforce
  have "\<not> (\<exists>e. r = Inl e)"
  proof
    assume "\<exists>e. r = Inl e"
    with a append_refused [OF _ assms(2)] assms(3) have "r = Inl IoError" by auto
    with a show False
      using next_io_calm [OF assms(1)] assms(2)
      by (auto simp: append_op_def write_all_def record_of_def Let_def split: option.splits)
  qed
  moreover have "io_quiet st'"
    by (rule io_quiet_drop [OF assms(1), of _ "if st_io st' = st_io st then 0 else 1"])
      (use a next_io_calm [OF assms(1)] in \<open>auto simp: append_op_def write_all_def Let_def
        split: option.splits if_splits\<close>)
  ultimately show ?thesis using a by (cases r) auto
qed

definition demo_start :: start_spec where
  "demo_start = \<lparr> sn_goal = Some ''go'', sn_project_root = Some ''/p'', sn_interactive = None,
     sn_agent_config = None \<rparr>"

theorem start_now_arms_minted_witness:
  "\<exists>it' st' e. start_now demo_env ''0'' demo_start None 7 demo_store = (Inr it', st')
     \<and> it_effects it' = [e] \<and> ef_approval e \<noteq> None \<and> mf_fire_at_ms (ef_manifest e) = 7"
proof -
  let ?eid = "session_effect_id (ie_sha (se_intake demo_env)) demo_item ''0'' 7"
  have it: "bt_get (st_items demo_store) ''0'' = Some demo_item" by (simp add: demo_items)
  have plain: "standing_effect demo_item = None" "it_status demo_item = Open"
    by (simp_all add: standing_effect_def demo_item_def fold_add_def)
  have total: "se_to_string demo_env rec \<noteq> None" for rec by (simp add: demo_env_def split: option.split)
  have "trim ''go'' = ''go''" by code_simp
  then obtain goal where goal: "start_goal demo_item (Some ''go'') True = Inr goal"
    by (simp add: start_goal_def Let_def max_body_bytes_def)
  let ?mf = "start_manifest goal demo_start True 7"
  have two: "start_now demo_env ''0'' demo_start None 7 demo_store
      = then_run (append_op demo_env (OpProposeEffect ''0'' ?eid ?mf) None None 7 demo_store)
         (\<lambda>_. append_op demo_env (OpApproveEffect ''0'' ?eid (env_dig demo_env ''0'' ?eid ?mf)) None None 7)"
    using it plain goal
    by (simp add: start_now_def require_def check_then_def present_config_def demo_start_def Let_def)
  have live: "bt_get (st_items demo_store) (op_item_id (OpProposeEffect ''0'' ?eid ?mf)) \<noteq> None" using it by simp
  from append_op_total [OF demo_converged(2) total live] obtain it1 st1 where
    a: "append_op demo_env (OpProposeEffect ''0'' ?eid ?mf) None None 7 demo_store = (Inr it1, st1)" "io_quiet st1"
    by blast
  have "bt_get (st_items st1) (op_item_id (OpApproveEffect ''0'' ?eid d)) \<noteq> None" for d
    using append_op_item [OF a(1)] by simp
  then obtain it' st' where "append_op demo_env (OpApproveEffect ''0'' ?eid (env_dig demo_env ''0'' ?eid ?mf))
      None None 7 st1 = (Inr it', st')"
    using append_op_total [OF a(2) total] by blast
  then have
    run: "start_now demo_env ''0'' demo_start None 7 demo_store = (Inr it', st')"
    using a(1) two by (auto simp: then_run_def)
  from start_now_arms_minted [OF demo_rails it plain(1) run] run show ?thesis
    by (auto simp: start_manifest_def)
qed

text \<open>A proposed effect that has not run, and the attestation of a run it never had.\<close>

theorem superseded_attest_diverges_witness:
  "let st = snd (open_store demo_env [CHR ''a'', newline, CHR ''d'', newline] []);
       st' = snd (append_op demo_env (OpAttest ''0'' ''e'' ''o'' Achieved None []) None None 5 st)
   in bt_get (st_item_seqs st') ''0'' = Some 2
      \<and> bt_get (fo_item_seqs (fold_bytes demo_env (st_disk st'))) ''0'' = Some 1"
proof -
  define st where "st = snd (open_store demo_env [CHR ''a'', newline, CHR ''d'', newline] [])"
  let ?op = "OpAttest ''0'' ''e'' ''o'' Achieved None []"
  have st: "converged demo_env st" "io_quiet st"
    using open_converges [of demo_env "[CHR ''a'', newline, CHR ''d'', newline]"] by (auto simp: st_def)
  define F where "F = fold_bytes demo_env [CHR ''a'', newline, CHR ''d'', newline]"
  have l: "lines [CHR ''a'', newline, CHR ''d'', newline] = [''a'', ''d'']"
    "terminated [CHR ''a'', newline, CHR ''d'', newline] = [CHR ''a'', newline, CHR ''d'', newline]"
    "trim ''d'' = ''d''"
    "parse_record demo_env ''d'' = Inr (rec_of (OpProposeEffect ''0'' ''e'' demo_manifest))" by code_simp+
  have "derived st = F"
    using st(1) open_converges [of demo_env "[CHR ''a'', newline, CHR ''d'', newline]"] l(2)
    by (auto simp: converged_def st_def F_def)
  then have F: "st_items st = fo_items F" "st_log_lines st = fo_lines F" "st_item_seqs st = fo_item_seqs F"
    by (auto simp: derived_def)
  have val: "(\<exists>it e. bt_get (fo_items F) ''0'' = Some it \<and> it_effects it = [e] \<and> ef_effect_id e = ''e''
      \<and> ef_last_run e = None) \<and> fo_lines F = 2 \<and> bt_get (fo_item_seqs F) ''0'' = Some 1"
    unfolding F_def fold_bytes_def l(1)
    by (simp add: fold_line_def demo_codes l(3,4) Let_def demo_simps empty_fold_def)
  then obtain it e where it: "bt_get (st_items st) ''0'' = Some it" "it_effects it = [e]"
    "ef_effect_id e = ''e''" "ef_last_run e = None" using F(1) by auto
  have n: "st_log_lines st = 2" "bt_get (st_item_seqs st) ''0'' = Some 1" using val F by simp_all
  have cmd: "command_to_op demo_intake (st_items st) 5 (CmdAttest ''0'' ''o'' Achieved None [] None) = Inr ?op"
    using it by (simp add: require_def to_attest_def validate_attestation_refs_def)
  have enc: "encodes demo_env (record_of ?op None None 5) ''e''"
  proof -
    have "trim ''e'' = ''e''" "parse_record demo_env ''e'' = Inr (rec_of ?op)" by code_simp+
    then show ?thesis
      by (simp add: encodes_def demo_record newline_def) (simp add: demo_env_def demo_codec_def rec_of_def)
  qed
  have ne: "map_option rn_occurrence_id (ef_last_run e) \<noteq> Some ''o''" using it(4) by simp
  show ?thesis
    using superseded_attest_diverges [OF st it(1,2) ne cmd enc] n
    unfolding st_def [symmetric] Let_def by metis
qed

end
