(* ===== verification/ReminderPolicy.thy ===== *)
theory ReminderPolicy
  imports AgendaJournal
begin

text \<open>
  The owner's delivery policy for reminders (\<open>reminders.rs\<close>): urgency, quiet hours in minutes of
  the local day, the merge patch of the policy route and the policy file. The JSON codec of the
  file is an argument. What is proved: the end of a quiet window is the first minute outside it,
  and its arithmetic never leaves sixteen bits.
\<close>

section \<open>Urgency and quiet hours\<close>

datatype notification_urgency = NotifyInfo | NotifyAttention | NotifyUrgent

fun as_notification :: "reminder_urgency \<Rightarrow> notification_urgency option" where
  "as_notification MuteUrgency = None"
| "as_notification InfoUrgency = Some NotifyInfo"
| "as_notification AttentionUrgency = Some NotifyAttention"
| "as_notification UrgentUrgency = Some NotifyUrgent"

record quiet_hours =
  qh_start_min :: u16
  qh_end_min :: u16

definition quiet_contains :: "quiet_hours \<Rightarrow> u16 \<Rightarrow> bool" where
  "quiet_contains q minute =
    (if qh_start_min q = qh_end_min q then False
     else if qh_start_min q < qh_end_min q then qh_start_min q \<le> minute \<and> minute < qh_end_min q
     else qh_start_min q \<le> minute \<or> minute < qh_end_min q)"

definition quiet_minutes_left :: "quiet_hours \<Rightarrow> u16 \<Rightarrow> u16" where
  "quiet_minutes_left q now = (if now < qh_end_min q then qh_end_min q - now
     else (24 * 60 - now) + qh_end_min q)"

definition ms_until_end :: "quiet_hours \<Rightarrow> u16 \<Rightarrow> u64 option" where
  "ms_until_end q now = (if \<not> quiet_contains q now then None
     else Some (ucast (quiet_minutes_left q now) * 60000))"

section \<open>The policy\<close>

record reminder_policy =
  rp_enabled :: bool
  rp_quiet_hours :: "quiet_hours option"
  rp_default_urgency :: reminder_urgency
  rp_staleness_hours :: u32
  rp_item_urgency :: "reminder_urgency btree"

definition default_policy :: reminder_policy where
  "default_policy = \<lparr> rp_enabled = True, rp_quiet_hours = None, rp_default_urgency = AttentionUrgency,
     rp_staleness_hours = 12, rp_item_urgency = [] \<rparr>"

definition urgency_for :: "reminder_policy \<Rightarrow> string \<Rightarrow> reminder_urgency" where
  "urgency_for p i = (case bt_get (rp_item_urgency p) i of None \<Rightarrow> rp_default_urgency p | Some u \<Rightarrow> u)"

definition staleness_ms :: "reminder_policy \<Rightarrow> u64" where
  "staleness_ms p = ucast (rp_staleness_hours p) * 3600000"

record reminder_policy_patch =
  pp_enabled :: "bool option"
  pp_quiet_hours :: "quiet_hours option option"
  pp_default_urgency :: "reminder_urgency option"
  pp_staleness_hours :: "u32 option"
  pp_item_urgency :: "reminder_urgency option btree option"

definition policy_patch_is_empty :: "reminder_policy_patch \<Rightarrow> bool" where
  "policy_patch_is_empty pp = (pp_enabled pp = None \<and> pp_quiet_hours pp = None
     \<and> pp_default_urgency pp = None \<and> pp_staleness_hours pp = None \<and> pp_item_urgency pp = None)"

definition merge_urgency :: "reminder_urgency btree \<Rightarrow> string \<times> reminder_urgency option
    \<Rightarrow> reminder_urgency btree" where
  "merge_urgency m e = (case e of (i, Some u) \<Rightarrow> bt_put i u m | (i, None) \<Rightarrow> bt_remove i m)"

definition apply_policy_patch :: "reminder_policy_patch \<Rightarrow> reminder_policy \<Rightarrow> reminder_policy" where
  "apply_policy_patch pp p =
    (let p1 = (case pp_enabled pp of None \<Rightarrow> p | Some b \<Rightarrow> p\<lparr>rp_enabled := b\<rparr>);
         p2 = (case pp_quiet_hours pp of None \<Rightarrow> p1 | Some q \<Rightarrow> p1\<lparr>rp_quiet_hours := q\<rparr>);
         p3 = (case pp_default_urgency pp of None \<Rightarrow> p2 | Some u \<Rightarrow> p2\<lparr>rp_default_urgency := u\<rparr>);
         p4 = (case pp_staleness_hours pp of None \<Rightarrow> p3
           | Some h \<Rightarrow> p3\<lparr>rp_staleness_hours := min (24 * 14) (max 1 h)\<rparr>)
     in case pp_item_urgency pp of None \<Rightarrow> p4
        | Some es \<Rightarrow> p4\<lparr>rp_item_urgency := foldl merge_urgency (rp_item_urgency p4) es\<rparr>)"

section \<open>The policy file\<close>

datatype policy_read = PolicyText string | PolicyAbsent | PolicyUnreadable

datatype policy_fault = DirFault | WriteFault | RenameFault

record policy_store =
  ps_file :: policy_read
  ps_policy :: reminder_policy

definition open_policy :: "(string \<Rightarrow> reminder_policy option) \<Rightarrow> policy_read \<Rightarrow> policy_store" where
  "open_policy parse f = \<lparr> ps_file = f, ps_policy = (case f of
       PolicyText t \<Rightarrow> (case parse t of None \<Rightarrow> default_policy | Some p \<Rightarrow> p)
     | PolicyAbsent \<Rightarrow> default_policy
     | PolicyUnreadable \<Rightarrow> default_policy) \<rparr>"

definition update_policy :: "(reminder_policy \<Rightarrow> string option) \<Rightarrow> policy_fault option
    \<Rightarrow> reminder_policy_patch \<Rightarrow> policy_store \<Rightarrow> (io_error + reminder_policy) \<times> policy_store" where
  "update_policy encode fault patch ps =
    (let p = apply_policy_patch patch (ps_policy ps); ps1 = ps\<lparr>ps_policy := p\<rparr>
     in if fault = Some DirFault then (Inl IoFailed, ps1)
        else case encode p of
          None \<Rightarrow> (Inl EncodeFailed, ps1)
        | Some t \<Rightarrow> if fault \<noteq> None then (Inl IoFailed, ps1)
            else (Inr p, ps1\<lparr>ps_file := PolicyText t\<rparr>))"

section \<open>The end of a quiet window\<close>

lemma unat_widen:
  assumes "LENGTH('a::len) \<le> 64"
  shows "unat (ucast (x :: 'a word) :: u64) = unat x"
proof -
  have "unat x < 2 ^ LENGTH('a)" by (rule unsigned_less)
  also have "(2 :: nat) ^ LENGTH('a) \<le> 2 ^ 64" using assms by (intro power_increasing) auto
  finally show ?thesis by (simp add: unsigned_ucast_eq take_bit_nat_eq_self)
qed

lemma quiet_left_bound:
  assumes "unat now < 1440" "quiet_contains q now"
  shows "unat (quiet_minutes_left q now) = (if unat now < unat (qh_end_min q)
      then unat (qh_end_min q) - unat now else 1440 - unat now + unat (qh_end_min q))"
proof (cases "now < qh_end_min q")
  case True
  then show ?thesis
    by (simp add: quiet_minutes_left_def word_less_nat_alt unat_sub word_le_nat_alt)
next
  case False
  then have e: "unat (qh_end_min q) \<le> unat now" by (simp add: word_less_nat_alt not_less)
  have "now \<le> 1440" using assms(1) by (simp add: word_le_nat_alt)
  then have "unat (1440 - now) = 1440 - unat now" by (simp add: unat_sub)
  then have "unat (1440 - now + qh_end_min q) = 1440 - unat now + unat (qh_end_min q)"
    using e assms(1) by (simp add: unat_word_ariths)
  then show ?thesis using False by (simp add: quiet_minutes_left_def word_less_nat_alt)
qed

definition in_window :: "nat \<Rightarrow> nat \<Rightarrow> nat \<Rightarrow> bool" where
  "in_window s e m = (s \<noteq> e \<and> (if s < e then s \<le> m \<and> m < e else s \<le> m \<or> m < e))"

lemma quiet_contains_nat:
  "quiet_contains q m = in_window (unat (qh_start_min q)) (unat (qh_end_min q)) (unat m)"
  by (auto simp: quiet_contains_def in_window_def word_less_nat_alt word_le_nat_alt
      word_eq_iff_unsigned [where 'a = nat])

lemma quiet_contains_day:
  "quiet_contains q (of_nat (m mod 1440))
    = in_window (unat (qh_start_min q)) (unat (qh_end_min q)) (m mod 1440)"
proof -
  have "m mod 1440 < 2 ^ 16" using mod_less_divisor [of 1440 m] by simp
  then show ?thesis by (simp add: quiet_contains_nat unsigned_of_nat take_bit_nat_eq_self)
qed

text \<open>
  Inside a quiet window the deferral ends at the first minute of the local day outside it,
  across midnight included, at most a day away, and no step of the sixteen-bit arithmetic
  wraps, whatever start the owner stored.
\<close>

theorem quiet_end_exact:
  assumes "ms_until_end q now = Some ms" and "unat now < 1440" and "unat (qh_end_min q) < 1440"
  shows "\<exists>k. unat ms = k * 60000 \<and> 0 < k \<and> k \<le> 1440
    \<and> \<not> quiet_contains q (of_nat ((unat now + k) mod 1440))
    \<and> (\<forall>i<k. quiet_contains q (of_nat ((unat now + i) mod 1440)))"
proof -
  let ?n = "unat now" and ?e = "unat (qh_end_min q)" and ?s = "unat (qh_start_min q)"
  let ?k = "unat (quiet_minutes_left q now)"
  have c: "quiet_contains q now" and ms: "ms = ucast (quiet_minutes_left q now) * 60000"
    using assms(1) by (auto simp: ms_until_end_def split: if_splits)
  have k: "?k = (if ?n < ?e then ?e - ?n else 1440 - ?n + ?e)"
    by (rule quiet_left_bound [OF assms(2) c])
  have k_le: "0 < ?k" "?k \<le> 1440" using k assms(2,3) by (auto split: if_splits)
  have "unat ms = ?k * 60000"
    using k_le(2) by (simp add: ms unat_word_ariths unat_widen)
  moreover have end_: "(?n + ?k) mod 1440 = ?e"
    using k assms(2,3) by (auto split: if_splits)
  have w: "in_window ?s ?e ?n" using c by (simp add: quiet_contains_nat)
  have "\<not> quiet_contains q (of_nat ((?n + ?k) mod 1440))"
    using w quiet_contains_day [of q "?n + ?k", unfolded end_]
    by (simp only: end_) (auto simp: in_window_def split: if_splits)
  moreover have "quiet_contains q (of_nat ((?n + i) mod 1440))" if "i < ?k" for i
  proof (cases "?n + i < 1440")
    case True
    then show ?thesis
      unfolding quiet_contains_day using w that k by (auto simp: in_window_def split: if_splits)
  next
    case False
    then have lt: "1440 \<le> ?n + i" "?n + i - 1440 < ?e" "?e \<le> ?n"
      using that k assms(2,3) by (auto split: if_splits)
    then have "(?n + i) mod 1440 = ?n + i - 1440"
      using assms(3) by (simp add: le_mod_geq)
    with lt show ?thesis
      unfolding quiet_contains_day using w by (auto simp: in_window_def split: if_splits)
  qed
  ultimately show ?thesis using k_le by blast
qed

theorem quiet_end_exact_witness:
  "\<exists>k. unat (36000000 :: u64) = k * 60000 \<and> 0 < k \<and> k \<le> 1440
    \<and> \<not> quiet_contains \<lparr> qh_start_min = 1320, qh_end_min = 480 \<rparr> (of_nat ((unat (1320 :: u16) + k) mod 1440))
    \<and> (\<forall>i<k. quiet_contains \<lparr> qh_start_min = 1320, qh_end_min = 480 \<rparr>
          (of_nat ((unat (1320 :: u16) + i) mod 1440)))"
proof -
  have "ms_until_end \<lparr> qh_start_min = 1320, qh_end_min = 480 \<rparr> 1320 = Some 36000000" by code_simp
  from quiet_end_exact [OF this] show ?thesis by simp
qed

lemma quiet_defers: "ms_until_end q now \<noteq> None \<longleftrightarrow> quiet_contains q now"
  by (simp add: ms_until_end_def)

text \<open>A stored update is the policy a restart reads back; its hours are between one and two weeks.\<close>

lemma policy_update_stored:
  assumes "update_policy encode None patch ps = (Inr p, ps')"
    and "\<And>t. encode p = Some t \<Longrightarrow> parse t = Some p"
  shows "ps_policy (open_policy parse (ps_file ps')) = p \<and> ps_policy ps' = p"
  using assms by (auto simp: update_policy_def open_policy_def Let_def split: option.splits)

lemma staleness_exact: "unat (staleness_ms p) = unat (rp_staleness_hours p) * 3600000"
proof -
  have "unat (rp_staleness_hours p) < 2 ^ 32" using unsigned_less [of "rp_staleness_hours p"] by simp
  then show ?thesis by (simp add: staleness_ms_def unat_word_ariths unat_widen)
qed

text \<open>
  A policy update that fails to reach the file is in force all the same: the route answers
  with an error, the daemon delivers by the patched policy, and a restart silently undoes it.
\<close>

theorem policy_update_diverges:
  assumes "fault \<noteq> None" and "ps = open_policy parse f"
  shows "\<exists>e ps'. update_policy encode fault patch ps = (Inl e, ps')
    \<and> ps_policy ps' = apply_policy_patch patch (ps_policy ps)
    \<and> ps_policy (open_policy parse (ps_file ps')) = ps_policy ps"
  using assms by (auto simp: update_policy_def open_policy_def Let_def split: option.splits)

theorem policy_update_diverges_witness:
  "\<exists>e ps'. update_policy (\<lambda>_. Some []) (Some WriteFault)
      \<lparr> pp_enabled = Some False, pp_quiet_hours = None, pp_default_urgency = None,
        pp_staleness_hours = None, pp_item_urgency = None \<rparr>
      (open_policy (\<lambda>_. None) PolicyAbsent) = (Inl e, ps')
    \<and> \<not> rp_enabled (ps_policy ps')
    \<and> rp_enabled (ps_policy (open_policy (\<lambda>_. None) (ps_file ps')))"
proof -
  have "apply_policy_patch \<lparr> pp_enabled = Some False, pp_quiet_hours = None, pp_default_urgency = None,
      pp_staleness_hours = None, pp_item_urgency = None \<rparr> p = p\<lparr>rp_enabled := False\<rparr>" for p
    by (simp add: apply_policy_patch_def)
  moreover have "ps_policy (open_policy (\<lambda>_. None) PolicyAbsent) = default_policy"
    by (simp add: open_policy_def)
  moreover have "rp_enabled default_policy" by (simp add: default_policy_def)
  ultimately show ?thesis
    using policy_update_diverges [of "Some WriteFault" "open_policy (\<lambda>_. None) PolicyAbsent"
        "\<lambda>_. None" PolicyAbsent "\<lambda>_. Some []"] by fastforce
qed

end
