(* ===== verification/AgendaPlanner.thy ===== *)
theory AgendaPlanner
  imports AgendaApply ReminderPolicy
begin

text \<open>
  The pure planner of the agenda (\<open>reminders.rs\<close>): the identity of an occurrence, the series and
  trigger derivations, the plan of one pass and its mirror for display. The clock, the quiet
  window and what the process has in flight are arguments; SHA-256 is \<open>sha\<close>. Times are \<open>u64\<close>
  milliseconds; where the code adds without saturating the sum wraps, as in a release build.
\<close>

section \<open>Identity\<close>

definition session_occurrence_id :: "(string \<Rightarrow> string) \<Rightarrow> string \<Rightarrow> string \<Rightarrow> string \<Rightarrow> u64 \<Rightarrow> u32 \<Rightarrow> string" where
  "session_occurrence_id sha i eid digest identity attempt =
     hex_string (take 16 (sha (''session'' @ [CHR 0x00] @ i @ [CHR 0x00] @ eid @ [CHR 0x00] @ digest
       @ [CHR 0x00] @ dec_string (unat identity)
       @ (if 0 < attempt then [CHR 0x00] @ ''retry'' @ [CHR 0x00] @ dec_string (unat attempt) else []))))"

definition max_session_name_chars :: nat where "max_session_name_chars = 180"

definition normalize_session_name :: "string \<Rightarrow> string + string" where
  "normalize_session_name raw = (let name = join_with '' '' (split_whitespace raw) in
     if name = [] then Inl ''session name cannot be empty''
     else if chars_count name \<le> max_session_name_chars then Inr name
     else Inr (take_chars (max_session_name_chars - 3) name @ ''...''))"

definition find_item :: "string \<Rightarrow> agenda_item list \<Rightarrow> agenda_item option" where
  "find_item i items = find (\<lambda>it. it_id it = i) items"

definition derive_spawn_session_name :: "agenda_item \<Rightarrow> trigger_spec option \<Rightarrow> agenda_item list \<Rightarrow> string option" where
  "derive_spawn_session_name it trigger items =
    (let workflow_node = (case trigger of
           Some OnUnblock \<Rightarrow> Option.bind (it_part_of it) (\<lambda>pl.
             map_option (\<lambda>wf. it_title wf @ '' - '' @ it_title it) (find_item (pl_parent_id pl) items))
         | _ \<Rightarrow> None);
         raw = (case workflow_node of None \<Rightarrow> it_title it | Some n \<Rightarrow> n)
     in case normalize_session_name raw of Inl _ \<Rightarrow> None | Inr n \<Rightarrow> Some n)"

section \<open>The attempts of a triggered cause\<close>

definition max_cause_regenerations :: nat where "max_cause_regenerations = 3"

fun walk_attempts :: "(u32 \<Rightarrow> string) \<Rightarrow> occurrence_journal \<Rightarrow> u32 list
    \<Rightarrow> (string \<times> u32 \<times> occurrence_progress) option" where
  "walk_attempts occ j [] = None"
| "walk_attempts occ j (a # as) = (let p = journal_progress j (occ a) in
     case oc_terminal p of
       Some t \<Rightarrow> if t = Failed \<or> t = Unknown then walk_attempts occ j as else None
     | None \<Rightarrow> if oc_started p \<noteq> None then None else Some (occ a, a, p))"

definition walk_cause_attempts :: "(string \<Rightarrow> string) \<Rightarrow> occurrence_journal \<Rightarrow> string \<Rightarrow> string \<Rightarrow> string
    \<Rightarrow> u64 \<Rightarrow> (string \<times> u32 \<times> occurrence_progress) option" where
  "walk_cause_attempts sha j i eid digest cause =
     walk_attempts (session_occurrence_id sha i eid digest cause) j
       (map of_nat [0..<max_cause_regenerations])"

section \<open>Triggers\<close>

definition trigger_batch_window_ms :: u64 where "trigger_batch_window_ms = 60 * 1000"
definition trigger_cooldown_ms :: u64 where "trigger_cooldown_ms = recurrence_min_every_ms"
definition trigger_consumed_source :: string where "trigger_consumed_source = ''trigger-evaluator''"
definition trigger_consumed_prefix :: string where "trigger_consumed_prefix = ''trigger-consumed ''"

record trigger_due_at =
  td_due_ms :: u64
  td_cause_ms :: u64
  td_matched_item_ids :: "string list"

definition arm_floor :: "agenda_effect \<Rightarrow> u64 \<Rightarrow> u64" where
  "arm_floor ef approval_at = max (mf_fire_at_ms (ef_manifest ef)) approval_at"

definition cooldown_floor :: "agenda_effect \<Rightarrow> u64 option" where
  "cooldown_floor ef = Option.bind (ef_last_run ef) (\<lambda>run.
     if rn_state run \<in> {''completed'', ''failed'', ''missed'', ''unknown''}
     then Some (sat_add (rn_at_ms run) trigger_cooldown_ms) else None)"

definition trigger_floored_due :: "agenda_effect \<Rightarrow> u64 \<Rightarrow> u64 \<Rightarrow> u64" where
  "trigger_floored_due ef approval_at cause =
    (case cooldown_floor ef of
       None \<Rightarrow> max cause (arm_floor ef approval_at)
     | Some cd \<Rightarrow> max (max cause (arm_floor ef approval_at)) cd)"

definition consumed_note :: "agenda_annotation \<Rightarrow> bool" where
  "consumed_note note = (at_kind note = Some ''daemon'' \<and> so_source note = Some trigger_consumed_source)"

definition trigger_consumed :: "agenda_item \<Rightarrow> string \<Rightarrow> bool" where
  "trigger_consumed it eid = list_ex (\<lambda>note. consumed_note note
     \<and> starts_with (an_text note) (trigger_consumed_prefix @ ''effect='' @ eid @ '' '')) (it_annotations it)"

definition parse_marker :: "string \<Rightarrow> (string \<times> string) option" where
  "parse_marker msg = Option.bind (strip_prefix trigger_consumed_prefix msg) (\<lambda>rest.
     case split_whitespace rest of
       a # b # _ \<Rightarrow> Option.bind (strip_prefix ''effect='' a) (\<lambda>eid.
         map_option (\<lambda>occ. (eid, occ)) (strip_prefix ''occurrence='' b))
     | _ \<Rightarrow> None)"

definition trigger_consumed_markers :: "agenda_item \<Rightarrow> (string \<times> string) list" where
  "trigger_consumed_markers it =
     concat (map (\<lambda>note. if consumed_note note then opt_list (parse_marker (an_text note)) else [])
       (it_annotations it))"

text \<open>When every prerequisite is done: the latest completion, or nothing.\<close>

fun unblock_cause :: "agenda_item list \<Rightarrow> agenda_dependency list \<Rightarrow> u64 \<Rightarrow> u64 option" where
  "unblock_cause items [] cause = Some cause"
| "unblock_cause items (d # ds) cause = (case find_item (dp_target_id d) items of
     None \<Rightarrow> None
   | Some t \<Rightarrow> if it_status t \<noteq> Done then None
       else unblock_cause items ds
         (max cause (case it_completed_ms t of None \<Rightarrow> it_updated_ms t | Some c \<Rightarrow> c)))"

definition trigger_matches :: "agenda_item \<Rightarrow> agenda_effect \<Rightarrow> agenda_kind \<Rightarrow> string list \<Rightarrow> u64
    \<Rightarrow> string list \<Rightarrow> agenda_item \<Rightarrow> bool" where
  "trigger_matches it ef kind tags arm started c =
    (it_id c \<noteq> it_id it \<and> it_status c = Open \<and> it_kind c = kind
     \<and> arm < pv_created_ms (it_provenance c)
     \<and> list_all (\<lambda>t. t \<in> set (it_tags c)) tags
     \<and> (case at_session_id (it_provenance c) of None \<Rightarrow> True | Some s \<Rightarrow> s \<notin> set started)
     \<and> \<not> trigger_consumed c (ef_effect_id ef))"

definition latest_arrival :: "agenda_item list \<Rightarrow> u64" where
  "latest_arrival cs = foldl (\<lambda>m c. max m (pv_created_ms (it_provenance c))) 0 cs"

text \<open>The batch due: a window after its latest arrival, named by that arrival.\<close>

definition batch_due :: "agenda_effect \<Rightarrow> u64 \<Rightarrow> agenda_item list \<Rightarrow> trigger_due_at option" where
  "batch_due ef approval_at cs = (if cs = [] then None else
     Some \<lparr> td_due_ms = trigger_floored_due ef approval_at (sat_add (latest_arrival cs) trigger_batch_window_ms),
       td_cause_ms = latest_arrival cs, td_matched_item_ids = map it_id cs \<rparr>)"

definition trigger_due :: "agenda_item list \<Rightarrow> agenda_item \<Rightarrow> agenda_effect \<Rightarrow> trigger_spec \<Rightarrow> u64
    \<Rightarrow> string list \<Rightarrow> trigger_due_at option" where
  "trigger_due items it ef trigger approval_at started = (case trigger of
     OnUnblock \<Rightarrow> map_option (\<lambda>cause. \<lparr> td_due_ms = trigger_floored_due ef approval_at cause,
         td_cause_ms = cause, td_matched_item_ids = [] \<rparr>) (unblock_cause items (it_relies_on it) 0)
   | OnItemMatch kind tags \<Rightarrow> batch_due ef approval_at
       (filter (trigger_matches it ef kind tags (arm_floor ef approval_at) started) items))"

definition consumed_by :: "string \<Rightarrow> string \<Rightarrow> agenda_item \<Rightarrow> bool" where
  "consumed_by eid occ c = ((eid, occ) \<in> set (trigger_consumed_markers c))"

definition on_item_match_retry_due :: "agenda_item list \<Rightarrow> agenda_effect \<Rightarrow> u64 \<Rightarrow> trigger_due_at option" where
  "on_item_match_retry_due items ef approval_at =
    (case mf_trigger (ef_manifest ef) of
       Some (OnItemMatch _ _) \<Rightarrow> Option.bind (ef_last_run ef) (\<lambda>run.
         if rn_state run \<notin> {''failed'', ''unknown''} then None
         else batch_due ef approval_at (filter (consumed_by (ef_effect_id ef) (rn_occurrence_id run)) items))
     | _ \<Rightarrow> None)"

text \<open>What is due of a trigger: the live derivation, or else the retry.\<close>

definition live_or_retry :: "agenda_item list \<Rightarrow> occurrence_journal \<Rightarrow> agenda_item \<Rightarrow> agenda_effect
    \<Rightarrow> trigger_spec \<Rightarrow> u64 \<Rightarrow> trigger_due_at option" where
  "live_or_retry items j it ef trigger approval_at =
    (case trigger_due items it ef trigger approval_at (started_sessions_for_item j (it_id it)) of
       Some d \<Rightarrow> Some d
     | None \<Rightarrow> on_item_match_retry_due items ef approval_at)"

section \<open>Series\<close>

record series_at =
  sr_due :: "u64 option"
  sr_upcoming :: "u64 option"

definition series_every :: "recurrence_spec \<Rightarrow> u64" where
  "series_every rec = max (rc_every_ms rec) 1"

definition series_last :: "u64 \<Rightarrow> recurrence_spec \<Rightarrow> u64 option" where
  "series_last fire rec =
    (let by_count = map_option (\<lambda>m. sat_sub (ucast m) 1) (rc_max_occurrences rec);
         by_time = map_option (\<lambda>u. sat_sub u fire div series_every rec) (rc_until_ms rec)
     in case (by_count, by_time) of
       (Some a, Some b) \<Rightarrow> Some (min a b)
     | (Some a, None) \<Rightarrow> Some a
     | (None, b) \<Rightarrow> b)"

definition series_instants :: "u64 \<Rightarrow> recurrence_spec \<Rightarrow> u64 \<Rightarrow> series_at" where
  "series_instants fire rec now =
    (let every = series_every rec; k_last = series_last fire rec in
     if now < fire then \<lparr> sr_due = None, sr_upcoming = Some fire \<rparr>
     else let k_now = (now - fire) div every;
              k_due = (case k_last of None \<Rightarrow> k_now | Some l \<Rightarrow> min k_now l);
              k_next = k_due + 1
          in \<lparr> sr_due = Some (fire + k_due * every),
               sr_upcoming = (if (case k_last of None \<Rightarrow> True | Some l \<Rightarrow> k_next \<le> l) \<and> k_due = k_now
                 then Some (fire + k_next * every) else None) \<rparr>)"

section \<open>The plan\<close>

record due_occurrence =
  du_occurrence_id :: string
  du_item_id :: string
  du_title :: string
  du_due_ms :: u64
  du_urgency :: reminder_urgency

record spawn_occurrence =
  sw_occurrence_id :: string
  sw_item_id :: string
  sw_effect_id :: string
  sw_goal :: string
  sw_orchestrate :: bool
  sw_fire_at_ms :: u64
  sw_approved_at_ms :: u64
  sw_recurring :: bool
  sw_interactive :: bool
  sw_attempt :: u32
  sw_project_root :: "string option"
  sw_agent_config :: "agent_launch_config option"
  sw_provenance_session_id :: "string option"
  sw_matched_item_ids :: "string list"
  sw_binding_refs :: "binding_ref list"
  sw_session_name :: "string option"

record agenda_plan =
  pn_deliver :: "due_occurrence list"
  pn_digest :: "due_occurrence list"
  pn_spawn :: "spawn_occurrence list"
  pn_missed_sessions :: "spawn_occurrence list"
  pn_crashed :: "spawn_occurrence list"
  pn_next_wake_ms :: "u64 option"

definition empty_plan :: agenda_plan where
  "empty_plan = \<lparr> pn_deliver = [], pn_digest = [], pn_spawn = [], pn_missed_sessions = [],
     pn_crashed = [], pn_next_wake_ms = None \<rparr>"

definition min_wake :: "u64 option \<Rightarrow> u64 \<Rightarrow> u64 option" where
  "min_wake w u = Some (case w of None \<Rightarrow> u | Some c \<Rightarrow> min c u)"

definition consider_wake :: "u64 \<Rightarrow> agenda_plan \<Rightarrow> agenda_plan" where
  "consider_wake u p = p\<lparr>pn_next_wake_ms := min_wake (pn_next_wake_ms p) u\<rparr>"

record plan_candidate =
  pc_fire_ms :: u64
  pc_identity_ms :: u64
  pc_recurring :: bool
  pc_walk :: bool
  pc_batch :: "string list"

definition attempt_zero :: "u64 \<Rightarrow> u64 \<Rightarrow> bool \<Rightarrow> plan_candidate" where
  "attempt_zero fire identity recurring = \<lparr> pc_fire_ms = fire, pc_identity_ms = identity,
     pc_recurring = recurring, pc_walk = False, pc_batch = [] \<rparr>"

record plan_env =
  pe_sha :: "string \<Rightarrow> string"
  pe_items :: "agenda_item list"
  pe_journal :: occurrence_journal
  pe_policy :: reminder_policy
  pe_now :: u64
  pe_quiet_until :: "u64 option"
  pe_flight :: "string list"
  pe_flight_effects :: "string list"

text \<open>The candidate instants of one approved effect, and the future instant of its series.\<close>

definition effect_candidates :: "plan_env \<Rightarrow> agenda_item \<Rightarrow> agenda_effect \<Rightarrow> agenda_approval
    \<Rightarrow> plan_candidate list \<times> u64 option" where
  "effect_candidates pe it ef ap =
    (let fire = mf_fire_at_ms (ef_manifest ef);
         requested = map (\<lambda>r. attempt_zero (rq_at_ms r) (rq_at_ms r) True) (ef_requested ef)
     in case mf_trigger (ef_manifest ef) of
       Some trig \<Rightarrow>
         (map (\<lambda>d. \<lparr> pc_fire_ms = td_due_ms d, pc_identity_ms = td_cause_ms d, pc_recurring = True,
              pc_walk = True, pc_batch = td_matched_item_ids d \<rparr>)
            (opt_list (live_or_retry (pe_items pe) (pe_journal pe) it ef trig (ap_at_ms ap)))
          @ requested, None)
     | None \<Rightarrow> (case mf_recurrence (ef_manifest ef) of
         None \<Rightarrow> ([attempt_zero fire fire False], None)
       | Some rec \<Rightarrow> let si = series_instants fire rec (pe_now pe) in
           (map (\<lambda>due. attempt_zero due due True) (opt_list (sr_due si)) @ requested, sr_upcoming si)))"

definition effect_overlap :: "plan_env \<Rightarrow> agenda_item \<Rightarrow> agenda_effect \<Rightarrow> bool" where
  "effect_overlap pe it ef = (ef_effect_id ef \<in> set (pe_flight_effects pe) \<or> in_flight ef
     \<or> started_unresolved_for_item (pe_journal pe) (it_id it))"

text \<open>The occurrence a candidate stands for, unless it is spent or running.\<close>

definition resolve_candidate :: "(string \<Rightarrow> string) \<Rightarrow> occurrence_journal \<Rightarrow> string \<Rightarrow> agenda_effect
    \<Rightarrow> string \<Rightarrow> bool \<Rightarrow> u64 \<Rightarrow> (string \<times> u32 \<times> occurrence_progress) option" where
  "resolve_candidate sha j i ef digest walk identity =
    (if walk then walk_cause_attempts sha j i (ef_effect_id ef) digest identity
     else let occ = session_occurrence_id sha i (ef_effect_id ef) digest identity 0;
              p = journal_progress j occ
          in if oc_terminal p \<noteq> None \<or> oc_started p \<noteq> None then None else Some (occ, 0, p))"

definition spawn_of :: "plan_env \<Rightarrow> agenda_item \<Rightarrow> agenda_effect \<Rightarrow> agenda_approval \<Rightarrow> plan_candidate
    \<Rightarrow> string \<Rightarrow> u32 \<Rightarrow> spawn_occurrence" where
  "spawn_of pe it ef ap c occ attempt = \<lparr> sw_occurrence_id = occ, sw_item_id = it_id it,
     sw_effect_id = ef_effect_id ef, sw_goal = mf_goal (ef_manifest ef),
     sw_orchestrate = mf_orchestrate (ef_manifest ef), sw_fire_at_ms = pc_fire_ms c,
     sw_approved_at_ms = ap_at_ms ap, sw_recurring = pc_recurring c,
     sw_interactive = mf_interactive (ef_manifest ef), sw_attempt = attempt,
     sw_project_root = mf_project_root (ef_manifest ef),
     sw_agent_config = mf_agent_config (ef_manifest ef),
     sw_provenance_session_id = at_session_id (it_provenance it), sw_matched_item_ids = pc_batch c,
     sw_binding_refs = mf_binding_refs (ef_manifest ef),
     sw_session_name = derive_spawn_session_name it (mf_trigger (ef_manifest ef)) (pe_items pe) \<rparr>"

definition plan_candidate_step :: "plan_env \<Rightarrow> agenda_item \<Rightarrow> agenda_effect \<Rightarrow> agenda_approval \<Rightarrow> bool
    \<Rightarrow> agenda_plan \<Rightarrow> plan_candidate \<Rightarrow> agenda_plan" where
  "plan_candidate_step pe it ef ap overlap p c =
    (case resolve_candidate (pe_sha pe) (pe_journal pe) (it_id it) ef (ap_digest ap) (pc_walk c)
        (pc_identity_ms c) of
       None \<Rightarrow> p
     | Some (occ, attempt, progress) \<Rightarrow>
         if occ \<in> set (pe_flight pe) then p
         else let spawn = spawn_of pe it ef ap c occ attempt in
           if oc_prepared progress then p\<lparr>pn_crashed := pn_crashed p @ [spawn]\<rparr>
           else if pe_now pe < pc_fire_ms c then consider_wake (pc_fire_ms c) p
           else if mf_trigger (ef_manifest ef) = None
               \<and> staleness_ms (pe_policy pe) < sat_sub (pe_now pe) (pc_fire_ms c)
             then p\<lparr>pn_missed_sessions := pn_missed_sessions p @ [spawn]\<rparr>
           else if \<not> overlap then p\<lparr>pn_spawn := pn_spawn p @ [spawn]\<rparr> else p)"

definition plan_effect :: "plan_env \<Rightarrow> agenda_item \<Rightarrow> agenda_plan \<Rightarrow> agenda_effect \<Rightarrow> agenda_plan" where
  "plan_effect pe it p ef = (case ef_approval ef of
     None \<Rightarrow> p
   | Some ap \<Rightarrow> if suspended ef then p
       else let (cs, upcoming) = effect_candidates pe it ef ap;
                p1 = (case upcoming of None \<Rightarrow> p | Some u \<Rightarrow> consider_wake u p)
            in foldl (plan_candidate_step pe it ef ap (effect_overlap pe it ef)) p1 cs)"

definition plan_item :: "plan_env \<Rightarrow> agenda_plan \<Rightarrow> agenda_item \<Rightarrow> agenda_plan" where
  "plan_item pe p it = (if it_status it \<noteq> Open then p else foldl (plan_effect pe it) p (it_effects it))"

definition plan_reminder :: "plan_env \<Rightarrow> agenda_plan \<Rightarrow> agenda_item \<Rightarrow> agenda_plan" where
  "plan_reminder pe p it = (if it_status it \<noteq> Open then p else case it_due_ms it of
     None \<Rightarrow> p
   | Some due \<Rightarrow>
       let occ = occurrence_id (pe_sha pe) (it_id it) due;
           progress = journal_progress (pe_journal pe) occ;
           gate = (case pe_quiet_until pe of None \<Rightarrow> None | Some q \<Rightarrow> if pe_now pe < q then Some q else None)
       in if oc_terminal progress \<noteq> None then p
          else if pe_now pe < due then consider_wake due p
          else case gate of Some q \<Rightarrow> consider_wake q p
          | None \<Rightarrow> let d = \<lparr> du_occurrence_id = occ, du_item_id = it_id it, du_title = it_title it,
                du_due_ms = due, du_urgency = urgency_for (pe_policy pe) (it_id it) \<rparr> in
              if \<not> oc_prepared progress \<and> staleness_ms (pe_policy pe) < sat_sub (pe_now pe) due
              then p\<lparr>pn_digest := pn_digest p @ [d]\<rparr> else p\<lparr>pn_deliver := pn_deliver p @ [d]\<rparr>)"

definition plan :: "plan_env \<Rightarrow> agenda_plan" where
  "plan pe = (let p = foldl (plan_item pe) empty_plan (pe_items pe) in
     if \<not> rp_enabled (pe_policy pe) then p else foldl (plan_reminder pe) p (pe_items pe))"

section \<open>The plan for display\<close>

record effect_planner_view_at =
  ev_next_fire_ms :: "u64 option"
  ev_trigger :: "trigger_due_at option"

definition no_view :: effect_planner_view_at where
  "no_view = \<lparr> ev_next_fire_ms = None, ev_trigger = None \<rparr>"

type_synonym view_candidate = "u64 \<times> u64 \<times> bool"

definition view_candidates :: "agenda_item list \<Rightarrow> occurrence_journal \<Rightarrow> agenda_item \<Rightarrow> agenda_effect
    \<Rightarrow> agenda_approval \<Rightarrow> u64 \<Rightarrow> view_candidate list \<times> u64 option \<times> trigger_due_at option" where
  "view_candidates items j it ef ap now =
    (let fire = mf_fire_at_ms (ef_manifest ef);
         requested = map (\<lambda>r. (rq_at_ms r, rq_at_ms r, False)) (ef_requested ef)
     in case mf_trigger (ef_manifest ef) of
       Some trig \<Rightarrow> let due = live_or_retry items j it ef trig (ap_at_ms ap) in
         (map (\<lambda>d. (td_due_ms d, td_cause_ms d, True)) (opt_list due) @ requested, None, due)
     | None \<Rightarrow> (case mf_recurrence (ef_manifest ef) of
         None \<Rightarrow> ([(fire, fire, False)], None, None)
       | Some rec \<Rightarrow> let si = series_instants fire rec now in
           (map (\<lambda>due. (due, due, False)) (opt_list (sr_due si)) @ requested,
            sr_upcoming si, None)))"

definition view_progress :: "(string \<Rightarrow> string) \<Rightarrow> occurrence_journal \<Rightarrow> string \<Rightarrow> agenda_effect
    \<Rightarrow> string \<Rightarrow> bool \<Rightarrow> u64 \<Rightarrow> occurrence_progress option" where
  "view_progress sha j i ef digest walk identity =
    (if walk then map_option (\<lambda>(_, _, p). p) (walk_cause_attempts sha j i (ef_effect_id ef) digest identity)
     else Some (journal_progress j (session_occurrence_id sha i (ef_effect_id ef) digest identity 0)))"

text \<open>What fires on the next pass, and what comes later.\<close>

definition view_step :: "(string \<Rightarrow> string) \<Rightarrow> occurrence_journal \<Rightarrow> agenda_item \<Rightarrow> agenda_effect
    \<Rightarrow> agenda_approval \<Rightarrow> u64 \<Rightarrow> u64 \<Rightarrow> u64 option \<times> u64 option \<Rightarrow> view_candidate \<Rightarrow> u64 option \<times> u64 option" where
  "view_step sha j it ef ap stale now s c = (case (s, c) of ((fires, upcoming), (instant, identity, walk)) \<Rightarrow>
     (case view_progress sha j (it_id it) ef (ap_digest ap) walk identity of
       None \<Rightarrow> s
     | Some p \<Rightarrow> if oc_terminal p \<noteq> None \<or> oc_started p \<noteq> None \<or> oc_prepared p then s
         else if now < instant then (fires, min_wake upcoming instant)
         else if mf_trigger (ef_manifest ef) \<noteq> None \<or> sat_sub now instant \<le> stale
           then (min_wake fires instant, upcoming)
         else s))"

definition effect_planner_view :: "(string \<Rightarrow> string) \<Rightarrow> agenda_item list \<Rightarrow> agenda_item \<Rightarrow> agenda_effect
    \<Rightarrow> occurrence_journal \<Rightarrow> u64 \<Rightarrow> u64 \<Rightarrow> effect_planner_view_at" where
  "effect_planner_view sha items it ef j stale now = (case ef_approval ef of
     None \<Rightarrow> no_view
   | Some ap \<Rightarrow> if suspended ef then no_view
       else case view_candidates items j it ef ap now of (cs, upcoming, trig) \<Rightarrow>
         (case foldl (view_step sha j it ef ap stale now) (None, upcoming) cs of (fires, later) \<Rightarrow>
           \<lparr> ev_next_fire_ms = (case fires of None \<Rightarrow> later | Some f \<Rightarrow> Some f), ev_trigger = trig \<rparr>))"

definition reminder_deferred_until :: "(string \<Rightarrow> string) \<Rightarrow> agenda_item \<Rightarrow> occurrence_journal
    \<Rightarrow> reminder_policy \<Rightarrow> u64 \<Rightarrow> (u64 \<Rightarrow> u16) \<Rightarrow> u64 option" where
  "reminder_deferred_until sha it j policy now minute_of_day =
    (if \<not> rp_enabled policy \<or> it_status it \<noteq> Open then None
     else Option.bind (it_due_ms it) (\<lambda>due. Option.bind (rp_quiet_hours policy) (\<lambda>quiet.
       if oc_terminal (journal_progress j (occurrence_id sha (it_id it) due)) \<noteq> None then None
       else let deliver_at = max due now in
         map_option (\<lambda>remaining. deliver_at + remaining) (ms_until_end quiet (minute_of_day deliver_at)))))"


section \<open>Who watches an item\<close>

definition claim_one :: "agenda_item \<Rightarrow> agenda_effect \<Rightarrow> u64 \<Rightarrow> watched_by btree \<Rightarrow> string \<Rightarrow> watched_by btree" where
  "claim_one watcher ef due_ms watched i =
    (if (case bt_get watched i of None \<Rightarrow> True
         | Some cur \<Rightarrow> (case wb_due_ms cur of None \<Rightarrow> False | Some d \<Rightarrow> due_ms < d))
     then bt_put i \<lparr> wb_watcher_item_id = it_id watcher, wb_watcher_title = it_title watcher,
            wb_effect_id = ef_effect_id ef, wb_due_ms = Some due_ms \<rparr> watched
     else watched)"

definition claim_watched :: "agenda_item \<Rightarrow> agenda_effect \<Rightarrow> trigger_due_at \<Rightarrow> watched_by btree \<Rightarrow> watched_by btree" where
  "claim_watched watcher ef due watched =
     foldl (claim_one watcher ef (td_due_ms due)) watched (td_matched_item_ids due)"

definition claim_view :: "agenda_item \<Rightarrow> watched_by btree \<Rightarrow> agenda_effect \<times> effect_planner_view_at option
    \<Rightarrow> watched_by btree" where
  "claim_view it watched ev = (case Option.bind (snd ev) ev_trigger of
     None \<Rightarrow> watched | Some due \<Rightarrow> claim_watched it (fst ev) due watched)"

text \<open>A watcher outside the stamped slice: the live derivation only.\<close>

definition claim_context :: "agenda_item list \<Rightarrow> occurrence_journal \<Rightarrow> agenda_item \<Rightarrow> watched_by btree
    \<Rightarrow> agenda_effect \<Rightarrow> watched_by btree" where
  "claim_context universe j watcher watched ef = (case (ef_approval ef, mf_trigger (ef_manifest ef)) of
     (Some ap, Some trig) \<Rightarrow> if suspended ef then watched
       else (case trigger_due universe watcher ef trig (ap_at_ms ap)
              (started_sessions_for_item j (it_id watcher)) of
           None \<Rightarrow> watched | Some due \<Rightarrow> claim_watched watcher ef due watched)
   | _ \<Rightarrow> watched)"

definition claim_outside :: "agenda_item list \<Rightarrow> occurrence_journal \<Rightarrow> string list \<Rightarrow> watched_by btree
    \<Rightarrow> agenda_item \<Rightarrow> watched_by btree" where
  "claim_outside universe j stamped_ids watched watcher =
    (if it_status watcher \<noteq> Open \<or> it_id watcher \<in> set stamped_ids then watched
     else foldl (claim_context universe j watcher) watched (it_effects watcher))"

text \<open>An item a firing took stays watched while that occurrence runs.\<close>

definition find_watcher :: "agenda_item list \<Rightarrow> string \<Rightarrow> watched_by option" where
  "find_watcher universe eid = map_option (\<lambda>wt. \<lparr> wb_watcher_item_id = it_id wt,
       wb_watcher_title = it_title wt, wb_effect_id = eid, wb_due_ms = None \<rparr>)
     (find (\<lambda>wt. list_ex (\<lambda>ef. ef_effect_id ef = eid) (it_effects wt)) universe)"

fun first_running :: "agenda_item list \<Rightarrow> occurrence_journal \<Rightarrow> (string \<times> string) list \<Rightarrow> watched_by option" where
  "first_running universe j [] = None"
| "first_running universe j ((eid, occ) # ms) =
    (let p = journal_progress j occ in
     if oc_terminal p = None \<and> (oc_prepared p \<or> oc_started p \<noteq> None)
     then (case find_watcher universe eid of None \<Rightarrow> first_running universe j ms | Some wb \<Rightarrow> Some wb)
     else first_running universe j ms)"

definition consumed_claim :: "agenda_item list \<Rightarrow> occurrence_journal \<Rightarrow> agenda_item \<Rightarrow> watched_by option" where
  "consumed_claim universe j it = (if it_status it \<noteq> Open then None
     else first_running universe j (trigger_consumed_markers it))"

definition stamp_effect :: "occurrence_journal \<Rightarrow> agenda_effect \<times> effect_planner_view_at option \<Rightarrow> agenda_effect" where
  "stamp_effect j ev = (fst ev)\<lparr>ef_next_fire_ms := Option.bind (snd ev) ev_next_fire_ms,
     ef_last_run_attempt := Option.bind (ef_last_run (fst ev))
       (\<lambda>run. oc_attempt (journal_progress j (rn_occurrence_id run)))\<rparr>"

fun stamp_items :: "(agenda_item \<Rightarrow> u64 option) \<Rightarrow> occurrence_journal \<Rightarrow> watched_by btree
    \<Rightarrow> (agenda_item \<times> effect_planner_view_at option list \<times> watched_by option) list \<Rightarrow> agenda_item list" where
  "stamp_items deferred j watched [] = []"
| "stamp_items deferred j watched ((it, views, consumed) # rest) =
    it\<lparr>it_deferred_until := deferred it,
       it_watched_by := (case consumed of None \<Rightarrow> bt_get watched (it_id it) | Some wb \<Rightarrow> Some wb),
       it_effects := map (stamp_effect j) (zip (it_effects it) views)\<rparr>
     # stamp_items deferred j (if consumed = None then bt_remove (it_id it) watched else watched) rest"

definition planner_views :: "(string \<Rightarrow> string) \<Rightarrow> agenda_item list \<Rightarrow> occurrence_journal \<Rightarrow> u64 \<Rightarrow> u64
    \<Rightarrow> agenda_item \<Rightarrow> effect_planner_view_at option list" where
  "planner_views sha universe j stale now it = map (\<lambda>ef. if it_status it = Open
     then Some (effect_planner_view sha universe it ef j stale now) else None) (it_effects it)"

definition decorate_planner_fields :: "(string \<Rightarrow> string) \<Rightarrow> agenda_item list option \<Rightarrow> agenda_item list
    \<Rightarrow> occurrence_journal \<Rightarrow> reminder_policy \<Rightarrow> u64 \<Rightarrow> (u64 \<Rightarrow> u16) \<Rightarrow> agenda_item list" where
  "decorate_planner_fields sha context items j policy now minute_of_day =
    (let universe = (case context of None \<Rightarrow> items | Some c \<Rightarrow> c);
         views = map (planner_views sha universe j (staleness_ms policy) now) items;
         watched = foldl (\<lambda>w (it, vs). foldl (claim_view it) w (zip (it_effects it) vs)) [] (zip items views);
         watched' = (if context = None then watched
           else foldl (claim_outside universe j (map it_id items)) watched universe);
         consumed = map (consumed_claim universe j) items
     in stamp_items (\<lambda>it. reminder_deferred_until sha it j policy now minute_of_day) j watched'
          (zip items (zip views consumed)))"

end
