(* ===== verification/PlannerFacts.thy ===== *)
theory PlannerFacts
  imports AgendaPlanner
begin

text \<open>
  What the planner promises: which occurrences it starts and which it never starts again, that
  nothing due is forgotten, that the display agrees with it, and how series and trigger causes
  name and bound their occurrences.
\<close>

section \<open>The plan as a list of verdicts\<close>

text \<open>What a pass makes of one candidate.\<close>

datatype verdict =
    VSkip | VWake u64 | VCrash spawn_occurrence | VMiss spawn_occurrence | VSpawn spawn_occurrence

definition verdict_of :: "plan_env \<Rightarrow> agenda_item \<Rightarrow> agenda_effect \<Rightarrow> agenda_approval \<Rightarrow> bool
    \<Rightarrow> plan_candidate \<Rightarrow> verdict" where
  "verdict_of pe it ef ap overlap c =
    (case resolve_candidate (pe_sha pe) (pe_journal pe) (it_id it) ef (ap_digest ap) (pc_walk c)
        (pc_identity_ms c) of
       None \<Rightarrow> VSkip
     | Some (occ, attempt, progress) \<Rightarrow>
         if occ \<in> set (pe_flight pe) then VSkip
         else if oc_prepared progress then VCrash (spawn_of pe it ef ap c occ attempt)
         else if pe_now pe < pc_fire_ms c then VWake (pc_fire_ms c)
         else if mf_trigger (ef_manifest ef) = None
             \<and> staleness_ms (pe_policy pe) < sat_sub (pe_now pe) (pc_fire_ms c)
           then VMiss (spawn_of pe it ef ap c occ attempt)
         else if \<not> overlap then VSpawn (spawn_of pe it ef ap c occ attempt) else VSkip)"

fun put_verdict :: "agenda_plan \<Rightarrow> verdict \<Rightarrow> agenda_plan" where
  "put_verdict p VSkip = p"
| "put_verdict p (VWake u) = consider_wake u p"
| "put_verdict p (VCrash s) = p\<lparr>pn_crashed := pn_crashed p @ [s]\<rparr>"
| "put_verdict p (VMiss s) = p\<lparr>pn_missed_sessions := pn_missed_sessions p @ [s]\<rparr>"
| "put_verdict p (VSpawn s) = p\<lparr>pn_spawn := pn_spawn p @ [s]\<rparr>"

definition effect_verdicts :: "plan_env \<Rightarrow> agenda_item \<Rightarrow> agenda_effect \<Rightarrow> verdict list" where
  "effect_verdicts pe it ef = (case ef_approval ef of
     None \<Rightarrow> []
   | Some ap \<Rightarrow> if suspended ef then []
       else map VWake (opt_list (snd (effect_candidates pe it ef ap)))
         @ map (verdict_of pe it ef ap (effect_overlap pe it ef)) (fst (effect_candidates pe it ef ap)))"

definition item_verdicts :: "plan_env \<Rightarrow> agenda_item \<Rightarrow> verdict list" where
  "item_verdicts pe it = (if it_status it \<noteq> Open then []
     else concat (map (effect_verdicts pe it) (it_effects it)))"

definition session_verdicts :: "plan_env \<Rightarrow> verdict list" where
  "session_verdicts pe = concat (map (item_verdicts pe) (pe_items pe))"

lemma candidate_verdict:
  "plan_candidate_step pe it ef ap ov p c = put_verdict p (verdict_of pe it ef ap ov c)"
proof (cases "resolve_candidate (pe_sha pe) (pe_journal pe) (it_id it) ef (ap_digest ap) (pc_walk c)
    (pc_identity_ms c)")
  case (Some r)
  then show ?thesis
    by (cases r) (simp add: plan_candidate_step_def verdict_of_def Let_def if_distrib [of "put_verdict p"]
        cong: if_cong)
qed (simp add: plan_candidate_step_def verdict_of_def)

lemma foldl_map_step: "(\<And>p x. h p x = f p (g x)) \<Longrightarrow> foldl h p xs = foldl f p (map g xs)"
  by (induction xs arbitrary: p) simp_all

lemma foldl_concat_step:
  "(\<And>p x. h p x = foldl f p (g x)) \<Longrightarrow> foldl h p xs = foldl f p (concat (map g xs))"
  by (induction xs arbitrary: p) simp_all

lemma effect_put: "plan_effect pe it p ef = foldl put_verdict p (effect_verdicts pe it ef)"
  by (auto simp: plan_effect_def effect_verdicts_def opt_list_def
      foldl_map_step [where f = put_verdict, OF candidate_verdict] split: option.split prod.split)

lemma item_put: "plan_item pe p it = foldl put_verdict p (item_verdicts pe it)"
  by (simp add: plan_item_def item_verdicts_def foldl_concat_step [where f = put_verdict, OF effect_put])

lemma sessions_put: "foldl (plan_item pe) p (pe_items pe) = foldl put_verdict p (session_verdicts pe)"
  unfolding session_verdicts_def by (rule foldl_concat_step [OF item_put])

lemma put_lists:
  "set (pn_spawn (foldl put_verdict p vs)) = set (pn_spawn p) \<union> {s. VSpawn s \<in> set vs}"
  "set (pn_missed_sessions (foldl put_verdict p vs)) = set (pn_missed_sessions p) \<union> {s. VMiss s \<in> set vs}"
  "set (pn_crashed (foldl put_verdict p vs)) = set (pn_crashed p) \<union> {s. VCrash s \<in> set vs}"
proof (induction vs arbitrary: p)
  case (Cons v vs)
  {
    case 1
    show ?case using Cons.IH(1) by (cases v) (auto simp: consider_wake_def)
  next
    case 2
    show ?case using Cons.IH(2) by (cases v) (auto simp: consider_wake_def)
  next
    case 3
    show ?case using Cons.IH(3) by (cases v) (auto simp: consider_wake_def)
  }
qed simp_all

text \<open>Reminders add deliveries and wakes only.\<close>

definition same_sessions :: "agenda_plan \<Rightarrow> agenda_plan \<Rightarrow> bool" where
  "same_sessions p q = (pn_spawn p = pn_spawn q \<and> pn_missed_sessions p = pn_missed_sessions q
     \<and> pn_crashed p = pn_crashed q)"

lemma reminder_same: "same_sessions (plan_reminder pe p it) p"
  by (auto simp: same_sessions_def plan_reminder_def consider_wake_def Let_def split: option.split)

lemma reminders_same: "same_sessions (foldl (plan_reminder pe) p its) p"
  by (induction its arbitrary: p) (auto simp: same_sessions_def reminder_same [unfolded same_sessions_def])

lemma plan_sessions: "same_sessions (plan pe) (foldl put_verdict empty_plan (session_verdicts pe))"
  by (simp add: plan_def Let_def sessions_put reminders_same) (simp add: same_sessions_def)

lemma plan_lists:
  "set (pn_spawn (plan pe)) = {s. VSpawn s \<in> set (session_verdicts pe)}"
  "set (pn_missed_sessions (plan pe)) = {s. VMiss s \<in> set (session_verdicts pe)}"
  "set (pn_crashed (plan pe)) = {s. VCrash s \<in> set (session_verdicts pe)}"
  using plan_sessions [of pe] by (simp_all add: same_sessions_def put_lists empty_plan_def)

lemma verdict_source:
  assumes "v \<in> set (session_verdicts pe)" "v \<noteq> VSkip" "\<forall>u. v \<noteq> VWake u"
  obtains it :: agenda_item and ef :: agenda_effect and ap c where "it \<in> set (pe_items pe)"
    "it_status it = Open" "ef \<in> set (it_effects it)" "ef_approval ef = Some ap" "\<not> suspended ef"
    "c \<in> set (fst (effect_candidates pe it ef ap))" "v = verdict_of pe it ef ap (effect_overlap pe it ef) c"
proof -
  from assms(1) obtain it :: agenda_item where it: "it \<in> set (pe_items pe)" "v \<in> set (item_verdicts pe it)"
    by (auto simp: session_verdicts_def)
  then obtain ef :: agenda_effect where ef: "it_status it = Open" "ef \<in> set (it_effects it)"
    "v \<in> set (effect_verdicts pe it ef)"
    by (auto simp: item_verdicts_def split: if_splits)
  from ef(3) obtain ap where ap: "ef_approval ef = Some ap"
    by (cases "ef_approval ef") (auto simp: effect_verdicts_def)
  with ef(3) assms(2,3) obtain c where "\<not> suspended ef" "c \<in> set (fst (effect_candidates pe it ef ap))"
    "v = verdict_of pe it ef ap (effect_overlap pe it ef) c"
    by (auto simp: effect_verdicts_def split: if_splits)
  with it(1) ef(1,2) ap that show ?thesis by blast
qed

section \<open>Attempts\<close>

lemma walk_attempts_Some:
  assumes "walk_attempts occ j as = Some (o', a, p)"
  shows "\<exists>bs cs. as = bs @ a # cs \<and> o' = occ a \<and> p = journal_progress j (occ a)
    \<and> oc_terminal p = None \<and> oc_started p = None
    \<and> (\<forall>b \<in> set bs. oc_terminal (journal_progress j (occ b)) \<in> {Some Failed, Some Unknown})"
  using assms
proof (induction as)
  case (Cons x as)
  show ?case
  proof (cases "oc_terminal (journal_progress j (occ x))")
    case None
    with Cons.prems show ?thesis
      by (intro exI [of _ "[]"] exI [of _ as]) (auto simp: Let_def split: if_splits)
  next
    case (Some t)
    with Cons.prems have "t = Failed \<or> t = Unknown" "walk_attempts occ j as = Some (o', a, p)"
      by (auto simp: Let_def split: if_splits)
    with Cons.IH obtain bs cs where "as = bs @ a # cs" "o' = occ a" "p = journal_progress j (occ a)"
      "oc_terminal p = None" "oc_started p = None"
      "\<forall>b \<in> set bs. oc_terminal (journal_progress j (occ b)) \<in> {Some Failed, Some Unknown}" by blast
    then show ?thesis using Some \<open>t = Failed \<or> t = Unknown\<close>
      by (intro exI [of _ "x # bs"] exI [of _ cs]) auto
  qed
qed simp

lemma upt3: "map of_nat [0..<max_cause_regenerations] = [0, 1, 2 :: u32]"
  by (simp add: max_cause_regenerations_def upt_rec numeral_2_eq_2)

lemma below_three:
  "b < (1 :: u32) \<Longrightarrow> b = 0" "b < (2 :: u32) \<Longrightarrow> b = 0 \<or> b = 1"
  by (simp_all add: word_less_nat_alt word_eq_iff_unsigned [where 'a = nat]) arith+

lemma walk_cause_Some:
  assumes "walk_cause_attempts sha j i eid digest cause = Some (o', a, p)"
  shows "o' = session_occurrence_id sha i eid digest cause a \<and> p = journal_progress j o'
    \<and> oc_terminal p = None \<and> oc_started p = None \<and> unat a < max_cause_regenerations
    \<and> (\<forall>b. b < a \<longrightarrow> oc_terminal (journal_progress j (session_occurrence_id sha i eid digest cause b))
          \<in> {Some Failed, Some Unknown})"
proof -
  from walk_attempts_Some [OF assms [unfolded walk_cause_attempts_def upt3]] obtain bs cs where
    w: "[0, 1, 2 :: u32] = bs @ a # cs" "o' = session_occurrence_id sha i eid digest cause a"
    "p = journal_progress j o'" "oc_terminal p = None" "oc_started p = None"
    "\<forall>b \<in> set bs. oc_terminal (journal_progress j (session_occurrence_id sha i eid digest cause b))
       \<in> {Some Failed, Some Unknown}" by blast
  have "(a = 0 \<and> bs = []) \<or> (a = 1 \<and> bs = [0]) \<or> (a = 2 \<and> bs = [0, 1])"
    using w(1) by (auto simp: Cons_eq_append_conv)
  then have a: "unat a < max_cause_regenerations" "\<And>b. b < a \<Longrightarrow> b \<in> set bs"
    by (auto simp: max_cause_regenerations_def dest: below_three)
  with w show ?thesis by blast
qed

lemma resolve_Some:
  assumes "resolve_candidate sha j i ef digest walk identity = Some (occ, a, p)"
  shows "occ = session_occurrence_id sha i (ef_effect_id ef) digest identity a \<and> p = journal_progress j occ
    \<and> oc_terminal p = None \<and> oc_started p = None \<and> unat a < max_cause_regenerations \<and> (\<not> walk \<longrightarrow> a = 0)
    \<and> (\<forall>b. b < a \<longrightarrow> oc_terminal (journal_progress j (session_occurrence_id sha i (ef_effect_id ef) digest identity b))
          \<in> {Some Failed, Some Unknown})"
proof (cases walk)
  case True
  with assms walk_cause_Some show ?thesis by (auto simp: resolve_candidate_def)
next
  case False
  with assms show ?thesis
    by (auto simp: resolve_candidate_def Let_def max_cause_regenerations_def split: if_splits)
qed

lemma candidates_walk:
  "c \<in> set (fst (effect_candidates pe it ef ap)) \<Longrightarrow> mf_trigger (ef_manifest ef) = None \<Longrightarrow> \<not> pc_walk c"
  by (auto simp: effect_candidates_def attempt_zero_def Let_def split: option.splits)


section \<open>What a pass may start\<close>

lemma verdict_spawn:
  assumes "verdict_of pe it ef ap ov c = VSpawn s"
  shows "\<exists>occ attempt. s = spawn_of pe it ef ap c occ attempt \<and> \<not> ov \<and> occ \<notin> set (pe_flight pe)
    \<and> pc_fire_ms c \<le> pe_now pe
    \<and> (mf_trigger (ef_manifest ef) = None
        \<longrightarrow> sat_sub (pe_now pe) (pc_fire_ms c) \<le> staleness_ms (pe_policy pe))
    \<and> (\<exists>p. resolve_candidate (pe_sha pe) (pe_journal pe) (it_id it) ef (ap_digest ap) (pc_walk c)
          (pc_identity_ms c) = Some (occ, attempt, p) \<and> \<not> oc_prepared p)"
  using assms by (auto simp: verdict_of_def split: option.splits prod.splits if_splits)

text \<open>An occurrence the journal has a row of.\<close>

definition touched :: "occurrence_progress \<Rightarrow> bool" where
  "touched p = (oc_prepared p \<or> oc_started p \<noteq> None \<or> oc_terminal p \<noteq> None)"

lemma spawn_cases:
  assumes "s \<in> set (pn_spawn (plan pe))"
  obtains it :: agenda_item and ef :: agenda_effect and ap c where "it \<in> set (pe_items pe)"
    "it_status it = Open" "ef \<in> set (it_effects it)" "ef_approval ef = Some ap" "\<not> suspended ef"
    "c \<in> set (fst (effect_candidates pe it ef ap))" "\<not> effect_overlap pe it ef"
    "s = spawn_of pe it ef ap c (sw_occurrence_id s) (sw_attempt s)"
    "sw_occurrence_id s \<notin> set (pe_flight pe)" "pc_fire_ms c \<le> pe_now pe"
    "mf_trigger (ef_manifest ef) = None
      \<longrightarrow> sat_sub (pe_now pe) (pc_fire_ms c) \<le> staleness_ms (pe_policy pe)"
    "resolve_candidate (pe_sha pe) (pe_journal pe) (it_id it) ef (ap_digest ap) (pc_walk c)
      (pc_identity_ms c) = Some (sw_occurrence_id s, sw_attempt s, journal_progress (pe_journal pe) (sw_occurrence_id s))"
    "\<not> touched (journal_progress (pe_journal pe) (sw_occurrence_id s))"
proof -
  from assms have "VSpawn s \<in> set (session_verdicts pe)" by (simp add: plan_lists)
  then obtain it :: agenda_item and ef :: agenda_effect and ap c where src: "it \<in> set (pe_items pe)"
    "it_status it = Open" "ef \<in> set (it_effects it)" "ef_approval ef = Some ap" "\<not> suspended ef"
    "c \<in> set (fst (effect_candidates pe it ef ap))"
    "VSpawn s = verdict_of pe it ef ap (effect_overlap pe it ef) c"
    by (rule verdict_source) auto
  from verdict_spawn [OF src(7) [symmetric]] obtain occ attempt p where
    v: "s = spawn_of pe it ef ap c occ attempt" "\<not> effect_overlap pe it ef" "occ \<notin> set (pe_flight pe)"
    "pc_fire_ms c \<le> pe_now pe" "mf_trigger (ef_manifest ef) = None
      \<longrightarrow> sat_sub (pe_now pe) (pc_fire_ms c) \<le> staleness_ms (pe_policy pe)"
    "resolve_candidate (pe_sha pe) (pe_journal pe) (it_id it) ef (ap_digest ap) (pc_walk c)
      (pc_identity_ms c) = Some (occ, attempt, p)" "\<not> oc_prepared p"
    by (elim exE conjE) (rule that; assumption)
  have id: "sw_occurrence_id s = occ" "sw_attempt s = attempt" by (simp_all add: v(1) spawn_of_def)
  from resolve_Some [OF v(6)] v(7) have "p = journal_progress (pe_journal pe) occ"
    "\<not> touched (journal_progress (pe_journal pe) occ)" by (auto simp: touched_def)
  with src v id show ?thesis by (intro that) auto
qed

text \<open>
  C2: everything a pass starts is an approved, unsuspended effect of an open item, whose digest
  the approval binds to exactly the manifest whose goal the session will run; it is due, not
  already running in any form, unknown to the journal, and a cadenced one inside the owner's
  staleness window.
\<close>

theorem spawns_are_approved:
  assumes "s \<in> set (pn_spawn (plan pe))" and "ledger_ok dig m" and "pe_items pe = map snd m"
  shows "\<exists>(it :: agenda_item) (ef :: agenda_effect) ap. bt_get m (it_id it) = Some it
    \<and> it_status it = Open \<and> ef \<in> set (it_effects it) \<and> ef_approval ef = Some ap \<and> \<not> suspended ef
    \<and> ap_digest ap = dig (it_id it) (ef_effect_id ef) (ef_manifest ef)
    \<and> sw_item_id s = it_id it \<and> sw_effect_id s = ef_effect_id ef \<and> sw_goal s = mf_goal (ef_manifest ef)
    \<and> sw_binding_refs s = mf_binding_refs (ef_manifest ef)
    \<and> sw_fire_at_ms s \<le> pe_now pe \<and> \<not> effect_overlap pe it ef
    \<and> sw_occurrence_id s \<notin> set (pe_flight pe)
    \<and> \<not> touched (journal_progress (pe_journal pe) (sw_occurrence_id s))
    \<and> (mf_trigger (ef_manifest ef) = None
        \<longrightarrow> sat_sub (pe_now pe) (sw_fire_at_ms s) \<le> staleness_ms (pe_policy pe))"
proof -
  from assms(1) obtain it :: agenda_item and ef :: agenda_effect and ap c where
    s: "it \<in> set (pe_items pe)" "it_status it = Open" "ef \<in> set (it_effects it)"
    "ef_approval ef = Some ap" "\<not> suspended ef" "\<not> effect_overlap pe it ef"
    "s = spawn_of pe it ef ap c (sw_occurrence_id s) (sw_attempt s)"
    "sw_occurrence_id s \<notin> set (pe_flight pe)" "pc_fire_ms c \<le> pe_now pe"
    "mf_trigger (ef_manifest ef) = None
      \<longrightarrow> sat_sub (pe_now pe) (pc_fire_ms c) \<le> staleness_ms (pe_policy pe)"
    "\<not> touched (journal_progress (pe_journal pe) (sw_occurrence_id s))"
    by (rule spawn_cases) (rule that; assumption)
  obtain i where i: "(i, it) \<in> set m" using s(1) assms(3) by auto
  have "bt_wf m" using assms(2) by (simp add: ledger_ok_def)
  from bt_wf_distinct [OF this] i have get_i: "bt_get m i = Some it" by (rule map_of_is_SomeI)
  then have ok: "item_ok dig i it" using assms(2) by (simp add: ledger_ok_def)
  then have id: "it_id it = i" by (simp add: item_ok_def)
  with get_i have get: "bt_get m (it_id it) = Some it" by simp
  have "ap_digest ap = dig i (ef_effect_id ef) (ef_manifest ef)"
    using ok s(3,4) by (auto simp: item_ok_def effects_ok_def effect_ok_def)
  moreover have "sw_item_id s = it_id it \<and> sw_effect_id s = ef_effect_id ef \<and> sw_goal s = mf_goal (ef_manifest ef)
    \<and> sw_binding_refs s = mf_binding_refs (ef_manifest ef) \<and> sw_fire_at_ms s = pc_fire_ms c"
    by (subst (1 2 3 4 5) s(7)) (simp add: spawn_of_def)
  ultimately show ?thesis using s get id
    by (intro exI [of _ it] exI [of _ ef] exI [of _ ap]) simp
qed

section \<open>Never again\<close>

lemma touched_fold: "touched e \<Longrightarrow> touched (fold_record_into e rec)"
  by (auto simp: touched_def fold_record_into_def Let_def split: occurrence_state.splits)

lemma touched_lines:
  "touched (progress_in (fst s) occ) \<Longrightarrow> touched (progress_in (fst (foldl (journal_line w) s ls)) occ)"
proof (induction ls arbitrary: s)
  case (Cons l ls)
  have "touched (progress_in (fst (journal_line w s l)) occ)"
    using Cons.prems touched_fold
    by (auto simp: journal_line_def Let_def fold_entry_def progress_in_def split: option.splits)
  with Cons.IH show ?case by simp
qed simp

lemma touched_grows:
  assumes "ended d" "touched (progress_in (fst (fold_journal w d)) occ)"
  shows "touched (progress_in (fst (fold_journal w (d @ r))) occ)"
proof -
  have "touched (progress_in (fst (foldl (journal_line w) ([], 0) (lines d))) occ)"
    using assms(2) by (simp add: fold_journal_def split: prod.splits)
  from touched_lines [OF this, of w "lines r"] show ?thesis
    by (auto simp: fold_journal_def lines_append [OF assms(1)] split: prod.splits)
qed

text \<open>
  C15: once the journal file has any row of an occurrence, prepared, started or final, no later
  pass starts it, whatever is appended after that row, whichever daemon plans and however the
  item, its approval or the clock has moved.
\<close>

theorem never_started_twice:
  assumes "ended d" and "touched (progress_in (fst (fold_journal w d)) occ)"
    and "jview (pe_journal pe) = fold_journal w (d @ later)"
  shows "\<forall>s \<in> set (pn_spawn (plan pe)). sw_occurrence_id s \<noteq> occ"
proof
  fix s assume "s \<in> set (pn_spawn (plan pe))"
  then have "\<not> touched (journal_progress (pe_journal pe) (sw_occurrence_id s))"
    by (rule spawn_cases) blast
  moreover have "touched (journal_progress (pe_journal pe) occ)"
    using touched_grows [OF assms(1,2), of later] arg_cong [OF assms(3), of fst]
    by (simp add: journal_progress_def jview_def)
  ultimately show "sw_occurrence_id s \<noteq> occ" by auto
qed


section \<open>Nothing is forgotten\<close>

definition wakes_by :: "agenda_plan \<Rightarrow> u64 \<Rightarrow> bool" where
  "wakes_by p u = (case pn_next_wake_ms p of None \<Rightarrow> False | Some c \<Rightarrow> c \<le> u)"

lemma wakes_consider: "wakes_by (consider_wake u p) u" "wakes_by p v \<Longrightarrow> wakes_by (consider_wake u p) v"
  by (auto simp: wakes_by_def consider_wake_def min_wake_def split: option.splits intro: min.coboundedI1)

lemma wakes_put: "wakes_by p v \<Longrightarrow> wakes_by (put_verdict p x) v"
  by (cases x) (auto simp: wakes_consider, auto simp: wakes_by_def)

lemma wakes_verdicts: "wakes_by p v \<or> VWake v \<in> set vs \<Longrightarrow> wakes_by (foldl put_verdict p vs) v"
proof (induction vs arbitrary: p)
  case (Cons x vs)
  have "wakes_by (put_verdict p x) v \<or> VWake v \<in> set vs"
    using Cons.prems wakes_put wakes_consider(1) by auto
  with Cons.IH show ?case by simp
qed simp

lemma wakes_reminders: "wakes_by p v \<Longrightarrow> wakes_by (foldl (plan_reminder pe) p its) v"
proof (induction its arbitrary: p)
  case (Cons it its)
  have "wakes_by (plan_reminder pe p it) v"
    using Cons.prems by (auto simp: plan_reminder_def Let_def wakes_consider split: option.splits)
      (auto simp: wakes_by_def)
  with Cons.IH show ?case by simp
qed simp

lemma wakes_plan: "VWake v \<in> set (session_verdicts pe) \<Longrightarrow> wakes_by (plan pe) v"
  by (simp add: plan_def Let_def sessions_put wakes_verdicts wakes_reminders)

text \<open>
  C30: nothing is forgotten: every instant of an approved, unsuspended effect of an open item whose
  occurrence is neither spent nor in flight is started, resolved as crashed or as missed, held
  behind a run of the same effect, or the pass wakes no later than it; and the pass wakes no
  later than the next instant of a series.
\<close>

theorem nothing_forgotten:
  assumes "it \<in> set (pe_items pe)" and "it_status it = Open" and "ef \<in> set (it_effects it)"
    and "ef_approval ef = Some ap" and "\<not> suspended ef"
  shows "(\<forall>c \<in> set (fst (effect_candidates pe it ef ap)). \<forall>occ a p.
      resolve_candidate (pe_sha pe) (pe_journal pe) (it_id it) ef (ap_digest ap) (pc_walk c)
        (pc_identity_ms c) = Some (occ, a, p) \<and> occ \<notin> set (pe_flight pe) \<longrightarrow>
      spawn_of pe it ef ap c occ a \<in> set (pn_spawn (plan pe)) \<union> set (pn_missed_sessions (plan pe))
        \<union> set (pn_crashed (plan pe))
      \<or> pe_now pe < pc_fire_ms c \<and> wakes_by (plan pe) (pc_fire_ms c)
      \<or> effect_overlap pe it ef)
    \<and> (\<forall>u. snd (effect_candidates pe it ef ap) = Some u \<longrightarrow> wakes_by (plan pe) u)"
proof -
  have sub: "set (effect_verdicts pe it ef) \<subseteq> set (session_verdicts pe)"
    using assms(1,2,3) by (auto simp: session_verdicts_def item_verdicts_def)
  have eff: "effect_verdicts pe it ef = map VWake (opt_list (snd (effect_candidates pe it ef ap)))
      @ map (verdict_of pe it ef ap (effect_overlap pe it ef)) (fst (effect_candidates pe it ef ap))"
    using assms(4,5) by (simp add: effect_verdicts_def)
  show ?thesis
  proof (intro conjI ballI allI impI)
    fix c occ a p
    assume c: "c \<in> set (fst (effect_candidates pe it ef ap))"
      and r: "resolve_candidate (pe_sha pe) (pe_journal pe) (it_id it) ef (ap_digest ap) (pc_walk c)
        (pc_identity_ms c) = Some (occ, a, p) \<and> occ \<notin> set (pe_flight pe)"
    let ?v = "verdict_of pe it ef ap (effect_overlap pe it ef) c" and ?s = "spawn_of pe it ef ap c occ a"
    have v: "?v \<in> set (session_verdicts pe)" using c eff sub by auto
    have "?v = VCrash ?s \<or> ?v = VMiss ?s \<or> ?v = VSpawn ?s \<or> effect_overlap pe it ef
        \<or> pe_now pe < pc_fire_ms c \<and> ?v = VWake (pc_fire_ms c)"
      using r by (simp add: verdict_of_def)
    then show "?s \<in> set (pn_spawn (plan pe)) \<union> set (pn_missed_sessions (plan pe)) \<union> set (pn_crashed (plan pe))
      \<or> pe_now pe < pc_fire_ms c \<and> wakes_by (plan pe) (pc_fire_ms c) \<or> effect_overlap pe it ef"
      using v wakes_plan [of "pc_fire_ms c" pe] by (auto simp: plan_lists)
  next
    fix u assume "snd (effect_candidates pe it ef ap) = Some u"
    then have "VWake u \<in> set (session_verdicts pe)" using eff sub by (auto simp: opt_list_def)
    then show "wakes_by (plan pe) u" by (rule wakes_plan)
  qed
qed

section \<open>Attempts and batches of what is started\<close>

text \<open>
  C37: an occurrence started again is a numbered attempt of one cause, at most the third, each
  attempt before it ended failed or unknown; what is not triggered is only ever attempted once.
\<close>

theorem attempts_bounded:
  assumes "s \<in> set (pn_spawn (plan pe))"
  shows "unat (sw_attempt s) < 3 \<and> (\<exists>(it :: agenda_item) (ef :: agenda_effect) ap cause.
    it \<in> set (pe_items pe) \<and> ef \<in> set (it_effects it) \<and> ef_approval ef = Some ap
    \<and> (mf_trigger (ef_manifest ef) = None \<longrightarrow> sw_attempt s = 0)
    \<and> sw_occurrence_id s = session_occurrence_id (pe_sha pe) (it_id it) (ef_effect_id ef) (ap_digest ap)
        cause (sw_attempt s)
    \<and> (\<forall>b < sw_attempt s. oc_terminal (journal_progress (pe_journal pe)
        (session_occurrence_id (pe_sha pe) (it_id it) (ef_effect_id ef) (ap_digest ap) cause b))
        \<in> {Some Failed, Some Unknown}))"
proof -
  from assms obtain it :: agenda_item and ef :: agenda_effect and ap c where
    s: "it \<in> set (pe_items pe)" "ef \<in> set (it_effects it)" "ef_approval ef = Some ap"
    "c \<in> set (fst (effect_candidates pe it ef ap))"
    "resolve_candidate (pe_sha pe) (pe_journal pe) (it_id it) ef (ap_digest ap) (pc_walk c)
      (pc_identity_ms c) = Some (sw_occurrence_id s, sw_attempt s, journal_progress (pe_journal pe) (sw_occurrence_id s))"
    by (rule spawn_cases) (rule that; assumption)
  note r = resolve_Some [OF s(5), unfolded max_cause_regenerations_def]
  have "mf_trigger (ef_manifest ef) = None \<longrightarrow> sw_attempt s = 0"
    using candidates_walk [OF s(4)] r by blast
  with r s(1,2,3) show ?thesis
    by (intro conjI exI [of _ it] exI [of _ ef] exI [of _ ap] exI [of _ "pc_identity_ms c"]) simp_all
qed

definition arrived_fresh :: "plan_env \<Rightarrow> agenda_item \<Rightarrow> agenda_effect \<Rightarrow> agenda_approval \<Rightarrow> agenda_item \<Rightarrow> bool" where
  "arrived_fresh pe it ef ap c = (it_status c = Open \<and> it_id c \<noteq> it_id it
     \<and> arm_floor ef (ap_at_ms ap) < pv_created_ms (it_provenance c)
     \<and> (\<forall>sid. at_session_id (it_provenance c) = Some sid
          \<longrightarrow> sid \<notin> set (started_sessions_for_item (pe_journal pe) (it_id it)))
     \<and> \<not> trigger_consumed c (ef_effect_id ef))"

definition retried :: "agenda_effect \<Rightarrow> agenda_item \<Rightarrow> bool" where
  "retried ef c = (\<exists>run. ef_last_run ef = Some run \<and> rn_state run \<in> {''failed'', ''unknown''}
     \<and> (ef_effect_id ef, rn_occurrence_id run) \<in> set (trigger_consumed_markers c))"

lemma batch_due_ids: "batch_due ef at cs = Some d \<Longrightarrow> td_matched_item_ids d = map it_id cs"
  by (auto simp: batch_due_def split: if_splits)

lemma batch_members:
  assumes "live_or_retry (pe_items pe) (pe_journal pe) it ef trig (ap_at_ms ap) = Some d"
    "i \<in> set (td_matched_item_ids d)"
  shows "\<exists>x \<in> set (pe_items pe). it_id x = i \<and> (arrived_fresh pe it ef ap x \<or> retried ef x)"
proof (cases "trigger_due (pe_items pe) it ef trig (ap_at_ms ap) (started_sessions_for_item (pe_journal pe) (it_id it))")
  case None
  with assms(1) have "on_item_match_retry_due (pe_items pe) ef (ap_at_ms ap) = Some d"
    by (simp add: live_or_retry_def)
  then obtain run where run: "ef_last_run ef = Some run" "rn_state run \<in> {''failed'', ''unknown''}"
    "batch_due ef (ap_at_ms ap) (filter (consumed_by (ef_effect_id ef) (rn_occurrence_id run)) (pe_items pe)) = Some d"
    by (cases "ef_last_run ef")
       (auto simp: on_item_match_retry_due_def split: option.splits trigger_spec.splits if_splits)
  from batch_due_ids [OF run(3)] assms(2) obtain x where x: "x \<in> set (pe_items pe)" "it_id x = i"
    "consumed_by (ef_effect_id ef) (rn_occurrence_id run) x" by auto
  with run(1,2) have "retried ef x" by (simp add: retried_def consumed_by_def)
  with x show ?thesis by blast
next
  case (Some d')
  with assms(1) have "d' = d" by (simp add: live_or_retry_def)
  with Some assms(2) obtain kind tags where
    b: "batch_due ef (ap_at_ms ap) (filter (trigger_matches it ef kind tags (arm_floor ef (ap_at_ms ap))
      (started_sessions_for_item (pe_journal pe) (it_id it))) (pe_items pe)) = Some d"
    by (auto simp: trigger_due_def split: trigger_spec.splits)
  from batch_due_ids [OF b] assms(2) obtain x where x: "x \<in> set (pe_items pe)" "it_id x = i"
    "trigger_matches it ef kind tags (arm_floor ef (ap_at_ms ap))
      (started_sessions_for_item (pe_journal pe) (it_id it)) x" by auto
  from x(3) have "arrived_fresh pe it ef ap x"
    by (auto simp: arrived_fresh_def trigger_matches_def)
  with x show ?thesis by blast
qed

lemma candidates_batch:
  assumes "c \<in> set (fst (effect_candidates pe it ef ap))" "i \<in> set (pc_batch c)"
  shows "\<exists>trig d. live_or_retry (pe_items pe) (pe_journal pe) it ef trig (ap_at_ms ap) = Some d
    \<and> i \<in> set (td_matched_item_ids d)"
proof (cases "mf_trigger (ef_manifest ef)")
  case None
  with assms show ?thesis
    by (auto simp: effect_candidates_def attempt_zero_def Let_def split: option.splits)
next
  case trig: (Some trig)
  show ?thesis
  proof (cases "live_or_retry (pe_items pe) (pe_journal pe) it ef trig (ap_at_ms ap)")
    case None
    with assms trig show ?thesis
      by (auto simp: effect_candidates_def attempt_zero_def Let_def opt_list_def)
  next
    case (Some d)
    with assms trig have "i \<in> set (td_matched_item_ids d)"
      by (auto simp: effect_candidates_def attempt_zero_def Let_def opt_list_def)
    with Some show ?thesis by blast
  qed
qed

text \<open>
  A batch never feeds on itself: every item a started session carries either arrived after
  the approval armed the trigger, was not parked by a session this automation started and was
  not taken by it before, or was taken by exactly the run whose failure is being retried.
\<close>

theorem batch_provenance:
  assumes "s \<in> set (pn_spawn (plan pe))" and "i \<in> set (sw_matched_item_ids s)"
  shows "\<exists>(it :: agenda_item) (ef :: agenda_effect) ap x. it \<in> set (pe_items pe) \<and> ef \<in> set (it_effects it)
    \<and> ef_effect_id ef = sw_effect_id s \<and> ef_approval ef = Some ap \<and> x \<in> set (pe_items pe) \<and> it_id x = i
    \<and> (arrived_fresh pe it ef ap x \<or> retried ef x)"
proof -
  from assms(1) obtain it :: agenda_item and ef :: agenda_effect and ap c where
    s: "it \<in> set (pe_items pe)" "ef \<in> set (it_effects it)" "ef_approval ef = Some ap"
    "c \<in> set (fst (effect_candidates pe it ef ap))"
    "s = spawn_of pe it ef ap c (sw_occurrence_id s) (sw_attempt s)"
    by (rule spawn_cases) (rule that; assumption)
  have eq: "sw_matched_item_ids s = pc_batch c" "sw_effect_id s = ef_effect_id ef"
    by (subst s(5), simp add: spawn_of_def)+
  with assms(2) candidates_batch [OF s(4)] obtain trig d where
    "live_or_retry (pe_items pe) (pe_journal pe) it ef trig (ap_at_ms ap) = Some d"
    "i \<in> set (td_matched_item_ids d)" by metis
  from batch_members [OF this] s(1,2,3) eq(2) show ?thesis by metis
qed

end
