(* ===== verification/PlannerDisplay.thy ===== *)
theory PlannerDisplay
  imports PlannerFacts
begin

text \<open>
  What the planner says of time: the instants of a series, the floors of a trigger, the next fire
  the dashboard shows, the reminders of a pass, and the items shown as watched.
\<close>

section \<open>Series\<close>

text \<open>The series as its owner wrote it: an instant per index, within both bounds.\<close>

definition series_index :: "u64 \<Rightarrow> recurrence_spec \<Rightarrow> nat \<Rightarrow> bool" where
  "series_index fire rec k =
    ((\<forall>m. rc_max_occurrences rec = Some m \<longrightarrow> k \<le> unat m - 1)
     \<and> (\<forall>u. rc_until_ms rec = Some u \<longrightarrow> k * unat (series_every rec) \<le> unat u - unat fire))"

definition series_instant :: "u64 \<Rightarrow> recurrence_spec \<Rightarrow> nat \<Rightarrow> nat" where
  "series_instant fire rec k = unat fire + k * unat (series_every rec)"

lemma every_pos: "0 < unat (series_every rec)"
proof -
  have "1 \<le> series_every rec" by (simp add: series_every_def)
  then show ?thesis by (simp add: word_le_nat_alt)
qed

lemma series_last_index:
  "series_index fire rec k \<longleftrightarrow> (case series_last fire rec of None \<Rightarrow> True | Some l \<Rightarrow> k \<le> unat l)"
proof -
  have count: "unat (sat_sub (ucast m) 1 :: u64) = unat m - 1" for m :: u32
    by (simp add: unat_sat_sub unat_widen)
  have time: "k \<le> unat (sat_sub u fire div series_every rec)
      \<longleftrightarrow> k * unat (series_every rec) \<le> unat u - unat fire" for u :: u64
    using every_pos [of rec] by (simp add: unat_div_distrib unat_sat_sub less_eq_div_iff_mult_less_eq)
  show ?thesis
    by (cases "rc_max_occurrences rec"; cases "rc_until_ms rec")
       (auto simp: series_index_def series_last_def count time [symmetric] min_def word_le_nat_alt)
qed

text \<open>
  While the times fit sixty-four bits, the due instant is the latest instant of the series
  that has come and the upcoming one is the earliest that has not; each is missing exactly when
  the series has none such, within the tighter of its two bounds.
\<close>

theorem series_exact:
  assumes "unat now + unat (series_every rec) < 2 ^ 64"
  shows "(case sr_due (series_instants fire rec now) of
      None \<Rightarrow> now < fire
    | Some d \<Rightarrow> \<exists>k. series_index fire rec k \<and> unat d = series_instant fire rec k
        \<and> series_instant fire rec k \<le> unat now
        \<and> (\<forall>k'. series_index fire rec k' \<and> series_instant fire rec k' \<le> unat now \<longrightarrow> k' \<le> k))
    \<and> (case sr_upcoming (series_instants fire rec now) of
      None \<Rightarrow> \<forall>k. series_index fire rec k \<longrightarrow> series_instant fire rec k \<le> unat now
    | Some u \<Rightarrow> \<exists>k. series_index fire rec k \<and> unat u = series_instant fire rec k
        \<and> unat now < series_instant fire rec k
        \<and> (\<forall>k'. series_index fire rec k' \<and> unat now < series_instant fire rec k' \<longrightarrow> k \<le> k'))"
proof (cases "now < fire")
  case True
  then have lt: "unat now < unat fire" by (simp add: word_less_nat_alt)
  have "series_index fire rec 0" by (simp add: series_index_def)
  then have "\<exists>k. series_index fire rec k \<and> unat fire = series_instant fire rec k
      \<and> unat now < series_instant fire rec k
      \<and> (\<forall>k'. series_index fire rec k' \<and> unat now < series_instant fire rec k' \<longrightarrow> k \<le> k')"
    using lt by (intro exI [of _ 0]) (simp add: series_instant_def)
  with True show ?thesis by (simp add: series_instants_def Let_def)
next
  case False
  let ?e = "unat (series_every rec)" and ?f = "unat fire" and ?n = "unat now"
  let ?K = "(now - fire) div series_every rec"
  let ?D = "case series_last fire rec of None \<Rightarrow> ?K | Some l \<Rightarrow> min ?K l"
  let ?up = "(case series_last fire rec of None \<Rightarrow> True | Some l \<Rightarrow> ?D + 1 \<le> l) \<and> ?D = ?K"
  have fn: "?f \<le> ?n" using False by (simp add: word_less_nat_alt not_less)
  have e: "0 < ?e" by (rule every_pos)
  have K: "unat ?K = (?n - ?f) div ?e"
    using fn by (simp add: unat_div_distrib unat_sub word_le_nat_alt)
  have at: "series_instant fire rec k \<le> ?n \<longleftrightarrow> k \<le> unat ?K" for k
    using fn e K by (auto simp: series_instant_def less_eq_div_iff_mult_less_eq)
  have index: "series_index fire rec k \<longleftrightarrow> (case series_last fire rec of None \<Rightarrow> True | Some l \<Rightarrow> k \<le> unat l)" for k
    by (rule series_last_index)
  have D: "unat ?D \<le> unat ?K" "series_index fire rec (unat ?D)"
    "\<And>k. series_index fire rec k \<Longrightarrow> k \<le> unat ?K \<Longrightarrow> k \<le> unat ?D"
    by (auto simp: index min_def word_le_nat_alt split: option.splits)
  have word: "unat (fire + k * series_every rec) = series_instant fire rec (unat k)"
    if "series_instant fire rec (unat k) < 2 ^ 64" for k
    using that by (simp add: series_instant_def unat_word_ariths)
  have nlt: "?n < 2 ^ 64" using unsigned_less [of now] by simp
  have due: "unat (fire + ?D * series_every rec) = series_instant fire rec (unat ?D)"
    using at [of "unat ?D"] D(1) nlt by (intro word) linarith
  have res: "series_instants fire rec now = \<lparr> sr_due = Some (fire + ?D * series_every rec),
      sr_upcoming = (if ?up then Some (fire + (?D + 1) * series_every rec) else None) \<rparr>"
    using False by (simp add: series_instants_def Let_def)
  have "\<exists>k. series_index fire rec k \<and> unat (fire + ?D * series_every rec) = series_instant fire rec k
      \<and> series_instant fire rec k \<le> ?n
      \<and> (\<forall>k'. series_index fire rec k' \<and> series_instant fire rec k' \<le> ?n \<longrightarrow> k' \<le> k)"
    using D due at by (intro exI [of _ "unat ?D"]) auto
  moreover have "case (if ?up then Some (fire + (?D + 1) * series_every rec) else None) of
      None \<Rightarrow> \<forall>k. series_index fire rec k \<longrightarrow> series_instant fire rec k \<le> ?n
    | Some u \<Rightarrow> \<exists>k. series_index fire rec k \<and> unat u = series_instant fire rec k
        \<and> ?n < series_instant fire rec k
        \<and> (\<forall>k'. series_index fire rec k' \<and> ?n < series_instant fire rec k' \<longrightarrow> k \<le> k')"
  proof (cases ?up)
    case True
    then have DK: "?D = ?K" by simp
    have "series_instant fire rec (Suc (unat ?K)) = series_instant fire rec (unat ?K) + ?e"
      by (simp add: series_instant_def)
    with at [of "unat ?K"] assms have fit: "series_instant fire rec (Suc (unat ?K)) < 2 ^ 64" by linarith
    have "Suc (unat ?K) \<le> Suc (unat ?K) * ?e" using e by (cases ?e) simp_all
    also have "\<dots> \<le> series_instant fire rec (Suc (unat ?K))" by (simp add: series_instant_def)
    finally have "Suc (unat ?K) < 2 ^ 64" using fit by (rule le_less_trans)
    then have suc: "unat (?K + 1) = Suc (unat ?K)" using word_step [of ?K 0] by simp
    have "series_index fire rec (Suc (unat ?K))"
      using True DK suc by (auto simp: index word_le_nat_alt split: option.splits)
    moreover have "unat (fire + (?D + 1) * series_every rec) = series_instant fire rec (Suc (unat ?K))"
      using word [of "?K + 1"] suc fit unfolding DK by simp
    moreover have "?n < series_instant fire rec (Suc (unat ?K))" using at [of "Suc (unat ?K)"] by linarith
    moreover have "Suc (unat ?K) \<le> k" if "?n < series_instant fire rec k" for k
      using at [of k] that by linarith
    ultimately show ?thesis unfolding if_P [OF True] option.case by blast
  next
    case no: False
    have "k \<le> unat ?K" if "series_index fire rec k" for k
    proof (rule ccontr)
      assume "\<not> k \<le> unat ?K"
      then have "unat ?K < k" by simp
      have "?D = ?K"
        using that \<open>unat ?K < k\<close> index by (auto simp: min_def word_le_nat_alt split: option.splits)
      moreover have "case series_last fire rec of None \<Rightarrow> True | Some l \<Rightarrow> ?K + 1 \<le> l"
      proof (cases "series_last fire rec")
        case (Some l)
        then have "unat ?K < unat l" using that \<open>unat ?K < k\<close> index by auto
        then have "?K < l" by (simp add: word_less_nat_alt)
        then show ?thesis using Some by (simp add: inc_le)
      qed simp
      ultimately show False using no by (cases "series_last fire rec") auto
    qed
    then show ?thesis unfolding if_not_P [OF no] option.case using at by blast
  qed
  ultimately show ?thesis by (simp only: res series_at.simps option.case)
qed


section \<open>The display agrees with the plan\<close>

definition earliest :: "u64 list \<Rightarrow> u64 option" where
  "earliest ts = foldl min_wake None ts"

lemma candidates_agree:
  "map (\<lambda>c. (pc_fire_ms c, pc_identity_ms c, pc_walk c)) (fst (effect_candidates pe it ef ap))
     = fst (view_candidates (pe_items pe) (pe_journal pe) it ef ap (pe_now pe))
   \<and> snd (effect_candidates pe it ef ap)
     = fst (snd (view_candidates (pe_items pe) (pe_journal pe) it ef ap (pe_now pe)))"
  by (auto simp: effect_candidates_def view_candidates_def attempt_zero_def opt_list_def Let_def o_def
      split: option.splits)

lemma progress_agrees:
  "case resolve_candidate sha j i ef dg walk t of
     None \<Rightarrow> (case view_progress sha j i ef dg walk t of None \<Rightarrow> True
       | Some p \<Rightarrow> oc_terminal p \<noteq> None \<or> oc_started p \<noteq> None)
   | Some (occ, a, p) \<Rightarrow> view_progress sha j i ef dg walk t = Some p \<and> oc_terminal p = None
       \<and> oc_started p = None"
proof (cases "resolve_candidate sha j i ef dg walk t")
  case None
  then show ?thesis by (auto simp: resolve_candidate_def view_progress_def Let_def split: if_splits)
next
  case (Some r)
  obtain occ a p where r: "r = (occ, a, p)" by (cases r)
  from Some have "view_progress sha j i ef dg walk t = Some p"
    by (auto simp: r resolve_candidate_def view_progress_def Let_def split: if_splits)
  moreover have "oc_terminal p = None" "oc_started p = None"
    using resolve_Some [OF Some [unfolded r]] by blast+
  ultimately show ?thesis unfolding Some r by simp
qed

definition mirrors :: "u64 option \<times> u64 option \<Rightarrow> agenda_plan \<Rightarrow> bool" where
  "mirrors s p = (s = (earliest (map sw_fire_at_ms (pn_spawn p)), pn_next_wake_ms p))"

lemma step_mirrors:
  assumes "mirrors s p" "pe_flight pe = []"
  shows "mirrors (view_step (pe_sha pe) (pe_journal pe) it ef ap (staleness_ms (pe_policy pe)) (pe_now pe) s
      (pc_fire_ms c, pc_identity_ms c, pc_walk c)) (plan_candidate_step pe it ef ap False p c)"
proof -
  note agree = progress_agrees [of "pe_sha pe" "pe_journal pe" "it_id it" ef "ap_digest ap" "pc_walk c" "pc_identity_ms c"]
  obtain fires later where s: "s = (fires, later)" by (cases s)
  from assms(1) have mir: "fires = earliest (map sw_fire_at_ms (pn_spawn p))" "later = pn_next_wake_ms p"
    by (simp_all add: mirrors_def s)
  show ?thesis
  proof (cases "resolve_candidate (pe_sha pe) (pe_journal pe) (it_id it) ef (ap_digest ap) (pc_walk c)
      (pc_identity_ms c)")
    case None
    with agree have "case view_progress (pe_sha pe) (pe_journal pe) (it_id it) ef (ap_digest ap) (pc_walk c)
        (pc_identity_ms c) of None \<Rightarrow> True | Some p \<Rightarrow> oc_terminal p \<noteq> None \<or> oc_started p \<noteq> None" by simp
    then have "view_step (pe_sha pe) (pe_journal pe) it ef ap (staleness_ms (pe_policy pe)) (pe_now pe) s
        (pc_fire_ms c, pc_identity_ms c, pc_walk c) = s"
      unfolding view_step_def s prod.case by (auto split: option.split_asm option.split)
    moreover have "plan_candidate_step pe it ef ap False p c = p" by (simp add: plan_candidate_step_def None)
    ultimately show ?thesis using assms(1) by simp
  next
    case (Some r)
    obtain occ a pr where r: "r = (occ, a, pr)" by (cases r)
    have vp: "view_progress (pe_sha pe) (pe_journal pe) (it_id it) ef (ap_digest ap) (pc_walk c) (pc_identity_ms c)
        = Some pr" "oc_terminal pr = None" "oc_started pr = None"
      using agree unfolding Some r option.case prod.case by blast+
    have earliest_snoc: "earliest (map sw_fire_at_ms (pn_spawn p @ [spawn_of pe it ef ap c occ a]))
        = min_wake fires (pc_fire_ms c)"
      by (simp add: earliest_def mir spawn_of_def)
    show ?thesis
      using earliest_snoc mir
      unfolding view_step_def plan_candidate_step_def s Some r vp option.case prod.case assms(2) Let_def
      by (cases "oc_prepared pr"; cases "pe_now pe < pc_fire_ms c"; cases "mf_trigger (ef_manifest ef)";
          cases "staleness_ms (pe_policy pe) < sat_sub (pe_now pe) (pc_fire_ms c)")
         (simp_all add: mirrors_def vp consider_wake_def not_less leD linorder_not_le [THEN iffD2] del: map_append)
  qed
qed

text \<open>
  C35: the next fire the dashboard shows is the planner's: the earliest instant the next pass would
  start, or else the instant it would wake for, whenever nothing of the effect is running or in
  flight.
\<close>

theorem display_agrees:
  assumes "pe_flight pe = []" and "\<not> effect_overlap pe it ef"
  shows "ev_next_fire_ms (effect_planner_view (pe_sha pe) (pe_items pe) it ef (pe_journal pe)
      (staleness_ms (pe_policy pe)) (pe_now pe))
    = (let p = plan_effect pe it empty_plan ef in
       case earliest (map sw_fire_at_ms (pn_spawn p)) of None \<Rightarrow> pn_next_wake_ms p | Some f \<Rightarrow> Some f)"
proof -
  let ?none = "earliest (map sw_fire_at_ms (pn_spawn empty_plan)) = None \<and> pn_next_wake_ms empty_plan = None"
  have none: ?none by (simp add: empty_plan_def earliest_def)
  show ?thesis
  proof (cases "ef_approval ef")
    case None
    with none show ?thesis by (simp add: effect_planner_view_def plan_effect_def no_view_def)
  next
    case (Some ap)
    show ?thesis
    proof (cases "suspended ef")
      case True
      with Some none show ?thesis by (simp add: effect_planner_view_def plan_effect_def no_view_def)
    next
      case False
      obtain cs up where ec: "effect_candidates pe it ef ap = (cs, up)" by (cases "effect_candidates pe it ef ap")
      obtain vs up' trig where v: "view_candidates (pe_items pe) (pe_journal pe) it ef ap (pe_now pe)
          = (vs, up', trig)" by (rule prod_cases3)
      with candidates_agree [of pe it ef ap] ec
      have vc: "view_candidates (pe_items pe) (pe_journal pe) it ef ap (pe_now pe)
          = (map (\<lambda>c. (pc_fire_ms c, pc_identity_ms c, pc_walk c)) cs, up, trig)" by simp
      let ?start = "case up of None \<Rightarrow> empty_plan | Some u \<Rightarrow> consider_wake u empty_plan"
      have "mirrors (None, up) ?start"
        by (auto simp: mirrors_def empty_plan_def earliest_def consider_wake_def min_wake_def split: option.split)
      then have "mirrors (foldl (view_step (pe_sha pe) (pe_journal pe) it ef ap (staleness_ms (pe_policy pe))
            (pe_now pe)) (None, up) (map (\<lambda>c. (pc_fire_ms c, pc_identity_ms c, pc_walk c)) cs))
          (foldl (plan_candidate_step pe it ef ap False) ?start cs)"
      proof (induction cs rule: rev_induct)
        case (snoc c cs)
        then show ?case using step_mirrors [OF _ assms(1)] by simp
      qed simp
      then show ?thesis
        using Some False ec vc assms(2)
        by (simp add: effect_planner_view_def plan_effect_def mirrors_def Let_def)
    qed
  qed
qed

section \<open>Floors\<close>

text \<open>
  The floors of a trigger move when it fires and never what it is called: it is due no
  earlier than its cause, its arming and its cooldown, and whatever the last run of the effect
  becomes, the same items yield the same cause and batch, so the same occurrence.
\<close>

theorem floors_never_rename:
  assumes "trigger_due items it ef trig at started = Some d"
  shows "td_cause_ms d \<le> td_due_ms d \<and> arm_floor ef at \<le> td_due_ms d
    \<and> (\<forall>cd. cooldown_floor ef = Some cd \<longrightarrow> cd \<le> td_due_ms d)
    \<and> (\<forall>run n. \<exists>d'. trigger_due items it (ef\<lparr>ef_last_run := run, ef_consecutive_failures := n\<rparr>) trig at started
          = Some d' \<and> td_cause_ms d' = td_cause_ms d \<and> td_matched_item_ids d' = td_matched_item_ids d)"
proof -
  have fl: "c \<le> trigger_floored_due ef at c" "arm_floor ef at \<le> trigger_floored_due ef at c"
    "cooldown_floor ef = Some cd \<Longrightarrow> cd \<le> trigger_floored_due ef at c" for c cd
    by (auto simp: trigger_floored_due_def le_max_iff_disj split: option.split)
  have win: "latest_arrival cs \<le> trigger_floored_due ef at (sat_add (latest_arrival cs) trigger_batch_window_ms)" for cs
    using sat_add_mono fl(1) order_trans by blast
  have same: "trigger_matches it (ef\<lparr>ef_last_run := run, ef_consecutive_failures := n\<rparr>) kind tags arm st
      = trigger_matches it ef kind tags arm st"
    "arm_floor (ef\<lparr>ef_last_run := run, ef_consecutive_failures := n\<rparr>) at = arm_floor ef at"
    for run n kind tags arm st
    by (simp_all add: fun_eq_iff trigger_matches_def arm_floor_def)
  show ?thesis
  proof (cases trig)
    case OnUnblock
    with assms obtain c where "unblock_cause items (it_relies_on it) 0 = Some c"
      "d = \<lparr> td_due_ms = trigger_floored_due ef at c, td_cause_ms = c, td_matched_item_ids = [] \<rparr>"
      by (auto simp: trigger_due_def)
    with OnUnblock fl show ?thesis by (simp add: trigger_due_def)
  next
    case (OnItemMatch kind tags)
    with assms show ?thesis
      by (auto simp: trigger_due_def batch_due_def same win fl split: if_splits)
  qed
qed

section \<open>Reminders\<close>

definition reminder_ready :: "plan_env \<Rightarrow> due_occurrence \<Rightarrow> bool" where
  "reminder_ready pe d = (rp_enabled (pe_policy pe) \<and> (\<forall>q. pe_quiet_until pe = Some q \<longrightarrow> q \<le> pe_now pe)
     \<and> du_due_ms d \<le> pe_now pe
     \<and> oc_terminal (journal_progress (pe_journal pe) (du_occurrence_id d)) = None
     \<and> (\<exists>it \<in> set (pe_items pe). it_status it = Open \<and> it_due_ms it = Some (du_due_ms d)
          \<and> du_occurrence_id d = occurrence_id (pe_sha pe) (it_id it) (du_due_ms d)
          \<and> du_item_id d = it_id it \<and> du_title d = it_title it
          \<and> du_urgency d = urgency_for (pe_policy pe) (it_id it)))"

definition reminder_late :: "plan_env \<Rightarrow> due_occurrence \<Rightarrow> bool" where
  "reminder_late pe d = (\<not> oc_prepared (journal_progress (pe_journal pe) (du_occurrence_id d))
     \<and> staleness_ms (pe_policy pe) < sat_sub (pe_now pe) (du_due_ms d))"

definition reminder_of :: "plan_env \<Rightarrow> agenda_item \<Rightarrow> u64 \<Rightarrow> due_occurrence" where
  "reminder_of pe it due = \<lparr> du_occurrence_id = occurrence_id (pe_sha pe) (it_id it) due,
     du_item_id = it_id it, du_title = it_title it, du_due_ms = due,
     du_urgency = urgency_for (pe_policy pe) (it_id it) \<rparr>"

lemma reminder_of_simps [simp]:
  "du_occurrence_id (reminder_of pe it due) = occurrence_id (pe_sha pe) (it_id it) due"
  "du_due_ms (reminder_of pe it due) = due"
  by (simp_all add: reminder_of_def)

definition item_ready :: "plan_env \<Rightarrow> agenda_item \<Rightarrow> due_occurrence \<Rightarrow> bool" where
  "item_ready pe it d = (\<exists>due. it_due_ms it = Some due \<and> d = reminder_of pe it due
     \<and> it_status it = Open \<and> due \<le> pe_now pe \<and> (\<forall>q. pe_quiet_until pe = Some q \<longrightarrow> q \<le> pe_now pe)
     \<and> oc_terminal (journal_progress (pe_journal pe) (occurrence_id (pe_sha pe) (it_id it) due)) = None)"

definition gate_shut :: "plan_env \<Rightarrow> bool" where
  "gate_shut pe = (case pe_quiet_until pe of None \<Rightarrow> False | Some q \<Rightarrow> pe_now pe < q)"

lemma gate_shut: "gate_shut pe \<longleftrightarrow> \<not> (\<forall>q. pe_quiet_until pe = Some q \<longrightarrow> q \<le> pe_now pe)"
  by (auto simp: gate_shut_def not_le split: option.split)

lemma plan_reminder_at:
  fixes pe :: plan_env
  assumes "it_due_ms it = Some due"
  defines "d \<equiv> reminder_of pe it due"
  shows "pn_deliver (plan_reminder pe p it) = pn_deliver p
      @ (if item_ready pe it d \<and> \<not> reminder_late pe d then [d] else [])"
    and "pn_digest (plan_reminder pe p it) = pn_digest p
      @ (if item_ready pe it d \<and> reminder_late pe d then [d] else [])"
proof -
  have ready: "item_ready pe it d \<longleftrightarrow> it_status it = Open \<and> due \<le> pe_now pe \<and> \<not> gate_shut pe
      \<and> oc_terminal (journal_progress (pe_journal pe) (occurrence_id (pe_sha pe) (it_id it) due)) = None"
    by (simp add: item_ready_def assms gate_shut)
  have late: "reminder_late pe d \<longleftrightarrow> \<not> oc_prepared (journal_progress (pe_journal pe) (occurrence_id (pe_sha pe) (it_id it) due))
      \<and> staleness_ms (pe_policy pe) < sat_sub (pe_now pe) due"
    by (simp add: reminder_late_def d_def)
  show "pn_deliver (plan_reminder pe p it) = pn_deliver p
      @ (if item_ready pe it d \<and> \<not> reminder_late pe d then [d] else [])"
    and "pn_digest (plan_reminder pe p it) = pn_digest p
      @ (if item_ready pe it d \<and> reminder_late pe d then [d] else [])"
    unfolding ready late
    by (auto simp: plan_reminder_def assms consider_wake_def gate_shut_def reminder_of_def not_less Let_def
        split: option.split)
qed

lemma reminder_step:
  "set (pn_deliver (plan_reminder pe p it)) = set (pn_deliver p) \<union> {d. item_ready pe it d \<and> \<not> reminder_late pe d}"
  "set (pn_digest (plan_reminder pe p it)) = set (pn_digest p) \<union> {d. item_ready pe it d \<and> reminder_late pe d}"
proof (atomize (full), cases "it_due_ms it")
  case None
  then show "set (pn_deliver (plan_reminder pe p it)) = set (pn_deliver p) \<union> {d. item_ready pe it d \<and> \<not> reminder_late pe d}
    \<and> set (pn_digest (plan_reminder pe p it)) = set (pn_digest p) \<union> {d. item_ready pe it d \<and> reminder_late pe d}"
    by (simp add: plan_reminder_def item_ready_def)
next
  case (Some due)
  have "item_ready pe it d \<Longrightarrow> d = reminder_of pe it due" for d
    using Some by (auto simp: item_ready_def)
  then show "set (pn_deliver (plan_reminder pe p it)) = set (pn_deliver p) \<union> {d. item_ready pe it d \<and> \<not> reminder_late pe d}
    \<and> set (pn_digest (plan_reminder pe p it)) = set (pn_digest p) \<union> {d. item_ready pe it d \<and> reminder_late pe d}"
    unfolding plan_reminder_at [OF Some] by auto
qed

lemma reminder_fold:
  "set (pn_deliver (foldl (plan_reminder pe) p its))
    = set (pn_deliver p) \<union> {d. (\<exists>it \<in> set its. item_ready pe it d) \<and> \<not> reminder_late pe d}"
  "set (pn_digest (foldl (plan_reminder pe) p its))
    = set (pn_digest p) \<union> {d. (\<exists>it \<in> set its. item_ready pe it d) \<and> reminder_late pe d}"
  by (induction its arbitrary: p) (simp_all add: reminder_step, blast+)

lemma put_reminders:
  "pn_deliver (foldl put_verdict p vs) = pn_deliver p" "pn_digest (foldl put_verdict p vs) = pn_digest p"
proof (induction vs arbitrary: p)
  case (Cons v vs)
  {
    case 1
    show ?case using Cons.IH(1) by (cases v) (auto simp: consider_wake_def)
  next
    case 2
    show ?case using Cons.IH(2) by (cases v) (auto simp: consider_wake_def)
  }
qed simp_all

lemma ready_items: "rp_enabled (pe_policy pe) \<Longrightarrow> reminder_ready pe d \<longleftrightarrow> (\<exists>it \<in> set (pe_items pe). item_ready pe it d)"
proof -
  have "item_ready pe it d \<longleftrightarrow> it_status it = Open \<and> it_due_ms it = Some (du_due_ms d)
      \<and> du_occurrence_id d = occurrence_id (pe_sha pe) (it_id it) (du_due_ms d)
      \<and> du_item_id d = it_id it \<and> du_title d = it_title it \<and> du_urgency d = urgency_for (pe_policy pe) (it_id it)
      \<and> du_due_ms d \<le> pe_now pe \<and> (\<forall>q. pe_quiet_until pe = Some q \<longrightarrow> q \<le> pe_now pe)
      \<and> oc_terminal (journal_progress (pe_journal pe) (du_occurrence_id d)) = None" for it
    unfolding item_ready_def reminder_of_def by (cases d) auto
  then show "rp_enabled (pe_policy pe) \<Longrightarrow> reminder_ready pe d \<longleftrightarrow> (\<exists>it \<in> set (pe_items pe). item_ready pe it d)"
    unfolding reminder_ready_def by blast
qed

text \<open>
  A pass delivers exactly the due, unspent reminders of open items, one by one when they are
  within the staleness window or were already being delivered, in one digest otherwise, and
  none while the policy is off or a quiet window is open.
\<close>

theorem reminders_exact:
  "set (pn_deliver (plan pe)) = {d. reminder_ready pe d \<and> \<not> reminder_late pe d}
   \<and> set (pn_digest (plan pe)) = {d. reminder_ready pe d \<and> reminder_late pe d}"
proof (cases "rp_enabled (pe_policy pe)")
  case True
  then show ?thesis
    by (auto simp: plan_def Let_def sessions_put reminder_fold put_reminders ready_items empty_plan_def)
next
  case False
  then have "plan pe = foldl put_verdict empty_plan (session_verdicts pe)"
    by (simp add: plan_def Let_def sessions_put)
  then show ?thesis using False by (simp add: put_reminders empty_plan_def reminder_ready_def)
qed

end
