(* ===== verification/PlannerDemo.thy ===== *)
theory PlannerDemo
  imports PlannerDisplay
begin

text \<open>
  The planner and its journal at work: a journal with one row, a ledger with a watcher and an
  item it matches, and the theorems of the planner applied to them.
\<close>

section \<open>A journal of one row\<close>

definition demo_row :: "occurrence_state \<Rightarrow> string \<Rightarrow> occurrence_record" where
  "demo_row s occ = \<lparr> oj_v = 1, oj_at_ms = 5, oj_occurrence_id = occ, oj_item_id = ''w'', oj_due_ms = 20,
     oj_state = s, oj_urgency = None, oj_session_id = None, oj_generation = None, oj_boot_id = None,
     oj_attempt = None \<rparr>"

definition demo_journal_env :: "string \<Rightarrow> journal_env" where
  "demo_journal_env occ = \<lparr> je_value = (\<lambda>_. None),
     je_typed = (\<lambda>l. if l = ''p'' then Some (demo_row Prepared occ)
        else if l = ''f'' then Some (demo_row Failed occ) else None),
     je_encode = (\<lambda>r. if r = demo_row Prepared occ then Some ''p'' else Some ''f'') \<rparr>"

definition demo_journal :: "string \<Rightarrow> string \<Rightarrow> io_step list \<Rightarrow> occurrence_journal" where
  "demo_journal occ bytes io = (snd (open_journal (demo_journal_env occ) bytes []))\<lparr>jn_io := io\<rparr>"

lemma demo_row_encodes: "jencodes (demo_journal_env occ) (stamped None (demo_row Prepared occ)) ''p''"
proof -
  have "trim ''p'' = ''p''" by code_simp
  then show ?thesis by (simp add: jencodes_def demo_journal_env_def stamped_def newline_def)
qed

lemma demo_journal:
  "jn_disk (demo_journal occ d io) = d" "jview (demo_journal occ d io) = fold_journal (demo_journal_env occ) d"
  "jn_stamp (demo_journal occ d io) = None" "jn_io (demo_journal occ d io) = io"
  by (simp_all add: demo_journal_def open_journal_def reread_def jn_step_def jn_next_def jn_then_def
      jn_load_def jview_def split: prod.split)

theorem journal_append_replays_witness:
  "\<exists>j'. journal_append (demo_journal_env ''o'') (demo_row Prepared ''o'')
       (demo_journal ''o'' ''f'' [\<lparr> is_foreign = ''f'', is_fail = None \<rparr>]) = (Inr (), j')
     \<and> jn_disk j' = [CHR ''f'', CHR ''f'', newline, CHR ''p'', newline]"
proof -
  let ?j = "demo_journal ''o'' ''f'' [\<lparr> is_foreign = ''f'', is_fail = None \<rparr>]"
  have "lock_held True ?j" "arrived ?j = ''f''"
    by (simp_all add: lock_held_def locked_def arrived_def demo_journal)
  with journal_append_replays [of "demo_journal_env ''o''" ?j "demo_row Prepared ''o''" "''p''" "''ff''"]
    demo_row_encodes [of "''o''"]
  show ?thesis by (auto simp: demo_journal terminated_def ended_def newline_def)
qed

theorem journal_append_recovers_witness:
  "\<exists>r. jn_disk (snd (journal_append (demo_journal_env ''o'') (demo_row Prepared ''o'')
       (demo_journal ''o'' ''f'' [\<lparr> is_foreign = ''f'', is_fail = Some 0 \<rparr>]))) = ''ff'' @ r"
proof -
  let ?j = "demo_journal ''o'' ''f'' [\<lparr> is_foreign = ''f'', is_fail = Some 0 \<rparr>]"
  have "lock_held False ?j" "arrived ?j = ''f''"
    by (simp_all add: lock_held_def locked_def arrived_def demo_journal)
  with journal_append_recovers [of "demo_journal_env ''o''" "[]" ?j "demo_row Prepared ''o''" "''p''"]
    demo_row_encodes [of "''o''"]
  show ?thesis by (auto simp: demo_journal)
qed

theorem occurrence_cursor_stable_witness:
  "\<exists>pg. occurrences_page (demo_journal_env ''o'') 0 None 1 [CHR ''p'', newline, CHR ''f''] = pg
     \<and> page_from (occurrence_entry (demo_journal_env ''o'') None) 0 0
         (lines (complete_journal_prefix [CHR ''p'', newline, CHR ''f'', newline]))
       = op_occurrences pg @ page_from (occurrence_entry (demo_journal_env ''o'') None) (op_next_since pg) 0
         (lines (complete_journal_prefix [CHR ''p'', newline, CHR ''f'', newline]))"
proof -
  have "length (lines (complete_journal_prefix ([CHR ''p'', newline, CHR ''f''] @ [newline]))) = 2"
    by code_simp
  with occurrence_cursor_stable [of "demo_journal_env ''o''" 0 None 1 "[CHR ''p'', newline, CHR ''f'']" _ "[newline]", OF refl]
  show ?thesis by simp
qed

section \<open>A watcher and what it matches\<close>

definition demo_at :: "u64 \<Rightarrow> agenda_op \<Rightarrow> op_record" where
  "demo_at t op = (rec_of op)\<lparr>or_at_ms := t\<rparr>"

definition demo_watch :: session_manifest where
  "demo_watch = demo_manifest\<lparr>mf_recurrence := None, mf_trigger := Some (OnItemMatch Task [])\<rparr>"

definition demo_ledger :: "agenda_item btree" where
  "demo_ledger = fold_records demo_dig []
     [demo_at 5 (OpAdd ''w'' Task ''t'' [] [] None None), demo_at 6 (OpProposeEffect ''w'' ''e'' demo_watch),
      demo_at 7 (OpApproveEffect ''w'' ''e'' ''wetidy''), demo_at 20 (OpAdd ''x'' Task ''u'' [] [] (Some 90000) None)]"

definition demo_pe :: "occurrence_journal \<Rightarrow> plan_env" where
  "demo_pe j = \<lparr> pe_sha = id, pe_items = map snd demo_ledger, pe_journal = j, pe_policy = default_policy,
     pe_now = 100000, pe_quiet_until = None, pe_flight = [], pe_flight_effects = [] \<rparr>"

definition demo_fresh :: occurrence_journal where
  "demo_fresh = demo_journal ''o'' [] []"

definition demo_spawn :: spawn_occurrence where
  "demo_spawn = hd (pn_spawn (plan (demo_pe demo_fresh)))"

lemma demo_ids: "map (\<lambda>it. (it_id it, it_status it, it_due_ms it)) (map snd demo_ledger)
   = [(''w'', Open, None), (''x'', Open, Some 90000)]"
  by (simp add: demo_simps demo_ledger_def demo_at_def demo_watch_def)

definition demo_w :: agenda_item where "demo_w = snd (demo_ledger ! 0)"
definition demo_x :: agenda_item where "demo_x = snd (demo_ledger ! 1)"

lemma demo_ledger: "demo_ledger = [(''w'', demo_w), (''x'', demo_x)]"
  by (simp add: demo_simps demo_ledger_def demo_at_def demo_watch_def demo_w_def demo_x_def)

lemma demo_x:
  "it_id demo_x = ''x''" "it_status demo_x = Open" "it_kind demo_x = Task" "it_due_ms demo_x = Some 90000"
  "pv_created_ms (it_provenance demo_x) = 20" "it_annotations demo_x = []" "it_effects demo_x = []"
  "at_session_id (it_provenance demo_x) = None"
  by (simp_all add: demo_simps demo_ledger_def demo_at_def demo_watch_def demo_w_def demo_x_def)

lemma demo_w:
  "it_id demo_w = ''w''" "it_status demo_w = Open" "it_due_ms demo_w = None"  "it_title demo_w = ''t''"
  "at_session_id (it_provenance demo_w) = None"
  by (simp_all add: demo_simps demo_ledger_def demo_at_def demo_watch_def demo_w_def demo_x_def)

definition demo_e :: agenda_effect where "demo_e = hd (it_effects demo_w)"

lemma demo_e:
  "it_effects demo_w = [demo_e]" "ef_effect_id demo_e = ''e''" "ef_manifest demo_e = demo_watch"
  "map_option ap_at_ms (ef_approval demo_e) = Some 7" "map_option ap_digest (ef_approval demo_e) = Some ''wetidy''"
  "ef_requested demo_e = []" "ef_last_run demo_e = None" "\<not> suspended demo_e"
  by (simp_all add: demo_simps demo_ledger_def demo_at_def demo_watch_def demo_w_def demo_x_def demo_e_def
      default_suspend_after_failures_def)

lemma demo_fresh: "jn_state demo_fresh = []"
proof -
  have "lines [] = []" by code_simp
  then show ?thesis
    by (simp add: demo_fresh_def demo_journal_def open_journal_def reread_def jn_step_def jn_next_def jn_then_def
      jn_load_def fold_journal_def)
qed

definition demo_occ :: string where
  "demo_occ = session_occurrence_id id ''w'' ''e'' ''wetidy'' 20 0"

lemma demo_due: "live_or_retry [demo_w, demo_x] demo_fresh demo_w demo_e (OnItemMatch Task []) 7
   = Some \<lparr> td_due_ms = 60020, td_cause_ms = 20, td_matched_item_ids = [''x''] \<rparr>"
  by (simp add: live_or_retry_def trigger_due_def batch_due_def trigger_matches_def demo_x demo_w demo_e
      demo_watch_def demo_manifest_def arm_floor_def started_sessions_for_item_def demo_fresh trigger_consumed_def
      latest_arrival_def trigger_floored_due_def cooldown_floor_def trigger_batch_window_ms_def sat_add_def)

lemma demo_candidate:
  assumes "ef_approval demo_e = Some ap"
  shows "effect_candidates (demo_pe demo_fresh) demo_w demo_e ap = ([\<lparr> pc_fire_ms = 60020, pc_identity_ms = 20,
     pc_recurring = True, pc_walk = True, pc_batch = [''x''] \<rparr>], None)"
proof -
  have "ap_at_ms ap = 7" using demo_e(4) assms by simp
  then show ?thesis
    using demo_due by (simp add: effect_candidates_def demo_pe_def demo_ledger demo_e demo_watch_def opt_list_def)
qed

lemma demo_resolve: "resolve_candidate id demo_fresh ''w'' demo_e ''wetidy'' True 20 = Some (demo_occ, 0, no_progress)"
proof -
  have "map (of_nat :: nat \<Rightarrow> u32) [0..<max_cause_regenerations] = [0, 1, 2]"
    by (simp add: max_cause_regenerations_def upt_rec numeral_eq_Suc)
  then show ?thesis
    by (simp add: resolve_candidate_def walk_cause_attempts_def demo_e demo_occ_def journal_progress_def
      progress_in_def demo_fresh no_progress_def)
qed

lemma demo_plan:
  "\<exists>s. pn_spawn (plan (demo_pe demo_fresh)) = [s] \<and> sw_occurrence_id s = demo_occ
     \<and> sw_matched_item_ids s = [''x''] \<and> sw_goal s = ''tidy''"
proof -
  obtain ap where ap: "ef_approval demo_e = Some ap" "ap_digest ap = ''wetidy''"
    using demo_e(4,5) by (cases "ef_approval demo_e") auto
  let ?pe = "demo_pe demo_fresh"
  have simps: "pe_items ?pe = [demo_w, demo_x]" "pe_flight ?pe = []" "pe_flight_effects ?pe = []"
    "pe_journal ?pe = demo_fresh" "pe_now ?pe = 100000" "pe_sha ?pe = id"
    by (simp_all add: demo_pe_def demo_ledger)
  have "\<not> effect_overlap ?pe demo_w demo_e"
    by (simp add: effect_overlap_def simps in_flight_def demo_e started_unresolved_for_item_def demo_fresh)
  then have w: "\<exists>s. pn_spawn (plan_item ?pe empty_plan demo_w) = [s] \<and> sw_occurrence_id s = demo_occ
     \<and> sw_matched_item_ids s = [''x''] \<and> sw_goal s = ''tidy''"
    by (simp add: plan_item_def demo_w demo_e plan_effect_def ap demo_candidate [OF ap(1)] plan_candidate_step_def
      simps demo_resolve no_progress_def Let_def spawn_of_def empty_plan_def demo_watch_def demo_manifest_def)
  have "pn_spawn (plan ?pe) = pn_spawn (plan_item ?pe empty_plan demo_w)"
    using reminders_same [of ?pe "plan_item ?pe empty_plan demo_w" "[demo_w, demo_x]"] demo_x(2,7)
    by (simp add: plan_def simps Let_def same_sessions_def plan_item_def [of ?pe _ demo_x])
  with w show ?thesis by simp
qed

lemma demo_ok: "ledger_ok demo_dig demo_ledger"
  unfolding demo_ledger_def by (rule fold_records_ok [OF ledger_ok_empty])

theorem spawns_are_approved_witness:
  "\<exists>s (it :: agenda_item) (ef :: agenda_effect) ap. s \<in> set (pn_spawn (plan (demo_pe demo_fresh)))
     \<and> bt_get demo_ledger (it_id it) = Some it \<and> ef \<in> set (it_effects it) \<and> ef_approval ef = Some ap
     \<and> ap_digest ap = demo_dig (it_id it) (ef_effect_id ef) (ef_manifest ef)"
proof -
  obtain s where s: "s \<in> set (pn_spawn (plan (demo_pe demo_fresh)))" using demo_plan by auto
  have "pe_items (demo_pe demo_fresh) = map snd demo_ledger" by (simp add: demo_pe_def)
  from spawns_are_approved [OF s demo_ok this] s show ?thesis by blast
qed

theorem attempts_bounded_witness:
  "\<exists>s \<in> set (pn_spawn (plan (demo_pe demo_fresh))). unat (sw_attempt s) < 3"
  using demo_plan attempts_bounded [of _ "demo_pe demo_fresh"] by (metis list.set_intros(1))

theorem batch_provenance_witness:
  "\<exists>(it :: agenda_item) (ef :: agenda_effect) ap x. it \<in> set (pe_items (demo_pe demo_fresh))
     \<and> ef \<in> set (it_effects it) \<and> it_id x = ''x''
     \<and> (arrived_fresh (demo_pe demo_fresh) it ef ap x \<or> retried ef x)"
proof -
  obtain s where s: "s \<in> set (pn_spawn (plan (demo_pe demo_fresh)))" "''x'' \<in> set (sw_matched_item_ids s)"
    using demo_plan by auto
  from batch_provenance [OF s] show ?thesis by blast
qed

theorem never_started_twice_witness:
  "demo_occ \<in> sw_occurrence_id ` set (pn_spawn (plan (demo_pe demo_fresh)))
   \<and> demo_occ \<notin> sw_occurrence_id ` set (pn_spawn (plan (demo_pe
        (demo_journal demo_occ [CHR ''p'', newline] []))))"
proof -
  let ?w = "demo_journal_env demo_occ" and ?d = "[CHR ''p'', newline]"
  have "lines ?d = [''p'']" "trim ''p'' = ''p''" by code_simp+
  then have "touched (progress_in (fst (fold_journal ?w ?d)) demo_occ)"
    by (simp add: fold_journal_def journal_line_def demo_journal_env_def demo_row_def fold_entry_def
        progress_in_def fold_record_into_def no_progress_def touched_def Let_def)
  moreover have "ended ?d" by (simp add: ended_def)
  moreover have "jview (pe_journal (demo_pe (demo_journal demo_occ ?d []))) = fold_journal ?w (?d @ [])"
    by (simp add: demo_pe_def demo_journal)
  ultimately show ?thesis
    using never_started_twice [of ?d ?w demo_occ "demo_pe (demo_journal demo_occ ?d [])" "[]"] demo_plan by auto
qed

theorem nothing_forgotten_witness:
  "\<exists>ap. ef_approval demo_e = Some ap
     \<and> (spawn_of (demo_pe demo_fresh) demo_w demo_e ap (hd (fst (effect_candidates (demo_pe demo_fresh) demo_w demo_e ap)))
          demo_occ 0 \<in> set (pn_spawn (plan (demo_pe demo_fresh)))
            \<union> set (pn_missed_sessions (plan (demo_pe demo_fresh))) \<union> set (pn_crashed (plan (demo_pe demo_fresh)))
        \<or> effect_overlap (demo_pe demo_fresh) demo_w demo_e)"
proof -
  let ?pe = "demo_pe demo_fresh"
  obtain ap where ap: "ef_approval demo_e = Some ap" "ap_digest ap = ''wetidy''"
    using demo_e(4,5) by (cases "ef_approval demo_e") auto
  let ?c = "hd (fst (effect_candidates ?pe demo_w demo_e ap))"
  have simps: "demo_w \<in> set (pe_items ?pe)" "pe_flight ?pe = []" "pe_journal ?pe = demo_fresh"
    "pe_now ?pe = 100000" "pe_sha ?pe = id"
    by (simp_all add: demo_pe_def demo_ledger)
  have c: "?c \<in> set (fst (effect_candidates ?pe demo_w demo_e ap))" "pc_walk ?c" "pc_identity_ms ?c = 20"
    "pc_fire_ms ?c = 60020" by (simp_all add: demo_candidate [OF ap(1)])
  have r: "resolve_candidate (pe_sha ?pe) (pe_journal ?pe) (it_id demo_w) demo_e (ap_digest ap) (pc_walk ?c)
      (pc_identity_ms ?c) = Some (demo_occ, 0, no_progress)"
    using demo_resolve c by (simp add: simps demo_w ap(2))
  have "demo_e \<in> set (it_effects demo_w)" by (simp add: demo_e)
  from nothing_forgotten [OF simps(1) demo_w(2) this ap(1) demo_e(8)] c r ap(1) simps(2)
  show ?thesis by (fastforce simp: simps(4))
qed

theorem display_agrees_witness:
  "ev_next_fire_ms (effect_planner_view id [demo_w, demo_x] demo_w demo_e demo_fresh (staleness_ms default_policy) 100000)
    = (let p = plan_effect (demo_pe demo_fresh) demo_w empty_plan demo_e in
       case earliest (map sw_fire_at_ms (pn_spawn p)) of None \<Rightarrow> pn_next_wake_ms p | Some f \<Rightarrow> Some f)"
proof -
  let ?pe = "demo_pe demo_fresh"
  have simps: "pe_items ?pe = [demo_w, demo_x]" "pe_flight ?pe = []" "pe_flight_effects ?pe = []"
    "pe_journal ?pe = demo_fresh" "pe_now ?pe = 100000" "pe_sha ?pe = id" "pe_policy ?pe = default_policy"
    by (simp_all add: demo_pe_def demo_ledger)
  have "\<not> effect_overlap ?pe demo_w demo_e"
    by (simp add: effect_overlap_def simps in_flight_def demo_e started_unresolved_for_item_def demo_fresh)
  from display_agrees [OF simps(2) this] show ?thesis by (simp only: simps)
qed

theorem floors_never_rename_witness:
  "\<exists>d'. trigger_due [demo_w, demo_x] demo_w (demo_e\<lparr>ef_last_run := None, ef_consecutive_failures := 2\<rparr>)
       (OnItemMatch Task []) 7 [] = Some d' \<and> td_cause_ms d' = 20"
proof -
  have "trigger_due [demo_w, demo_x] demo_w demo_e (OnItemMatch Task []) 7 []
      = Some \<lparr> td_due_ms = 60020, td_cause_ms = 20, td_matched_item_ids = [''x''] \<rparr>"
    using demo_due by (simp add: live_or_retry_def started_sessions_for_item_def demo_fresh on_item_match_retry_due_def
        demo_e demo_watch_def split: option.splits)
  from floors_never_rename [OF this] show ?thesis by fastforce
qed

theorem series_exact_witness:
  "case sr_due (series_instants 10 \<lparr> rc_every_ms = 60, rc_until_ms = None, rc_max_occurrences = Some 3,
        rc_suspend_after = None \<rparr> 100) of
     None \<Rightarrow> False
   | Some d \<Rightarrow> \<exists>k. series_index 10 \<lparr> rc_every_ms = 60, rc_until_ms = None, rc_max_occurrences = Some 3,
        rc_suspend_after = None \<rparr> k \<and> unat d = 10 + k * 60 \<and> unat d \<le> 100"
proof -
  let ?r = "\<lparr> rc_every_ms = 60, rc_until_ms = None, rc_max_occurrences = Some 3, rc_suspend_after = None \<rparr>"
  have e: "unat (series_every ?r) = 60" by (simp add: series_every_def)
  have "\<not> (100 :: u64) < 10" by simp
  with series_exact [of 100 ?r 10] e show ?thesis
    by (auto simp: series_instant_def split: option.splits)
qed

section \<open>The slice and the whole\<close>

text \<open>
  A watcher whose run failed after it took \<open>x\<close>: \<open>x\<close> bears its marker and the retry is pending.
\<close>

definition demo_retry :: "agenda_item btree" where
  "demo_retry = fold_records demo_dig demo_ledger
     [(demo_at 90000 (OpAnnotate ''x'' ''trigger-consumed effect=e occurrence=o at 90000''))
        \<lparr>or_actor := Some daemon_actor, or_source := Some trigger_consumed_source\<rparr>,
      demo_at 95000 (OpRecordOccurrence ''w'' ''e'' ''o'' ''failed'' None None)]"

definition retry_w :: agenda_item where "retry_w = snd (demo_retry ! 0)"
definition retry_x :: agenda_item where "retry_x = snd (demo_retry ! 1)"
definition retry_e :: agenda_effect where "retry_e = hd (it_effects retry_w)"

lemmas retry_simps = demo_simps demo_retry_def demo_ledger_def demo_at_def demo_watch_def retry_w_def retry_x_def
  retry_e_def fold_annotate_def add_note_def new_annotation_def default_suspend_after_failures_def

lemma demo_retry: "demo_retry = [(''w'', retry_w), (''x'', retry_x)]"
  by (simp add: retry_simps)

lemma retry_w:
  "it_id retry_w = ''w''" "it_status retry_w = Open" "it_due_ms retry_w = None" "it_title retry_w = ''t''"
  "it_effects retry_w = [retry_e]" "it_annotations retry_w = []"
  by (simp_all add: retry_simps)

lemma retry_e:
  "ef_effect_id retry_e = ''e''" "ef_manifest retry_e = demo_watch" "ef_requested retry_e = []"
  "map_option ap_at_ms (ef_approval retry_e) = Some 7"
  "map_option (\<lambda>r. (rn_state r, rn_occurrence_id r, rn_at_ms r)) (ef_last_run retry_e) = Some (''failed'', ''o'', 95000)"
  "\<not> suspended retry_e"
  by (simp_all add: retry_simps word_le_nat_alt)

lemma retry_x:
  "it_id retry_x = ''x''" "it_status retry_x = Open" "it_effects retry_x = []"
  "pv_created_ms (it_provenance retry_x) = 20" "it_kind retry_x = Task"
  "map (\<lambda>n. (consumed_note n, an_text n)) (it_annotations retry_x)
    = [(True, ''trigger-consumed effect=e occurrence=o at 90000'')]"
  by (simp_all add: retry_simps consumed_note_def daemon_actor_def)

lemma retry_consumed:
  "trigger_consumed retry_x ''e''" "trigger_consumed_markers retry_x = [(''e'', ''o'')]"
proof -
  obtain n where n: "it_annotations retry_x = [n]" "consumed_note n"
      "an_text n = ''trigger-consumed effect=e occurrence=o at 90000''"
    using retry_x(6) by auto
  have "starts_with ''trigger-consumed effect=e occurrence=o at 90000''
      (trigger_consumed_prefix @ ''effect='' @ ''e'' @ '' '')" by code_simp
  then show "trigger_consumed retry_x ''e''" by (simp add: trigger_consumed_def n)
  have "parse_marker ''trigger-consumed effect=e occurrence=o at 90000'' = Some (''e'', ''o'')" by code_simp
  then show "trigger_consumed_markers retry_x = [(''e'', ''o'')]"
    by (simp add: trigger_consumed_markers_def n opt_list_def)
qed

lemma retry_due:
  "trigger_due [retry_w, retry_x] retry_w retry_e (OnItemMatch Task []) 7 [] = None"
  "on_item_match_retry_due [retry_w, retry_x] retry_e 7
   = Some \<lparr> td_due_ms = 995000, td_cause_ms = 20, td_matched_item_ids = [''x''] \<rparr>"
proof -
  obtain run where run: "ef_last_run retry_e = Some run" "rn_state run = ''failed''"
      "rn_occurrence_id run = ''o''" "rn_at_ms run = 95000"
    using retry_e(5) by auto
  show "trigger_due [retry_w, retry_x] retry_w retry_e (OnItemMatch Task []) 7 [] = None"
    by (simp add: trigger_due_def batch_due_def trigger_matches_def retry_w(1) retry_e(1) retry_x retry_consumed)
  have "trigger_consumed_markers retry_w = []" by (simp add: trigger_consumed_markers_def retry_w(6))
  then show "on_item_match_retry_due [retry_w, retry_x] retry_e 7
      = Some \<lparr> td_due_ms = 995000, td_cause_ms = 20, td_matched_item_ids = [''x''] \<rparr>"
    by (simp add: on_item_match_retry_due_def retry_e demo_watch_def run consumed_by_def retry_consumed batch_due_def
        latest_arrival_def retry_x trigger_floored_due_def cooldown_floor_def arm_floor_def demo_manifest_def
        trigger_cooldown_ms_def recurrence_min_every_ms_def sat_add_def trigger_batch_window_ms_def)
qed

text \<open>
  The same item is shown as watched in the whole list and as nobody's when it is stamped on
  its own: after a failed run the whole list names the automation that will retry the items it
  took, while a single item, stamped against the same ledger at the same instant, is claimed
  through the live derivation only, which a taken item never matches again.
\<close>

theorem slice_forgets_retry:
  "map it_watched_by (decorate_planner_fields id None (map snd demo_retry) demo_fresh default_policy 100000 m)
     = [None, Some \<lparr> wb_watcher_item_id = ''w'', wb_watcher_title = ''t'', wb_effect_id = ''e'',
         wb_due_ms = Some 995000 \<rparr>]
   \<and> map it_watched_by (decorate_planner_fields id (Some (map snd demo_retry)) [snd (demo_retry ! 1)]
       demo_fresh default_policy 100000 m) = [None]"
proof -
  obtain ap where ap: "ef_approval retry_e = Some ap" "ap_at_ms ap = 7"
    using retry_e(4) by (cases "ef_approval retry_e") auto
  have none: "started_sessions_for_item demo_fresh i = []" for i
    by (simp add: started_sessions_for_item_def demo_fresh)
  have idle: "consumed_claim u demo_fresh retry_w = None" "consumed_claim u demo_fresh retry_x = None" for u
    by (simp_all add: consumed_claim_def trigger_consumed_markers_def [of retry_w] retry_w(6) retry_consumed
        journal_progress_def progress_in_def demo_fresh no_progress_def)
  have "ev_trigger (effect_planner_view id [retry_w, retry_x] retry_w retry_e demo_fresh s n)
      = Some \<lparr> td_due_ms = 995000, td_cause_ms = 20, td_matched_item_ids = [''x''] \<rparr>" for s n
    by (simp add: effect_planner_view_def ap retry_e view_candidates_def demo_watch_def live_or_retry_def none
        retry_due Let_def split: prod.split)
  then show ?thesis
    by (simp add: decorate_planner_fields_def demo_retry planner_views_def retry_w retry_x idle claim_view_def
        claim_watched_def claim_one_def claim_outside_def claim_context_def ap retry_e demo_watch_def none retry_due Let_def)
qed

end
