(* ===== verification/AgendaScheduler.thy ===== *)
theory AgendaScheduler
  imports AgendaPlanner "HOL-Library.AList" "HOL-Library.Product_Lexorder"
begin

text \<open>
  The scheduler of the agenda (\<open>scheduler.rs\<close>): what the driver around the planner keeps in memory
  and does on each pass, each sweep and each event of the bus. What it reads from the outside is in
  the state as a schedule: the clock (\<open>sd_clock\<close>), the resume lineage of a session
  (\<open>sd_lineages\<close>), the failures and foreign writes of the journal and the store; what it sends is
  \<open>sd_bus\<close>. A \<open>HashMap\<close> is an association list whose order, that of iteration, nothing relies
  on. Project resolution and seal verification are arguments. The items the planner reads are the
  store's, without the display fields \<open>decorate_planner_fields\<close> stamps, which the planner ignores. The
  \<open>AgendaChanged\<close> broadcasts of the handle, which the scheduler does not read, are left out.
\<close>

section \<open>What is remembered\<close>

definition delegation_prefix :: string where "delegation_prefix = ''agenda-occ-''"

definition epistemic_rider_line :: string where
  "epistemic_rider_line = ''Your closing message reaches nobody by default '' @ em_dash
     @ '' fired sessions end into a dead-letter channel. Durable channels are item annotations, refs, ''
     @ ''durable files, and your occurrence attestation (ctl agenda attest): write your handoff there ''
     @ ''before your last token.''"

definition early_outcome_cap :: nat where "early_outcome_cap = 64"
definition session_alias_cap :: nat where "session_alias_cap = 64"
definition dispatch_retry_after_ms :: u64 where "dispatch_retry_after_ms = 30000"
definition lineage_quiet_grace_ms :: u64 where "lineage_quiet_grace_ms = 60000"
definition dispatch_abandon_after_ms :: u64 where "dispatch_abandon_after_ms = 10 * 60000"
definition spawn_stagger_interval_ms :: u64 where "spawn_stagger_interval_ms = 30000"
definition spawn_stagger_engage_at :: nat where "spawn_stagger_engage_at = 2"
definition capacity_hold_recheck_ms :: u64 where "capacity_hold_recheck_ms = 30000"
definition readopt_watch_window_ms :: u64 where "readopt_watch_window_ms = 15 * 60 * 1000"

record early_outcome =
  eo_failed :: "string option"
  eo_note :: string

record pending_lineage_end =
  le_session_key :: string
  le_ended_id :: string
  le_reason :: string
  le_ended_at_ms :: u64

record pending_dispatch =
  pd_spawn :: spawn_occurrence
  pd_project_root :: string
  pd_binding_ref_lines :: "string list"
  pd_first_attempt_ms :: u64
  pd_last_attempt_ms :: u64

record readopt_watch =
  rw_spawn :: spawn_occurrence
  rw_dead_session_id :: string
  rw_parked_at_ms :: u64

record readopt_seed =
  rs_occurrence_id :: string
  rs_session_id :: string
  rs_suspended :: bool

record start_task =
  sk_task :: string
  sk_orchestrate :: "bool option"
  sk_direct :: "bool option"
  sk_project_root :: string
  sk_delegation_id :: string
  sk_session_name :: "string option"
  sk_launch_config :: agent_launch_config

record user_notification =
  un_id :: string
  un_title :: string
  un_text :: string
  un_urgency :: notification_urgency
  un_ts :: u64

datatype bus_event = StartTask start_task | UserNotification user_notification | DrainEntry

record resume_lineage =
  ln_stopped_by_user :: bool
  ln_wrapper_history :: bool
  ln_successor_tip :: "string list \<Rightarrow> string option"

text \<open>Scheduler state, and around it the journal, the handle's store and policy, and the outside.\<close>

record scheduler =
  sd_awaiting :: "(string \<times> pending_dispatch) list"
  sd_running :: "(string \<times> spawn_occurrence) list"
  sd_early_outcomes :: "(string \<times> early_outcome) list"
  sd_session_aliases :: "(string \<times> string) list"
  sd_lineage_pending :: "pending_lineage_end list"
  sd_readopt_watch :: "readopt_watch list"
  sd_last_start_ms :: "u64 option"
  sd_journal :: occurrence_journal
  sd_store :: agenda_store
  sd_policy :: reminder_policy
  sd_clock :: "u64 list"
  sd_lineages :: "(string list \<Rightarrow> resume_lineage) list"
  sd_bus :: "bus_event list"

record scheduler_env =
  sv_store :: store_env
  sv_journal :: journal_env
  sv_seal_line :: "binding_ref \<Rightarrow> string + string"
  sv_candidate :: "128 word"
  sv_format_instant :: "u64 \<Rightarrow> string"
  sv_minute_of_day :: "u64 \<Rightarrow> u16"
  sv_capacity_deferred :: bool

definition now_ms :: "scheduler \<Rightarrow> u64 \<times> scheduler" where
  "now_ms s = (case sd_clock s of
     [] \<Rightarrow> (0, s) | [t] \<Rightarrow> (t, s) | t # ts \<Rightarrow> (t, s\<lparr>sd_clock := ts\<rparr>))"

definition no_lineage :: resume_lineage where
  "no_lineage = \<lparr> ln_stopped_by_user = False, ln_wrapper_history = False, ln_successor_tip = Map.empty \<rparr>"

definition ask_lineage :: "string list \<Rightarrow> scheduler \<Rightarrow> resume_lineage \<times> scheduler" where
  "ask_lineage seeds s = (case sd_lineages s of
     [] \<Rightarrow> (no_lineage, s) | [l] \<Rightarrow> (l seeds, s) | l # ls \<Rightarrow> (l seeds, s\<lparr>sd_lineages := ls\<rparr>))"

definition send :: "bus_event \<Rightarrow> scheduler \<Rightarrow> scheduler" where
  "send e s = s\<lparr>sd_bus := sd_bus s @ [e]\<rparr>"

definition in_flight_occurrences :: "scheduler \<Rightarrow> string list" where
  "in_flight_occurrences s = map fst (sd_awaiting s) @ map (sw_occurrence_id \<circ> snd) (sd_running s)"

definition in_flight_effects :: "scheduler \<Rightarrow> string list" where
  "in_flight_effects s = map (sw_effect_id \<circ> pd_spawn \<circ> snd) (sd_awaiting s)
     @ map (sw_effect_id \<circ> snd) (sd_running s)"

definition capped :: "nat \<Rightarrow> 'a list \<Rightarrow> 'a list" where
  "capped n xs = (if n < length xs then tl xs else xs)"

definition remember_early_outcome :: "string \<Rightarrow> early_outcome \<Rightarrow> scheduler \<Rightarrow> scheduler" where
  "remember_early_outcome sid out s =
    (if sid \<in> fst ` set (sd_early_outcomes s) then s
     else s\<lparr>sd_early_outcomes := capped early_outcome_cap (sd_early_outcomes s @ [(sid, out)])\<rparr>)"

fun take_first :: "string \<Rightarrow> (string \<times> 'a) list \<Rightarrow> ('a \<times> (string \<times> 'a) list) option" where
  "take_first k [] = None"
| "take_first k ((i, a) # xs) = (if i = k then Some (a, xs)
     else map_option (\<lambda>(b, ys). (b, (i, a) # ys)) (take_first k xs))"

definition take_early_outcome :: "string \<Rightarrow> scheduler \<Rightarrow> early_outcome option \<times> scheduler" where
  "take_early_outcome sid s = (case take_first sid (sd_early_outcomes s) of
     None \<Rightarrow> (None, s) | Some (out, es) \<Rightarrow> (Some out, s\<lparr>sd_early_outcomes := es\<rparr>))"

definition note_session_alias :: "string \<Rightarrow> string \<Rightarrow> scheduler \<Rightarrow> scheduler" where
  "note_session_alias a b s = (if a = [] \<or> b = [] \<or> a = b then s
     else s\<lparr>sd_session_aliases := capped session_alias_cap (sd_session_aliases s @ [(a, b)])\<rparr>)"

fun first_alias :: "string \<Rightarrow> (string \<times> string) list \<Rightarrow> string option" where
  "first_alias i [] = None"
| "first_alias i ((a, b) # ps) = (if a = i then Some b else if b = i then Some a else first_alias i ps)"

definition alias_counterpart :: "scheduler \<Rightarrow> string \<Rightarrow> string option" where
  "alias_counterpart s i = first_alias i (rev (sd_session_aliases s))"

definition take_early_outcome_aliased :: "string \<Rightarrow> scheduler \<Rightarrow> early_outcome option \<times> scheduler" where
  "take_early_outcome_aliased sid s = (case take_early_outcome sid s of
     (Some out, s1) \<Rightarrow> (Some out, s1)
   | (None, s1) \<Rightarrow> (case alias_counterpart s1 sid of
       None \<Rightarrow> (None, s1) | Some c \<Rightarrow> take_early_outcome c s1))"

definition running_key :: "scheduler \<Rightarrow> string \<Rightarrow> string option" where
  "running_key s i = (if i \<in> fst ` set (sd_running s) then Some i
     else Option.bind (alias_counterpart s i)
       (\<lambda>c. if c \<in> fst ` set (sd_running s) then Some c else None))"

definition starts_in_window :: "scheduler \<Rightarrow> u64 \<Rightarrow> nat" where
  "starts_in_window s now = (case sd_last_start_ms s of
     None \<Rightarrow> 0 | Some l \<Rightarrow> if sat_sub now l < spawn_stagger_interval_ms then 1 else 0)"

section \<open>Rows and write-backs\<close>

definition session_row :: "spawn_occurrence \<Rightarrow> u64 \<Rightarrow> occurrence_state \<Rightarrow> string option \<Rightarrow> occurrence_record" where
  "session_row sp now st sid = \<lparr> oj_v = 1, oj_at_ms = now, oj_occurrence_id = sw_occurrence_id sp,
     oj_item_id = sw_item_id sp, oj_due_ms = sw_fire_at_ms sp, oj_state = st, oj_urgency = None,
     oj_session_id = sid, oj_generation = None, oj_boot_id = None,
     oj_attempt = (if 0 < sw_attempt sp then Some (sw_attempt sp) else None) \<rparr>"

definition append_row :: "scheduler_env \<Rightarrow> occurrence_record \<Rightarrow> scheduler \<Rightarrow> bool \<times> scheduler" where
  "append_row v row s = (case journal_append (sv_journal v) row (sd_journal s) of
     (r, j) \<Rightarrow> (r = Inr (), s\<lparr>sd_journal := j\<rparr>))"

definition session_record :: "scheduler_env \<Rightarrow> spawn_occurrence \<Rightarrow> u64 \<Rightarrow> occurrence_state
    \<Rightarrow> string option \<Rightarrow> scheduler \<Rightarrow> bool \<times> scheduler" where
  "session_record v sp now st sid = append_row v (session_row sp now st sid)"

definition contributes_failure :: "string \<Rightarrow> agenda_run \<Rightarrow> bool" where
  "contributes_failure st run = (st = ''failed'' \<or> st = ''unknown''
     \<or> st = ''completed'' \<and> map_option tt_outcome (rn_attestation run) \<in> {Some Blocked, Some Abandoned})"

definition suspension_tripped :: "spawn_occurrence \<Rightarrow> string \<Rightarrow> agenda_item \<Rightarrow> u32 option" where
  "suspension_tripped sp st it =
    Option.bind (find (\<lambda>ef. ef_effect_id ef = sw_effect_id sp) (it_effects it)) (\<lambda>ef.
    Option.bind (mf_recurrence (ef_manifest ef)) (\<lambda>rec.
    Option.bind (ef_last_run ef) (\<lambda>run.
      if rn_occurrence_id run = sw_occurrence_id sp \<and> rn_state run = st \<and> contributes_failure st run
        \<and> ef_consecutive_failures ef = suspend_threshold rec \<and> suspended ef
      then Some (suspend_threshold rec) else None)))"

definition suspension_notice :: "spawn_occurrence \<Rightarrow> u32 \<Rightarrow> agenda_item \<Rightarrow> u64 \<Rightarrow> user_notification" where
  "suspension_notice sp n it t = \<lparr> un_id = ''agenda-session-suspended-'' @ sw_occurrence_id sp,
     un_title = ''Standing session suspended'',
     un_text = it_title it @ '' '' @ em_dash @ '' suspended after '' @ dec_string (unat n)
       @ '' consecutive failures; re-approve the unchanged manifest to re-arm'',
     un_urgency = NotifyAttention, un_ts = t \<rparr>"

definition surface_suspension_trip :: "spawn_occurrence \<Rightarrow> string \<Rightarrow> agenda_item \<Rightarrow> scheduler \<Rightarrow> scheduler" where
  "surface_suspension_trip sp st it s = (case suspension_tripped sp st it of
     None \<Rightarrow> s
   | Some n \<Rightarrow> (case now_ms s of (t, s1) \<Rightarrow> send (UserNotification (suspension_notice sp n it t)) s1))"

definition write_back :: "scheduler_env \<Rightarrow> occurrence_write_back \<Rightarrow> scheduler \<Rightarrow> agenda_item intake \<times> scheduler" where
  "write_back v ow s = (case now_ms s of (t, s1) \<Rightarrow>
     (case record_occurrence (sv_store v) ow t (sd_store s1) of (r, st) \<Rightarrow> (r, s1\<lparr>sd_store := st\<rparr>)))"

definition spawn_write_back :: "spawn_occurrence \<Rightarrow> string \<Rightarrow> string option \<Rightarrow> string option \<Rightarrow> occurrence_write_back" where
  "spawn_write_back sp st sid note = \<lparr> ow_item_id = sw_item_id sp, ow_effect_id = sw_effect_id sp,
     ow_occurrence_id = sw_occurrence_id sp, ow_state = st, ow_session_id = sid, ow_note = note \<rparr>"

definition record_on_item :: "scheduler_env \<Rightarrow> spawn_occurrence \<Rightarrow> string \<Rightarrow> string option \<Rightarrow> string option
    \<Rightarrow> scheduler \<Rightarrow> scheduler" where
  "record_on_item v sp st sid note s = (case write_back v (spawn_write_back sp st sid note) s of
     (Inr it, s1) \<Rightarrow> surface_suspension_trip sp st it s1
   | (Inl _, s1) \<Rightarrow> s1)"

definition session_notification :: "string \<Rightarrow> spawn_occurrence \<Rightarrow> string \<Rightarrow> string \<Rightarrow> u64 \<Rightarrow> bus_event" where
  "session_notification st sp title why now = UserNotification
     \<lparr> un_id = ''agenda-session-'' @ st @ ''-'' @ sw_occurrence_id sp, un_title = title,
       un_text = sw_goal sp @ '' '' @ em_dash @ '' '' @ why, un_urgency = NotifyAttention, un_ts = now \<rparr>"

definition resolve_spawnless :: "scheduler_env \<Rightarrow> spawn_occurrence \<Rightarrow> occurrence_state \<Rightarrow> u64 \<Rightarrow> string
    \<Rightarrow> scheduler \<Rightarrow> scheduler" where
  "resolve_spawnless v sp terminal now why s = (case session_record v sp now terminal None s of
     (False, s1) \<Rightarrow> s1
   | (True, s1) \<Rightarrow>
       let st = (case terminal of Missed \<Rightarrow> ''missed'' | Failed \<Rightarrow> ''failed'' | _ \<Rightarrow> ''unknown'')
       in send (session_notification st sp (''Scheduled session '' @ st) why now)
            (record_on_item v sp st None (Some why) s1))"

section \<open>Reminders\<close>

definition reminder_row :: "due_occurrence \<Rightarrow> u64 \<Rightarrow> occurrence_state \<Rightarrow> reminder_urgency option \<Rightarrow> occurrence_record" where
  "reminder_row d now st urgency = \<lparr> oj_v = 1, oj_at_ms = now, oj_occurrence_id = du_occurrence_id d,
     oj_item_id = du_item_id d, oj_due_ms = du_due_ms d, oj_state = st, oj_urgency = urgency,
     oj_session_id = None, oj_generation = None, oj_boot_id = None, oj_attempt = None \<rparr>"

definition reminder_record :: "scheduler_env \<Rightarrow> due_occurrence \<Rightarrow> u64 \<Rightarrow> occurrence_state
    \<Rightarrow> reminder_urgency option \<Rightarrow> scheduler \<Rightarrow> bool \<times> scheduler" where
  "reminder_record v d now st urgency = append_row v (reminder_row d now st urgency)"

definition format_duration :: "u64 \<Rightarrow> string" where
  "format_duration ms = (let minutes = ms div 60000 in
     if minutes < 60 then dec_string (unat minutes) @ ''m''
     else if minutes < 48 * 60 then dec_string (unat (minutes div 60)) @ ''h '' @ dec_string (unat (minutes mod 60)) @ ''m''
     else dec_string (unat (minutes div (24 * 60))) @ ''d'')"

definition reminder_text :: "due_occurrence \<Rightarrow> u64 \<Rightarrow> string" where
  "reminder_text d now = (let overdue = sat_sub now (du_due_ms d) in
     if overdue < 2 * 60000 then du_title d
     else du_title d @ '' '' @ em_dash @ '' due '' @ format_duration overdue @ '' ago'')"

definition deliver_one :: "scheduler_env \<Rightarrow> u64 \<Rightarrow> scheduler \<Rightarrow> due_occurrence \<Rightarrow> scheduler" where
  "deliver_one v now s d = (case as_notification (du_urgency d) of
     None \<Rightarrow> snd (reminder_record v d now Suppressed (Some MuteUrgency) s)
   | Some urgency \<Rightarrow> (case reminder_record v d now Prepared None s of
       (False, s1) \<Rightarrow> s1
     | (True, s1) \<Rightarrow> snd (reminder_record v d now Delivered (Some (du_urgency d))
         (send (UserNotification \<lparr> un_id = ''agenda-'' @ du_occurrence_id d, un_title = ''Reminder'',
            un_text = reminder_text d now, un_urgency = urgency, un_ts = now \<rparr>) s1))))"

definition bullet :: string where "bullet = [CHR 0xE2, CHR 0x80, CHR 0xA2]"

definition digest_one :: "scheduler_env \<Rightarrow> u64 \<Rightarrow> string list \<times> scheduler \<Rightarrow> due_occurrence \<Rightarrow> string list \<times> scheduler" where
  "digest_one v now acc d = (case acc of (ls, s) \<Rightarrow>
     if du_urgency d = MuteUrgency
     then (ls, snd (reminder_record v d now Suppressed (Some MuteUrgency) s))
     else (case reminder_record v d now Prepared None s of
       (False, s1) \<Rightarrow> (ls, s1)
     | (True, s1) \<Rightarrow> (ls @ [bullet @ '' '' @ du_title d @ '' (due '' @ sv_format_instant v (du_due_ms d) @ '')''],
         snd (reminder_record v d now Missed (Some (du_urgency d)) s1))))"

definition deliver_digest :: "scheduler_env \<Rightarrow> u64 \<Rightarrow> due_occurrence list \<Rightarrow> scheduler \<Rightarrow> scheduler" where
  "deliver_digest v now ds s = (case foldl (digest_one v now) ([], s) ds of (ls, s1) \<Rightarrow>
     if ls = [] then s1
     else send (UserNotification \<lparr> un_id = ''agenda-digest-'' @ dec_string (unat now),
       un_title = dec_string (length ls) @ '' reminder'' @ (if length ls = 1 then [] else ''s'')
         @ '' passed while the daemon was down'',
       un_text = join_with [newline] ls, un_urgency = NotifyAttention, un_ts = now \<rparr>) s1)"

section \<open>Dispatch\<close>

definition default_launch_config :: agent_launch_config where
  "default_launch_config = \<lparr> lc_agent = None, lc_agent_command = None, lc_claude_model = None,
     lc_claude_permission_mode = None, lc_claude_effort = None, lc_claude_auth_mode = None,
     lc_kimi_model = None, lc_kimi_thinking = None, lc_kimi_permission_mode = None,
     lc_kimi_allowed_tools = None, lc_kimi_plan_mode = None, lc_kimi_swarm_mode = None,
     lc_pi_model = None, lc_pi_thinking = None, lc_pi_allowed_tools = None, lc_codex_model = None,
     lc_codex_reasoning_effort = None, lc_codex_sandbox = None, lc_codex_approval_policy = None,
     lc_codex_managed_context = None, lc_codex_context_archive = None, lc_codex_service_tier = None,
     lc_dial = None \<rparr>"

definition start_task_of :: "spawn_occurrence \<Rightarrow> string \<Rightarrow> string list \<Rightarrow> start_task" where
  "start_task_of sp root ls = \<lparr>
     sk_task = sw_goal sp @ [newline, newline] @ ''Fired from agenda item '' @ sw_item_id sp
       @ '' (occurrence '' @ sw_occurrence_id sp @ '')'' @ [newline] @ epistemic_rider_line
       @ concat (map (\<lambda>l. newline # l) ls)
       @ (if sw_matched_item_ids sp = [] then []
          else [newline] @ ''Matched agenda items (this firing's batch): ''
            @ join_with '' '' (sw_matched_item_ids sp)),
     sk_orchestrate = (if sw_interactive sp then (if sw_orchestrate sp then Some True else None)
       else Some (sw_orchestrate sp)),
     sk_direct = (if sw_interactive sp then None else Some (\<not> sw_orchestrate sp)),
     sk_project_root = root, sk_delegation_id = delegation_prefix @ sw_occurrence_id sp,
     sk_session_name = sw_session_name sp,
     sk_launch_config = (case sw_agent_config sp of None \<Rightarrow> default_launch_config | Some c \<Rightarrow> c) \<rparr>"

definition pending_task :: "pending_dispatch \<Rightarrow> start_task" where
  "pending_task p = start_task_of (pd_spawn p) (pd_project_root p) (pd_binding_ref_lines p)"

fun seal_lines :: "(binding_ref \<Rightarrow> string + string) \<Rightarrow> binding_ref list \<Rightarrow> string + string list" where
  "seal_lines f [] = Inr []"
| "seal_lines f (r # rs) = rbind (f r) (\<lambda>l. rbind (seal_lines f rs) (\<lambda>ls. Inr (l # ls)))"

definition consume_one :: "scheduler_env \<Rightarrow> spawn_occurrence \<Rightarrow> scheduler \<Rightarrow> string \<Rightarrow> scheduler" where
  "consume_one v sp s i = (case now_ms s of (t, s1) \<Rightarrow>
     s1\<lparr>sd_store := snd (handle_apply (sv_store v) (\<lambda>_. None) False (sv_candidate v)
       (CmdAnnotate i (trigger_consumed_prefix @ ''effect='' @ sw_effect_id sp @ '' occurrence='' @ sw_occurrence_id sp)
          (Some trigger_consumed_source)) (Some daemon_actor) t (sd_store s1))\<rparr>)"

definition dispatch_session :: "scheduler_env \<Rightarrow> spawn_occurrence \<Rightarrow> u64 \<Rightarrow> scheduler \<Rightarrow> bool \<times> scheduler" where
  "dispatch_session v sp now s =
    (case ie_resolve_project (se_intake (sv_store v)) (sw_project_root sp) (sw_provenance_session_id sp) of
       Inl why \<Rightarrow> (False, resolve_spawnless v sp Failed now why s)
     | Inr root \<Rightarrow> (case seal_lines (sv_seal_line v) (sw_binding_refs sp) of
         Inl why \<Rightarrow> (False, resolve_spawnless v sp Failed now why s)
       | Inr ls \<Rightarrow> (case session_record v sp now Prepared None s of
           (False, s1) \<Rightarrow> (False, s1)
         | (True, s1) \<Rightarrow>
             let s2 = send (StartTask (start_task_of sp root ls)) (foldl (consume_one v sp) s1 (sw_matched_item_ids sp))
             in (case now_ms s2 of (t, s3) \<Rightarrow> (True, s3\<lparr>sd_awaiting := AList.update (sw_occurrence_id sp)
               \<lparr> pd_spawn = sp, pd_project_root = root, pd_binding_ref_lines = ls,
                 pd_first_attempt_ms = t, pd_last_attempt_ms = t \<rparr> (sd_awaiting s3)\<rparr>)))))"

text \<open>One spawn start per interval under contention; the others stay due.\<close>

fun govern :: "scheduler_env \<Rightarrow> u64 \<Rightarrow> spawn_occurrence list \<Rightarrow> scheduler \<Rightarrow> u64 option \<times> scheduler" where
  "govern v now [] s = (None, s)"
| "govern v now (sp # rest) s =
    (let recent = starts_in_window s now in
     if spawn_stagger_engage_at \<le> Suc (length rest) + recent \<and> 0 < recent
     then (map_option (\<lambda>l. l + spawn_stagger_interval_ms) (sd_last_start_ms s), s)
     else (case dispatch_session v sp now s of (started, s1) \<Rightarrow>
       govern v now rest (if started then s1\<lparr>sd_last_start_ms := Some now\<rparr> else s1)))"

definition dispatch_order :: "spawn_occurrence \<Rightarrow> u64 \<times> u64 \<times> string" where
  "dispatch_order sp = (sw_fire_at_ms sp, sw_approved_at_ms sp, sw_occurrence_id sp)"

definition dispatch_governed :: "scheduler_env \<Rightarrow> spawn_occurrence list \<Rightarrow> u64 \<Rightarrow> scheduler
    \<Rightarrow> u64 option \<times> scheduler" where
  "dispatch_governed v due now s =
    (if sv_capacity_deferred v \<and> due \<noteq> [] then (Some (now + capacity_hold_recheck_ms), s)
     else govern v now (sort_key dispatch_order due) s)"

section \<open>The retry sweep\<close>

definition expired :: "u64 \<Rightarrow> pending_dispatch \<Rightarrow> bool" where
  "expired now p = (dispatch_abandon_after_ms \<le> sat_sub now (pd_first_attempt_ms p))"

definition retry_due :: "u64 \<Rightarrow> pending_dispatch \<Rightarrow> bool" where
  "retry_due now p = (\<not> expired now p \<and> dispatch_retry_after_ms \<le> sat_sub now (pd_last_attempt_ms p))"

definition abandon :: "scheduler_env \<Rightarrow> u64 \<Rightarrow> scheduler \<Rightarrow> string \<Rightarrow> scheduler" where
  "abandon v now s occ = (case map_of (sd_awaiting s) occ of
     None \<Rightarrow> s
   | Some p \<Rightarrow> resolve_spawnless v (pd_spawn p) Unknown now
       (''session never dispatched '' @ em_dash @ '' no supervisor receipt; check the daemon log'')
       (s\<lparr>sd_awaiting := AList.delete occ (sd_awaiting s)\<rparr>))"

definition sweep_pending_dispatches :: "scheduler_env \<Rightarrow> u64 \<Rightarrow> scheduler \<Rightarrow> u64 option \<times> scheduler" where
  "sweep_pending_dispatches v now s =
    (let abandoned = map fst (filter (\<lambda>(k, p). expired now p) (sd_awaiting s));
         resent = filter (\<lambda>(k, p). retry_due now p) (sd_awaiting s);
         s1 = s\<lparr>sd_bus := sd_bus s @ map (\<lambda>(k, p). StartTask (pending_task p)) resent,
           sd_awaiting := map (\<lambda>(k, p). (k, if retry_due now p then p\<lparr>pd_last_attempt_ms := now\<rparr> else p))
             (sd_awaiting s)\<rparr>;
         s2 = foldl (abandon v now) s1 abandoned
     in (foldl min_wake None (map (\<lambda>(k, p). pd_last_attempt_ms p + dispatch_retry_after_ms) (sd_awaiting s2)), s2))"

section \<open>The end of a session\<close>

definition fail_running :: "scheduler_env \<Rightarrow> string \<Rightarrow> string \<Rightarrow> scheduler \<Rightarrow> scheduler" where
  "fail_running v sid reason s = (case map_of (sd_running s) sid of
     None \<Rightarrow> s
   | Some sp \<Rightarrow> (case now_ms (s\<lparr>sd_running := AList.delete sid (sd_running s)\<rparr>) of (t, s1) \<Rightarrow>
       record_on_item v sp ''failed'' (Some sid) (Some reason)
         (snd (session_record v sp t Failed (Some sid) s1))))"

definition complete_running :: "scheduler_env \<Rightarrow> string \<Rightarrow> string \<Rightarrow> scheduler \<Rightarrow> scheduler" where
  "complete_running v sid note s = (case map_of (sd_running s) sid of
     None \<Rightarrow> s
   | Some sp \<Rightarrow> (case now_ms (s\<lparr>sd_running := AList.delete sid (sd_running s)\<rparr>) of (t, s1) \<Rightarrow>
       record_on_item v sp ''completed'' (Some sid) (Some note)
         (snd (session_record v sp t Completed (Some sid) s1))))"

text \<open>The addresses an ended session is known under.\<close>

definition ended_ids :: "scheduler \<Rightarrow> string \<Rightarrow> string \<Rightarrow> string list" where
  "ended_ids s key eid = (let ids = key # (if eid \<noteq> key then [eid] else []) in
     case alias_counterpart s key of
       None \<Rightarrow> ids | Some c \<Rightarrow> if c \<in> set ids then ids else ids @ [c])"

text \<open>A successor takes an occurrence over: a fresh started row, the write-back, the running entry.\<close>

definition continue_under :: "scheduler_env \<Rightarrow> spawn_occurrence \<Rightarrow> string \<Rightarrow> string \<Rightarrow> u64 \<Rightarrow> scheduler \<Rightarrow> scheduler" where
  "continue_under v sp successor note now s =
    (let s1 = record_on_item v sp ''started'' (Some successor) (Some note)
         (snd (session_record v sp now Started (Some successor) s))
     in s1\<lparr>sd_running := AList.update successor sp (sd_running s1)\<rparr>)"

definition rekey_note :: "string \<Rightarrow> string \<Rightarrow> string" where
  "rekey_note successor reason = ''continued under successor session '' @ successor
     @ '' (previous session ended: '' @ reason @ '')''"

lemma now_msD: "now_ms s = (t, s') \<Longrightarrow> \<exists>c. s' = s\<lparr>sd_clock := c\<rparr>"
  by (auto simp: now_ms_def split: list.splits intro: exI [of _ "sd_clock s"])

lemma ask_lineageD: "ask_lineage seeds s = (l, s') \<Longrightarrow> \<exists>c. s' = s\<lparr>sd_lineages := c\<rparr>"
  by (auto simp: ask_lineage_def split: list.splits intro: exI [of _ "sd_lineages s"])

text \<open>A write-back moves the clock and the store, and may notify of a suspension.\<close>

lemma record_on_item_frame:
  "\<exists>c st ns. record_on_item v sp x sid note s
     = s\<lparr>sd_clock := c, sd_store := st, sd_bus := sd_bus s @ map UserNotification ns\<rparr>
     \<and> (\<forall>n \<in> set ns. un_title n \<noteq> ''Reminder'')"
proof -
  obtain t s1 where t: "now_ms s = (t, s1)" by (cases "now_ms s")
  obtain c where c: "s1 = s\<lparr>sd_clock := c\<rparr>" using now_msD [OF t] by blast
  obtain r st where r: "record_occurrence (sv_store v) (spawn_write_back sp x sid note) t (sd_store s1) = (r, st)"
    by (cases "record_occurrence (sv_store v) (spawn_write_back sp x sid note) t (sd_store s1)")
  have w: "write_back v (spawn_write_back sp x sid note) s = (r, s1\<lparr>sd_store := st\<rparr>)"
    by (simp add: write_back_def t r)
  have quiet: ?thesis if "record_on_item v sp x sid note s = s1\<lparr>sd_store := st\<rparr>"
    using that c by (intro exI [of _ c] exI [of _ st] exI [of _ "[]"]) simp
  show ?thesis
  proof (cases r)
    case (Inl e)
    then show ?thesis using quiet by (simp add: record_on_item_def w)
  next
    case (Inr it)
    show ?thesis
    proof (cases "suspension_tripped sp x it")
      case None
      then show ?thesis using quiet Inr by (simp add: record_on_item_def w surface_suspension_trip_def)
    next
      case (Some n)
      obtain t2 s2 where t2: "now_ms (s1\<lparr>sd_store := st\<rparr>) = (t2, s2)" by (cases "now_ms (s1\<lparr>sd_store := st\<rparr>)")
      obtain c2 where c2: "s2 = s1\<lparr>sd_store := st\<rparr>\<lparr>sd_clock := c2\<rparr>" using now_msD [OF t2] by blast
      have "record_on_item v sp x sid note s = send (UserNotification (suspension_notice sp n it t2)) s2"
        by (simp add: record_on_item_def w Inr surface_suspension_trip_def Some t2)
      then show ?thesis
        by (intro exI [of _ c2] exI [of _ st] exI [of _ "[suspension_notice sp n it t2]"])
           (simp add: send_def c2 c suspension_notice_def)
    qed
  qed
qed

lemma session_record_frame: "\<exists>j. snd (session_record v sp now st sid s) = s\<lparr>sd_journal := j\<rparr>"
  by (auto simp: session_record_def append_row_def split: prod.split)

lemma continue_under_early [simp]: "sd_early_outcomes (continue_under v sp i note now s) = sd_early_outcomes s"
proof -
  obtain j where j: "snd (session_record v sp now Started (Some i) s) = s\<lparr>sd_journal := j\<rparr>"
    using session_record_frame by blast
  obtain c st ns where "record_on_item v sp ''started'' (Some i) (Some note) (s\<lparr>sd_journal := j\<rparr>)
      = s\<lparr>sd_journal := j\<rparr>\<lparr>sd_clock := c, sd_store := st, sd_bus := sd_bus s @ map UserNotification ns\<rparr>"
    using record_on_item_frame [of v sp "''started''" "Some i" "Some note" "s\<lparr>sd_journal := j\<rparr>"] by auto
  then show ?thesis by (simp add: continue_under_def j Let_def)
qed

lemma ask_lineage_early: "(l, s') = ask_lineage seeds s \<Longrightarrow> sd_early_outcomes s' = sd_early_outcomes s"
  using ask_lineageD [of seeds s l s'] by auto

lemma take_first_shorter: "take_first k xs = Some (a, ys) \<Longrightarrow> length ys < length xs"
  by (induction xs arbitrary: ys) (auto split: if_splits)

lemma take_early_shorter:
  "(Some e, s') = take_early_outcome_aliased i s \<Longrightarrow> length (sd_early_outcomes s') < length (sd_early_outcomes s)"
  by (auto simp: take_early_outcome_aliased_def take_early_outcome_def
      split: option.splits prod.splits dest: take_first_shorter)

text \<open>
  Classification and re-keying call each other; each round consumes a remembered outcome.
\<close>

function classify_ended :: "scheduler_env \<Rightarrow> string \<Rightarrow> string \<Rightarrow> string \<Rightarrow> u64 \<Rightarrow> u64 \<Rightarrow> scheduler \<Rightarrow> scheduler"
  and rekey_running :: "scheduler_env \<Rightarrow> string \<Rightarrow> string \<Rightarrow> string \<Rightarrow> u64 \<Rightarrow> scheduler \<Rightarrow> scheduler" where
  "classify_ended v key eid reason at now s =
    (if key \<notin> fst ` set (sd_running s) then s
     else (let seeds = ended_ids s key eid in case ask_lineage seeds s of (l, s1) \<Rightarrow>
       if ln_stopped_by_user l then fail_running v key reason s1
       else (case ln_successor_tip l seeds of
         Some successor \<Rightarrow> rekey_running v key successor reason now s1
       | None \<Rightarrow> if \<not> ln_wrapper_history l \<or> lineage_quiet_grace_ms \<le> sat_sub now at
           then fail_running v key reason s1
           else s1\<lparr>sd_lineage_pending := sd_lineage_pending s1 @ [\<lparr> le_session_key = key,
             le_ended_id = eid, le_reason = reason, le_ended_at_ms = at \<rparr>]\<rparr>)))"
| "rekey_running v key successor reason now s = (case map_of (sd_running s) key of
     None \<Rightarrow> s
   | Some sp \<Rightarrow> (case take_early_outcome_aliased successor
         (continue_under v sp successor (rekey_note successor reason) now
            (s\<lparr>sd_running := AList.delete key (sd_running s)\<rparr>)) of
       (None, s1) \<Rightarrow> s1
     | (Some early, s1) \<Rightarrow> (case eo_failed early of
         None \<Rightarrow> complete_running v successor (eo_note early) s1
       | Some r \<Rightarrow> classify_ended v successor successor r now now s1)))"
  by pat_completeness auto

termination
  by (relation "measure (\<lambda>x. case x of
        Inl (_, _, _, _, _, _, s) \<Rightarrow> 2 * length (sd_early_outcomes s) + 1
      | Inr (_, _, _, _, _, s) \<Rightarrow> 2 * length (sd_early_outcomes s))")
     (use take_early_shorter in \<open>fastforce dest: ask_lineage_early\<close>)+

section \<open>Events of the bus\<close>

datatype task_outcome = OutcomeCompleted | OutcomeFailed

datatype app_event =
    TaskReceived string string
  | SessionIdentity string string
  | DoneSignal "string option" "string option"
  | TaskComplete "string option" string "string option" task_outcome
  | SessionEnded string string
  | OtherEvent

definition or_else :: "'a option \<Rightarrow> 'a \<Rightarrow> 'a" where
  "or_else x d = (case x of None \<Rightarrow> d | Some a \<Rightarrow> a)"

definition failed_outcome :: "string \<Rightarrow> early_outcome" where
  "failed_outcome reason = \<lparr> eo_failed = Some reason, eo_note = reason \<rparr>"

definition done_outcome :: "string \<Rightarrow> early_outcome" where
  "done_outcome note = \<lparr> eo_failed = None, eo_note = note \<rparr>"

definition observe_receipt :: "scheduler_env \<Rightarrow> string \<Rightarrow> string \<Rightarrow> scheduler \<Rightarrow> scheduler" where
  "observe_receipt v delegation sid s =
    (case Option.bind (strip_prefix delegation_prefix delegation)
        (\<lambda>occ. map_option (Pair occ) (map_of (sd_awaiting s) occ)) of
       None \<Rightarrow> s
     | Some (occ, p) \<Rightarrow>
         (case now_ms (s\<lparr>sd_awaiting := AList.delete occ (sd_awaiting s)\<rparr>) of (t, s1) \<Rightarrow>
          let s2 = record_on_item v (pd_spawn p) ''started'' (Some sid) None
                (snd (session_record v (pd_spawn p) t Started (Some sid) s1))
          in (case take_early_outcome_aliased sid (s2\<lparr>sd_running := AList.update sid (pd_spawn p) (sd_running s2)\<rparr>) of
               (None, s3) \<Rightarrow> s3
             | (Some early, s3) \<Rightarrow> (case eo_failed early of
                 None \<Rightarrow> complete_running v sid (eo_note early) s3
               | Some reason \<Rightarrow> (case now_ms s3 of (t2, s4) \<Rightarrow>
                   classify_ended v sid sid reason t2 t2 s4)))))"

definition observe_event :: "scheduler_env \<Rightarrow> app_event \<Rightarrow> scheduler \<Rightarrow> scheduler" where
  "observe_event v ev s = (case ev of
     TaskReceived delegation sid \<Rightarrow> observe_receipt v delegation sid s
   | SessionIdentity sid backend \<Rightarrow> note_session_alias sid backend s
   | DoneSignal (Some sid) message \<Rightarrow>
       (let note = or_else message ''done'' in case running_key s sid of
          Some key \<Rightarrow> complete_running v key note s
        | None \<Rightarrow> remember_early_outcome sid (done_outcome note) s)
   | TaskComplete (Some sid) reason summary outcome \<Rightarrow> (case running_key s sid of
          Some key \<Rightarrow> if outcome = OutcomeFailed then fail_running v key reason s
            else complete_running v key (or_else summary reason) s
        | None \<Rightarrow> remember_early_outcome sid (if outcome = OutcomeFailed then failed_outcome reason
            else done_outcome (or_else summary reason)) s)
   | SessionEnded sid reason \<Rightarrow> (case running_key s sid of
          Some key \<Rightarrow> (case now_ms s of (t, s1) \<Rightarrow> classify_ended v key sid reason t t s1)
        | None \<Rightarrow> remember_early_outcome sid (failed_outcome reason) s)
   | _ \<Rightarrow> s)"

section \<open>Lost continuity\<close>

definition lag_why :: string where
  "lag_why = ''scheduler lost event continuity '' @ em_dash @ '' outcome unknown; check the session log''"

definition resolve_lagged_occurrence :: "scheduler_env \<Rightarrow> spawn_occurrence \<Rightarrow> string option \<Rightarrow> u64
    \<Rightarrow> scheduler \<Rightarrow> bool \<times> scheduler" where
  "resolve_lagged_occurrence v sp sid now s = (case session_record v sp now Unknown sid s of
     (False, s1) \<Rightarrow> (False, s1)
   | (True, s1) \<Rightarrow> (True, send (session_notification ''unknown'' sp ''Scheduled session outcome unknown'' lag_why now)
       (record_on_item v sp ''unknown'' sid (Some lag_why) s1)))"

definition lag_awaiting :: "scheduler_env \<Rightarrow> u64 \<Rightarrow> scheduler \<Rightarrow> string \<times> pending_dispatch \<Rightarrow> scheduler" where
  "lag_awaiting v now s e = (case resolve_lagged_occurrence v (pd_spawn (snd e)) None now s of
     (ok, s1) \<Rightarrow> if ok then s1\<lparr>sd_awaiting := AList.delete (fst e) (sd_awaiting s1)\<rparr> else s1)"

definition lag_running :: "scheduler_env \<Rightarrow> u64 \<Rightarrow> scheduler \<Rightarrow> string \<times> spawn_occurrence \<Rightarrow> scheduler" where
  "lag_running v now s e = (case resolve_lagged_occurrence v (snd e) (Some (fst e)) now s of
     (ok, s1) \<Rightarrow> if ok then s1\<lparr>sd_running := AList.delete (fst e) (sd_running s1)\<rparr> else s1)"

definition resolve_lagged_occurrences :: "scheduler_env \<Rightarrow> scheduler \<Rightarrow> scheduler" where
  "resolve_lagged_occurrences v s = (case now_ms s of (now, s1) \<Rightarrow>
     let s2 = foldl (lag_awaiting v now) s1 (sd_awaiting s1);
         s3 = foldl (lag_running v now) s2 (sd_running s2)
     in s3\<lparr>sd_lineage_pending := filter (\<lambda>e. le_session_key e \<in> fst ` set (sd_running s3)) (sd_lineage_pending s3)\<rparr>)"

section \<open>Recovery of lost sessions\<close>

record handover =
  ho_boot_id :: string
  ho_live :: "string \<Rightarrow> bool"
  ho_draining :: bool
  ho_entry_duty :: bool
  ho_drain_alert :: "string option"
  ho_holder :: bool
  ho_acquires :: "u64 \<Rightarrow> bool"
  ho_held_generation :: "u64 option"
  ho_lease_poll_ms :: u64
  ho_secondary_poll_ms :: u64

datatype recovery_scope = Unscoped | BootScope handover | RecurringScope handover

fun may_resolve :: "recovery_scope \<Rightarrow> string option \<Rightarrow> bool" where
  "may_resolve Unscoped writer = True"
| "may_resolve (BootScope h) None = True"
| "may_resolve (RecurringScope h) None = False"
| "may_resolve (BootScope h) (Some b) = (b \<noteq> ho_boot_id h \<and> \<not> ho_live h b)"
| "may_resolve (RecurringScope h) (Some b) = (b \<noteq> ho_boot_id h \<and> \<not> ho_live h b)"

fun started_note :: "recovery_scope \<Rightarrow> string" where
  "started_note (RecurringScope h) = ''the daemon driving this session exited without a terminal record ''
     @ em_dash @ '' outcome unknown; check the session log''"
| "started_note _ = ''daemon restarted while the session ran '' @ em_dash
     @ '' outcome unknown; check the session log''"

fun prepared_note :: "recovery_scope \<Rightarrow> string" where
  "prepared_note (RecurringScope h) = ''the daemon that dispatched this occurrence exited before a receipt ''
     @ em_dash @ '' outcome unknown''"
| "prepared_note _ = ''daemon restarted before the session dispatched '' @ em_dash @ '' outcome unknown''"

definition lost_row :: "string \<Rightarrow> string \<Rightarrow> string option \<Rightarrow> u64 \<Rightarrow> occurrence_record" where
  "lost_row occ i sid now = \<lparr> oj_v = 1, oj_at_ms = now, oj_occurrence_id = occ, oj_item_id = i, oj_due_ms = 0,
     oj_state = Unknown, oj_urgency = None, oj_session_id = sid, oj_generation = None, oj_boot_id = None,
     oj_attempt = None \<rparr>"

definition lost_spawn :: "string \<Rightarrow> agenda_item \<Rightarrow> agenda_effect \<Rightarrow> spawn_occurrence" where
  "lost_spawn occ it ef = \<lparr> sw_occurrence_id = occ, sw_item_id = it_id it, sw_effect_id = ef_effect_id ef,
     sw_goal = mf_goal (ef_manifest ef), sw_orchestrate = mf_orchestrate (ef_manifest ef), sw_fire_at_ms = 0,
     sw_approved_at_ms = 0, sw_recurring = mf_recurrence (ef_manifest ef) \<noteq> None,
     sw_interactive = mf_interactive (ef_manifest ef), sw_attempt = 0,
     sw_project_root = mf_project_root (ef_manifest ef), sw_agent_config = mf_agent_config (ef_manifest ef),
     sw_provenance_session_id = at_session_id (it_provenance it), sw_matched_item_ids = [],
     sw_binding_refs = [], sw_session_name = None \<rparr>"

text \<open>One effect of the snapshot, if it is the lost occurrence's: the first says whether it is suspended.\<close>

type_synonym lost_match = "bool option \<times> readopt_watch list \<times> scheduler"

definition lost_effect :: "scheduler_env \<Rightarrow> string \<Rightarrow> string option \<Rightarrow> string \<Rightarrow> lost_match
    \<Rightarrow> agenda_item \<times> agenda_effect \<Rightarrow> lost_match" where
  "lost_effect v occ sid note acc ie = (case (acc, ie) of ((matched, ws, s), (it, ef)) \<Rightarrow>
     if map_option rn_occurrence_id (ef_last_run ef) \<noteq> Some occ then acc
     else let s1 = snd (write_back v \<lparr> ow_item_id = it_id it, ow_effect_id = ef_effect_id ef,
            ow_occurrence_id = occ, ow_state = ''unknown'', ow_session_id = sid, ow_note = Some note \<rparr> s)
       in if matched \<noteq> None then (matched, ws, s1)
          else (case (sid, suspended ef) of
            (Some dead, False) \<Rightarrow> (case now_ms s1 of (t, s2) \<Rightarrow> (Some False, ws @ [\<lparr> rw_spawn = lost_spawn occ it ef,
               rw_dead_session_id = dead, rw_parked_at_ms = t \<rparr>], s2))
          | (_, susp) \<Rightarrow> (Some susp, ws, s1)))"

type_synonym classification = "readopt_seed list \<times> readopt_watch list"

definition item_effects :: "agenda_item list \<Rightarrow> (agenda_item \<times> agenda_effect) list" where
  "item_effects items = concat (map (\<lambda>it. map (Pair it) (it_effects it)) items)"

definition lost_started :: "scheduler_env \<Rightarrow> string \<Rightarrow> agenda_item list \<Rightarrow> classification \<times> scheduler
    \<Rightarrow> started_unresolved_row \<Rightarrow> classification \<times> scheduler" where
  "lost_started v note items acc row = (case acc of ((seeds, ws), s) \<Rightarrow>
     (case now_ms s of (t, s1) \<Rightarrow>
     (case foldl (lost_effect v (su_occurrence_id row) (su_session_id row) note)
         (None, ws, snd (append_row v (lost_row (su_occurrence_id row) [] (su_session_id row) t) s1))
         (item_effects items) of
       (matched, ws1, s2) \<Rightarrow> ((seeds @ (case su_session_id row of None \<Rightarrow> [] | Some dead \<Rightarrow>
           [\<lparr> rs_occurrence_id = su_occurrence_id row, rs_session_id = dead,
              rs_suspended = or_else matched False \<rparr>]), ws1), s2))))"

definition lost_dispatch :: "scheduler_env \<Rightarrow> string \<Rightarrow> agenda_item list \<Rightarrow> scheduler
    \<Rightarrow> prepared_unresolved_row \<Rightarrow> scheduler" where
  "lost_dispatch v note items s row = (case now_ms s of (t, s1) \<Rightarrow>
     let s2 = snd (append_row v (lost_row (pu_occurrence_id row) (or_else (pu_item_id row) []) None t) s1)
     in (case Option.bind (pu_item_id row) (\<lambda>i. find_item i items) of
          None \<Rightarrow> s2
        | Some it \<Rightarrow> (case it_effects it of
            [] \<Rightarrow> s2
          | ef # _ \<Rightarrow> snd (write_back v \<lparr> ow_item_id = it_id it, ow_effect_id = ef_effect_id ef,
              ow_occurrence_id = pu_occurrence_id row, ow_state = ''unknown'', ow_session_id = None,
              ow_note = Some note \<rparr> s2))))"

text \<open>The handle's snapshot: refresh, then every item in id order.\<close>

definition snapshot :: "scheduler_env \<Rightarrow> scheduler \<Rightarrow> agenda_item list \<times> scheduler" where
  "snapshot v s = (let st = snd (refresh_if_stale (sv_store v) (sd_store s))
     in (map snd (st_items st), s\<lparr>sd_store := st\<rparr>))"

definition resolve_lost_sessions :: "scheduler_env \<Rightarrow> recovery_scope \<Rightarrow> scheduler \<Rightarrow> classification \<times> scheduler" where
  "resolve_lost_sessions v scope s =
    (let started = filter (\<lambda>r. may_resolve scope (su_writer_boot_id r)) (started_unresolved (sd_journal s));
         lost = filter (\<lambda>r. may_resolve scope (pu_writer_boot_id r)) (prepared_unresolved (sd_journal s))
     in if started = [] \<and> lost = [] then (([], []), s)
        else (case snapshot v s of (items, s1) \<Rightarrow>
          (case foldl (lost_started v (started_note scope) items) (([], []), s1) started of (cls, s2) \<Rightarrow>
            (cls, foldl (lost_dispatch v (prepared_note scope) items) s2 lost))))"

section \<open>Sweeps of the lineage\<close>

definition sweep_lineage_one :: "scheduler_env \<Rightarrow> u64 \<Rightarrow> scheduler \<Rightarrow> pending_lineage_end \<Rightarrow> scheduler" where
  "sweep_lineage_one v now s e = (if le_session_key e \<notin> fst ` set (sd_running s) then s
     else classify_ended v (le_session_key e) (le_ended_id e) (le_reason e) (le_ended_at_ms e) now s)"

definition sweep_lineage_pending :: "scheduler_env \<Rightarrow> u64 \<Rightarrow> scheduler \<Rightarrow> u64 option \<times> scheduler" where
  "sweep_lineage_pending v now s = (if sd_lineage_pending s = [] then (None, s)
     else let s1 = foldl (sweep_lineage_one v now) (s\<lparr>sd_lineage_pending := []\<rparr>) (sd_lineage_pending s)
       in (foldl min_wake None (map (\<lambda>e. le_ended_at_ms e + lineage_quiet_grace_ms) (sd_lineage_pending s1)), s1))"

definition readopt_note :: "string \<Rightarrow> string" where
  "readopt_note successor = ''readopted after daemon restart '' @ em_dash
     @ '' continuing under successor session '' @ successor"

definition readopt_rekey :: "scheduler_env \<Rightarrow> spawn_occurrence \<Rightarrow> string \<Rightarrow> u64 \<Rightarrow> scheduler \<Rightarrow> scheduler" where
  "readopt_rekey v sp successor now s =
    (if successor \<in> fst ` set (sd_running s)
        \<or> sw_occurrence_id sp \<in> (sw_occurrence_id \<circ> snd) ` set (sd_running s) then s
     else (case take_early_outcome_aliased successor
         (continue_under v sp successor (readopt_note successor) now s) of
       (None, s1) \<Rightarrow> s1
     | (Some early, s1) \<Rightarrow> (case eo_failed early of
         None \<Rightarrow> complete_running v successor (eo_note early) s1
       | Some r \<Rightarrow> classify_ended v successor successor r now now s1)))"

definition sweep_readopt_one :: "scheduler_env \<Rightarrow> u64 \<Rightarrow> scheduler \<Rightarrow> readopt_watch \<Rightarrow> scheduler" where
  "sweep_readopt_one v now s e = (case ask_lineage [rw_dead_session_id e] s of (l, s1) \<Rightarrow>
     if ln_stopped_by_user l then s1
     else (case ln_successor_tip l [rw_dead_session_id e] of
       Some successor \<Rightarrow> readopt_rekey v (rw_spawn e) successor now s1
     | None \<Rightarrow> if sat_sub now (rw_parked_at_ms e) < readopt_watch_window_ms
         then s1\<lparr>sd_readopt_watch := sd_readopt_watch s1 @ [e]\<rparr> else s1))"

definition sweep_readopt_watch :: "scheduler_env \<Rightarrow> u64 \<Rightarrow> scheduler \<Rightarrow> u64 option \<times> scheduler" where
  "sweep_readopt_watch v now s = (if sd_readopt_watch s = [] then (None, s)
     else let s1 = foldl (sweep_readopt_one v now) (s\<lparr>sd_readopt_watch := []\<rparr>) (sd_readopt_watch s)
       in (foldl min_wake None (map (\<lambda>e. rw_parked_at_ms e + readopt_watch_window_ms) (sd_readopt_watch s1)), s1))"

section \<open>A pass\<close>

definition refresh_pass :: "scheduler_env \<Rightarrow> scheduler \<Rightarrow> scheduler" where
  "refresh_pass v s = s\<lparr>sd_journal := snd (refresh_journal (sv_journal v) (sd_journal s))\<rparr>"

definition stamp_of :: "handover \<Rightarrow> journal_stamp" where
  "stamp_of h = \<lparr> js_boot_id = ho_boot_id h, js_generation = ho_held_generation h \<rparr>"

definition drain_notice :: "string \<Rightarrow> u64 \<Rightarrow> user_notification" where
  "drain_notice alert t = \<lparr> un_id = ''handover-successor-gone'', un_title = ''Handover successor gone'',
     un_text = alert, un_urgency = NotifyUrgent, un_ts = t \<rparr>"

definition drain_pass :: "handover \<Rightarrow> scheduler \<Rightarrow> u64 option \<times> scheduler" where
  "drain_pass h s =
    (let s1 = (if ho_entry_duty h then send DrainEntry s else s);
         s2 = (case ho_drain_alert h of None \<Rightarrow> s1
           | Some alert \<Rightarrow> (case now_ms s1 of (t, s') \<Rightarrow> send (UserNotification (drain_notice alert t)) s'))
     in (case now_ms s2 of (t, s3) \<Rightarrow> (Some (t + ho_lease_poll_ms h), s3)))"

definition missed_why :: "spawn_occurrence \<Rightarrow> string" where
  "missed_why sp = (if sw_recurring sp
     then ''missed its window while the daemon was down '' @ em_dash @ '' the next scheduled run is unaffected''
     else ''missed its window while the daemon was down '' @ em_dash @ '' re-approve to reschedule'')"

definition crashed_why :: "spawn_occurrence \<Rightarrow> string" where
  "crashed_why sp = (if sw_recurring sp
     then ''crashed before launch confirmation '' @ em_dash @ '' resolved unknown; the standing machinery continues (a triggered cause auto-retries, bounded)''
     else ''crashed before launch confirmation '' @ em_dash @ '' not retried; re-approve to reschedule'')"

definition quiet_until :: "scheduler_env \<Rightarrow> u64 \<Rightarrow> scheduler \<Rightarrow> u64 option \<times> scheduler" where
  "quiet_until v now s = (case rp_quiet_hours (sd_policy s) of
     None \<Rightarrow> (None, s)
   | Some quiet \<Rightarrow> (case now_ms s of (t, s1) \<Rightarrow>
       (map_option (\<lambda>remaining. now + remaining) (ms_until_end quiet (sv_minute_of_day v t)), s1)))"

definition pass_env :: "scheduler_env \<Rightarrow> agenda_item list \<Rightarrow> u64 \<Rightarrow> u64 option \<Rightarrow> scheduler \<Rightarrow> plan_env" where
  "pass_env v items now quiet s = \<lparr> pe_sha = ie_sha (se_intake (sv_store v)), pe_items = items,
     pe_journal = sd_journal s, pe_policy = sd_policy s, pe_now = now, pe_quiet_until = quiet,
     pe_flight = in_flight_occurrences s, pe_flight_effects = in_flight_effects s \<rparr>"

definition act_on :: "scheduler_env \<Rightarrow> u64 \<Rightarrow> agenda_plan \<Rightarrow> scheduler \<Rightarrow> u64 option \<times> scheduler" where
  "act_on v now p s =
    (let s1 = foldl (deliver_one v now) s (pn_deliver p);
         s2 = (if pn_digest p = [] then s1 else deliver_digest v now (pn_digest p) s1)
     in (case dispatch_governed v (pn_spawn p) now s2 of (wake, s3) \<Rightarrow>
       let s4 = foldl (\<lambda>s sp. resolve_spawnless v sp Missed now (missed_why sp) s) s3 (pn_missed_sessions p);
           s5 = foldl (\<lambda>s sp. resolve_spawnless v sp Unknown now (crashed_why sp) s) s4 (pn_crashed p)
       in (foldl min_wake None (opt_list (pn_next_wake_ms p) @ opt_list wake), s5)))"

definition fire_pass :: "scheduler_env \<Rightarrow> scheduler \<Rightarrow> u64 option \<times> scheduler" where
  "fire_pass v s = (case snapshot v s of (items, s1) \<Rightarrow>
     (case now_ms s1 of (now, s2) \<Rightarrow>
     (case quiet_until v now s2 of (quiet, s3) \<Rightarrow>
       act_on v now (plan (pass_env v items now quiet s3)) s3)))"

definition run_pass :: "scheduler_env \<Rightarrow> handover option \<Rightarrow> scheduler \<Rightarrow> u64 option \<times> scheduler" where
  "run_pass v ho s0 = (let s = refresh_pass v s0 in case ho of
     None \<Rightarrow> fire_pass v s
   | Some h \<Rightarrow>
       if ho_draining h then drain_pass h s
       else if ho_holder h then fire_pass v (snd (resolve_lost_sessions v (RecurringScope h) s))
       else if ho_acquires h (jn_max_generation (sd_journal s))
         then fire_pass v (snd (resolve_lost_sessions v (RecurringScope h)
           (s\<lparr>sd_journal := set_stamp (Some (stamp_of h)) (sd_journal s)\<rparr>)))
       else (case now_ms s of (t, s1) \<Rightarrow> (Some (t + ho_secondary_poll_ms h), s1)))"

definition safety_tick_ms :: u64 where "safety_tick_ms = 300000"

text \<open>One turn of the loop up to its sleep, with how long it sleeps.\<close>

definition loop_turn :: "scheduler_env \<Rightarrow> handover option \<Rightarrow> scheduler \<Rightarrow> u64 \<times> scheduler" where
  "loop_turn v ho s = (case run_pass v ho s of (w1, s1) \<Rightarrow>
     (case now_ms s1 of (now, s2) \<Rightarrow>
     (case sweep_pending_dispatches v now s2 of (w2, s3) \<Rightarrow>
     (case sweep_lineage_pending v now s3 of (w3, s4) \<Rightarrow>
     (case sweep_readopt_watch v now s4 of (w4, s5) \<Rightarrow>
       (case foldl min_wake None (opt_list w1 @ opt_list w2 @ opt_list w3 @ opt_list w4) of
          None \<Rightarrow> safety_tick_ms | Some wake \<Rightarrow> min (sat_sub wake now) safety_tick_ms, s5))))))"

text \<open>A daemon starts: the journal is read, the memory empty, what its predecessors lost resolved.\<close>

definition boot_state :: "handover option \<Rightarrow> occurrence_journal \<Rightarrow> scheduler \<Rightarrow> scheduler" where
  "boot_state ho j s = s\<lparr>sd_awaiting := [], sd_running := [], sd_early_outcomes := [], sd_session_aliases := [],
     sd_lineage_pending := [], sd_readopt_watch := [], sd_last_start_ms := None,
     sd_journal := (case ho of None \<Rightarrow> j | Some h \<Rightarrow> set_stamp (Some (stamp_of h)) j)\<rparr>"

definition boot :: "scheduler_env \<Rightarrow> handover option \<Rightarrow> scheduler \<Rightarrow> (readopt_seed list \<times> scheduler) option" where
  "boot v ho s = (case open_journal (sv_journal v) (jn_disk (sd_journal s)) (jn_io (sd_journal s)) of
     (Inl _, j) \<Rightarrow> None
   | (Inr _, j) \<Rightarrow> (case resolve_lost_sessions v (case ho of None \<Rightarrow> Unscoped | Some h \<Rightarrow> BootScope h)
         (boot_state ho j s) of
       ((seeds, watches), s1) \<Rightarrow> Some (seeds, s1\<lparr>sd_readopt_watch := watches\<rparr>)))"

end
