(* ===== verification/SchedulerFacts.thy ===== *)
theory SchedulerFacts
  imports AgendaScheduler PlannerFacts
begin

text \<open>
  What the scheduler's handlers have in common. Every handler is a sequence of a few kinds of
  step (\<open>micro\<close>): memory, the journal growing, a notification, a task sent again, a task sent for
  the first time. The conditions of the last two carry the theorems: whatever is announced or
  started was on disk before, and one occurrence is only ever one task.
\<close>

section \<open>The journal grows\<close>

definition extends :: "(occurrence_journal \<Rightarrow> 'a journaled) \<Rightarrow> bool" where
  "extends c = (\<forall>j. (\<exists>r. jn_disk (snd (c j)) = jn_disk j @ r) \<and> set (jn_io (snd (c j))) \<subseteq> set (jn_io j))"

lemma extendsI:
  assumes "\<And>j. (\<exists>r. jn_disk (snd (c j)) = jn_disk j @ r) \<and> set (jn_io (snd (c j))) \<subseteq> set (jn_io j)"
  shows "extends c"
  using assms by (simp add: extends_def)

lemma extends_return [simp]: "extends (\<lambda>j. (r, j))"
  by (simp add: extends_def)

lemma extends_then:
  assumes "extends c" and "\<And>a. extends (f a)"
  shows "extends (\<lambda>j. jn_then (c j) f)"
proof (rule extendsI)
  fix j
  obtain r j1 where c: "c j = (r, j1)" by (cases "c j")
  obtain x where x: "jn_disk j1 = jn_disk j @ x" "set (jn_io j1) \<subseteq> set (jn_io j)"
    using assms(1) c by (metis extends_def snd_conv)
  show "(\<exists>r. jn_disk (snd (jn_then (c j) f)) = jn_disk j @ r)
      \<and> set (jn_io (snd (jn_then (c j) f))) \<subseteq> set (jn_io j)"
  proof (cases r)
    case (Inl e)
    then show ?thesis using x by (simp add: jn_then_def c)
  next
    case (Inr a)
    obtain y where "jn_disk (snd (f a j1)) = jn_disk j1 @ y" "set (jn_io (snd (f a j1))) \<subseteq> set (jn_io j1)"
      using assms(2) by (metis extends_def)
    then show ?thesis using x Inr by (auto simp: jn_then_def c)
  qed
qed

lemma extends_if: "extends c \<Longrightarrow> extends d \<Longrightarrow> extends (\<lambda>j. if b j then c j else d j)"
  by (simp add: extends_def)

lemma extends_step: "extends jn_step"
  by (rule extendsI) (auto simp: jn_step_def jn_next_def split: list.split option.split)

lemma extends_write: "extends (jn_write x)"
  by (rule extendsI) (auto simp: jn_write_def jn_next_def split: list.split option.split)

lemma extends_reread: "extends (reread w)"
proof -
  have "extends (\<lambda>j. (Inr (), jn_load w j))"
    by (rule extendsI) (simp add: jn_load_def split: prod.split)
  then show ?thesis unfolding reread_def by (rule extends_then [OF extends_step])
qed

lemma extends_refresh: "extends (refresh_journal w)"
  unfolding refresh_journal_def by (intro extends_then extends_step extends_if extends_reread extends_return)

lemma extends_seal: "extends terminate_torn_tail"
  unfolding terminate_torn_tail_def
  by (intro extends_then extends_step extends_if extends_write extends_return)

lemma extends_write_record: "extends (write_record w rec)"
proof (cases "je_encode w rec")
  case None
  then show ?thesis by (simp add: write_record_def [abs_def])
next
  case (Some body)
  have "extends (\<lambda>j. (Inr (), j\<lparr>jn_folded_len := x j, jn_max_generation := y j, jn_state := z j\<rparr>))" for x y z
    by (simp add: extends_def)
  then show ?thesis
    unfolding write_record_def [abs_def] Some option.case Let_def
    by (intro extends_then extends_write extends_if extends_step extends_return)
qed

lemma extends_append: "extends (journal_append w rec)"
proof (rule extendsI)
  fix j
  have locked: "extends (append_locked w rec)"
  proof -
    have "extends (\<lambda>j. write_record w (stamped (jn_stamp j) rec) j)"
      using extends_write_record by (auto simp: extends_def)
    then show ?thesis
      unfolding append_locked_def [abs_def]
      by (intro extends_then extends_refresh extends_seal extends_if extends_reread extends_return)
  qed
  have "extends (\<lambda>j. case append_locked w rec j of (Inl e, j2) \<Rightarrow> (Inl e, snd (jn_step j2)) | (Inr u, j2) \<Rightarrow> jn_step j2)"
  proof (rule extendsI)
    fix j
    obtain r j2 where a: "append_locked w rec j = (r, j2)" by (cases "append_locked w rec j")
    obtain x where "jn_disk j2 = jn_disk j @ x" "set (jn_io j2) \<subseteq> set (jn_io j)"
      using locked a by (metis extends_def snd_conv)
    moreover obtain y where "jn_disk (snd (jn_step j2)) = jn_disk j2 @ y" "set (jn_io (snd (jn_step j2))) \<subseteq> set (jn_io j2)"
      using extends_step by (metis extends_def)
    ultimately show "(\<exists>r. jn_disk (snd (case append_locked w rec j of (Inl e, j2) \<Rightarrow> (Inl e, snd (jn_step j2))
          | (Inr u, j2) \<Rightarrow> jn_step j2)) = jn_disk j @ r)
        \<and> set (jn_io (snd (case append_locked w rec j of (Inl e, j2) \<Rightarrow> (Inl e, snd (jn_step j2))
          | (Inr u, j2) \<Rightarrow> jn_step j2))) \<subseteq> set (jn_io j)"
      by (cases r) (auto simp: a)
  qed
  from extends_then [OF extends_step this]
  show "(\<exists>r. jn_disk (snd (journal_append w rec j)) = jn_disk j @ r)
      \<and> set (jn_io (snd (journal_append w rec j))) \<subseteq> set (jn_io j)"
    by (simp add: journal_append_def [abs_def] extends_def)
qed

text \<open>What a journal operation may do: nobody else writes meanwhile, and nothing seen is forgotten.\<close>

definition jgrows :: "journal_env \<Rightarrow> occurrence_journal \<Rightarrow> occurrence_journal \<Rightarrow> bool" where
  "jgrows w j j' = ((\<exists>r. jn_disk j' = jn_disk j @ r) \<and> (locked False j \<longrightarrow> locked False j'
     \<and> (length (jn_disk j') < 2 ^ 64 \<longrightarrow>
         (\<forall>q. lags w q (jn_disk j) (jview j) \<longrightarrow> lags w q (jn_disk j') (jview j')))))"

lemma locked_subset: "set (jn_io j') \<subseteq> set (jn_io j) \<Longrightarrow> locked False j \<Longrightarrow> locked False j'"
  by (auto simp: locked_def list_all_iff)

lemma locked_quiet: "locked False j \<Longrightarrow> lock_held False j \<and> arrived j = []"
  by (cases "jn_io j") (auto simp: locked_def lock_held_def arrived_def)

text \<open>The codec of the rows: every row has a line that parses back to it.\<close>

definition row_codec :: "journal_env \<Rightarrow> bool" where
  "row_codec w = (\<forall>rec. \<exists>body. jencodes w rec body)"

lemma append_jgrows:
  assumes "row_codec w"
  shows "jgrows w j (snd (journal_append w rec j))"
proof -
  obtain r where r: "jn_disk (snd (journal_append w rec j)) = jn_disk j @ r"
    "set (jn_io (snd (journal_append w rec j))) \<subseteq> set (jn_io j)"
    using extends_append by (metis extends_def)
  obtain body where body: "jencodes w (stamped (jn_stamp j) rec) body" using assms by (auto simp: row_codec_def)
  show ?thesis
    unfolding jgrows_def
    using r locked_subset journal_append_recovers [OF _ _ body] locked_quiet [of j] by fastforce
qed

lemma refresh_jgrows: "jgrows w j (snd (refresh_journal w j))"
proof -
  obtain r where r: "jn_disk (snd (refresh_journal w j)) = jn_disk j @ r"
    "set (jn_io (snd (refresh_journal w j))) \<subseteq> set (jn_io j)"
    using extends_refresh by (metis extends_def)
  have "lags w q (jn_disk (snd (refresh_journal w j))) (jview (snd (refresh_journal w j)))"
    if "locked False j" "length (jn_disk (snd (refresh_journal w j))) < 2 ^ 64" "lags w q (jn_disk j) (jview j)" for q
  proof -
    have len: "length (jn_disk j) < 2 ^ 64" using that(2) r(1) by simp
    have "locked False j \<and> core j = (jn_disk j, jview j, jn_stamp j)" using that(1) by (simp add: core_eq)
    from jtripleD [OF refresh_triple [OF that(3) len] this] that(3) show ?thesis
      by (auto simp: core_eq lags_fold split: prod.splits sum.splits)
  qed
  then show ?thesis unfolding jgrows_def using r locked_subset by blast
qed

lemma stamp_jgrows: "jgrows w j (set_stamp st j)"
  by (simp add: jgrows_def set_stamp_def locked_def jview_def)

section \<open>What is on disk\<close>

text \<open>
  An occurrence is known when a terminated part of the file that the view has seen has a row of it.
  The file must fit the counter of its length.
\<close>

definition known :: "journal_env \<Rightarrow> occurrence_journal \<Rightarrow> string \<Rightarrow> bool" where
  "known w j occ = (\<exists>q. ended q \<and> lags w q (jn_disk j) (jview j)
     \<and> touched (progress_in (fst (fold_journal w q)) occ))"

definition small :: "scheduler \<Rightarrow> bool" where
  "small s = (length (jn_disk (sd_journal s)) < 2 ^ 64)"

lemma known_touched:
  assumes "known w j occ"
  shows "touched (journal_progress j occ)"
proof -
  obtain q p where q: "ended q" "touched (progress_in (fst (fold_journal w q)) occ)"
      "jview j = fold_journal w (q @ p)"
    using assms by (auto simp: known_def lags_def)
  have "fst (jview j) = jn_state j" by (simp add: jview_def)
  with touched_grows [OF q(1,2), of p] q(3) show ?thesis by (simp add: journal_progress_def)
qed

lemma known_grows:
  assumes "known w j occ" "jgrows w j j'" "locked False j" "length (jn_disk j') < 2 ^ 64"
  shows "known w j' occ"
  using assms unfolding known_def jgrows_def by blast

lemma touched_row:
  "touched (fold_record_into e rec)"
  by (cases "oj_state rec") (auto simp: fold_record_into_def touched_def Let_def)

lemma append_known:
  assumes "row_codec w" "locked False j" "lags w [] (jn_disk j) (jview j)" "journal_append w rec j = (Inr u, j')"
    and "length (jn_disk j') < 2 ^ 64"
  shows "known w j' (oj_occurrence_id rec)"
proof -
  obtain body where body: "jencodes w (stamped (jn_stamp j) rec) body" using assms(1) by (auto simp: row_codec_def)
  have quiet: "lock_held False j" "arrived j = []" using locked_quiet [OF assms(2)] by auto
  obtain r where "jn_disk j' = jn_disk j @ r" using extends_append assms(4) by (metis extends_def snd_conv)
  then have len: "length (jn_disk j) < 2 ^ 64" using assms(5) by simp
  let ?d = "terminated (jn_disk j) @ body @ [newline]"
  from journal_append_cases [OF body assms(3) quiet(1) refl] assms(4) quiet(2) len
  have core: "jn_disk j' = ?d" "jview j' = fold_journal w ?d" by (auto simp: core_eq)
  obtain m n g where t: "fold_journal w (terminated (jn_disk j)) = (m, n, g)"
    by (cases "fold_journal w (terminated (jn_disk j))")
  have "ended (terminated (jn_disk j))" by (simp add: terminated_def ended_def)
  from fold_journal_row [OF this body t]
  have "progress_in (fst (fold_journal w ?d)) (oj_occurrence_id (stamped (jn_stamp j) rec))
      = fold_record_into (progress_in m (oj_occurrence_id (stamped (jn_stamp j) rec))) (stamped (jn_stamp j) rec)"
    by (simp add: fold_entry_def progress_in_def)
  moreover have "oj_occurrence_id (stamped (jn_stamp j) rec) = oj_occurrence_id rec"
    by (simp add: stamped_def split: option.split)
  ultimately have "touched (progress_in (fst (fold_journal w ?d)) (oj_occurrence_id rec))"
    using touched_row by simp
  moreover have "lags w ?d (jn_disk j') (jview j')" using core lags_seen [of "jn_disk j'" ?d "[]" w] by simp
  moreover have "ended ?d" by (simp add: ended_def)
  ultimately show ?thesis unfolding known_def by blast
qed

section \<open>The steps of a handler\<close>

definition keeps_awaiting :: "(string \<times> pending_dispatch) list \<Rightarrow> (string \<times> pending_dispatch) list \<Rightarrow> bool" where
  "keeps_awaiting aw aw' = (\<forall>k p'. (k, p') \<in> set aw' \<longrightarrow>
     (\<exists>p. (k, p) \<in> set aw \<and> pending_task p' = pending_task p \<and> pd_spawn p' = pd_spawn p))"

definition unsent :: "scheduler \<Rightarrow> string \<Rightarrow> bool" where
  "unsent s occ = (\<forall>t. StartTask t \<in> set (sd_bus s) \<longrightarrow> sk_delegation_id t \<noteq> delegation_prefix @ occ)"

text \<open>The shape of the scheduler's memory: its maps are maps, its lists are bounded.\<close>

definition memory_ok :: "scheduler \<Rightarrow> bool" where
  "memory_ok s = (distinct (map fst (sd_awaiting s)) \<and> distinct (map fst (sd_running s))
     \<and> distinct (map fst (sd_early_outcomes s)) \<and> length (sd_early_outcomes s) \<le> early_outcome_cap
     \<and> length (sd_session_aliases s) \<le> session_alias_cap
     \<and> (\<forall>k p. (k, p) \<in> set (sd_awaiting s) \<longrightarrow> sw_occurrence_id (pd_spawn p) = k))"

lemma set_alist_delete: "set (AList.delete k al) \<subseteq> set al"
  by (auto simp: AList.delete_eq)

lemma set_alist_update: "(k, x) \<in> set (AList.update i p al) \<Longrightarrow> (k = i \<and> x = p) \<or> (k, x) \<in> set al"
  by (induction al) (auto split: if_splits)

lemma memory_same [simp]:
  "memory_ok (s\<lparr>sd_journal := j\<rparr>) = memory_ok s" "memory_ok (s\<lparr>sd_store := st\<rparr>) = memory_ok s"
  "memory_ok (s\<lparr>sd_clock := c\<rparr>) = memory_ok s" "memory_ok (s\<lparr>sd_lineages := l\<rparr>) = memory_ok s"
  "memory_ok (s\<lparr>sd_bus := b\<rparr>) = memory_ok s" "memory_ok (s\<lparr>sd_lineage_pending := lp\<rparr>) = memory_ok s"
  "memory_ok (s\<lparr>sd_readopt_watch := rw\<rparr>) = memory_ok s" "memory_ok (s\<lparr>sd_last_start_ms := n\<rparr>) = memory_ok s"
  "memory_ok (s\<lparr>sd_policy := po\<rparr>) = memory_ok s" "memory_ok (send e s) = memory_ok s"
  by (simp_all add: memory_ok_def send_def)

lemma memory_empty [simp]: "sd_awaiting s = [] \<Longrightarrow> sd_running s = [] \<Longrightarrow> sd_early_outcomes s = []
    \<Longrightarrow> sd_session_aliases s = [] \<Longrightarrow> memory_ok s"
  by (simp add: memory_ok_def)

lemma memory_delete_awaiting [simp]:
  "memory_ok s \<Longrightarrow> memory_ok (s\<lparr>sd_awaiting := AList.delete k (sd_awaiting s)\<rparr>)"
  using set_alist_delete [of k "sd_awaiting s"] by (auto simp: memory_ok_def distinct_delete)

lemma memory_update_awaiting [simp]:
  assumes "memory_ok s"
  shows "memory_ok (s\<lparr>sd_awaiting := AList.update (sw_occurrence_id (pd_spawn p)) p (sd_awaiting s)\<rparr>)"
proof -
  have "sw_occurrence_id (pd_spawn x) = k"
    if "(k, x) \<in> set (AList.update (sw_occurrence_id (pd_spawn p)) p (sd_awaiting s))" for k x
    using set_alist_update [OF that] assms by (auto simp: memory_ok_def)
  then show ?thesis using assms by (simp add: memory_ok_def distinct_update)
qed

lemma memory_running [simp]:
  "memory_ok s \<Longrightarrow> memory_ok (s\<lparr>sd_running := AList.delete k (sd_running s)\<rparr>)"
  "memory_ok s \<Longrightarrow> memory_ok (s\<lparr>sd_running := AList.update k x (sd_running s)\<rparr>)"
  by (simp_all add: memory_ok_def distinct_delete distinct_update)

lemma take_first_keys: "take_first k xs = Some (a, ys) \<Longrightarrow> \<exists>us vs. xs = us @ (k, a) # vs \<and> ys = us @ vs"
proof (induction xs arbitrary: ys)
  case (Cons x xs)
  obtain i b where x: "x = (i, b)" by (cases x)
  show ?case
  proof (cases "i = k")
    case True
    then show ?thesis using Cons.prems by (intro exI [of _ "[]"] exI [of _ xs]) (simp add: x)
  next
    case False
    then obtain zs where z: "take_first k xs = Some (a, zs)" "ys = x # zs" using Cons.prems by (auto simp: x)
    obtain us vs where "xs = us @ (k, a) # vs" "zs = us @ vs" using Cons.IH [OF z(1)] by blast
    then show ?thesis using z(2) by (intro exI [of _ "x # us"] exI [of _ vs]) simp
  qed
qed simp

lemma memory_take_one: "take_early_outcome i s = (e, s') \<Longrightarrow> memory_ok s \<Longrightarrow> memory_ok s'"
  by (auto simp: take_early_outcome_def memory_ok_def split: option.splits dest!: take_first_keys)

lemma memory_take: "take_early_outcome_aliased i s = (e, s') \<Longrightarrow> memory_ok s \<Longrightarrow> memory_ok s'"
  by (auto simp: take_early_outcome_aliased_def split: option.splits prod.splits dest: memory_take_one)

lemma capped_keys: "distinct (map fst xs) \<Longrightarrow> distinct (map fst (capped n xs))" "length xs \<le> Suc n \<Longrightarrow> length (capped n xs) \<le> n"
  by (cases xs; simp add: capped_def)+

lemma memory_remember [simp]: "memory_ok s \<Longrightarrow> memory_ok (remember_early_outcome i x s)"
  by (simp add: memory_ok_def remember_early_outcome_def capped_keys)

lemma memory_alias [simp]: "memory_ok s \<Longrightarrow> memory_ok (note_session_alias a b s)"
  by (simp add: memory_ok_def note_session_alias_def capped_keys)

inductive micro :: "journal_env \<Rightarrow> scheduler \<Rightarrow> scheduler \<Rightarrow> bool" for w where
  micro_quiet: "sd_journal s' = sd_journal s \<Longrightarrow> sd_bus s' = sd_bus s
     \<Longrightarrow> keeps_awaiting (sd_awaiting s) (sd_awaiting s') \<Longrightarrow> (memory_ok s \<longrightarrow> memory_ok s')
     \<Longrightarrow> micro w s s'"
| micro_journal: "jgrows w (sd_journal s) j \<Longrightarrow> micro w s (s\<lparr>sd_journal := j\<rparr>)"
| micro_notify: "un_title n \<noteq> ''Reminder'' \<Longrightarrow> micro w s (send (UserNotification n) s)"
| micro_drain: "micro w s (send DrainEntry s)"
| micro_remind: "(small s \<longrightarrow> known w (sd_journal s) occ) \<Longrightarrow> un_id n = ''agenda-'' @ occ
     \<Longrightarrow> micro w s (send (UserNotification n) s)"
| micro_resend: "(k, p) \<in> set (sd_awaiting s) \<Longrightarrow> micro w s (send (StartTask (pending_task p)) s)"
| micro_start: "(small s \<longrightarrow> known w (sd_journal s) (sw_occurrence_id (pd_spawn p))
       \<and> unsent s (sw_occurrence_id (pd_spawn p)))
     \<Longrightarrow> micro w s (s\<lparr>sd_bus := sd_bus s @ [StartTask (pending_task p)],
          sd_awaiting := AList.update (sw_occurrence_id (pd_spawn p)) p (sd_awaiting s)\<rparr>)"

text \<open>The journal part of the invariant; a run of steps from a sound state.\<close>

definition sound :: "journal_env \<Rightarrow> scheduler \<Rightarrow> bool" where
  "sound w s = (locked False (sd_journal s)
     \<and> (small s \<longrightarrow> lags w [] (jn_disk (sd_journal s)) (jview (sd_journal s))))"

lemma send_simps [simp]:
  "sd_journal (send e s) = sd_journal s" "sd_bus (send e s) = sd_bus s @ [e]"
  "sd_awaiting (send e s) = sd_awaiting s"
  by (simp_all add: send_def)

lemma micro_jgrows: "micro w s s' \<Longrightarrow> jgrows w (sd_journal s) (sd_journal s')"
proof -
  have same: "jgrows w j j" for j by (simp add: jgrows_def)
  show "micro w s s' \<Longrightarrow> jgrows w (sd_journal s) (sd_journal s')"
    by (induction rule: micro.induct) (simp_all add: same)
qed

lemma jgrows_small: "jgrows w (sd_journal s) (sd_journal s') \<Longrightarrow> small s' \<Longrightarrow> small s"
  by (auto simp: jgrows_def small_def)

lemma micro_small: "micro w s s' \<Longrightarrow> small s' \<Longrightarrow> small s"
  using micro_jgrows jgrows_small by blast

lemma micro_sound: "micro w s s' \<Longrightarrow> sound w s \<Longrightarrow> sound w s'"
  using micro_jgrows [of w s s'] jgrows_small [of w s s'] by (auto simp: sound_def jgrows_def small_def)

definition runs :: "journal_env \<Rightarrow> scheduler \<Rightarrow> scheduler \<Rightarrow> bool" where
  "runs w s s' = (sound w s \<longrightarrow> (micro w)\<^sup>*\<^sup>* s s')"

lemma micros_sound: "(micro w)\<^sup>*\<^sup>* s s' \<Longrightarrow> sound w s \<Longrightarrow> sound w s'"
  by (induction rule: rtranclp_induct) (auto intro: micro_sound)

lemma runs_refl [simp]: "runs w s s"
  by (simp add: runs_def)

lemma runs_trans [trans]: "runs w s t \<Longrightarrow> runs w t u \<Longrightarrow> runs w s u"
  unfolding runs_def using micros_sound by (meson rtranclp_trans)

lemma runs_step: "micro w s s' \<Longrightarrow> runs w s s'"
  unfolding runs_def by blast

lemma runs_sound: "(sound w s \<Longrightarrow> runs w s s') \<Longrightarrow> runs w s s'"
  by (simp add: runs_def)

lemma runs_foldl: "(\<And>s x. x \<in> set xs \<Longrightarrow> runs w s (f s x)) \<Longrightarrow> runs w s (foldl f s xs)"
  by (induction xs arbitrary: s) (auto intro: runs_trans)

lemma runs_foldl_snd:
  "(\<And>a x. x \<in> set xs \<Longrightarrow> runs w (g a) (g (f a x))) \<Longrightarrow> runs w (g a) (g (foldl f a xs))"
  by (induction xs arbitrary: a) (auto intro: runs_trans)

section \<open>The invariant of the bus\<close>

definition announced :: "journal_env \<Rightarrow> occurrence_journal \<Rightarrow> bus_event \<Rightarrow> bool" where
  "announced w j e = (case e of
     StartTask t \<Rightarrow> \<exists>occ. sk_delegation_id t = delegation_prefix @ occ \<and> known w j occ
   | UserNotification n \<Rightarrow> un_title n = ''Reminder'' \<longrightarrow> (\<exists>occ. un_id n = ''agenda-'' @ occ \<and> known w j occ)
   | DrainEntry \<Rightarrow> True)"

definition one_task :: "scheduler \<Rightarrow> bool" where
  "one_task s = (\<forall>t t'. StartTask t \<in> set (sd_bus s) \<and> StartTask t' \<in> set (sd_bus s)
     \<and> sk_delegation_id t = sk_delegation_id t' \<longrightarrow> t = t')"

definition bus_ok :: "journal_env \<Rightarrow> scheduler \<Rightarrow> bool" where
  "bus_ok w s = ((\<forall>e \<in> set (sd_bus s). announced w (sd_journal s) e) \<and> one_task s
     \<and> (\<forall>k p. (k, p) \<in> set (sd_awaiting s) \<longrightarrow> StartTask (pending_task p) \<in> set (sd_bus s)))"

definition scheduler_ok :: "journal_env \<Rightarrow> scheduler \<Rightarrow> bool" where
  "scheduler_ok w s = (sound w s \<and> memory_ok s \<and> (small s \<longrightarrow> bus_ok w s))"

lemma announced_grows:
  "announced w j e \<Longrightarrow> jgrows w j j' \<Longrightarrow> locked False j \<Longrightarrow> length (jn_disk j') < 2 ^ 64 \<Longrightarrow> announced w j' e"
  by (auto simp: announced_def dest: known_grows split: bus_event.splits)

lemma pending_delegation: "sk_delegation_id (pending_task p) = delegation_prefix @ sw_occurrence_id (pd_spawn p)"
  by (simp add: pending_task_def start_task_of_def)

lemma micro_bus:
  assumes "micro w s s'" "sound w s" "small s'" "bus_ok w s"
  shows "bus_ok w s'"
proof -
  have sm: "small s" using micro_small [OF assms(1,3)] .
  have kept: "announced w (sd_journal s') e" if "e \<in> set (sd_bus s)" for e
    using announced_grows [OF _ micro_jgrows [OF assms(1)]] assms(2,3,4) that
    by (auto simp: bus_ok_def sound_def small_def)
  from assms(1) kept assms(4) sm show ?thesis
  proof cases
    case micro_quiet
    then show ?thesis using kept assms(4) unfolding bus_ok_def one_task_def keeps_awaiting_def by metis
  next
    case (micro_journal j)
    then show ?thesis using kept assms(4) by (simp add: bus_ok_def one_task_def)
  next
    case (micro_notify n)
    then show ?thesis using kept assms(4) by (auto simp: bus_ok_def one_task_def announced_def)
  next
    case micro_drain
    then show ?thesis using kept assms(4) by (auto simp: bus_ok_def one_task_def announced_def)
  next
    case (micro_remind occ n)
    then show ?thesis using kept assms(4) sm by (auto simp: bus_ok_def one_task_def announced_def)
  next
    case (micro_resend k p)
    then have "StartTask (pending_task p) \<in> set (sd_bus s)" using assms(4) by (auto simp: bus_ok_def)
    then show ?thesis using micro_resend kept assms(4) by (auto simp: bus_ok_def one_task_def)
  next
    case (micro_start p)
    have aw: "StartTask (pending_task x) \<in> set (sd_bus s')" if "(k, x) \<in> set (sd_awaiting s')" for k x
      using that micro_start(1) assms(4)
        set_alist_update [of k x "sw_occurrence_id (pd_spawn p)" p "sd_awaiting s"] by (auto simp: bus_ok_def)
    have new: "known w (sd_journal s') (sw_occurrence_id (pd_spawn p))" "unsent s (sw_occurrence_id (pd_spawn p))"
      using micro_start sm by simp_all
    have "announced w (sd_journal s') (StartTask (pending_task p))"
      using new(1) pending_delegation by (auto simp: announced_def)
    moreover have "one_task s'"
      using assms(4) new(2) micro_start(1) pending_delegation [of p]
      unfolding bus_ok_def one_task_def unsent_def by auto
    ultimately show ?thesis using kept aw micro_start(1) by (auto simp: bus_ok_def)
  qed
qed

lemma micro_memory: "micro w s s' \<Longrightarrow> memory_ok s \<Longrightarrow> memory_ok s'"
proof (induction rule: micro.induct)
  case (micro_start s p)
  have "memory_ok (s\<lparr>sd_awaiting := AList.update (sw_occurrence_id (pd_spawn p)) p (sd_awaiting s)\<rparr>)"
    using micro_start.prems by (rule memory_update_awaiting)
  then show ?case by (simp add: memory_ok_def)
qed simp_all

lemma runs_ok: "runs w s s' \<Longrightarrow> scheduler_ok w s \<Longrightarrow> scheduler_ok w s'"
proof -
  assume "runs w s s'" and ok: "scheduler_ok w s"
  then have "(micro w)\<^sup>*\<^sup>* s s'" by (simp add: runs_def scheduler_ok_def)
  then show "scheduler_ok w s'" using ok
  proof (induction rule: rtranclp_induct)
    case (step t u)
    then show ?case unfolding scheduler_ok_def
      by (meson micro_bus micro_memory micro_small micro_sound)
  qed
qed

section \<open>Every handler is a run\<close>

declare classify_ended.simps [simp del] rekey_running.simps [simp del]

lemma keeps_refl [simp]: "keeps_awaiting aw aw"
  by (auto simp: keeps_awaiting_def)

lemma keeps_subset: "set aw' \<subseteq> set aw \<Longrightarrow> keeps_awaiting aw aw'"
  by (auto simp: keeps_awaiting_def)

lemma runs_quiet:
  "sd_journal s' = sd_journal s \<Longrightarrow> sd_bus s' = sd_bus s \<Longrightarrow> set (sd_awaiting s') \<subseteq> set (sd_awaiting s)
     \<Longrightarrow> (memory_ok s \<Longrightarrow> memory_ok s') \<Longrightarrow> runs w s s'"
  by (rule runs_step, rule micro_quiet) (simp_all add: keeps_subset)

lemma runs_notify: "un_title n \<noteq> ''Reminder'' \<Longrightarrow> runs w s (send (UserNotification n) s)"
  by (rule runs_step, rule micro_notify)

lemma runs_notify_all:
  "(\<And>n. n \<in> set ns \<Longrightarrow> un_title n \<noteq> ''Reminder'')
     \<Longrightarrow> runs w s (s\<lparr>sd_bus := sd_bus s @ map UserNotification ns\<rparr>)"
proof (induction ns arbitrary: s)
  case (Cons n ns)
  have "runs w s (send (UserNotification n) s)" using Cons.prems by (intro runs_notify) simp
  also have "runs w (send (UserNotification n) s) (s\<lparr>sd_bus := sd_bus s @ map UserNotification (n # ns)\<rparr>)"
    using Cons.IH [of "send (UserNotification n) s"] Cons.prems by (simp add: send_def)
  finally show ?case .
qed simp

lemma runs_now: "now_ms s = (t, s') \<Longrightarrow> runs w s s'"
  using now_msD [of s t s'] by (auto intro: runs_quiet)

lemma runs_ask: "ask_lineage seeds s = (l, s') \<Longrightarrow> runs w s s'"
  using ask_lineageD [of seeds s l s'] by (auto intro: runs_quiet)

lemma runs_on_item: "runs w s (record_on_item v sp st sid nt s)"
proof -
  obtain c x ns where r: "record_on_item v sp st sid nt s
      = s\<lparr>sd_clock := c, sd_store := x, sd_bus := sd_bus s @ map UserNotification ns\<rparr>"
      "\<And>n. n \<in> set ns \<Longrightarrow> un_title n \<noteq> ''Reminder''"
    using record_on_item_frame [of v sp st sid nt s] by auto
  have "runs w s (s\<lparr>sd_clock := c, sd_store := x\<rparr>)" by (rule runs_quiet) simp_all
  also have "runs w (s\<lparr>sd_clock := c, sd_store := x\<rparr>) (record_on_item v sp st sid nt s)"
    using runs_notify_all [of ns w "s\<lparr>sd_clock := c, sd_store := x\<rparr>"] r by simp
  finally show ?thesis .
qed

lemma runs_write_back: "runs w s (snd (write_back v ow s))"
  unfolding write_back_def
  by (auto split: prod.split dest!: now_msD intro: runs_quiet)

text \<open>The rows the scheduler writes can be read back.\<close>

definition durable :: "scheduler_env \<Rightarrow> bool" where
  "durable v = row_codec (sv_journal v)"

lemma runs_append:
  assumes "durable v"
  shows "runs (sv_journal v) s (snd (append_row v row s))"
proof -
  obtain r j where a: "journal_append (sv_journal v) row (sd_journal s) = (r, j)"
    by (cases "journal_append (sv_journal v) row (sd_journal s)")
  have "jgrows (sv_journal v) (sd_journal s) j"
    using append_jgrows [OF assms [unfolded durable_def], of "sd_journal s" row] a by simp
  then have "micro (sv_journal v) s (s\<lparr>sd_journal := j\<rparr>)" by (rule micro_journal)
  then show ?thesis using a by (auto simp: append_row_def intro: runs_step)
qed

lemma append_row_known:
  assumes "durable v" "sound (sv_journal v) s" "append_row v row s = (True, s')" "small s'"
  shows "known (sv_journal v) (sd_journal s') (oj_occurrence_id row)"
proof -
  let ?w = "sv_journal v"
  obtain r j where a: "journal_append ?w row (sd_journal s) = (r, j)"
    by (cases "journal_append ?w row (sd_journal s)")
  with assms(3) have s': "s' = s\<lparr>sd_journal := j\<rparr>" "r = Inr ()" by (auto simp: append_row_def)
  have codec: "row_codec ?w" using assms(1) by (simp add: durable_def)
  have "jgrows ?w (sd_journal s) j" using append_jgrows [OF codec, of "sd_journal s" row] a by simp
  then have "small s" using assms(4) s'(1) jgrows_small [of ?w s s'] by simp
  then show ?thesis
    using append_known [OF codec, of "sd_journal s" row "()" j] a assms(2,4) s' by (auto simp: sound_def small_def)
qed

lemma runs_record: "durable v \<Longrightarrow> runs (sv_journal v) s (snd (session_record v sp now st sid s))"
  by (simp add: session_record_def runs_append)

lemma spawnless_cases:
  obtains s1 where "session_record v sp now terminal None s = (False, s1)"
      "resolve_spawnless v sp terminal now why s = s1"
  | s1 st where "session_record v sp now terminal None s = (True, s1)"
      "resolve_spawnless v sp terminal now why s
       = send (session_notification st sp (''Scheduled session '' @ st) why now) (record_on_item v sp st None (Some why) s1)"
proof -
  obtain ok s1 where r: "session_record v sp now terminal None s = (ok, s1)"
    by (cases "session_record v sp now terminal None s")
  show thesis
  proof (cases ok)
    case True
    show ?thesis by (rule that(2)) (use r True in \<open>simp_all add: resolve_spawnless_def Let_def\<close>)
  next
    case False
    show ?thesis by (rule that(1)) (use r False in \<open>simp_all add: resolve_spawnless_def\<close>)
  qed
qed

lemma runs_spawnless:
  assumes "durable v"
  shows "runs (sv_journal v) s (resolve_spawnless v sp terminal now why s)"
proof (cases rule: spawnless_cases [of v sp now terminal s why])
  case (1 s1)
  then show ?thesis using runs_record [OF assms, of s sp now terminal None] by simp
next
  case (2 s1 st)
  have "runs (sv_journal v) s s1" using runs_record [OF assms, of s sp now terminal None] 2(1) by simp
  also have "runs (sv_journal v) s1 (record_on_item v sp st None (Some why) s1)" by (rule runs_on_item)
  also have "runs (sv_journal v) \<dots> (resolve_spawnless v sp terminal now why s)"
    unfolding 2(2) session_notification_def by (rule runs_notify) simp
  finally show ?thesis .
qed

text \<open>The end of a running session, whichever way.\<close>

lemma runs_settle:
  assumes "durable v" "now_ms (s\<lparr>sd_running := AList.delete sid (sd_running s)\<rparr>) = (t, s1)"
  shows "runs (sv_journal v) s (record_on_item v sp st i note (snd (session_record v sp t x i s1)))"
proof -
  have "runs (sv_journal v) s (s\<lparr>sd_running := AList.delete sid (sd_running s)\<rparr>)" by (rule runs_quiet) simp_all
  also have "runs (sv_journal v) \<dots> s1" using assms(2) by (rule runs_now)
  also have "runs (sv_journal v) s1 (snd (session_record v sp t x i s1))" by (rule runs_record [OF assms(1)])
  also have "runs (sv_journal v) \<dots> (record_on_item v sp st i note (snd (session_record v sp t x i s1)))"
    by (rule runs_on_item)
  finally show ?thesis .
qed

lemma runs_fail: "durable v \<Longrightarrow> runs (sv_journal v) s (fail_running v sid reason s)"
  by (simp add: fail_running_def runs_settle split: option.split prod.split)

lemma runs_complete: "durable v \<Longrightarrow> runs (sv_journal v) s (complete_running v sid note s)"
  by (simp add: complete_running_def runs_settle split: option.split prod.split)

lemma runs_continue:
  assumes "durable v"
  shows "runs (sv_journal v) s (continue_under v sp successor note now s)"
proof -
  have "runs (sv_journal v) s (snd (session_record v sp now Started (Some successor) s))"
    by (rule runs_record [OF assms])
  also have "runs (sv_journal v) \<dots> (record_on_item v sp ''started'' (Some successor) (Some note)
      (snd (session_record v sp now Started (Some successor) s)))" by (rule runs_on_item)
  also have "runs (sv_journal v) \<dots> (continue_under v sp successor note now s)"
    unfolding continue_under_def Let_def by (rule runs_quiet) simp_all
  finally show ?thesis .
qed

lemma runs_take: "take_early_outcome_aliased i s = (e, s') \<Longrightarrow> runs w s s'"
  by (rule runs_quiet, erule_tac [4] memory_take) (auto simp: take_early_outcome_aliased_def take_early_outcome_def split: option.splits prod.splits)

lemma runs_classify:
  "durable v \<Longrightarrow> runs (sv_journal v) s (classify_ended v key eid reason at now s)"
  "durable v \<Longrightarrow> runs (sv_journal v) s (rekey_running v key successor reason now s)"
proof (induction v key eid reason at now s and v key successor reason now s rule: classify_ended_rekey_running.induct)
  case (1 v key eid reason at now s)
  show ?case
  proof (cases "key \<in> fst ` set (sd_running s)")
    case True
    obtain l s1 where a: "ask_lineage (ended_ids s key eid) s = (l, s1)" by (cases "ask_lineage (ended_ids s key eid) s")
    have "runs (sv_journal v) s s1" using a by (rule runs_ask)
    also have "runs (sv_journal v) s1 (classify_ended v key eid reason at now s)"
      using 1 a True runs_fail [OF 1(2), of s1 key reason]
      by (subst classify_ended.simps)
         (auto simp: Let_def split: option.split intro: runs_quiet)
    finally show ?thesis .
  qed (subst classify_ended.simps, simp)
next
  case (2 v key successor reason now s)
  show ?case
  proof (cases "map_of (sd_running s) key")
    case None
    then show ?thesis by (subst rekey_running.simps) simp
  next
    case (Some sp)
    let ?s1 = "continue_under v sp successor (rekey_note successor reason) now (s\<lparr>sd_running := AList.delete key (sd_running s)\<rparr>)"
    obtain e s2 where t: "take_early_outcome_aliased successor ?s1 = (e, s2)"
      by (cases "take_early_outcome_aliased successor ?s1")
    have "runs (sv_journal v) s (s\<lparr>sd_running := AList.delete key (sd_running s)\<rparr>)" by (rule runs_quiet) simp_all
    also have "runs (sv_journal v) \<dots> ?s1" by (rule runs_continue [OF 2(2)])
    also have "runs (sv_journal v) ?s1 s2" using t by (rule runs_take)
    also have "runs (sv_journal v) s2 (rekey_running v key successor reason now s)"
      using 2 Some t runs_complete
      by (subst rekey_running.simps) (auto split: option.split)
    finally show ?thesis .
  qed
qed

subsection \<open>Reminders\<close>

lemma runs_remind:
  assumes "durable v"
  shows "runs (sv_journal v) s (snd (reminder_record v d now st u s))"
  by (simp add: reminder_record_def runs_append [OF assms])

lemma runs_deliver:
  assumes "durable v"
  shows "runs (sv_journal v) s (deliver_one v now s d)"
proof (rule runs_sound)
  assume sound: "sound (sv_journal v) s"
  show ?thesis
  proof (cases "as_notification (du_urgency d)")
    case None
    then show ?thesis by (simp add: deliver_one_def runs_remind [OF assms])
  next
    case (Some urgency)
    obtain ok s1 where r: "reminder_record v d now Prepared None s = (ok, s1)"
      by (cases "reminder_record v d now Prepared None s")
    have first: "runs (sv_journal v) s s1" using runs_remind [OF assms, of s d now Prepared None] r by simp
    show ?thesis
    proof (cases ok)
      case False
      then show ?thesis using first by (simp add: deliver_one_def Some r)
    next
      case True
      let ?n = "\<lparr> un_id = ''agenda-'' @ du_occurrence_id d, un_title = ''Reminder'',
            un_text = reminder_text d now, un_urgency = urgency, un_ts = now \<rparr>"
      have "known (sv_journal v) (sd_journal s1) (du_occurrence_id d)" if "small s1"
        using append_row_known [OF assms sound, of "reminder_row d now Prepared None" s1] r True that
        by (simp add: reminder_record_def reminder_row_def)
      then have "micro (sv_journal v) s1 (send (UserNotification ?n) s1)"
        by (intro micro_remind [of _ _ "du_occurrence_id d"]) simp_all
      note first
      also have "runs (sv_journal v) s1 (send (UserNotification ?n) s1)" by (rule runs_step) fact
      also have "runs (sv_journal v) \<dots> (deliver_one v now s d)"
        by (simp add: deliver_one_def Some r True runs_remind [OF assms])
      finally show ?thesis .
    qed
  qed
qed

lemma runs_digest_one:
  assumes "durable v"
  shows "runs (sv_journal v) (snd acc) (snd (digest_one v now acc d))"
proof -
  obtain ls s where acc: "acc = (ls, s)" by (cases acc)
  obtain ok s1 where r: "reminder_record v d now Prepared None s = (ok, s1)"
    by (cases "reminder_record v d now Prepared None s")
  have "runs (sv_journal v) s s1" using runs_remind [OF assms, of s d now Prepared None] r by simp
  from runs_trans [OF this runs_remind [OF assms]] this
  show ?thesis by (cases ok) (simp_all add: digest_one_def acc r runs_remind [OF assms])
qed

lemma digest_title: "x @ '' passed while the daemon was down'' \<noteq> ''Reminder''"
proof
  assume "x @ '' passed while the daemon was down'' = ''Reminder''"
  then have "last (x @ '' passed while the daemon was down'') = last ''Reminder''" by (rule arg_cong)
  then show False by simp
qed

lemma runs_digest:
  assumes "durable v"
  shows "runs (sv_journal v) s (deliver_digest v now ds s)"
proof -
  obtain ls s1 where f: "foldl (digest_one v now) ([], s) ds = (ls, s1)"
    by (cases "foldl (digest_one v now) ([], s) ds")
  have "runs (sv_journal v) (snd ([] :: string list, s)) (snd (foldl (digest_one v now) ([], s) ds))"
    by (rule runs_foldl_snd [where g = snd]) (rule runs_digest_one [OF assms])
  then have "runs (sv_journal v) s s1" by (simp add: f)
  also have "runs (sv_journal v) s1 (deliver_digest v now ds s)"
    using digest_title [of "dec_string (length ls) @ '' reminder'' @ (if length ls = 1 then [] else ''s'')"]
    by (auto simp: deliver_digest_def f intro!: runs_notify)
  finally show ?thesis .
qed

subsection \<open>Dispatch\<close>

lemma consume_frame: "\<exists>c st. foldl (consume_one v sp) s xs = s\<lparr>sd_clock := c, sd_store := st\<rparr>"
proof (induction xs arbitrary: s)
  case Nil
  show ?case by (intro exI [of _ "sd_clock s"] exI [of _ "sd_store s"]) simp
next
  case (Cons x xs)
  obtain c where "snd (now_ms s) = s\<lparr>sd_clock := c\<rparr>" using now_msD [of s "fst (now_ms s)" "snd (now_ms s)"] by auto
  then obtain c1 st1 where one: "consume_one v sp s x = s\<lparr>sd_clock := c1, sd_store := st1\<rparr>"
    unfolding consume_one_def by (cases "now_ms s") auto
  obtain c2 st2 where "foldl (consume_one v sp) (s\<lparr>sd_clock := c1, sd_store := st1\<rparr>) xs
      = s\<lparr>sd_clock := c1, sd_store := st1\<rparr>\<lparr>sd_clock := c2, sd_store := st2\<rparr>" using Cons.IH by blast
  then show ?case by (intro exI [of _ c2] exI [of _ st2]) (simp add: one)
qed

text \<open>A dispatch sends its task only after the prepared row is on disk.\<close>

lemma runs_dispatch:
  assumes "durable v" "small s \<longrightarrow> unsent s (sw_occurrence_id sp)"
  shows "runs (sv_journal v) s (snd (dispatch_session v sp now s))"
proof (rule runs_sound)
  assume sound: "sound (sv_journal v) s"
  let ?root = "ie_resolve_project (se_intake (sv_store v)) (sw_project_root sp) (sw_provenance_session_id sp)"
  let ?occ = "sw_occurrence_id sp"
  show ?thesis
  proof (cases ?root)
    case (Inl why)
    then show ?thesis by (simp add: dispatch_session_def runs_spawnless [OF assms(1)])
  next
    case root: (Inr root)
    show ?thesis
    proof (cases "seal_lines (sv_seal_line v) (sw_binding_refs sp)")
      case (Inl why)
      then show ?thesis by (simp add: dispatch_session_def root runs_spawnless [OF assms(1)])
    next
      case ls: (Inr ls)
      obtain ok s1 where r: "session_record v sp now Prepared None s = (ok, s1)"
        by (cases "session_record v sp now Prepared None s")
      have first: "runs (sv_journal v) s s1" using runs_record [OF assms(1), of s sp now Prepared None] r by simp
      show ?thesis
      proof (cases ok)
        case False
        then show ?thesis using first by (simp add: dispatch_session_def root ls r)
      next
        case True
        let ?t = "start_task_of sp root ls"
        obtain c st where m: "foldl (consume_one v sp) s1 (sw_matched_item_ids sp) = s1\<lparr>sd_clock := c, sd_store := st\<rparr>"
          using consume_frame by blast
        obtain t s3 where t: "now_ms (send (StartTask ?t) (s1\<lparr>sd_clock := c, sd_store := st\<rparr>)) = (t, s3)"
          by (cases "now_ms (send (StartTask ?t) (s1\<lparr>sd_clock := c, sd_store := st\<rparr>))")
        obtain c2 where c2: "s3 = send (StartTask ?t) (s1\<lparr>sd_clock := c, sd_store := st\<rparr>)\<lparr>sd_clock := c2\<rparr>"
          using now_msD [OF t] by blast
        let ?p = "\<lparr> pd_spawn = sp, pd_project_root = root, pd_binding_ref_lines = ls,
            pd_first_attempt_ms = t, pd_last_attempt_ms = t \<rparr>"
        let ?u = "s1\<lparr>sd_clock := c2, sd_store := st\<rparr>"
        have j: "\<exists>j. s1 = s\<lparr>sd_journal := j\<rparr>"
          using session_record_frame [of v sp now Prepared None s] r by simp
        have occ: "known (sv_journal v) (sd_journal s1) ?occ" if "small s1"
          using append_row_known [OF assms(1) sound, of "session_row sp now Prepared None" s1] r True that
          by (simp add: session_record_def session_row_def)
        have earlier: "small s" if "small s1"
        proof -
          have "(micro (sv_journal v))\<^sup>*\<^sup>* s s1" using first sound by (simp add: runs_def)
          then show ?thesis using that by (induction rule: rtranclp_induct) (auto dest: micro_small)
        qed
        have "small ?u \<longrightarrow> known (sv_journal v) (sd_journal ?u) (sw_occurrence_id (pd_spawn ?p))
            \<and> unsent ?u (sw_occurrence_id (pd_spawn ?p))"
        proof
          assume "small ?u"
          then have "small s1" by (simp add: small_def)
          moreover have "unsent s ?occ" using assms(2) earlier [OF \<open>small s1\<close>] by simp
          ultimately show "known (sv_journal v) (sd_journal ?u) (sw_occurrence_id (pd_spawn ?p))
              \<and> unsent ?u (sw_occurrence_id (pd_spawn ?p))"
            using occ j by (auto simp: unsent_def)
        qed
        then have start: "micro (sv_journal v) ?u (?u\<lparr>sd_bus := sd_bus ?u @ [StartTask (pending_task ?p)],
            sd_awaiting := AList.update (sw_occurrence_id (pd_spawn ?p)) ?p (sd_awaiting ?u)\<rparr>)"
          by (rule micro_start)
        have "snd (dispatch_session v sp now s) = ?u\<lparr>sd_bus := sd_bus ?u @ [StartTask (pending_task ?p)],
            sd_awaiting := AList.update (sw_occurrence_id (pd_spawn ?p)) ?p (sd_awaiting ?u)\<rparr>"
          by (simp add: dispatch_session_def root ls r True m t pending_task_def Let_def) (simp add: c2 send_def)
        moreover have "runs (sv_journal v) s1 ?u" by (rule runs_quiet) simp_all
        ultimately show ?thesis using runs_trans [OF runs_trans [OF first] runs_step [OF start]] by simp
      qed
    qed
  qed
qed

text \<open>The tasks sent so far: only a successful dispatch and the retry sweep add to them.\<close>

definition tasks :: "scheduler \<Rightarrow> start_task list" where
  "tasks s = concat (map (\<lambda>e. case e of StartTask t \<Rightarrow> [t] | _ \<Rightarrow> []) (sd_bus s))"

lemma set_tasks: "t \<in> set (tasks s) \<longleftrightarrow> StartTask t \<in> set (sd_bus s)"
  by (force simp: tasks_def split: bus_event.splits)

lemma unsent_tasks: "unsent s occ \<longleftrightarrow> (\<forall>t \<in> set (tasks s). sk_delegation_id t \<noteq> delegation_prefix @ occ)"
  by (auto simp: unsent_def set_tasks)

lemma tasks_send [simp]: "tasks (send (UserNotification n) s) = tasks s" "tasks (send (StartTask t) s) = tasks s @ [t]"
  by (simp_all add: tasks_def)

lemma tasks_bus: "sd_bus s' = sd_bus s \<Longrightarrow> tasks s' = tasks s"
  by (simp add: tasks_def)

lemma tasks_on_item [simp]: "tasks (record_on_item v sp st sid nt s) = tasks s"
proof -
  obtain c x ns where "record_on_item v sp st sid nt s
      = s\<lparr>sd_clock := c, sd_store := x, sd_bus := sd_bus s @ map UserNotification ns\<rparr>"
    using record_on_item_frame [of v sp st sid nt s] by auto
  then show ?thesis by (simp add: tasks_def o_def)
qed

lemma tasks_append [simp]: "tasks (snd (append_row v row s)) = tasks s"
  by (simp add: append_row_def tasks_def split: prod.split)

lemma tasks_row: "append_row v row s = (ok, s1) \<Longrightarrow> tasks s1 = tasks s"
  using tasks_append [of v row s] by (metis snd_conv)

lemma tasks_record: "session_record v sp now st sid s = (ok, s1) \<Longrightarrow> tasks s1 = tasks s"
  by (auto simp: session_record_def dest: tasks_row)

lemma tasks_spawnless [simp]: "tasks (resolve_spawnless v sp terminal now why s) = tasks s"
  by (cases rule: spawnless_cases [of v sp now terminal s why])
     (auto simp: session_notification_def dest: tasks_record)

lemma tasks_deliver [simp]: "tasks (deliver_one v now s d) = tasks s"
proof -
  have r: "tasks s1 = tasks s" if "reminder_record v d now st u s = (ok, s1)" for st u ok s1
    using that by (auto simp: reminder_record_def dest: tasks_row)
  have "tasks (snd (reminder_record v d now st u s)) = tasks s" for st u s
    by (simp add: reminder_record_def)
  then show ?thesis by (auto simp: deliver_one_def split: option.split prod.split bool.split dest: r)
qed

lemma tasks_digest [simp]: "tasks (deliver_digest v now ds s) = tasks s"
proof -
  have row: "tasks (snd (reminder_record v d now st u s)) = tasks s" for d st u s
    by (simp add: reminder_record_def)
  have "tasks s1 = tasks s" if "reminder_record v d now st u s = (ok, s1)" for d st u ok s s1
    using that by (auto simp: reminder_record_def dest: tasks_row)
  then have one: "tasks (snd (digest_one v now acc d)) = tasks (snd acc)" for acc d
    by (auto simp: digest_one_def row split: prod.split bool.split)
  have "tasks (snd (foldl (digest_one v now) acc ds)) = tasks (snd acc)" for acc
    by (induction ds arbitrary: acc) (simp_all add: one)
  from this [of "([], s)"] show ?thesis
    by (cases "foldl (digest_one v now) ([], s) ds") (simp add: deliver_digest_def)
qed

lemma dispatch_tasks:
  "case dispatch_session v sp now s of
     (False, s1) \<Rightarrow> tasks s1 = tasks s
   | (True, s1) \<Rightarrow> \<exists>t. tasks s1 = tasks s @ [t] \<and> sk_delegation_id t = delegation_prefix @ sw_occurrence_id sp"
proof -
  obtain ok s1 where r: "session_record v sp now Prepared None s = (ok, s1)"
    by (cases "session_record v sp now Prepared None s")
  obtain c st where m: "foldl (consume_one v sp) s1 (sw_matched_item_ids sp) = s1\<lparr>sd_clock := c, sd_store := st\<rparr>"
    using consume_frame by blast
  have clock: "tasks s3 = tasks s2" if "now_ms s2 = (t, s3)" for s2 s3 t
    using now_msD [OF that] by (auto intro: tasks_bus)
  have same: "tasks (s\<lparr>sd_clock := c, sd_store := st\<rparr>) = tasks s" "tasks (s\<lparr>sd_awaiting := a\<rparr>) = tasks s" for s c st a
    by (simp_all add: tasks_def)
  show ?thesis
    using tasks_record [OF r]
    by (auto simp: dispatch_session_def r m same Let_def start_task_of_def
        split: sum.split prod.split bool.split dest: clock)
qed

subsection \<open>The governor\<close>

lemma window_closed: "sd_last_start_ms s = Some now \<Longrightarrow> starts_in_window s now = 1"
  by (simp add: starts_in_window_def sat_sub_def spawn_stagger_interval_ms_def)

lemma govern_after:
  "sd_last_start_ms s = Some now \<Longrightarrow> govern v now rest s
     = (if rest = [] then None else Some (now + spawn_stagger_interval_ms), s)"
  by (cases rest) (simp_all add: window_closed spawn_stagger_engage_at_def Let_def)

lemma govern_held: "starts_in_window s now \<noteq> 0
     \<Longrightarrow> govern v now (sp # rest) s = (map_option (\<lambda>l. l + spawn_stagger_interval_ms) (sd_last_start_ms s), s)"
  by (simp add: spawn_stagger_engage_at_def)

lemma govern_go: "starts_in_window s now = 0 \<Longrightarrow> dispatch_session v sp now s = (started, s1)
     \<Longrightarrow> govern v now (sp # rest) s = govern v now rest (if started then s1\<lparr>sd_last_start_ms := Some now\<rparr> else s1)"
  by simp

declare govern.simps(2) [simp del]

lemma dispatch_start:
  "sd_last_start_ms (snd (dispatch_session v sp now s)) = sd_last_start_ms s"
proof -
  have row: "sd_last_start_ms (snd (session_record v sp now st sid s)) = sd_last_start_ms s" for st sid s
    using session_record_frame [of v sp now st sid s] by auto
  have rows: "sd_last_start_ms s1 = sd_last_start_ms s" if "session_record v sp now st sid s = (ok, s1)" for st sid ok s s1
    using row [of st sid s] that by simp
  have item: "sd_last_start_ms (record_on_item v sp st sid nt s) = sd_last_start_ms s" for st sid nt s
    using record_on_item_frame [of v sp st sid nt s] by auto
  have less: "sd_last_start_ms (resolve_spawnless v sp x now why s) = sd_last_start_ms s" for x why s
    by (cases rule: spawnless_cases [of v sp now x s why]) (auto simp: send_def item dest: rows)
  obtain ok s1 where r: "session_record v sp now Prepared None s = (ok, s1)"
    by (cases "session_record v sp now Prepared None s")
  obtain c st where m: "foldl (consume_one v sp) s1 (sw_matched_item_ids sp) = s1\<lparr>sd_clock := c, sd_store := st\<rparr>"
    using consume_frame by blast
  have clock: "sd_last_start_ms s3 = sd_last_start_ms s2" if "now_ms s2 = (t, s3)" for s2 s3 t
    using now_msD [OF that] by auto
  show ?thesis
    using rows [OF r]
    by (auto simp: dispatch_session_def r m less Let_def send_def split: sum.split prod.split bool.split dest: clock)
qed

text \<open>What the governor makes of the due occurrences, in their order.\<close>

lemma govern_cases:
  "case govern v now due s of (wake, s') \<Rightarrow>
     (tasks s' = tasks s \<and> sd_last_start_ms s' = sd_last_start_ms s \<and> (starts_in_window s now = 0 \<longrightarrow> wake = None)
      \<or> (\<exists>t sp. sp \<in> set due \<and> tasks s' = tasks s @ [t] \<and> sk_delegation_id t = delegation_prefix @ sw_occurrence_id sp
           \<and> starts_in_window s now = 0 \<and> sd_last_start_ms s' = Some now))
     \<and> (\<forall>u. wake = Some u \<longrightarrow> (\<exists>l. sd_last_start_ms s' = Some l \<and> u = l + spawn_stagger_interval_ms))"
proof (induction due arbitrary: s)
  case (Cons sp rest)
  show ?case
  proof (cases "starts_in_window s now = 0")
    case False
    then obtain l where "sd_last_start_ms s = Some l" by (auto simp: starts_in_window_def split: option.splits)
    with False show ?thesis by (simp add: govern_held)
  next
    case zero: True
    obtain started s1 where d: "dispatch_session v sp now s = (started, s1)" by (cases "dispatch_session v sp now s")
    have last: "sd_last_start_ms s1 = sd_last_start_ms s" using dispatch_start [of v sp now s] d by simp
    have g: "govern v now (sp # rest) s = govern v now rest (if started then s1\<lparr>sd_last_start_ms := Some now\<rparr> else s1)"
      using govern_go [OF zero d] .
    show ?thesis
    proof (cases started)
      case True
      have "govern v now (sp # rest) s = (if rest = [] then None else Some (now + spawn_stagger_interval_ms),
          s1\<lparr>sd_last_start_ms := Some now\<rparr>)"
        using g govern_after [where s = "s1\<lparr>sd_last_start_ms := Some now\<rparr>" and now = now and v = v and rest = rest] True by simp
      moreover obtain t where "tasks s1 = tasks s @ [t]" "sk_delegation_id t = delegation_prefix @ sw_occurrence_id sp"
        using dispatch_tasks [where v = v and sp = sp and now = now and s = s] d True by auto
      moreover have "tasks (s1\<lparr>sd_last_start_ms := Some now\<rparr>) = tasks s1" by (rule tasks_bus) simp
      ultimately show ?thesis using zero by auto
    next
      case False
      have "tasks s1 = tasks s" using dispatch_tasks [where v = v and sp = sp and now = now and s = s] d False by simp
      moreover have "starts_in_window s1 now = starts_in_window s now" by (simp add: starts_in_window_def last)
      ultimately show ?thesis using Cons.IH [of s1] g False zero last by (auto split: prod.splits)
    qed
  qed
qed simp

lemma runs_govern:
  assumes "durable v" "\<And>sp. sp \<in> set due \<Longrightarrow> small s \<longrightarrow> unsent s (sw_occurrence_id sp)"
  shows "runs (sv_journal v) s (snd (govern v now due s))"
  using assms(2)
proof (induction due arbitrary: s)
  case (Cons sp rest)
  show ?case
  proof (rule runs_sound)
    assume sound: "sound (sv_journal v) s"
    obtain started s1 where d: "dispatch_session v sp now s = (started, s1)" by (cases "dispatch_session v sp now s")
    have first: "runs (sv_journal v) s s1"
      using runs_dispatch [OF assms(1), of s sp now] Cons.prems d by (auto simp: snd_def split: prod.splits)
    show "runs (sv_journal v) s (snd (govern v now (sp # rest) s))"
    proof (cases "starts_in_window s now = 0")
      case False
      then show ?thesis by (simp add: govern_held)
    next
      case True
      then have g: "govern v now (sp # rest) s = govern v now rest (if started then s1\<lparr>sd_last_start_ms := Some now\<rparr> else s1)"
        using d by (rule govern_go)
      show ?thesis
      proof (cases started)
        case True
        have "runs (sv_journal v) s1 (s1\<lparr>sd_last_start_ms := Some now\<rparr>)" by (rule runs_quiet) simp_all
        then show ?thesis
          using g govern_after [where s = "s1\<lparr>sd_last_start_ms := Some now\<rparr>" and now = now and v = v and rest = rest] True runs_trans [OF first] by simp
      next
        case started: False
        have "tasks s1 = tasks s" using dispatch_tasks [where v = v and sp = sp and now = now and s = s] d started by simp
        moreover have "small s" if "small s1"
        proof -
          have "(micro (sv_journal v))\<^sup>*\<^sup>* s s1" using first sound by (simp add: runs_def)
          then show ?thesis using that by (induction rule: rtranclp_induct) (auto dest: micro_small)
        qed
        ultimately have "runs (sv_journal v) s1 (snd (govern v now rest s1))"
          using Cons.prems by (intro Cons.IH) (auto simp: unsent_tasks)
        then show ?thesis using g started runs_trans [OF first] by simp
      qed
    qed
  qed
qed simp

subsection \<open>Sweeps and events\<close>

lemma runs_resends:
  assumes "\<And>k p. (k, p) \<in> set xs \<Longrightarrow> (k, p) \<in> set (sd_awaiting s)"
  shows "runs w s (s\<lparr>sd_bus := sd_bus s @ map (\<lambda>(k, p). StartTask (pending_task p)) xs\<rparr>)"
  using assms
proof (induction xs arbitrary: s)
  case (Cons x xs)
  obtain k p where x: "x = (k, p)" by (cases x)
  have "runs w s (send (StartTask (pending_task p)) s)"
    using Cons.prems x by (intro runs_step micro_resend [of k]) simp
  also have "runs w (send (StartTask (pending_task p)) s)
      (s\<lparr>sd_bus := sd_bus s @ map (\<lambda>(k, p). StartTask (pending_task p)) (x # xs)\<rparr>)"
    using Cons.IH [of "send (StartTask (pending_task p)) s"] Cons.prems by (simp add: send_def x)
  finally show ?case .
qed simp

lemma runs_abandon:
  assumes "durable v"
  shows "runs (sv_journal v) s (abandon v now s occ)"
proof (cases "map_of (sd_awaiting s) occ")
  case (Some p)
  have "runs (sv_journal v) s (s\<lparr>sd_awaiting := AList.delete occ (sd_awaiting s)\<rparr>)"
    by (rule runs_quiet) (simp_all add: set_alist_delete)
  also have "runs (sv_journal v) \<dots> (abandon v now s occ)"
    by (simp add: abandon_def Some runs_spawnless [OF assms])
  finally show ?thesis .
qed (simp add: abandon_def)

lemma runs_sweep_pending:
  assumes "durable v"
  shows "runs (sv_journal v) s (snd (sweep_pending_dispatches v now s))"
proof -
  let ?resent = "filter (\<lambda>(k, p). retry_due now p) (sd_awaiting s)"
  let ?s0 = "s\<lparr>sd_bus := sd_bus s @ map (\<lambda>(k, p). StartTask (pending_task p)) ?resent\<rparr>"
  let ?aw = "map (\<lambda>(k, p). (k, if retry_due now p then p\<lparr>pd_last_attempt_ms := now\<rparr> else p)) (sd_awaiting s)"
  have "runs (sv_journal v) s ?s0" by (rule runs_resends) auto
  also have "runs (sv_journal v) ?s0 (?s0\<lparr>sd_awaiting := ?aw\<rparr>)"
  proof (rule runs_step, rule micro_quiet)
    have "map fst ?aw = map fst (sd_awaiting s)" by auto
    then have "distinct (map fst ?aw) = distinct (map fst (sd_awaiting s))" by (rule arg_cong)
    then show "memory_ok ?s0 \<longrightarrow> memory_ok (?s0\<lparr>sd_awaiting := ?aw\<rparr>)"
      unfolding memory_ok_def by (auto simp del: map_map distinct_map)
  qed (auto simp: keeps_awaiting_def pending_task_def)
  also have "runs (sv_journal v) \<dots> (snd (sweep_pending_dispatches v now s))"
  proof -
    have "snd (sweep_pending_dispatches v now s) = foldl (abandon v now) (?s0\<lparr>sd_awaiting := ?aw\<rparr>)
        (map fst (filter (\<lambda>(k, p). expired now p) (sd_awaiting s)))"
      by (simp add: sweep_pending_dispatches_def Let_def)
    then show ?thesis by (simp only: runs_foldl runs_abandon [OF assms])
  qed
  finally show ?thesis .
qed

lemma runs_sweep_lineage:
  assumes "durable v"
  shows "runs (sv_journal v) s (snd (sweep_lineage_pending v now s))"
proof (cases "sd_lineage_pending s = []")
  case False
  have one: "runs (sv_journal v) s (sweep_lineage_one v now s e)" for s e
    by (simp add: sweep_lineage_one_def runs_classify [OF assms])
  have "runs (sv_journal v) s (s\<lparr>sd_lineage_pending := []\<rparr>)" by (rule runs_quiet) simp_all
  also have "runs (sv_journal v) \<dots> (snd (sweep_lineage_pending v now s))"
    using False by (simp add: sweep_lineage_pending_def Let_def runs_foldl one)
  finally show ?thesis .
qed (simp add: sweep_lineage_pending_def)

lemma runs_readopt:
  assumes "durable v"
  shows "runs (sv_journal v) s (readopt_rekey v sp successor now s)"
proof -
  let ?s1 = "continue_under v sp successor (readopt_note successor) now s"
  obtain e s2 where t: "take_early_outcome_aliased successor ?s1 = (e, s2)"
    by (cases "take_early_outcome_aliased successor ?s1")
  have "runs (sv_journal v) s ?s1" by (rule runs_continue [OF assms])
  also have "runs (sv_journal v) ?s1 s2" using t by (rule runs_take)
  finally have "runs (sv_journal v) s s2" .
  from runs_trans [OF this runs_complete [OF assms]] runs_trans [OF this runs_classify(1) [OF assms]] this
  show ?thesis by (auto simp: readopt_rekey_def t split: option.split)
qed

lemma runs_sweep_readopt:
  assumes "durable v"
  shows "runs (sv_journal v) s (snd (sweep_readopt_watch v now s))"
proof (cases "sd_readopt_watch s = []")
  case False
  have one: "runs (sv_journal v) s (sweep_readopt_one v now s e)" for s e
  proof -
    obtain l s1 where a: "ask_lineage [rw_dead_session_id e] s = (l, s1)" by (cases "ask_lineage [rw_dead_session_id e] s")
    have "runs (sv_journal v) s s1" using a by (rule runs_ask)
    also have "runs (sv_journal v) s1 (sweep_readopt_one v now s e)"
      by (auto simp: sweep_readopt_one_def a runs_readopt [OF assms] split: option.split intro: runs_quiet)
    finally show ?thesis .
  qed
  have "runs (sv_journal v) s (s\<lparr>sd_readopt_watch := []\<rparr>)" by (rule runs_quiet) simp_all
  also have "runs (sv_journal v) \<dots> (snd (sweep_readopt_watch v now s))"
    using False by (simp add: sweep_readopt_watch_def Let_def runs_foldl one)
  finally show ?thesis .
qed (simp add: sweep_readopt_watch_def)

lemma runs_receipt:
  assumes "durable v"
  shows "runs (sv_journal v) s (observe_receipt v delegation sid s)"
proof (cases "Option.bind (strip_prefix delegation_prefix delegation) (\<lambda>occ. map_option (Pair occ) (map_of (sd_awaiting s) occ))")
  case None
  then show ?thesis by (simp add: observe_receipt_def)
next
  case (Some x)
  obtain occ p where x: "x = (occ, p)" by (cases x)
  let ?s0 = "s\<lparr>sd_awaiting := AList.delete occ (sd_awaiting s)\<rparr>"
  obtain t s1 where t: "now_ms ?s0 = (t, s1)" by (cases "now_ms ?s0")
  let ?s2 = "record_on_item v (pd_spawn p) ''started'' (Some sid) None
     (snd (session_record v (pd_spawn p) t Started (Some sid) s1))"
  let ?s3 = "?s2\<lparr>sd_running := AList.update sid (pd_spawn p) (sd_running ?s2)\<rparr>"
  obtain e s4 where e: "take_early_outcome_aliased sid ?s3 = (e, s4)" by (cases "take_early_outcome_aliased sid ?s3")
  have "runs (sv_journal v) s ?s0" by (rule runs_quiet) (simp_all add: set_alist_delete)
  also have "runs (sv_journal v) ?s0 s1" using t by (rule runs_now)
  also have "runs (sv_journal v) s1 (snd (session_record v (pd_spawn p) t Started (Some sid) s1))"
    by (rule runs_record [OF assms])
  also have "runs (sv_journal v) \<dots> ?s2" by (rule runs_on_item)
  also have "runs (sv_journal v) ?s2 ?s3" by (rule runs_quiet) simp_all
  also have "runs (sv_journal v) ?s3 s4" using e by (rule runs_take)
  also have "runs (sv_journal v) s4 (observe_receipt v delegation sid s)"
    unfolding observe_receipt_def Some x option.case prod.case t Let_def e
    by (auto simp: runs_complete [OF assms] split: option.split prod.split
        intro: runs_trans [OF runs_now runs_classify(1) [OF assms]])
  finally show ?thesis .
qed

lemma runs_event:
  assumes "durable v"
  shows "runs (sv_journal v) s (observe_event v ev s)"
proof -
  have alias_ok: "runs (sv_journal v) s (note_session_alias a b s)" for a b
    by (rule runs_quiet, erule_tac [4] memory_alias) (simp_all add: note_session_alias_def)
  have rem: "runs (sv_journal v) s (remember_early_outcome sid x s)" for sid x
    by (rule runs_quiet, erule_tac [4] memory_remember) (simp_all add: remember_early_outcome_def)
  show ?thesis
    by (auto simp: observe_event_def runs_receipt [OF assms] alias_ok rem runs_complete [OF assms] runs_fail [OF assms] Let_def
        split: app_event.split option.split prod.split intro: runs_trans [OF runs_now runs_classify(1) [OF assms]])
qed

subsection \<open>Lost continuity and lost sessions\<close>

lemma runs_lagged:
  assumes "durable v"
  shows "runs (sv_journal v) s (snd (resolve_lagged_occurrence v sp sid now s))"
proof -
  obtain ok s1 where r: "session_record v sp now Unknown sid s = (ok, s1)"
    by (cases "session_record v sp now Unknown sid s")
  have "runs (sv_journal v) s s1" using runs_record [OF assms, of s sp now Unknown sid] r by simp
  also have "runs (sv_journal v) s1 (record_on_item v sp ''unknown'' sid (Some lag_why) s1)" by (rule runs_on_item)
  finally have "runs (sv_journal v) s (record_on_item v sp ''unknown'' sid (Some lag_why) s1)" .
  from runs_trans [OF this runs_notify] \<open>runs (sv_journal v) s s1\<close>
  show ?thesis by (cases ok) (simp_all add: resolve_lagged_occurrence_def r session_notification_def)
qed

lemma runs_lag:
  assumes "durable v"
  shows "runs (sv_journal v) s (resolve_lagged_occurrences v s)"
proof -
  have aw: "runs (sv_journal v) s (lag_awaiting v now s e)" for now s e
  proof -
    obtain ok s1 where r: "resolve_lagged_occurrence v (pd_spawn (snd e)) None now s = (ok, s1)"
      by (cases "resolve_lagged_occurrence v (pd_spawn (snd e)) None now s")
    have "runs (sv_journal v) s s1" using runs_lagged [OF assms, of s "pd_spawn (snd e)" None now] r by simp
    also have "runs (sv_journal v) s1 (lag_awaiting v now s e)"
      by (rule runs_quiet) (simp_all add: lag_awaiting_def r set_alist_delete)
    finally show ?thesis .
  qed
  have rn: "runs (sv_journal v) s (lag_running v now s e)" for now s e
  proof -
    obtain ok s1 where r: "resolve_lagged_occurrence v (snd e) (Some (fst e)) now s = (ok, s1)"
      by (cases "resolve_lagged_occurrence v (snd e) (Some (fst e)) now s")
    have "runs (sv_journal v) s s1" using runs_lagged [OF assms, of s "snd e" "Some (fst e)" now] r by simp
    also have "runs (sv_journal v) s1 (lag_running v now s e)"
      by (rule runs_quiet) (simp_all add: lag_running_def r)
    finally show ?thesis .
  qed
  obtain now s1 where t: "now_ms s = (now, s1)" by (cases "now_ms s")
  let ?s2 = "foldl (lag_awaiting v now) s1 (sd_awaiting s1)"
  let ?s3 = "foldl (lag_running v now) ?s2 (sd_running ?s2)"
  have "runs (sv_journal v) s s1" using t by (rule runs_now)
  also have "runs (sv_journal v) s1 ?s2" by (rule runs_foldl) (rule aw)
  also have "runs (sv_journal v) ?s2 ?s3" by (rule runs_foldl) (rule rn)
  also have "runs (sv_journal v) ?s3 (resolve_lagged_occurrences v s)"
    by (rule runs_quiet) (simp_all add: resolve_lagged_occurrences_def t Let_def)
  finally show ?thesis .
qed

lemma runs_lost_effect: "runs w (snd (snd acc)) (snd (snd (lost_effect v occ sid nt acc ie)))"
proof -
  obtain matched ws s where acc: "acc = (matched, ws, s)" by (cases acc)
  obtain it ef where ie: "ie = (it, ef)" by (cases ie)
  have "runs w s (snd (write_back v ow s))" for ow by (rule runs_write_back)
  then show ?thesis
    by (auto simp: acc ie lost_effect_def Let_def split: option.split bool.split prod.split
        intro: runs_trans [OF _ runs_now])
qed

lemma runs_lost:
  assumes "durable v"
  shows "runs (sv_journal v) s (snd (resolve_lost_sessions v scope s))"
proof -
  let ?started = "filter (\<lambda>r. may_resolve scope (su_writer_boot_id r)) (started_unresolved (sd_journal s))"
  let ?lost = "filter (\<lambda>r. may_resolve scope (pu_writer_boot_id r)) (prepared_unresolved (sd_journal s))"
  have st: "runs (sv_journal v) (snd acc) (snd (lost_started v nt items acc row))" for nt items acc row
  proof -
    obtain seeds ws s where acc: "acc = ((seeds, ws), s)" by (metis prod.collapse)
    obtain t s1 where t: "now_ms s = (t, s1)" by (cases "now_ms s")
    let ?s2 = "snd (append_row v (lost_row (su_occurrence_id row) [] (su_session_id row) t) s1)"
    let ?f = "lost_effect v (su_occurrence_id row) (su_session_id row) nt"
    obtain m ws1 s3 where f: "foldl ?f (None, ws, ?s2) (item_effects items) = (m, ws1, s3)"
      by (rule prod_cases3)
    have "runs (sv_journal v) s s1" using t by (rule runs_now)
    also have "runs (sv_journal v) s1 ?s2" by (rule runs_append [OF assms])
    also have "runs (sv_journal v) ?s2 s3"
      using runs_foldl_snd [where g = "\<lambda>a. snd (snd a)" and f = ?f and a = "(None, ws, ?s2)"
          and xs = "item_effects items" and w = "sv_journal v"] runs_lost_effect by (simp add: f)
    finally show ?thesis by (simp add: acc lost_started_def t f)
  qed
  have ds: "runs (sv_journal v) s (lost_dispatch v nt items s row)" for nt items s row
  proof -
    obtain t s1 where t: "now_ms s = (t, s1)" by (cases "now_ms s")
    have "runs (sv_journal v) s s1" using t by (rule runs_now)
    also have "runs (sv_journal v) s1 (snd (append_row v (lost_row (pu_occurrence_id row) (or_else (pu_item_id row) []) None t) s1))"
      by (rule runs_append [OF assms])
    also have "runs (sv_journal v) \<dots> (lost_dispatch v nt items s row)"
      by (auto simp: lost_dispatch_def t Let_def runs_write_back split: option.split list.split)
    finally show ?thesis .
  qed
  obtain items s1 where sn: "snapshot v s = (items, s1)" by (cases "snapshot v s")
  have first: "runs (sv_journal v) s s1" by (rule runs_quiet) (use sn in \<open>auto simp: snapshot_def Let_def\<close>)
  obtain cls s2 where c: "foldl (lost_started v (started_note scope) items) (([], []), s1) ?started = (cls, s2)"
    by (cases "foldl (lost_started v (started_note scope) items) (([], []), s1) ?started")
  have second: "runs (sv_journal v) s1 s2"
    using runs_foldl_snd [where g = snd and f = "lost_started v (started_note scope) items" and a = "(([], []), s1)"
        and xs = ?started and w = "sv_journal v"] st by (simp add: c)
  have third: "runs (sv_journal v) s2 (foldl (lost_dispatch v (prepared_note scope) items) s2 ?lost)"
    by (rule runs_foldl) (rule ds)
  show ?thesis
    using runs_trans [OF runs_trans [OF first second] third]
    by (simp add: resolve_lost_sessions_def Let_def sn c)
qed

subsection \<open>A pass, a turn, a start\<close>

lemma runs_small: "runs w s s' \<Longrightarrow> sound w s \<Longrightarrow> small s' \<Longrightarrow> small s"
proof -
  assume "runs w s s'" "sound w s" and s': "small s'"
  then have "(micro w)\<^sup>*\<^sup>* s s'" by (simp add: runs_def)
  then show "small s" using s' by (induction rule: rtranclp_induct) (auto dest: micro_small)
qed

text \<open>What a pass plans to start was never sent: it would be in the journal the plan was made from.\<close>

lemma planned_unsent:
  assumes "scheduler_ok w s" "pe_journal pe = sd_journal s" "sp \<in> set (pn_spawn (plan pe))" "small s"
  shows "unsent s (sw_occurrence_id sp)"
  unfolding unsent_def
proof (intro allI impI notI)
  fix t assume t: "StartTask t \<in> set (sd_bus s)" "sk_delegation_id t = delegation_prefix @ sw_occurrence_id sp"
  then have "announced w (sd_journal s) (StartTask t)"
    using assms(1,4) unfolding scheduler_ok_def bus_ok_def by blast
  then have "known w (sd_journal s) (sw_occurrence_id sp)" using t(2) by (simp add: announced_def)
  then have "touched (journal_progress (pe_journal pe) (sw_occurrence_id sp))"
    using known_touched assms(2) by simp
  moreover have "\<not> touched (journal_progress (pe_journal pe) (sw_occurrence_id sp))"
    using assms(3) by (rule spawn_cases) blast
  ultimately show False by blast
qed

lemma foldl_tasks: "(\<And>s x. tasks (f s x) = tasks s) \<Longrightarrow> tasks (foldl f s xs) = tasks s"
  by (induction xs arbitrary: s) simp_all

lemma runs_act:
  assumes "durable v" "scheduler_ok (sv_journal v) s" "pe_journal pe = sd_journal s" "p = plan pe"
  shows "runs (sv_journal v) s (snd (act_on v now p s))"
proof -
  let ?s1 = "foldl (deliver_one v now) s (pn_deliver p)"
  let ?s2 = "if pn_digest p = [] then ?s1 else deliver_digest v now (pn_digest p) ?s1"
  obtain wake s3 where g: "dispatch_governed v (pn_spawn p) now ?s2 = (wake, s3)"
    by (cases "dispatch_governed v (pn_spawn p) now ?s2")
  have "runs (sv_journal v) s ?s1" by (rule runs_foldl) (rule runs_deliver [OF assms(1)])
  also have "runs (sv_journal v) ?s1 ?s2" by (simp add: runs_digest [OF assms(1)])
  finally have two: "runs (sv_journal v) s ?s2" .
  have same: "tasks ?s2 = tasks s" by (simp add: foldl_tasks)
  have "small ?s2 \<longrightarrow> unsent ?s2 (sw_occurrence_id sp)" if "sp \<in> set (pn_spawn p)" for sp
    using planned_unsent [OF assms(2,3), of sp] that assms(4) runs_small [OF two] assms(2) same
    by (auto simp: unsent_tasks scheduler_ok_def)
  then have "runs (sv_journal v) ?s2 (snd (dispatch_governed v (pn_spawn p) now ?s2))"
    by (auto simp: dispatch_governed_def intro: runs_govern [OF assms(1)])
  then have three: "runs (sv_journal v) ?s2 s3" by (simp add: g)
  note two
  also note three
  also have "runs (sv_journal v) s3 (foldl (\<lambda>s sp. resolve_spawnless v sp Missed now (missed_why sp) s) s3 (pn_missed_sessions p))"
    by (rule runs_foldl) (rule runs_spawnless [OF assms(1)])
  also have "runs (sv_journal v) \<dots> (foldl (\<lambda>s sp. resolve_spawnless v sp Unknown now (crashed_why sp) s)
      (foldl (\<lambda>s sp. resolve_spawnless v sp Missed now (missed_why sp) s) s3 (pn_missed_sessions p)) (pn_crashed p))"
    by (rule runs_foldl) (rule runs_spawnless [OF assms(1)])
  finally show ?thesis by (simp add: act_on_def g Let_def)
qed

lemma runs_fire:
  assumes "durable v" "scheduler_ok (sv_journal v) s"
  shows "runs (sv_journal v) s (snd (fire_pass v s))"
proof -
  obtain items s1 where sn: "snapshot v s = (items, s1)" by (cases "snapshot v s")
  obtain now s2 where t: "now_ms s1 = (now, s2)" by (cases "now_ms s1")
  obtain quiet s3 where q: "quiet_until v now s2 = (quiet, s3)" by (cases "quiet_until v now s2")
  have "runs (sv_journal v) s s1" by (rule runs_quiet) (use sn in \<open>auto simp: snapshot_def Let_def\<close>)
  also have "runs (sv_journal v) s1 s2" using t by (rule runs_now)
  also have "runs (sv_journal v) s2 s3"
    using q by (auto simp: quiet_until_def split: option.splits prod.splits intro: runs_now)
  finally have three: "runs (sv_journal v) s s3" .
  have "runs (sv_journal v) s3 (snd (act_on v now (plan (pass_env v items now quiet s3)) s3))"
    by (rule runs_act [OF assms(1) runs_ok [OF three assms(2)] _ refl]) (simp add: pass_env_def)
  with three show ?thesis by (simp add: fire_pass_def sn t q runs_trans)
qed

end
