(* ===== verification/SchedulerLaws.thy ===== *)
theory SchedulerLaws
  imports SchedulerFacts
begin

text \<open>
  The laws of the scheduler: the runs of a daemon and its successors over one journal file, what
  holds of their bus, the governor, the race of receipt and end, and the retry sweep.
\<close>

section \<open>Runs of daemons\<close>

lemma runs_pass:
  assumes "durable v" "scheduler_ok (sv_journal v) s0"
  shows "runs (sv_journal v) s0 (snd (run_pass v ho s0))"
proof -
  let ?s = "refresh_pass v s0"
  have fresh: "runs (sv_journal v) s0 ?s"
    using micro_journal [OF refresh_jgrows, of "sv_journal v" s0] by (simp add: refresh_pass_def runs_step)
  then have ok: "scheduler_ok (sv_journal v) ?s" using assms(2) by (rule runs_ok)
  show ?thesis
  proof (cases ho)
    case None
    then show ?thesis using runs_trans [OF fresh runs_fire [OF assms(1) ok]] by (simp add: run_pass_def)
  next
    case (Some h)
    have lost: "runs (sv_journal v) t (snd (fire_pass v (snd (resolve_lost_sessions v (RecurringScope h) t))))"
      if "scheduler_ok (sv_journal v) t" for t
      using runs_trans [OF runs_lost [OF assms(1)] runs_fire [OF assms(1) runs_ok [OF runs_lost [OF assms(1)] that]]] .
    let ?t = "?s\<lparr>sd_journal := set_stamp (Some (stamp_of h)) (sd_journal ?s)\<rparr>"
    have stamp: "runs (sv_journal v) ?s ?t" by (rule runs_step, rule micro_journal, rule stamp_jgrows)
    have drain: "runs (sv_journal v) ?s (snd (drain_pass h ?s))"
    proof -
      let ?s1 = "if ho_entry_duty h then send DrainEntry ?s else ?s"
      let ?s2 = "case ho_drain_alert h of None \<Rightarrow> ?s1
         | Some alert \<Rightarrow> (case now_ms ?s1 of (t, s') \<Rightarrow> send (UserNotification (drain_notice alert t)) s')"
      have "runs (sv_journal v) ?s ?s1" by (simp add: runs_step [OF micro_drain])
      also have "runs (sv_journal v) ?s1 ?s2"
        by (auto simp: drain_notice_def split: option.split prod.split intro!: runs_trans [OF runs_now runs_notify])
      also have "runs (sv_journal v) ?s2 (snd (drain_pass h ?s))"
        by (auto simp: drain_pass_def Let_def split: prod.split intro: runs_now)
      finally show ?thesis .
    qed
    have "runs (sv_journal v) ?s (snd (run_pass v (Some h) s0))"
      using drain lost [OF ok] runs_trans [OF stamp lost [OF runs_ok [OF stamp ok]]]
      by (auto simp: run_pass_def Let_def split: prod.split intro: runs_now)
    then show ?thesis using Some runs_trans [OF fresh] by blast
  qed
qed

lemma runs_turn:
  assumes "durable v" "scheduler_ok (sv_journal v) s"
  shows "runs (sv_journal v) s (snd (loop_turn v ho s))"
proof -
  obtain w1 s1 where p: "run_pass v ho s = (w1, s1)" by (cases "run_pass v ho s")
  obtain now s2 where t: "now_ms s1 = (now, s2)" by (cases "now_ms s1")
  obtain w2 s3 where a: "sweep_pending_dispatches v now s2 = (w2, s3)" by (cases "sweep_pending_dispatches v now s2")
  obtain w3 s4 where b: "sweep_lineage_pending v now s3 = (w3, s4)" by (cases "sweep_lineage_pending v now s3")
  obtain w4 s5 where c: "sweep_readopt_watch v now s4 = (w4, s5)" by (cases "sweep_readopt_watch v now s4")
  have "runs (sv_journal v) s s1" using runs_pass [OF assms, of ho] p by simp
  also have "runs (sv_journal v) s1 s2" using t by (rule runs_now)
  also have "runs (sv_journal v) s2 s3" using runs_sweep_pending [OF assms(1), of s2 now] a by simp
  also have "runs (sv_journal v) s3 s4" using runs_sweep_lineage [OF assms(1), of s3 now] b by simp
  also have "runs (sv_journal v) s4 s5" using runs_sweep_readopt [OF assms(1), of s4 now] c by simp
  finally show ?thesis by (simp add: loop_turn_def p t a b c)
qed

lemma open_jgrows:
  assumes "open_journal w (jn_disk j) (jn_io j) = (r, j')" "r = Inr ()"
  shows "jgrows w j j'"
proof -
  let ?j0 = "\<lparr> jn_disk = jn_disk j, jn_io = jn_io j, jn_state = [], jn_folded_len = 0,
     jn_max_generation = 0, jn_stamp = None \<rparr>"
  have j': "j' = snd (reread w ?j0)" and r: "fst (reread w ?j0) = Inr ()" using assms by (simp_all add: open_journal_def)
  obtain x where x: "jn_disk j' = jn_disk j @ x" "set (jn_io j') \<subseteq> set (jn_io j)"
    using extends_reread [of w] j' unfolding extends_def by (metis occurrence_journal.select_convs(1,2))
  have "jview j' = fold_journal w (jn_disk j')"
    using r by (auto simp: j' reread_def jn_step_def jn_next_def jn_then_def jn_load_def jview_def
        split: list.splits option.splits prod.splits)
  then show ?thesis
    unfolding jgrows_def using x locked_subset lags_longer by metis
qed

lemma runs_boot:
  assumes "durable v" "boot v ho s = Some (seeds, s')"
  shows "runs (sv_journal v) s s'"
proof -
  obtain r j where o: "open_journal (sv_journal v) (jn_disk (sd_journal s)) (jn_io (sd_journal s)) = (r, j)"
    by (cases "open_journal (sv_journal v) (jn_disk (sd_journal s)) (jn_io (sd_journal s))")
  let ?scope = "case ho of None \<Rightarrow> Unscoped | Some h \<Rightarrow> BootScope h"
  obtain sd ws s1 where l: "resolve_lost_sessions v ?scope (boot_state ho j s) = ((sd, ws), s1)" by (metis prod.collapse)
  have r: "r = Inr ()" and s': "s' = s1\<lparr>sd_readopt_watch := ws\<rparr>"
    using assms(2) o l by (auto simp: boot_def split: sum.splits)
  let ?b = "s\<lparr>sd_awaiting := [], sd_running := [], sd_early_outcomes := [], sd_session_aliases := [],
     sd_lineage_pending := [], sd_readopt_watch := [], sd_last_start_ms := None\<rparr>"
  have "runs (sv_journal v) s ?b" by (rule runs_quiet) simp_all
  also have "runs (sv_journal v) ?b (?b\<lparr>sd_journal := j\<rparr>)"
    using open_jgrows [OF o r] by (intro runs_step micro_journal) simp
  also have "runs (sv_journal v) (?b\<lparr>sd_journal := j\<rparr>) (boot_state ho j s)"
  proof (cases ho)
    case None
    then show ?thesis by (simp add: boot_state_def)
  next
    case (Some h)
    have "boot_state ho j s = ?b\<lparr>sd_journal := j\<rparr>\<lparr>sd_journal := set_stamp (Some (stamp_of h)) j\<rparr>"
      by (simp add: boot_state_def Some)
    then show ?thesis using micro_journal [OF stamp_jgrows, where s = "?b\<lparr>sd_journal := j\<rparr>"] by (auto intro: runs_step)
  qed
  also have "runs (sv_journal v) (boot_state ho j s) s1"
    using runs_lost [OF assms(1), of "boot_state ho j s" ?scope] l by simp
  also have "runs (sv_journal v) s1 s'" unfolding s' by (rule runs_quiet) simp_all
  finally show ?thesis .
qed

text \<open>
  The runs of schedulers over one journal: a turn of the loop, an event of the bus, a lag of the
  bus, the start of a daemon in place of another, and what happens outside between two of these:
  owners change the agenda and the policy, time passes, other daemons append to the file.
\<close>

inductive scheduler_step :: "journal_env \<Rightarrow> scheduler \<Rightarrow> scheduler \<Rightarrow> bool" for w where
  step_turn: "sv_journal v = w \<Longrightarrow> scheduler_step w s (snd (loop_turn v ho s))"
| step_event: "sv_journal v = w \<Longrightarrow> scheduler_step w s (observe_event v ev s)"
| step_lag: "sv_journal v = w \<Longrightarrow> scheduler_step w s (resolve_lagged_occurrences v s)"
| step_boot: "sv_journal v = w \<Longrightarrow> boot v ho s = Some (seeds, s') \<Longrightarrow> scheduler_step w s s'"
| step_outside: "j = sd_journal s \<Longrightarrow> locked False (j\<lparr>jn_io := io\<rparr>)
     \<Longrightarrow> scheduler_step w s (s\<lparr>sd_journal := j\<lparr>jn_disk := jn_disk j @ foreign, jn_io := io\<rparr>,
          sd_store := st, sd_policy := policy, sd_clock := clock, sd_lineages := ls\<rparr>)"

text \<open>The first daemon: an empty memory, nothing sent, a journal just read.\<close>

definition first_daemon :: "journal_env \<Rightarrow> scheduler \<Rightarrow> bool" where
  "first_daemon w s = (sd_awaiting s = [] \<and> sd_running s = [] \<and> sd_early_outcomes s = []
     \<and> sd_session_aliases s = [] \<and> sd_bus s = [] \<and> locked False (sd_journal s)
     \<and> jview (sd_journal s) = fold_journal w (jn_disk (sd_journal s)))"

lemma first_ok: "first_daemon w s \<Longrightarrow> scheduler_ok w s"
  by (simp add: first_daemon_def scheduler_ok_def sound_def bus_ok_def one_task_def)

lemma outside_jgrows:
  assumes "locked False (j\<lparr>jn_io := io\<rparr>)"
  shows "jgrows w j (j\<lparr>jn_disk := jn_disk j @ foreign, jn_io := io\<rparr>)"
  using assms by (auto simp: jgrows_def locked_def jview_def intro: lags_append)

lemma outside_ok:
  assumes "scheduler_ok w s" "locked False ((sd_journal s)\<lparr>jn_io := io\<rparr>)"
  shows "scheduler_ok w (s\<lparr>sd_journal := (sd_journal s)\<lparr>jn_disk := jn_disk (sd_journal s) @ foreign, jn_io := io\<rparr>,
    sd_store := st, sd_policy := policy, sd_clock := clock, sd_lineages := ls\<rparr>)" (is "scheduler_ok w ?s'")
proof -
  let ?j' = "(sd_journal s)\<lparr>jn_disk := jn_disk (sd_journal s) @ foreign, jn_io := io\<rparr>"
  have "runs w s (s\<lparr>sd_journal := ?j'\<rparr>)"
    using outside_jgrows [OF assms(2)] by (intro runs_step micro_journal) simp
  also have "runs w (s\<lparr>sd_journal := ?j'\<rparr>) ?s'" by (rule runs_quiet) simp_all
  finally show ?thesis using assms(1) by (rule runs_ok)
qed

lemma step_ok:
  assumes "row_codec w" "scheduler_step w s s'" "scheduler_ok w s"
  shows "scheduler_ok w s'"
  using assms(2)
proof cases
  case (step_turn v ho)
  then have "durable v" "scheduler_ok (sv_journal v) s" using assms by (simp_all add: durable_def)
  from runs_turn [OF this, of ho] show ?thesis using step_turn assms(3) runs_ok by blast
next
  case (step_event v ev)
  then have "durable v" using assms by (simp add: durable_def)
  from runs_event [OF this] show ?thesis using step_event assms(3) runs_ok by blast
next
  case (step_lag v)
  then have "durable v" using assms by (simp add: durable_def)
  from runs_lag [OF this] show ?thesis using step_lag assms(3) runs_ok by blast
next
  case (step_boot v ho seeds)
  then have "durable v" using assms by (simp add: durable_def)
  from runs_boot [OF this step_boot(2)] show ?thesis using step_boot assms(3) runs_ok by blast
next
  case step_outside
  then show ?thesis using outside_ok assms(3) by blast
qed

lemma reach_ok:
  assumes "row_codec w" "first_daemon w s" "(scheduler_step w)\<^sup>*\<^sup>* s s'"
  shows "scheduler_ok w s'"
  using assms(3) by (induction rule: rtranclp_induct) (auto intro: first_ok [OF assms(2)] step_ok [OF assms(1)])

text \<open>
  C8: intent before effect: whatever crashes, fails or is lost, every session task and every
  reminder the scheduler has ever sent names an occurrence that the journal file has a row of,
  in lines that are ended and that the running scheduler has read; so no later pass starts or
  reminds of it as new.
\<close>

theorem intent_precedes_effect:
  assumes "row_codec w" and "first_daemon w s" and "(scheduler_step w)\<^sup>*\<^sup>* s s'"
    and "length (jn_disk (sd_journal s')) < 2 ^ 64" and "e \<in> set (sd_bus s')"
  shows "announced w (sd_journal s') e
    \<and> (\<forall>t occ. e = StartTask t \<and> sk_delegation_id t = delegation_prefix @ occ
        \<longrightarrow> (\<forall>pe. pe_journal pe = sd_journal s' \<longrightarrow> occ \<notin> sw_occurrence_id ` set (pn_spawn (plan pe))))"
proof -
  have ok: "scheduler_ok w s'" using reach_ok assms by blast
  moreover have sm: "small s'" using assms(4) by (simp add: small_def)
  ultimately have "announced w (sd_journal s') e" using assms(5) by (auto simp: scheduler_ok_def bus_ok_def)
  moreover have "occ \<notin> sw_occurrence_id ` set (pn_spawn (plan pe))"
    if "e = StartTask t" "sk_delegation_id t = delegation_prefix @ occ" "pe_journal pe = sd_journal s'" for t occ pe
    using planned_unsent [OF ok that(3) _ sm] that assms(5) by (auto simp: unsent_def)
  ultimately show ?thesis by blast
qed


text \<open>
  C34: the memory keeps its shape: whatever events, sweeps, lags and restarts come in whatever
  order, no two entries of the awaiting, running and early-outcome memories share a key, an
  awaiting entry is filed under the occurrence it is for, and the two bounded memories hold at
  most 64 entries each.
\<close>

theorem memory_well_formed:
  assumes "row_codec w" and "first_daemon w s" and "(scheduler_step w)\<^sup>*\<^sup>* s s'"
  shows "distinct (map fst (sd_awaiting s')) \<and> distinct (map fst (sd_running s'))
    \<and> distinct (map fst (sd_early_outcomes s')) \<and> length (sd_early_outcomes s') \<le> 64
    \<and> length (sd_session_aliases s') \<le> 64
    \<and> (\<forall>k p. (k, p) \<in> set (sd_awaiting s') \<longrightarrow> sw_occurrence_id (pd_spawn p) = k)"
  using reach_ok [OF assms]
  by (simp add: scheduler_ok_def memory_ok_def early_outcome_cap_def session_alias_cap_def)

section \<open>The governor\<close>

text \<open>The tries of a pass, in their order.\<close>

definition attempts :: "scheduler_env \<Rightarrow> u64 \<Rightarrow> spawn_occurrence list \<Rightarrow> scheduler \<Rightarrow> scheduler" where
  "attempts v now sps s = foldl (\<lambda>s sp. snd (dispatch_session v sp now s)) s sps"

lemma attempts_simps [simp]: "attempts v now [] s = s"
  "attempts v now (sp # sps) s = attempts v now sps (snd (dispatch_session v sp now s))"
  by (simp_all add: attempts_def)

lemma govern_open:
  assumes "starts_in_window s now = 0"
  shows "(govern v now due s = (None, attempts v now due s) \<and> tasks (attempts v now due s) = tasks s)
    \<or> (\<exists>xs sp ys t. due = xs @ sp # ys \<and> tasks (attempts v now (xs @ [sp]) s) = tasks s @ [t]
        \<and> sk_delegation_id t = delegation_prefix @ sw_occurrence_id sp
        \<and> govern v now due s = (if ys = [] then None else Some (now + spawn_stagger_interval_ms),
            (attempts v now (xs @ [sp]) s)\<lparr>sd_last_start_ms := Some now\<rparr>))"
  using assms
proof (induction due arbitrary: s)
  case (Cons sp rest)
  obtain started s1 where d: "dispatch_session v sp now s = (started, s1)" by (cases "dispatch_session v sp now s")
  note g = govern_go [OF Cons.prems d, of rest]
  note t = dispatch_tasks [where v = v and sp = sp and now = now and s = s, unfolded d prod.case]
  show ?case
  proof (cases started)
    case True
    obtain t where "tasks s1 = tasks s @ [t]" "sk_delegation_id t = delegation_prefix @ sw_occurrence_id sp"
      using t True by auto
    moreover have "govern v now (sp # rest) s
        = (if rest = [] then None else Some (now + spawn_stagger_interval_ms), s1\<lparr>sd_last_start_ms := Some now\<rparr>)"
      using g govern_after [where s = "s1\<lparr>sd_last_start_ms := Some now\<rparr>" and now = now and v = v and rest = rest] True by simp
    ultimately show ?thesis
      by (intro disjI2 exI [of _ "[]"] exI [of _ sp] exI [of _ rest] exI [of _ t]) (simp add: d)
  next
    case False
    have "starts_in_window s1 now = 0"
      using Cons.prems dispatch_start [of v sp now s] d by (simp add: starts_in_window_def)
    from Cons.IH [OF this] show ?thesis
    proof (elim disjE exE conjE)
      fix xs sp' ys t
      assume "rest = xs @ sp' # ys" "tasks (attempts v now (xs @ [sp']) s1) = tasks s1 @ [t]"
        "sk_delegation_id t = delegation_prefix @ sw_occurrence_id sp'"
        "govern v now rest s1 = (if ys = [] then None else Some (now + spawn_stagger_interval_ms),
            (attempts v now (xs @ [sp']) s1)\<lparr>sd_last_start_ms := Some now\<rparr>)"
      then show ?thesis using g t False
        by (intro disjI2 exI [of _ "sp # xs"] exI [of _ sp'] exI [of _ ys] exI [of _ t]) (simp add: d)
    qed (use g t False d in simp)
  qed
qed simp

text \<open>
  C24: the governor, exactly: under a capacity hold or within 30 s of the last start nothing is
  tried and the pass wakes when the hold is over; otherwise the due sessions are tried in the
  order of their instants, approvals and ids until one starts, at most that one task is sent,
  and what is left stays due with a wake one interval later.
\<close>

theorem governor_exact:
  "if due = [] then dispatch_governed v due now s = (None, s)
   else if sv_capacity_deferred v then dispatch_governed v due now s = (Some (now + 30000), s)
   else if starts_in_window s now \<noteq> 0
   then dispatch_governed v due now s = (map_option (\<lambda>l. l + 30000) (sd_last_start_ms s), s)
   else (dispatch_governed v due now s = (None, attempts v now (sort_key dispatch_order due) s)
        \<and> tasks (attempts v now (sort_key dispatch_order due) s) = tasks s)
     \<or> (\<exists>xs sp ys t. sort_key dispatch_order due = xs @ sp # ys
        \<and> tasks (attempts v now (xs @ [sp]) s) = tasks s @ [t]
        \<and> sk_delegation_id t = delegation_prefix @ sw_occurrence_id sp
        \<and> dispatch_governed v due now s = (if ys = [] then None else Some (now + 30000),
            (attempts v now (xs @ [sp]) s)\<lparr>sd_last_start_ms := Some now\<rparr>))"
proof (cases "due = [] \<or> sv_capacity_deferred v")
  case True
  then show ?thesis by (auto simp: dispatch_governed_def capacity_hold_recheck_ms_def)
next
  case False
  then have gov: "dispatch_governed v due now s = govern v now (sort_key dispatch_order due) s"
    by (simp add: dispatch_governed_def)
  show ?thesis
  proof (cases "starts_in_window s now = 0")
    case True
    from govern_open [OF this, of v "sort_key dispatch_order due"] False True show ?thesis
      unfolding gov spawn_stagger_interval_ms_def by simp
  next
    case held: False
    obtain sp rest where "sort_key dispatch_order due = sp # rest"
      using False by (cases "sort_key dispatch_order due") (auto dest: arg_cong [where f = length])
    then show ?thesis using False held by (simp add: gov govern_held spawn_stagger_interval_ms_def)
  qed
qed

section \<open>The retry sweep\<close>

lemma spawnless_awaiting: "sd_awaiting (resolve_spawnless v sp terminal now why s) = sd_awaiting s"
proof -
  have row: "sd_awaiting s1 = sd_awaiting s" if "session_record v sp now terminal None s = (ok, s1)" for ok s1
    using session_record_frame [of v sp now terminal None s] that by auto
  have item: "sd_awaiting (record_on_item v sp st None (Some why) s1) = sd_awaiting s1" for st s1
    using record_on_item_frame [of v sp st None "Some why" s1] by auto
  show ?thesis
    by (cases rule: spawnless_cases [of v sp now terminal s why]) (auto simp: item dest: row)
qed

lemma abandon_awaiting: "sd_awaiting (abandon v now s occ) = AList.delete occ (sd_awaiting s)"
proof (cases "map_of (sd_awaiting s) occ")
  case None
  then have "occ \<notin> fst ` set (sd_awaiting s)" by (simp only: map_of_eq_None_iff not_False_eq_True)
  then show ?thesis unfolding abandon_def None by (simp add: delete_id)
next
  case (Some p)
  then show ?thesis by (simp add: abandon_def spawnless_awaiting)
qed

lemma abandon_tasks [simp]: "tasks (abandon v now s occ) = tasks s"
  by (auto simp: abandon_def tasks_def [of "s\<lparr>sd_awaiting := a\<rparr>" for a] tasks_def [of s] split: option.split)

lemma abandon_all:
  "sd_awaiting (foldl (abandon v now) s occs) = filter (\<lambda>(k, p). k \<notin> set occs) (sd_awaiting s)"
proof (induction occs arbitrary: s)
  case (Cons occ occs)
  have "occ \<noteq> k \<longleftrightarrow> k \<noteq> occ" for k by blast
  then show ?case using Cons by (simp add: abandon_awaiting AList.delete_eq case_prod_unfold conj_commute)
qed simp

lemma distinct_key_filter:
  assumes "distinct (map fst xs)"
  shows "filter (\<lambda>(k, p). k \<notin> set (map fst (filter (\<lambda>(k, p). Q p) xs))) xs = filter (\<lambda>(k, p). \<not> Q p) xs"
proof (rule filter_cong [OF refl])
  fix x assume x: "x \<in> set xs"
  have key: "y = x" if "y \<in> set xs" "fst y = fst x" for y
    using assms x that by (metis distinct_map inj_on_def)
  have "fst x \<in> set (map fst (filter (\<lambda>(k, p). Q p) xs)) \<longleftrightarrow> (\<exists>y \<in> set xs. Q (snd y) \<and> fst y = fst x)"
    by (simp only: set_map set_filter case_prod_unfold image_iff Bex_def mem_Collect_eq) metis
  also have "\<dots> \<longleftrightarrow> Q (snd x)" using key x by blast
  finally show "(case x of (k, p) \<Rightarrow> k \<notin> set (map fst (filter (\<lambda>(k, p). Q p) xs))) = (case x of (k, p) \<Rightarrow> \<not> Q p)"
    by (simp only: case_prod_unfold)
qed

lemma sweep_result:
  assumes "distinct (map fst (sd_awaiting s))" and "sweep_pending_dispatches v now s = (wake, s')"
  shows "tasks s' = tasks s @ map (pending_task \<circ> snd) (filter (\<lambda>(k, p). retry_due now p) (sd_awaiting s))
    \<and> sd_awaiting s' = map (\<lambda>(k, p). (k, if retry_due now p then p\<lparr>pd_last_attempt_ms := now\<rparr> else p))
        (filter (\<lambda>(k, p). \<not> expired now p) (sd_awaiting s))
    \<and> wake = foldl min_wake None (map (\<lambda>(k, p). pd_last_attempt_ms p + dispatch_retry_after_ms) (sd_awaiting s'))"
proof -
  let ?resent = "filter (\<lambda>(k, p). retry_due now p) (sd_awaiting s)"
  let ?aw = "map (\<lambda>(k, p). (k, if retry_due now p then p\<lparr>pd_last_attempt_ms := now\<rparr> else p))"
  let ?s1 = "s\<lparr>sd_bus := sd_bus s @ map (\<lambda>(k, p). StartTask (pending_task p)) ?resent, sd_awaiting := ?aw (sd_awaiting s)\<rparr>"
  let ?out = "map fst (filter (\<lambda>(k, p). expired now p) (sd_awaiting s))"
  have s': "s' = foldl (abandon v now) ?s1 ?out"
    and wake: "wake = foldl min_wake None (map (\<lambda>(k, p). pd_last_attempt_ms p + dispatch_retry_after_ms) (sd_awaiting s'))"
    using assms(2) by (auto simp: sweep_pending_dispatches_def Let_def)
  have "concat (map (\<lambda>e. case e of StartTask t \<Rightarrow> [t] | _ \<Rightarrow> []) (map (\<lambda>(k, p). StartTask (pending_task p)) xs))
      = map (pending_task \<circ> snd) xs" for xs
    by (induction xs) auto
  then have "tasks ?s1 = tasks s @ map (pending_task \<circ> snd) ?resent" by (simp add: tasks_def)
  then have sent: "tasks s' = tasks s @ map (pending_task \<circ> snd) ?resent"
    unfolding s' by (subst foldl_tasks) simp_all
  have "sd_awaiting s' = filter (\<lambda>(k, p). k \<notin> set ?out) (?aw (sd_awaiting s))"
    by (simp add: s' abandon_all)
  also have "\<dots> = ?aw (filter (\<lambda>(k, p). k \<notin> set ?out) (sd_awaiting s))"
    by (simp add: filter_map o_def case_prod_unfold)
  also have "\<dots> = ?aw (filter (\<lambda>(k, p). \<not> expired now p) (sd_awaiting s))"
    by (simp only: distinct_key_filter [OF assms(1)])
  finally show ?thesis using sent wake by blast
qed

text \<open>
  The retry sweep, exactly: every awaiting dispatch tried last 30 s ago or earlier and first
  less than ten minutes ago is sent again, once, with its original bytes, and its try is dated
  now; those first tried ten minutes ago leave the memory, whether or not the journal took their
  terminal row; all others stay as they are; and the wake is that of the earliest next try.
\<close>

theorem sweep_exact:
  assumes "distinct (map fst (sd_awaiting s))" and "sweep_pending_dispatches v now s = (wake, s')"
  defines "dead p \<equiv> 10 * 60 * 1000 \<le> sat_sub now (pd_first_attempt_ms p)"
  defines "stale p \<equiv> \<not> dead p \<and> 30 * 1000 \<le> sat_sub now (pd_last_attempt_ms p)"
  shows "tasks s' = tasks s @ map (pending_task \<circ> snd) (filter (\<lambda>(k, p). stale p) (sd_awaiting s))
    \<and> sd_awaiting s' = map (\<lambda>(k, p). (k, if stale p then p\<lparr>pd_last_attempt_ms := now\<rparr> else p))
        (filter (\<lambda>(k, p). \<not> dead p) (sd_awaiting s))
    \<and> wake = foldl min_wake None (map (\<lambda>(k, p). pd_last_attempt_ms p + 30 * 1000) (sd_awaiting s'))"
proof -
  have "dispatch_abandon_after_ms = 10 * 60 * 1000" "dispatch_retry_after_ms = 30 * 1000"
    by (simp_all add: dispatch_abandon_after_ms_def dispatch_retry_after_ms_def)
  then have "expired now = dead" "retry_due now = stale" "dispatch_retry_after_ms = 30 * 1000"
    by (simp_all add: expired_def retry_due_def dead_def stale_def fun_eq_iff)
  with sweep_result [OF assms(1,2)] show ?thesis by (simp only:)
qed

section \<open>The race of receipt and end\<close>

text \<open>What the handlers do does not depend on the early outcomes, which they leave alone.\<close>

lemma early_last:
  fixes s :: scheduler
  shows "s\<lparr>sd_early_outcomes := e, sd_store := x\<rparr> = s\<lparr>sd_store := x, sd_early_outcomes := e\<rparr>"
    "s\<lparr>sd_early_outcomes := e, sd_awaiting := a\<rparr> = s\<lparr>sd_awaiting := a, sd_early_outcomes := e\<rparr>"
    "s\<lparr>sd_early_outcomes := e, sd_running := r\<rparr> = s\<lparr>sd_running := r, sd_early_outcomes := e\<rparr>"
  by simp_all

lemma early_now: "now_ms (s\<lparr>sd_early_outcomes := e\<rparr>) = (case now_ms s of (t, s1) \<Rightarrow> (t, s1\<lparr>sd_early_outcomes := e\<rparr>))"
  by (simp add: now_ms_def split: list.split)

lemma early_record: "session_record v sp t st sid (s\<lparr>sd_early_outcomes := e\<rparr>)
    = (case session_record v sp t st sid s of (ok, s1) \<Rightarrow> (ok, s1\<lparr>sd_early_outcomes := e\<rparr>))"
  by (simp add: session_record_def append_row_def split: prod.split)

lemma early_on_item: "record_on_item v sp st sid nt (s\<lparr>sd_early_outcomes := e\<rparr>)
    = (record_on_item v sp st sid nt s)\<lparr>sd_early_outcomes := e\<rparr>"
proof -
  have trip: "surface_suspension_trip sp st it (s\<lparr>sd_early_outcomes := e\<rparr>)
      = (surface_suspension_trip sp st it s)\<lparr>sd_early_outcomes := e\<rparr>" for it s
    by (simp add: surface_suspension_trip_def early_now send_def split: option.split prod.split)
  obtain t s1 where t: "now_ms s = (t, s1)" by (cases "now_ms s")
  obtain r x where r: "record_occurrence (sv_store v) (spawn_write_back sp st sid nt) t (sd_store s1) = (r, x)"
    by (cases "record_occurrence (sv_store v) (spawn_write_back sp st sid nt) t (sd_store s1)")
  show ?thesis
    by (cases r) (simp_all add: record_on_item_def write_back_def early_now early_last t r trip)
qed

text \<open>A receipt up to the lookup of an early outcome.\<close>

definition received :: "scheduler_env \<Rightarrow> string \<Rightarrow> pending_dispatch \<Rightarrow> string \<Rightarrow> scheduler \<Rightarrow> scheduler" where
  "received v occ p sid s = (case now_ms (s\<lparr>sd_awaiting := AList.delete occ (sd_awaiting s)\<rparr>) of (t, s1) \<Rightarrow>
     let s2 = record_on_item v (pd_spawn p) ''started'' (Some sid) None
           (snd (session_record v (pd_spawn p) t Started (Some sid) s1))
     in s2\<lparr>sd_running := AList.update sid (pd_spawn p) (sd_running s2)\<rparr>)"

lemma receipt_received:
  assumes "map_of (sd_awaiting s) occ = Some p"
  shows "observe_receipt v (delegation_prefix @ occ) sid s
    = (case take_early_outcome_aliased sid (received v occ p sid s) of
         (None, s3) \<Rightarrow> s3
       | (Some early, s3) \<Rightarrow> (case eo_failed early of
           None \<Rightarrow> complete_running v sid (eo_note early) s3
         | Some reason \<Rightarrow> (case now_ms s3 of (t, s4) \<Rightarrow> classify_ended v sid sid reason t t s4)))"
proof -
  have "strip_prefix delegation_prefix (delegation_prefix @ occ) = Some occ"
    by (simp add: strip_prefix_def starts_with_iff)
  then show ?thesis
    unfolding observe_receipt_def received_def Let_def by (simp only: assms bind.simps option.map option.case prod.case) (simp split: prod.split)
qed

lemma received_early: "received v occ p sid (s\<lparr>sd_early_outcomes := e\<rparr>) = (received v occ p sid s)\<lparr>sd_early_outcomes := e\<rparr>"
  by (simp add: received_def early_last early_now early_record early_on_item Let_def split: prod.split)

lemma received_frame: "\<exists>aw j c st b. received v occ p sid s
    = s\<lparr>sd_awaiting := aw, sd_journal := j, sd_clock := c, sd_store := st, sd_bus := b,
        sd_running := AList.update sid (pd_spawn p) (sd_running s)\<rparr>"
proof -
  let ?s0 = "s\<lparr>sd_awaiting := AList.delete occ (sd_awaiting s)\<rparr>"
  obtain t s1 where t: "now_ms ?s0 = (t, s1)" by (cases "now_ms ?s0")
  obtain c where c: "s1 = ?s0\<lparr>sd_clock := c\<rparr>" using now_msD [OF t] by blast
  obtain j where j: "snd (session_record v (pd_spawn p) t Started (Some sid) s1) = s1\<lparr>sd_journal := j\<rparr>"
    using session_record_frame by blast
  obtain c2 st ns where r: "record_on_item v (pd_spawn p) ''started'' (Some sid) None (s1\<lparr>sd_journal := j\<rparr>)
      = s1\<lparr>sd_journal := j, sd_clock := c2, sd_store := st, sd_bus := sd_bus s1 @ map UserNotification ns\<rparr>"
    using record_on_item_frame [of v "pd_spawn p" "''started''" "Some sid" None "s1\<lparr>sd_journal := j\<rparr>"] by auto
  show ?thesis
    by (intro exI [of _ "AList.delete occ (sd_awaiting s)"] exI [of _ j] exI [of _ c2] exI [of _ st]
          exI [of _ "sd_bus s1 @ map UserNotification ns"])
       (simp add: received_def t j r, simp add: c)
qed

text \<open>The end of a session, as the memory keeps it before the receipt.\<close>

fun early_form :: "app_event \<Rightarrow> (string \<times> early_outcome) option" where
  "early_form (DoneSignal (Some sid) m) = Some (sid, done_outcome (or_else m ''done''))"
| "early_form (TaskComplete (Some sid) reason summary outcome) = Some (sid,
     if outcome = OutcomeFailed then failed_outcome reason else done_outcome (or_else summary reason))"
| "early_form (SessionEnded sid reason) = Some (sid, failed_outcome reason)"
| "early_form _ = None"

lemma early_form_remembers:
  "early_form ev = Some (sid, out) \<Longrightarrow> running_key s sid = None \<Longrightarrow> observe_event v ev s = remember_early_outcome sid out s"
  by (cases ev rule: early_form.cases) (auto simp: observe_event_def Let_def)

text \<open>A receipt that finds the end of its session already there.\<close>

lemma receipt_of_ended:
  assumes "map_of (sd_awaiting s) occ = Some p" and "fst (take_early_outcome_aliased sid s) = None"
    and "length (sd_early_outcomes s) < early_outcome_cap"
  shows "observe_event v (TaskReceived (delegation_prefix @ occ) sid) s = received v occ p sid s"
    "observe_event v (TaskReceived (delegation_prefix @ occ) sid) (remember_early_outcome sid out s)
      = (case eo_failed out of
           None \<Rightarrow> complete_running v sid (eo_note out) (received v occ p sid s)
         | Some reason \<Rightarrow> (case now_ms (received v occ p sid s) of (t, s4) \<Rightarrow> classify_ended v sid sid reason t t s4))"
proof -
  let ?e = "sd_early_outcomes s @ [(sid, out)]"
  obtain aw j c st b where r: "received v occ p sid s
      = s\<lparr>sd_awaiting := aw, sd_journal := j, sd_clock := c, sd_store := st, sd_bus := b,
          sd_running := AList.update sid (pd_spawn p) (sd_running s)\<rparr>"
    using received_frame by metis
  have same: "alias_counterpart (received v occ p sid s) = alias_counterpart s"
    "sd_early_outcomes (received v occ p sid s) = sd_early_outcomes s"
    by (simp_all add: r alias_counterpart_def fun_eq_iff)
  have none: "take_first sid (sd_early_outcomes s) = None"
    using assms(2) by (auto simp: take_early_outcome_aliased_def take_early_outcome_def split: option.splits)
  have "take_early_outcome_aliased sid (received v occ p sid s) = (None, received v occ p sid s)"
    using assms(2) by (auto simp: take_early_outcome_aliased_def take_early_outcome_def none same split: option.splits)
  then show "observe_event v (TaskReceived (delegation_prefix @ occ) sid) s = received v occ p sid s"
    by (simp add: observe_event_def receipt_received [OF assms(1)])
  have absent: "sid \<notin> fst ` set es" if "take_first sid es = None" for es :: "(string \<times> early_outcome) list"
    using that
  proof (induction es)
    case (Cons y es)
    then show ?case by (cases y) (auto simp: image_iff split: if_splits)
  qed simp
  have remembered: "remember_early_outcome sid out s = s\<lparr>sd_early_outcomes := ?e\<rparr>"
    using absent [OF none] assms(3) by (simp add: remember_early_outcome_def capped_def)
  have last: "take_first sid (es @ [(sid, out)]) = Some (out, es)" if "take_first sid es = None" for es
    using that by (induction es) (auto split: if_splits)
  have found: "take_early_outcome_aliased sid (received v occ p sid (s\<lparr>sd_early_outcomes := ?e\<rparr>)) = (Some out, received v occ p sid s)"
    by (simp add: take_early_outcome_aliased_def take_early_outcome_def received_early last [OF none] r)
  have "map_of (sd_awaiting (s\<lparr>sd_early_outcomes := ?e\<rparr>)) occ = Some p"
  proof -
    have "sd_awaiting (s\<lparr>sd_early_outcomes := ?e\<rparr>) = sd_awaiting s" by simp
    then show ?thesis by (simp only: assms(1))
  qed
  from receipt_received [OF this, of v sid] show "observe_event v (TaskReceived (delegation_prefix @ occ) sid) (remember_early_outcome sid out s)
      = (case eo_failed out of
           None \<Rightarrow> complete_running v sid (eo_note out) (received v occ p sid s)
         | Some reason \<Rightarrow> (case now_ms (received v occ p sid s) of (t, s4) \<Rightarrow> classify_ended v sid sid reason t t s4))"
    by (simp add: observe_event_def remembered found)
qed

lemma received_running: "running_key (received v occ p sid s) sid = Some sid"
proof -
  obtain aw j c st b where "received v occ p sid s
      = s\<lparr>sd_awaiting := aw, sd_journal := j, sd_clock := c, sd_store := st, sd_bus := b,
          sd_running := AList.update sid (pd_spawn p) (sd_running s)\<rparr>"
    using received_frame by metis
  then show ?thesis by (simp add: running_key_def dom_update)
qed

text \<open>
  The race of receipt and end does not matter: when the end of a session (its done signal,
  its completion or its death) overtakes the receipt of the dispatch, the scheduler ends in
  exactly the state it would have reached had they come in order: same rows in the same order,
  same write-backs, same memory.
\<close>

theorem receipt_commutes:
  assumes "map_of (sd_awaiting s) occ = Some p" and "running_key s sid = None"
    and "fst (take_early_outcome_aliased sid s) = None" and "length (sd_early_outcomes s) < 64"
    and "ev \<in> {DoneSignal (Some sid) message, TaskComplete (Some sid) reason summary OutcomeCompleted,
           SessionEnded sid reason}"
  shows "observe_event v (TaskReceived (delegation_prefix @ occ) sid) (observe_event v ev s)
    = observe_event v ev (observe_event v (TaskReceived (delegation_prefix @ occ) sid) s)"
proof -
  have cap: "length (sd_early_outcomes s) < early_outcome_cap" using assms(4) by (simp add: early_outcome_cap_def)
  obtain out where out: "early_form ev = Some (sid, out)" using assms(5) by auto
  note first = receipt_of_ended(1) [OF assms(1,3) cap, of v]
  note second = receipt_of_ended(2) [OF assms(1,3) cap, of v out]
  show ?thesis
    unfolding early_form_remembers [OF out assms(2)] first second
    using assms(5) out by (auto simp: observe_event_def received_running done_outcome_def failed_outcome_def Let_def)
qed

text \<open>
  A failure that overtakes its receipt is not the failure it would have been: in order, a
  completion event of class failed fails the occurrence at once; before the receipt it is kept
  as a mere end of the session, and what follows is what a session end in order does, with
  its walk of the resume lineage, its grace and its possible re-keying to a successor.
\<close>

theorem early_failure_is_an_end:
  assumes "map_of (sd_awaiting s) occ = Some p" and "running_key s sid = None"
    and "fst (take_early_outcome_aliased sid s) = None" and "length (sd_early_outcomes s) < 64"
  shows "observe_event v (TaskReceived (delegation_prefix @ occ) sid)
      (observe_event v (TaskComplete (Some sid) reason summary OutcomeFailed) s)
    = observe_event v (SessionEnded sid reason) (observe_event v (TaskReceived (delegation_prefix @ occ) sid) s)
    \<and> observe_event v (TaskComplete (Some sid) reason summary OutcomeFailed)
        (observe_event v (TaskReceived (delegation_prefix @ occ) sid) s)
      = fail_running v sid reason (observe_event v (TaskReceived (delegation_prefix @ occ) sid) s)"
proof -
  have cap: "length (sd_early_outcomes s) < early_outcome_cap" using assms(4) by (simp add: early_outcome_cap_def)
  note first = receipt_of_ended(1) [OF assms(1,3) cap, of v]
  note second = receipt_of_ended(2) [OF assms(1,3) cap, of v "failed_outcome reason"]
  have early: "early_form (TaskComplete (Some sid) reason summary OutcomeFailed) = Some (sid, failed_outcome reason)" by simp
  show ?thesis
    unfolding early_form_remembers [OF early assms(2)] first second
    by (auto simp: observe_event_def received_running failed_outcome_def)
qed

end
