(* ===== verification/SchedulerDemo.thy ===== *)
theory SchedulerDemo
  imports SchedulerLaws PlannerDemo "HOL-Library.Countable"
begin

text \<open>
  The scheduler at work: a codec of the rows, a daemon with one approved session that is due, a
  turn that starts it and sends it again, and the theorems of the scheduler applied to them.
\<close>

section \<open>A codec of the rows\<close>

definition row_tuple where
  "row_tuple (r :: occurrence_record) = (unat (oj_v r), unat (oj_at_ms r), oj_occurrence_id r, oj_item_id r,
     unat (oj_due_ms r), (oj_state r = Prepared, oj_state r = Delivered, oj_state r = Suppressed,
       oj_state r = Missed, oj_state r = Started, oj_state r = Completed, oj_state r = Failed),
     (oj_urgency r = Some MuteUrgency, oj_urgency r = Some InfoUrgency, oj_urgency r = Some AttentionUrgency,
       oj_urgency r = Some UrgentUrgency),
     oj_session_id r, map_option unat (oj_generation r), oj_boot_id r, map_option unat (oj_attempt r))"

lemma map_unat_inj: "map_option unat (a :: 'a :: len word option) = map_option unat b \<Longrightarrow> a = b"
  by (cases a; cases b) (auto simp: unsigned_word_eqI)

lemma state_inj: "(a = Prepared) = (b = Prepared) \<Longrightarrow> (a = Delivered) = (b = Delivered)
   \<Longrightarrow> (a = Suppressed) = (b = Suppressed) \<Longrightarrow> (a = Missed) = (b = Missed) \<Longrightarrow> (a = Started) = (b = Started)
   \<Longrightarrow> (a = Completed) = (b = Completed) \<Longrightarrow> (a = Failed) = (b = Failed) \<Longrightarrow> a = b"
  by (cases a; cases b) simp_all

lemma urgency_inj: "(a = Some MuteUrgency) = (b = Some MuteUrgency) \<Longrightarrow> (a = Some InfoUrgency) = (b = Some InfoUrgency)
   \<Longrightarrow> (a = Some AttentionUrgency) = (b = Some AttentionUrgency)
   \<Longrightarrow> (a = Some UrgentUrgency) = (b = Some UrgentUrgency) \<Longrightarrow> a = b"
  by (cases a rule: option.exhaust; cases b rule: option.exhaust; cases "the a"; cases "the b") simp_all

lemma row_tuple_inj:
  assumes "row_tuple r = row_tuple r'"
  shows "r = r'"
proof -
  note eqs = assms [unfolded row_tuple_def prod.inject]
  have "oj_state r = oj_state r'"
    by (rule state_inj) (insert eqs, (elim conjE, assumption)+)
  moreover have "oj_urgency r = oj_urgency r'"
    by (rule urgency_inj) (insert eqs, (elim conjE, assumption)+)
  moreover have "oj_v r = oj_v r'" "oj_at_ms r = oj_at_ms r'" "oj_due_ms r = oj_due_ms r'"
    by (rule unsigned_word_eqI, insert eqs, elim conjE, assumption)+
  moreover have "oj_generation r = oj_generation r'" "oj_attempt r = oj_attempt r'"
    by (rule map_unat_inj, insert eqs, elim conjE, assumption)+
  ultimately show ?thesis using eqs by (cases r; cases r') (elim conjE, simp)
qed

definition unary_row :: "occurrence_record \<Rightarrow> string" where
  "unary_row r = replicate (Suc (to_nat (row_tuple r))) (CHR ''1'')"

text \<open>One row has a short line; the file of the demonstration stays below every bound.\<close>

definition unary_env :: "occurrence_record \<Rightarrow> journal_env" where
  "unary_env row = \<lparr> je_value = (\<lambda>_. None),
     je_typed = (\<lambda>l. if l = ''2'' then Some row
       else if \<exists>r. unary_row r = l then Some (THE r. unary_row r = l) else None),
     je_encode = (\<lambda>r. if r = row then Some ''2'' else Some (unary_row r)) \<rparr>"

lemma trim_ones: "trim (replicate n (CHR ''1'')) = replicate n (CHR ''1'')"
proof -
  have starts: "\<not> starts_with (replicate n c) w" if "w \<noteq> []" "hd w \<noteq> c" for n c w
    using that by (cases n; cases w) (auto simp: starts_with_iff)
  have one: "strip_one ws (replicate n (CHR ''1'')) = None"
    if "list_all (\<lambda>w. w \<noteq> [] \<and> hd w \<noteq> CHR ''1'') ws" for ws
    using that by (induction ws) (simp_all add: starts)
  have all: "strip_all ws (replicate n (CHR ''1'')) = replicate n (CHR ''1'')"
    if "list_all (\<lambda>w. w \<noteq> [] \<and> hd w \<noteq> CHR ''1'') ws" for ws
    using one [OF that] by (subst strip_all.simps) simp
  show ?thesis by (simp add: trim_def all ws_seqs_def)
qed

lemma unary_encodes: "jencodes (unary_env row) r (if r = row then ''2'' else unary_row r)"
proof -
  have "(THE r'. unary_row r' = unary_row r) = r"
    by (rule the_equality) (auto simp: unary_row_def intro: row_tuple_inj)
  moreover have "trim ''2'' = ''2''" by code_simp
  moreover have "unary_row r \<noteq> ''2''" by (simp add: unary_row_def)
  moreover have "trim (unary_row r) = unary_row r" by (simp only: unary_row_def trim_ones)
  moreover have "newline \<notin> set (unary_row r)" "unary_row r \<noteq> []" by (simp_all add: unary_row_def newline_def)
  ultimately show ?thesis by (auto simp: jencodes_def unary_env_def newline_def)
qed

lemma unary_codec_row: "row_codec (unary_env row)"
  using unary_encodes by (auto simp: row_codec_def)

section \<open>A daemon with one session to start\<close>

definition one_ledger :: "agenda_item btree" where
  "one_ledger = fold_records demo_dig []
     [demo_at 5 (OpAdd ''w'' Task ''t'' [] [] None None),
      demo_at 6 (OpProposeEffect ''w'' ''e'' (demo_manifest\<lparr>mf_recurrence := None\<rparr>)),
      demo_at 7 (OpApproveEffect ''w'' ''e'' ''wetidy'')]"

definition one_w :: agenda_item where "one_w = snd (one_ledger ! 0)"
definition one_e :: agenda_effect where "one_e = hd (it_effects one_w)"

lemmas one_simps = demo_simps one_ledger_def demo_at_def one_w_def one_e_def

lemma one_ledger: "one_ledger = [(''w'', one_w)]"
  by (simp add: one_simps)

lemma one_w: "it_id one_w = ''w''" "it_status one_w = Open" "it_due_ms one_w = None" "it_effects one_w = [one_e]"
  by (simp_all add: one_simps)

lemma one_e:
  "ef_effect_id one_e = ''e''" "ef_manifest one_e = demo_manifest\<lparr>mf_recurrence := None\<rparr>"
  "ef_requested one_e = []" "ef_last_run one_e = None" "\<not> suspended one_e"
  "\<exists>ap. ef_approval one_e = Some ap \<and> ap_digest ap = ''wetidy''"
  by (simp_all add: one_simps default_suspend_after_failures_def)

definition one_journal :: occurrence_journal where
  "one_journal = \<lparr> jn_disk = [], jn_io = [], jn_state = [], jn_folded_len = 0, jn_max_generation = 0, jn_stamp = None \<rparr>"

definition one_daemon :: scheduler where
  "one_daemon = \<lparr> sd_awaiting = [], sd_running = [], sd_early_outcomes = [], sd_session_aliases = [],
     sd_lineage_pending = [], sd_readopt_watch = [], sd_last_start_ms = None, sd_journal = one_journal,
     sd_store = demo_store\<lparr>st_disk := [], st_io := [], st_folded_len := 0, st_items := one_ledger\<rparr>,
     sd_policy = default_policy, sd_clock = [100000, 100000, 140000], sd_lineages = [], sd_bus = [] \<rparr>"

lemma one_first: "first_daemon w one_daemon"
proof -
  have "lines [] = []" by code_simp
  then show ?thesis
    by (simp add: first_daemon_def one_daemon_def one_journal_def locked_def jview_def fold_journal_def file_len_def)
qed

definition one_pe :: plan_env where
  "one_pe = \<lparr> pe_sha = id, pe_items = [one_w], pe_journal = one_journal, pe_policy = default_policy,
     pe_now = 100000, pe_quiet_until = None, pe_flight = [], pe_flight_effects = [] \<rparr>"

lemma one_plan: "\<exists>sp. plan one_pe = empty_plan\<lparr>pn_spawn := [sp]\<rparr> \<and> sw_matched_item_ids sp = [] \<and> sw_binding_refs sp = []"
proof -
  obtain ap where ap: "ef_approval one_e = Some ap" "ap_digest ap = ''wetidy''" using one_e(6) by blast
  have "\<not> effect_overlap one_pe one_w one_e"
    by (simp add: effect_overlap_def one_pe_def in_flight_def one_e started_unresolved_for_item_def one_journal_def)
  moreover have "effect_candidates one_pe one_w one_e ap = ([attempt_zero 10 10 False], None)"
    by (simp add: effect_candidates_def one_e demo_manifest_def)
  ultimately show ?thesis
    by (simp add: plan_def plan_item_def plan_effect_def plan_reminder_def one_pe_def one_w one_e ap attempt_zero_def
      plan_candidate_step_def resolve_candidate_def journal_progress_def progress_in_def one_journal_def no_progress_def
      Let_def spawn_of_def empty_plan_def demo_manifest_def staleness_ms_def default_policy_def sat_sub_def)
qed

definition one_spawn :: spawn_occurrence where
  "one_spawn = hd (pn_spawn (plan one_pe))"

lemma one_spawn:
  "plan one_pe = empty_plan\<lparr>pn_spawn := [one_spawn]\<rparr>" "sw_matched_item_ids one_spawn = []" "sw_binding_refs one_spawn = []"
  using one_plan by (auto simp: one_spawn_def)

definition one_row :: occurrence_record where
  "one_row = session_row one_spawn 100000 Prepared None"

definition one_env :: scheduler_env where
  "one_env = \<lparr> sv_store = demo_env, sv_journal = unary_env one_row, sv_seal_line = (\<lambda>_. Inr []), sv_candidate = 0,
     sv_format_instant = (\<lambda>_. []), sv_minute_of_day = (\<lambda>_. 0), sv_capacity_deferred = False \<rparr>"

lemma one_append:
  "\<exists>j. journal_append (unary_env one_row) one_row one_journal = (Inr (), j) \<and> jn_disk j = [CHR ''2'', newline]"
proof -
  have "stamped (jn_stamp one_journal) one_row = one_row" by (simp add: stamped_def one_journal_def)
  then have e: "jencodes (unary_env one_row) (stamped (jn_stamp one_journal) one_row) ''2''"
    using unary_encodes [of one_row one_row] by simp
  have v: "lags (unary_env one_row) [] (jn_disk one_journal) (jview one_journal)"
    using one_first [of "unary_env one_row"]
    by (simp add: first_daemon_def one_daemon_def lags_def) (intro exI [of _ "jn_disk one_journal"] exI [of _ "[]"], simp)
  have q: "lock_held True one_journal" "jn_disk one_journal = []" "arrived one_journal = []"
    by (simp_all add: one_journal_def lock_held_def locked_def arrived_def)
  obtain r j where a: "journal_append (unary_env one_row) one_row one_journal = (r, j)"
    by (cases "journal_append (unary_env one_row) one_row one_journal")
  have "terminated [] = []" by (simp add: terminated_def ended_def)
  with journal_append_cases [OF e v q(1) refl] a q show ?thesis
    by (cases r) (auto simp: core_eq)
qed

definition one_task_sent :: start_task where
  "one_task_sent = start_task_of one_spawn ''/p'' []"

lemma one_fire:
  "\<exists>w s. run_pass one_env None one_daemon = (w, s) \<and> sd_bus s = [StartTask one_task_sent]
    \<and> sd_awaiting s = [(sw_occurrence_id one_spawn, \<lparr> pd_spawn = one_spawn, pd_project_root = ''/p'',
         pd_binding_ref_lines = [], pd_first_attempt_ms = 100000, pd_last_attempt_ms = 100000 \<rparr>)]
    \<and> sd_clock s = [140000] \<and> sd_lineage_pending s = [] \<and> sd_readopt_watch s = []
    \<and> jn_disk (sd_journal s) = [CHR ''2'', newline]"
proof -
  obtain j where j: "journal_append (unary_env one_row) one_row one_journal = (Inr (), j)"
      "jn_disk j = [CHR ''2'', newline]" using one_append by blast
  have fresh: "refresh_pass one_env one_daemon = one_daemon"
    by (simp add: refresh_pass_def refresh_journal_def one_daemon_def one_journal_def jn_step_def jn_next_def jn_then_def
        file_len_def)
  have snap: "snapshot one_env one_daemon = ([one_w], one_daemon)"
    by (simp add: snapshot_def one_daemon_def refresh_if_stale_def next_io_def file_len_def one_ledger Let_def)
  let ?s = "one_daemon\<lparr>sd_clock := [100000, 140000]\<rparr>"
  have now: "now_ms one_daemon = (100000, ?s)" by (simp add: now_ms_def one_daemon_def)
  have quiet: "quiet_until one_env 100000 ?s = (None, ?s)"
    by (simp add: quiet_until_def one_daemon_def default_policy_def)
  have pe: "pass_env one_env [one_w] 100000 None ?s = one_pe"
    by (simp add: pass_env_def one_env_def demo_env_def demo_intake_def one_pe_def one_daemon_def
        in_flight_occurrences_def in_flight_effects_def)
  have "sd_journal ?s = one_journal" by (simp add: one_daemon_def)
  then have row: "session_record one_env one_spawn 100000 Prepared None ?s = (True, ?s\<lparr>sd_journal := j\<rparr>)"
    using j(1) by (simp add: session_record_def append_row_def one_env_def one_row_def)
  let ?p = "\<lparr> pd_spawn = one_spawn, pd_project_root = ''/p'', pd_binding_ref_lines = [],
      pd_first_attempt_ms = 100000, pd_last_attempt_ms = 100000 \<rparr>"
  let ?s1 = "?s\<lparr>sd_journal := j, sd_bus := [StartTask one_task_sent], sd_clock := [140000],
      sd_awaiting := [(sw_occurrence_id one_spawn, ?p)]\<rparr>"
  have env: "ie_resolve_project (se_intake (sv_store one_env)) a b = Inr ''/p''" for a b
    by (simp add: one_env_def demo_env_def demo_intake_def)
  have sent: "dispatch_session one_env one_spawn 100000 ?s = (True, ?s1)"
    by (simp add: dispatch_session_def env one_spawn row Let_def now_ms_def send_def one_task_sent_def)
       (simp add: one_daemon_def)
  have "starts_in_window ?s 100000 = 0" by (simp add: starts_in_window_def one_daemon_def)
  from govern_go [OF this sent, of "[]"]
  have gov: "dispatch_governed one_env [one_spawn] 100000 ?s = (None, ?s1\<lparr>sd_last_start_ms := Some 100000\<rparr>)"
    by (simp add: dispatch_governed_def one_env_def)
  show ?thesis
    by (simp add: run_pass_def fresh fire_pass_def snap now quiet pe act_on_def one_spawn(1) empty_plan_def Let_def gov)
       (simp add: one_daemon_def j)
qed

text \<open>A turn sends the task, and the sweep at its end, 40 s later, sends it again.\<close>

lemma one_turn:
  obtains s where "(scheduler_step (unary_env one_row))\<^sup>*\<^sup>* one_daemon s"
    and "sd_bus s = [StartTask one_task_sent, StartTask one_task_sent]"
    and "length (jn_disk (sd_journal s)) < 2 ^ 64" and "length (sd_awaiting s) = 1"
proof -
  let ?p = "\<lparr> pd_spawn = one_spawn, pd_project_root = ''/p'', pd_binding_ref_lines = [],
      pd_first_attempt_ms = 100000, pd_last_attempt_ms = 100000 \<rparr>"
  obtain w s1 where s1: "run_pass one_env None one_daemon = (w, s1)" "sd_bus s1 = [StartTask one_task_sent]"
      "sd_awaiting s1 = [(sw_occurrence_id one_spawn, ?p)]" "sd_clock s1 = [140000]" "sd_lineage_pending s1 = []"
      "sd_readopt_watch s1 = []" "jn_disk (sd_journal s1) = [CHR ''2'', newline]"
    using one_fire by blast
  have due: "retry_due 140000 ?p" "\<not> expired 140000 ?p"
    by (simp_all add: retry_due_def expired_def sat_sub_def dispatch_retry_after_ms_def dispatch_abandon_after_ms_def)
  let ?s2 = "s1\<lparr>sd_bus := [StartTask one_task_sent, StartTask one_task_sent],
      sd_awaiting := [(sw_occurrence_id one_spawn, ?p\<lparr>pd_last_attempt_ms := 140000\<rparr>)]\<rparr>"
  have "now_ms s1 = (140000, s1)" by (simp add: now_ms_def s1)
  moreover have "snd (sweep_pending_dispatches one_env 140000 s1) = ?s2"
    using due by (simp add: sweep_pending_dispatches_def s1 Let_def pending_task_def one_task_sent_def)
  ultimately have "snd (loop_turn one_env None one_daemon) = ?s2"
    by (auto simp: loop_turn_def s1(1) sweep_lineage_pending_def sweep_readopt_watch_def s1(5,6) split: prod.split)
  moreover have "scheduler_step (unary_env one_row) one_daemon (snd (loop_turn one_env None one_daemon))"
    by (rule step_turn) (simp add: one_env_def)
  ultimately have "scheduler_step (unary_env one_row) one_daemon ?s2" by simp
  then have "(scheduler_step (unary_env one_row))\<^sup>*\<^sup>* one_daemon ?s2" by (rule r_into_rtranclp)
  then show thesis by (rule that) (simp_all add: s1(7))
qed

section \<open>The theorems at work\<close>

theorem intent_precedes_effect_witness:
  "\<exists>s. (scheduler_step (unary_env one_row))\<^sup>*\<^sup>* one_daemon s \<and> StartTask one_task_sent \<in> set (sd_bus s)
     \<and> announced (unary_env one_row) (sd_journal s) (StartTask one_task_sent)"
proof -
  obtain s where s: "(scheduler_step (unary_env one_row))\<^sup>*\<^sup>* one_daemon s"
    "sd_bus s = [StartTask one_task_sent, StartTask one_task_sent]" "length (jn_disk (sd_journal s)) < 2 ^ 64"
    by (rule one_turn)
  have "StartTask one_task_sent \<in> set (sd_bus s)" by (simp add: s(2))
  from intent_precedes_effect [OF unary_codec_row one_first s(1,3) this] this s(1) show ?thesis by blast
qed


theorem memory_well_formed_witness:
  "\<exists>s. (scheduler_step (unary_env one_row))\<^sup>*\<^sup>* one_daemon s \<and> length (sd_awaiting s) = 1
     \<and> distinct (map fst (sd_awaiting s)) \<and> length (sd_early_outcomes s) \<le> 64"
proof -
  obtain s where s: "(scheduler_step (unary_env one_row))\<^sup>*\<^sup>* one_daemon s" "length (sd_awaiting s) = 1"
    by (rule one_turn)
  from memory_well_formed [OF unary_codec_row one_first s(1)] s show ?thesis by blast
qed

text \<open>A daemon that waits for the receipt of one dispatch.\<close>

definition wait_pending :: pending_dispatch where
  "wait_pending = \<lparr> pd_spawn = one_spawn, pd_project_root = ''/p'', pd_binding_ref_lines = [],
     pd_first_attempt_ms = 100000, pd_last_attempt_ms = 100000 \<rparr>"

definition waiting :: scheduler where
  "waiting = one_daemon\<lparr>sd_awaiting := [(''o'', wait_pending)]\<rparr>"

lemma waiting:
  "map_of (sd_awaiting waiting) ''o'' = Some wait_pending" "running_key waiting i = None"
  "fst (take_early_outcome_aliased i waiting) = None" "length (sd_early_outcomes waiting) < 64"
  by (simp_all add: waiting_def one_daemon_def running_key_def alias_counterpart_def take_early_outcome_aliased_def
      take_early_outcome_def)

theorem sweep_exact_witness:
  "sd_awaiting (snd (sweep_pending_dispatches one_env 700000 waiting)) = []
   \<and> tasks (snd (sweep_pending_dispatches one_env 140000 waiting)) = [pending_task wait_pending]"
proof -
  have d: "distinct (map fst (sd_awaiting waiting))" and b: "tasks waiting = []"
    by (simp_all add: waiting_def one_daemon_def tasks_def)
  have t: "600000 \<le> sat_sub 700000 (pd_first_attempt_ms wait_pending)"
    "\<not> 600000 \<le> sat_sub 140000 (pd_first_attempt_ms wait_pending)"
    "30000 \<le> sat_sub 140000 (pd_last_attempt_ms wait_pending)"
    by (simp_all add: wait_pending_def sat_sub_def)
  from sweep_exact [OF d surjective_pairing, of one_env 700000] sweep_exact [OF d surjective_pairing, of one_env 140000] b t
  show ?thesis by (simp add: waiting_def)
qed

theorem receipt_commutes_witness:
  "observe_event one_env (TaskReceived (delegation_prefix @ ''o'') ''s'')
      (observe_event one_env (SessionEnded ''s'' ''gone'') waiting)
    = observe_event one_env (SessionEnded ''s'' ''gone'')
      (observe_event one_env (TaskReceived (delegation_prefix @ ''o'') ''s'') waiting)"
  by (rule receipt_commutes [OF waiting(1) waiting(2) waiting(3) waiting(4)]) simp

theorem early_failure_is_an_end_witness:
  "observe_event one_env (TaskComplete (Some ''s'') ''gone'' None OutcomeFailed)
      (observe_event one_env (TaskReceived (delegation_prefix @ ''o'') ''s'') waiting)
    = fail_running one_env ''s'' ''gone'' (observe_event one_env (TaskReceived (delegation_prefix @ ''o'') ''s'') waiting)"
  by (rule early_failure_is_an_end [OF waiting(1) waiting(2) waiting(3) waiting(4), THEN conjunct2])

end
